(* ===== verification/Prelude.thy ===== *)
theory Prelude
  imports Main
begin

text \<open>
  Shared vocabulary of the development: the types that stand for the Go types of the
  source, the functions of Go's \<^verbatim>\<open>strings\<close> and \<^verbatim>\<open>time\<close> packages the source calls,
  generic lemmas on lists, sums and options, and the \<^theory_text>\<open>named_theorems\<close> collections
  the component theories fill.

  A Go \<^verbatim>\<open>string\<close> is a byte string: \<^typ>\<open>string\<close> (a list of 8-bit \<^typ>\<open>char\<close>).  A
  \<^verbatim>\<open>time.Time\<close> is an instant counted in nanoseconds since the Unix epoch and a
  \<^verbatim>\<open>time.Duration\<close> a number of nanoseconds.
\<close>

named_theorems db_simps \<open>inversion equations of the database monad\<close>
named_theorems db_defs \<open>definitions of SQL statements\<close>
named_theorems atomic_intros \<open>operations that leave the tables unchanged when they fail\<close>

section \<open>Time\<close>

type_synonym time = int
type_synonym duration = int

definition second :: duration where
  "second = 1000000000"

definition minute :: duration where
  "minute = 60 * second"

definition hour :: duration where
  "hour = 60 * minute"

lemmas duration_defs = second_def minute_def hour_def

text \<open>\<^verbatim>\<open>Time.Unix\<close>: whole seconds, rounded towards minus infinity.\<close>

definition Unix :: "time \<Rightarrow> int" where
  "Unix t = t div second"

text \<open>\<^verbatim>\<open>time.Unix(sec, 0)\<close>.\<close>

definition fromUnix :: "int \<Rightarrow> time" where
  "fromUnix s = s * second"

text \<open>The zero \<^verbatim>\<open>time.Time\<close> is midnight of 1 January of the year 1, UTC.\<close>

definition zero_time :: time where
  "zero_time = fromUnix (- 62135596800)"

definition IsZero :: "time \<Rightarrow> bool" where
  "IsZero t \<longleftrightarrow> t = zero_time"

text \<open>\<^verbatim>\<open>Time.Sub\<close> saturates at the bounds of a 64-bit \<^verbatim>\<open>Duration\<close>.\<close>

definition max_int64 :: int where
  "max_int64 = 9223372036854775807"

definition min_int64 :: int where
  "min_int64 = - 9223372036854775808"

lemmas int64_defs = max_int64_def min_int64_def

definition time_sub :: "time \<Rightarrow> time \<Rightarrow> duration" where
  "time_sub t u = max min_int64 (min max_int64 (t - u))"

lemma time_sub_le_iff: "d < max_int64 \<Longrightarrow> min_int64 \<le> d \<Longrightarrow> time_sub t u \<le> d \<longleftrightarrow> t - u \<le> d"
  by (auto simp: time_sub_def int64_defs)

lemma time_sub_ge_iff: "d \<le> max_int64 \<Longrightarrow> min_int64 < d \<Longrightarrow> d \<le> time_sub t u \<longleftrightarrow> d \<le> t - u"
  by (auto simp: time_sub_def int64_defs)

section \<open>Strings\<close>

text \<open>\<^verbatim>\<open>strings.Split\<close> with a one-byte separator: always at least one part.\<close>

fun Split :: "char \<Rightarrow> string \<Rightarrow> string list" where
  "Split c [] = [[]]"
| "Split c (x # xs) =
     (if x = c then [] # Split c xs
      else (case Split c xs of [] \<Rightarrow> [[x]] | p # ps \<Rightarrow> (x # p) # ps))"

lemma Split_not_Nil [simp]: "Split c s \<noteq> []"
  by (induction s) (auto split: list.splits)

lemma Split_no_sep [simp]: "c \<notin> set s \<Longrightarrow> Split c s = [s]"
  by (induction s) auto

lemma Split_append_sep: "c \<notin> set s \<Longrightarrow> Split c (s @ c # t) = s # Split c t"
  by (induction s) auto

text \<open>The inverse direction: the parts contain no separator and rejoin to the input.\<close>

fun join_with :: "char \<Rightarrow> string list \<Rightarrow> string" where
  "join_with c [] = []"
| "join_with c [p] = p"
| "join_with c (p # ps) = p @ c # join_with c ps"

lemma Split_no_sep_in_parts: "p \<in> set (Split c s) \<Longrightarrow> c \<notin> set p"
  by (induction s arbitrary: p) (auto split: list.splits if_splits)

lemma join_with_Cons: "ps \<noteq> [] \<Longrightarrow> join_with c (p # ps) = p @ c # join_with c ps"
  by (cases ps) auto

lemma join_with_Cons_Cons: "join_with c ((x # p) # ps) = x # join_with c (p # ps)"
  by (cases ps) auto

lemma join_Split: "join_with c (Split c s) = s"
proof (induction s)
  case (Cons x xs)
  then show ?case
    by (cases "Split c xs") (auto simp: join_with_Cons join_with_Cons_Cons)
qed simp

definition HasPrefix :: "string \<Rightarrow> string \<Rightarrow> bool" where
  "HasPrefix s p \<longleftrightarrow> take (length p) s = p"

definition HasSuffix :: "string \<Rightarrow> string \<Rightarrow> bool" where
  "HasSuffix s p \<longleftrightarrow> length p \<le> length s \<and> drop (length s - length p) s = p"

definition TrimPrefix :: "string \<Rightarrow> string \<Rightarrow> string" where
  "TrimPrefix s p = (if HasPrefix s p then drop (length p) s else s)"

lemma HasPrefix_append [simp]: "HasPrefix (p @ s) p"
  by (simp add: HasPrefix_def)

lemma HasPrefix_iff: "HasPrefix s p \<longleftrightarrow> (\<exists>r. s = p @ r)"
  by (metis HasPrefix_append HasPrefix_def append_take_drop_id)

lemma TrimPrefix_append [simp]: "TrimPrefix (p @ s) p = s"
  by (simp add: TrimPrefix_def)

text \<open>
  \<^verbatim>\<open>strings.TrimSpace\<close> removes leading and trailing Unicode white space; the byte
  sequences below are the UTF-8 encodings of the runes of \<^verbatim>\<open>unicode.IsSpace\<close>.
\<close>

definition space_runes :: "string list" where
  "space_runes =
     [[CHR 0x09], [CHR 0x0A], [CHR 0x0B], [CHR 0x0C], [CHR 0x0D], [CHR 0x20],
      [CHR 0xC2, CHR 0x85], [CHR 0xC2, CHR 0xA0], [CHR 0xE1, CHR 0x9A, CHR 0x80],
      [CHR 0xE2, CHR 0x80, CHR 0x80], [CHR 0xE2, CHR 0x80, CHR 0x81],
      [CHR 0xE2, CHR 0x80, CHR 0x82], [CHR 0xE2, CHR 0x80, CHR 0x83],
      [CHR 0xE2, CHR 0x80, CHR 0x84], [CHR 0xE2, CHR 0x80, CHR 0x85],
      [CHR 0xE2, CHR 0x80, CHR 0x86], [CHR 0xE2, CHR 0x80, CHR 0x87],
      [CHR 0xE2, CHR 0x80, CHR 0x88], [CHR 0xE2, CHR 0x80, CHR 0x89],
      [CHR 0xE2, CHR 0x80, CHR 0x8A], [CHR 0xE2, CHR 0x80, CHR 0xA8],
      [CHR 0xE2, CHR 0x80, CHR 0xA9], [CHR 0xE2, CHR 0x80, CHR 0xAF],
      [CHR 0xE2, CHR 0x81, CHR 0x9F], [CHR 0xE3, CHR 0x80, CHR 0x80]]"

definition space_at :: "string list \<Rightarrow> string \<Rightarrow> nat" where
  "space_at rs s = (case find (\<lambda>r. HasPrefix s r) rs of None \<Rightarrow> 0 | Some r \<Rightarrow> length r)"

function trim_with :: "string list \<Rightarrow> string \<Rightarrow> string" where
  "trim_with rs s =
     (if space_at rs s = 0 then s else trim_with rs (drop (space_at rs s) s))"
  by pat_completeness auto
termination
proof (relation "measure (\<lambda>(rs, s). length s)")
  fix rs s
  assume pos: "space_at rs s \<noteq> 0"
  have "s \<noteq> []"
  proof
    assume "s = []"
    with pos show False
      by (auto simp: space_at_def HasPrefix_def find_Some_iff split: option.splits)
  qed
  with pos show "((rs, drop (space_at rs s) s), rs, s) \<in> measure (\<lambda>(rs, s). length s)"
    by simp
qed simp

declare trim_with.simps [simp del]

definition TrimSpace :: "string \<Rightarrow> string" where
  "TrimSpace s = rev (trim_with (map rev space_runes) (rev (trim_with space_runes s)))"

text \<open>ASCII case folding: SQL \<^verbatim>\<open>lower()\<close>, and \<^verbatim>\<open>strings.ToLower\<close> on ASCII text.\<close>

definition lower_char :: "char \<Rightarrow> char" where
  "lower_char c = (let n = of_char c :: nat in if 65 \<le> n \<and> n \<le> 90 then char_of (n + 32) else c)"

definition lower :: "string \<Rightarrow> string" where
  "lower s = map lower_char s"

lemma lower_char_idem [simp]: "lower_char (lower_char c) = lower_char c"
  by (simp add: lower_char_def Let_def)

lemma lower_idem [simp]: "lower (lower s) = lower s"
  by (simp add: lower_def)

definition char_in_range :: "char \<Rightarrow> char \<Rightarrow> char \<Rightarrow> bool" where
  "char_in_range lo hi c \<longleftrightarrow> (of_char lo :: nat) \<le> of_char c \<and> (of_char c :: nat) \<le> of_char hi"

definition is_lower_alpha :: "char \<Rightarrow> bool" where
  "is_lower_alpha c \<longleftrightarrow> char_in_range (CHR ''a'') (CHR ''z'') c"

definition is_upper_alpha :: "char \<Rightarrow> bool" where
  "is_upper_alpha c \<longleftrightarrow> char_in_range (CHR ''A'') (CHR ''Z'') c"

definition is_digit :: "char \<Rightarrow> bool" where
  "is_digit c \<longleftrightarrow> char_in_range (CHR ''0'') (CHR ''9'') c"

definition is_alnum :: "char \<Rightarrow> bool" where
  "is_alnum c \<longleftrightarrow> is_lower_alpha c \<or> is_upper_alpha c \<or> is_digit c"

lemmas char_class_defs =
  char_in_range_def is_lower_alpha_def is_upper_alpha_def is_digit_def is_alnum_def

section \<open>Lists\<close>

text \<open>Updating every element that satisfies a condition: the shape of an SQL UPDATE.\<close>

definition update_where :: "('a \<Rightarrow> bool) \<Rightarrow> ('a \<Rightarrow> 'a) \<Rightarrow> 'a list \<Rightarrow> 'a list" where
  "update_where P f xs = map (\<lambda>x. if P x then f x else x) xs"

definition count_where :: "('a \<Rightarrow> bool) \<Rightarrow> 'a list \<Rightarrow> nat" where
  "count_where P xs = length (filter P xs)"

lemma length_update_where [simp]: "length (update_where P f xs) = length xs"
  by (simp add: update_where_def)

lemma update_where_Nil [simp]: "update_where P f [] = []"
  by (simp add: update_where_def)

lemma update_where_append [simp]:
  "update_where P f (xs @ ys) = update_where P f xs @ update_where P f ys"
  by (simp add: update_where_def)

lemma set_update_where:
  "set (update_where P f xs) = (\<lambda>x. if P x then f x else x) ` set xs"
  by (simp add: update_where_def)

lemma update_where_mem: "x \<in> set xs \<Longrightarrow> P x \<Longrightarrow> f x \<in> set (update_where P f xs)"
  by (auto simp: set_update_where image_iff)

lemma map_update_where:
  "(\<And>x. P x \<Longrightarrow> g (f x) = g x) \<Longrightarrow> map g (update_where P f xs) = map g xs"
  by (simp add: update_where_def)

lemma filter_update_where_other:
  "(\<And>x. P x \<Longrightarrow> \<not> Q x \<and> \<not> Q (f x)) \<Longrightarrow> filter Q (update_where P f xs) = filter Q xs"
  unfolding update_where_def by (induction xs) auto

lemma update_where_none: "\<forall>x \<in> set xs. \<not> P x \<Longrightarrow> update_where P f xs = xs"
  by (simp add: update_where_def map_idI)

lemma count_where_0_iff: "count_where P xs = 0 \<longleftrightarrow> (\<forall>x \<in> set xs. \<not> P x)"
  by (simp add: count_where_def filter_empty_conv)

lemma count_where_Suc_ex: "count_where P xs = Suc n \<Longrightarrow> \<exists>x \<in> set xs. P x"
  by (metis Suc_neq_Zero count_where_0_iff)

lemma distinct_map_eq: "distinct (map f xs) \<Longrightarrow> x \<in> set xs \<Longrightarrow> y \<in> set xs \<Longrightarrow> f x = f y \<Longrightarrow> x = y"
  by (auto simp: distinct_map inj_on_def)

text \<open>A key with no duplicates selects at most one row.\<close>

lemma filter_key_le1:
  assumes "distinct (map k xs)"
  shows "length (filter (\<lambda>x. k x = v \<and> P x) xs) \<le> 1"
  using assms
proof (induction xs)
  case (Cons x xs)
  show ?case
  proof (cases "k x = v")
    case True
    with Cons.prems have "filter (\<lambda>x. k x = v \<and> P x) xs = []"
      by (auto simp: filter_empty_conv) (metis imageI)
    then show ?thesis by simp
  next
    case False
    with Cons show ?thesis by simp
  qed
qed simp

lemma count_key_le1:
  "distinct (map k xs) \<Longrightarrow> count_where (\<lambda>x. k x = v \<and> P x) xs \<le> 1"
  using filter_key_le1 [of k xs v P] by (simp add: count_where_def)

lemma count_key_eq1_iff:
  "distinct (map k xs) \<Longrightarrow>
   count_where (\<lambda>x. k x = v \<and> P x) xs = 1 \<longleftrightarrow> (\<exists>x \<in> set xs. k x = v \<and> P x)"
  using count_key_le1 [of k xs v P] count_where_0_iff [of "\<lambda>x. k x = v \<and> P x" xs]
  by (metis One_nat_def le_Suc_eq le_zero_eq zero_neq_one)

lemma filter_key_single:
  assumes "distinct (map k xs)" "x \<in> set xs" "k x = v"
  shows "filter (\<lambda>y. k y = v) xs = [x]"
proof -
  have "length (filter (\<lambda>y. k y = v \<and> True) xs) \<le> 1" using assms(1) by (rule filter_key_le1)
  moreover have "x \<in> set (filter (\<lambda>y. k y = v) xs)" using assms(2,3) by simp
  ultimately show ?thesis by (cases "filter (\<lambda>y. k y = v) xs") (auto simp: Suc_le_eq)
qed

lemma filter_eq_Cons_mem: "filter P xs = y # ys \<Longrightarrow> y \<in> set xs \<and> P y"
  by (metis list.set_intros(1) mem_Collect_eq set_filter)

lemma map_filter_Cons_mem: "map f (filter P xs) = y # ys \<Longrightarrow> \<exists>x \<in> set xs. P x \<and> y = f x"
  by (metis Cons_eq_map_D filter_eq_Cons_mem)

lemma length_filter_impl: "(\<And>x. P x \<Longrightarrow> Q x) \<Longrightarrow> length (filter P xs) \<le> length (filter Q xs)"
  by (induction xs) auto

end
