(* ===== verification/Encoding.thy ===== *)
theory Encoding
  imports Prelude
begin

text \<open>
  The encodings of Go's standard library that the source calls: \<^verbatim>\<open>encoding/hex\<close>,
  \<^verbatim>\<open>encoding/base64\<close> without padding (the standard and the URL alphabet) and the decimal
  conversions of \<^verbatim>\<open>strconv\<close> and \<^verbatim>\<open>fmt\<close>.  Every pair has its round trip, and the
  character classes of the output that the token formats rely on.
\<close>

section \<open>Alphabets\<close>

fun index_of :: "char \<Rightarrow> string \<Rightarrow> nat option" where
  "index_of c [] = None"
| "index_of c (x # xs) = (if c = x then Some 0 else map_option Suc (index_of c xs))"

lemma index_of_nth: "distinct xs \<Longrightarrow> n < length xs \<Longrightarrow> index_of (xs ! n) xs = Some n"
proof (induction xs arbitrary: n)
  case (Cons x xs)
  then show ?case by (cases n) auto
qed simp

lemma index_of_less: "index_of c xs = Some n \<Longrightarrow> n < length xs"
  by (induction xs arbitrary: n) (auto split: if_splits)

section \<open>Hexadecimal\<close>

definition hex_digits :: string where
  "hex_digits = ''0123456789abcdef''"

definition hex_byte :: "char \<Rightarrow> string" where
  "hex_byte c = [hex_digits ! (of_char c div 16), hex_digits ! (of_char c mod 16)]"

definition hex_encode :: "string \<Rightarrow> string" where
  "hex_encode s = concat (map hex_byte s)"

definition hex_value :: "char \<Rightarrow> nat option" where
  "hex_value c = index_of (lower_char c) hex_digits"

fun hex_decode :: "string \<Rightarrow> string option" where
  "hex_decode [] = Some []"
| "hex_decode [c] = None"
| "hex_decode (c # d # r) =
     (case hex_value c of None \<Rightarrow> None | Some m \<Rightarrow>
      (case hex_value d of None \<Rightarrow> None | Some n \<Rightarrow>
       map_option (\<lambda>bs. char_of (16 * m + n) # bs) (hex_decode r)))"

lemma hex_value_digit: "n < 16 \<Longrightarrow> hex_value (hex_digits ! n) = Some n"
proof -
  have "list_all (\<lambda>n. hex_value (hex_digits ! n) = Some n) [0..<16]"
    by code_simp
  then show "n < 16 \<Longrightarrow> ?thesis" by (auto simp: list_all_iff)
qed

lemma of_char_less [simp]: "(of_char c :: nat) < 256"
  using of_char_mod_256 [of c, where ?'a = nat] mod_less_divisor [of 256 "of_char c :: nat"] by simp

lemma of_char_div16 [simp]: "(of_char c :: nat) div 16 < 16"
  using of_char_less [of c] by linarith

lemma hex_decode_encode [simp]: "hex_decode (hex_encode s) = Some s"
  by (induction s) (simp_all add: hex_encode_def hex_byte_def hex_value_digit)

lemma length_hex_encode [simp]: "length (hex_encode s) = 2 * length s"
  by (induction s) (simp_all add: hex_encode_def hex_byte_def)

lemma hex_decode_length: "hex_decode s = Some b \<Longrightarrow> length s = 2 * length b"
  by (induction s arbitrary: b rule: hex_decode.induct) (auto split: option.splits)

lemma lower_hex_digit: "n < 16 \<Longrightarrow> lower_char (hex_digits ! n) = hex_digits ! n"
proof -
  have "list_all (\<lambda>n. lower_char (hex_digits ! n) = hex_digits ! n) [0..<16]"
    by code_simp
  then show "n < 16 \<Longrightarrow> ?thesis" by (auto simp: list_all_iff)
qed

lemma lower_hex_encode [simp]: "lower (hex_encode s) = hex_encode s"
  by (induction s) (simp_all add: hex_encode_def hex_byte_def lower_def lower_hex_digit)

lemma hex_encode_inject: "hex_encode s = hex_encode t \<longleftrightarrow> s = t"
  by (metis hex_decode_encode option.inject)

section \<open>Base64 without padding\<close>

definition std_alphabet :: string where
  "std_alphabet = ''ABCDEFGHIJKLMNOPQRSTUVWXYZabcdefghijklmnopqrstuvwxyz0123456789+/''"

definition url_alphabet :: string where
  "url_alphabet = ''ABCDEFGHIJKLMNOPQRSTUVWXYZabcdefghijklmnopqrstuvwxyz0123456789-_''"

fun b64_groups :: "nat list \<Rightarrow> nat list" where
  "b64_groups [] = []"
| "b64_groups [a] = [a div 4, (a mod 4) * 16]"
| "b64_groups [a, b] = [a div 4, (a mod 4) * 16 + b div 16, (b mod 16) * 4]"
| "b64_groups (a # b # c # r) =
     a div 4 # ((a mod 4) * 16 + b div 16) # ((b mod 16) * 4 + c div 64) # c mod 64 # b64_groups r"

fun b64_ungroups :: "nat list \<Rightarrow> nat list option" where
  "b64_ungroups [] = Some []"
| "b64_ungroups [p] = None"
| "b64_ungroups [p, q] = Some [p * 4 + q div 16]"
| "b64_ungroups [p, q, r] = Some [p * 4 + q div 16, (q mod 16) * 16 + r div 4]"
| "b64_ungroups (p # q # r # s # t) =
     map_option (\<lambda>bs. (p * 4 + q div 16) # ((q mod 16) * 16 + r div 4) # ((r mod 4) * 64 + s) # bs)
       (b64_ungroups t)"

definition b64_encode :: "string \<Rightarrow> string \<Rightarrow> string" where
  "b64_encode al s = map (\<lambda>n. al ! n) (b64_groups (map of_char s))"

text \<open>
  Go's decoder skips carriage returns and line feeds and, without \<^verbatim>\<open>Strict\<close>, does not
  look at the unused low bits of the last group.
\<close>

definition b64_decode :: "string \<Rightarrow> string \<Rightarrow> string option" where
  "b64_decode al s =
     (let t = filter (\<lambda>c. c \<noteq> CHR 0x0A \<and> c \<noteq> CHR 0x0D) s;
          vs = map (\<lambda>c. index_of c al) t
      in if None \<in> set vs then None
         else map_option (map char_of) (b64_ungroups (map the vs)))"

lemma b64_groups_bound: "\<forall>a \<in> set as. a < 256 \<Longrightarrow> n \<in> set (b64_groups as) \<Longrightarrow> n < 64"
  by (induction as rule: b64_groups.induct) auto

lemma b64_ungroups_groups: "\<forall>a \<in> set as. a < 256 \<Longrightarrow> b64_ungroups (b64_groups as) = Some as"
  by (induction as rule: b64_groups.induct) auto

definition b64_alphabet :: "string \<Rightarrow> bool" where
  "b64_alphabet al \<longleftrightarrow> distinct al \<and> length al = 64 \<and> CHR 0x0A \<notin> set al \<and> CHR 0x0D \<notin> set al"

lemma b64_alphabets [simp]: "b64_alphabet std_alphabet" "b64_alphabet url_alphabet"
  by code_simp+

lemma set_b64_encode: "b64_alphabet al \<Longrightarrow> set (b64_encode al s) \<subseteq> set al"
  using b64_groups_bound [of "map of_char s"]
  by (auto simp: b64_encode_def b64_alphabet_def)

lemma b64_decode_encode:
  assumes "b64_alphabet al"
  shows "b64_decode al (b64_encode al s) = Some s"
proof -
  let ?gs = "b64_groups (map of_char s) :: nat list"
  have bound: "n < 64" if "n \<in> set ?gs" for n
    using that b64_groups_bound [of "map of_char s"] by auto
  have flt: "filter (\<lambda>c. c \<noteq> CHR 0x0A \<and> c \<noteq> CHR 0x0D) (b64_encode al s) = b64_encode al s"
    using set_b64_encode [OF assms, of s] assms
    by (auto simp: b64_alphabet_def intro!: filter_True)
  have vs: "map (\<lambda>c. index_of c al) (b64_encode al s) = map Some ?gs"
    using assms bound by (auto simp: b64_encode_def b64_alphabet_def intro!: index_of_nth)
  have "b64_decode al (b64_encode al s) = map_option (map char_of) (b64_ungroups ?gs)"
    unfolding b64_decode_def flt Let_def vs by (auto simp: comp_def)
  then show ?thesis
    using b64_ungroups_groups [of "map of_char s :: nat list"] by (auto simp: comp_def)
qed

abbreviation RawURL_encode :: "string \<Rightarrow> string" where
  "RawURL_encode \<equiv> b64_encode url_alphabet"

abbreviation RawURL_decode :: "string \<Rightarrow> string option" where
  "RawURL_decode \<equiv> b64_decode url_alphabet"

abbreviation RawStd_encode :: "string \<Rightarrow> string" where
  "RawStd_encode \<equiv> b64_encode std_alphabet"

abbreviation RawStd_decode :: "string \<Rightarrow> string option" where
  "RawStd_decode \<equiv> b64_decode std_alphabet"

lemma RawURL_roundtrip [simp]: "RawURL_decode (RawURL_encode s) = Some s"
  and RawStd_roundtrip [simp]: "RawStd_decode (RawStd_encode s) = Some s"
  by (simp_all add: b64_decode_encode)

lemma RawURL_not_in [simp]:
  "CHR ''.'' \<notin> set (RawURL_encode s)" "CHR '':'' \<notin> set (RawURL_encode s)"
proof -
  have "CHR ''.'' \<notin> set url_alphabet" "CHR '':'' \<notin> set url_alphabet"
    by code_simp+
  then show "CHR ''.'' \<notin> set (RawURL_encode s)" "CHR '':'' \<notin> set (RawURL_encode s)"
    using set_b64_encode [of url_alphabet s] by auto
qed

lemma RawStd_no_dollar [simp]: "CHR ''$'' \<notin> set (RawStd_encode s)"
proof -
  have "CHR ''$'' \<notin> set std_alphabet" by code_simp
  then show ?thesis using set_b64_encode [of std_alphabet s] by auto
qed

lemma length_b64_groups: "length (b64_groups as) = (4 * length as + 2) div 3"
  by (induction as rule: b64_groups.induct) auto

lemma length_b64_encode [simp]: "length (b64_encode al s) = (4 * length s + 2) div 3"
  by (simp add: b64_encode_def length_b64_groups)

lemma RawURL_encode_nonempty: "s \<noteq> [] \<Longrightarrow> RawURL_encode s \<noteq> []"
  by (cases s) (auto simp: length_0_conv [symmetric] simp del: length_0_conv)

section \<open>Decimal integers\<close>

definition digit_char :: "nat \<Rightarrow> char" where
  "digit_char n = ''0123456789'' ! n"

fun show_nat :: "nat \<Rightarrow> string" where
  "show_nat n = (if n < 10 then [digit_char n] else show_nat (n div 10) @ [digit_char (n mod 10)])"

declare show_nat.simps [simp del]

definition FormatInt :: "int \<Rightarrow> string" where
  "FormatInt i = (if i < 0 then CHR ''-'' # show_nat (nat (- i)) else show_nat (nat i))"

definition digit_value :: "char \<Rightarrow> nat option" where
  "digit_value c = index_of c ''0123456789''"

fun read_nat :: "nat \<Rightarrow> string \<Rightarrow> nat option" where
  "read_nat acc [] = Some acc"
| "read_nat acc (c # cs) =
     (case digit_value c of None \<Rightarrow> None | Some d \<Rightarrow> read_nat (10 * acc + d) cs)"

text \<open>\<^verbatim>\<open>strconv.ParseInt(s, 10, 64)\<close>, also \<^verbatim>\<open>strconv.Atoi\<close> where an \<^verbatim>\<open>int\<close> has 64 bits.\<close>

definition ParseInt :: "string \<Rightarrow> int option" where
  "ParseInt s =
     (let (neg, ds) = (case s of [] \<Rightarrow> (False, [])
                       | c # cs \<Rightarrow> if c = CHR ''-'' then (True, cs)
                                   else if c = CHR ''+'' then (False, cs) else (False, s))
      in if ds = [] then None
         else case read_nat 0 ds of None \<Rightarrow> None
              | Some n \<Rightarrow> (let i = (if neg then - int n else int n)
                          in if min_int64 \<le> i \<and> i \<le> max_int64 then Some i else None))"

text \<open>\<^verbatim>\<open>fmt\<close>'s verb \<^verbatim>\<open>%04d\<close>: zero padding to a width of four, sign included.\<close>

definition format_04d :: "int \<Rightarrow> string" where
  "format_04d i =
     (if i < 0 then CHR ''-'' # replicate (3 - length (show_nat (nat (- i)))) (CHR ''0'') @ show_nat (nat (- i))
      else replicate (4 - length (show_nat (nat i))) (CHR ''0'') @ show_nat (nat i))"

lemma digit_value_digit: "n < 10 \<Longrightarrow> digit_value (digit_char n) = Some n"
proof -
  have "list_all (\<lambda>n. digit_value (digit_char n) = Some n) [0..<10]" by code_simp
  then show "n < 10 \<Longrightarrow> ?thesis" by (auto simp: list_all_iff)
qed

lemma read_nat_append:
  "read_nat a (s @ t) = (case read_nat a s of None \<Rightarrow> None | Some b \<Rightarrow> read_nat b t)"
  by (induction s arbitrary: a) (auto split: option.splits)

lemma read_show_nat: "read_nat 0 (show_nat n) = Some n"
proof (induction n rule: show_nat.induct)
  case (1 n)
  show ?case
  proof (cases "n < 10")
    case True
    then show ?thesis by (simp add: show_nat.simps [of n] digit_value_digit)
  next
    case False
    with 1 have "read_nat 0 (show_nat (n div 10)) = Some (n div 10)" by simp
    with False show ?thesis
      by (simp add: show_nat.simps [of n] read_nat_append digit_value_digit)
  qed
qed

lemma read_zeros: "read_nat 0 (replicate k (CHR ''0'') @ s) = read_nat 0 s"
proof (induction k)
  case (Suc k)
  have "digit_value (CHR ''0'') = Some 0" by code_simp
  with Suc show ?case by simp
qed simp

lemma show_nat_nonempty [simp]: "show_nat n \<noteq> []"
  by (subst show_nat.simps) simp

lemma show_nat_digits: "c \<in> set (show_nat n) \<Longrightarrow> c \<in> set ''0123456789''"
proof (induction n rule: show_nat.induct)
  case (1 n)
  have dig: "m < 10 \<Longrightarrow> digit_char m \<in> set ''0123456789''" for m
    unfolding digit_char_def by (rule nth_mem) simp
  show ?case
  proof (cases "n < 10")
    case True
    with 1 dig show ?thesis by (simp add: show_nat.simps [of n])
  next
    case False
    with 1 dig [of "n mod 10"] show ?thesis by (auto simp: show_nat.simps [of n])
  qed
qed

lemma show_nat_not_in:
  "c \<notin> set ''0123456789'' \<Longrightarrow> c \<notin> set (show_nat n)"
  using show_nat_digits by blast

lemma show_nat_inject: "show_nat m = show_nat n \<longleftrightarrow> m = n"
  by (metis option.inject read_show_nat)

lemma show_nat_Cons_no_sign: "show_nat n = c # cs \<Longrightarrow> c \<noteq> CHR ''-'' \<and> c \<noteq> CHR ''+''"
  using show_nat_digits [of c n] by auto

lemma ParseInt_FormatInt:
  assumes "min_int64 \<le> i" "i \<le> max_int64"
  shows "ParseInt (FormatInt i) = Some i"
proof (cases "i < 0")
  case True
  with assms show ?thesis
    by (simp add: ParseInt_def FormatInt_def read_show_nat)
next
  case False
  obtain c cs where s: "show_nat (nat i) = c # cs" by (cases "show_nat (nat i)") auto
  with False assms show ?thesis
    using show_nat_Cons_no_sign [OF s] read_show_nat [of "nat i"]
    by (simp add: ParseInt_def FormatInt_def)
qed

lemma FormatInt_not_in:
  "c \<notin> set ''-0123456789'' \<Longrightarrow> c \<notin> set (FormatInt i)"
  using show_nat_digits [of c] by (auto simp: FormatInt_def)

lemma ParseInt_range: "ParseInt s = Some i \<Longrightarrow> min_int64 \<le> i \<and> i \<le> max_int64"
  by (auto simp: ParseInt_def Let_def split: prod.splits option.splits if_splits)

lemma format_04d_inject:
  assumes "0 \<le> i" "0 \<le> j" "format_04d i = format_04d j"
  shows "i = j"
proof -
  have "read_nat 0 (format_04d i) = Some (nat i)" "read_nat 0 (format_04d j) = Some (nat j)"
    using assms(1,2) by (simp_all add: format_04d_def read_zeros read_show_nat)
  with assms show ?thesis by simp
qed

end
