(* ===== verification/Net.thy ===== *)
theory Net
  imports Encoding
begin

text \<open>
  \<^verbatim>\<open>net.ParseIP\<close> of Go's standard library, as far as the source uses it: whether a string
  is an IPv4 or IPv6 address without a zone (\<^verbatim>\<open>netip.ParseAddr\<close>).  Every audit writer
  validates its address with it.
\<close>

definition v4_field :: "string \<Rightarrow> bool" where
  "v4_field f \<longleftrightarrow>
     f \<noteq> [] \<and> list_all is_digit f \<and> (length f = 1 \<or> hd f \<noteq> CHR ''0'') \<and>
     (case read_nat 0 f of None \<Rightarrow> False | Some n \<Rightarrow> n \<le> 255)"

definition parse_v4 :: "string \<Rightarrow> bool" where
  "parse_v4 s \<longleftrightarrow> (let fs = Split (CHR ''.'') s in length fs = 4 \<and> list_all v4_field fs)"

definition is_hex :: "char \<Rightarrow> bool" where
  "is_hex c \<longleftrightarrow> hex_value c \<noteq> None"

text \<open>
  One turn of the field loop.  \<open>n\<close> is the number of bytes filled, \<open>ell\<close> whether the
  double colon was seen; each turn consumes at least one character of \<open>s\<close>.
\<close>

function parse_v6_fields :: "string \<Rightarrow> nat \<Rightarrow> bool \<Rightarrow> bool" where
  "parse_v6_fields s n ell =
     (if n \<ge> 16 then s = [] \<and> \<not> ell
      else
        let h = takeWhile is_hex s; r = dropWhile is_hex s
        in if h = [] \<or> length h > 4 then False
           else if r \<noteq> [] \<and> hd r = CHR ''.'' then
             (ell \<or> n = 12) \<and> n + 4 \<le> 16 \<and> parse_v4 s \<and> (n + 4 < 16 \<longleftrightarrow> ell)
           else if r = [] then (n + 2 < 16 \<longleftrightarrow> ell)
           else if hd r \<noteq> CHR '':'' \<or> length r = 1 then False
           else let t = tl r
                in if hd t = CHR '':'' then
                     \<not> ell \<and> (if tl t = [] then n + 2 < 16 else parse_v6_fields (tl t) (n + 2) True)
                   else parse_v6_fields t (n + 2) ell)"
  by pat_completeness auto
termination
  by (relation "measure (\<lambda>(s, n, ell). 16 - n)") auto

declare parse_v6_fields.simps [simp del]

definition parse_v6 :: "string \<Rightarrow> bool" where
  "parse_v6 s =
     (if HasPrefix s ''::'' then drop 2 s = [] \<or> parse_v6_fields (drop 2 s) 0 True
      else parse_v6_fields s 0 False)"

definition ParseIP :: "string \<Rightarrow> bool" where
  "ParseIP s =
     (if CHR ''%'' \<in> set s then False
      else case find (\<lambda>c. c = CHR ''.'' \<or> c = CHR '':'') s of
        None \<Rightarrow> False
      | Some c \<Rightarrow> if c = CHR ''.'' then parse_v4 s else parse_v6 s)"

lemma ParseIP_examples:
  "ParseIP ''192.0.2.7''" "\<not> ParseIP ''192.0.2.07''" "\<not> ParseIP ''192.0.2''"
  "ParseIP ''2001:db8::1''" "ParseIP ''::''" "\<not> ParseIP ''1:2:3:4:5:6:7''"
  "ParseIP ''::ffff:192.0.2.7''" "\<not> ParseIP ''fe80::1%eth0''" "\<not> ParseIP ''unknown''"
  by code_simp+

end
