(* ===== verification/Crypto.thy ===== *)
theory Crypto
  imports Encoding "HOL-Library.Word"
begin

unbundle bit_operations_syntax

text \<open>
  The part of Go's \<^verbatim>\<open>crypto/sha256\<close>, \<^verbatim>\<open>crypto/hmac\<close> and \<^verbatim>\<open>crypto/subtle\<close> the source
  calls: SHA-256 (FIPS 180-4) on byte strings over 32-bit words, HMAC (RFC 2104) over it,
  and the comparison that \<^verbatim>\<open>ConstantTimeCompare\<close> and \<^verbatim>\<open>hmac.Equal\<close> compute.
\<close>

type_synonym u32 = "32 word"

section \<open>SHA-256\<close>

definition K256 :: "u32 list" where
  "K256 =
    [1116352408, 1899447441, 3049323471, 3921009573, 961987163, 1508970993, 2453635748, 2870763221,
     3624381080, 310598401, 607225278, 1426881987, 1925078388, 2162078206, 2614888103, 3248222580,
     3835390401, 4022224774, 264347078, 604807628, 770255983, 1249150122, 1555081692, 1996064986,
     2554220882, 2821834349, 2952996808, 3210313671, 3336571891, 3584528711, 113926993, 338241895,
     666307205, 773529912, 1294757372, 1396182291, 1695183700, 1986661051, 2177026350, 2456956037,
     2730485921, 2820302411, 3259730800, 3345764771, 3516065817, 3600352804, 4094571909, 275423344,
     430227734, 506948616, 659060556, 883997877, 958139571, 1322822218, 1537002063, 1747873779,
     1955562222, 2024104815, 2227730452, 2361852424, 2428436474, 2756734187, 3204031479, 3329325298]"

type_synonym sha_state = "u32 \<times> u32 \<times> u32 \<times> u32 \<times> u32 \<times> u32 \<times> u32 \<times> u32"

definition H256 :: sha_state where
  "H256 = (0x6a09e667, 0xbb67ae85, 0x3c6ef372, 0xa54ff53a, 0x510e527f, 0x9b05688c, 0x1f83d9ab, 0x5be0cd19)"

definition Ch :: "u32 \<Rightarrow> u32 \<Rightarrow> u32 \<Rightarrow> u32" where
  "Ch x y z = (x AND y) XOR ((NOT x) AND z)"

definition Maj :: "u32 \<Rightarrow> u32 \<Rightarrow> u32 \<Rightarrow> u32" where
  "Maj x y z = (x AND y) XOR (x AND z) XOR (y AND z)"

definition big_sigma0 :: "u32 \<Rightarrow> u32" where
  "big_sigma0 x = word_rotr 2 x XOR word_rotr 13 x XOR word_rotr 22 x"

definition big_sigma1 :: "u32 \<Rightarrow> u32" where
  "big_sigma1 x = word_rotr 6 x XOR word_rotr 11 x XOR word_rotr 25 x"

definition small_sigma0 :: "u32 \<Rightarrow> u32" where
  "small_sigma0 x = word_rotr 7 x XOR word_rotr 18 x XOR drop_bit 3 x"

definition small_sigma1 :: "u32 \<Rightarrow> u32" where
  "small_sigma1 x = word_rotr 17 x XOR word_rotr 19 x XOR drop_bit 10 x"

text \<open>The message schedule is kept newest first: \<^verbatim>\<open>W[t-1]\<close> is the head.\<close>

definition schedule_step :: "u32 list \<Rightarrow> u32 list" where
  "schedule_step w = (small_sigma1 (w ! 1) + w ! 6 + small_sigma0 (w ! 14) + w ! 15) # w"

definition schedule :: "u32 list \<Rightarrow> u32 list" where
  "schedule block = rev ((schedule_step ^^ 48) (rev block))"

fun round_step :: "sha_state \<Rightarrow> u32 \<times> u32 \<Rightarrow> sha_state" where
  "round_step (a, b, c, d, e, f, g, h) (k, w) =
     (let t1 = h + big_sigma1 e + Ch e f g + k + w; t2 = big_sigma0 a + Maj a b c
      in (t1 + t2, a, b, c, d + t1, e, f, g))"

fun state_add :: "sha_state \<Rightarrow> sha_state \<Rightarrow> sha_state" where
  "state_add (a, b, c, d, e, f, g, h) (a', b', c', d', e', f', g', h') =
     (a + a', b + b', c + c', d + d', e + e', f + f', g + g', h + h')"

definition compress :: "sha_state \<Rightarrow> u32 list \<Rightarrow> sha_state" where
  "compress st block = state_add st (foldl round_step st (zip K256 (schedule block)))"

fun be_words :: "string \<Rightarrow> u32 list" where
  "be_words (a # b # c # d # r) =
     word_of_nat (((of_char a * 256 + of_char b) * 256 + of_char c) * 256 + of_char d) # be_words r"
| "be_words _ = []"

fun be_bytes :: "nat \<Rightarrow> nat \<Rightarrow> string" where
  "be_bytes 0 n = []"
| "be_bytes (Suc k) n = be_bytes k (n div 256) @ [char_of (n mod 256)]"

definition sha_pad :: "string \<Rightarrow> string" where
  "sha_pad m = m @ CHR 0x80 # replicate ((119 - length m mod 64) mod 64) (CHR 0x00)
                 @ be_bytes 8 (8 * length m)"

function sha_blocks :: "sha_state \<Rightarrow> u32 list \<Rightarrow> sha_state" where
  "sha_blocks st ws = (if length ws < 16 then st else sha_blocks (compress st (take 16 ws)) (drop 16 ws))"
  by pat_completeness auto
termination
  by (relation "measure (\<lambda>(st, ws). length ws)") auto

declare sha_blocks.simps [simp del]

fun state_bytes :: "sha_state \<Rightarrow> string" where
  "state_bytes (a, b, c, d, e, f, g, h) = concat (map (\<lambda>w. be_bytes 4 (unat w)) [a, b, c, d, e, f, g, h])"

definition sha256 :: "string \<Rightarrow> string" where
  "sha256 m = state_bytes (sha_blocks H256 (be_words (sha_pad m)))"

lemma length_be_bytes [simp]: "length (be_bytes k n) = k"
  by (induction k arbitrary: n) auto

lemma length_sha256 [simp]: "length (sha256 m) = 32"
proof -
  have "length (state_bytes st) = 32" for st
    by (cases st rule: state_bytes.cases) simp
  then show ?thesis by (simp add: sha256_def)
qed

text \<open>Padding fills whole blocks, so no part of the message is dropped.\<close>

lemma length_sha_pad: "64 dvd length (sha_pad m)"
proof -
  define q r where "q = length m div 64" and "r = length m mod 64"
  have m: "length m = 64 * q + r" and r: "r < 64"
    by (simp_all add: q_def r_def)
  have "(119 - r) mod 64 = (if r \<le> 55 then 55 - r else 119 - r)"
  proof (cases "r \<le> 55")
    case True
    then have "119 - r = 55 - r + 64" by simp
    then have "(119 - r) mod 64 = (55 - r + 64) mod 64" by (rule arg_cong)
    also have "\<dots> = 55 - r" by simp
    finally show ?thesis using True by simp
  next
    case False
    with r show ?thesis by simp
  qed
  then have "length (sha_pad m) = 64 * (if r \<le> 55 then q + 1 else q + 2)"
    using r m by (auto simp: sha_pad_def r_def [symmetric])
  then show ?thesis by simp
qed

section \<open>HMAC\<close>

definition xor_byte :: "nat \<Rightarrow> char \<Rightarrow> char" where
  "xor_byte k c = char_of (k XOR of_char c)"

definition hmac_key :: "string \<Rightarrow> string" where
  "hmac_key key = (let k = (if length key > 64 then sha256 key else key)
                   in k @ replicate (64 - length k) (CHR 0x00))"

definition hmac_sha256 :: "string \<Rightarrow> string \<Rightarrow> string" where
  "hmac_sha256 key m =
     sha256 (map (xor_byte 0x5c) (hmac_key key) @ sha256 (map (xor_byte 0x36) (hmac_key key) @ m))"

lemma length_hmac_sha256 [simp]: "length (hmac_sha256 k m) = 32"
  by (simp add: hmac_sha256_def)

section \<open>Comparison\<close>

text \<open>
  \<^verbatim>\<open>subtle.ConstantTimeCompare\<close> returns 1 iff the two slices have equal contents, and 0
  at once when their lengths differ: the accumulated bitwise difference of the bytes is zero.
\<close>

fun diff_bits :: "string \<Rightarrow> string \<Rightarrow> nat" where
  "diff_bits (a # as) (b # bs) = ((of_char a) XOR (of_char b)) OR diff_bits as bs"
| "diff_bits _ _ = 0"

definition ConstantTimeCompare :: "string \<Rightarrow> string \<Rightarrow> bool" where
  "ConstantTimeCompare a b \<longleftrightarrow> length a = length b \<and> diff_bits a b = 0"

lemma nat_xor_eq_0_iff: "(m XOR n = 0) \<longleftrightarrow> m = (n :: nat)"
  by (auto simp: bit_eq_iff bit_simps)

lemma nat_or_eq_0_iff: "(m OR n = 0) \<longleftrightarrow> m = 0 \<and> n = (0 :: nat)"
  by (auto simp: bit_eq_iff bit_simps)

lemma ConstantTimeCompare_iff [simp]: "ConstantTimeCompare a b \<longleftrightarrow> a = b"
proof
  assume "ConstantTimeCompare a b"
  then have "length a = length b" "diff_bits a b = 0"
    by (simp_all add: ConstantTimeCompare_def)
  then show "a = b"
    by (induction a b rule: list_induct2) (auto simp: nat_or_eq_0_iff nat_xor_eq_0_iff)
next
  assume "a = b"
  moreover have "diff_bits b b = 0" by (induction b) auto
  ultimately show "ConstantTimeCompare a b" by (simp add: ConstantTimeCompare_def)
qed

end
