(* ===== verification/Tokens.thy ===== *)
theory Tokens
  imports Crypto
begin

text \<open>
  The credential formats: badge tokens and the QR payload (\<^verbatim>\<open>internal/badge/badge.go\<close>),
  PIN hashes (\<^verbatim>\<open>internal/pin/pin.go\<close>) and the signed administrator, self-service and
  emergency session tokens with their CSRF tokens (\<^verbatim>\<open>internal/auth/session.go\<close>).

  Random bytes are an argument: \<^verbatim>\<open>rand.Read\<close> either fails (\<^const>\<open>None\<close>) or fills the
  buffer.  Argon2id comes from \<^verbatim>\<open>golang.org/x/crypto\<close>; it is the argument \<open>idkey\<close>, and
  the theorems use only that the key has the requested length.
\<close>

section \<open>Badge tokens\<close>

datatype badge_error = ErrInvalidPayload | ErrRandom

definition GenerateToken :: "string option \<Rightarrow> badge_error + string" where
  "GenerateToken rnd = (case rnd of None \<Rightarrow> Inl ErrRandom | Some b \<Rightarrow> Inr (RawURL_encode b))"

definition HashToken :: "string \<Rightarrow> string" where
  "HashToken token = hex_encode (sha256 token)"

definition VerifyToken :: "string \<Rightarrow> string \<Rightarrow> bool" where
  "VerifyToken token hash =
     (case hex_decode (HashToken token) of None \<Rightarrow> False
      | Some a \<Rightarrow> (case hex_decode hash of None \<Rightarrow> False
                  | Some b \<Rightarrow> length a = length b \<and> ConstantTimeCompare a b))"

definition Payload :: "string \<Rightarrow> string \<Rightarrow> string" where
  "Payload code token = ''SWBADGE:1:'' @ code @ '':'' @ token"

definition ParsePayload :: "string \<Rightarrow> badge_error + (string \<times> string)" where
  "ParsePayload v =
     (let p = Split (CHR '':'') v
      in if length p \<noteq> 4 \<or> p ! 0 \<noteq> ''SWBADGE'' \<or> p ! 1 \<noteq> ''1'' \<or> p ! 2 = '''' \<or> p ! 3 = ''''
         then Inl ErrInvalidPayload else Inr (p ! 2, p ! 3))"

lemma VerifyToken_iff: "VerifyToken token hash \<longleftrightarrow> hex_decode hash = Some (sha256 token)"
  by (auto simp: VerifyToken_def HashToken_def split: option.splits)

lemma HashToken_shape:
  "length (HashToken t) = 64" "lower (HashToken t) = HashToken t"
  by (simp_all add: HashToken_def)

lemma Split_Payload:
  assumes "CHR '':'' \<notin> set code"
  shows "Split (CHR '':'') (Payload code token) =
         ''SWBADGE'' # ''1'' # code # Split (CHR '':'') token"
proof -
  have "Split (CHR '':'') (Payload code token) =
        Split (CHR '':'') (''SWBADGE'' @ CHR '':'' # ''1'' @ CHR '':'' # code @ CHR '':'' # token)"
    by (simp add: Payload_def)
  also have "\<dots> = ''SWBADGE'' # ''1'' # code # Split (CHR '':'') token"
    using assms by (subst Split_append_sep; simp add: Split_append_sep)
  finally show ?thesis .
qed

lemma length_4_conv: "length p = 4 \<longleftrightarrow> (\<exists>a b c d. p = [a, b, c, d])"
  by (simp add: numeral_eq_Suc length_Suc_conv) blast

lemma ParsePayload_Inr_iff:
  "ParsePayload v = Inr (code, token) \<longleftrightarrow>
   v = Payload code token \<and> code \<noteq> '''' \<and> token \<noteq> '''' \<and>
   CHR '':'' \<notin> set code \<and> CHR '':'' \<notin> set token"
proof
  assume asm: "ParsePayload v = Inr (code, token)"
  then have split: "Split (CHR '':'') v = [''SWBADGE'', ''1'', code, token]"
    and ne: "code \<noteq> ''''" "token \<noteq> ''''"
    by (auto simp: ParsePayload_def Let_def length_4_conv split: if_splits)
  have "v = join_with (CHR '':'') [''SWBADGE'', ''1'', code, token]"
    using join_Split [of "CHR '':''" v] split by simp
  moreover have "CHR '':'' \<notin> set code" "CHR '':'' \<notin> set token"
    using Split_no_sep_in_parts [of _ "CHR '':''" v] split by auto
  ultimately show "v = Payload code token \<and> code \<noteq> '''' \<and> token \<noteq> '''' \<and>
      CHR '':'' \<notin> set code \<and> CHR '':'' \<notin> set token"
    using ne by (simp add: Payload_def)
next
  assume "v = Payload code token \<and> code \<noteq> '''' \<and> token \<noteq> '''' \<and>
      CHR '':'' \<notin> set code \<and> CHR '':'' \<notin> set token"
  then show "ParsePayload v = Inr (code, token)"
    by (simp add: ParsePayload_def Split_Payload Let_def)
qed

section \<open>PIN hashes\<close>

datatype pin_error = PinLength | PinRandom

definition timeCost :: nat where "timeCost = 3"
definition memory :: nat where "memory = 64 * 1024"
definition threads :: nat where "threads = 2"
definition keyLen :: nat where "keyLen = 32"

text \<open>Argon2id: password, salt, time, memory, threads, key length.\<close>

type_synonym idkey = "string \<Rightarrow> string \<Rightarrow> nat \<Rightarrow> nat \<Rightarrow> nat \<Rightarrow> nat \<Rightarrow> string"

definition pin_params :: string where
  "pin_params =
     ''m='' @ show_nat memory @ '',t='' @ show_nat timeCost @ '',p='' @ show_nat threads"

definition pin_encoded :: "string \<Rightarrow> string \<Rightarrow> string" where
  "pin_encoded salt key =
     ''$argon2id$v=19$'' @ pin_params @ ''$'' @ RawStd_encode salt @ ''$'' @ RawStd_encode key"

definition Hash :: "idkey \<Rightarrow> string \<Rightarrow> string option \<Rightarrow> pin_error + string" where
  "Hash idkey v rnd =
     (if length v < 4 \<or> length v > 32 then Inl PinLength
      else case rnd of None \<Rightarrow> Inl PinRandom
           | Some salt \<Rightarrow>
               Inr (pin_encoded salt (idkey v salt timeCost memory threads keyLen)))"

text \<open>
  \<^verbatim>\<open>fmt.Sscanf\<close> with the verb \<^verbatim>\<open>%d\<close> for an unsigned variable: leading white space is
  skipped, a newline is an error, a maximal non-empty run of digits is read and must fit
  the width of the variable.  Input left over after the format is not an error.
\<close>

function scan_skip :: "string \<Rightarrow> string option" where
  "scan_skip s =
     (if HasPrefix s [CHR 0x0A] \<or> HasPrefix s [CHR 0x0D, CHR 0x0A] then None
      else if space_at space_runes s = 0 then Some s
      else scan_skip (drop (space_at space_runes s) s))"
  by pat_completeness auto
termination
proof (relation "measure length")
  fix s
  assume "space_at space_runes s \<noteq> 0"
  then show "(drop (space_at space_runes s) s, s) \<in> measure length"
    by (cases s) (auto simp: space_at_def HasPrefix_def find_Some_iff split: option.splits)
qed simp

declare scan_skip.simps [simp del]

definition scan_uint :: "nat \<Rightarrow> string \<Rightarrow> (nat \<times> string) option" where
  "scan_uint width s =
     (case scan_skip s of None \<Rightarrow> None | Some t \<Rightarrow>
        (let ds = takeWhile is_digit t
         in if ds = [] then None
            else case read_nat 0 ds of None \<Rightarrow> None
                 | Some n \<Rightarrow> if n < 2 ^ width then Some (n, dropWhile is_digit t) else None))"

definition scan_lit :: "string \<Rightarrow> string \<Rightarrow> string option" where
  "scan_lit p s = (if HasPrefix s p then Some (drop (length p) s) else None)"

definition scan_params :: "string \<Rightarrow> (nat \<times> nat \<times> nat) option" where
  "scan_params s =
     (case scan_lit ''m='' s of None \<Rightarrow> None | Some s \<Rightarrow>
      case scan_uint 32 s of None \<Rightarrow> None | Some (m, s) \<Rightarrow>
      case scan_lit '',t='' s of None \<Rightarrow> None | Some s \<Rightarrow>
      case scan_uint 32 s of None \<Rightarrow> None | Some (t, s) \<Rightarrow>
      case scan_lit '',p='' s of None \<Rightarrow> None | Some s \<Rightarrow>
      case scan_uint 8 s of None \<Rightarrow> None | Some (p, s) \<Rightarrow> Some (m, t, p))"

definition Verify :: "idkey \<Rightarrow> string \<Rightarrow> string \<Rightarrow> bool" where
  "Verify idkey v encoded =
     (let p = Split (CHR ''$'') encoded
      in if length p \<noteq> 6 \<or> p ! 1 \<noteq> ''argon2id'' then False
         else case scan_params (p ! 3) of None \<Rightarrow> False
         | Some (m, t, th) \<Rightarrow>
             if m > 256 * 1024 \<or> t > 10 \<or> th > 16 then False
             else (case RawStd_decode (p ! 4) of None \<Rightarrow> False
             | Some salt \<Rightarrow> (case RawStd_decode (p ! 5) of None \<Rightarrow> False
               | Some want \<Rightarrow>
                   ConstantTimeCompare (idkey v salt t m th (length want mod 2 ^ 32)) want)))"

lemma pin_params_eq: "pin_params = ''m=65536,t=3,p=2''"
  by (simp add: pin_params_def memory_def timeCost_def threads_def show_nat.simps digit_char_def)

lemma scan_skip_digit:
  assumes "is_digit c"
  shows "scan_skip (c # s) = Some (c # s)"
proof -
  have "\<forall>r \<in> set space_runes. \<not> is_digit (hd r) \<and> r \<noteq> []"
    by code_simp
  with assms have "find (\<lambda>r. HasPrefix (c # s) r) space_runes = None"
    by (force simp: find_None_iff HasPrefix_def neq_Nil_conv)
  moreover have "c \<noteq> CHR 0x0A" "c \<noteq> CHR 0x0D"
    using assms by (auto simp: char_class_defs)
  ultimately show ?thesis
    by (simp add: scan_skip.simps [of "c # s"] space_at_def HasPrefix_def)
qed

lemma scan_uint_digits:
  assumes "ds \<noteq> []" "\<forall>d \<in> set ds. is_digit d" "read_nat 0 ds = Some n" "n < 2 ^ width"
    and "rest = [] \<or> \<not> is_digit (hd rest)"
  shows "scan_uint width (ds @ rest) = Some (n, rest)"
proof -
  have "takeWhile is_digit (ds @ rest) = ds" "dropWhile is_digit (ds @ rest) = rest"
    using assms(2,5) by (cases rest; simp add: takeWhile_append dropWhile_append; fail)+
  moreover have "scan_skip (ds @ rest) = Some (ds @ rest)"
    using assms(1,2) by (cases ds) (auto simp: scan_skip_digit)
  ultimately show ?thesis using assms by (simp add: scan_uint_def)
qed

lemma pin_params_scan: "scan_params pin_params = Some (memory, timeCost, threads)"
proof -
  have "scan_uint 32 (''65536'' @ '',t=3,p=2'') = Some (65536, '',t=3,p=2'')"
    "scan_uint 32 (''3'' @ '',p=2'') = Some (3, '',p=2'')"
    "scan_uint 8 (''2'' @ []) = Some (2, [])"
    by (rule scan_uint_digits; simp add: char_class_defs digit_value_def)+
  then show ?thesis
    by (simp add: pin_params_eq scan_params_def scan_lit_def HasPrefix_def memory_def
        timeCost_def threads_def)
qed

lemma Split_pin_encoded:
  "Split (CHR ''$'') (pin_encoded salt key) =
     [[], ''argon2id'', ''v=19'', pin_params, RawStd_encode salt, RawStd_encode key]"
proof -
  have m: "CHR ''$'' \<notin> set pin_params" by (simp add: pin_params_def show_nat_not_in)
  have "pin_encoded salt key =
     [] @ CHR ''$'' # ''argon2id'' @ CHR ''$'' # ''v=19'' @ CHR ''$'' # pin_params @ CHR ''$'' #
       RawStd_encode salt @ CHR ''$'' # RawStd_encode key"
    by (simp add: pin_encoded_def)
  with m show ?thesis by (simp add: Split_append_sep)
qed

text \<open>
  Verifying a hash that \<^const>\<open>Hash\<close> made recomputes the key with the parameters and the salt
  that the encoding carries.
\<close>

lemma Verify_pin_encoded:
  "Verify idkey v (pin_encoded salt key) \<longleftrightarrow>
     idkey v salt timeCost memory threads (length key mod 2 ^ 32) = key"
proof -
  have "\<not> (memory > 256 * 1024 \<or> timeCost > 10 \<or> threads > 16)"
    by (simp add: memory_def timeCost_def threads_def)
  then show ?thesis
    by (simp add: Verify_def Split_pin_encoded pin_params_scan Let_def)
qed

section \<open>Signed sessions\<close>

datatype session_error = ErrInvalidSession

record Sessions =
  key :: string
  lifetime :: duration

definition NewSessions :: "string \<Rightarrow> duration \<Rightarrow> Sessions option" where
  "NewSessions secret life =
     (if length secret < 32 then None else Some \<lparr>key = secret, lifetime = life\<rparr>)"

definition IssueForDuration :: "Sessions \<Rightarrow> string \<Rightarrow> string \<Rightarrow> time \<Rightarrow> duration \<Rightarrow> string" where
  "IssueForDuration s audience username now life =
     (let identity = audience @ '':'' @ username;
          payload = RawURL_encode identity @ ''.'' @ FormatInt (Unix (now + life))
      in payload @ ''.'' @ RawURL_encode (hmac_sha256 (key s) payload))"

definition IssueFor :: "Sessions \<Rightarrow> string \<Rightarrow> string \<Rightarrow> time \<Rightarrow> string" where
  "IssueFor s audience username now = IssueForDuration s audience username now (lifetime s)"

definition Issue :: "Sessions \<Rightarrow> string \<Rightarrow> time \<Rightarrow> string" where
  "Issue s username now = IssueFor s ''admin'' username now"

definition VerifyFor :: "Sessions \<Rightarrow> string \<Rightarrow> string \<Rightarrow> time \<Rightarrow> session_error + string" where
  "VerifyFor s token audience now =
     (let parts = Split (CHR ''.'') token
      in if length parts \<noteq> 3 then Inl ErrInvalidSession
         else let mac = hmac_sha256 (key s) (parts ! 0 @ ''.'' @ parts ! 1)
         in case RawURL_decode (parts ! 2) of None \<Rightarrow> Inl ErrInvalidSession
         | Some sig \<Rightarrow>
           if \<not> ConstantTimeCompare sig mac then Inl ErrInvalidSession
           else case ParseInt (parts ! 1) of None \<Rightarrow> Inl ErrInvalidSession
           | Some expiry \<Rightarrow>
             if Unix now > expiry then Inl ErrInvalidSession
             else case RawURL_decode (parts ! 0) of None \<Rightarrow> Inl ErrInvalidSession
             | Some raw \<Rightarrow>
               (let prefix = audience @ '':''
                in if \<not> HasPrefix raw prefix \<or> length raw = length prefix
                   then Inl ErrInvalidSession else Inr (TrimPrefix raw prefix)))"

definition VerifySession :: "Sessions \<Rightarrow> string \<Rightarrow> time \<Rightarrow> session_error + string" where
  "VerifySession s token now = VerifyFor s token ''admin'' now"

definition CSRF :: "Sessions \<Rightarrow> string \<Rightarrow> string" where
  "CSRF s sessionToken = RawURL_encode (hmac_sha256 (key s) (''csrf:'' @ sessionToken))"

definition VerifyCSRF :: "Sessions \<Rightarrow> string \<Rightarrow> string \<Rightarrow> bool" where
  "VerifyCSRF s sessionToken csrfToken =
     (case RawURL_decode (CSRF s sessionToken) of None \<Rightarrow> False
      | Some expected \<Rightarrow> (case RawURL_decode csrfToken of None \<Rightarrow> False
                         | Some actual \<Rightarrow> ConstantTimeCompare expected actual))"

lemma Split_issued:
  "Split (CHR ''.'') (IssueForDuration s aud u now life) =
     [RawURL_encode (aud @ '':'' @ u), FormatInt (Unix (now + life)),
      RawURL_encode (hmac_sha256 (key s)
        (RawURL_encode (aud @ '':'' @ u) @ ''.'' @ FormatInt (Unix (now + life))))]"
proof -
  have "CHR ''.'' \<notin> set (FormatInt i)" for i by (rule FormatInt_not_in) simp
  then show ?thesis
    by (simp add: IssueForDuration_def Let_def Split_append_sep)
qed

text \<open>What verification says of an issued token, for any audience and any instant.\<close>

lemma VerifyFor_issued:
  assumes "min_int64 \<le> Unix (now + life)" "Unix (now + life) \<le> max_int64"
  shows "VerifyFor s (IssueForDuration s aud u now life) aud' t =
     (if Unix t > Unix (now + life) \<or> \<not> HasPrefix (aud @ '':'' @ u) (aud' @ '':'')
         \<or> length (aud @ '':'' @ u) = length (aud' @ '':'')
      then Inl ErrInvalidSession else Inr (TrimPrefix (aud @ '':'' @ u) (aud' @ '':'')))"
  using assms by (simp add: VerifyFor_def Split_issued ParseInt_FormatInt Let_def)

lemma prefix_colon_unique:
  assumes "HasPrefix (a @ '':'' @ u) (b @ '':'')" "CHR '':'' \<notin> set a" "CHR '':'' \<notin> set b"
  shows "a = b"
proof -
  obtain r where "a @ CHR '':'' # u = b @ CHR '':'' # r"
    using assms(1) by (auto simp: HasPrefix_iff)
  then have "Split (CHR '':'') (a @ CHR '':'' # u) = Split (CHR '':'') (b @ CHR '':'' # r)"
    by simp
  with assms(2,3) show ?thesis by (simp add: Split_append_sep)
qed

lemma TrimPrefix_sep [simp]: "TrimPrefix (a @ c # r) (a @ [c]) = r"
  using TrimPrefix_append [of "a @ [c]" r] by simp

lemma VerifyFor_accepts:
  assumes "VerifyFor s token aud now = Inr u"
  shows "\<exists>p0 p1 p2 expiry. token = p0 @ ''.'' @ p1 @ ''.'' @ p2 \<and>
     RawURL_decode p2 = Some (hmac_sha256 (key s) (p0 @ ''.'' @ p1)) \<and>
     ParseInt p1 = Some expiry \<and> Unix now \<le> expiry \<and>
     RawURL_decode p0 = Some (aud @ '':'' @ u) \<and> u \<noteq> ''''"
proof -
  let ?ps = "Split (CHR ''.'') token"
  from assms have "length ?ps = 3"
    by (auto simp: VerifyFor_def Let_def split: if_splits)
  then obtain p0 p1 p2 where ps: "?ps = [p0, p1, p2]"
    by (auto simp: numeral_eq_Suc length_Suc_conv)
  have "token = p0 @ ''.'' @ p1 @ ''.'' @ p2"
    using join_Split [of "CHR ''.''" token] ps by simp
  moreover have "RawURL_decode p2 = Some (hmac_sha256 (key s) (p0 @ ''.'' @ p1))"
    and "\<exists>expiry. ParseInt p1 = Some expiry \<and> Unix now \<le> expiry"
    and "RawURL_decode p0 = Some (aud @ '':'' @ u) \<and> u \<noteq> ''''"
    using assms ps
    by (auto simp: VerifyFor_def Let_def HasPrefix_iff split: if_splits option.splits)
  ultimately show ?thesis by blast
qed

section \<open>Properties\<close>

text \<open>
  The QR payload and its parser are inverse: the parser accepts exactly the strings
  \<^verbatim>\<open>SWBADGE:1:code:token\<close> with a non-empty code and token without a colon, and returns
  that code and that token.
\<close>

theorem badge_payload_roundtrip:
  "ParsePayload v = Inr (code, token) \<longleftrightarrow>
   v = Payload code token \<and> code \<noteq> [] \<and> token \<noteq> [] \<and>
   CHR '':'' \<notin> set code \<and> CHR '':'' \<notin> set token"
  by (rule ParsePayload_Inr_iff)

text \<open>
  A badge token is accepted against a stored hash exactly when the stored text is the
  hexadecimal SHA-256 of the token; in particular a generated token is accepted against its
  own hash, whatever the random bytes were.
\<close>

theorem badge_token_verification:
  "(VerifyToken token hash \<longleftrightarrow> hex_decode hash = Some (sha256 token)) \<and>
   (case GenerateToken rnd of Inl e \<Rightarrow> rnd = None | Inr t \<Rightarrow> VerifyToken t (HashToken t))"
  by (auto simp: VerifyToken_iff GenerateToken_def HashToken_def split: option.splits)

text \<open>
  A PIN hash verifies against the PIN it was made from, and against another PIN only if
  Argon2id gives the same key for both under the stored salt and the fixed cost parameters,
  provided that Argon2id returns a key of the requested length.
\<close>

theorem pin_hash_verifies:
  assumes "Hash idkey v (Some salt) = Inr encoded"
    and idkey_length: "\<And>pw s t m p n. length (idkey pw s t m p n) = n"
  shows "Verify idkey v' encoded \<longleftrightarrow>
    idkey v' salt timeCost memory threads keyLen = idkey v salt timeCost memory threads keyLen"
proof -
  let ?key = "idkey v salt timeCost memory threads keyLen"
  have "encoded = pin_encoded salt ?key"
    using assms(1) by (auto simp: Hash_def split: if_splits)
  moreover have "length ?key mod 2 ^ 32 = keyLen"
    by (simp add: idkey_length keyLen_def)
  ultimately show ?thesis by (simp add: Verify_pin_encoded)
qed

theorem pin_hash_verifies_witness:
  "let idkey = (\<lambda>pw s t m p n. take n (pw @ s @ replicate n (CHR ''x'')))
   in \<exists>encoded. Hash idkey ''1234'' (Some ''salt'') = Inr encoded \<and> Verify idkey ''1234'' encoded \<and>
      \<not> Verify idkey ''1235'' encoded"
proof -
  define idkey :: idkey where "idkey = (\<lambda>pw s t m p n. take n (pw @ s @ replicate n (CHR ''x'')))"
  define encoded where "encoded = pin_encoded ''salt'' (idkey ''1234'' ''salt'' timeCost memory threads keyLen)"
  have run: "Hash idkey ''1234'' (Some ''salt'') = Inr encoded"
    by (simp add: Hash_def encoded_def)
  have len: "\<And>pw s t m p n. length (idkey pw s t m p n) = n"
    by (simp add: idkey_def)
  have "Verify idkey ''1234'' encoded \<and> \<not> Verify idkey ''1235'' encoded"
    using pin_hash_verifies [OF run len, of "''1234''"] pin_hash_verifies [OF run len, of "''1235''"]
    by (simp add: idkey_def keyLen_def)
  with run show ?thesis unfolding Let_def idkey_def by blast
qed

text \<open>
  A session token that was issued for one audience is accepted for that audience up to
  and including the second of its expiry and never after, and never for another audience.
\<close>

theorem session_token_audience_and_expiry:
  assumes "CHR '':'' \<notin> set aud" "CHR '':'' \<notin> set aud'" "u \<noteq> []"
    and "min_int64 \<le> Unix (now + life)" "Unix (now + life) \<le> max_int64"
  shows "VerifyFor s (IssueForDuration s aud u now life) aud' t =
    (if aud' = aud \<and> Unix t \<le> Unix (now + life) then Inr u else Inl ErrInvalidSession)"
proof (cases "aud' = aud")
  case True
  with assms show ?thesis
    by (auto simp: VerifyFor_issued HasPrefix_iff)
next
  case False
  with assms(1,2) prefix_colon_unique [of aud u aud'] have "\<not> HasPrefix (aud @ '':'' @ u) (aud' @ '':'')"
    by auto
  with False assms(4,5) show ?thesis by (simp add: VerifyFor_issued)
qed

theorem session_token_audience_and_expiry_witness:
  "VerifyFor \<lparr>key = replicate 32 (CHR ''k''), lifetime = hour\<rparr>
     (IssueForDuration \<lparr>key = replicate 32 (CHR ''k''), lifetime = hour\<rparr> ''admin'' ''ada'' 0 hour) ''self-service'' 5
   = Inl ErrInvalidSession"
  by (subst session_token_audience_and_expiry) (simp_all add: duration_defs Unix_def int64_defs)

text \<open>
  C37: Whatever token is accepted, for whatever audience, carries the HMAC of its own first two
  parts under the server key, an expiry that has not passed, and the returned non-empty user
  name under that audience.
\<close>

theorem session_token_authentic:
  assumes "VerifyFor s token aud now = Inr u"
  shows "\<exists>p0 p1 p2 expiry. token = p0 @ ''.'' @ p1 @ ''.'' @ p2 \<and>
     RawURL_decode p2 = Some (hmac_sha256 (key s) (p0 @ ''.'' @ p1)) \<and>
     ParseInt p1 = Some expiry \<and> Unix now \<le> expiry \<and>
     RawURL_decode p0 = Some (aud @ '':'' @ u) \<and> u \<noteq> []"
  using assms by (rule VerifyFor_accepts)

theorem session_token_authentic_witness:
  "\<exists>p0 p1 p2 expiry. Issue \<lparr>key = replicate 32 (CHR ''k''), lifetime = hour\<rparr> ''ada'' 0 = p0 @ ''.'' @ p1 @ ''.'' @ p2 \<and>
     RawURL_decode p2 = Some (hmac_sha256 (replicate 32 (CHR ''k'')) (p0 @ ''.'' @ p1)) \<and>
     ParseInt p1 = Some expiry \<and> Unix 0 \<le> expiry \<and> RawURL_decode p0 = Some (''admin'' @ '':'' @ ''ada'')"
proof -
  let ?s = "\<lparr>key = replicate 32 (CHR ''k''), lifetime = hour\<rparr>"
  have "VerifyFor ?s (Issue ?s ''ada'' 0) ''admin'' 0 = Inr ''ada''"
    unfolding Issue_def IssueFor_def
    by (subst VerifyFor_issued) (simp_all add: duration_defs Unix_def int64_defs HasPrefix_iff TrimPrefix_def)
  from session_token_authentic [OF this] show ?thesis by auto
qed

text \<open>
  A CSRF token is accepted for exactly one session token: when its bytes are the HMAC of that
  session token under the server key with the CSRF prefix.
\<close>

theorem csrf_token_bound_to_session:
  "(VerifyCSRF s tok c \<longleftrightarrow> RawURL_decode c = Some (hmac_sha256 (key s) (''csrf:'' @ tok))) \<and>
   VerifyCSRF s tok (CSRF s tok)"
  by (auto simp: VerifyCSRF_def CSRF_def split: option.splits)

end
