(* ===== verification/Sql.thy ===== *)
theory Sql
  imports Net Tokens
begin

text \<open>
  The relational state of the application (\<^verbatim>\<open>internal/database\<close>) and the monad in which the
  store methods are written.

  A table is the list of its rows in insertion order; \<open>tables\<close> is the whole database with
  the \<^verbatim>\<open>AUTOINCREMENT\<close> counters.  The schema's constraints (\<^verbatim>\<open>UNIQUE\<close>, \<^verbatim>\<open>CHECK\<close>,
  \<^verbatim>\<open>REFERENCES\<close>, the partial unique indexes) are the predicates \<open>ok_\<dots>\<close> that every
  statement must re-establish, or it fails and changes nothing.

  A store method runs in a \<open>world\<close>: the tables, the number of calls made so far, and an
  arbitrary environment indexed by that number, which decides whether the call of the
  database driver fails (\<open>fault\<close>), what time it is (\<open>clock\<close>, both \<^verbatim>\<open>CURRENT_TIMESTAMP\<close> and
  \<^verbatim>\<open>time.Now\<close>) and what \<^verbatim>\<open>rand.Read\<close> returns (\<open>rnd\<close>).  Every theorem holds for all
  environments, so for every failure of the database at every point of a method.  The SQLite
  store has one connection (\<^verbatim>\<open>SetMaxOpenConns(1)\<close>), so transactions do not interleave.
\<close>

section \<open>Rows\<close>

record users_row =
  usr_id :: int
  usr_username :: string
  usr_display_name :: string
  usr_directory_dn :: string
  usr_pin_hash :: string
  usr_oidc_subject :: string
  usr_created_at :: time
  usr_updated_at :: time

record badges_row =
  bdg_id :: int
  bdg_code :: string
  bdg_user_id :: int
  bdg_token_hash :: string
  bdg_enabled :: bool
  bdg_pending :: bool
  bdg_description :: string
  bdg_created_at :: time
  bdg_updated_at :: time
  bdg_last_used_at :: "time option"
  bdg_revoked_at :: "time option"

record Audit =
  aud_id :: int
  aud_event_type :: string
  aud_badge_id :: string
  aud_username :: string
  aud_client_id :: string
  aud_success :: bool
  aud_ip_address :: string
  aud_timestamp :: time
  aud_details :: string

record Client =
  cli_id :: int
  cli_client_id :: string
  cli_token_hash :: string
  cli_auth_mode :: string
  cli_enabled :: bool
  cli_version :: string
  cli_network_status :: string
  cli_ad_status :: string
  cli_camera_status :: string
  cli_kerberos_status :: string
  cli_last_update_version :: string
  cli_last_update_status :: string
  cli_last_update_at :: "time option"
  cli_rollback_available :: bool
  cli_created_at :: time
  cli_updated_at :: time
  cli_last_seen_at :: "time option"

record SelfServiceSession =
  sss_id :: string
  sss_username :: string
  sss_created_at :: time
  sss_expires_at :: time
  sss_revoked_at :: "time option"

record OIDCClient =
  oc_client_id :: string
  oc_secret_hash :: string
  oc_redirect_uris :: string
  oc_scopes :: string
  oc_enabled :: bool

record OIDCCode =
  od_code_hash :: string
  od_client_id :: string
  od_user_id :: int
  od_redirect_uri :: string
  od_scope :: string
  od_nonce :: string
  od_code_challenge :: string
  od_expires_at :: time
  od_consumed_at :: "time option"

record OIDCSessionRow =
  os_session_id :: string
  os_access_token_hash :: string
  os_client_id :: string
  os_user_id :: int
  os_scope :: string
  os_issued_at :: time
  os_expires_at :: time
  os_revoked_at :: "time option"

record EmergencyAdminGrant =
  eg_id :: string
  eg_token_hash :: string
  eg_session_hash :: "string option"
  eg_created_at :: time
  eg_expires_at :: time
  eg_consumed_at :: "time option"
  eg_revoked_at :: "time option"

record ClientEnrollmentToken =
  et_id :: string
  et_client_id :: string
  et_token_hash :: string
  et_created_at :: time
  et_expires_at :: time
  et_consumed_at :: "time option"
  et_revoked_at :: "time option"

datatype CredentialStatus = CredPending | CredActive | CredSuperseded | CredRevoked

record ClientDeviceCredential =
  dc_id :: string
  dc_client_id :: string
  dc_fingerprint :: string
  dc_serial :: string
  dc_uri_san :: string
  dc_algorithm :: string
  dc_issuer_id :: string
  dc_issued_at :: time
  dc_expires_at :: time
  dc_status :: CredentialStatus
  dc_supersedes_id :: "string option"
  dc_revoked_at :: "time option"
  dc_created_at :: time
  dc_updated_at :: time

datatype JobState =
  JobScheduled | JobDispatched | JobSucceeded | JobFailed | JobCancelled | JobExpired

record ClientUpdateJob =
  job_id :: string
  job_client_id :: string
  job_release_id :: string
  job_release_version :: string
  job_package_sha256 :: string
  job_not_before :: int
  job_expires_at :: int
  job_maintenance :: bool
  job_state :: JobState
  job_rollback_available :: bool
  job_created_at :: int
  job_updated_at :: int

record webauthn_users_row =
  wu_user_id :: int
  wu_user_handle :: string

record WebAuthnCredential =
  wc_credential_id :: string
  wc_management_id :: string
  wc_user_id :: int
  wc_public_key :: string
  wc_rp_id :: string
  wc_name :: string
  wc_transports :: string
  wc_attestation_type :: string
  wc_attestation_format :: string
  wc_flags :: int
  wc_sign_count :: u32
  wc_backup_eligible :: bool
  wc_backup_state :: bool
  wc_created_at :: time
  wc_last_used_at :: "time option"
  wc_revoked_at :: "time option"

record WebAuthnCeremony =
  ce_id :: string
  ce_kind :: string
  ce_audience :: string
  ce_user_id :: "int option"
  ce_session_data :: string
  ce_created_at :: time
  ce_expires_at :: time
  ce_consumed_at :: "time option"

record tables =
  users :: "users_row list"
  badges :: "badges_row list"
  audit_log :: "Audit list"
  clients :: "Client list"
  self_service_sessions :: "SelfServiceSession list"
  oidc_clients :: "OIDCClient list"
  oidc_codes :: "OIDCCode list"
  oidc_sessions :: "OIDCSessionRow list"
  webauthn_users :: "webauthn_users_row list"
  webauthn_credentials :: "WebAuthnCredential list"
  webauthn_ceremonies :: "WebAuthnCeremony list"
  emergency_admin_grants :: "EmergencyAdminGrant list"
  client_enrollment_tokens :: "ClientEnrollmentToken list"
  client_device_credentials :: "ClientDeviceCredential list"
  client_update_jobs :: "ClientUpdateJob list"
  users_seq :: int
  badges_seq :: int
  audit_seq :: int
  clients_seq :: int

definition empty_tables :: tables where
  "empty_tables = \<lparr>users = [], badges = [], audit_log = [], clients = [],
     self_service_sessions = [], oidc_clients = [], oidc_codes = [], oidc_sessions = [],
     webauthn_users = [], webauthn_credentials = [], webauthn_ceremonies = [],
     emergency_admin_grants = [], client_enrollment_tokens = [],
     client_device_credentials = [], client_update_jobs = [],
     users_seq = 0, badges_seq = 0, audit_seq = 0, clients_seq = 0\<rparr>"

section \<open>Constraints of the schema\<close>

definition ok_users :: "tables \<Rightarrow> bool" where
  "ok_users t \<longleftrightarrow> distinct (map usr_id (users t)) \<and> distinct (map usr_username (users t)) \<and>
     distinct (filter (\<lambda>s. s \<noteq> []) (map usr_oidc_subject (users t)))"

definition ok_badges :: "tables \<Rightarrow> bool" where
  "ok_badges t \<longleftrightarrow> distinct (map bdg_id (badges t)) \<and> distinct (map bdg_code (badges t)) \<and>
     (\<forall>b \<in> set (badges t). bdg_user_id b \<in> usr_id ` set (users t))"

definition ok_clients :: "tables \<Rightarrow> bool" where
  "ok_clients t \<longleftrightarrow> distinct (map cli_id (clients t)) \<and> distinct (map cli_client_id (clients t)) \<and>
     (\<forall>c \<in> set (clients t). cli_auth_mode c \<in>
        {''token_only'', ''certificate_preferred'', ''certificate_required''})"

definition ok_self_service_sessions :: "tables \<Rightarrow> bool" where
  "ok_self_service_sessions t \<longleftrightarrow> distinct (map sss_id (self_service_sessions t))"

definition ok_oidc_clients :: "tables \<Rightarrow> bool" where
  "ok_oidc_clients t \<longleftrightarrow> distinct (map oc_client_id (oidc_clients t))"

definition ok_oidc_codes :: "tables \<Rightarrow> bool" where
  "ok_oidc_codes t \<longleftrightarrow> distinct (map od_code_hash (oidc_codes t)) \<and>
     (\<forall>c \<in> set (oidc_codes t). od_client_id c \<in> oc_client_id ` set (oidc_clients t) \<and>
        od_user_id c \<in> usr_id ` set (users t))"

definition ok_oidc_sessions :: "tables \<Rightarrow> bool" where
  "ok_oidc_sessions t \<longleftrightarrow> distinct (map os_session_id (oidc_sessions t)) \<and>
     distinct (map os_access_token_hash (oidc_sessions t)) \<and>
     (\<forall>c \<in> set (oidc_sessions t). os_client_id c \<in> oc_client_id ` set (oidc_clients t) \<and>
        os_user_id c \<in> usr_id ` set (users t))"

definition ok_emergency_admin_grants :: "tables \<Rightarrow> bool" where
  "ok_emergency_admin_grants t \<longleftrightarrow> distinct (map eg_id (emergency_admin_grants t)) \<and>
     distinct (map eg_token_hash (emergency_admin_grants t)) \<and>
     distinct (filter (\<lambda>s. s \<noteq> None) (map eg_session_hash (emergency_admin_grants t))) \<and>
     (\<forall>g \<in> set (emergency_admin_grants t). length (eg_token_hash g) = 64 \<and>
        (case eg_session_hash g of None \<Rightarrow> True | Some s \<Rightarrow> length s = 64) \<and>
        eg_created_at g < eg_expires_at g)"

definition ok_client_enrollment_tokens :: "tables \<Rightarrow> bool" where
  "ok_client_enrollment_tokens t \<longleftrightarrow> distinct (map et_id (client_enrollment_tokens t)) \<and>
     distinct (map et_token_hash (client_enrollment_tokens t)) \<and>
     (\<forall>e \<in> set (client_enrollment_tokens t). et_client_id e \<in> cli_client_id ` set (clients t) \<and>
        length (et_token_hash e) = 64 \<and> et_created_at e < et_expires_at e)"

definition ok_client_device_credentials :: "tables \<Rightarrow> bool" where
  "ok_client_device_credentials t \<longleftrightarrow>
     (let cs = client_device_credentials t in
      distinct (map dc_id cs) \<and> distinct (map dc_fingerprint cs) \<and> distinct (map dc_serial cs) \<and>
      distinct (map dc_client_id (filter (\<lambda>c. dc_status c = CredActive) cs)) \<and>
      distinct (map dc_client_id (filter (\<lambda>c. dc_status c = CredPending) cs)) \<and>
      (\<forall>c \<in> set cs. dc_client_id c \<in> cli_client_id ` set (clients t) \<and>
         length (dc_fingerprint c) = 64 \<and> dc_issued_at c < dc_expires_at c \<and>
         (case dc_supersedes_id c of None \<Rightarrow> True | Some s \<Rightarrow> s \<in> dc_id ` set cs)))"

definition job_open :: "ClientUpdateJob \<Rightarrow> bool" where
  "job_open j \<longleftrightarrow> job_state j = JobScheduled \<or> job_state j = JobDispatched"

definition ok_client_update_jobs :: "tables \<Rightarrow> bool" where
  "ok_client_update_jobs t \<longleftrightarrow>
     (let js = client_update_jobs t in
      distinct (map job_id js) \<and> distinct (map job_client_id (filter job_open js)) \<and>
      (\<forall>j \<in> set js. job_client_id j \<in> cli_client_id ` set (clients t) \<and>
         16 \<le> length (job_id j) \<and> length (job_id j) \<le> 64 \<and>
         16 \<le> length (job_release_id j) \<and> length (job_release_id j) \<le> 64 \<and>
         1 \<le> length (job_release_version j) \<and> length (job_release_version j) \<le> 64 \<and>
         length (job_package_sha256 j) = 64 \<and>
         job_not_before j < job_expires_at j \<and> job_expires_at j - job_not_before j \<le> 86400))"

definition ok_webauthn_users :: "tables \<Rightarrow> bool" where
  "ok_webauthn_users t \<longleftrightarrow> distinct (map wu_user_id (webauthn_users t)) \<and>
     distinct (map wu_user_handle (webauthn_users t)) \<and>
     (\<forall>u \<in> set (webauthn_users t). wu_user_id u \<in> usr_id ` set (users t) \<and>
        32 \<le> length (wu_user_handle u) \<and> length (wu_user_handle u) \<le> 64)"

definition ok_webauthn_credentials :: "tables \<Rightarrow> bool" where
  "ok_webauthn_credentials t \<longleftrightarrow> distinct (map wc_credential_id (webauthn_credentials t)) \<and>
     distinct (map wc_management_id (webauthn_credentials t)) \<and>
     (\<forall>c \<in> set (webauthn_credentials t). wc_user_id c \<in> wu_user_id ` set (webauthn_users t) \<and>
        16 \<le> length (wc_management_id c) \<and> length (wc_management_id c) \<le> 128)"

definition ok_webauthn_ceremonies :: "tables \<Rightarrow> bool" where
  "ok_webauthn_ceremonies t \<longleftrightarrow> distinct (map ce_id (webauthn_ceremonies t)) \<and>
     (\<forall>c \<in> set (webauthn_ceremonies t). ce_kind c \<in> {''registration'', ''authentication''} \<and>
        ce_audience c \<in> {''self-service'', ''admin''} \<and>
        (ce_user_id c = None \<or> the (ce_user_id c) \<in> usr_id ` set (users t)) \<and>
        1 \<le> length (ce_session_data c) \<and> int (length (ce_session_data c)) \<le> 65536)"

lemmas ok_defs =
  ok_users_def ok_badges_def ok_clients_def ok_self_service_sessions_def ok_oidc_clients_def
  ok_oidc_codes_def ok_oidc_sessions_def ok_emergency_admin_grants_def
  ok_client_enrollment_tokens_def ok_client_device_credentials_def ok_client_update_jobs_def
  ok_webauthn_users_def ok_webauthn_credentials_def ok_webauthn_ceremonies_def

end
