(* ===== verification/Db_Monad.thy ===== *)
theory Db_Monad
  imports Sql
begin

text \<open>
  The state-and-error monad of the store methods: \<^verbatim>\<open>QueryRowContext\<close>, \<^verbatim>\<open>QueryContext\<close>,
  \<^verbatim>\<open>ExecContext\<close>, \<^verbatim>\<open>RowsAffected\<close>, transactions with their deferred rollback, the clock and
  the random source, and the SQL statements of the store.  The equations in \<open>db_simps\<close> say
  when a program returns a value; they carry the proofs of the component theories.
\<close>

section \<open>World and errors\<close>

datatype db_error =
  ErrNoRows | ErrConstraint | ErrDriver | ErrRand
| ErrInvalidClientDeviceCredential | ErrText string

record world =
  tb :: tables
  steps :: nat
  fault :: "nat \<Rightarrow> bool"
  clock :: "nat \<Rightarrow> time"
  rnd :: "nat \<Rightarrow> string option"

type_synonym 'a dbm = "world \<Rightarrow> (db_error + 'a) \<times> world"

definition tick :: "world \<Rightarrow> world" where
  "tick w = w\<lparr>steps := Suc (steps w)\<rparr>"

definition fault_free :: "world \<Rightarrow> bool" where
  "fault_free w \<longleftrightarrow> (\<forall>k. \<not> fault w k)"

definition calm_world :: "tables \<Rightarrow> world" where
  "calm_world t = \<lparr>tb = t, steps = 0, fault = (\<lambda>_. False), clock = (\<lambda>_. 0), rnd = (\<lambda>_. None)\<rparr>"

lemma tick_simps [simp]:
  "tb (tick w) = tb w" "fault (tick w) = fault w" "clock (tick w) = clock w" "rnd (tick w) = rnd w"
  "steps (tick w) = Suc (steps w)"
  by (simp_all add: tick_def)

lemma fault_free_simps [simp]:
  "fault_free (tick w) = fault_free w" "fault_free (w\<lparr>tb := t\<rparr>) = fault_free w"
  by (simp_all add: fault_free_def)

lemma fault_freeD [simp]: "fault_free w \<Longrightarrow> fault w k = False"
  by (simp add: fault_free_def)

lemma fault_free_calm [simp]: "fault_free (calm_world t)"
  by (simp add: fault_free_def calm_world_def)

lemma tb_calm [simp]: "tb (calm_world t) = t"
  by (simp add: calm_world_def)

section \<open>Combinators\<close>

definition ret :: "'a \<Rightarrow> 'a dbm" where
  "ret a w = (Inr a, w)"

definition throw :: "db_error \<Rightarrow> 'a dbm" where
  "throw e w = (Inl e, w)"

definition dbind :: "'a dbm \<Rightarrow> ('a \<Rightarrow> 'b dbm) \<Rightarrow> 'b dbm" where
  "dbind m f w = (case m w of (Inl e, w') \<Rightarrow> (Inl e, w') | (Inr a, w') \<Rightarrow> f a w')"

definition dthen :: "'a dbm \<Rightarrow> 'b dbm \<Rightarrow> 'b dbm" where
  "dthen m n = dbind m (\<lambda>_. n)"

text \<open>\<^verbatim>\<open>if cond { return err }\<close>.\<close>

definition ensure :: "bool \<Rightarrow> db_error \<Rightarrow> unit dbm" where
  "ensure c e = (if c then ret () else throw e)"

text \<open>\<^verbatim>\<open>if errors.Is(err, e1) \<dots> \<close>: running a handler on the error.\<close>

definition catch :: "'a dbm \<Rightarrow> (db_error \<Rightarrow> 'a dbm) \<Rightarrow> 'a dbm" where
  "catch m h w = (case m w of (Inl e, w') \<Rightarrow> h e w' | (Inr a, w') \<Rightarrow> (Inr a, w'))"

text \<open>Keeping the error as a value: \<^verbatim>\<open>x, err := \<dots>\<close> followed by a case analysis.\<close>

definition attempt :: "'a dbm \<Rightarrow> (db_error + 'a) dbm" where
  "attempt m w = (case m w of (r, w') \<Rightarrow> (Inr r, w'))"

text \<open>\<^verbatim>\<open>QueryRowContext(\<dots>).Scan(\<dots>)\<close>: the first row of the result.\<close>

definition query_row :: "(tables \<Rightarrow> 'a list) \<Rightarrow> 'a dbm" where
  "query_row q w =
     (if fault w (steps w) then (Inl ErrDriver, tick w)
      else case q (tb w) of [] \<Rightarrow> (Inl ErrNoRows, tick w) | x # _ \<Rightarrow> (Inr x, tick w))"

text \<open>\<^verbatim>\<open>QueryContext\<close>, the loop over \<^verbatim>\<open>rows.Next\<close> and \<^verbatim>\<open>rows.Err\<close>.\<close>

definition query_all :: "(tables \<Rightarrow> 'a list) \<Rightarrow> 'a list dbm" where
  "query_all q w =
     (if fault w (steps w) then (Inl ErrDriver, tick w)
      else if fault w (Suc (steps w)) then (Inl ErrDriver, tick (tick w))
      else (Inr (q (tb w)), tick (tick w)))"

text \<open>
  A statement maps the statement time and the tables to the new tables, the number of
  affected rows and the last inserted identifier, or to \<^const>\<open>None\<close> when a constraint of the
  schema is violated.
\<close>

type_synonym result = "nat \<times> int"
type_synonym stmt = "time \<Rightarrow> tables \<Rightarrow> (tables \<times> result) option"

text \<open>SQLite's \<^verbatim>\<open>CURRENT_TIMESTAMP\<close> has a resolution of one second.\<close>

definition current_timestamp :: "time \<Rightarrow> time" where
  "current_timestamp t = fromUnix (Unix t)"

lemma current_timestamp_le: "current_timestamp t \<le> t"
  by (simp add: current_timestamp_def fromUnix_def Unix_def second_def)

definition exec :: "stmt \<Rightarrow> result dbm" where
  "exec s w =
     (if fault w (steps w) then (Inl ErrDriver, tick w)
      else case s (current_timestamp (clock w (steps w))) (tb w) of None \<Rightarrow> (Inl ErrConstraint, tick w)
           | Some (t, r) \<Rightarrow> (Inr r, (tick w)\<lparr>tb := t\<rparr>))"

definition RowsAffected :: "result \<Rightarrow> nat dbm" where
  "RowsAffected r w =
     (if fault w (steps w) then (Inl ErrDriver, tick w) else (Inr (fst r), tick w))"

text \<open>\<^verbatim>\<open>if n, err := result.RowsAffected(); err != nil || n != 1 { return sql.ErrNoRows }\<close>\<close>

definition one_row :: "result \<Rightarrow> unit dbm" where
  "one_row r w =
     (case RowsAffected r w of (Inl _, w') \<Rightarrow> (Inl ErrNoRows, w')
      | (Inr n, w') \<Rightarrow> if n \<noteq> 1 then (Inl ErrNoRows, w') else (Inr (), w'))"

text \<open>The same check with another error.\<close>

definition one_row_or :: "db_error \<Rightarrow> result \<Rightarrow> unit dbm" where
  "one_row_or e r w =
     (case RowsAffected r w of (Inl _, w') \<Rightarrow> (Inl e, w')
      | (Inr n, w') \<Rightarrow> if n \<noteq> 1 then (Inl e, w') else (Inr (), w'))"

text \<open>\<^verbatim>\<open>QueryRowContext("UPDATE \<dots> RETURNING \<dots>").Scan(\<dots>)\<close>: a statement that returns rows.\<close>

definition exec_returning :: "(time \<Rightarrow> tables \<Rightarrow> (tables \<times> 'a list) option) \<Rightarrow> 'a dbm" where
  "exec_returning s w =
     (if fault w (steps w) then (Inl ErrDriver, tick w)
      else case s (current_timestamp (clock w (steps w))) (tb w) of None \<Rightarrow> (Inl ErrConstraint, tick w)
           | Some (t, []) \<Rightarrow> (Inl ErrNoRows, (tick w)\<lparr>tb := t\<rparr>)
           | Some (t, x # _) \<Rightarrow> (Inr x, (tick w)\<lparr>tb := t\<rparr>))"

text \<open>A query that uses the time of the statement.\<close>

definition query_row_now :: "(time \<Rightarrow> tables \<Rightarrow> 'a list) \<Rightarrow> 'a dbm" where
  "query_row_now q w = query_row (q (clock w (steps w))) w"

text \<open>\<^verbatim>\<open>id, err := result.LastInsertId()\<close>\<close>

definition LastInsertId :: "result \<Rightarrow> int dbm" where
  "LastInsertId r w =
     (if fault w (steps w) then (Inl ErrDriver, tick w) else (Inr (snd r), tick w))"

text \<open>\<^verbatim>\<open>id, _ := result.LastInsertId()\<close>: the error is dropped and the value is 0.\<close>

definition LastInsertId_unchecked :: "result \<Rightarrow> int dbm" where
  "LastInsertId_unchecked r w = (if fault w (steps w) then (Inr 0, tick w) else (Inr (snd r), tick w))"

definition now_m :: "time dbm" where
  "now_m w = (Inr (clock w (steps w)), tick w)"

definition rand_m :: "string dbm" where
  "rand_m w = (case rnd w (steps w) of None \<Rightarrow> (Inl ErrRand, tick w) | Some b \<Rightarrow> (Inr b, tick w))"

text \<open>
  \<^verbatim>\<open>BeginTx\<close>, the body, \<^verbatim>\<open>Commit\<close>, and \<^verbatim>\<open>defer tx.Rollback()\<close> on every other way out.
\<close>

definition tx :: "'a dbm \<Rightarrow> 'a dbm" where
  "tx body w =
     (if fault w (steps w) then (Inl ErrDriver, tick w)
      else case body (tick w) of
        (Inl e, w') \<Rightarrow> (Inl e, w'\<lparr>tb := tb w\<rparr>)
      | (Inr a, w') \<Rightarrow>
          if fault w' (steps w') then (Inl ErrDriver, (tick w')\<lparr>tb := tb w\<rparr>) else (Inr a, tick w'))"

section \<open>When a program returns\<close>

lemma ret_Inr [db_simps]: "ret a w = (Inr b, w') \<longleftrightarrow> b = a \<and> w' = w"
  by (auto simp: ret_def)

lemma throw_Inr [db_simps]: "throw e w = (Inr b, w') \<longleftrightarrow> False"
  by (simp add: throw_def)

lemma dbind_Inr [db_simps]:
  "dbind m f w = (Inr b, w'') \<longleftrightarrow> (\<exists>a w'. m w = (Inr a, w') \<and> f a w' = (Inr b, w''))"
  by (auto simp: dbind_def split: prod.splits sum.splits)

lemma dthen_Inr [db_simps]:
  "dthen m n w = (Inr b, w'') \<longleftrightarrow> (\<exists>a w'. m w = (Inr a, w') \<and> n w' = (Inr b, w''))"
  by (simp add: dthen_def dbind_Inr)

lemma ensure_Inr [db_simps]: "ensure c e w = (Inr x, w') \<longleftrightarrow> c \<and> w' = w"
  by (auto simp: ensure_def ret_def throw_def)

lemma query_row_Inr [db_simps]:
  "query_row q w = (Inr x, w') \<longleftrightarrow>
     \<not> fault w (steps w) \<and> w' = tick w \<and> (\<exists>xs. q (tb w) = x # xs)"
  by (auto simp: query_row_def split: list.splits)

lemma query_row_mem: "query_row q w = (Inr x, w') \<Longrightarrow> x \<in> set (q (tb w)) \<and> w' = tick w"
  by (auto simp: query_row_Inr)

lemma query_all_Inr [db_simps]:
  "query_all q w = (Inr xs, w') \<longleftrightarrow>
     \<not> fault w (steps w) \<and> \<not> fault w (Suc (steps w)) \<and> w' = tick (tick w) \<and> xs = q (tb w)"
  by (auto simp: query_all_def)

lemma exec_Inr [db_simps]:
  "exec s w = (Inr r, w') \<longleftrightarrow>
     \<not> fault w (steps w) \<and> (\<exists>t. s (current_timestamp (clock w (steps w))) (tb w) = Some (t, r) \<and> w' = (tick w)\<lparr>tb := t\<rparr>)"
  by (auto simp: exec_def split: option.splits)

lemma one_row_Inr [db_simps]:
  "one_row r w = (Inr u, w') \<longleftrightarrow> \<not> fault w (steps w) \<and> fst r = 1 \<and> w' = tick w"
  by (auto simp: one_row_def RowsAffected_def split: prod.splits sum.splits)

lemma one_row_or_Inr [db_simps]:
  "one_row_or e r w = (Inr u, w') \<longleftrightarrow> \<not> fault w (steps w) \<and> fst r = 1 \<and> w' = tick w"
  by (auto simp: one_row_or_def RowsAffected_def split: prod.splits sum.splits)

lemma exec_returning_Inr [db_simps]:
  "exec_returning s w = (Inr x, w') \<longleftrightarrow> \<not> fault w (steps w) \<and>
     (\<exists>t xs. s (current_timestamp (clock w (steps w))) (tb w) = Some (t, x # xs) \<and> w' = (tick w)\<lparr>tb := t\<rparr>)"
  by (auto simp: exec_returning_def split: option.splits list.splits)

lemma query_row_now_Inr [db_simps]:
  "query_row_now q w = (Inr x, w') \<longleftrightarrow>
     \<not> fault w (steps w) \<and> w' = tick w \<and> (\<exists>xs. q (clock w (steps w)) (tb w) = x # xs)"
  by (simp add: query_row_now_def query_row_Inr)

lemma catch_Inr [db_simps]:
  "catch m h w = (Inr a, w') \<longleftrightarrow>
     m w = (Inr a, w') \<or> (\<exists>e w1. m w = (Inl e, w1) \<and> h e w1 = (Inr a, w'))"
  by (auto simp: catch_def split: prod.splits sum.splits)

lemma attempt_Inr [db_simps]: "attempt m w = (Inr r, w') \<longleftrightarrow> m w = (r, w')"
  by (auto simp: attempt_def split: prod.splits)

lemma attempt_query_found:
  "q (tb w) = x # xs \<Longrightarrow>
   attempt (query_row q) w = (Inr (if fault w (steps w) then Inl ErrDriver else Inr x), tick w)"
  by (simp add: attempt_def query_row_def)

lemma RowsAffected_Inr [db_simps]:
  "RowsAffected r w = (Inr n, w') \<longleftrightarrow> \<not> fault w (steps w) \<and> n = fst r \<and> w' = tick w"
  by (auto simp: RowsAffected_def)

lemma LastInsertId_Inr [db_simps]:
  "LastInsertId r w = (Inr n, w') \<longleftrightarrow> \<not> fault w (steps w) \<and> n = snd r \<and> w' = tick w"
  by (auto simp: LastInsertId_def)

lemma LastInsertId_unchecked_Inr [db_simps]:
  "LastInsertId_unchecked r w = (Inr n, w') \<longleftrightarrow>
     n = (if fault w (steps w) then 0 else snd r) \<and> w' = tick w"
  by (auto simp: LastInsertId_unchecked_def)

lemma now_m_Inr [db_simps]: "now_m w = (Inr n, w') \<longleftrightarrow> n = clock w (steps w) \<and> w' = tick w"
  by (auto simp: now_m_def)

lemma rand_m_Inr [db_simps]: "rand_m w = (Inr b, w') \<longleftrightarrow> rnd w (steps w) = Some b \<and> w' = tick w"
  by (auto simp: rand_m_def split: option.splits)

lemma tx_Inr [db_simps]:
  "tx m w = (Inr a, w') \<longleftrightarrow>
     \<not> fault w (steps w) \<and>
     (\<exists>w1. m (tick w) = (Inr a, w1) \<and> \<not> fault w1 (steps w1) \<and> w' = tick w1)"
  by (auto simp: tx_def split: prod.splits sum.splits if_splits)

section \<open>Failure changes nothing\<close>

text \<open>A program is atomic when a failed run leaves the tables as they were.\<close>

definition atomic :: "'a dbm \<Rightarrow> bool" where
  "atomic m \<longleftrightarrow> (\<forall>w e w'. m w = (Inl e, w') \<longrightarrow> tb w' = tb w)"

definition read_only :: "'a dbm \<Rightarrow> bool" where
  "read_only m \<longleftrightarrow> (\<forall>w. tb (snd (m w)) = tb w)"

lemma atomicD: "atomic m \<Longrightarrow> m w = (Inl e, w') \<Longrightarrow> tb w' = tb w"
  by (simp add: atomic_def)

lemma read_only_atomic [atomic_intros]: "read_only m \<Longrightarrow> atomic m"
  unfolding read_only_def atomic_def by (metis snd_conv)

lemma read_onlyD: "read_only m \<Longrightarrow> m w = (r, w') \<Longrightarrow> tb w' = tb w"
  unfolding read_only_def by (metis snd_conv)

lemma tx_atomic [atomic_intros]: "atomic (tx m)"
  by (auto simp: atomic_def tx_def split: prod.splits sum.splits if_splits)

lemma exec_atomic [atomic_intros]: "atomic (exec s)"
  by (auto simp: atomic_def exec_def split: prod.splits option.splits if_splits)

lemma query_row_read_only [atomic_intros]: "read_only (query_row q)"
  by (auto simp: read_only_def query_row_def split: list.splits)

lemma query_all_read_only [atomic_intros]: "read_only (query_all q)"
  by (auto simp: read_only_def query_all_def)

lemma RowsAffected_read_only [atomic_intros]: "read_only (RowsAffected r)"
  by (auto simp: read_only_def RowsAffected_def)

lemma LastInsertId_read_only [atomic_intros]: "read_only (LastInsertId r)"
  by (auto simp: read_only_def LastInsertId_def)

lemma LastInsertId_unchecked_read_only [atomic_intros]: "read_only (LastInsertId_unchecked r)"
  by (auto simp: read_only_def LastInsertId_unchecked_def)

lemma ensure_read_only [atomic_intros]: "read_only (ensure c e)"
  by (auto simp: read_only_def ensure_def ret_def throw_def)

lemma ret_read_only [atomic_intros]: "read_only (ret a)"
  by (simp add: read_only_def ret_def)

lemma throw_read_only [atomic_intros]: "read_only (throw e)"
  by (simp add: read_only_def throw_def)

lemma now_read_only [atomic_intros]: "read_only now_m"
  by (simp add: read_only_def now_m_def)

lemma rand_read_only [atomic_intros]: "read_only rand_m"
  by (auto simp: read_only_def rand_m_def split: option.splits)

lemma one_row_read_only [atomic_intros]: "read_only (one_row r)"
  by (auto simp: read_only_def one_row_def RowsAffected_def)

lemma one_row_or_read_only [atomic_intros]: "read_only (one_row_or e r)"
  by (auto simp: read_only_def one_row_or_def RowsAffected_def)

lemma query_row_now_read_only [atomic_intros]: "read_only (query_row_now q)"
  by (auto simp: read_only_def query_row_now_def query_row_def split: list.splits)

lemma catch_read_only [atomic_intros]:
  "read_only m \<Longrightarrow> (\<And>e. read_only (h e)) \<Longrightarrow> read_only (catch m h)"
  by (auto simp: read_only_def catch_def split: prod.splits sum.splits) (metis snd_conv)+

lemma attempt_read_only [atomic_intros]: "read_only m \<Longrightarrow> read_only (attempt m)"
  by (auto simp: read_only_def attempt_def split: prod.splits) (metis snd_conv)

text \<open>Forgetting the returned value.\<close>

definition discard :: "'a dbm \<Rightarrow> unit dbm" where
  "discard m = dthen m (ret ())"

text \<open>Reading first and then running an atomic program is atomic.\<close>

lemma dbind_atomic [atomic_intros]:
  assumes "read_only m" "\<And>a. atomic (f a)"
  shows "atomic (dbind m f)"
  unfolding atomic_def
proof (intro allI impI)
  fix w e w'
  assume run: "dbind m f w = (Inl e, w')"
  obtain r w1 where m: "m w = (r, w1)" by (cases "m w")
  have "tb w1 = tb w" by (rule read_onlyD [OF assms(1) m])
  moreover have "tb w' = tb w1"
    using run m assms(2) by (cases r) (auto simp: dbind_def dest: atomicD)
  ultimately show "tb w' = tb w" by simp
qed

lemma dthen_atomic [atomic_intros]: "read_only m \<Longrightarrow> atomic n \<Longrightarrow> atomic (dthen m n)"
  by (simp add: dthen_def dbind_atomic)

lemma dbind_read_only [atomic_intros]:
  "read_only m \<Longrightarrow> (\<And>a. read_only (f a)) \<Longrightarrow> read_only (dbind m f)"
  by (auto simp: read_only_def dbind_def split: prod.splits sum.splits) (metis snd_conv)+

lemma dthen_read_only [atomic_intros]: "read_only m \<Longrightarrow> read_only n \<Longrightarrow> read_only (dthen m n)"
  by (simp add: dthen_def dbind_read_only)

lemma if_atomic [atomic_intros]: "atomic m \<Longrightarrow> atomic n \<Longrightarrow> atomic (if c then m else n)"
  by simp

lemma discard_atomic [atomic_intros]: "atomic m \<Longrightarrow> atomic (discard m)"
  by (auto simp: atomic_def discard_def dthen_def dbind_def ret_def split: prod.splits sum.splits)

lemma discard_Inr [db_simps]: "discard m w = (Inr u, w') \<longleftrightarrow> (\<exists>a. m w = (Inr a, w'))"
  by (auto simp: discard_def db_simps)

section \<open>Running without failures\<close>

lemma query_row_calm:
  "fault_free w \<Longrightarrow> query_row q w =
     (case q (tb w) of [] \<Rightarrow> (Inl ErrNoRows, tick w) | x # _ \<Rightarrow> (Inr x, tick w))"
  by (simp add: query_row_def)

lemma exec_calm:
  "fault_free w \<Longrightarrow> exec s w =
     (case s (current_timestamp (clock w (steps w))) (tb w) of None \<Rightarrow> (Inl ErrConstraint, tick w)
      | Some (t, r) \<Rightarrow> (Inr r, (tick w)\<lparr>tb := t\<rparr>))"
  by (simp add: exec_def)

lemma one_row_calm:
  "fault_free w \<Longrightarrow> one_row r w = (if fst r \<noteq> 1 then (Inl ErrNoRows, tick w) else (Inr (), tick w))"
  by (simp add: one_row_def RowsAffected_def)

lemmas run_defs = dthen_def dbind_def ensure_def ret_def throw_def

end
