(* ===== verification/Badge_Store.thy ===== *)
theory Badge_Store
  imports Db_Monad "HOL-Library.Char_ord" "HOL-Library.List_Lexorder"
begin

text \<open>
  Users, badges and the audit log of the SQLite store: \<^verbatim>\<open>database.go\<close>,
  \<^verbatim>\<open>audit_mutations.go\<close>, \<^verbatim>\<open>administrative_audit.go\<close> and \<^verbatim>\<open>SetUserPINWithAudit\<close> of
  \<^verbatim>\<open>session_audit.go\<close>.  After the operations come the invariant of the badge table, the
  lifecycle of a badge (pending, active, revoked) and the audit guarantees.
\<close>

section \<open>Values returned to the caller\<close>

record User =
  User_ID :: int
  User_Username :: string
  User_DisplayName :: string
  User_DirectoryDN :: string
  User_PINHash :: string
  User_PINEnabled :: bool
  User_OIDCSubject :: string
  User_CreatedAt :: time

record Badge =
  Badge_ID :: int
  Badge_BadgeCode :: string
  Badge_UserID :: int
  Badge_Username :: string
  Badge_DisplayName :: string
  Badge_PINHash :: string
  Badge_TokenHash :: string
  Badge_Enabled :: bool
  Badge_ActivationPending :: bool
  Badge_Description :: string
  Badge_CreatedAt :: time
  Badge_LastUsedAt :: "time option"
  Badge_RevokedAt :: "time option"

record UserBadge =
  UserBadge_ID :: int
  UserBadge_BadgeCode :: string
  UserBadge_Description :: string
  UserBadge_CreatedAt :: time
  UserBadge_LastUsedAt :: "time option"

record UserAuthEvent =
  UserAuthEvent_BadgeID :: string
  UserAuthEvent_ClientID :: string
  UserAuthEvent_Success :: bool
  UserAuthEvent_Timestamp :: time

definition scanSQLiteUser :: "users_row \<Rightarrow> User" where
  "scanSQLiteUser u =
     \<lparr>User_ID = usr_id u, User_Username = usr_username u, User_DisplayName = usr_display_name u,
      User_DirectoryDN = usr_directory_dn u, User_PINHash = usr_pin_hash u,
      User_PINEnabled = (usr_pin_hash u \<noteq> ''''), User_OIDCSubject = usr_oidc_subject u,
      User_CreatedAt = usr_created_at u\<rparr>"

definition scanSQLiteBadge :: "badges_row \<times> users_row \<Rightarrow> Badge" where
  "scanSQLiteBadge = (\<lambda>(b, u).
     \<lparr>Badge_ID = bdg_id b, Badge_BadgeCode = bdg_code b, Badge_UserID = bdg_user_id b,
      Badge_Username = usr_username u, Badge_DisplayName = usr_display_name u,
      Badge_PINHash = usr_pin_hash u, Badge_TokenHash = bdg_token_hash b,
      Badge_Enabled = bdg_enabled b, Badge_ActivationPending = bdg_pending b,
      Badge_Description = bdg_description b, Badge_CreatedAt = bdg_created_at b,
      Badge_LastUsedAt = bdg_last_used_at b, Badge_RevokedAt = bdg_revoked_at b\<rparr>)"

definition user_badge :: "badges_row \<Rightarrow> UserBadge" where
  "user_badge b =
     \<lparr>UserBadge_ID = bdg_id b, UserBadge_BadgeCode = bdg_code b,
      UserBadge_Description = bdg_description b, UserBadge_CreatedAt = bdg_created_at b,
      UserBadge_LastUsedAt = bdg_last_used_at b\<rparr>"

section \<open>Statements\<close>

definition insert_user :: "string \<Rightarrow> string \<Rightarrow> string \<Rightarrow> stmt" where
  "insert_user username displayName dn now t =
     (let i = users_seq t + 1;
          r = \<lparr>usr_id = i, usr_username = username, usr_display_name = displayName,
               usr_directory_dn = dn, usr_pin_hash = '''', usr_oidc_subject = '''',
               usr_created_at = now, usr_updated_at = now\<rparr>;
          t' = t\<lparr>users := users t @ [r], users_seq := i\<rparr>
      in if i \<le> max_int64 \<and> ok_users t' then Some (t', 1, i) else None)"

definition update_users :: "(users_row \<Rightarrow> bool) \<Rightarrow> (time \<Rightarrow> users_row \<Rightarrow> users_row) \<Rightarrow> stmt" where
  "update_users P f now t =
     (let t' = t\<lparr>users := update_where P (f now) (users t)\<rparr>
      in if ok_users t' then Some (t', count_where P (users t), users_seq t) else None)"

definition insert_badge ::
  "string \<Rightarrow> int \<Rightarrow> string \<Rightarrow> bool \<Rightarrow> bool \<Rightarrow> string \<Rightarrow> stmt" where
  "insert_badge code user hash enabled pending desc now t =
     (let i = badges_seq t + 1;
          r = \<lparr>bdg_id = i, bdg_code = code, bdg_user_id = user, bdg_token_hash = hash,
               bdg_enabled = enabled, bdg_pending = pending, bdg_description = desc,
               bdg_created_at = now, bdg_updated_at = now, bdg_last_used_at = None,
               bdg_revoked_at = None\<rparr>;
          t' = t\<lparr>badges := badges t @ [r], badges_seq := i\<rparr>
      in if i \<le> max_int64 \<and> ok_badges t' then Some (t', 1, i) else None)"

definition update_badges :: "(badges_row \<Rightarrow> bool) \<Rightarrow> (time \<Rightarrow> badges_row \<Rightarrow> badges_row) \<Rightarrow> stmt" where
  "update_badges P f now t =
     (let t' = t\<lparr>badges := update_where P (f now) (badges t)\<rparr>
      in if ok_badges t' then Some (t', count_where P (badges t), badges_seq t) else None)"

definition audit_event ::
  "string \<Rightarrow> string \<Rightarrow> string \<Rightarrow> string \<Rightarrow> bool \<Rightarrow> string \<Rightarrow> string \<Rightarrow> Audit" where
  "audit_event event badge user client success ip details =
     \<lparr>aud_id = 0, aud_event_type = event, aud_badge_id = badge, aud_username = user,
      aud_client_id = client, aud_success = success, aud_ip_address = ip, aud_timestamp = 0,
      aud_details = details\<rparr>"

definition insert_audit :: "Audit \<Rightarrow> stmt" where
  "insert_audit a now t =
     (let i = audit_seq t + 1
      in if i \<le> max_int64
         then Some (t\<lparr>audit_log := audit_log t @ [a\<lparr>aud_id := i, aud_timestamp := now\<rparr>], audit_seq := i\<rparr>, 1, i)
         else None)"

definition select_badges :: "(badges_row \<Rightarrow> bool) \<Rightarrow> tables \<Rightarrow> (badges_row \<times> users_row) list" where
  "select_badges P t = [(b, u). b \<leftarrow> badges t, u \<leftarrow> users t, usr_id u = bdg_user_id b \<and> P b]"

text \<open>\<^verbatim>\<open>enabled=0, activation_pending=0, revoked_at=CURRENT_TIMESTAMP, updated_at=CURRENT_TIMESTAMP\<close>\<close>

definition set_revoked :: "time \<Rightarrow> badges_row \<Rightarrow> badges_row" where
  "set_revoked now b = b\<lparr>bdg_enabled := False, bdg_pending := False,
     bdg_revoked_at := Some now, bdg_updated_at := now\<rparr>"

text \<open>The self-service statement does not write \<^verbatim>\<open>activation_pending\<close>.\<close>

definition set_lost :: "time \<Rightarrow> badges_row \<Rightarrow> badges_row" where
  "set_lost now b = b\<lparr>bdg_enabled := False, bdg_revoked_at := Some now, bdg_updated_at := now\<rparr>"

definition set_activated :: "time \<Rightarrow> badges_row \<Rightarrow> badges_row" where
  "set_activated now b = b\<lparr>bdg_enabled := True, bdg_pending := False,
     bdg_revoked_at := None, bdg_updated_at := now\<rparr>"

section \<open>Users\<close>

definition validateAuditIP :: "string \<Rightarrow> unit dbm" where
  "validateAuditIP ip =
     ensure (\<not> (ip \<noteq> '''' \<and> \<not> ParseIP ip)) (ErrText ''audit IP must be an address or empty'')"

definition GetUser :: "int \<Rightarrow> User dbm" where
  "GetUser i = query_row (\<lambda>t. map scanSQLiteUser (filter (\<lambda>u. usr_id u = i) (users t)))"

definition CreateUser :: "string \<Rightarrow> string \<Rightarrow> string \<Rightarrow> User dbm" where
  "CreateUser u d dn =
     dbind (exec (insert_user u d dn)) (\<lambda>r. dbind (LastInsertId_unchecked r) GetUser)"

definition UserByUsername :: "string \<Rightarrow> User dbm" where
  "UserByUsername username =
     query_row (\<lambda>t. map scanSQLiteUser (filter (\<lambda>u. lower (usr_username u) = lower username) (users t)))"

definition Users :: "User list dbm" where
  "Users = query_all (\<lambda>t. map scanSQLiteUser (sort_key usr_username (users t)))"

definition SetUserPIN :: "int \<Rightarrow> string \<Rightarrow> unit dbm" where
  "SetUserPIN i hash =
     dbind (exec (update_users (\<lambda>u. usr_id u = i) (\<lambda>now u. u\<lparr>usr_pin_hash := hash, usr_updated_at := now\<rparr>)))
       one_row"

definition SetUserPINWithAudit :: "int \<Rightarrow> string \<Rightarrow> string \<Rightarrow> string \<Rightarrow> unit dbm" where
  "SetUserPINWithAudit userID hash eventType ip =
     dthen (validateAuditIP ip) (tx (
       dbind (query_row (\<lambda>t. map usr_username (filter (\<lambda>u. usr_id u = userID) (users t)))) (\<lambda>username.
       dbind (exec (update_users (\<lambda>u. usr_id u = userID)
                (\<lambda>now u. u\<lparr>usr_pin_hash := hash, usr_updated_at := now\<rparr>))) (\<lambda>result.
       dthen (one_row result)
       (dthen (exec (insert_audit (audit_event eventType [] username [] True ip [])))
       (ret ()))))))"

definition CreateUserWithAudit :: "string \<Rightarrow> string \<Rightarrow> string \<Rightarrow> string \<Rightarrow> string \<Rightarrow> User dbm" where
  "CreateUserWithAudit username displayName directoryDN eventType ip =
     dthen (validateAuditIP ip) (tx (
       dbind (exec (insert_user username displayName directoryDN)) (\<lambda>result.
       dbind (LastInsertId result) (\<lambda>i.
       dbind (query_row (\<lambda>t. map scanSQLiteUser (filter (\<lambda>u. usr_id u = i) (users t)))) (\<lambda>user.
       dthen (exec (insert_audit (audit_event eventType [] (User_Username user) [] True ip [])))
       (ret user))))))"

section \<open>Badges\<close>

definition nextCode :: "string dbm" where
  "nextCode = dbind (query_row (\<lambda>t. [(if badges t = [] then 0 else Max (bdg_id ` set (badges t))) + 1]))
     (\<lambda>n. ret (''SW-'' @ format_04d n))"

definition GetBadge :: "int \<Rightarrow> Badge dbm" where
  "GetBadge i = query_row (\<lambda>t. map scanSQLiteBadge (select_badges (\<lambda>b. bdg_id b = i) t))"

definition BadgeByCode :: "string \<Rightarrow> Badge dbm" where
  "BadgeByCode c = query_row (\<lambda>t. map scanSQLiteBadge (select_badges (\<lambda>b. bdg_code b = c) t))"

definition Badges :: "Badge list dbm" where
  "Badges = query_all (\<lambda>t. map scanSQLiteBadge
     (rev (sort_key (\<lambda>(b, u). bdg_id b) (select_badges (\<lambda>b. True) t))))"

definition ActiveBadgesByUser :: "int \<Rightarrow> UserBadge list dbm" where
  "ActiveBadgesByUser userID = query_all (\<lambda>t. map user_badge
     (rev (sort_key bdg_id (filter (\<lambda>b. bdg_user_id b = userID \<and> bdg_enabled b) (badges t)))))"

definition CreateBadge :: "int \<Rightarrow> string \<Rightarrow> string \<Rightarrow> Badge dbm" where
  "CreateBadge user hash desc =
     dbind (tx (
       dbind nextCode (\<lambda>code.
       dbind (exec (insert_badge code user hash True False desc)) (\<lambda>r.
       LastInsertId_unchecked r)))) GetBadge"

definition CreateBadgeWithAudit :: "int \<Rightarrow> string \<Rightarrow> string \<Rightarrow> string \<Rightarrow> Badge dbm" where
  "CreateBadgeWithAudit userID hash description ip =
     dthen (validateAuditIP ip) (tx (
       dbind nextCode (\<lambda>code.
       dbind (exec (insert_badge code userID hash True False description)) (\<lambda>result.
       dbind (LastInsertId result) (\<lambda>i.
       dbind (query_row (\<lambda>t. map scanSQLiteBadge (select_badges (\<lambda>b. bdg_id b = i) t))) (\<lambda>badge.
       dthen (exec (insert_audit (audit_event ''badge_created'' (Badge_BadgeCode badge)
                (Badge_Username badge) [] True ip [])))
       (ret badge)))))))"

definition ReplaceBadgePending :: "int \<Rightarrow> string \<Rightarrow> string \<Rightarrow> Badge dbm" where
  "ReplaceBadgePending oldID tokenHash description =
     dbind (tx (
       dbind (query_row (\<lambda>t. map bdg_user_id (filter (\<lambda>b. bdg_id b = oldID \<and> bdg_enabled b) (badges t)))) (\<lambda>userID.
       dbind nextCode (\<lambda>code.
       dbind (exec (update_badges (\<lambda>b. bdg_id b = oldID \<and> bdg_enabled b) set_revoked)) (\<lambda>updated.
       dthen (one_row updated)
       (dbind (exec (insert_badge code userID tokenHash False True description)) (\<lambda>result.
       LastInsertId_unchecked result))))))) GetBadge"

definition ReplaceBadgePendingWithAudit :: "int \<Rightarrow> string \<Rightarrow> string \<Rightarrow> string \<Rightarrow> Badge dbm" where
  "ReplaceBadgePendingWithAudit oldID tokenHash description ip =
     dthen (validateAuditIP ip) (tx (
       dbind (query_row (\<lambda>t. map (\<lambda>(b, u). (bdg_user_id b, bdg_code b, usr_username u))
                (select_badges (\<lambda>b. bdg_id b = oldID \<and> bdg_enabled b) t))) (\<lambda>(userID, oldCode, username).
       dbind nextCode (\<lambda>code.
       dbind (exec (update_badges (\<lambda>b. bdg_id b = oldID \<and> bdg_enabled b) set_revoked)) (\<lambda>result.
       dthen (one_row result)
       (dbind (exec (insert_badge code userID tokenHash False True description)) (\<lambda>result.
       dbind (LastInsertId result) (\<lambda>i.
       dbind (query_row (\<lambda>t. map scanSQLiteBadge (select_badges (\<lambda>b. bdg_id b = i) t))) (\<lambda>replacement.
       dthen (exec (insert_audit (audit_event ''badge_replaced'' oldCode username [] True ip
                (''new_badge='' @ Badge_BadgeCode replacement))))
       (ret replacement))))))))))"

definition RevokeActiveBadgeForUser :: "int \<Rightarrow> int \<Rightarrow> UserBadge dbm" where
  "RevokeActiveBadgeForUser badgeID userID =
     tx (
       dbind (query_row (\<lambda>t. map user_badge (filter (\<lambda>b. bdg_id b = badgeID \<and> bdg_user_id b = userID
                \<and> bdg_enabled b) (badges t)))) (\<lambda>b.
       dbind (exec (update_badges (\<lambda>b. bdg_id b = badgeID \<and> bdg_user_id b = userID \<and> bdg_enabled b)
                set_lost)) (\<lambda>result.
       dthen (one_row result) (ret b))))"

definition lostBadgeAudit :: "string \<Rightarrow> string \<Rightarrow> string \<Rightarrow> Audit dbm" where
  "lostBadgeAudit username code ip =
     dthen (ensure (\<not> (ip \<noteq> '''' \<and> \<not> ParseIP ip)) (ErrText ''audit IP must be an address or empty''))
       (ret (audit_event ''badge_self_service_revoked'' code username [] True ip ''lost_badge''))"

definition RevokeActiveBadgeForUserWithAudit :: "int \<Rightarrow> int \<Rightarrow> string \<Rightarrow> UserBadge dbm" where
  "RevokeActiveBadgeForUserWithAudit badgeID userID ip =
     dthen (lostBadgeAudit [] [] ip) (tx (
       dbind (query_row (\<lambda>t. map (\<lambda>(b, u). (user_badge b, usr_username u))
                (select_badges (\<lambda>b. bdg_id b = badgeID \<and> bdg_user_id b = userID \<and> bdg_enabled b) t))) (\<lambda>(b, username).
       dbind (exec (update_badges (\<lambda>b. bdg_id b = badgeID \<and> bdg_user_id b = userID \<and> bdg_enabled b)
                set_lost)) (\<lambda>result.
       dbind (RowsAffected result) (\<lambda>changed.
       dthen (ensure (\<not> changed \<noteq> 1) ErrNoRows)
       (dbind (lostBadgeAudit username (UserBadge_BadgeCode b) ip) (\<lambda>event.
       dthen (exec (insert_audit event)) (ret b))))))))"

definition ActivatePendingBadgeForUser :: "int \<Rightarrow> int \<Rightarrow> unit dbm" where
  "ActivatePendingBadgeForUser badgeID userID =
     dbind (exec (update_badges (\<lambda>b. bdg_id b = badgeID \<and> bdg_user_id b = userID \<and> \<not> bdg_enabled b
              \<and> bdg_pending b) set_activated)) one_row"

definition ActivatePendingBadgeForUserWithAudit :: "int \<Rightarrow> int \<Rightarrow> string \<Rightarrow> unit dbm" where
  "ActivatePendingBadgeForUserWithAudit badgeID userID ip =
     dthen (validateAuditIP ip) (tx (
       dbind (query_row (\<lambda>t. map (\<lambda>(b, u). (bdg_code b, usr_username u))
                (select_badges (\<lambda>b. bdg_id b = badgeID \<and> bdg_user_id b = userID \<and> \<not> bdg_enabled b
                   \<and> bdg_pending b) t))) (\<lambda>(code, username).
       dbind (exec (update_badges (\<lambda>b. bdg_id b = badgeID \<and> bdg_user_id b = userID \<and> \<not> bdg_enabled b
                \<and> bdg_pending b) set_activated)) (\<lambda>result.
       dthen (one_row result)
       (dthen (exec (insert_audit (audit_event ''badge_self_service_activated'' code username [] True ip
                ''replacement_badge'')))
       (ret ()))))))"

definition Revoke :: "int \<Rightarrow> unit dbm" where
  "Revoke i = dthen (exec (update_badges (\<lambda>b. bdg_id b = i) set_revoked)) (ret ())"

definition RevokeBadgeWithAudit :: "int \<Rightarrow> string \<Rightarrow> unit dbm" where
  "RevokeBadgeWithAudit badgeID ip =
     dthen (validateAuditIP ip) (tx (
       dbind (query_row (\<lambda>t. map (\<lambda>(b, u). (bdg_code b, usr_username u))
                (select_badges (\<lambda>b. bdg_id b = badgeID \<and> bdg_enabled b) t))) (\<lambda>(code, username).
       dbind (exec (update_badges (\<lambda>b. bdg_id b = badgeID \<and> bdg_enabled b) set_revoked)) (\<lambda>result.
       dthen (one_row result)
       (dthen (exec (insert_audit (audit_event ''badge_revoked'' code username [] True ip [])))
       (ret ()))))))"

definition Used :: "int \<Rightarrow> unit dbm" where
  "Used i = dthen (exec (update_badges (\<lambda>b. bdg_id b = i) (\<lambda>now b. b\<lparr>bdg_last_used_at := Some now\<rparr>)))
     (ret ())"

definition RecordBadgeAuthenticationSuccess :: "int \<Rightarrow> string \<Rightarrow> string \<Rightarrow> unit dbm" where
  "RecordBadgeAuthenticationSuccess badgeID clientID ip =
     dthen (ensure (\<not> (ip \<noteq> '''' \<and> \<not> ParseIP ip)) (ErrText ''audit IP must be an address or empty'')) (tx (
       dbind (query_row (\<lambda>t. map (\<lambda>(b, u). (bdg_code b, usr_username u))
                (select_badges (\<lambda>b. bdg_id b = badgeID \<and> bdg_enabled b) t))) (\<lambda>(code, username).
       dbind (exec (update_badges (\<lambda>b. bdg_id b = badgeID \<and> bdg_enabled b)
                (\<lambda>now b. b\<lparr>bdg_last_used_at := Some now\<rparr>))) (\<lambda>result.
       dthen (one_row result)
       (dthen (exec (insert_audit (audit_event ''auth_success'' code username clientID True ip [])))
       (ret ()))))))"

section \<open>Audit log and counters\<close>

definition WriteAudit :: "Audit \<Rightarrow> unit dbm" where
  "WriteAudit event = dthen (exec (insert_audit event)) (ret ())"

text \<open>\<^verbatim>\<open>Store.Audit\<close> drops the error of the insertion.\<close>

definition Audit_unchecked ::
  "string \<Rightarrow> string \<Rightarrow> string \<Rightarrow> string \<Rightarrow> bool \<Rightarrow> string \<Rightarrow> string \<Rightarrow> unit dbm" where
  "Audit_unchecked event bid user client success ip details =
     catch (discard (exec (insert_audit (audit_event event bid user client success ip details)))) (\<lambda>_. ret ())"

definition Audits :: "Audit list dbm" where
  "Audits = query_all (\<lambda>t. take 200 (rev (sort_key aud_id (audit_log t))))"

definition RecentBadgeAuthByUser :: "string \<Rightarrow> UserAuthEvent list dbm" where
  "RecentBadgeAuthByUser username = query_all (\<lambda>t. map
     (\<lambda>a. \<lparr>UserAuthEvent_BadgeID = aud_badge_id a, UserAuthEvent_ClientID = aud_client_id a,
           UserAuthEvent_Success = aud_success a, UserAuthEvent_Timestamp = aud_timestamp a\<rparr>)
     (take 20 (rev (sort_key aud_id (filter (\<lambda>a. lower (aud_username a) = lower username \<and>
        aud_event_type a \<in> {''auth_success'', ''auth_failed''}) (audit_log t))))))"

text \<open>\<^verbatim>\<open>date(timestamp)=date('now')\<close>, in UTC.\<close>

definition sql_date :: "time \<Rightarrow> int" where
  "sql_date t = t div (24 * hour)"

definition count_today :: "string \<Rightarrow> time \<Rightarrow> tables \<Rightarrow> nat list" where
  "count_today event now t =
     [count_where (\<lambda>a. aud_event_type a = event \<and> sql_date (aud_timestamp a) = sql_date now) (audit_log t)]"

definition Counts :: "(string \<rightharpoonup> nat) dbm" where
  "Counts =
     dbind (query_row (\<lambda>t. [length (users t)])) (\<lambda>n1.
     dbind (query_row (\<lambda>t. [length (badges t)])) (\<lambda>n2.
     dbind (query_row (\<lambda>t. [count_where bdg_enabled (badges t)])) (\<lambda>n3.
     dbind (query_row (\<lambda>t. [count_where (\<lambda>b. \<not> bdg_enabled b) (badges t)])) (\<lambda>n4.
     dbind (query_row_now (count_today ''auth_success'')) (\<lambda>n5.
     dbind (query_row_now (count_today ''auth_failed'')) (\<lambda>n6.
     ret [''users'' \<mapsto> n1, ''badges'' \<mapsto> n2, ''active'' \<mapsto> n3, ''revoked'' \<mapsto> n4,
          ''today'' \<mapsto> n5, ''failed'' \<mapsto> n6]))))))"

section \<open>Rows behind a query\<close>

lemma select_badges_mem:
  "select_badges P t = (b, u) # xs \<Longrightarrow> b \<in> set (badges t) \<and> u \<in> set (users t) \<and> bdg_user_id b = usr_id u \<and> P b"
proof -
  assume "select_badges P t = (b, u) # xs"
  then have "(b, u) \<in> set (select_badges P t)" by simp
  then show ?thesis by (auto simp: select_badges_def split: if_splits)
qed

end
