(* ===== verification/Contracts.thy ===== *)
theory Contracts
  imports Db_Monad
begin

text \<open>
  Interfaces the component theories instantiate.

  \<^item> \<open>table_contract\<close>: an invariant of the tables and a relation between the tables before
    and after; a program that keeps the contract preserves the invariant and stays inside the
    relation, whether it returns or fails.  The locale composes programs and sequences.
  \<^item> \<open>single_use\<close>: a resource that can be won at most once, whatever is tried in between.
  \<^item> \<open>lifecycle\<close>: states that only move forward.
\<close>

definition keeps :: "(tables \<Rightarrow> bool) \<Rightarrow> (tables \<Rightarrow> tables \<Rightarrow> bool) \<Rightarrow> 'a dbm \<Rightarrow> bool" where
  "keeps I R m \<longleftrightarrow> (\<forall>w r w'. I (tb w) \<longrightarrow> m w = (r, w') \<longrightarrow> R (tb w) (tb w'))"

definition keeps_stmt :: "(tables \<Rightarrow> bool) \<Rightarrow> (tables \<Rightarrow> tables \<Rightarrow> bool) \<Rightarrow> stmt \<Rightarrow> bool" where
  "keeps_stmt I R s \<longleftrightarrow> (\<forall>now t t' r. I t \<longrightarrow> s now t = Some (t', r) \<longrightarrow> R t t')"

text \<open>The same for the runs that return a value.\<close>

definition keeps_ok :: "(tables \<Rightarrow> bool) \<Rightarrow> (tables \<Rightarrow> tables \<Rightarrow> bool) \<Rightarrow> 'a dbm \<Rightarrow> bool" where
  "keeps_ok I R m \<longleftrightarrow> (\<forall>w a w'. I (tb w) \<longrightarrow> m w = (Inr a, w') \<longrightarrow> R (tb w) (tb w'))"

text \<open>Running programs one after the other, results and errors ignored.\<close>

fun run_all :: "('op \<Rightarrow> 'a dbm) \<Rightarrow> 'op list \<Rightarrow> world \<Rightarrow> world" where
  "run_all f [] w = w"
| "run_all f (x # xs) w = run_all f xs (snd (f x w))"

lemma keepsI:
  "(\<And>w r w'. I (tb w) \<Longrightarrow> m w = (r, w') \<Longrightarrow> R (tb w) (tb w')) \<Longrightarrow> keeps I R m"
  by (simp add: keeps_def)

lemma keepsD: "keeps I R m \<Longrightarrow> I (tb w) \<Longrightarrow> m w = (r, w') \<Longrightarrow> R (tb w) (tb w')"
  by (simp add: keeps_def)

lemma keeps_okI:
  "(\<And>w a w'. I (tb w) \<Longrightarrow> m w = (Inr a, w') \<Longrightarrow> R (tb w) (tb w')) \<Longrightarrow> keeps_ok I R m"
  by (simp add: keeps_ok_def)

lemma keeps_okD: "keeps_ok I R m \<Longrightarrow> I (tb w) \<Longrightarrow> m w = (Inr a, w') \<Longrightarrow> R (tb w) (tb w')"
  by (simp add: keeps_ok_def)

lemma keeps_stmtI:
  "(\<And>now t t' r. I t \<Longrightarrow> s now t = Some (t', r) \<Longrightarrow> R t t') \<Longrightarrow> keeps_stmt I R s"
  by (simp add: keeps_stmt_def)

lemma keeps_stmtD: "keeps_stmt I R s \<Longrightarrow> I t \<Longrightarrow> s now t = Some (t', r) \<Longrightarrow> R t t'"
  unfolding keeps_stmt_def by blast

locale table_contract =
  fixes I :: "tables \<Rightarrow> bool" and R :: "tables \<Rightarrow> tables \<Rightarrow> bool"
  assumes R_refl: "I t \<Longrightarrow> R t t"
    and R_trans: "I t \<Longrightarrow> R t t' \<Longrightarrow> R t' t'' \<Longrightarrow> R t t''"
    and R_inv: "I t \<Longrightarrow> R t t' \<Longrightarrow> I t'"
begin

lemma keeps_read_only: "read_only m \<Longrightarrow> keeps I R m"
  by (rule keepsI) (metis R_refl read_onlyD)

lemma keeps_dbind:
  assumes "keeps I R m" "\<And>a. keeps I R (f a)"
  shows "keeps I R (dbind m f)"
proof (rule keepsI)
  fix w r w'
  assume inv: "I (tb w)" and run: "dbind m f w = (r, w')"
  obtain r1 w1 where m: "m w = (r1, w1)" by (cases "m w")
  have R1: "R (tb w) (tb w1)" by (rule keepsD [OF assms(1) inv m])
  show "R (tb w) (tb w')"
  proof (cases r1)
    case (Inl e)
    with run m R1 show ?thesis by (simp add: dbind_def)
  next
    case (Inr a)
    with run m have "f a w1 = (r, w')" by (simp add: dbind_def)
    then have "R (tb w1) (tb w')" by (rule keepsD [OF assms(2) R_inv [OF inv R1]])
    with inv R1 show ?thesis by (rule R_trans)
  qed
qed

lemma keeps_dthen: "keeps I R m \<Longrightarrow> keeps I R n \<Longrightarrow> keeps I R (dthen m n)"
  by (simp add: dthen_def keeps_dbind)

lemma keeps_catch:
  assumes "keeps I R m" "\<And>e. keeps I R (h e)"
  shows "keeps I R (catch m h)"
proof (rule keepsI)
  fix w r w'
  assume inv: "I (tb w)" and run: "catch m h w = (r, w')"
  obtain r1 w1 where m: "m w = (r1, w1)" by (cases "m w")
  have R1: "R (tb w) (tb w1)" by (rule keepsD [OF assms(1) inv m])
  show "R (tb w) (tb w')"
  proof (cases r1)
    case (Inr a)
    with run m R1 show ?thesis by (simp add: catch_def)
  next
    case (Inl e)
    with run m have "h e w1 = (r, w')" by (simp add: catch_def)
    then have "R (tb w1) (tb w')" by (rule keepsD [OF assms(2) R_inv [OF inv R1]])
    with inv R1 show ?thesis by (rule R_trans)
  qed
qed

lemma keeps_discard: "keeps I R m \<Longrightarrow> keeps I R (discard m)"
  by (simp add: discard_def keeps_dthen keeps_read_only atomic_intros)

lemma keeps_exec_returning:
  assumes "\<And>now t t' xs. I t \<Longrightarrow> s now t = Some (t', xs) \<Longrightarrow> R t t'"
  shows "keeps I R (exec_returning s)"
  by (rule keepsI) (auto simp: exec_returning_def R_refl dest: assms split: if_splits option.splits list.splits)

text \<open>A check at the start of a program may be used in the rest.\<close>

lemma keeps_guard: "(c \<Longrightarrow> keeps I R m) \<Longrightarrow> keeps I R (dthen (ensure c e) m)"
  by (rule keepsI) (auto simp: run_defs R_refl dest: keepsD split: if_splits)

lemma keeps_exec: "keeps_stmt I R s \<Longrightarrow> keeps I R (exec s)"
  by (rule keepsI) (auto simp: exec_def R_refl dest: keeps_stmtD split: if_splits option.splits)

text \<open>Inside a transaction only the runs that commit matter.\<close>

lemma keeps_ok_keeps: "keeps I R m \<Longrightarrow> keeps_ok I R m"
  by (auto simp: keeps_def keeps_ok_def)

lemma keeps_ok_dbind:
  assumes "keeps_ok I R m" "\<And>a. keeps_ok I R (f a)"
  shows "keeps_ok I R (dbind m f)"
proof (rule keeps_okI)
  fix w b w'
  assume inv: "I (tb w)" and run: "dbind m f w = (Inr b, w')"
  then obtain a w1 where m: "m w = (Inr a, w1)" and f: "f a w1 = (Inr b, w')"
    by (auto simp: dbind_Inr)
  have R1: "R (tb w) (tb w1)" by (rule keeps_okD [OF assms(1) inv m])
  then have "R (tb w1) (tb w')" by (rule keeps_okD [OF assms(2) R_inv [OF inv] f])
  with inv R1 show "R (tb w) (tb w')" by (rule R_trans)
qed

lemma keeps_tx:
  assumes "keeps_ok I R m"
  shows "keeps I R (tx m)"
proof (rule keepsI)
  fix w r w'
  assume inv: "I (tb w)" and run: "tx m w = (r, w')"
  show "R (tb w) (tb w')"
  proof (cases r)
    case (Inl e)
    with run have "tb w' = tb w" using atomicD [OF tx_atomic] by blast
    with inv show ?thesis by (simp add: R_refl)
  next
    case (Inr a)
    with run obtain w1 where "m (tick w) = (Inr a, w1)" "w' = tick w1"
      by (auto simp: tx_Inr)
    with inv keeps_okD [OF assms, of "tick w" a w1] show ?thesis by simp
  qed
qed

lemma keeps_tx': "keeps I R m \<Longrightarrow> keeps I R (tx m)"
  by (rule keeps_tx) (rule keeps_ok_keeps)

lemma keeps_run_all:
  assumes "\<And>op. keeps I R (f op)" "I (tb w)"
  shows "R (tb w) (tb (run_all f ops w))"
  using assms(2)
proof (induction ops arbitrary: w)
  case Nil
  then show ?case by (simp add: R_refl)
next
  case (Cons op ops)
  obtain r w1 where run: "f op w = (r, w1)" by (cases "f op w")
  have R1: "R (tb w) (tb w1)" by (rule keepsD [OF assms(1) Cons.prems run])
  then have "R (tb w1) (tb (run_all f ops w1))" by (rule Cons.IH [OF R_inv [OF Cons.prems]])
  with Cons.prems R1 run show ?case by (auto intro: R_trans)
qed

lemma keeps_run_all_inv:
  "(\<And>op. keeps I R (f op)) \<Longrightarrow> I (tb w) \<Longrightarrow> I (tb (run_all f ops w))"
  using R_inv keeps_run_all by blast

lemmas keeps_intros =
  keeps_dbind keeps_dthen keeps_tx' keeps_catch keeps_discard keeps_exec keeps_read_only

end

section \<open>Tables that only grow\<close>

text \<open>Every old row is still there, changed only as \<open>E\<close> allows, and new rows follow.\<close>

definition grows :: "('a \<Rightarrow> 'a \<Rightarrow> bool) \<Rightarrow> 'a list \<Rightarrow> 'a list \<Rightarrow> bool" where
  "grows E xs ys \<longleftrightarrow> (\<exists>zs new. ys = zs @ new \<and> list_all2 E xs zs)"

lemma grows_rows: "list_all2 E xs ys \<Longrightarrow> grows E xs ys"
  unfolding grows_def by (metis append_Nil2)

lemma grows_append: "list_all2 E xs zs \<Longrightarrow> grows E xs (zs @ new)"
  unfolding grows_def by blast

lemma grows_refl: "(\<And>x. x \<in> set xs \<Longrightarrow> E x x) \<Longrightarrow> grows E xs xs"
  by (intro grows_rows list.rel_refl_strong)

lemma grows_trans:
  assumes E: "\<And>a b c. E a b \<Longrightarrow> E b c \<Longrightarrow> E a c" and "grows E xs ys" "grows E ys zs"
  shows "grows E xs zs"
proof -
  obtain ys1 new where ys: "ys = ys1 @ new" "list_all2 E xs ys1"
    using assms(2) by (auto simp: grows_def)
  obtain zs1 new' where zs: "zs = zs1 @ new'" "list_all2 E ys zs1"
    using assms(3) by (auto simp: grows_def)
  then obtain a b where "zs1 = a @ b" "list_all2 E ys1 a"
    using ys by (auto simp: list_all2_append1)
  with ys zs have "zs = a @ (b @ new')" "list_all2 E xs a"
    using list_all2_trans [OF E] by auto
  then show ?thesis by (simp add: grows_append)
qed

lemma grows_update_where:
  "(\<And>x. x \<in> set xs \<Longrightarrow> E x (if P x then f x else x)) \<Longrightarrow> list_all2 E xs (update_where P f xs)"
  by (auto simp: update_where_def list_all2_conv_all_nth)

lemma grows_update:
  "(\<And>x. x \<in> set xs \<Longrightarrow> P x \<Longrightarrow> E x (f x)) \<Longrightarrow> (\<And>x. x \<in> set xs \<Longrightarrow> E x x) \<Longrightarrow>
   grows E xs (update_where P f xs)"
  by (rule grows_rows, rule grows_update_where) simp

lemma grows_new: "(\<And>x. x \<in> set xs \<Longrightarrow> E x x) \<Longrightarrow> grows E xs (xs @ new)"
  by (intro grows_append list.rel_refl_strong)

lemma grows_mem: "grows E xs ys \<Longrightarrow> x \<in> set xs \<Longrightarrow> \<exists>y \<in> set ys. E x y"
  unfolding grows_def by (auto simp: list_all2_conv_all_nth in_set_conv_nth)
    (metis in_set_conv_nth nth_mem UnI1)

section \<open>Resources that can be won once\<close>

text \<open>
  \<open>step op s\<close> runs an attempt or any other operation; \<open>won op r k\<close> says that this
  attempt obtained resource \<open>k\<close>; \<open>spent s k\<close> that \<open>k\<close> cannot be obtained any more.
\<close>

fun wins :: "('op \<Rightarrow> 's \<Rightarrow> 'r \<times> 's) \<Rightarrow> ('op \<Rightarrow> 'r \<Rightarrow> 'k \<Rightarrow> bool) \<Rightarrow> 'op list \<Rightarrow> 's \<Rightarrow> 'k \<Rightarrow> nat" where
  "wins step won [] s k = 0"
| "wins step won (x # xs) s k =
     (case step x s of (r, s') \<Rightarrow> (if won x r k then 1 else 0) + wins step won xs s' k)"

text \<open>
  \<open>allowed op k\<close> excludes the operations that would create \<open>k\<close> anew; \<open>single_use\<close> is the
  case in which no operation can.
\<close>

locale limited_use =
  fixes step :: "'op \<Rightarrow> 's \<Rightarrow> 'r \<times> 's"
    and won :: "'op \<Rightarrow> 'r \<Rightarrow> 'k \<Rightarrow> bool"
    and spent :: "'s \<Rightarrow> 'k \<Rightarrow> bool"
    and wf :: "'s \<Rightarrow> bool"
    and allowed :: "'op \<Rightarrow> 'k \<Rightarrow> bool"
  assumes step_wf: "wf s \<Longrightarrow> step op s = (r, s') \<Longrightarrow> wf s'"
    and won_fresh: "wf s \<Longrightarrow> step op s = (r, s') \<Longrightarrow> won op r k \<Longrightarrow> \<not> spent s k"
    and won_spends: "wf s \<Longrightarrow> step op s = (r, s') \<Longrightarrow> won op r k \<Longrightarrow> spent s' k"
    and spent_stays: "wf s \<Longrightarrow> step op s = (r, s') \<Longrightarrow> allowed op k \<Longrightarrow> spent s k \<Longrightarrow> spent s' k"
begin

lemma no_wins_when_spent:
  "wf s \<Longrightarrow> spent s k \<Longrightarrow> \<forall>op \<in> set ops. allowed op k \<Longrightarrow> wins step won ops s k = 0"
proof (induction ops arbitrary: s)
  case (Cons op ops)
  obtain r s' where st: "step op s = (r, s')" by (cases "step op s")
  have "\<not> won op r k" using won_fresh [OF Cons.prems(1) st] Cons.prems(2) by blast
  moreover have "wins step won ops s' k = 0"
    using Cons.IH [OF step_wf [OF Cons.prems(1) st] spent_stays [OF Cons.prems(1) st _ Cons.prems(2)]]
      Cons.prems(3) by simp
  ultimately show ?case using st by simp
qed simp

lemma wins_at_most_once_if:
  "wf s \<Longrightarrow> \<forall>op \<in> set ops. allowed op k \<Longrightarrow> wins step won ops s k \<le> 1"
proof (induction ops arbitrary: s)
  case (Cons op ops)
  obtain r s' where st: "step op s = (r, s')" by (cases "step op s")
  show ?case
  proof (cases "won op r k")
    case True
    then have "spent s' k" by (rule won_spends [OF Cons.prems(1) st])
    then have "wins step won ops s' k = 0"
      using no_wins_when_spent [OF step_wf [OF Cons.prems(1) st]] Cons.prems(2) by simp
    with True st show ?thesis by simp
  next
    case False
    with st Cons.IH [OF step_wf [OF Cons.prems(1) st]] Cons.prems(2) show ?thesis by simp
  qed
qed simp

end

locale single_use =
  fixes step :: "'op \<Rightarrow> 's \<Rightarrow> 'r \<times> 's"
    and won :: "'op \<Rightarrow> 'r \<Rightarrow> 'k \<Rightarrow> bool"
    and spent :: "'s \<Rightarrow> 'k \<Rightarrow> bool"
    and wf :: "'s \<Rightarrow> bool"
  assumes single_wf: "wf s \<Longrightarrow> step op s = (r, s') \<Longrightarrow> wf s'"
    and single_fresh: "wf s \<Longrightarrow> step op s = (r, s') \<Longrightarrow> won op r k \<Longrightarrow> \<not> spent s k"
    and single_spends: "wf s \<Longrightarrow> step op s = (r, s') \<Longrightarrow> won op r k \<Longrightarrow> spent s' k"
    and single_stays: "wf s \<Longrightarrow> step op s = (r, s') \<Longrightarrow> spent s k \<Longrightarrow> spent s' k"

sublocale single_use \<subseteq> limited_use step won spent wf "\<lambda>_ _. True"
  by unfold_locales (blast intro: single_wf single_spends single_stays dest: single_fresh)+

context single_use
begin

lemma wins_at_most_once: "wf s \<Longrightarrow> wins step won ops s k \<le> 1"
  by (rule wins_at_most_once_if) simp_all

end

section \<open>Lifecycles\<close>

text \<open>A rank that no step decreases and whose top states are final.\<close>

locale lifecycle =
  fixes trans :: "'st \<Rightarrow> 'st \<Rightarrow> bool" and rank :: "'st \<Rightarrow> nat" and final :: "'st \<Rightarrow> bool"
  assumes forward: "trans a b \<Longrightarrow> a \<noteq> b \<Longrightarrow> rank a < rank b"
    and final_stays: "final a \<Longrightarrow> trans a b \<Longrightarrow> b = a"
begin

lemma final_star: "trans\<^sup>*\<^sup>* a b \<Longrightarrow> final a \<Longrightarrow> b = a"
  by (induction rule: rtranclp_induct) (auto dest: final_stays)

lemma rank_star: "trans\<^sup>*\<^sup>* a b \<Longrightarrow> a = b \<or> rank a < rank b"
proof (induction rule: rtranclp_induct)
  case (step b c)
  then show ?case using forward [of b c] by (cases "b = c") auto
qed simp

text \<open>No state is entered twice: a lifecycle has no cycle.\<close>

lemma acyclic_star: "trans\<^sup>*\<^sup>* a b \<Longrightarrow> trans\<^sup>*\<^sup>* b a \<Longrightarrow> a = b"
  using rank_star [of a b] rank_star [of b a] by auto

end

end
