(* ===== verification/Badge_Lifecycle.thy ===== *)
theory Badge_Lifecycle
  imports Badge_Store Contracts
begin

text \<open>
  The invariant of the badge table, the lifecycle of one badge and their preservation by every
  operation of the store, for every failure of the database.  The lifecycle is the abstract
  specification: a badge is pending, active or revoked, and revoked is final.
\<close>

section \<open>Lifecycle of one badge\<close>

datatype badge_status = BadgePending | BadgeActive | BadgeRevoked

definition badge_status :: "badges_row \<Rightarrow> badge_status" where
  "badge_status b =
     (if bdg_enabled b then BadgeActive else if bdg_pending b then BadgePending else BadgeRevoked)"

inductive badge_trans :: "badge_status \<Rightarrow> badge_status \<Rightarrow> bool" where
  stay: "badge_trans s s"
| activate: "badge_trans BadgePending BadgeActive"
| revoke_active: "badge_trans BadgeActive BadgeRevoked"
| revoke_pending: "badge_trans BadgePending BadgeRevoked"

inductive_simps badge_trans_simps [simp]:
  "badge_trans BadgeRevoked s" "badge_trans BadgeActive s" "badge_trans BadgePending s"

fun badge_rank :: "badge_status \<Rightarrow> nat" where
  "badge_rank BadgePending = 0"
| "badge_rank BadgeActive = 1"
| "badge_rank BadgeRevoked = 2"

interpretation badge_life: lifecycle badge_trans badge_rank "\<lambda>s. s = BadgeRevoked"
  by unfold_locales (auto elim: badge_trans.cases)

text \<open>The transitions are closed under composition, so one step covers a whole history.\<close>

lemma badge_trans_trans: "badge_trans a b \<Longrightarrow> badge_trans b c \<Longrightarrow> badge_trans a c"
  by (cases a; cases b) auto

section \<open>Invariant and evolution of the table\<close>

definition badge_code_of :: "int \<Rightarrow> string" where
  "badge_code_of i = ''SW-'' @ format_04d i"

definition badge_inv :: "tables \<Rightarrow> bool" where
  "badge_inv t \<longleftrightarrow> ok_users t \<and> ok_badges t \<and> 0 \<le> badges_seq t \<and>
     map bdg_id (badges t) = [1..badges_seq t] \<and>
     (\<forall>b \<in> set (badges t). bdg_code b = badge_code_of (bdg_id b) \<and> \<not> (bdg_enabled b \<and> bdg_pending b))"

text \<open>What may happen to one row: its identity is fixed and its status moves forward.\<close>

definition row_evolves :: "badges_row \<Rightarrow> badges_row \<Rightarrow> bool" where
  "row_evolves b b' \<longleftrightarrow>
     bdg_id b' = bdg_id b \<and> bdg_code b' = bdg_code b \<and> bdg_user_id b' = bdg_user_id b \<and>
     bdg_token_hash b' = bdg_token_hash b \<and> \<not> (bdg_enabled b' \<and> bdg_pending b') \<and>
     badge_trans (badge_status b) (badge_status b')"

definition badges_evolve :: "tables \<Rightarrow> tables \<Rightarrow> bool" where
  "badges_evolve t t' \<longleftrightarrow> badge_inv t' \<and> grows row_evolves (badges t) (badges t')"

lemma row_evolves_refl: "\<not> (bdg_enabled b \<and> bdg_pending b) \<Longrightarrow> row_evolves b b"
  by (simp add: row_evolves_def badge_trans.stay)

lemma row_evolves_trans: "row_evolves a b \<Longrightarrow> row_evolves b c \<Longrightarrow> row_evolves a c"
  by (auto simp: row_evolves_def intro: badge_trans_trans)

lemma badge_rows_refl: "badge_inv t \<Longrightarrow> list_all2 row_evolves (badges t) (badges t)"
  by (intro list.rel_refl_strong row_evolves_refl) (simp add: badge_inv_def)

interpretation badge_contract: table_contract badge_inv badges_evolve
  by unfold_locales
    (auto simp: badges_evolve_def intro: grows_rows badge_rows_refl grows_trans [OF row_evolves_trans])

section \<open>Statements keep the contract\<close>

abbreviation badge_stmt :: "stmt \<Rightarrow> bool" where
  "badge_stmt \<equiv> keeps_stmt badge_inv badges_evolve"

abbreviation badge_prog :: "'a dbm \<Rightarrow> bool" where
  "badge_prog \<equiv> keeps badge_inv badges_evolve"

lemma update_badges_keeps:
  assumes f: "\<And>now b. P b \<Longrightarrow> \<not> (bdg_enabled b \<and> bdg_pending b) \<Longrightarrow> row_evolves b (f now b)"
  shows "badge_stmt (update_badges P f)"
proof (rule keeps_stmtI)
  fix now t t' r
  assume inv: "badge_inv t" and run: "update_badges P f now t = Some (t', r)"
  let ?bs = "update_where P (f now) (badges t)"
  from run have t': "t' = t\<lparr>badges := ?bs\<rparr>" "ok_badges t'"
    by (auto simp: update_badges_def Let_def split: if_splits)
  have rows: "list_all2 row_evolves (badges t) ?bs"
    using inv f by (auto simp: update_where_def list_all2_conv_all_nth badge_inv_def
        intro!: row_evolves_refl)
  then have ids: "map bdg_id ?bs = map bdg_id (badges t)"
    by (auto simp: list_all2_conv_all_nth row_evolves_def list_eq_iff_nth_eq)
  have good: "\<forall>b \<in> set ?bs. bdg_code b = badge_code_of (bdg_id b) \<and> \<not> (bdg_enabled b \<and> bdg_pending b)"
    using inv f by (auto simp: set_update_where badge_inv_def row_evolves_def)
  have "badge_inv t'"
    using inv ids good t' by (auto simp: badge_inv_def ok_users_def)
  then show "badges_evolve t t'"
    using rows t' by (simp add: badges_evolve_def grows_rows)
qed

lemma badge_frame_keeps:
  assumes "\<And>now t t' r. s now t = Some (t', r) \<Longrightarrow> badges t' = badges t \<and> badges_seq t' = badges_seq t \<and>
      ok_users t' \<and> usr_id ` set (users t) \<subseteq> usr_id ` set (users t')"
  shows "badge_stmt s"
proof (rule keeps_stmtI)
  fix now t t' r
  assume inv: "badge_inv t" and run: "s now t = Some (t', r)"
  note frame = assms [OF run]
  then have "badge_inv t'"
    using inv by (auto simp: badge_inv_def ok_badges_def)
  then show "badges_evolve t t'"
    using frame badge_rows_refl [OF inv] by (simp add: badges_evolve_def grows_rows)
qed

lemma insert_audit_keeps: "badge_stmt (insert_audit a)"
proof (rule keeps_stmtI)
  fix now t t' r
  assume inv: "badge_inv t" and run: "insert_audit a now t = Some (t', r)"
  then have "badge_inv t'" "badges t' = badges t"
    by (auto simp: insert_audit_def Let_def badge_inv_def ok_users_def ok_badges_def split: if_splits)
  with badge_rows_refl [OF inv] show "badges_evolve t t'"
    by (simp add: badges_evolve_def grows_rows)
qed

lemma insert_user_keeps: "badge_stmt (insert_user u d dn)"
  by (rule badge_frame_keeps) (auto simp: insert_user_def Let_def split: if_splits)

lemma update_users_keeps:
  assumes "\<And>now u. usr_id (f now u) = usr_id u"
  shows "badge_stmt (update_users P f)"
proof (rule badge_frame_keeps)
  fix now t t' r
  assume "update_users P f now t = Some (t', r)"
  moreover have "usr_id ` set (update_where P (f now) (users t)) = usr_id ` set (users t)"
    using assms map_update_where [of P usr_id "f now" "users t"] by (metis set_map)
  ultimately show "badges t' = badges t \<and> badges_seq t' = badges_seq t \<and>
      ok_users t' \<and> usr_id ` set (users t) \<subseteq> usr_id ` set (users t')"
    by (auto simp: update_users_def Let_def split: if_splits)
qed

text \<open>A new badge gets the next number, and the code that belongs to it.\<close>

lemma badge_max_id:
  assumes "badge_inv t"
  shows "(if badges t = [] then 0 else Max (bdg_id ` set (badges t))) = badges_seq t"
proof -
  from assms have ids: "bdg_id ` set (badges t) = {1..badges_seq t}" and seq: "0 \<le> badges_seq t"
    unfolding badge_inv_def by (metis set_map set_upto)+
  show ?thesis
  proof (cases "badges t")
    case Nil
    with ids have "{1..badges_seq t} = {}" by simp
    with seq Nil show ?thesis by simp
  next
    case (Cons b bs)
    with ids have "bdg_id b \<in> {1..badges_seq t}" by (metis image_eqI list.set_intros(1))
    then have "1 \<le> badges_seq t" by simp
    then have "Max (bdg_id ` set (badges t)) = badges_seq t"
      unfolding ids by (intro Max_eqI) auto
    with Cons show ?thesis by simp
  qed
qed

lemma nextCode_returns:
  assumes "badge_inv (tb w)" "nextCode w = (Inr code, w')"
  shows "code = badge_code_of (badges_seq (tb w) + 1) \<and> tb w' = tb w"
  using assms badge_max_id [OF assms(1)]
  by (auto simp: nextCode_def db_simps badge_code_of_def)

lemma insert_badge_evolves:
  assumes inv: "badge_inv t" and run: "insert_badge code u h en pe d now t = Some (t', r)"
    and code: "code = badge_code_of (badges_seq t + 1)" and flags: "\<not> (en \<and> pe)"
  shows "badges_evolve t t' \<and> snd r = badges_seq t + 1"
proof -
  define b where "b = \<lparr>bdg_id = badges_seq t + 1, bdg_code = code, bdg_user_id = u, bdg_token_hash = h,
      bdg_enabled = en, bdg_pending = pe, bdg_description = d, bdg_created_at = now,
      bdg_updated_at = now, bdg_last_used_at = None, bdg_revoked_at = None\<rparr>"
  from run have t': "t' = t\<lparr>badges := badges t @ [b], badges_seq := badges_seq t + 1\<rparr>"
      "ok_badges t'" "snd r = badges_seq t + 1"
    by (auto simp: insert_badge_def Let_def b_def split: if_splits)
  have b: "bdg_id b = badges_seq t + 1" "bdg_code b = code" "\<not> (bdg_enabled b \<and> bdg_pending b)"
    using flags by (simp_all add: b_def)
  have "[1..badges_seq t + 1] = [1..badges_seq t] @ [badges_seq t + 1]"
    using inv upto_rec2 [of 1 "badges_seq t + 1"] by (simp add: badge_inv_def)
  then have "badge_inv t'"
    using inv b code t' by (auto simp: badge_inv_def ok_users_def)
  then have "badges_evolve t t'"
    using t'(1) grows_append [OF badge_rows_refl [OF inv]] by (simp add: badges_evolve_def)
  with t' show ?thesis by simp
qed

section \<open>Row changes of the operations\<close>

lemma row_changes [simp]:
  "\<not> (bdg_enabled b \<and> bdg_pending b) \<Longrightarrow> row_evolves b (set_revoked now b)"
  "\<not> (bdg_enabled b \<and> bdg_pending b) \<Longrightarrow> bdg_enabled b \<Longrightarrow> row_evolves b (set_lost now b)"
  "\<not> bdg_enabled b \<Longrightarrow> bdg_pending b \<Longrightarrow> row_evolves b (set_activated now b)"
  "\<not> (bdg_enabled b \<and> bdg_pending b) \<Longrightarrow> row_evolves b (b\<lparr>bdg_last_used_at := x\<rparr>)"
  by (auto simp: row_evolves_def set_revoked_def set_lost_def set_activated_def badge_status_def
      intro: badge_trans.intros)

section \<open>Programs keep the contract\<close>

lemma badge_reads [simp]:
  "badge_prog (query_row q)" "badge_prog (query_all q')" "badge_prog (ensure c e)" "badge_prog (ret a)"
  "badge_prog (throw e')" "badge_prog (one_row r)" "badge_prog (RowsAffected r)" "badge_prog (LastInsertId r)"
  "badge_prog (LastInsertId_unchecked r)"
  by (auto intro!: badge_contract.keeps_read_only atomic_intros)

lemma badge_writes [simp]:
  "badge_prog (exec (insert_audit a))"
  "badge_prog (exec (insert_user u d dn))"
  "badge_prog (exec (update_users P (\<lambda>now u. u\<lparr>usr_pin_hash := h, usr_updated_at := now\<rparr>)))"
  "badge_prog (exec (update_badges P' set_revoked))"
  "badge_prog (exec (update_badges (\<lambda>b. bdg_id b = i \<and> bdg_user_id b = u' \<and> bdg_enabled b) set_lost))"
  "badge_prog (exec (update_badges (\<lambda>b. bdg_id b = i \<and> bdg_user_id b = u' \<and> \<not> bdg_enabled b \<and> bdg_pending b) set_activated))"
  "badge_prog (exec (update_badges P'' (\<lambda>now b. b\<lparr>bdg_last_used_at := Some now\<rparr>)))"
  by (intro badge_contract.keeps_exec insert_audit_keeps insert_user_keeps update_users_keeps
      update_badges_keeps; simp)+

text \<open>The insertion of a badge keeps the contract when the code is the one computed before it.\<close>

lemma insert_badge_step:
  assumes inv: "badge_inv (tb w)" and code: "code = badge_code_of (badges_seq (tb w) + 1)"
    and flags: "\<not> (en \<and> pe)" and f: "\<And>r. badge_prog (f r)"
    and run: "dbind (exec (insert_badge code u h en pe d)) f w = (Inr a, w')"
  shows "badges_evolve (tb w) (tb w')"
proof -
  from run obtain r w1 where ins: "exec (insert_badge code u h en pe d) w = (Inr r, w1)"
    and rest: "f r w1 = (Inr a, w')" by (auto simp: dbind_Inr)
  have ev: "badges_evolve (tb w) (tb w1)"
    using ins insert_badge_evolves [OF inv _ code flags] by (cases r) (auto simp: exec_Inr)
  moreover from ev have "badge_inv (tb w1)" by (simp add: badges_evolve_def)
  then have "badges_evolve (tb w1) (tb w')" by (rule keepsD [OF f _ rest])
  ultimately show ?thesis by (rule badge_contract.R_trans [OF inv])
qed

lemma create_badge_keeps:
  assumes "\<And>r. badge_prog (f r)"
  shows "keeps_ok badge_inv badges_evolve
    (dbind nextCode (\<lambda>code. dbind (exec (insert_badge code u h True False d)) f))"
proof (rule keeps_okI)
  fix w a w'
  assume inv: "badge_inv (tb w)"
    and run: "dbind nextCode (\<lambda>code. dbind (exec (insert_badge code u h True False d)) f) w = (Inr a, w')"
  from run obtain code w1 where code: "nextCode w = (Inr code, w1)"
    and ins: "dbind (exec (insert_badge code u h True False d)) f w1 = (Inr a, w')"
    by (subst (asm) dbind_Inr) blast
  from nextCode_returns [OF inv code] inv
  show "badges_evolve (tb w) (tb w')"
    using insert_badge_step [OF _ _ _ assms ins] by simp
qed

lemma update_badges_seq: "update_badges P f now t = Some (t', r) \<Longrightarrow> badges_seq t' = badges_seq t"
  by (auto simp: update_badges_def Let_def split: if_splits)

lemma replace_badge_keeps:
  assumes "\<And>r. badge_prog (f r)"
  shows "keeps_ok badge_inv badges_evolve
    (dbind nextCode (\<lambda>code. dbind (exec (update_badges P set_revoked)) (\<lambda>r.
       dthen (one_row r) (dbind (exec (insert_badge code u h False True d)) f))))"
    (is "keeps_ok _ _ ?m")
proof (rule keeps_okI)
  fix w a w'
  assume inv: "badge_inv (tb w)" and run: "?m w = (Inr a, w')"
  from run obtain code w1 r w2 where code: "nextCode w = (Inr code, w1)"
    and upd: "exec (update_badges P set_revoked) w1 = (Inr r, w2)"
    and ins: "dbind (exec (insert_badge code u h False True d)) f (tick w2) = (Inr a, w')"
    by (auto simp: dbind_Inr [of nextCode] dbind_Inr [of "exec (update_badges P set_revoked)"]
        dthen_Inr one_row_Inr)
  note next_code = nextCode_returns [OF inv code]
  have ev: "badges_evolve (tb w) (tb w2)"
    using keepsD [OF badge_writes(4) _ upd] inv next_code by simp
  then have "badge_inv (tb (tick w2))" by (simp add: badges_evolve_def)
  moreover have "badges_seq (tb w2) = badges_seq (tb w)"
    using upd next_code by (cases r) (auto simp: exec_Inr dest: update_badges_seq)
  ultimately have "badges_evolve (tb w2) (tb w')"
    using insert_badge_step [OF _ _ _ assms ins] next_code by simp
  with ev show "badges_evolve (tb w) (tb w')" by (rule badge_contract.R_trans [OF inv])
qed

section \<open>Every operation keeps the contract\<close>

datatype badge_op =
  OpCreateUser string string string
| OpCreateUserWithAudit string string string string string
| OpSetUserPIN int string
| OpSetUserPINWithAudit int string string string
| OpCreateBadge int string string
| OpCreateBadgeWithAudit int string string string
| OpReplaceBadgePending int string string
| OpReplaceBadgePendingWithAudit int string string string
| OpRevokeActiveBadgeForUser int int
| OpRevokeActiveBadgeForUserWithAudit int int string
| OpActivatePendingBadgeForUser int int
| OpActivatePendingBadgeForUserWithAudit int int string
| OpRevoke int
| OpRevokeBadgeWithAudit int string
| OpUsed int
| OpRecordBadgeAuthenticationSuccess int string string
| OpWriteAudit Audit
| OpAudit string string string string bool string string

fun badge_step :: "badge_op \<Rightarrow> unit dbm" where
  "badge_step (OpCreateUser u d dn) = discard (CreateUser u d dn)"
| "badge_step (OpCreateUserWithAudit u d dn e ip) = discard (CreateUserWithAudit u d dn e ip)"
| "badge_step (OpSetUserPIN i h) = SetUserPIN i h"
| "badge_step (OpSetUserPINWithAudit i h e ip) = SetUserPINWithAudit i h e ip"
| "badge_step (OpCreateBadge u h d) = discard (CreateBadge u h d)"
| "badge_step (OpCreateBadgeWithAudit u h d ip) = discard (CreateBadgeWithAudit u h d ip)"
| "badge_step (OpReplaceBadgePending i h d) = discard (ReplaceBadgePending i h d)"
| "badge_step (OpReplaceBadgePendingWithAudit i h d ip) = discard (ReplaceBadgePendingWithAudit i h d ip)"
| "badge_step (OpRevokeActiveBadgeForUser i u) = discard (RevokeActiveBadgeForUser i u)"
| "badge_step (OpRevokeActiveBadgeForUserWithAudit i u ip) =
     discard (RevokeActiveBadgeForUserWithAudit i u ip)"
| "badge_step (OpActivatePendingBadgeForUser i u) = ActivatePendingBadgeForUser i u"
| "badge_step (OpActivatePendingBadgeForUserWithAudit i u ip) = ActivatePendingBadgeForUserWithAudit i u ip"
| "badge_step (OpRevoke i) = Revoke i"
| "badge_step (OpRevokeBadgeWithAudit i ip) = RevokeBadgeWithAudit i ip"
| "badge_step (OpUsed i) = Used i"
| "badge_step (OpRecordBadgeAuthenticationSuccess i c ip) = RecordBadgeAuthenticationSuccess i c ip"
| "badge_step (OpWriteAudit a) = WriteAudit a"
| "badge_step (OpAudit e b u c s ip d) = Audit_unchecked e b u c s ip d"

lemma badge_dbind [simp]: "badge_prog m \<Longrightarrow> (\<And>a. badge_prog (f a)) \<Longrightarrow> badge_prog (dbind m f)"
  by (rule badge_contract.keeps_dbind)

lemma badge_dthen [simp]: "badge_prog m \<Longrightarrow> badge_prog n \<Longrightarrow> badge_prog (dthen m n)"
  by (rule badge_contract.keeps_dthen)

lemma badge_tx [simp]: "badge_prog m \<Longrightarrow> badge_prog (tx m)"
  by (rule badge_contract.keeps_tx')

lemma create_ops_keep:
  "badge_prog (CreateBadge u h d)" "badge_prog (CreateBadgeWithAudit u h d ip)"
  by (auto simp: CreateBadge_def CreateBadgeWithAudit_def GetBadge_def validateAuditIP_def
      intro!: badge_contract.keeps_dbind badge_contract.keeps_dthen badge_contract.keeps_tx create_badge_keeps)

lemma replace_ops_keep:
  "badge_prog (ReplaceBadgePending i h d)" "badge_prog (ReplaceBadgePendingWithAudit i h d ip)"
  by (auto simp: ReplaceBadgePending_def ReplaceBadgePendingWithAudit_def GetBadge_def validateAuditIP_def
      split: prod.splits
      intro!: badge_contract.keeps_dbind badge_contract.keeps_dthen badge_contract.keeps_tx
        badge_contract.keeps_ok_dbind badge_contract.keeps_ok_keeps [OF badge_reads(1)] replace_badge_keeps)

lemma badge_step_keeps: "badge_prog (badge_step op)"
  by (cases op)
    (simp_all add: badge_contract.keeps_catch discard_def create_ops_keep replace_ops_keep CreateUser_def CreateUserWithAudit_def
      SetUserPIN_def SetUserPINWithAudit_def RevokeActiveBadgeForUser_def
      RevokeActiveBadgeForUserWithAudit_def ActivatePendingBadgeForUser_def
      ActivatePendingBadgeForUserWithAudit_def Revoke_def RevokeBadgeWithAudit_def Used_def
      RecordBadgeAuthenticationSuccess_def WriteAudit_def Audit_unchecked_def GetUser_def validateAuditIP_def
      lostBadgeAudit_def split: prod.splits)

section \<open>History of a badge\<close>

lemma badge_run_evolves:
  "badge_inv (tb w) \<Longrightarrow> badges_evolve (tb w) (tb (run_all badge_step ops w))"
  by (rule badge_contract.keeps_run_all [OF badge_step_keeps])

text \<open>
  C1: A revoked badge never comes back.  Whatever sequence of store operations runs and wherever the
  database fails, a row that is revoked keeps its identifier, code, owner and token hash and
  is still revoked: it is never enabled and never pending again.
\<close>

theorem revoked_badge_stays_revoked:
  assumes "badge_inv (tb w)" "b \<in> set (badges (tb w))" "badge_status b = BadgeRevoked"
  shows "\<exists>b' \<in> set (badges (tb (run_all badge_step ops w))).
     bdg_id b' = bdg_id b \<and> bdg_code b' = bdg_code b \<and> bdg_user_id b' = bdg_user_id b \<and>
     bdg_token_hash b' = bdg_token_hash b \<and> badge_status b' = BadgeRevoked"
proof -
  from badge_run_evolves [OF assms(1), of ops]
  have "grows row_evolves (badges (tb w)) (badges (tb (run_all badge_step ops w)))"
    by (simp add: badges_evolve_def)
  from grows_mem [OF this assms(2)] assms(3) show ?thesis by (auto simp: row_evolves_def)
qed

text \<open>The history used by the witnesses: one badge issued, replaced and its successor activated.\<close>

definition demo_ops :: "badge_op list" where
  "demo_ops = [OpCreateUser ''ada'' ''Ada'' [], OpCreateBadge 1 ''h1'' [],
     OpReplaceBadgePendingWithAudit 1 ''h2'' [] [], OpActivatePendingBadgeForUserWithAudit 2 1 []]"

definition demo_world :: world where
  "demo_world = run_all badge_step demo_ops (calm_world empty_tables)"

lemma badge_inv_empty: "badge_inv empty_tables"
  by (simp add: badge_inv_def empty_tables_def ok_defs)

lemma badge_inv_demo: "badge_inv (tb demo_world)"
  unfolding demo_world_def
  by (rule badge_contract.keeps_run_all_inv [OF badge_step_keeps]) (simp add: badge_inv_empty)

lemma demo_statuses: "map (\<lambda>b. (bdg_id b, badge_status b)) (badges (tb demo_world)) = [(1, BadgeRevoked), (2, BadgeActive)]"
  by code_simp

theorem revoked_badge_stays_revoked_witness:
  "\<exists>b' \<in> set (badges (tb (run_all badge_step [OpActivatePendingBadgeForUser 1 1] demo_world))).
     bdg_id b' = 1 \<and> badge_status b' = BadgeRevoked"
proof -
  have "badge_status (badges (tb demo_world) ! 0) = BadgeRevoked \<and> bdg_id (badges (tb demo_world) ! 0) = 1
      \<and> badges (tb demo_world) ! 0 \<in> set (badges (tb demo_world))"
    using demo_statuses by (cases "badges (tb demo_world)") auto
  then show ?thesis
    using revoked_badge_stays_revoked [OF badge_inv_demo, of "badges (tb demo_world) ! 0"
        "[OpActivatePendingBadgeForUser 1 1]"] by (auto simp: nth_Cons')
qed


section \<open>Audited operations\<close>

text \<open>The event type and address an audited operation must write.\<close>

fun audited :: "badge_op \<Rightarrow> (string \<times> string) option" where
  "audited (OpCreateUserWithAudit u d dn e ip) = Some (e, ip)"
| "audited (OpSetUserPINWithAudit i h e ip) = Some (e, ip)"
| "audited (OpCreateBadgeWithAudit u h d ip) = Some (''badge_created'', ip)"
| "audited (OpReplaceBadgePendingWithAudit i h d ip) = Some (''badge_replaced'', ip)"
| "audited (OpRevokeActiveBadgeForUserWithAudit i u ip) = Some (''badge_self_service_revoked'', ip)"
| "audited (OpActivatePendingBadgeForUserWithAudit i u ip) = Some (''badge_self_service_activated'', ip)"
| "audited (OpRevokeBadgeWithAudit i ip) = Some (''badge_revoked'', ip)"
| "audited (OpRecordBadgeAuthenticationSuccess i c ip) = Some (''auth_success'', ip)"
| "audited _ = None"

fun_cases audited_SomeE: "audited op = Some e"

text \<open>One event is appended to the log, for a known user and a valid address.\<close>

definition audit_appended :: "string \<Rightarrow> string \<Rightarrow> tables \<Rightarrow> tables \<Rightarrow> bool" where
  "audit_appended event ip t t' \<longleftrightarrow>
     (\<exists>a. audit_log t' = audit_log t @ [a] \<and> aud_event_type a = event \<and> aud_ip_address a = ip \<and>
        aud_success a \<and> aud_username a \<in> usr_username ` set (users t') \<and> (ip = [] \<or> ParseIP ip))"

lemma audited_atomic: "audited op = Some e \<Longrightarrow> atomic (badge_step op)"
  by (erule audited_SomeE)
    (simp_all add: CreateUserWithAudit_def SetUserPINWithAudit_def CreateBadgeWithAudit_def
      ReplaceBadgePendingWithAudit_def RevokeActiveBadgeForUserWithAudit_def
      ActivatePendingBadgeForUserWithAudit_def RevokeBadgeWithAudit_def
      RecordBadgeAuthenticationSuccess_def validateAuditIP_def lostBadgeAudit_def
      atomic_intros)


lemmas store_stmts = insert_user_def update_users_def insert_badge_def update_badges_def insert_audit_def
  Let_def

lemma stmt_frames:
  "update_badges P f now t = Some (t', r) \<Longrightarrow> audit_log t' = audit_log t \<and> users t' = users t"
  "insert_badge c u h en pe d now t = Some (t', r) \<Longrightarrow> audit_log t' = audit_log t \<and> users t' = users t"
  "insert_user v d' dn now t = Some (t', r) \<Longrightarrow> audit_log t' = audit_log t"
  by (auto simp: store_stmts split: if_splits)

lemma insert_audit_appends:
  assumes "insert_audit (audit_event e b u c True ip d) now t1 = Some (t', r)" "audit_log t1 = audit_log t"
    "u \<in> usr_username ` set (users t1)" "ip = [] \<or> ParseIP ip"
  shows "audit_appended e ip t t'"
  using assms by (auto simp: audit_appended_def insert_audit_def audit_event_def Let_def split: if_splits)

lemma update_users_names:
  assumes "update_users P f now t = Some (t', r)" "\<And>u. usr_username (f now u) = usr_username u"
  shows "audit_log t' = audit_log t \<and> usr_username ` set (users t') = usr_username ` set (users t)"
  using assms map_update_where [of P usr_username "f now" "users t"]
  by (auto simp: update_users_def Let_def split: if_splits) (metis image_eqI set_map)+

lemma audited_appends_users:
  "CreateUserWithAudit u d dn e ip w = (Inr x, w') \<Longrightarrow> audit_appended e ip (tb w) (tb w')"
  "SetUserPINWithAudit i h e ip w = (Inr y, w') \<Longrightarrow> audit_appended e ip (tb w) (tb w')"
  by (auto simp: CreateUserWithAudit_def SetUserPINWithAudit_def validateAuditIP_def db_simps
      scanSQLiteUser_def 
      dest!: stmt_frames update_users_names map_filter_Cons_mem intro!: insert_audit_appends)

lemma audited_appends_badges:
  "CreateBadgeWithAudit u h d ip w = (Inr x, w') \<Longrightarrow> audit_appended ''badge_created'' ip (tb w) (tb w')"
  "RevokeActiveBadgeForUserWithAudit i u ip w = (Inr y, w') \<Longrightarrow>
     audit_appended ''badge_self_service_revoked'' ip (tb w) (tb w')"
  "ActivatePendingBadgeForUserWithAudit i u ip w = (Inr z, w') \<Longrightarrow>
     audit_appended ''badge_self_service_activated'' ip (tb w) (tb w')"
  "RevokeBadgeWithAudit i ip w = (Inr z, w') \<Longrightarrow> audit_appended ''badge_revoked'' ip (tb w) (tb w')"
  "RecordBadgeAuthenticationSuccess i c ip w = (Inr z, w') \<Longrightarrow>
     audit_appended ''auth_success'' ip (tb w) (tb w')"
  by (auto simp: CreateBadgeWithAudit_def RevokeActiveBadgeForUserWithAudit_def lostBadgeAudit_def
      ActivatePendingBadgeForUserWithAudit_def RevokeBadgeWithAudit_def nextCode_def
      RecordBadgeAuthenticationSuccess_def validateAuditIP_def scanSQLiteBadge_def db_simps
      dest!: stmt_frames select_badges_mem intro!: insert_audit_appends)

lemma audited_appends_replace:
  "ReplaceBadgePendingWithAudit i h d ip w = (Inr x, w') \<Longrightarrow>
     audit_appended ''badge_replaced'' ip (tb w) (tb w')"
  by (auto simp: ReplaceBadgePendingWithAudit_def nextCode_def validateAuditIP_def db_simps
      dest!: stmt_frames select_badges_mem intro!: insert_audit_appends)

text \<open>
  C36: Every audited operation is all or nothing: when it fails, for whatever reason and at whatever
  point, the database is exactly as before, and when it succeeds exactly one event was added
  to the audit log, of the operation's type, with the caller's valid address, for an existing
  user.
\<close>

theorem audited_operation_all_or_nothing:
  assumes "audited op = Some (event, ip)" "badge_step op w = (r, w')"
  shows "case r of Inl e \<Rightarrow> tb w' = tb w | Inr x \<Rightarrow> audit_appended event ip (tb w) (tb w')"
proof (cases r)
  case (Inl e)
  with assms(2) atomicD [OF audited_atomic [OF assms(1)]] show ?thesis by auto
next
  case (Inr x)
  with assms have "audit_appended event ip (tb w) (tb w')"
    by (auto elim!: audited_SomeE simp: discard_Inr
        intro: audited_appends_users audited_appends_badges audited_appends_replace)
  with Inr show ?thesis by simp
qed

theorem audited_operation_all_or_nothing_witness:
  "audited (OpRevokeBadgeWithAudit 2 ''10.0.0.1'') = Some (''badge_revoked'', ''10.0.0.1'') \<and>
   audit_appended ''badge_revoked'' ''10.0.0.1'' (tb demo_world)
     (tb (snd (badge_step (OpRevokeBadgeWithAudit 2 ''10.0.0.1'') demo_world)))"
proof -
  have ok: "fst (badge_step (OpRevokeBadgeWithAudit 2 ''10.0.0.1'') demo_world) = Inr ()"
    by code_simp
  show ?thesis
    using audited_operation_all_or_nothing [of "OpRevokeBadgeWithAudit 2 ''10.0.0.1''" "''badge_revoked''"
        "''10.0.0.1''" demo_world "Inr ()"
        "snd (badge_step (OpRevokeBadgeWithAudit 2 ''10.0.0.1'') demo_world)"] ok
    by (simp add: prod_eq_iff del: badge_step.simps)
qed

section \<open>Operations that succeed\<close>

lemma select_badges_Nil_iff: "ok_badges t \<Longrightarrow> select_badges P t = [] \<longleftrightarrow> (\<forall>b \<in> set (badges t). \<not> P b)"
  unfolding select_badges_def ok_badges_def by (fastforce simp: image_iff)

lemma update_badges_ok:
  assumes "ok_badges t" "\<And>b. bdg_id (f now b) = bdg_id b \<and> bdg_code (f now b) = bdg_code b \<and>
    bdg_user_id (f now b) = bdg_user_id b"
  shows "update_badges P f now t =
    Some (t\<lparr>badges := update_where P (f now) (badges t)\<rparr>, count_where P (badges t), badges_seq t)"
proof -
  have "ok_badges (t\<lparr>badges := update_where P (f now) (badges t)\<rparr>)"
    using assms by (auto simp: ok_badges_def map_update_where set_update_where)
  then show ?thesis by (simp add: update_badges_def)
qed

lemma badge_status_active: "badge_status b = BadgeActive \<longleftrightarrow> bdg_enabled b"
  by (simp add: badge_status_def)

text \<open>
  Recording a badge login succeeds, when the database does not fail, exactly for a valid or
  empty address and a badge that is active at that moment (a revoked or pending badge is
  refused inside the same transaction), as long as the audit log has identifiers left.
\<close>

theorem badge_authentication_recorded_iff_active:
  assumes "fault_free w" "badge_inv (tb w)" "audit_seq (tb w) < max_int64"
  shows "(\<exists>w'. RecordBadgeAuthenticationSuccess i client ip w = (Inr (), w')) \<longleftrightarrow>
    (ip = [] \<or> ParseIP ip) \<and> (\<exists>b \<in> set (badges (tb w)). bdg_id b = i \<and> badge_status b = BadgeActive)"
proof -
  let ?P = "\<lambda>b. bdg_id b = i \<and> bdg_enabled b"
  have ok: "ok_badges (tb w)" "distinct (map bdg_id (badges (tb w)))"
    using assms(2) by (auto simp: badge_inv_def ok_badges_def)
  have one: "count_where ?P (badges (tb w)) = Suc 0 \<longleftrightarrow> (\<exists>b \<in> set (badges (tb w)). ?P b)"
    using count_key_eq1_iff [OF ok(2), of i bdg_enabled] by simp
  have sel: "(\<exists>b u xs. select_badges ?P (tb w) = (b, u) # xs) \<longleftrightarrow> (\<exists>b \<in> set (badges (tb w)). ?P b)"
    using select_badges_Nil_iff [OF ok(1), of ?P] by (auto simp: neq_Nil_conv)
  show ?thesis
    using assms(1,3) one sel
    by (auto simp: RecordBadgeAuthenticationSuccess_def db_simps update_badges_ok [OF ok(1)]
        insert_audit_def Let_def badge_status_active map_eq_Cons_conv)
qed

theorem badge_authentication_recorded_iff_active_witness:
  "(\<exists>w'. RecordBadgeAuthenticationSuccess 2 ''ws-1'' [] (calm_world (tb demo_world)) = (Inr (), w')) \<and>
   \<not> (\<exists>w'. RecordBadgeAuthenticationSuccess 1 ''ws-1'' [] (calm_world (tb demo_world)) = (Inr (), w'))"
proof -
  have seq: "audit_seq (tb demo_world) < max_int64" by code_simp
  have "(\<exists>b \<in> set (badges (tb demo_world)). bdg_id b = 2 \<and> badge_status b = BadgeActive) \<and>
      \<not> (\<exists>b \<in> set (badges (tb demo_world)). bdg_id b = 1 \<and> badge_status b = BadgeActive)"
    by code_simp
  then show ?thesis
    using badge_authentication_recorded_iff_active [of "calm_world (tb demo_world)"] badge_inv_demo seq
    by simp
qed

end
