(* ===== verification/Http.thy ===== *)
theory Http
  imports Tokens Db_Monad
begin

text \<open>
  What the HTTP handlers of \<^verbatim>\<open>internal/server\<close> share: requests, responses, the state of the
  server process (the store and the in-memory tables behind its mutexes), and the combinators in
  which handlers are written.  A handler runs to its response in one step: it maps the state to
  the response and the new state.  Request bodies arrive decoded; a body that does not decode is
  \<^const>\<open>None\<close> in the argument of the handler.
\<close>

named_theorems http_simps \<open>inversion equations of handlers\<close>

section \<open>Requests\<close>

text \<open>A parsed peer certificate; its URI list may hold nil pointers.\<close>

record certificate =
  cert_raw :: string
  cert_URIs :: "string option list"

record tls_state =
  PeerCertificates :: "certificate option list"

record request =
  rq_Method :: string
  rq_Path :: string
  rq_PathValue_id :: string
  rq_RemoteAddr :: string
  rq_Header :: "string \<Rightarrow> string"
  rq_Cookies :: "(string \<times> string) list"
  rq_TLS :: "tls_state option"
  rq_ParseForm_ok :: bool
  rq_Query :: "(string \<times> string list) list"
  rq_PostForm :: "(string \<times> string list) list"

definition values_get :: "(string \<times> string list) list \<Rightarrow> string \<Rightarrow> string" where
  "values_get vs k = (case map_of vs k of Some (v # _) \<Rightarrow> v | _ \<Rightarrow> [])"

text \<open>\<^verbatim>\<open>r.FormValue\<close>: the body's value first, then the query's.\<close>

definition FormValue :: "request \<Rightarrow> string \<Rightarrow> string" where
  "FormValue r k = (case map_of (rq_PostForm r) k of Some (v # _) \<Rightarrow> v | _ \<Rightarrow> values_get (rq_Query r) k)"

definition Cookie :: "request \<Rightarrow> string \<Rightarrow> string option" where
  "Cookie r name = map_of (rq_Cookies r) name"

definition last_index :: "char \<Rightarrow> string \<Rightarrow> nat option" where
  "last_index c s = map_option (\<lambda>i. length s - 1 - i) (index_of c (rev s))"

text \<open>\<^verbatim>\<open>net.SplitHostPort\<close>, of which the host is used.\<close>

definition SplitHostPort :: "string \<Rightarrow> string option" where
  "SplitHostPort s =
     (case last_index (CHR '':'') s of None \<Rightarrow> None
      | Some i \<Rightarrow>
          if s \<noteq> [] \<and> hd s = CHR ''['' then
            (case index_of (CHR '']'') s of None \<Rightarrow> None
             | Some e \<Rightarrow>
                 if e + 1 \<noteq> i then None
                 else if CHR ''['' \<in> set (drop 1 s) \<or> CHR '']'' \<in> set (drop (e + 1) s) then None
                 else Some (take (e - 1) (drop 1 s)))
          else if CHR '':'' \<in> set (take i s) \<or> CHR ''['' \<in> set s \<or> CHR '']'' \<in> set s then None
          else Some (take i s))"

definition remoteIP :: "request \<Rightarrow> string" where
  "remoteIP r = (case SplitHostPort (rq_RemoteAddr r) of Some h \<Rightarrow> h | None \<Rightarrow> rq_RemoteAddr r)"

lemma remoteIP_examples:
  "SplitHostPort ''192.0.2.7:51000'' = Some ''192.0.2.7''" "SplitHostPort ''[::1]:443'' = Some ''::1''"
  "SplitHostPort ''::1'' = None" "SplitHostPort ''host'' = None"
  by code_simp+

section \<open>Responses and handlers\<close>

text \<open>
  A redirect may set cookies, each with its name, value and \<^verbatim>\<open>MaxAge\<close>.  \<^verbatim>\<open>Aborted\<close> is a handler
  that panics: \<^verbatim>\<open>net/http\<close> recovers and closes the connection.
\<close>

datatype 'b response =
  Problem nat string | Json nat 'b | NoContent | Redirect string | NotFound | Failed nat
| RedirectCookies "(string \<times> string \<times> int) list" string | Aborted

record loginGrant =
  lg_Username :: string
  lg_ClientID :: string
  lg_Expires :: time

record srv =
  wd :: world
  loginAttempts :: "string \<Rightarrow> time list"
  pinAttempts :: "string \<Rightarrow> time list"
  grants :: "string \<Rightarrow> loginGrant option"
  oidcAttempts :: "string \<Rightarrow> time list"

definition calm_server :: "tables \<Rightarrow> srv" where
  "calm_server t = \<lparr>wd = calm_world t, loginAttempts = (\<lambda>_. []), pinAttempts = (\<lambda>_. []), grants = (\<lambda>_. None),
     oidcAttempts = (\<lambda>_. [])\<rparr>"

type_synonym 'b handler = "srv \<Rightarrow> 'b response \<times> srv"

definition reply :: "'b response \<Rightarrow> 'b handler" where
  "reply r s = (r, s)"

text \<open>\<^verbatim>\<open>x, err := s.store.Op(\<dots>)\<close> followed by a branch for the error and one for the value.\<close>

definition call :: "'a dbm \<Rightarrow> (db_error \<Rightarrow> 'b handler) \<Rightarrow> ('a \<Rightarrow> 'b handler) \<Rightarrow> 'b handler" where
  "call m failed k s =
     (case m (wd s) of (Inl e, w) \<Rightarrow> failed e (s\<lparr>wd := w\<rparr>) | (Inr a, w) \<Rightarrow> k a (s\<lparr>wd := w\<rparr>))"

definition with_now :: "(time \<Rightarrow> 'b handler) \<Rightarrow> 'b handler" where
  "with_now k s = k (clock (wd s) (steps (wd s))) (s\<lparr>wd := tick (wd s)\<rparr>)"

text \<open>A step on the in-memory state of the process, and an answer of the directory service.\<close>

definition asks :: "(srv \<Rightarrow> 'a \<times> srv) \<Rightarrow> ('a \<Rightarrow> 'b handler) \<Rightarrow> 'b handler" where
  "asks m k s = (case m s of (a, s') \<Rightarrow> k a s')"

definition consult :: "(nat \<Rightarrow> 'a) \<Rightarrow> ('a \<Rightarrow> 'b handler) \<Rightarrow> 'b handler" where
  "consult f k s = k (f (steps (wd s))) (s\<lparr>wd := tick (wd s)\<rparr>)"

lemma asks_iff [http_simps]: "asks m k s = (r, s') \<longleftrightarrow> (\<exists>a s1. m s = (a, s1) \<and> k a s1 = (r, s'))"
  by (auto simp: asks_def split: prod.splits)

lemma consult_iff [http_simps]:
  "consult f k s = (r, s') \<longleftrightarrow> k (f (steps (wd s))) (s\<lparr>wd := tick (wd s)\<rparr>) = (r, s')"
  by (simp add: consult_def)

lemma reply_iff [http_simps]: "reply r s = (r', s') \<longleftrightarrow> r' = r \<and> s' = s"
  by (auto simp: reply_def)

lemma call_iff [http_simps]:
  "call m failed k s = (r, s') \<longleftrightarrow>
     (\<exists>e w. m (wd s) = (Inl e, w) \<and> failed e (s\<lparr>wd := w\<rparr>) = (r, s')) \<or>
     (\<exists>a w. m (wd s) = (Inr a, w) \<and> k a (s\<lparr>wd := w\<rparr>) = (r, s'))"
  by (auto simp: call_def split: prod.splits sum.splits)

lemma with_now_iff [http_simps]:
  "with_now k s = (r, s') \<longleftrightarrow> k (clock (wd s) (steps (wd s))) (s\<lparr>wd := tick (wd s)\<rparr>) = (r, s')"
  by (simp add: with_now_def)

lemma if_handler_iff [http_simps]:
  "(if c then h else k) s = (r, s') \<longleftrightarrow> (c \<and> h s = (r, s')) \<or> (\<not> c \<and> k s = (r, s'))"
  by simp

lemma calm_server_simps [simp]:
  "wd (calm_server t) = calm_world t" "grants (calm_server t) k = None" "pinAttempts (calm_server t) k = []"
  "loginAttempts (calm_server t) k = []" "oidcAttempts (calm_server t) k = []"
  by (simp_all add: calm_server_def)

section \<open>The time of a request\<close>

text \<open>
  Programs read the clock of the world they run in and only move forward in it, so the instants
  a handler sees are clock readings at or after its start.
\<close>

definition steady :: "'a dbm \<Rightarrow> bool" where
  "steady m \<longleftrightarrow> (\<forall>w. clock (snd (m w)) = clock w \<and> steps w \<le> steps (snd (m w)))"

lemma steadyD: "steady m \<Longrightarrow> m w = (r, w') \<Longrightarrow> clock w' = clock w \<and> steps w \<le> steps w'"
  by (metis steady_def snd_conv)

named_theorems steady_intros \<open>programs that keep the clock\<close>

lemma steady_basic [steady_intros]:
  "steady (ret a)" "steady (throw e)" "steady (ensure c e)" "steady (query_row q)" "steady (query_all q')"
  "steady (query_row_now q'')" "steady (exec s)" "steady (RowsAffected r)" "steady (one_row r)" "steady now_m" "steady rand_m"
  by (auto simp: steady_def ret_def throw_def ensure_def query_row_def query_all_def query_row_now_def exec_def
      RowsAffected_def one_row_def now_m_def rand_m_def split: list.splits option.splits)

lemma steady_dbind [steady_intros]:
  assumes "steady m" "\<And>a. steady (f a)"
  shows "steady (dbind m f)"
  unfolding steady_def
proof
  fix w
  obtain r w1 where m: "m w = (r, w1)" by (cases "m w")
  show "clock (snd (dbind m f w)) = clock w \<and> steps w \<le> steps (snd (dbind m f w))"
  proof (cases r)
    case (Inl e)
    then show ?thesis using steadyD [OF assms(1) m] m by (simp add: dbind_def)
  next
    case (Inr a)
    obtain r2 w2 where f: "f a w1 = (r2, w2)" by (cases "f a w1")
    then show ?thesis using steadyD [OF assms(1) m] steadyD [OF assms(2) f] m Inr by (simp add: dbind_def)
  qed
qed

lemma steady_dthen [steady_intros]: "steady m \<Longrightarrow> steady n \<Longrightarrow> steady (dthen m n)"
  by (simp add: dthen_def steady_dbind)

lemma steady_attempt [steady_intros]: "steady m \<Longrightarrow> steady (attempt m)"
  by (auto simp: steady_def attempt_def split: prod.splits) (metis snd_conv)+

definition request_time :: "srv \<Rightarrow> time \<Rightarrow> bool" where
  "request_time s now \<longleftrightarrow> (\<exists>k \<ge> steps (wd s). now = clock (wd s) k)"

definition later :: "srv \<Rightarrow> srv \<Rightarrow> bool" where
  "later s s' \<longleftrightarrow> clock (wd s') = clock (wd s) \<and> steps (wd s) \<le> steps (wd s')"

lemma later_refl [simp]: "later s s"
  by (simp add: later_def)

lemma later_trans: "later s s' \<Longrightarrow> later s' s'' \<Longrightarrow> later s s''"
  by (auto simp: later_def)

lemma later_request_time: "later s s' \<Longrightarrow> request_time s' now \<Longrightarrow> request_time s now"
  unfolding later_def request_time_def by (metis order_trans)

lemma request_time_now [simp]: "request_time s (clock (wd s) (steps (wd s)))"
  by (auto simp: request_time_def)

text \<open>Transactions and handlers keep the clock too.\<close>

lemma steady_tx [steady_intros]:
  assumes "steady m"
  shows "steady (tx m)"
  unfolding steady_def
proof
  fix w
  obtain r w1 where m: "m (tick w) = (r, w1)" by (cases "m (tick w)")
  then show "clock (snd (tx m w)) = clock w \<and> steps w \<le> steps (snd (tx m w))"
    using steadyD [OF assms m] by (cases r) (auto simp: tx_def)
qed

lemma steady_if [steady_intros]: "steady m \<Longrightarrow> steady n \<Longrightarrow> steady (if c then m else n)"
  by simp

lemma steady_catch [steady_intros]:
  assumes "steady m" "\<And>e. steady (h e)"
  shows "steady (catch m h)"
  unfolding steady_def
proof
  fix w
  obtain r w1 where m: "m w = (r, w1)" by (cases "m w")
  show "clock (snd (catch m h w)) = clock w \<and> steps w \<le> steps (snd (catch m h w))"
  proof (cases r)
    case (Inl e)
    obtain r2 w2 where h: "h e w1 = (r2, w2)" by (cases "h e w1")
    then show ?thesis using steadyD [OF assms(1) m] steadyD [OF assms(2) h] m Inl by (simp add: catch_def)
  next
    case (Inr a)
    then show ?thesis using steadyD [OF assms(1) m] m by (simp add: catch_def)
  qed
qed

definition patient :: "'b handler \<Rightarrow> bool" where
  "patient h \<longleftrightarrow> (\<forall>s. later s (snd (h s)))"

lemma patientD: "patient h \<Longrightarrow> h s = (r, s') \<Longrightarrow> later s s'"
  by (metis patient_def snd_conv)

named_theorems patient_intros \<open>handlers that keep the clock\<close>

lemma patient_reply [patient_intros]: "patient (reply r)"
  by (simp add: patient_def reply_def)

lemma patient_with_now [patient_intros]:
  assumes "\<And>t. patient (k t)"
  shows "patient (with_now k)"
  unfolding patient_def
proof
  fix s :: srv
  let ?s1 = "s\<lparr>wd := tick (wd s)\<rparr>"
  have "later s ?s1" by (simp add: later_def)
  moreover have "later ?s1 (snd (with_now k s))" using assms by (simp add: with_now_def patient_def)
  ultimately show "later s (snd (with_now k s))" by (rule later_trans)
qed

lemma patient_consult [patient_intros]:
  assumes "\<And>a. patient (k a)"
  shows "patient (consult f k)"
  unfolding patient_def
proof
  fix s :: srv
  let ?s1 = "s\<lparr>wd := tick (wd s)\<rparr>"
  have "later s ?s1" by (simp add: later_def)
  moreover have "later ?s1 (snd (consult f k s))" using assms by (simp add: consult_def patient_def)
  ultimately show "later s (snd (consult f k s))" by (rule later_trans)
qed

lemma patient_call [patient_intros]:
  assumes "steady m" "\<And>e. patient (f e)" "\<And>a. patient (k a)"
  shows "patient (call m f k)"
  unfolding patient_def
proof
  fix s :: srv
  obtain r w where m: "m (wd s) = (r, w)" by (cases "m (wd s)")
  have w: "later s (s\<lparr>wd := w\<rparr>)" using steadyD [OF assms(1) m] by (simp add: later_def)
  show "later s (snd (call m f k s))"
    using later_trans [OF w] assms(2,3) m by (cases r) (auto simp: call_def patient_def)
qed

lemma patient_asks [patient_intros]:
  assumes "\<And>s. later s (snd (m s))" "\<And>a. patient (k a)"
  shows "patient (asks m k)"
  unfolding patient_def
proof
  fix s :: srv
  obtain a s1 where m: "m s = (a, s1)" by (cases "m s")
  with assms(1) [of s] have "later s s1" by simp
  then show "later s (snd (asks m k s))"
    using assms(2) [of a] m by (auto simp: asks_def patient_def intro: later_trans)
qed

end
