(* ===== verification/Times.thy ===== *)
theory Times
  imports Encoding
begin

text \<open>
  The proleptic Gregorian calendar as Go's \<^verbatim>\<open>time\<close> package uses it: dates and day numbers,
  \<^verbatim>\<open>Time.AddDate\<close> for years, and \<^verbatim>\<open>time.Parse(time.RFC3339, \<dots>)\<close>.  Times are in UTC.
\<close>

definition day :: duration where
  "day = 24 * hour"

section \<open>Dates\<close>

text \<open>
  Years run from March to February, so that the leap day is the last day of a year; an era is the
  400-year period of the calendar.  Both directions are total and use floor division.
\<close>

definition days_from_civil :: "int \<Rightarrow> int \<Rightarrow> int \<Rightarrow> int" where
  "days_from_civil y m d =
     (let y = (if m \<le> 2 then y - 1 else y); era = y div 400; yoe = y mod 400;
          doy = (153 * (if m > 2 then m - 3 else m + 9) + 2) div 5 + d - 1
      in era * 146097 + yoe * 365 + yoe div 4 - yoe div 100 + doy - 719468)"

definition civil_from_days :: "int \<Rightarrow> int \<times> int \<times> int" where
  "civil_from_days z =
     (let z = z + 719468; era = z div 146097; doe = z mod 146097;
          yoe = (doe - doe div 1460 + doe div 36524 - doe div 146096) div 365;
          doy = doe - (365 * yoe + yoe div 4 - yoe div 100);
          mp = (5 * doy + 2) div 153; m = (if mp < 10 then mp + 3 else mp - 9)
      in (yoe + era * 400 + (if m \<le> 2 then 1 else 0), m, doy - (153 * mp + 2) div 5 + 1))"

definition is_leap :: "int \<Rightarrow> bool" where
  "is_leap y \<longleftrightarrow> y mod 4 = 0 \<and> (y mod 100 \<noteq> 0 \<or> y mod 400 = 0)"

definition daysIn :: "int \<Rightarrow> int \<Rightarrow> int" where
  "daysIn m y = (if m = 2 then (if is_leap y then 29 else 28)
     else if m = 4 \<or> m = 6 \<or> m = 9 \<or> m = 11 then 30 else 31)"

text \<open>
  \<^verbatim>\<open>t.AddDate(n, 0, 0)\<close>: the same date \<^verbatim>\<open>n\<close> years on, 29 February becoming 1 March where there
  is none, and the same time of day.
\<close>

definition AddYears :: "int \<Rightarrow> time \<Rightarrow> time" where
  "AddYears n t = (case civil_from_days (t div day) of (y, m, d) \<Rightarrow> days_from_civil (y + n) m d * day + t mod day)"

section \<open>RFC 3339\<close>

text \<open>A parser takes a prefix of its input: \<^verbatim>\<open>getnum\<close>, \<^verbatim>\<open>atoi\<close> of a fixed width, a literal.\<close>

type_synonym 'a parser = "string \<Rightarrow> ('a \<times> string) option"

definition digit_at :: "nat \<Rightarrow> string \<Rightarrow> bool" where
  "digit_at i s \<longleftrightarrow> i < length s \<and> is_digit (s ! i)"

definition getnum :: "bool \<Rightarrow> int parser" where
  "getnum fixed s =
     (if \<not> digit_at 0 s then None
      else if \<not> digit_at 1 s
        then (if fixed then None else map_option (\<lambda>n. (int n, drop 1 s)) (read_nat 0 (take 1 s)))
      else map_option (\<lambda>n. (int n, drop 2 s)) (read_nat 0 (take 2 s)))"

definition getyear :: "int parser" where
  "getyear s = (if length s < 4 \<or> \<not> digit_at 0 s then None
     else map_option (\<lambda>n. (int n, drop 4 s)) (read_nat 0 (take 4 s)))"

definition literal :: "char \<Rightarrow> unit parser" where
  "literal c s = (case s of [] \<Rightarrow> None | x # xs \<Rightarrow> if x = c then Some ((), xs) else None)"

definition in_range :: "int \<Rightarrow> int \<Rightarrow> int parser \<Rightarrow> int parser" where
  "in_range lo hi p s = (case p s of None \<Rightarrow> None | Some (n, r) \<Rightarrow> if lo \<le> n \<and> n \<le> hi then Some (n, r) else None)"

text \<open>A fraction after the seconds: any number of digits, of which nine count.\<close>

definition getfraction :: "int parser" where
  "getfraction s =
     (if length s \<ge> 2 \<and> (hd s = CHR ''.'' \<or> hd s = CHR '','') \<and> digit_at 1 s
      then (let ds = takeWhile is_digit (tl s); nine = take 9 ds
            in map_option (\<lambda>n. (int n * 10 ^ (9 - length nine), drop (length ds) (tl s))) (read_nat 0 nine))
      else Some (0, s))"

text \<open>\<^verbatim>\<open>Z07:00\<close>: the zone offset in seconds.\<close>

definition getzone :: "int parser" where
  "getzone s =
     (case s of [] \<Rightarrow> None
      | c # cs \<Rightarrow>
          if c = CHR ''Z'' then Some (0, cs)
          else if length s < 6 \<or> s ! 3 \<noteq> CHR '':'' then None
          else case (in_range 0 24 (getnum True) (take 2 (drop 1 s)), in_range 0 60 (getnum True) (take 2 (drop 4 s))) of
            (Some (h, _), Some (m, _)) \<Rightarrow>
              if c = CHR ''+'' then Some ((h * 60 + m) * 60, drop 6 s)
              else if c = CHR ''-'' then Some (- ((h * 60 + m) * 60), drop 6 s) else None
          | _ \<Rightarrow> None)"

definition then_p :: "'a parser \<Rightarrow> ('a \<Rightarrow> 'b parser) \<Rightarrow> 'b parser" where
  "then_p p f s = (case p s of None \<Rightarrow> None | Some (a, r) \<Rightarrow> f a r)"

definition rfc3339 :: "time parser" where
  "rfc3339 =
     then_p getyear (\<lambda>y. then_p (literal (CHR ''-'')) (\<lambda>_.
     then_p (in_range 1 12 (getnum True)) (\<lambda>mo. then_p (literal (CHR ''-'')) (\<lambda>_.
     then_p (getnum True) (\<lambda>d. then_p (literal (CHR ''T'')) (\<lambda>_.
     then_p (in_range 0 23 (getnum False)) (\<lambda>h. then_p (literal (CHR '':'')) (\<lambda>_.
     then_p (in_range 0 59 (getnum True)) (\<lambda>mi. then_p (literal (CHR '':'')) (\<lambda>_.
     then_p (in_range 0 59 (getnum True)) (\<lambda>sec. then_p getfraction (\<lambda>nsec. then_p getzone (\<lambda>z s.
       if d < 1 \<or> d > daysIn mo y then None
       else Some (days_from_civil y mo d * day + h * hour + mi * minute + (sec - z) * second + nsec, s))))))))))))))"

definition ParseRFC3339 :: "string \<Rightarrow> time option" where
  "ParseRFC3339 s = (case rfc3339 s of Some (t, []) \<Rightarrow> Some t | _ \<Rightarrow> None)"

text \<open>\<^verbatim>\<open>t.UTC().Format(time.RFC3339)\<close>: zero-padded fields, no fraction.\<close>

definition pad_int :: "nat \<Rightarrow> int \<Rightarrow> string" where
  "pad_int w i = (if i < 0 then ''-'' else []) @
     replicate (w - length (show_nat (nat \<bar>i\<bar>))) (CHR ''0'') @ show_nat (nat \<bar>i\<bar>)"

definition FormatRFC3339 :: "time \<Rightarrow> string" where
  "FormatRFC3339 t =
     (case civil_from_days (t div day) of (y, m, d) \<Rightarrow>
        (let sod = t mod day in
         pad_int 4 y @ ''-'' @ pad_int 2 m @ ''-'' @ pad_int 2 d @ ''T'' @ pad_int 2 (sod div hour) @ '':'' @
         pad_int 2 (sod mod hour div minute) @ '':'' @ pad_int 2 (sod mod minute div second) @ ''Z''))"

lemma calendar_examples:
  "days_from_civil 1970 1 1 = 0" "civil_from_days 0 = (1970, 1, 1)"
  "days_from_civil 2026 12 1 = 20788" "civil_from_days 20788 = (2026, 12, 1)"
  "civil_from_days (- 1) = (1969, 12, 31)" "days_from_civil 2024 2 29 + 1 = days_from_civil 2024 3 1"
  by code_simp+

lemma rfc3339_examples:
  "ParseRFC3339 ''2026-12-01T20:00:00Z'' = Some (fromUnix 1796155200)"
  "ParseRFC3339 ''2026-12-01T21:00:00.5+01:00'' = Some (fromUnix 1796155200 + 500000000)"
  "FormatRFC3339 (fromUnix 1796155200) = ''2026-12-01T20:00:00Z''" "FormatRFC3339 0 = ''1970-01-01T00:00:00Z''"
  "ParseRFC3339 ''2026-02-29T00:00:00Z'' = None" "ParseRFC3339 ''2026-12-01T20:00:00'' = None"
  by code_simp+

end
