(* ===== verification/Badge_Login.thy ===== *)
theory Badge_Login
  imports Http Times Badge_Store
begin

text \<open>
  Badge authentication and what follows from it (\<^verbatim>\<open>internal/server/server.go\<close>,
  \<^verbatim>\<open>internal/server/pkinit.go\<close>): the rate limiters of logins and PINs, the login grants kept in
  memory, the authentication endpoint and the issuing of Kerberos (PKINIT) certificates.
  The X.509 and ASN.1 libraries are fields of the issuer record, Argon2id is an argument.
\<close>

section \<open>Rate limiting\<close>

text \<open>The loop that keeps the attempts of the last ten minutes.\<close>

definition recent_attempts :: "time \<Rightarrow> time list \<Rightarrow> time list" where
  "recent_attempts now ts = filter (\<lambda>t. t > now + - (10 * minute)) ts"

definition loginAllowed :: "string \<Rightarrow> srv \<Rightarrow> bool \<times> srv" where
  "loginAllowed ip s =
     (let recent = recent_attempts (clock (wd s) (steps (wd s))) (loginAttempts s ip)
      in (length recent < 5, s\<lparr>wd := tick (wd s), loginAttempts := (loginAttempts s)(ip := recent)\<rparr>))"

definition loginFailed :: "string \<Rightarrow> srv \<Rightarrow> unit \<times> srv" where
  "loginFailed ip s =
     ((), s\<lparr>wd := tick (wd s),
        loginAttempts := (loginAttempts s)(ip := loginAttempts s ip @ [clock (wd s) (steps (wd s))])\<rparr>)"

definition loginSucceeded :: "string \<Rightarrow> srv \<Rightarrow> unit \<times> srv" where
  "loginSucceeded ip s = ((), s\<lparr>loginAttempts := (loginAttempts s)(ip := [])\<rparr>)"

definition pinAllowed :: "string \<Rightarrow> srv \<Rightarrow> bool \<times> srv" where
  "pinAllowed k s =
     (let recent = recent_attempts (clock (wd s) (steps (wd s))) (pinAttempts s k)
      in (length recent < 5, s\<lparr>wd := tick (wd s), pinAttempts := (pinAttempts s)(k := recent)\<rparr>))"

definition pinFailed :: "string \<Rightarrow> srv \<Rightarrow> unit \<times> srv" where
  "pinFailed k s =
     ((), s\<lparr>wd := tick (wd s),
        pinAttempts := (pinAttempts s)(k := pinAttempts s k @ [clock (wd s) (steps (wd s))])\<rparr>)"

definition pinSucceeded :: "string \<Rightarrow> srv \<Rightarrow> unit \<times> srv" where
  "pinSucceeded k s = ((), s\<lparr>pinAttempts := (pinAttempts s)(k := [])\<rparr>)"

section \<open>Login grants\<close>

definition saveLoginGrant :: "string \<Rightarrow> string \<Rightarrow> string \<Rightarrow> srv \<Rightarrow> unit \<times> srv" where
  "saveLoginGrant token username clientID s =
     (let now = clock (wd s) (steps (wd s));
          kept = (\<lambda>k. case grants s k of None \<Rightarrow> None
                    | Some v \<Rightarrow> if \<not> lg_Expires v > now then None else Some v)
      in ((), s\<lparr>wd := tick (wd s), grants := kept(token \<mapsto>
            \<lparr>lg_Username = username, lg_ClientID = clientID, lg_Expires = now + 30 * second\<rparr>)\<rparr>))"

text \<open>
  The zero value that Go returns for an absent grant is never looked at; the pair of the source is
  an option here.  The clock is read in the same order as in the source, after the deletion.
\<close>

definition redeemLoginGrant :: "string \<Rightarrow> string \<Rightarrow> srv \<Rightarrow> loginGrant option \<times> srv" where
  "redeemLoginGrant token clientID s =
     (case grants s token of
        None \<Rightarrow> (None, s)
      | Some g \<Rightarrow>
          (let s1 = s\<lparr>grants := (grants s)(token := None)\<rparr>
           in if lg_ClientID g \<noteq> clientID then (None, s1)
              else (if lg_Expires g > clock (wd s) (steps (wd s)) then Some g else None, s1\<lparr>wd := tick (wd s1)\<rparr>)))"

section \<open>Badge authentication\<close>

record AuthRequest =
  aq_BadgeID :: string
  aq_Token :: string
  aq_ClientID :: string
  aq_PIN :: string

record AuthResponse =
  ap_Valid :: bool
  ap_Username :: string
  ap_DisplayName :: string
  ap_BadgeID :: string
  ap_Reason :: string
  ap_LoginGrant :: string

text \<open>\<^verbatim>\<open>s.audit\<close>: a failed write is logged and otherwise ignored.\<close>

definition audit :: "Audit \<Rightarrow> 'b handler \<Rightarrow> 'b handler" where
  "audit event k = call (WriteAudit event) (\<lambda>_. k) (\<lambda>_. k)"

text \<open>The chain of conditions that finds the reason of a denial; no reason is the empty string.\<close>

definition auth_reason :: "idkey \<Rightarrow> AuthRequest \<Rightarrow> string \<Rightarrow> db_error + Badge \<Rightarrow> srv \<Rightarrow> string \<times> srv" where
  "auth_reason idkey inp pinKey found =
     (case found of
        Inl e \<Rightarrow> (\<lambda>s. (if e = ErrNoRows then ''badge_unknown'' else ''database_error'', s))
      | Inr b \<Rightarrow> (\<lambda>s.
          if \<not> Badge_Enabled b then (''badge_disabled'', s)
          else if \<not> VerifyToken (aq_Token inp) (Badge_TokenHash b) then (''invalid_token'', s)
          else if Badge_PINHash b \<noteq> [] \<and> aq_PIN inp = [] then (''pin_required'', s)
          else if Badge_PINHash b = [] then ([], s)
          else case pinAllowed pinKey s of (allowed, s1) \<Rightarrow>
            if \<not> allowed then (''pin_rate_limited'', s1)
            else if \<not> Verify idkey (aq_PIN inp) (Badge_PINHash b)
              then (''invalid_pin'', snd (pinFailed pinKey s1))
            else ([], s1)))"

definition denied :: "string \<Rightarrow> AuthResponse" where
  "denied reason = \<lparr>ap_Valid = False, ap_Username = [], ap_DisplayName = [], ap_BadgeID = [],
     ap_Reason = reason, ap_LoginGrant = []\<rparr>"

definition pin_key :: "AuthRequest \<Rightarrow> string \<Rightarrow> string" where
  "pin_key inp ip = aq_BadgeID inp @ ''|'' @ aq_ClientID inp @ ''|'' @ ip"

definition auth_body :: "idkey \<Rightarrow> request \<Rightarrow> AuthRequest \<Rightarrow> db_error + Badge \<Rightarrow> AuthResponse handler" where
  "auth_body idkey r inp found =
     (let ip = remoteIP r; pinKey = pin_key inp ip in
      asks (auth_reason idkey inp pinKey found) (\<lambda>reason.
        if reason \<noteq> [] then
          audit (audit_event ''auth_failed'' (aq_BadgeID inp) [] (aq_ClientID inp) False ip reason)
            (reply (Json 200 (denied reason)))
        else case found of Inl _ \<Rightarrow> reply Aborted
          | Inr b \<Rightarrow>
              call rand_m (\<lambda>_. reply (Problem 500 ''grant_error'')) (\<lambda>bytes. let grant = RawURL_encode bytes in
              call (RecordBadgeAuthenticationSuccess (Badge_ID b) (aq_ClientID inp) ip)
                (\<lambda>_. reply (Problem 503 ''authentication_unavailable'')) (\<lambda>_.
              asks (saveLoginGrant grant (Badge_Username b) (aq_ClientID inp)) (\<lambda>_.
              asks (pinSucceeded pinKey) (\<lambda>_.
              reply (Json 200 \<lparr>ap_Valid = True, ap_Username = Badge_Username b, ap_DisplayName = Badge_DisplayName b,
                 ap_BadgeID = Badge_BadgeCode b, ap_Reason = [], ap_LoginGrant = grant\<rparr>)))))))"

text \<open>The branch of an error without a reason does not exist: \<open>auth_reason\<close> gives one for every error.\<close>

definition auth :: "idkey \<Rightarrow> request \<Rightarrow> AuthRequest option \<Rightarrow> AuthResponse handler" where
  "auth idkey r body =
     (case body of None \<Rightarrow> reply (Problem 400 ''invalid_request'')
      | Some inp \<Rightarrow>
          if aq_BadgeID inp = [] \<or> aq_Token inp = [] \<or> aq_ClientID inp = [] then reply (Problem 400 ''invalid_request'')
          else call (BadgeByCode (aq_BadgeID inp)) (\<lambda>e. auth_body idkey r inp (Inl e)) (\<lambda>b. auth_body idkey r inp (Inr b)))"

section \<open>Kerberos certificates\<close>

definition username_char :: "char \<Rightarrow> bool" where
  "username_char c \<longleftrightarrow> is_lower_alpha c \<or> is_upper_alpha c \<or> is_digit c"

text \<open>The regular expression \<^verbatim>\<open>^[A-Za-z0-9][A-Za-z0-9._-]{0,63}$\<close>.\<close>

definition loginUsername :: "string \<Rightarrow> bool" where
  "loginUsername u =
     (case u of [] \<Rightarrow> False
      | c # cs \<Rightarrow> username_char c \<and> length cs \<le> 63 \<and>
          (\<forall>x \<in> set cs. username_char x \<or> x = CHR ''.'' \<or> x = CHR ''_'' \<or> x = CHR ''-''))"

record pkinit_template =
  pt_SerialNumber :: nat
  pt_CommonName :: string
  pt_NotBefore :: time
  pt_NotAfter :: time
  pt_SAN :: string

record 'csr PKINITIssuer =
  pk_caPEM :: string
  pk_realm :: string
  pk_life :: duration
  pk_upnSAN :: "string \<Rightarrow> string option"
  pk_CreateCertificate :: "pkinit_template \<Rightarrow> 'csr \<Rightarrow> string option"
  pk_pem_Decode :: "string \<Rightarrow> (string \<times> string \<times> string) option"
  pk_ParseCertificateRequest :: "string \<Rightarrow> 'csr option"
  pk_CheckSignature :: "'csr \<Rightarrow> bool"

record PKINITRequest =
  pq_Grant :: string
  pq_ClientID :: string
  pq_CSR :: string

record PKINITResponse =
  pp_Username :: string
  pp_Certificate :: "string \<times> string"
  pp_CA :: string
  pp_ExpiresAt :: string

definition bytes_nat :: "string \<Rightarrow> nat" where
  "bytes_nat bs = foldl (\<lambda>n c. 256 * n + of_char c) 0 bs"

text \<open>
  \<^verbatim>\<open>sign\<close>: \<^verbatim>\<open>rand.Int\<close> below \<^verbatim>\<open>1<<159\<close> reads twenty bytes and clears the top bit.  The extended key usage
  is a constant of the template and the certificate is the type and content of its PEM block.
\<close>

definition sign :: "'csr PKINITIssuer \<Rightarrow> string \<Rightarrow> 'csr \<Rightarrow> ((string \<times> string) \<times> time) dbm" where
  "sign i username csr =
     dbind rand_m (\<lambda>serialBytes. let serial = bytes_nat (take 20 serialBytes) mod 2 ^ 159 in
     dbind now_m (\<lambda>now. let expires = now + pk_life i in
       case pk_upnSAN i (username @ ''@'' @ lower (pk_realm i)) of
         None \<Rightarrow> throw (ErrText ''san'')
       | Some san \<Rightarrow>
           (case pk_CreateCertificate i \<lparr>pt_SerialNumber = serial, pt_CommonName = username,
                   pt_NotBefore = now - 30 * second, pt_NotAfter = expires, pt_SAN = san\<rparr> csr of
              None \<Rightarrow> throw (ErrText ''certificate'')
            | Some der \<Rightarrow> ret ((''CERTIFICATE'', der), expires))))"

text \<open>The part of \<^verbatim>\<open>issuePKINIT\<close> after the grant has been accepted.\<close>

definition certify_login ::
  "'csr PKINITIssuer \<Rightarrow> request \<Rightarrow> PKINITRequest \<Rightarrow> loginGrant \<Rightarrow> PKINITResponse handler" where
  "certify_login i r inp g =
     (case pk_pem_Decode i (pq_CSR inp) of None \<Rightarrow> reply (Problem 400 ''invalid_csr'')
      | Some (type, bytes, rest) \<Rightarrow>
          if type \<noteq> ''CERTIFICATE REQUEST'' then reply (Problem 400 ''invalid_csr'')
          else (case pk_ParseCertificateRequest i bytes of None \<Rightarrow> reply (Problem 400 ''invalid_csr'')
            | Some csr \<Rightarrow>
                if \<not> pk_CheckSignature i csr then reply (Problem 400 ''invalid_csr'')
                else call (sign i (lg_Username g) csr) (\<lambda>_. reply (Problem 500 ''pkinit_error'')) (\<lambda>(certPEM, expires).
                  call (WriteAudit (audit_event ''pkinit_issued'' [] (lg_Username g) (pq_ClientID inp) True
                          (remoteIP r) (''expires='' @ FormatRFC3339 expires)))
                    (\<lambda>_. reply (Problem 503 ''pkinit_unavailable''))
                    (\<lambda>_. reply (Json 200 \<lparr>pp_Username = lg_Username g, pp_Certificate = certPEM,
                       pp_CA = pk_caPEM i, pp_ExpiresAt = FormatRFC3339 expires\<rparr>)))))"

definition issuePKINIT :: "'csr PKINITIssuer option \<Rightarrow> request \<Rightarrow> PKINITRequest option \<Rightarrow> PKINITResponse handler" where
  "issuePKINIT pkinit r body =
     (case pkinit of None \<Rightarrow> reply (Problem 503 ''pkinit_disabled'')
      | Some i \<Rightarrow>
          (case body of None \<Rightarrow> reply (Problem 400 ''invalid_request'')
           | Some inp \<Rightarrow>
               if pq_Grant inp = [] \<or> pq_ClientID inp = [] \<or> int (length (pq_CSR inp)) > 16384
               then reply (Problem 400 ''invalid_request'')
               else asks (redeemLoginGrant (pq_Grant inp) (pq_ClientID inp)) (\<lambda>redeemed.
                 let invalid = audit (audit_event ''pkinit_denied'' [] [] (pq_ClientID inp) False (remoteIP r) ''invalid_grant'')
                       (reply (Problem 403 ''invalid_grant''))
                 in case redeemed of None \<Rightarrow> invalid
                    | Some g \<Rightarrow> if \<not> loginUsername (lg_Username g) then invalid else certify_login i r inp g)))"

section \<open>Frames\<close>

lemma audit_answer:
  "audit e (reply x) s = (y, s') \<Longrightarrow> y = x \<and> (\<exists>w. s' = s\<lparr>wd := w\<rparr>)"
  by (auto simp: audit_def http_simps)

lemma steady_store [steady_intros]:
  "steady (BadgeByCode c)" "steady (WriteAudit e)" "steady (RecordBadgeAuthenticationSuccess i c ip)"
  "steady (sign pk u csr)"
  unfolding BadgeByCode_def WriteAudit_def RecordBadgeAuthenticationSuccess_def sign_def Let_def
  by (auto intro!: steady_intros split: prod.splits option.splits)

section \<open>The limiters against their history\<close>

text \<open>
  The contract both limiters keep, and the specification they refine: a history of all failures
  since the last success, of which a check counts those of the last ten minutes.  The
  implementation forgets old failures at every check.
\<close>

definition srv_now :: "srv \<Rightarrow> time" where
  "srv_now s = clock (wd s) (steps (wd s))"

datatype limiter_op = Check string | Fail string | Clear string | Wait nat

definition wait :: "nat \<Rightarrow> srv \<Rightarrow> srv" where
  "wait n s = s\<lparr>wd := (wd s)\<lparr>steps := steps (wd s) + n\<rparr>\<rparr>"

fun limiter_run :: "(string \<Rightarrow> srv \<Rightarrow> bool \<times> srv) \<Rightarrow> (string \<Rightarrow> srv \<Rightarrow> unit \<times> srv) \<Rightarrow> (string \<Rightarrow> srv \<Rightarrow> unit \<times> srv) \<Rightarrow>
  limiter_op list \<Rightarrow> srv \<Rightarrow> bool list" where
  "limiter_run allowed failed succeeded [] s = []"
| "limiter_run allowed failed succeeded (Check k # ops) s =
     fst (allowed k s) # limiter_run allowed failed succeeded ops (snd (allowed k s))"
| "limiter_run allowed failed succeeded (Fail k # ops) s = limiter_run allowed failed succeeded ops (snd (failed k s))"
| "limiter_run allowed failed succeeded (Clear k # ops) s = limiter_run allowed failed succeeded ops (snd (succeeded k s))"
| "limiter_run allowed failed succeeded (Wait n # ops) s = limiter_run allowed failed succeeded ops (wait n s)"

fun history_run :: "(nat \<Rightarrow> time) \<Rightarrow> limiter_op list \<Rightarrow> nat \<Rightarrow> (string \<Rightarrow> time list) \<Rightarrow> bool list" where
  "history_run c [] n h = []"
| "history_run c (Check k # ops) n h =
     (length (filter (\<lambda>t. c n - t < 10 * minute) (h k)) < 5) # history_run c ops (Suc n) h"
| "history_run c (Fail k # ops) n h = history_run c ops (Suc n) (h(k := h k @ [c n]))"
| "history_run c (Clear k # ops) n h = history_run c ops n (h(k := []))"
| "history_run c (Wait m # ops) n h = history_run c ops (n + m) h"

locale attempt_limiter =
  fixes table :: "srv \<Rightarrow> string \<Rightarrow> time list"
    and allowed :: "string \<Rightarrow> srv \<Rightarrow> bool \<times> srv"
    and failed :: "string \<Rightarrow> srv \<Rightarrow> unit \<times> srv"
    and succeeded :: "string \<Rightarrow> srv \<Rightarrow> unit \<times> srv"
  assumes allowed_answer: "fst (allowed k s) \<longleftrightarrow> length (recent_attempts (srv_now s) (table s k)) < 5"
    and allowed_table: "table (snd (allowed k s)) = (table s)(k := recent_attempts (srv_now s) (table s k))"
    and failed_table: "table (snd (failed k s)) = (table s)(k := table s k @ [srv_now s])"
    and succeeded_table: "table (snd (succeeded k s)) = (table s)(k := [])"
    and table_world: "table (s\<lparr>wd := w\<rparr>) = table s"
    and limiter_world: "wd (snd (allowed k s)) = tick (wd s)" "wd (snd (failed k s)) = tick (wd s)"
      "wd (snd (succeeded k s)) = wd s"
begin

text \<open>The table and the history agree on every failure that can still count.\<close>

lemma refines_history:
  assumes "mono (clock (wd s))" "\<And>k. recent_attempts (srv_now s) (table s k) = recent_attempts (srv_now s) (h k)"
  shows "limiter_run allowed failed succeeded ops s = history_run (clock (wd s)) ops (steps (wd s)) h"
  using assms
proof (induction ops arbitrary: s h)
  case Nil
  show ?case by simp
next
  case (Cons op ops)
  have agree: "recent_attempts (clock (wd s) n) ts = recent_attempts (clock (wd s) n) ts'"
    if "steps (wd s) \<le> n" "recent_attempts (srv_now s) ts = recent_attempts (srv_now s) ts'" for n ts ts'
  proof -
    have "srv_now s \<le> clock (wd s) n" using Cons.prems(1) that(1) by (simp add: srv_now_def monoD)
    then have "recent_attempts (clock (wd s) n) xs = recent_attempts (clock (wd s) n) (recent_attempts (srv_now s) xs)" for xs
      by (auto simp: recent_attempts_def intro!: filter_cong)
    then show ?thesis using that(2) by metis
  qed
  have again: "recent_attempts now (recent_attempts now ts) = recent_attempts now ts" for now ts
    by (simp add: recent_attempts_def)
  have rel: "limiter_run allowed failed succeeded ops s' = history_run (clock (wd s)) ops n h'"
    if "clock (wd s') = clock (wd s)" "steps (wd s') = n" "\<And>k. recent_attempts (srv_now s') (table s' k) = recent_attempts (srv_now s') (h' k)" for s' n h'
    using Cons.IH [of s' h'] Cons.prems(1) that by simp
  show ?case
  proof (cases op)
    case (Check k)
    have "fst (allowed k s) \<longleftrightarrow> length (filter (\<lambda>t. srv_now s - t < 10 * minute) (h k)) < 5"
      using Cons.prems(2) [of k] unfolding allowed_answer
      by (simp add: recent_attempts_def less_diff_eq diff_less_eq add.commute)
    moreover have "limiter_run allowed failed succeeded ops (snd (allowed k s)) = history_run (clock (wd s)) ops (Suc (steps (wd s))) h"
      by (rule rel) (auto simp: limiter_world allowed_table srv_now_def [of "snd (allowed k s)"] again Cons.prems(2) intro!: agree)
    ultimately show ?thesis by (simp add: Check srv_now_def)
  next
    case (Fail k)
    have "limiter_run allowed failed succeeded ops (snd (failed k s)) =
        history_run (clock (wd s)) ops (Suc (steps (wd s))) (h(k := h k @ [srv_now s]))"
    proof (rule rel)
      fix k'
      let ?n = "clock (wd s) (Suc (steps (wd s)))"
      have "recent_attempts ?n (table s k'') = recent_attempts ?n (h k'')" for k'' by (rule agree) (simp_all add: Cons.prems(2))
      then show "recent_attempts (srv_now (snd (failed k s))) (table (snd (failed k s)) k') =
          recent_attempts (srv_now (snd (failed k s))) ((h(k := h k @ [srv_now s])) k')"
        by (simp add: failed_table srv_now_def [of "snd (failed k s)"] limiter_world recent_attempts_def)
    qed (simp_all add: limiter_world)
    then show ?thesis by (simp add: Fail srv_now_def)
  next
    case (Clear k)
    have "limiter_run allowed failed succeeded ops (snd (succeeded k s)) = history_run (clock (wd s)) ops (steps (wd s)) (h(k := []))"
      by (rule rel) (use Cons.prems(2) in \<open>auto simp: limiter_world succeeded_table srv_now_def\<close>)
    then show ?thesis by (simp add: Clear)
  next
    case (Wait m)
    have "limiter_run allowed failed succeeded ops (wait m s) = history_run (clock (wd s)) ops (steps (wd s) + m) h"
    proof (rule rel)
      fix k
      have "srv_now (wait m s) = clock (wd s) (steps (wd s) + m)" "table (wait m s) = table s"
        by (simp_all add: wait_def srv_now_def table_world)
      then show "recent_attempts (srv_now (wait m s)) (table (wait m s) k) = recent_attempts (srv_now (wait m s)) (h k)"
        by (simp only:) (rule agree, simp, rule Cons.prems(2))
    qed (simp_all add: wait_def)
    then show ?thesis by (simp add: Wait)
  qed
qed

text \<open>Failures that are still recent at the time of a check count against it.\<close>

lemma few_recent_failures:
  assumes "fst (allowed k s)" "\<And>t. T \<le> t \<Longrightarrow> srv_now s - 10 * minute < t"
  shows "length (filter (\<lambda>t. T \<le> t) (table s k)) < 5"
proof -
  have "length (filter (\<lambda>t. T \<le> t) (table s k)) \<le> length (recent_attempts (srv_now s) (table s k))"
    unfolding recent_attempts_def using assms(2) by (intro length_filter_impl) (simp add: algebra_simps)
  with assms(1) show ?thesis by (simp add: allowed_answer)
qed

end

interpretation pin_limiter: attempt_limiter pinAttempts pinAllowed pinFailed pinSucceeded
  by unfold_locales (simp_all add: pinAllowed_def pinFailed_def pinSucceeded_def Let_def srv_now_def)

interpretation login_limiter: attempt_limiter loginAttempts loginAllowed loginFailed loginSucceeded
  by unfold_locales (simp_all add: loginAllowed_def loginFailed_def loginSucceeded_def Let_def srv_now_def)

text \<open>
  C8: The rate limiters refine a plain history: for every sequence of checks, failures, successes
  and passing time on every mix of keys, the answers of the pruning implementation are those of a
  specification that keeps all failures since the last success and allows an attempt exactly when
  fewer than five of them are less than ten minutes old.
\<close>

theorem rate_limiters_refine_history:
  assumes "mono (clock (wd s))"
  shows "limiter_run pinAllowed pinFailed pinSucceeded ops s = history_run (clock (wd s)) ops (steps (wd s)) (pinAttempts s) \<and>
    limiter_run loginAllowed loginFailed loginSucceeded ops s = history_run (clock (wd s)) ops (steps (wd s)) (loginAttempts s)"
  using assms by (simp_all add: pin_limiter.refines_history login_limiter.refines_history)

theorem rate_limiters_refine_history_witness:
  "limiter_run pinAllowed pinFailed pinSucceeded (replicate 5 (Fail ''k'') @ [Check ''k'', Check ''m'', Clear ''k'', Check ''k''])
     (calm_server empty_tables) = [False, True, True]"
proof -
  have "mono (clock (wd (calm_server empty_tables)))" by (simp add: calm_world_def mono_def)
  note both = rate_limiters_refine_history [OF this]
  have "history_run (\<lambda>_. 0) (replicate 5 (Fail ''k'') @ [Check ''k'', Check ''m'', Clear ''k'', Check ''k'']) 0 (\<lambda>_. []) = [False, True, True]"
    by code_simp
  then show ?thesis
    using both [of "replicate 5 (Fail ''k'') @ [Check ''k'', Check ''m'', Clear ''k'', Check ''k'']"]
    by (simp only: calm_server_def calm_world_def srv.select_convs world.select_convs)
qed

end
