(* ===== verification/Permissions.thy ===== *)
theory Permissions
  imports Prelude
begin

text \<open>
  Administrative roles and permissions (\<^verbatim>\<open>internal/auth/permissions.go\<close>), the permission a
  request needs (\<^verbatim>\<open>internal/server/authorization.go\<close>) and the route table of the server
  (\<^verbatim>\<open>Server.routes\<close> in \<^verbatim>\<open>internal/server/server.go\<close>).  The theorems relate the two: every
  mutating administrative route asks for a write permission.
\<close>

section \<open>Roles and permissions\<close>

text \<open>A \<^verbatim>\<open>Role\<close> is a string; the five named ones and any other.\<close>

datatype Role =
  RoleAdmin | RoleOperator | RoleOIDCOperator | RoleClientOperator | RoleAuditor
| RoleOther string

datatype Permission =
  PermissionDashboardRead | PermissionIdentityRead | PermissionIdentityWrite
| PermissionCredentialsRead | PermissionCredentialsWrite | PermissionAuditRead
| PermissionOIDCRead | PermissionOIDCWrite | PermissionOIDCSessionsRead
| PermissionOIDCSessionsRevoke | PermissionClientsRead | PermissionClientUpdatesWrite
| PermissionSystemRead

definition allPermissions :: "Permission list" where
  "allPermissions =
     [PermissionDashboardRead, PermissionIdentityRead, PermissionIdentityWrite,
      PermissionCredentialsRead, PermissionCredentialsWrite, PermissionAuditRead,
      PermissionOIDCRead, PermissionOIDCWrite, PermissionOIDCSessionsRead,
      PermissionOIDCSessionsRevoke, PermissionClientsRead, PermissionClientUpdatesWrite,
      PermissionSystemRead]"

fun rolePermissions :: "Role \<Rightarrow> Permission list" where
  "rolePermissions RoleAdmin = allPermissions"
| "rolePermissions RoleOperator =
     [PermissionDashboardRead, PermissionIdentityRead, PermissionIdentityWrite,
      PermissionCredentialsRead, PermissionCredentialsWrite, PermissionSystemRead]"
| "rolePermissions RoleOIDCOperator =
     [PermissionDashboardRead, PermissionOIDCRead, PermissionOIDCWrite,
      PermissionOIDCSessionsRead, PermissionOIDCSessionsRevoke, PermissionSystemRead]"
| "rolePermissions RoleClientOperator =
     [PermissionDashboardRead, PermissionClientsRead, PermissionClientUpdatesWrite,
      PermissionSystemRead]"
| "rolePermissions RoleAuditor =
     [PermissionDashboardRead, PermissionIdentityRead, PermissionCredentialsRead,
      PermissionAuditRead, PermissionOIDCRead, PermissionOIDCSessionsRead,
      PermissionClientsRead, PermissionSystemRead]"
| "rolePermissions (RoleOther _) = []"

text \<open>The nested loop that fills the permission set.\<close>

definition Permissions :: "Role list \<Rightarrow> Permission set" where
  "Permissions roles =
     foldl (\<lambda>acc role. foldl (\<lambda>acc p. insert p acc) acc (rolePermissions role)) {} roles"

definition Allowed :: "Permission \<Rightarrow> Role list \<Rightarrow> bool" where
  "Allowed permission roles \<longleftrightarrow> permission \<in> Permissions roles"

lemma foldl_insert: "foldl (\<lambda>acc p. insert p acc) A ps = A \<union> set ps"
  by (induction ps arbitrary: A) auto

lemma Permissions_union: "Permissions roles = (\<Union>r \<in> set roles. set (rolePermissions r))"
proof -
  have "foldl (\<lambda>acc role. foldl (\<lambda>acc p. insert p acc) acc (rolePermissions role)) A roles
        = A \<union> (\<Union>r \<in> set roles. set (rolePermissions r))" for A
    by (induction roles arbitrary: A) (auto simp: foldl_insert)
  then show ?thesis by (simp add: Permissions_def)
qed

lemma Allowed_iff: "Allowed p roles \<longleftrightarrow> (\<exists>r \<in> set roles. p \<in> set (rolePermissions r))"
  by (simp add: Allowed_def Permissions_union)

lemma allPermissions_complete: "p \<in> set allPermissions"
  by (cases p) (simp_all add: allPermissions_def)

lemma Allowed_mono: "set roles \<subseteq> set roles' \<Longrightarrow> Allowed p roles \<Longrightarrow> Allowed p roles'"
  by (auto simp: Allowed_iff)

section \<open>The permission a request needs\<close>

definition mutating_method :: "string \<Rightarrow> bool" where
  "mutating_method m \<longleftrightarrow> m \<noteq> ''GET'' \<and> m \<noteq> ''HEAD'' \<and> m \<noteq> ''OPTIONS''"

definition requiredAdministrativePermission :: "string \<Rightarrow> string \<Rightarrow> Permission" where
  "requiredAdministrativePermission m path =
     (let mutating = mutating_method m in
      if path = ''/client-updates'' \<or> HasPrefix path ''/client-updates/'' then
        (if mutating then PermissionClientUpdatesWrite else PermissionClientsRead)
      else if path = ''/audit'' then PermissionAuditRead
      else if path = ''/oidc-clients'' \<or> HasPrefix path ''/oidc-clients/'' then
        (if mutating then PermissionOIDCWrite else PermissionOIDCRead)
      else if path = ''/oidc-sessions'' \<or> HasPrefix path ''/oidc-sessions/'' then
        (if mutating then PermissionOIDCSessionsRevoke else PermissionOIDCSessionsRead)
      else if path = ''/api/v1/clients'' \<or> path = ''/clients'' \<or> path = ''/api/v1/clients/certificates'' then
        PermissionClientsRead
      else if path = ''/status'' then PermissionSystemRead
      else if path = ''/pin'' \<or> HasPrefix path ''/users/'' \<and> HasSuffix path ''/pin'' then
        (if mutating then PermissionCredentialsWrite else PermissionCredentialsRead)
      else if path = ''/badges'' \<or> HasPrefix path ''/badges/'' \<or> path = ''/api/v1/badges''
              \<or> HasPrefix path ''/api/v1/badges/'' then
        (if mutating then PermissionCredentialsWrite else PermissionCredentialsRead)
      else if path = ''/users'' \<or> HasPrefix path ''/directory/users/'' \<or> path = ''/api/v1/users''
              \<or> HasPrefix path ''/api/v1/users/'' \<or> path = ''/api/v1/directory/users'' then
        (if mutating then PermissionIdentityWrite else PermissionIdentityRead)
      else PermissionDashboardRead)"

section \<open>Routes\<close>

text \<open>Method and path of each registered route; \<open>i\<close> is the value of the path wildcard \<open>{id}\<close>.\<close>

definition routes :: "string \<Rightarrow> (string \<times> string) list" where
  "routes i =
    [(''GET'', ''/clients''), (''GET'', ''/api/v1/clients/certificates''),
     (''GET'', ''/client-updates''), (''POST'', ''/client-updates''),
     (''POST'', ''/client-updates/'' @ i @ ''/cancel''), (''GET'', ''/api/v1/health''),
     (''POST'', ''/api/v1/client/status''), (''GET'', ''/api/v1/clients''), (''GET'', ''/status''),
     (''GET'', ''/oidc-clients''), (''POST'', ''/oidc-clients''),
     (''POST'', ''/oidc-clients/'' @ i @ ''/rotate-secret''),
     (''POST'', ''/oidc-clients/'' @ i @ ''/configure''),
     (''POST'', ''/oidc-clients/'' @ i @ ''/enable''),
     (''POST'', ''/oidc-clients/'' @ i @ ''/disable''), (''GET'', ''/oidc-sessions''),
     (''POST'', ''/oidc-sessions/'' @ i @ ''/revoke''), (''POST'', ''/oidc-sessions/revoke-user''),
     (''POST'', ''/oidc-sessions/revoke-client''), (''POST'', ''/oidc-sessions/revoke-all''),
     (''GET'', ''/api/v1/users''), (''POST'', ''/api/v1/users''), (''GET'', ''/api/v1/users/'' @ i),
     (''GET'', ''/api/v1/badges''), (''POST'', ''/api/v1/badges''), (''GET'', ''/api/v1/badges/'' @ i),
     (''POST'', ''/api/v1/badges/'' @ i @ ''/revoke''), (''POST'', ''/api/v1/badges/'' @ i @ ''/replace''),
     (''GET'', ''/api/v1/badges/'' @ i @ ''/qr''), (''POST'', ''/api/v1/auth/badge''),
     (''POST'', ''/api/v1/auth/pkinit''), (''GET'', ''/api/v1/directory/users''),
     (''POST'', ''/directory/users/import''), (''POST'', ''/users/'' @ i @ ''/pin''), (''GET'', ''/pin''),
     (''GET'', ''/login''), (''POST'', ''/login''), (''GET'', ''/emergency-login''),
     (''POST'', ''/emergency-login''), (''POST'', ''/logout''), (''GET'', ''/self-service''),
     (''POST'', ''/self-service/login''), (''POST'', ''/self-service/pin''),
     (''POST'', ''/self-service/badges/'' @ i @ ''/revoke''),
     (''POST'', ''/self-service/badges/activate''), (''POST'', ''/self-service/sessions/logout-others''),
     (''POST'', ''/self-service/logout''), (''GET'', ''/static/style.css''), (''GET'', ''/''),
     (''POST'', ''/users''), (''POST'', ''/badges''), (''POST'', ''/badges/'' @ i @ ''/revoke''),
     (''POST'', ''/badges/'' @ i @ ''/replace'')]"

text \<open>The paths the guard lets through without an administrator session.\<close>

definition public_path :: "string \<Rightarrow> bool" where
  "public_path path \<longleftrightarrow>
     path = ''/login'' \<or> path = ''/emergency-login'' \<or> path = ''/api/v1/health'' \<or>
     path = ''/api/v1/client/status'' \<or> path = ''/api/v1/auth/badge'' \<or>
     path = ''/api/v1/auth/pkinit'' \<or> path = ''/.well-known/openid-configuration'' \<or>
     HasPrefix path ''/oauth2/'' \<or> HasPrefix path ''/self-service'' \<or> HasPrefix path ''/static/''"

definition write_permission :: "Permission \<Rightarrow> bool" where
  "write_permission p \<longleftrightarrow>
     p \<in> {PermissionIdentityWrite, PermissionCredentialsWrite, PermissionOIDCWrite,
           PermissionOIDCSessionsRevoke, PermissionClientUpdatesWrite}"

lemma HasSuffix_append [simp]: "HasSuffix (a @ s) s"
  by (simp add: HasSuffix_def)

lemma HasSuffix_users_pin:
  "HasSuffix (''/users/'' @ i @ ''/pin'') ''/pin''"
  using HasSuffix_append [of "''/users/'' @ i" "''/pin''"] by simp

lemma HasPrefix_Cons [simp]: "HasPrefix (x # xs) (y # ys) \<longleftrightarrow> x = y \<and> HasPrefix xs ys"
  by (auto simp: HasPrefix_def)

lemma HasPrefix_Nil [simp]: "HasPrefix xs []" "HasPrefix [] (y # ys) \<longleftrightarrow> False"
  by (simp_all add: HasPrefix_def)

lemma requiredAdministrativePermission_users_pin:
  "requiredAdministrativePermission ''POST'' (''/users/'' @ i @ ''/pin'') = PermissionCredentialsWrite"
  using HasSuffix_users_pin [of i]
  by (simp add: requiredAdministrativePermission_def mutating_method_def)

text \<open>Every registered route that is neither public nor the logout route and whose method
  is not GET, HEAD or OPTIONS asks for a write permission, whatever the path wildcard is.\<close>

lemma route_write_permission:
  assumes "(m, path) \<in> set (routes i)" "mutating_method m" "\<not> public_path path" "path \<noteq> ''/logout''"
  shows "write_permission (requiredAdministrativePermission m path)"
proof -
  have "\<forall>(m, path) \<in> set (routes i). mutating_method m \<longrightarrow> \<not> public_path path \<longrightarrow> path \<noteq> ''/logout''
      \<longrightarrow> write_permission (requiredAdministrativePermission m path)"
    unfolding routes_def
    using requiredAdministrativePermission_users_pin [of i]
    by (simp add: public_path_def mutating_method_def write_permission_def
        requiredAdministrativePermission_def)
  with assms show ?thesis by blast
qed

text \<open>The auditor role passes the permission check of no mutating administrative route,
  while the administrator role passes every one; roles without a table entry grant nothing.\<close>

theorem auditor_is_read_only:
  "\<not> (\<exists>p. write_permission p \<and> Allowed p [RoleAuditor]) \<and> Allowed p [RoleAdmin]
   \<and> \<not> Allowed p (map RoleOther names)"
  using allPermissions_complete [of p]
  by (auto simp: Allowed_iff write_permission_def)

end
