(* ===== verification/Directory.thy ===== *)
theory Directory
  imports Permissions
begin

text \<open>
  The directory service as the server sees it: the interfaces \<^verbatim>\<open>directory.Directory\<close> and
  \<^verbatim>\<open>directory.AdministrativeDirectory\<close> are records of functions, whose first argument is the step at
  which they are asked, since the directory may answer differently every time.
\<close>

record directory_user =
  du_Username :: string
  du_DisplayName :: string
  du_DN :: string
  du_Mail :: string

datatype directory_error = ErrUserNotFound | ErrNotAuthorized | ErrDirectory

record administrative_directory =
  AdministrativeRoles :: "nat \<Rightarrow> string \<Rightarrow> directory_error + Role list"
  AuthenticateAdministrative :: "nat \<Rightarrow> string \<Rightarrow> string \<Rightarrow> directory_error + directory_user \<times> Role list"

text \<open>The last field is the type assertion to \<^verbatim>\<open>directory.AdministrativeDirectory\<close>.\<close>

record directory =
  UserExists :: "nat \<Rightarrow> string \<Rightarrow> directory_error + bool"
  GetDirectoryUser :: "nat \<Rightarrow> string \<Rightarrow> directory_error + directory_user"
  ListUsers :: "nat \<Rightarrow> directory_error + directory_user list"
  AuthenticateUser :: "nat \<Rightarrow> string \<Rightarrow> string \<Rightarrow> directory_error + directory_user"
  AuthenticateAdmin :: "nat \<Rightarrow> string \<Rightarrow> string \<Rightarrow> directory_error + directory_user"
  as_administrative :: "administrative_directory option"

end
