(* ===== verification/Oidc_Store.thy ===== *)
theory Oidc_Store
  imports Badge_Store Contracts
begin

text \<open>
  The OpenID Connect tables of the SQLite store: subjects, clients, authorization codes and
  access-token sessions (\<^verbatim>\<open>database.go\<close>, \<^verbatim>\<open>oidc_audit.go\<close>, \<^verbatim>\<open>oidc_sessions.go\<close>,
  \<^verbatim>\<open>oidc_administration_audit.go\<close>).
\<close>

section \<open>Statements\<close>

text \<open>\<^verbatim>\<open>DELETE FROM oidc_codes WHERE code_hash IN (SELECT \<dots> WHERE expires_at<CURRENT_TIMESTAMP LIMIT 100)\<close>\<close>

definition delete_expired_codes :: stmt where
  "delete_expired_codes now t =
     (let doomed = map od_code_hash (take 100 (filter (\<lambda>c. od_expires_at c < now) (oidc_codes t)));
          P = (\<lambda>c. od_code_hash c \<in> set doomed)
      in Some (t\<lparr>oidc_codes := filter (\<lambda>c. \<not> P c) (oidc_codes t)\<rparr>, count_where P (oidc_codes t), 0))"

definition insert_oidc_code :: "OIDCCode \<Rightarrow> stmt" where
  "insert_oidc_code c now t =
     (let t' = t\<lparr>oidc_codes := oidc_codes t @ [c\<lparr>od_consumed_at := None\<rparr>]\<rparr>
      in if ok_oidc_codes t' then Some (t', 1, 0) else None)"

definition consume_oidc_code :: "string \<Rightarrow> time \<Rightarrow> stmt" where
  "consume_oidc_code hash now stamp t =
     (let P = (\<lambda>c. od_code_hash c = hash \<and> od_consumed_at c = None);
          t' = t\<lparr>oidc_codes := update_where P (\<lambda>c. c\<lparr>od_consumed_at := Some now\<rparr>) (oidc_codes t)\<rparr>
      in if ok_oidc_codes t' then Some (t', count_where P (oidc_codes t), 0) else None)"

definition redeemable :: "string \<Rightarrow> string \<Rightarrow> string \<Rightarrow> time \<Rightarrow> OIDCCode \<Rightarrow> bool" where
  "redeemable hash clientID redirectURI now c \<longleftrightarrow>
     od_code_hash c = hash \<and> od_client_id c = clientID \<and> od_redirect_uri c = redirectURI \<and>
     od_consumed_at c = None \<and> now \<le> od_expires_at c"

definition delete_old_oidc_sessions :: "time \<Rightarrow> stmt" where
  "delete_old_oidc_sessions before now t =
     Some (t\<lparr>oidc_sessions := filter (\<lambda>s. \<not> os_expires_at s < before) (oidc_sessions t)\<rparr>,
           count_where (\<lambda>s. os_expires_at s < before) (oidc_sessions t), 0)"

definition insert_oidc_session :: "OIDCSessionRow \<Rightarrow> stmt" where
  "insert_oidc_session s now t =
     (let t' = t\<lparr>oidc_sessions := oidc_sessions t @ [s\<lparr>os_revoked_at := None\<rparr>]\<rparr>
      in if ok_oidc_sessions t' then Some (t', 1, 0) else None)"

definition revoke_oidc_sessions :: "(time \<Rightarrow> tables \<Rightarrow> OIDCSessionRow \<Rightarrow> bool) \<Rightarrow> (time \<Rightarrow> time) \<Rightarrow> stmt" where
  "revoke_oidc_sessions P stamp now t =
     (let t' = t\<lparr>oidc_sessions := update_where (P now t) (\<lambda>s. s\<lparr>os_revoked_at := Some (stamp now)\<rparr>) (oidc_sessions t)\<rparr>
      in if ok_oidc_sessions t' then Some (t', count_where (P now t) (oidc_sessions t), 0) else None)"

definition insert_oidc_client :: "string \<Rightarrow> string \<Rightarrow> string \<Rightarrow> string \<Rightarrow> stmt" where
  "insert_oidc_client clientID secretHash redirectURIs scopes now t =
     (let t' = t\<lparr>oidc_clients := oidc_clients t @ [\<lparr>oc_client_id = clientID, oc_secret_hash = secretHash,
                oc_redirect_uris = redirectURIs, oc_scopes = scopes, oc_enabled = True\<rparr>]\<rparr>
      in if ok_oidc_clients t' then Some (t', 1, 0) else None)"

definition update_oidc_clients :: "(OIDCClient \<Rightarrow> bool) \<Rightarrow> (OIDCClient \<Rightarrow> OIDCClient) \<Rightarrow> stmt" where
  "update_oidc_clients P f now t =
     (let t' = t\<lparr>oidc_clients := update_where P f (oidc_clients t)\<rparr>
      in if ok_oidc_clients t' then Some (t', count_where P (oidc_clients t), 0) else None)"

text \<open>\<^verbatim>\<open>INSERT \<dots> ON CONFLICT(client_id) DO UPDATE\<close>\<close>

definition upsert_oidc_client :: "string \<Rightarrow> string \<Rightarrow> string \<Rightarrow> string \<Rightarrow> stmt" where
  "upsert_oidc_client clientID secretHash redirectURIs scopes now t =
     (if clientID \<in> oc_client_id ` set (oidc_clients t)
      then update_oidc_clients (\<lambda>c. oc_client_id c = clientID)
             (\<lambda>c. c\<lparr>oc_secret_hash := secretHash, oc_redirect_uris := redirectURIs, oc_scopes := scopes,
                   oc_enabled := True\<rparr>) now t
      else insert_oidc_client clientID secretHash redirectURIs scopes now t)"

section \<open>Subjects\<close>

definition set_subject :: "int \<Rightarrow> string \<Rightarrow> stmt" where
  "set_subject userID subject =
     update_users (\<lambda>u. usr_id u = userID \<and> usr_oidc_subject u = [])
       (\<lambda>now u. u\<lparr>usr_oidc_subject := subject, usr_updated_at := now\<rparr>)"

definition EnsureOIDCSubject :: "int \<Rightarrow> string dbm" where
  "EnsureOIDCSubject userID = tx (
     dbind (query_row (\<lambda>t. map usr_oidc_subject (filter (\<lambda>u. usr_id u = userID) (users t)))) (\<lambda>subject.
     if subject = [] then
       dbind rand_m (\<lambda>raw.
       dbind (ret (RawURL_encode raw)) (\<lambda>subject.
       dbind (exec (set_subject userID subject)) (\<lambda>result.
       dthen (one_row_or (ErrText ''OIDC subject update raced'') result)
       (ret subject))))
     else ret subject))"

definition EnsureOIDCSubjectWithAudit :: "int \<Rightarrow> string \<Rightarrow> string dbm" where
  "EnsureOIDCSubjectWithAudit userID ip =
     dthen (validateAuditIP ip) (tx (
     dbind (query_row (\<lambda>t. map (\<lambda>u. (usr_oidc_subject u, usr_username u))
              (filter (\<lambda>u. usr_id u = userID) (users t)))) (\<lambda>(subject, username).
     if subject \<noteq> [] then ret subject
     else
       dbind rand_m (\<lambda>raw.
       dbind (ret (RawURL_encode raw)) (\<lambda>subject.
       dbind (exec (set_subject userID subject)) (\<lambda>result.
       dthen (one_row result)
       (dthen (exec (insert_audit (audit_event ''oidc_subject_created'' [] username [] True ip [])))
       (ret subject))))))))"

section \<open>Clients\<close>

definition UpsertOIDCClient :: "string \<Rightarrow> string \<Rightarrow> string \<Rightarrow> string \<Rightarrow> unit dbm" where
  "UpsertOIDCClient clientID secretHash redirectURIs scopes =
     discard (exec (upsert_oidc_client clientID secretHash redirectURIs scopes))"

definition CreateOIDCClient :: "string \<Rightarrow> string \<Rightarrow> string \<Rightarrow> string \<Rightarrow> unit dbm" where
  "CreateOIDCClient clientID secretHash redirectURIs scopes =
     discard (exec (insert_oidc_client clientID secretHash redirectURIs scopes))"

definition RotateOIDCClientSecret :: "string \<Rightarrow> string \<Rightarrow> unit dbm" where
  "RotateOIDCClientSecret clientID secretHash =
     dbind (exec (update_oidc_clients (\<lambda>c. oc_client_id c = clientID) (\<lambda>c. c\<lparr>oc_secret_hash := secretHash\<rparr>))) one_row"

definition OIDCClientByID :: "string \<Rightarrow> OIDCClient dbm" where
  "OIDCClientByID clientID = query_row (\<lambda>t. filter (\<lambda>c. oc_client_id c = clientID) (oidc_clients t))"

definition OIDCClients :: "OIDCClient list dbm" where
  "OIDCClients = query_all (\<lambda>t. sort_key oc_client_id (oidc_clients t))"

definition SetOIDCClientEnabled :: "string \<Rightarrow> bool \<Rightarrow> unit dbm" where
  "SetOIDCClientEnabled clientID enabled =
     dbind (exec (update_oidc_clients (\<lambda>c. oc_client_id c = clientID) (\<lambda>c. c\<lparr>oc_enabled := enabled\<rparr>))) one_row"

definition CreateOIDCClientWithAudit :: "string \<Rightarrow> string \<Rightarrow> string \<Rightarrow> string \<Rightarrow> string \<Rightarrow> unit dbm" where
  "CreateOIDCClientWithAudit clientID secretHash redirectURIs scopes ip =
     dthen (validateAuditIP ip) (tx (
       dthen (exec (insert_oidc_client clientID secretHash redirectURIs scopes))
       (dthen (exec (insert_audit (audit_event ''oidc_client_created'' [] [] clientID True ip [])))
       (ret ()))))"

definition updateOIDCClientWithAudit ::
  "string \<Rightarrow> string \<Rightarrow> string \<Rightarrow> (OIDCClient \<Rightarrow> OIDCClient) \<Rightarrow> unit dbm" where
  "updateOIDCClientWithAudit clientID ip event f =
     dthen (validateAuditIP ip) (tx (
       dbind (exec (update_oidc_clients (\<lambda>c. oc_client_id c = clientID) f)) (\<lambda>result.
       dthen (one_row result)
       (dthen (exec (insert_audit (audit_event event [] [] clientID True ip [])))
       (ret ())))))"

definition RotateOIDCClientSecretWithAudit :: "string \<Rightarrow> string \<Rightarrow> string \<Rightarrow> unit dbm" where
  "RotateOIDCClientSecretWithAudit clientID secretHash ip =
     updateOIDCClientWithAudit clientID ip ''oidc_client_secret_rotated'' (\<lambda>c. c\<lparr>oc_secret_hash := secretHash\<rparr>)"

definition UpdateOIDCClientConfigurationWithAudit :: "string \<Rightarrow> string \<Rightarrow> string \<Rightarrow> string \<Rightarrow> unit dbm" where
  "UpdateOIDCClientConfigurationWithAudit clientID redirectURIs scopes ip =
     updateOIDCClientWithAudit clientID ip ''oidc_client_configuration_updated''
       (\<lambda>c. c\<lparr>oc_redirect_uris := redirectURIs, oc_scopes := scopes\<rparr>)"

definition SetOIDCClientEnabledWithAudit :: "string \<Rightarrow> bool \<Rightarrow> string \<Rightarrow> unit dbm" where
  "SetOIDCClientEnabledWithAudit clientID enabled ip =
     (if enabled then
        updateOIDCClientWithAudit clientID ip ''oidc_client_enabled'' (\<lambda>c. c\<lparr>oc_enabled := True\<rparr>)
      else
        dthen (validateAuditIP ip) (tx (
          dbind (exec (update_oidc_clients (\<lambda>c. oc_client_id c = clientID) (\<lambda>c. c\<lparr>oc_enabled := False\<rparr>))) (\<lambda>result.
          dthen (one_row result)
          (dthen (exec (revoke_oidc_sessions (\<lambda>now t s. os_client_id s = clientID \<and> os_revoked_at s = None) (\<lambda>now. now)))
          (dthen (exec (insert_audit (audit_event ''oidc_client_disabled'' [] [] clientID True ip [])))
          (ret ())))))))"

section \<open>Authorization codes\<close>

definition CreateOIDCCode :: "OIDCCode \<Rightarrow> unit dbm" where
  "CreateOIDCCode c = dthen (exec delete_expired_codes) (discard (exec (insert_oidc_code c)))"

definition CreateOIDCCodeWithAudit :: "OIDCCode \<Rightarrow> string \<Rightarrow> string \<Rightarrow> unit dbm" where
  "CreateOIDCCodeWithAudit code username ip =
     dthen (validateAuditIP ip) (tx (
       dthen (exec delete_expired_codes)
       (dthen (exec (insert_oidc_code code))
       (dbind (query_row (\<lambda>t. map usr_username (filter (\<lambda>u. usr_id u = od_user_id code) (users t)))) (\<lambda>storedUsername.
       dthen (ensure (\<not> storedUsername \<noteq> username) (ErrText ''OIDC audit identity mismatch''))
       (dthen (exec (insert_audit (audit_event ''oidc_login'' [] storedUsername (od_client_id code) True ip [])))
       (dthen (exec (insert_audit (audit_event ''oidc_consent'' [] storedUsername (od_client_id code) True ip
                (od_scope code))))
       (dthen (exec (insert_audit (audit_event ''oidc_code_issued'' [] storedUsername (od_client_id code) True ip [])))
       (ret ())))))))))"

definition select_code :: "string \<Rightarrow> string \<Rightarrow> string \<Rightarrow> time \<Rightarrow> OIDCCode dbm" where
  "select_code hash clientID redirectURI now =
     query_row (\<lambda>t. filter (redeemable hash clientID redirectURI now) (oidc_codes t))"

definition OIDCCodeForExchange :: "string \<Rightarrow> string \<Rightarrow> string \<Rightarrow> time \<Rightarrow> OIDCCode dbm" where
  "OIDCCodeForExchange hash clientID redirectURI now = select_code hash clientID redirectURI now"

definition ConsumeOIDCCode :: "string \<Rightarrow> string \<Rightarrow> string \<Rightarrow> time \<Rightarrow> OIDCCode dbm" where
  "ConsumeOIDCCode codeHash clientID redirectURI now = tx (
     dbind (select_code codeHash clientID redirectURI now) (\<lambda>c.
     dbind (exec (consume_oidc_code codeHash now)) (\<lambda>r.
     dthen (one_row r) (ret c))))"

definition ConsumeOIDCCodeDenialWithAudit ::
  "string \<Rightarrow> string \<Rightarrow> string \<Rightarrow> time \<Rightarrow> string \<Rightarrow> string \<Rightarrow> unit dbm" where
  "ConsumeOIDCCodeDenialWithAudit hash clientID redirectURI now ip reason =
     dthen (validateAuditIP ip)
     (dthen (ensure (\<not> (reason \<noteq> ''pkce_failed'' \<and> reason \<noteq> ''user_unavailable'' \<and> reason \<noteq> ''user_inactive''))
              (ErrText ''invalid OIDC denial reason'')) (tx (
       dbind (select_code hash clientID redirectURI now) (\<lambda>code.
       dbind (exec (consume_oidc_code hash now)) (\<lambda>result.
       dthen (one_row result)
       (dbind (query_row (\<lambda>t. map usr_username (filter (\<lambda>u. usr_id u = od_user_id code) (users t)))) (\<lambda>username.
       dthen (exec (insert_audit (audit_event ''oidc_token_denied'' [] username clientID False ip reason)))
       (ret ()))))))))"

definition ConsumeOIDCCodeWithAudit :: "string \<Rightarrow> string \<Rightarrow> string \<Rightarrow> time \<Rightarrow> string \<Rightarrow> OIDCCode dbm" where
  "ConsumeOIDCCodeWithAudit hash clientID redirectURI now ip =
     dthen (validateAuditIP ip) (tx (
       dbind (select_code hash clientID redirectURI now) (\<lambda>code.
       dbind (exec (consume_oidc_code hash now)) (\<lambda>result.
       dthen (one_row result)
       (dbind (query_row (\<lambda>t. map usr_username (filter (\<lambda>u. usr_id u = od_user_id code) (users t)))) (\<lambda>username.
       dthen (exec (insert_audit (audit_event ''oidc_token_issued'' [] username clientID True ip [])))
       (ret code)))))))"

section \<open>Access-token sessions\<close>

record OIDCSession =
  OIDCSession_SessionID :: string
  OIDCSession_AccessTokenHash :: string
  OIDCSession_ClientID :: string
  OIDCSession_UserID :: int
  OIDCSession_Username :: string
  OIDCSession_Subject :: string
  OIDCSession_Scope :: string
  OIDCSession_IssuedAt :: time
  OIDCSession_ExpiresAt :: time
  OIDCSession_RevokedAt :: "time option"

definition scanSQLiteOIDCSession :: "OIDCSessionRow \<times> users_row \<Rightarrow> OIDCSession" where
  "scanSQLiteOIDCSession = (\<lambda>(s, u).
     \<lparr>OIDCSession_SessionID = os_session_id s, OIDCSession_AccessTokenHash = os_access_token_hash s,
      OIDCSession_ClientID = os_client_id s, OIDCSession_UserID = os_user_id s,
      OIDCSession_Username = usr_username u, OIDCSession_Subject = usr_oidc_subject u,
      OIDCSession_Scope = os_scope s, OIDCSession_IssuedAt = os_issued_at s,
      OIDCSession_ExpiresAt = os_expires_at s, OIDCSession_RevokedAt = os_revoked_at s\<rparr>)"

definition ConsumeOIDCCodeWithSessionAudit ::
  "string \<Rightarrow> string \<Rightarrow> string \<Rightarrow> time \<Rightarrow> OIDCSession \<Rightarrow> string \<Rightarrow> OIDCCode dbm" where
  "ConsumeOIDCCodeWithSessionAudit hash clientID redirectURI now session ip =
     dthen (validateAuditIP ip)
     (dthen (ensure (\<not> (OIDCSession_SessionID session = [] \<or> OIDCSession_AccessTokenHash session = [] \<or>
                     \<not> OIDCSession_ExpiresAt session > now)) (ErrText ''invalid OIDC session'')) (tx (
       dbind (select_code hash clientID redirectURI now) (\<lambda>code.
       dbind (exec (consume_oidc_code hash now)) (\<lambda>result.
       dthen (one_row result)
       (dbind (query_row (\<lambda>t. map usr_username (filter (\<lambda>u. usr_id u = od_user_id code) (users t)))) (\<lambda>username.
       dthen (exec (delete_old_oidc_sessions (now - 7 * 24 * hour)))
       (dthen (exec (insert_oidc_session
                \<lparr>os_session_id = OIDCSession_SessionID session,
                 os_access_token_hash = OIDCSession_AccessTokenHash session,
                 os_client_id = od_client_id code, os_user_id = od_user_id code, os_scope = od_scope code,
                 os_issued_at = now, os_expires_at = OIDCSession_ExpiresAt session, os_revoked_at = None\<rparr>))
       (dthen (exec (insert_audit (audit_event ''oidc_token_issued'' [] username clientID True ip [])))
       (ret code))))))))))"

definition OIDCSessionByTokenHash :: "string \<Rightarrow> string \<Rightarrow> time \<Rightarrow> OIDCSession dbm" where
  "OIDCSessionByTokenHash tokenHash clientID now =
     query_row (\<lambda>t. map scanSQLiteOIDCSession [(s, u). s \<leftarrow> oidc_sessions t, u \<leftarrow> users t, c \<leftarrow> oidc_clients t,
        usr_id u = os_user_id s \<and> oc_client_id c = os_client_id s \<and> os_access_token_hash s = tokenHash \<and>
        os_client_id s = clientID \<and> os_revoked_at s = None \<and> os_expires_at s > now \<and> oc_enabled c])"

definition OIDCSessions :: "time \<Rightarrow> OIDCSession list dbm" where
  "OIDCSessions now =
     query_all (\<lambda>t. take 200 (map scanSQLiteOIDCSession (rev (sort_key (\<lambda>(s, u). os_issued_at s)
        [(s, u). s \<leftarrow> oidc_sessions t, u \<leftarrow> users t, usr_id u = os_user_id s]))))"

definition revokeOIDCSessionWithAudit ::
  "(OIDCSessionRow \<Rightarrow> bool) \<Rightarrow> string \<Rightarrow> string \<Rightarrow> unit dbm" where
  "revokeOIDCSessionWithAudit predicate ip reason =
     dthen (validateAuditIP ip) (tx (
       dbind (query_row (\<lambda>t. [(os_session_id s, usr_username u, os_client_id s). s \<leftarrow> oidc_sessions t, u \<leftarrow> users t,
                usr_id u = os_user_id s \<and> predicate s \<and> os_revoked_at s = None])) (\<lambda>(sessionID, username, clientID).
       dbind now_m (\<lambda>now.
       dbind (exec (revoke_oidc_sessions (\<lambda>_ t s. predicate s \<and> os_revoked_at s = None) (\<lambda>_. now))) (\<lambda>result.
       dthen (one_row result)
       (dthen (exec (insert_audit (audit_event ''oidc_session_revoked'' [] username clientID True ip reason)))
       (ret ())))))))"

definition RevokeOIDCSessionWithAudit :: "string \<Rightarrow> string \<Rightarrow> string \<Rightarrow> unit dbm" where
  "RevokeOIDCSessionWithAudit sessionID ip reason =
     revokeOIDCSessionWithAudit (\<lambda>s. os_session_id s = sessionID) ip reason"

definition RevokeOIDCSessionByTokenHashWithAudit :: "string \<Rightarrow> string \<Rightarrow> string \<Rightarrow> unit dbm" where
  "RevokeOIDCSessionByTokenHashWithAudit tokenHash clientID ip =
     revokeOIDCSessionWithAudit (\<lambda>s. os_access_token_hash s = tokenHash \<and> os_client_id s = clientID) ip
       ''client_revocation''"

definition revokeOIDCSessionsBulkWithAudit ::
  "(tables \<Rightarrow> OIDCSessionRow \<Rightarrow> bool) \<Rightarrow> string \<Rightarrow> string \<Rightarrow> string \<Rightarrow> string \<Rightarrow> string \<Rightarrow> nat dbm" where
  "revokeOIDCSessionsBulkWithAudit predicate event username clientID ip reason =
     dthen (validateAuditIP ip) (tx (
       dbind now_m (\<lambda>now.
       dbind (exec (revoke_oidc_sessions
                (\<lambda>stamp t s. predicate t s \<and> os_revoked_at s = None \<and> os_expires_at s > stamp) (\<lambda>_. now))) (\<lambda>result.
       dbind (RowsAffected result) (\<lambda>count.
       dthen (ensure (\<not> count = 0) ErrNoRows)
       (dthen (exec (insert_audit (audit_event event [] username clientID True ip
                (reason @ '',count='' @ show_nat count))))
       (ret count)))))))"

text \<open>\<^verbatim>\<open>user_id=(SELECT id FROM users WHERE lower(username)=lower(?))\<close>: the first match.\<close>

definition user_id_matches :: "string \<Rightarrow> tables \<Rightarrow> int \<Rightarrow> bool" where
  "user_id_matches username t i =
     (case filter (\<lambda>u. lower (usr_username u) = lower username) (users t) of [] \<Rightarrow> False | u # _ \<Rightarrow> usr_id u = i)"

definition RevokeOIDCSessionsByUserWithAudit :: "string \<Rightarrow> string \<Rightarrow> nat dbm" where
  "RevokeOIDCSessionsByUserWithAudit username ip =
     dbind (query_row (\<lambda>t. map usr_username (filter (\<lambda>u. lower (usr_username u) = lower username) (users t)))) (\<lambda>canonical.
     revokeOIDCSessionsBulkWithAudit (\<lambda>t s. user_id_matches canonical t (os_user_id s))
       ''oidc_user_sessions_revoked'' canonical [] ip ''admin_user_revocation'')"

definition RevokeOIDCSessionsByClientWithAudit :: "string \<Rightarrow> string \<Rightarrow> nat dbm" where
  "RevokeOIDCSessionsByClientWithAudit clientID ip =
     revokeOIDCSessionsBulkWithAudit (\<lambda>t s. os_client_id s = clientID)
       ''oidc_client_sessions_revoked'' [] clientID ip ''admin_client_revocation''"

definition RevokeAllOIDCSessionsWithAudit :: "string \<Rightarrow> nat dbm" where
  "RevokeAllOIDCSessionsWithAudit ip =
     revokeOIDCSessionsBulkWithAudit (\<lambda>t s. True)
       ''oidc_all_sessions_revoked'' [] [] ip ''admin_global_revocation''"

section \<open>Operations as data\<close>

datatype oidc_op =
  OpEnsureSubject int
| OpEnsureSubjectWithAudit int string
| OpUpsertClient string string string string
| OpCreateOIDCClient string string string string
| OpCreateOIDCClientWithAudit string string string string string
| OpRotateSecret string string
| OpRotateSecretWithAudit string string string
| OpConfigureWithAudit string string string string
| OpSetOIDCEnabled string bool
| OpSetOIDCEnabledWithAudit string bool string
| OpCreateCode OIDCCode
| OpCreateCodeWithAudit OIDCCode string string
| OpConsumeCode string string string time
| OpDenyCode string string string time string string
| OpConsumeCodeWithAudit string string string time string
| OpConsumeCodeWithSession string string string time OIDCSession string
| OpRevokeOIDCSession string string string
| OpRevokeOIDCToken string string string
| OpRevokeUser string string
| OpRevokeClient string string
| OpRevokeAll string

definition no_code :: "'a dbm \<Rightarrow> OIDCCode option dbm" where
  "no_code m = dthen m (ret None)"

definition with_code :: "OIDCCode dbm \<Rightarrow> OIDCCode option dbm" where
  "with_code m = dbind m (\<lambda>c. ret (Some c))"

fun oidc_step :: "oidc_op \<Rightarrow> OIDCCode option dbm" where
  "oidc_step (OpEnsureSubject u) = no_code (EnsureOIDCSubject u)"
| "oidc_step (OpEnsureSubjectWithAudit u ip) = no_code (EnsureOIDCSubjectWithAudit u ip)"
| "oidc_step (OpUpsertClient c s r sc) = no_code (UpsertOIDCClient c s r sc)"
| "oidc_step (OpCreateOIDCClient c s r sc) = no_code (CreateOIDCClient c s r sc)"
| "oidc_step (OpCreateOIDCClientWithAudit c s r sc ip) = no_code (CreateOIDCClientWithAudit c s r sc ip)"
| "oidc_step (OpRotateSecret c s) = no_code (RotateOIDCClientSecret c s)"
| "oidc_step (OpRotateSecretWithAudit c s ip) = no_code (RotateOIDCClientSecretWithAudit c s ip)"
| "oidc_step (OpConfigureWithAudit c r sc ip) = no_code (UpdateOIDCClientConfigurationWithAudit c r sc ip)"
| "oidc_step (OpSetOIDCEnabled c e) = no_code (SetOIDCClientEnabled c e)"
| "oidc_step (OpSetOIDCEnabledWithAudit c e ip) = no_code (SetOIDCClientEnabledWithAudit c e ip)"
| "oidc_step (OpCreateCode c) = no_code (CreateOIDCCode c)"
| "oidc_step (OpCreateCodeWithAudit c u ip) = no_code (CreateOIDCCodeWithAudit c u ip)"
| "oidc_step (OpConsumeCode h c r now) = with_code (ConsumeOIDCCode h c r now)"
| "oidc_step (OpDenyCode h c r now ip reason) = no_code (ConsumeOIDCCodeDenialWithAudit h c r now ip reason)"
| "oidc_step (OpConsumeCodeWithAudit h c r now ip) = with_code (ConsumeOIDCCodeWithAudit h c r now ip)"
| "oidc_step (OpConsumeCodeWithSession h c r now s ip) =
     with_code (ConsumeOIDCCodeWithSessionAudit h c r now s ip)"
| "oidc_step (OpRevokeOIDCSession s ip reason) = no_code (RevokeOIDCSessionWithAudit s ip reason)"
| "oidc_step (OpRevokeOIDCToken h c ip) = no_code (RevokeOIDCSessionByTokenHashWithAudit h c ip)"
| "oidc_step (OpRevokeUser u ip) = no_code (RevokeOIDCSessionsByUserWithAudit u ip)"
| "oidc_step (OpRevokeClient c ip) = no_code (RevokeOIDCSessionsByClientWithAudit c ip)"
| "oidc_step (OpRevokeAll ip) = no_code (RevokeAllOIDCSessionsWithAudit ip)"

lemmas oidc_op_defs =
  EnsureOIDCSubject_def EnsureOIDCSubjectWithAudit_def UpsertOIDCClient_def CreateOIDCClient_def
  CreateOIDCClientWithAudit_def RotateOIDCClientSecret_def RotateOIDCClientSecretWithAudit_def
  UpdateOIDCClientConfigurationWithAudit_def SetOIDCClientEnabled_def SetOIDCClientEnabledWithAudit_def
  updateOIDCClientWithAudit_def CreateOIDCCode_def CreateOIDCCodeWithAudit_def ConsumeOIDCCode_def
  ConsumeOIDCCodeDenialWithAudit_def ConsumeOIDCCodeWithAudit_def ConsumeOIDCCodeWithSessionAudit_def
  RevokeOIDCSessionWithAudit_def RevokeOIDCSessionByTokenHashWithAudit_def revokeOIDCSessionWithAudit_def
  RevokeOIDCSessionsByUserWithAudit_def RevokeOIDCSessionsByClientWithAudit_def
  RevokeAllOIDCSessionsWithAudit_def revokeOIDCSessionsBulkWithAudit_def
  select_code_def validateAuditIP_def discard_def no_code_def with_code_def

section \<open>Invariant and stability of subjects\<close>

definition oidc_inv :: "tables \<Rightarrow> bool" where
  "oidc_inv t \<longleftrightarrow> ok_users t \<and> ok_oidc_clients t \<and> ok_oidc_codes t \<and> ok_oidc_sessions t"

definition subject_stable :: "users_row \<Rightarrow> users_row \<Rightarrow> bool" where
  "subject_stable u u' \<longleftrightarrow> usr_id u' = usr_id u \<and> usr_username u' = usr_username u \<and>
     (usr_oidc_subject u \<noteq> [] \<longrightarrow> usr_oidc_subject u' = usr_oidc_subject u)"

definition oidc_client_stable :: "OIDCClient \<Rightarrow> OIDCClient \<Rightarrow> bool" where
  "oidc_client_stable c c' \<longleftrightarrow> oc_client_id c' = oc_client_id c"

definition oidc_evolves :: "tables \<Rightarrow> tables \<Rightarrow> bool" where
  "oidc_evolves t t' \<longleftrightarrow> oidc_inv t' \<and> grows subject_stable (users t) (users t') \<and>
     grows oidc_client_stable (oidc_clients t) (oidc_clients t')"

lemma stable_refl [simp]: "subject_stable u u" "oidc_client_stable c c"
  by (simp_all add: subject_stable_def oidc_client_stable_def)

lemma stable_trans:
  "subject_stable a b \<Longrightarrow> subject_stable b c \<Longrightarrow> subject_stable a c"
  "oidc_client_stable x y \<Longrightarrow> oidc_client_stable y z \<Longrightarrow> oidc_client_stable x z"
  by (auto simp: subject_stable_def oidc_client_stable_def)

interpretation oidc_contract: table_contract oidc_inv oidc_evolves
  by unfold_locales (auto simp: oidc_evolves_def intro: grows_refl grows_trans [OF stable_trans(1)]
      grows_trans [OF stable_trans(2)])

abbreviation oidc_prog :: "'a dbm \<Rightarrow> bool" where
  "oidc_prog \<equiv> keeps oidc_inv oidc_evolves"

lemma oidc_stmtI:
  assumes "\<And>now t t' r. oidc_inv t \<Longrightarrow> s now t = Some (t', r) \<Longrightarrow>
    oidc_inv t' \<and> grows subject_stable (users t) (users t') \<and>
    grows oidc_client_stable (oidc_clients t) (oidc_clients t')"
  shows "oidc_prog (exec s)"
  by (rule oidc_contract.keeps_exec, rule keeps_stmtI) (use assms in \<open>simp add: oidc_evolves_def\<close>)

lemma oidc_frame:
  assumes "oidc_inv t" "users t' = users t" "oidc_clients t' = oidc_clients t"
    "ok_oidc_codes t'" "ok_oidc_sessions t'"
  shows "oidc_inv t' \<and> grows subject_stable (users t) (users t') \<and>
    grows oidc_client_stable (oidc_clients t) (oidc_clients t')"
  using assms by (auto simp: oidc_inv_def ok_users_def ok_oidc_clients_def intro!: grows_refl)

lemma ok_codes_frame: "ok_oidc_codes t \<Longrightarrow> oidc_codes t' = oidc_codes t \<Longrightarrow>
    users t' = users t \<Longrightarrow> oidc_clients t' = oidc_clients t \<Longrightarrow> ok_oidc_codes t'"
  by (simp add: ok_oidc_codes_def)

lemma ok_sessions_frame: "ok_oidc_sessions t \<Longrightarrow> oidc_sessions t' = oidc_sessions t \<Longrightarrow>
    users t' = users t \<Longrightarrow> oidc_clients t' = oidc_clients t \<Longrightarrow> ok_oidc_sessions t'"
  by (simp add: ok_oidc_sessions_def)

lemma ok_codes_filter: "ok_oidc_codes t \<Longrightarrow> ok_oidc_codes (t\<lparr>oidc_codes := filter P (oidc_codes t)\<rparr>)"
  by (auto simp: ok_oidc_codes_def distinct_map_filter)

lemma ok_sessions_filter: "ok_oidc_sessions t \<Longrightarrow> ok_oidc_sessions (t\<lparr>oidc_sessions := filter P (oidc_sessions t)\<rparr>)"
  by (auto simp: ok_oidc_sessions_def distinct_map_filter)

lemma oidc_invD: "oidc_inv t \<Longrightarrow> ok_oidc_codes t" "oidc_inv t \<Longrightarrow> ok_oidc_sessions t"
  "oidc_inv t \<Longrightarrow> ok_oidc_clients t" "oidc_inv t \<Longrightarrow> ok_users t"
  by (simp_all add: oidc_inv_def)

lemma oidc_writes [simp]:
  "oidc_prog (exec (insert_audit a))"
  "oidc_prog (exec delete_expired_codes)"
  "oidc_prog (exec (insert_oidc_code c))"
  "oidc_prog (exec (consume_oidc_code h now))"
  "oidc_prog (exec (delete_old_oidc_sessions now))"
  "oidc_prog (exec (insert_oidc_session s))"
  "oidc_prog (exec (revoke_oidc_sessions P f))"
  by (rule oidc_stmtI, rule oidc_frame, assumption,
      auto simp: insert_audit_def delete_expired_codes_def insert_oidc_code_def consume_oidc_code_def
        delete_old_oidc_sessions_def insert_oidc_session_def revoke_oidc_sessions_def Let_def oidc_inv_def
        intro: ok_codes_filter ok_sessions_filter elim: ok_codes_frame ok_sessions_frame split: if_splits)+


lemma client_ids_frame:
  assumes "oidc_inv t" "users t' = users t" "oidc_codes t' = oidc_codes t" "oidc_sessions t' = oidc_sessions t"
    "ok_oidc_clients t'" "grows oidc_client_stable (oidc_clients t) (oidc_clients t')"
  shows "oidc_inv t' \<and> grows subject_stable (users t) (users t') \<and>
    grows oidc_client_stable (oidc_clients t) (oidc_clients t')"
proof -
  have "oc_client_id ` set (oidc_clients t) \<subseteq> oc_client_id ` set (oidc_clients t')"
  proof (rule image_subsetI)
    fix c assume "c \<in> set (oidc_clients t)"
    from grows_mem [OF assms(6) this] show "oc_client_id c \<in> oc_client_id ` set (oidc_clients t')"
      by (auto simp: oidc_client_stable_def image_iff) metis
  qed
  with assms show ?thesis
    by (auto simp: oidc_inv_def ok_users_def ok_oidc_codes_def ok_oidc_sessions_def intro!: grows_refl)
qed

lemma oidc_client_writes:
  assumes f: "\<And>c. oc_client_id (f c) = oc_client_id c"
  shows "oidc_prog (exec (update_oidc_clients P f))"
    and "oidc_prog (exec (insert_oidc_client i s r sc))"
    and "oidc_prog (exec (upsert_oidc_client i s r sc))"
proof -
  have upd: "oidc_inv t' \<and> grows subject_stable (users t) (users t') \<and>
      grows oidc_client_stable (oidc_clients t) (oidc_clients t')"
    if "oidc_inv t" "update_oidc_clients P f now t = Some (t', r)" "\<And>c. oc_client_id (f c) = oc_client_id c"
    for P f now t t' r
    using that
    by (intro client_ids_frame)
      (auto simp: update_oidc_clients_def Let_def oidc_client_stable_def intro!: grows_update split: if_splits)
  have ins: "oidc_inv t' \<and> grows subject_stable (users t) (users t') \<and>
      grows oidc_client_stable (oidc_clients t) (oidc_clients t')"
    if "oidc_inv t" "insert_oidc_client i s r sc now t = Some (t', n)" for now t t' n
    using that
    by (intro client_ids_frame) (auto simp: insert_oidc_client_def Let_def intro!: grows_new split: if_splits)
  show "oidc_prog (exec (update_oidc_clients P f))" by (rule oidc_stmtI) (rule upd [OF _ _ f])
  show "oidc_prog (exec (insert_oidc_client i s r sc))" by (rule oidc_stmtI) (rule ins)
  show "oidc_prog (exec (upsert_oidc_client i s r sc))"
    by (rule oidc_stmtI)
      (auto simp: upsert_oidc_client_def split: if_splits dest: ins upd)
qed

lemma set_subject_keeps [simp]: "oidc_prog (exec (set_subject i sub))"
proof (rule oidc_stmtI)
  fix now t t' r
  assume inv: "oidc_inv t" and run: "set_subject i sub now t = Some (t', r)"
  let ?f = "\<lambda>u. u\<lparr>usr_oidc_subject := sub, usr_updated_at := now\<rparr>"
  let ?P = "\<lambda>u. usr_id u = i \<and> usr_oidc_subject u = []"
  from run have t': "t' = t\<lparr>users := update_where ?P ?f (users t)\<rparr>" "ok_users t'"
    by (auto simp: set_subject_def update_users_def Let_def split: if_splits)
  have "map usr_id (users t') = map usr_id (users t)"
    unfolding t' by (simp add: map_update_where)
  then have ids: "usr_id ` set (users t') = usr_id ` set (users t)" by (metis set_map)
  have "grows subject_stable (users t) (users t')"
    unfolding t' by (auto simp: subject_stable_def intro!: grows_update)
  moreover have "oidc_clients t' = oidc_clients t" "oidc_codes t' = oidc_codes t" "oidc_sessions t' = oidc_sessions t"
    by (simp_all add: t')
  ultimately show "oidc_inv t' \<and> grows subject_stable (users t) (users t') \<and>
      grows oidc_client_stable (oidc_clients t) (oidc_clients t')"
    using inv t'(2) ids
    by (auto simp: oidc_inv_def ok_oidc_clients_def ok_oidc_codes_def ok_oidc_sessions_def intro!: grows_refl)
qed

lemma oidc_reads [simp]:
  "oidc_prog (query_row q)" "oidc_prog (query_all q')" "oidc_prog (ensure c e)" "oidc_prog (ret a)"
  "oidc_prog (one_row r)" "oidc_prog (one_row_or e r)" "oidc_prog (RowsAffected r)" "oidc_prog now_m"
  "oidc_prog rand_m"
  by (auto intro!: oidc_contract.keeps_read_only atomic_intros)

lemma oidc_step_keeps: "oidc_prog (oidc_step op)"
  by (cases op)
    (simp_all add: oidc_op_defs oidc_client_writes oidc_contract.keeps_dbind oidc_contract.keeps_dthen
      oidc_contract.keeps_tx' split: prod.splits)


section \<open>Nothing comes back to life\<close>

text \<open>
  No unconsumed code with hash \<open>k\<close> and no unrevoked session with token hash \<open>h\<close> appears that
  was not there before.
\<close>

definition no_new :: "string \<Rightarrow> string \<Rightarrow> tables \<Rightarrow> tables \<Rightarrow> bool" where
  "no_new k h t t' \<longleftrightarrow>
     (\<forall>c \<in> set (oidc_codes t'). od_code_hash c = k \<and> od_consumed_at c = None \<longrightarrow> c \<in> set (oidc_codes t)) \<and>
     (\<forall>s \<in> set (oidc_sessions t'). os_access_token_hash s = h \<and> os_revoked_at s = None \<longrightarrow> s \<in> set (oidc_sessions t))"

interpretation no_new_contract: table_contract "\<lambda>_. True" "no_new k h" for k h
  by unfold_locales (auto simp: no_new_def)

definition issues_code :: "oidc_op \<Rightarrow> string \<Rightarrow> bool" where
  "issues_code op k = (case op of OpCreateCode c \<Rightarrow> od_code_hash c = k
     | OpCreateCodeWithAudit c _ _ \<Rightarrow> od_code_hash c = k | _ \<Rightarrow> False)"

definition issues_token :: "oidc_op \<Rightarrow> string \<Rightarrow> bool" where
  "issues_token op h = (case op of OpConsumeCodeWithSession _ _ _ _ s _ \<Rightarrow> OIDCSession_AccessTokenHash s = h
     | _ \<Rightarrow> False)"

abbreviation quiet :: "string \<Rightarrow> string \<Rightarrow> 'a dbm \<Rightarrow> bool" where
  "quiet k h \<equiv> keeps (\<lambda>_. True) (no_new k h)"

lemma quiet_reads [simp]:
  "quiet k h (query_row q)" "quiet k h (query_all q')" "quiet k h (ensure c e)" "quiet k h (ret a)"
  "quiet k h (one_row r)" "quiet k h (one_row_or e r)" "quiet k h (RowsAffected r)" "quiet k h now_m"
  "quiet k h rand_m"
  by (auto intro!: no_new_contract.keeps_read_only atomic_intros)

lemma quiet_writes [simp]:
  "quiet k h (exec (insert_audit a))" "quiet k h (exec delete_expired_codes)"
  "quiet k h (exec (consume_oidc_code hash now))" "quiet k h (exec (delete_old_oidc_sessions now))"
  "quiet k h (exec (revoke_oidc_sessions P f))" "quiet k h (exec (update_oidc_clients Q g))"
  "quiet k h (exec (insert_oidc_client i se r sc))" "quiet k h (exec (upsert_oidc_client i se r sc))"
  "quiet k h (exec (set_subject u sub))"
  by (rule no_new_contract.keeps_exec, rule keeps_stmtI,
      auto simp: no_new_def insert_audit_def delete_expired_codes_def consume_oidc_code_def
        delete_old_oidc_sessions_def revoke_oidc_sessions_def update_oidc_clients_def insert_oidc_client_def
        upsert_oidc_client_def set_subject_def update_users_def set_update_where Let_def split: if_splits)+

lemma quiet_inserts [simp]:
  "od_code_hash c \<noteq> k \<Longrightarrow> quiet k h (exec (insert_oidc_code c))"
  "os_access_token_hash s \<noteq> h \<Longrightarrow> quiet k h (exec (insert_oidc_session s))"
  by (rule no_new_contract.keeps_exec, rule keeps_stmtI,
      auto simp: no_new_def insert_oidc_code_def insert_oidc_session_def Let_def split: if_splits)+

lemma oidc_step_quiet:
  "\<not> issues_code op k \<Longrightarrow> \<not> issues_token op h \<Longrightarrow> quiet k h (oidc_step op)"
  by (cases op)
    (simp_all add: oidc_op_defs issues_code_def issues_token_def no_new_contract.keeps_dbind
      no_new_contract.keeps_dthen no_new_contract.keeps_tx' split: prod.splits)

section \<open>Authorization codes are redeemed once\<close>

definition code_spent :: "world \<Rightarrow> string \<Rightarrow> bool" where
  "code_spent w k \<longleftrightarrow> (\<forall>c \<in> set (oidc_codes (tb w)). od_code_hash c = k \<longrightarrow> od_consumed_at c \<noteq> None)"

definition code_won :: "oidc_op \<Rightarrow> db_error + OIDCCode option \<Rightarrow> string \<Rightarrow> bool" where
  "code_won op r k = (case r of Inr (Some c) \<Rightarrow> od_code_hash c = k | _ \<Rightarrow> False)"

lemma consume_code_Some:
  "consume_oidc_code h now stamp t = Some (t', n, i) \<Longrightarrow>
   oidc_codes t' = update_where (\<lambda>c. od_code_hash c = h \<and> od_consumed_at c = None)
     (\<lambda>c. c\<lparr>od_consumed_at := Some now\<rparr>) (oidc_codes t)"
  by (auto simp: consume_oidc_code_def Let_def split: if_splits)

lemma other_stmts_codes:
  "insert_audit a now t = Some (t', r) \<Longrightarrow> oidc_codes t' = oidc_codes t"
  "delete_old_oidc_sessions before now t = Some (t', r) \<Longrightarrow> oidc_codes t' = oidc_codes t"
  "insert_oidc_session s now t = Some (t', r) \<Longrightarrow> oidc_codes t' = oidc_codes t"
  by (auto simp: insert_audit_def delete_old_oidc_sessions_def insert_oidc_session_def Let_def split: if_splits)

text \<open>All three ways to redeem a code read it first and then consume it.\<close>

lemma code_won_returns:
  assumes "oidc_step op w = (r, w')" "code_won op r k"
  shows "(\<exists>c \<in> set (oidc_codes (tb w)). od_code_hash c = k \<and> od_consumed_at c = None) \<and>
    (\<exists>now. oidc_codes (tb w') = update_where (\<lambda>c. od_code_hash c = k \<and> od_consumed_at c = None)
       (\<lambda>c. c\<lparr>od_consumed_at := Some now\<rparr>) (oidc_codes (tb w)))"
proof -
  from assms obtain c where r: "r = Inr (Some c)" and k: "od_code_hash c = k"
    by (auto simp: code_won_def split: sum.splits option.splits)
  show ?thesis
    using assms(1) k unfolding r
    by (cases op)
      (auto simp: no_code_def with_code_def ConsumeOIDCCode_def ConsumeOIDCCodeWithAudit_def
        ConsumeOIDCCodeWithSessionAudit_def select_code_def redeemable_def validateAuditIP_def db_simps
        dest!: filter_eq_Cons_mem consume_code_Some other_stmts_codes)
qed

interpretation code_use: limited_use oidc_step code_won code_spent "\<lambda>w. oidc_inv (tb w)"
    "\<lambda>op k. \<not> issues_code op k"
proof unfold_locales
  fix w op r w' k
  assume inv: "oidc_inv (tb w)" and run: "oidc_step op w = (r, w')"
  show "oidc_inv (tb w')"
    using keepsD [OF oidc_step_keeps inv run] by (simp add: oidc_evolves_def)
  show "code_won op r k \<Longrightarrow> \<not> code_spent w k"
    using code_won_returns [OF run] by (auto simp: code_spent_def)
  show "code_spent w' k" if "code_won op r k"
    using code_won_returns [OF run that] by (auto simp: code_spent_def set_update_where)
  show "code_spent w' k" if "\<not> issues_code op k" "code_spent w k"
  proof -
    obtain h where "\<not> issues_token op h"
      by (cases op) (auto simp: issues_token_def)
    from keepsD [OF oidc_step_quiet [OF that(1) this] _ run] that(2) show ?thesis
      by (auto simp: no_new_def code_spent_def)
  qed
qed

text \<open>
  C13: An authorization code is redeemed at most once.  In every sequence of OpenID Connect
  operations, with every failure of the database, in which the code is not issued again, at most
  one redemption of it succeeds, by whichever of the three redeeming operations.
\<close>

theorem authorization_code_single_use:
  assumes "oidc_inv (tb w)" "\<forall>op \<in> set ops. \<not> issues_code op codeHash"
  shows "wins oidc_step code_won ops w codeHash \<le> 1"
  using assms by (rule code_use.wins_at_most_once_if)

definition demo_code :: OIDCCode where
  "demo_code = \<lparr>od_code_hash = ''k'', od_client_id = ''app'', od_user_id = 1, od_redirect_uri = ''https://app/cb'',
     od_scope = ''openid'', od_nonce = ''n'', od_code_challenge = ''c'', od_expires_at = minute, od_consumed_at = None\<rparr>"

definition demo_oidc_session :: OIDCSession where
  "demo_oidc_session = \<lparr>OIDCSession_SessionID = ''s1'', OIDCSession_AccessTokenHash = ''t1'', OIDCSession_ClientID = [],
     OIDCSession_UserID = 0, OIDCSession_Username = [], OIDCSession_Subject = [], OIDCSession_Scope = [],
     OIDCSession_IssuedAt = 0, OIDCSession_ExpiresAt = hour, OIDCSession_RevokedAt = None\<rparr>"

definition demo_oidc_tables :: tables where
  "demo_oidc_tables = (case insert_user ''ada'' ''Ada'' [] 0 empty_tables of None \<Rightarrow> empty_tables
     | Some (t, _) \<Rightarrow> t\<lparr>oidc_clients := [\<lparr>oc_client_id = ''app'', oc_secret_hash = ''s'',
         oc_redirect_uris = ''https://app/cb'', oc_scopes = ''openid'', oc_enabled = True\<rparr>],
         oidc_codes := [demo_code]\<rparr>)"

definition demo_redeem :: "oidc_op list" where
  "demo_redeem = [OpConsumeCodeWithSession ''k'' ''app'' ''https://app/cb'' 0 demo_oidc_session [],
     OpConsumeCodeWithAudit ''k'' ''app'' ''https://app/cb'' 0 []]"

lemma oidc_inv_demo: "oidc_inv demo_oidc_tables"
  by code_simp

theorem authorization_code_single_use_witness:
  "wins oidc_step code_won demo_redeem (calm_world demo_oidc_tables) ''k'' = 1"
proof -
  have "wins oidc_step code_won demo_redeem (calm_world demo_oidc_tables) ''k'' \<noteq> 0" by code_simp
  moreover have "\<forall>op \<in> set demo_redeem. \<not> issues_code op ''k''" by code_simp
  ultimately show ?thesis
    using authorization_code_single_use [of "calm_world demo_oidc_tables" demo_redeem "''k''"] oidc_inv_demo
    by simp
qed

section \<open>What a redemption yields\<close>

lemma insert_session_Some:
  "insert_oidc_session s now t = Some (t', r) \<Longrightarrow>
   oidc_sessions t' = oidc_sessions t @ [s\<lparr>os_revoked_at := None\<rparr>] \<and> audit_log t' = audit_log t"
  by (auto simp: insert_oidc_session_def Let_def split: if_splits)

lemma audit_appends_oidc:
  "insert_audit a now t = Some (t', r) \<Longrightarrow> oidc_sessions t' = oidc_sessions t \<and>
     audit_log t' = audit_log t @ [a\<lparr>aud_id := audit_seq t + 1, aud_timestamp := now\<rparr>] \<and>
     oidc_codes t' = oidc_codes t"
  by (auto simp: insert_audit_def Let_def split: if_splits)

lemma audit_log_kept:
  "consume_oidc_code h now stamp t = Some (t', r) \<Longrightarrow> audit_log t' = audit_log t \<and> users t' = users t"
  "delete_old_oidc_sessions before now' t = Some (t', r) \<Longrightarrow> audit_log t' = audit_log t"
  by (auto simp: consume_oidc_code_def delete_old_oidc_sessions_def Let_def split: if_splits)

text \<open>
  A redemption is bound to its request: a code is exchanged only if it was issued to this
  client for this redirect URI, is unexpired and unconsumed; the access-token session that it
  creates belongs to the code's user, client and scope, and exactly one audit event is written.
\<close>

theorem redeemed_session_bound_to_code:
  assumes "ConsumeOIDCCodeWithSessionAudit hash client uri now session ip w = (Inr c, w')"
  shows "c \<in> set (oidc_codes (tb w)) \<and> redeemable hash client uri now c \<and>
    (\<exists>s \<in> set (oidc_sessions (tb w')). os_access_token_hash s = OIDCSession_AccessTokenHash session \<and>
       os_client_id s = client \<and> os_user_id s = od_user_id c \<and> os_scope s = od_scope c \<and>
       os_issued_at s = now \<and> os_expires_at s = OIDCSession_ExpiresAt session \<and> os_revoked_at s = None) \<and>
    (\<exists>e. audit_log (tb w') = audit_log (tb w) @ [e] \<and> aud_event_type e = ''oidc_token_issued'' \<and>
       aud_client_id e = client)"
  using assms
  by (auto simp: ConsumeOIDCCodeWithSessionAudit_def select_code_def validateAuditIP_def db_simps
      redeemable_def audit_event_def
      dest!: filter_eq_Cons_mem insert_session_Some audit_appends_oidc audit_log_kept)

theorem redeemed_session_bound_to_code_witness:
  "\<exists>c w'. ConsumeOIDCCodeWithSessionAudit ''k'' ''app'' ''https://app/cb'' 0 demo_oidc_session []
      (calm_world demo_oidc_tables) = (Inr c, w') \<and>
    (\<exists>s \<in> set (oidc_sessions (tb w')). os_user_id s = od_user_id c)"
proof -
  let ?m = "ConsumeOIDCCodeWithSessionAudit ''k'' ''app'' ''https://app/cb'' 0 demo_oidc_session []
      (calm_world demo_oidc_tables)"
  have "case fst ?m of Inl _ \<Rightarrow> False | Inr c \<Rightarrow> True" by code_simp
  then obtain c where "fst ?m = Inr c" by (auto split: sum.splits)
  then have "?m = (Inr c, snd ?m)" by (simp add: prod_eq_iff)
  with redeemed_session_bound_to_code [OF this] show ?thesis by blast
qed

section \<open>Revoked tokens\<close>

definition token_dead :: "string \<Rightarrow> tables \<Rightarrow> bool" where
  "token_dead h t \<longleftrightarrow> (\<forall>s \<in> set (oidc_sessions t). os_access_token_hash s = h \<longrightarrow> os_revoked_at s \<noteq> None)"

lemma dead_token_run:
  assumes "token_dead h (tb w)" "\<forall>op \<in> set ops. \<not> issues_token op h"
  shows "token_dead h (tb (run_all oidc_step ops w))"
  using assms
proof (induction ops arbitrary: w)
  case (Cons op ops)
  obtain r w1 where run: "oidc_step op w = (r, w1)" by (cases "oidc_step op w")
  obtain k where "\<not> issues_code op k" by (cases op) (auto simp: issues_code_def)
  then have "no_new k h (tb w) (tb w1)"
    using Cons.prems(2) by (intro keepsD [OF oidc_step_quiet _ run]) auto
  then have "token_dead h (tb w1)" using Cons.prems(1) by (auto simp: no_new_def token_dead_def)
  with Cons.IH Cons.prems(2) run show ?case by simp
qed simp

lemma valid_token_row:
  assumes "OIDCSessionByTokenHash h client now w = (Inr x, w')"
  shows "\<exists>s \<in> set (oidc_sessions (tb w)). os_access_token_hash s = h \<and> os_client_id s = client \<and>
    os_revoked_at s = None \<and> now < os_expires_at s \<and>
    (\<exists>c \<in> set (oidc_clients (tb w)). oc_client_id c = client \<and> oc_enabled c)"
  using query_row_mem [OF assms [unfolded OIDCSessionByTokenHash_def]] by (auto split: if_splits)

lemma dead_token_refused:
  "token_dead h (tb w) \<Longrightarrow> OIDCSessionByTokenHash h client now w \<noteq> (Inr s, w')"
  by (auto simp: token_dead_def dest!: valid_token_row)

text \<open>Revocation of a session row, as seen in the table.\<close>

lemma revoke_oidc_Some:
  "revoke_oidc_sessions P f now t = Some (t', n, i) \<Longrightarrow>
   oidc_sessions t' = update_where (P now t) (\<lambda>s. s\<lparr>os_revoked_at := Some (f now)\<rparr>) (oidc_sessions t)"
  by (auto simp: revoke_oidc_sessions_def Let_def split: if_splits)

lemma revokeOIDCSession_returns:
  assumes "revokeOIDCSessionWithAudit P ip reason w = (Inr u, w')"
  shows "(\<exists>now. oidc_sessions (tb w') = update_where (\<lambda>s. P s \<and> os_revoked_at s = None)
      (\<lambda>s. s\<lparr>os_revoked_at := Some now\<rparr>) (oidc_sessions (tb w))) \<and>
    (\<exists>s \<in> set (oidc_sessions (tb w)). P s)"
  using assms
  by (auto simp: revokeOIDCSessionWithAudit_def validateAuditIP_def tx_Inr dthen_Inr dbind_Inr ensure_Inr
      now_m_Inr exec_Inr one_row_Inr ret_Inr
      dest!: query_row_mem revoke_oidc_Some audit_appends_oidc split: if_splits)

text \<open>
  A revoked access token is dead: after a client's revocation of a token succeeded, no
  later operation that does not issue the same token again makes the store accept it, for that
  client, at any time.
\<close>

theorem revoked_token_never_accepted:
  assumes inv: "oidc_inv (tb w)" and out: "RevokeOIDCSessionByTokenHashWithAudit h client ip w = (Inr (), w1)"
    and "\<forall>op \<in> set ops. \<not> issues_token op h"
  shows "OIDCSessionByTokenHash h client' now (run_all oidc_step ops w1) \<noteq> (Inr s, w2)"
proof -
  let ?P = "\<lambda>s. os_access_token_hash s = h \<and> os_client_id s = client"
  from revokeOIDCSession_returns [OF out [unfolded RevokeOIDCSessionByTokenHashWithAudit_def]]
  obtain now' s0 where rows: "oidc_sessions (tb w1) = update_where (\<lambda>s. ?P s \<and> os_revoked_at s = None)
      (\<lambda>s. s\<lparr>os_revoked_at := Some now'\<rparr>) (oidc_sessions (tb w))"
    and s0: "s0 \<in> set (oidc_sessions (tb w))" "?P s0" by blast
  have d: "distinct (map os_access_token_hash (oidc_sessions (tb w)))"
    using inv by (simp add: oidc_inv_def ok_oidc_sessions_def)
  have uniq: "s = s0" if "s \<in> set (oidc_sessions (tb w))" "os_access_token_hash s = h" for s
    using distinct_map_eq [OF d that(1) s0(1)] that s0(2) by simp
  have "token_dead h (tb w1)"
    unfolding token_dead_def rows set_update_where using uniq s0(2) by auto
  then have "token_dead h (tb (run_all oidc_step ops w1))" by (rule dead_token_run [OF _ assms(3)])
  then show ?thesis by (rule dead_token_refused)
qed

text \<open>
  C29: Disabling a client cuts it off at once and for good: afterwards the store accepts none of
  the access tokens the client held, and enabling the client again does not bring them back.
\<close>

theorem disabled_client_tokens_dead:
  assumes inv: "oidc_inv (tb w)" and off: "SetOIDCClientEnabledWithAudit client False ip w = (Inr (), w1)"
    and row: "s \<in> set (oidc_sessions (tb w))" "os_client_id s = client"
    and ops: "\<forall>op \<in> set ops. \<not> issues_token op (os_access_token_hash s)"
  shows "OIDCSessionByTokenHash (os_access_token_hash s) client' now (run_all oidc_step ops w1) \<noteq> (Inr x, w2)"
proof -
  let ?P = "\<lambda>s. os_client_id s = client \<and> os_revoked_at s = None"
  from off obtain now' where rows: "oidc_sessions (tb w1) = update_where ?P
      (\<lambda>s. s\<lparr>os_revoked_at := Some now'\<rparr>) (oidc_sessions (tb w))"
    by (auto simp: SetOIDCClientEnabledWithAudit_def validateAuditIP_def db_simps update_oidc_clients_def Let_def
        dest!: revoke_oidc_Some audit_appends_oidc split: if_splits)
  have d: "distinct (map os_access_token_hash (oidc_sessions (tb w)))"
    using inv by (simp add: oidc_inv_def ok_oidc_sessions_def)
  have uniq: "y = s" if "y \<in> set (oidc_sessions (tb w))" "os_access_token_hash y = os_access_token_hash s" for y
    using distinct_map_eq [OF d that(1) row(1)] that by simp
  have "token_dead (os_access_token_hash s) (tb w1)"
    unfolding token_dead_def rows set_update_where using uniq row(2) by auto
  then have "token_dead (os_access_token_hash s) (tb (run_all oidc_step ops w1))" by (rule dead_token_run [OF _ ops])
  then show ?thesis by (rule dead_token_refused)
qed


definition demo_token_world :: world where
  "demo_token_world = calm_world (tb (run_all oidc_step demo_redeem (calm_world demo_oidc_tables)))"

lemma oidc_inv_token_world: "oidc_inv (tb demo_token_world)"
  unfolding demo_token_world_def tb_calm
  by (rule oidc_contract.keeps_run_all_inv [OF oidc_step_keeps]) (simp add: oidc_inv_demo)

theorem revoked_token_never_accepted_witness:
  "\<forall>now s w2. OIDCSessionByTokenHash ''t1'' ''app'' now
     (snd (RevokeOIDCSessionByTokenHashWithAudit ''t1'' ''app'' [] demo_token_world)) \<noteq> (Inr s, w2)"
proof -
  have "RevokeOIDCSessionByTokenHashWithAudit ''t1'' ''app'' [] demo_token_world =
      (Inr (), snd (RevokeOIDCSessionByTokenHashWithAudit ''t1'' ''app'' [] demo_token_world))"
    unfolding prod_eq_iff by (rule conjI, code_simp, simp)
  from revoked_token_never_accepted [OF oidc_inv_token_world this, of "[]"] show ?thesis by simp
qed

theorem disabled_client_tokens_dead_witness:
  "\<forall>now x w2. OIDCSessionByTokenHash ''t1'' ''app'' now (run_all oidc_step [OpSetOIDCEnabled ''app'' True]
     (snd (SetOIDCClientEnabledWithAudit ''app'' False [] demo_token_world))) \<noteq> (Inr x, w2)"
proof -
  have off: "SetOIDCClientEnabledWithAudit ''app'' False [] demo_token_world =
      (Inr (), snd (SetOIDCClientEnabledWithAudit ''app'' False [] demo_token_world))"
    unfolding prod_eq_iff by (rule conjI, code_simp, simp)
  have "map (\<lambda>s. (os_access_token_hash s, os_client_id s)) (oidc_sessions (tb demo_token_world)) = [(''t1'', ''app'')]"
    by code_simp
  then obtain s where s: "s \<in> set (oidc_sessions (tb demo_token_world))" "os_client_id s = ''app''"
    "os_access_token_hash s = ''t1''" by (auto simp: map_eq_Cons_conv)
  from disabled_client_tokens_dead [OF oidc_inv_token_world off s(1,2), of "[OpSetOIDCEnabled ''app'' True]"] s(3)
  show ?thesis by (simp add: issues_token_def)
qed

section \<open>Subjects\<close>


definition demo_subject_tables :: tables where
  "demo_subject_tables =
     demo_oidc_tables\<lparr>users := map (\<lambda>u. u\<lparr>usr_oidc_subject := ''sub''\<rparr>) (users demo_oidc_tables)\<rparr>"


end
