(* ===== verification/Oidc_Provider.thy ===== *)
theory Oidc_Provider
  imports Badge_Login Directory Oidc_Store
begin

text \<open>
  The OpenID Connect provider (\<^verbatim>\<open>internal/oidc/provider.go\<close>): the authorization endpoint with the
  directory login, the token endpoint with PKCE, introspection and revocation, and the limiter in
  front of them.  The store is the one of \<^verbatim>\<open>internal/database\<close>, the directory is the interface
  \<^verbatim>\<open>directory.Directory\<close>.  The signature of ID tokens (go-jose), bcrypt and the parsing and
  printing of URLs are fields of the provider record.
\<close>

section \<open>Text\<close>

text \<open>\<^verbatim>\<open>strings.Fields\<close>: the second argument is the field read so far, in reverse.\<close>

function fields_from :: "string \<Rightarrow> string \<Rightarrow> string list" where
  "fields_from [] acc = (if acc = [] then [] else [rev acc])"
| "fields_from (c # s) acc =
     (let n = space_at space_runes (c # s)
      in if n = 0 then fields_from s (c # acc)
         else (if acc = [] then [] else [rev acc]) @ fields_from (drop (n - 1) s) [])"
  by pat_completeness auto
termination by (relation "measure (\<lambda>(s, acc). length s)") auto

definition Fields :: "string \<Rightarrow> string list" where
  "Fields s = fields_from s []"

fun Contains :: "string \<Rightarrow> string \<Rightarrow> bool" where
  "Contains [] p = (p = [])"
| "Contains (c # s) p = (HasPrefix (c # s) p \<or> Contains s p)"

text \<open>\<^verbatim>\<open>base64.StdEncoding.DecodeString\<close>, with padding.\<close>

definition Std_decode :: "string \<Rightarrow> string option" where
  "Std_decode s =
     (let t = filter (\<lambda>c. c \<noteq> CHR 0x0A \<and> c \<noteq> CHR 0x0D) s;
          body = (if HasSuffix t ''=='' then take (length t - 2) t
                  else if HasSuffix t ''='' then take (length t - 1) t else t)
      in if length t mod 4 \<noteq> 0 then None else b64_decode std_alphabet body)"

text \<open>\<^verbatim>\<open>r.BasicAuth\<close>\<close>

definition BasicAuth :: "request \<Rightarrow> (string \<times> string) option" where
  "BasicAuth r =
     (let auth = rq_Header r ''Authorization'' in
      if lower (take 6 auth) \<noteq> ''basic '' then None
      else case Std_decode (drop 6 auth) of None \<Rightarrow> None
      | Some cs \<Rightarrow> (case index_of (CHR '':'') cs of None \<Rightarrow> None
          | Some i \<Rightarrow> Some (take i cs, drop (Suc i) cs)))"

text \<open>\<^verbatim>\<open>url.Values\<close>: \<^verbatim>\<open>Set\<close>, \<^verbatim>\<open>url.QueryEscape\<close> and \<^verbatim>\<open>Encode\<close>, which sorts by key.\<close>

type_synonym url_values = "(string \<times> string list) list"

definition values_set :: "string \<Rightarrow> string \<Rightarrow> url_values \<Rightarrow> url_values" where
  "values_set k v q = filter (\<lambda>(k', _). k' \<noteq> k) q @ [(k, [v])]"

definition upper_hex_byte :: "char \<Rightarrow> string" where
  "upper_hex_byte c = [''0123456789ABCDEF'' ! (of_char c div 16), ''0123456789ABCDEF'' ! (of_char c mod 16)]"

definition QueryEscape :: "string \<Rightarrow> string" where
  "QueryEscape s = concat (map (\<lambda>c.
     if is_alnum c \<or> c \<in> set ''-_.~'' then [c] else if c = CHR '' '' then ''+'' else CHR ''%'' # upper_hex_byte c) s)"

definition values_encode :: "url_values \<Rightarrow> string" where
  "values_encode q = join_with (CHR ''&'') (concat (map (\<lambda>(k, vs).
     map (\<lambda>v. QueryEscape k @ ''='' @ QueryEscape v) vs) (sort_key fst q)))"

lemma text_examples:
  "Fields ''openid  profile '' = [''openid'', ''profile'']" "Fields ''  '' = []"
  "Contains '' openid profile '' '' profile ''" "\<not> Contains '' openid profiles '' '' profile ''"
  "Std_decode ''YTpi'' = Some ''a:b''" "Std_decode ''YTpiYw=='' = Some ''a:bc''" "Std_decode ''YTpiYw='' = None"
  "values_encode (values_set ''code'' ''a b/c'' [(''x'', [''1'']), (''code'', [''z''])]) = ''code=a+b%2Fc&x=1''"
  by code_simp+

section \<open>The provider\<close>

record id_claims =
  cl_iss :: string
  cl_sub :: string
  cl_aud :: string
  cl_exp :: int
  cl_iat :: int
  cl_nonce :: string
  cl_sid :: string
  cl_name :: "string option"
  cl_preferred_username :: "string option"
  cl_email :: "string option"

text \<open>
  Configuration and libraries: \<^verbatim>\<open>jwt.Signed(p.signer).Claims(\<dots>).Serialize\<close>,
  \<^verbatim>\<open>bcrypt.CompareHashAndPassword\<close>, \<^verbatim>\<open>url.Parse\<close>, \<^verbatim>\<open>Scheme\<close>, \<^verbatim>\<open>Host\<close>, \<^verbatim>\<open>Query\<close> and \<^verbatim>\<open>String\<close> after the
  assignment of \<^verbatim>\<open>RawQuery\<close>.  The table of attempts is part of the server's state.
\<close>

record 'url Provider =
  pv_issuer :: string
  pv_dir :: directory
  pv_keyIDs :: "string list"
  pv_Serialize :: "id_claims \<Rightarrow> string option"
  pv_CompareHashAndPassword :: "string \<Rightarrow> string \<Rightarrow> bool"
  pv_url_Parse :: "string \<Rightarrow> 'url option"
  pv_url_Scheme :: "'url \<Rightarrow> string"
  pv_url_Host :: "'url \<Rightarrow> string"
  pv_url_Query :: "'url \<Rightarrow> url_values"
  pv_url_String :: "'url \<Rightarrow> string \<Rightarrow> string"

record oidc_status =
  st_Issuer :: string
  st_ActiveKeyID :: string
  st_KeyIDs :: "string list"

definition provider_Status :: "'url Provider \<Rightarrow> oidc_status" where
  "provider_Status p = \<lparr>st_Issuer = pv_issuer p,
     st_ActiveKeyID = (case pv_keyIDs p of [] \<Rightarrow> [] | k # _ \<Rightarrow> k), st_KeyIDs = pv_keyIDs p\<rparr>"

record oidc_request =
  ar_ClientID :: string
  ar_RedirectURI :: string
  ar_Scope :: string
  ar_State :: string
  ar_Nonce :: string
  ar_Challenge :: string

record token_response =
  tr_access_token :: string
  tr_token_type :: string
  tr_expires_in :: int
  tr_id_token :: string
  tr_scope :: string

record introspection =
  in_client_id :: string
  in_sub :: string
  in_scope :: string
  in_token_type :: string
  in_iat :: int
  in_exp :: int
  in_sid :: string
  in_username :: "string option"

text \<open>The bodies of the provider; the sign-in page is shown with its hidden fields and its policy origin.\<close>

datatype oidc_body =
  SignInPage string oidc_request | OAuthError string | TokenIssued token_response | Inactive | Active introspection | Revoked

definition oauthError :: "string \<Rightarrow> nat \<Rightarrow> oidc_body handler" where
  "oauthError code status = reply (Json status (OAuthError code))"

definition oidc_audit :: "request \<Rightarrow> string \<Rightarrow> string \<Rightarrow> string \<Rightarrow> bool \<Rightarrow> string \<Rightarrow> 'b handler \<Rightarrow> 'b handler" where
  "oidc_audit r event user client success details k =
     call (WriteAudit (audit_event event [] user client success (remoteIP r) details)) (\<lambda>_. k) (\<lambda>_. k)"

definition allowedLimit :: "string \<Rightarrow> nat \<Rightarrow> srv \<Rightarrow> bool \<times> srv" where
  "allowedLimit k maximum s =
     (let now = clock (wd s) (steps (wd s)); kept = recent_attempts now (oidcAttempts s k); s1 = s\<lparr>wd := tick (wd s)\<rparr>
      in if maximum \<le> length kept then (False, s1\<lparr>oidcAttempts := (oidcAttempts s)(k := kept)\<rparr>)
         else (True, s1\<lparr>oidcAttempts := (oidcAttempts s)(k := kept @ [now])\<rparr>))"

definition allowed :: "string \<Rightarrow> srv \<Rightarrow> bool \<times> srv" where
  "allowed k = allowedLimit k 10"

section \<open>Authorization endpoint\<close>

definition parse_request :: "request \<Rightarrow> oidc_request" where
  "parse_request r =
     \<lparr>ar_ClientID = FormValue r ''client_id'', ar_RedirectURI = FormValue r ''redirect_uri'', ar_Scope = FormValue r ''scope'',
      ar_State = FormValue r ''state'', ar_Nonce = FormValue r ''nonce'', ar_Challenge = FormValue r ''code_challenge''\<rparr>"

text \<open>The checks of \<^verbatim>\<open>validate\<close> after the client has been found, in the order of the source.\<close>

definition check_request :: "oidc_request \<Rightarrow> OIDCClient \<Rightarrow> string option" where
  "check_request a c =
     (if ar_RedirectURI a \<notin> set (Split (CHR 0x0A) (oc_redirect_uris c)) then Some ''redirect_uri_mismatch''
      else let scopes = Fields (oc_scopes c); requested = Fields (ar_Scope a) in
        if requested = [] \<or> ''openid'' \<notin> set requested then Some ''invalid_scope''
        else if \<not> list_all (\<lambda>s. s \<in> set scopes) requested then Some ''invalid_scope''
        else if length (ar_Challenge a) < 43 \<or> length (ar_Challenge a) > 128 then Some ''invalid_request''
        else case RawURL_decode (ar_Challenge a) of None \<Rightarrow> Some ''invalid_request''
        | Some decoded \<Rightarrow> if length decoded \<noteq> 32 then Some ''invalid_request'' else None)"

definition validate :: "request \<Rightarrow> (oidc_request \<Rightarrow> string option \<Rightarrow> 'b handler) \<Rightarrow> 'b handler" where
  "validate r k =
     (let a = parse_request r in
      if FormValue r ''response_type'' \<noteq> ''code'' \<or> FormValue r ''code_challenge_method'' \<noteq> ''S256'' \<or> ar_State a = [] \<or>
         int (length (ar_State a)) > 512 \<or> ar_Nonce a = [] \<or> int (length (ar_Nonce a)) > 256
      then k a (Some ''invalid_request'')
      else call (OIDCClientByID (ar_ClientID a)) (\<lambda>_. k a (Some ''unauthorized_client'')) (\<lambda>c.
        if \<not> oc_enabled c then k a (Some ''unauthorized_client'') else k a (check_request a c)))"

definition sign_in_page :: "'url Provider \<Rightarrow> oidc_request \<Rightarrow> oidc_body handler" where
  "sign_in_page p a =
     (case pv_url_Parse p (ar_RedirectURI a) of None \<Rightarrow> reply Aborted
      | Some callback \<Rightarrow>
          if \<exists>c \<in> set (pv_url_Host p callback). c \<in> {CHR '' '', CHR 0x09, CHR 0x0D, CHR 0x0A, CHR '';'', CHR 0x27, CHR ''*''}
          then reply (Problem 400 ''invalid callback origin'')
          else reply (Json 200 (SignInPage (pv_url_Scheme p callback @ ''://'' @ pv_url_Host p callback) a)))"

definition redirect_with_code :: "'url Provider \<Rightarrow> oidc_request \<Rightarrow> string \<Rightarrow> 'b handler" where
  "redirect_with_code p a code =
     (case pv_url_Parse p (ar_RedirectURI a) of None \<Rightarrow> reply Aborted
      | Some dest \<Rightarrow>
          let q = values_set ''code'' code (pv_url_Query p dest);
              q = (if ar_State a \<noteq> [] then values_set ''state'' (ar_State a) q else q)
          in reply (Redirect (pv_url_String p dest (values_encode q))))"

definition token_hash :: "string \<Rightarrow> string" where
  "token_hash t = hex_encode (sha256 t)"

text \<open>The code is created for the local account of the user the directory has authenticated.\<close>

definition issue_code :: "'url Provider \<Rightarrow> request \<Rightarrow> oidc_request \<Rightarrow> User \<Rightarrow> 'b handler" where
  "issue_code p r a local =
     call (EnsureOIDCSubjectWithAudit (User_ID local) (remoteIP r)) (\<lambda>_. reply (Problem 503 ''unavailable'')) (\<lambda>_.
     call rand_m (\<lambda>_. reply (Problem 503 ''unavailable'')) (\<lambda>raw.
     let code = RawURL_encode raw in with_now (\<lambda>now.
     call (CreateOIDCCodeWithAudit
         \<lparr>od_code_hash = token_hash code, od_client_id = ar_ClientID a, od_user_id = User_ID local,
          od_redirect_uri = ar_RedirectURI a, od_scope = ar_Scope a, od_nonce = ar_Nonce a,
          od_code_challenge = ar_Challenge a, od_expires_at = now + 90 * second, od_consumed_at = None\<rparr>
         (User_Username local) (remoteIP r))
       (\<lambda>_. reply (Problem 503 ''unavailable'')) (\<lambda>_. redirect_with_code p a code))))"

definition sign_in :: "'url Provider \<Rightarrow> request \<Rightarrow> oidc_request \<Rightarrow> 'b handler" where
  "sign_in p r a =
     (let username = TrimSpace (FormValue r ''username'') in
      asks (allowed (''oidc:'' @ remoteIP r)) (\<lambda>ok.
      if \<not> ok then oidc_audit r ''oidc_login_denied'' username (ar_ClientID a) False ''rate_limited''
        (reply (Problem 429 ''rate limited''))
      else consult (\<lambda>n. AuthenticateUser (pv_dir p) n username (FormValue r ''password'')) (\<lambda>found. case found of
        Inl _ \<Rightarrow> oidc_audit r ''oidc_login_denied'' username (ar_ClientID a) False ''invalid_credentials''
          (reply (Problem 401 ''invalid credentials''))
      | Inr u \<Rightarrow>
          call (UserByUsername (du_Username u))
            (\<lambda>e. if e \<noteq> ErrNoRows then reply (Problem 503 ''unavailable'')
                else call (CreateUserWithAudit (du_Username u) (du_DisplayName u) (du_DN u) ''oidc_user_provisioned'' (remoteIP r))
                  (\<lambda>_. reply (Problem 503 ''unavailable'')) (issue_code p r a))
            (issue_code p r a))))"

definition authorize :: "'url Provider \<Rightarrow> request \<Rightarrow> oidc_body handler" where
  "authorize p r =
     (if \<not> rq_ParseForm_ok r then reply (Problem 400 ''invalid request'')
      else validate r (\<lambda>a err. case err of
          Some e \<Rightarrow> oidc_audit r ''oidc_authorization_denied'' [] (ar_ClientID a) False e (reply (Problem 400 e))
        | None \<Rightarrow> if rq_Method r = ''GET'' then sign_in_page p a else sign_in p r a))"

section \<open>Token endpoint\<close>

definition consumeDeniedCode ::
  "request \<Rightarrow> string \<Rightarrow> string \<Rightarrow> string \<Rightarrow> time \<Rightarrow> string \<Rightarrow> oidc_body handler" where
  "consumeDeniedCode r hash clientID redirectURI now reason =
     call (ConsumeOIDCCodeDenialWithAudit hash clientID redirectURI now (remoteIP r) reason)
       (\<lambda>_. oauthError ''temporarily_unavailable'' 503) (\<lambda>_. oauthError ''invalid_grant'' 400)"

text \<open>The client's identifier and secret, from the header or from the form.\<close>

definition credentials :: "request \<Rightarrow> string \<times> string" where
  "credentials r =
     (case BasicAuth r of Some cs \<Rightarrow> cs | None \<Rightarrow> (FormValue r ''client_id'', FormValue r ''client_secret''))"

definition authenticateClient :: "'url Provider \<Rightarrow> request \<Rightarrow> (string \<Rightarrow> bool \<Rightarrow> 'b handler) \<Rightarrow> 'b handler" where
  "authenticateClient p r k =
     (case credentials r of (clientID, secret) \<Rightarrow>
        call (OIDCClientByID clientID) (\<lambda>_. k clientID False)
          (\<lambda>client. k clientID (oc_enabled client \<and> pv_CompareHashAndPassword p (oc_secret_hash client) secret)))"

text \<open>The claims of the ID token.\<close>

definition token_claims ::
  "'url Provider \<Rightarrow> OIDCCode \<Rightarrow> User \<Rightarrow> directory_user \<Rightarrow> string \<Rightarrow> string \<Rightarrow> time \<Rightarrow> string \<Rightarrow> id_claims" where
  "token_claims p stored u du sub clientID issuedAt sessionID =
     (let scope = '' '' @ od_scope stored @ '' ''; profile = Contains scope '' profile '' in
      \<lparr>cl_iss = pv_issuer p, cl_sub = sub, cl_aud = clientID, cl_exp = Unix (issuedAt + 5 * minute),
       cl_iat = Unix issuedAt, cl_nonce = od_nonce stored, cl_sid = sessionID,
       cl_name = (if profile then Some (User_DisplayName u) else None),
       cl_preferred_username = (if profile then Some (User_Username u) else None),
       cl_email = (if Contains scope '' email '' \<and> du_Mail du \<noteq> [] then Some (du_Mail du) else None)\<rparr>)"

text \<open>The part of \<^verbatim>\<open>token\<close> after the user has been found active.\<close>

definition issue_token ::
  "'url Provider \<Rightarrow> request \<Rightarrow> string \<Rightarrow> string \<Rightarrow> string \<Rightarrow> time \<Rightarrow> OIDCCode \<Rightarrow> User \<Rightarrow> directory_user \<Rightarrow> oidc_body handler" where
  "issue_token p r codeHash clientID redirectURI exchangeTime stored u du =
     call (EnsureOIDCSubjectWithAudit (User_ID u) (remoteIP r)) (\<lambda>_. oauthError ''server_error'' 500) (\<lambda>sub.
     with_now (\<lambda>issuedAt. let expiresAt = issuedAt + 5 * minute in
     call rand_m (\<lambda>_. oauthError ''server_error'' 500) (\<lambda>sessionRaw. let sessionID = RawURL_encode sessionRaw in
     case pv_Serialize p (token_claims p stored u du sub clientID issuedAt sessionID) of
       None \<Rightarrow> oauthError ''server_error'' 500
     | Some idToken \<Rightarrow>
     call rand_m (\<lambda>_. oauthError ''server_error'' 500) (\<lambda>accessRaw. let accessToken = RawURL_encode accessRaw in
     call (ConsumeOIDCCodeWithSessionAudit codeHash clientID redirectURI exchangeTime
         \<lparr>OIDCSession_SessionID = sessionID, OIDCSession_AccessTokenHash = token_hash accessToken, OIDCSession_ClientID = [],
          OIDCSession_UserID = 0, OIDCSession_Username = [], OIDCSession_Subject = [], OIDCSession_Scope = [],
          OIDCSession_IssuedAt = zero_time, OIDCSession_ExpiresAt = expiresAt, OIDCSession_RevokedAt = None\<rparr> (remoteIP r))
       (\<lambda>e. if e = ErrNoRows
            then oidc_audit r ''oidc_token_denied'' [] clientID False ''invalid_grant'' (oauthError ''invalid_grant'' 400)
            else oauthError ''temporarily_unavailable'' 503)
       (\<lambda>_. reply (Json 200 (TokenIssued \<lparr>tr_access_token = accessToken, tr_token_type = ''Bearer'', tr_expires_in = 300,
              tr_id_token = idToken, tr_scope = od_scope stored\<rparr>)))))))"

definition pkce_ok :: "string \<Rightarrow> string \<Rightarrow> bool" where
  "pkce_ok verifier challenge \<longleftrightarrow> \<not> (length verifier < 43 \<or> length verifier > 128) \<and>
     \<not> (verifier = [] \<or> RawURL_encode (sha256 verifier) \<noteq> challenge)"

definition token :: "'url Provider \<Rightarrow> request \<Rightarrow> oidc_body handler" where
  "token p r = asks (allowed (''oidc-token:'' @ remoteIP r)) (\<lambda>ok.
     if \<not> ok then oauthError ''temporarily_unavailable'' 429
     else if \<not> rq_ParseForm_ok r then oauthError ''invalid_request'' 400
     else if FormValue r ''grant_type'' \<noteq> ''authorization_code'' then oauthError ''unsupported_grant_type'' 400
     else authenticateClient p r (\<lambda>clientID ok.
       if \<not> ok then oidc_audit r ''oidc_token_denied'' [] clientID False ''invalid_client'' (oauthError ''invalid_client'' 401)
       else let codeHash = token_hash (FormValue r ''code''); redirectURI = FormValue r ''redirect_uri'' in
       with_now (\<lambda>exchangeTime.
       call (OIDCCodeForExchange codeHash clientID redirectURI exchangeTime)
         (\<lambda>_. oidc_audit r ''oidc_token_denied'' [] clientID False ''invalid_grant'' (oauthError ''invalid_grant'' 400))
         (\<lambda>stored. let deny = consumeDeniedCode r codeHash clientID redirectURI exchangeTime in
          if \<not> pkce_ok (FormValue r ''code_verifier'') (od_code_challenge stored) then deny ''pkce_failed''
          else call (GetUser (od_user_id stored)) (\<lambda>_. deny ''user_unavailable'') (\<lambda>u.
            consult (\<lambda>n. GetDirectoryUser (pv_dir p) n (User_Username u)) (\<lambda>found. case found of
              Inl _ \<Rightarrow> deny ''user_inactive''
            | Inr du \<Rightarrow> issue_token p r codeHash clientID redirectURI exchangeTime stored u du))))))"

section \<open>Introspection and revocation\<close>

definition introspection_of :: "OIDCSession \<Rightarrow> introspection" where
  "introspection_of session =
     \<lparr>in_client_id = OIDCSession_ClientID session, in_sub = OIDCSession_Subject session,
      in_scope = OIDCSession_Scope session, in_token_type = ''Bearer'', in_iat = Unix (OIDCSession_IssuedAt session),
      in_exp = Unix (OIDCSession_ExpiresAt session), in_sid = OIDCSession_SessionID session,
      in_username = (if Contains ('' '' @ OIDCSession_Scope session @ '' '') '' profile ''
                     then Some (OIDCSession_Username session) else None)\<rparr>"

definition introspect :: "'url Provider \<Rightarrow> request \<Rightarrow> oidc_body handler" where
  "introspect p r = asks (allowedLimit (''oidc-client-api:'' @ remoteIP r) 600) (\<lambda>ok.
     if \<not> ok then oauthError ''temporarily_unavailable'' 429
     else if \<not> rq_ParseForm_ok r then oauthError ''invalid_request'' 400
     else authenticateClient p r (\<lambda>clientID ok.
       if \<not> ok then oauthError ''invalid_client'' 401
       else with_now (\<lambda>now. call (OIDCSessionByTokenHash (token_hash (FormValue r ''token'')) clientID now)
         (\<lambda>_. reply (Json 200 Inactive)) (\<lambda>session. reply (Json 200 (Active (introspection_of session)))))))"

text \<open>The answer of \<^verbatim>\<open>revoke\<close> has status 200 and no body.\<close>

definition revoke :: "'url Provider \<Rightarrow> request \<Rightarrow> oidc_body handler" where
  "revoke p r = asks (allowedLimit (''oidc-client-api:'' @ remoteIP r) 600) (\<lambda>ok.
     if \<not> ok then oauthError ''temporarily_unavailable'' 429
     else if \<not> rq_ParseForm_ok r then oauthError ''invalid_request'' 400
     else authenticateClient p r (\<lambda>clientID ok.
       if \<not> ok then oauthError ''invalid_client'' 401
       else call (RevokeOIDCSessionByTokenHashWithAudit (token_hash (FormValue r ''token'')) clientID (remoteIP r))
         (\<lambda>e. if e \<noteq> ErrNoRows then oauthError ''temporarily_unavailable'' 503 else reply (Json 200 Revoked))
         (\<lambda>_. reply (Json 200 Revoked))))"

end
