(* ===== verification/Oidc_Flow.thy ===== *)
theory Oidc_Flow
  imports Oidc_Provider
begin

text \<open>
  The authorization code flow from end to end: every token traces back to a sign-in at the directory.
\<close>

section \<open>Contracts of handlers\<close>

text \<open>A handler stays inside a contract of the tables whenever its response is one of \<open>P\<close>.\<close>

definition upholds ::
  "('b response \<Rightarrow> bool) \<Rightarrow> (tables \<Rightarrow> bool) \<Rightarrow> (tables \<Rightarrow> tables \<Rightarrow> bool) \<Rightarrow> 'b handler \<Rightarrow> bool" where
  "upholds P I R h \<longleftrightarrow> (\<forall>s r s'. I (tb (wd s)) \<longrightarrow> h s = (r, s') \<longrightarrow> P r \<longrightarrow> R (tb (wd s)) (tb (wd s')))"

lemma upholdsD: "upholds P I R h \<Longrightarrow> I (tb (wd s)) \<Longrightarrow> h s = (r, s') \<Longrightarrow> P r \<Longrightarrow> R (tb (wd s)) (tb (wd s'))"
  by (simp add: upholds_def)

context table_contract
begin

lemma upholds_reply: "upholds P I R (reply x)"
  by (simp add: upholds_def http_simps R_refl)

lemma upholds_with_now: "(\<And>t. upholds P I R (k t)) \<Longrightarrow> upholds P I R (with_now k)"
  unfolding upholds_def with_now_iff by (metis srv.select_convs(1) srv.surjective srv.update_convs(1) tick_simps(1))

lemma upholds_consult: "(\<And>a. upholds P I R (k a)) \<Longrightarrow> upholds P I R (consult f k)"
  unfolding upholds_def consult_iff by (metis srv.select_convs(1) srv.surjective srv.update_convs(1) tick_simps(1))

lemma upholds_asks:
  assumes "\<And>s. tb (wd (snd (m s))) = tb (wd s)" "\<And>a. upholds P I R (k a)"
  shows "upholds P I R (asks m k)"
  unfolding upholds_def
proof (intro allI impI)
  fix s r s'
  assume inv: "I (tb (wd s))" and run: "asks m k s = (r, s')" and P: "P r"
  then obtain a s1 where m: "m s = (a, s1)" and k: "k a s1 = (r, s')" by (auto simp: http_simps)
  have "tb (wd s1) = tb (wd s)" using assms(1) [of s] m by simp
  with upholdsD [OF assms(2) _ k P] inv show "R (tb (wd s)) (tb (wd s'))" by simp
qed

lemma upholds_call:
  assumes "keeps I R m" "\<And>e. upholds P I R (f e)" "\<And>a. upholds P I R (k a)"
  shows "upholds P I R (call m f k)"
  unfolding upholds_def
proof (intro allI impI)
  fix s r s'
  assume inv: "I (tb (wd s))" and run: "call m f k s = (r, s')" and P: "P r"
  obtain x w where m: "m (wd s) = (x, w)" by (cases "m (wd s)")
  have R1: "R (tb (wd s)) (tb w)" by (rule keepsD [OF assms(1) inv m])
  moreover have "R (tb w) (tb (wd s'))"
    using run P m upholdsD [OF assms(2)] upholdsD [OF assms(3)] R_inv [OF inv R1]
    by (cases x) (force simp: call_def)+
  ultimately show "R (tb (wd s)) (tb (wd s'))" using inv R_trans by blast
qed

lemmas upholds_intros = upholds_reply upholds_with_now upholds_consult upholds_asks upholds_call

end

section \<open>Where codes come from\<close>

text \<open>A code as it was issued; the only field that changes later is the time of its use.\<close>

definition as_issued :: "OIDCCode \<Rightarrow> OIDCCode" where
  "as_issued c = c\<lparr>od_consumed_at := None\<rparr>"

definition codes_from :: "OIDCCode set \<Rightarrow> tables \<Rightarrow> tables \<Rightarrow> bool" where
  "codes_from N t t' \<longleftrightarrow> as_issued ` set (oidc_codes t') \<subseteq> as_issued ` set (oidc_codes t) \<union> as_issued ` N"

interpretation origins: table_contract "\<lambda>_. True" "codes_from N" for N
  by unfold_locales (unfold codes_from_def, blast+)

abbreviation issues_only :: "OIDCCode set \<Rightarrow> 'a dbm \<Rightarrow> bool" where
  "issues_only N \<equiv> keeps (\<lambda>_. True) (codes_from N)"

lemma issues_only_reads [simp]:
  "issues_only N (query_row q)" "issues_only N (query_all q')" "issues_only N (ensure c e)" "issues_only N (ret a)"
  "issues_only N (one_row r)" "issues_only N (one_row_or e r)" "issues_only N (RowsAffected r)" "issues_only N now_m"
  "issues_only N rand_m" "issues_only N (LastInsertId i)"
  by (auto intro!: origins.keeps_read_only atomic_intros)

lemma issues_only_writes [simp]:
  "issues_only N (exec (insert_audit a))" "issues_only N (exec delete_expired_codes)"
  "issues_only N (exec (consume_oidc_code hash now))" "issues_only N (exec (delete_old_oidc_sessions now))"
  "issues_only N (exec (insert_oidc_session s))" "issues_only N (exec (insert_user u d dn))"
  "issues_only N (exec (revoke_oidc_sessions P f))" "issues_only N (exec (update_oidc_clients Q g))"
  "issues_only N (exec (insert_oidc_client i se r sc))" "issues_only N (exec (upsert_oidc_client i se r sc))"
  "issues_only N (exec (set_subject userID sub))"
  by (rule origins.keeps_exec, rule keeps_stmtI,
      auto simp: codes_from_def as_issued_def insert_audit_def delete_expired_codes_def consume_oidc_code_def
        delete_old_oidc_sessions_def insert_oidc_session_def insert_user_def revoke_oidc_sessions_def update_oidc_clients_def
        insert_oidc_client_def upsert_oidc_client_def set_subject_def update_users_def set_update_where Let_def split: if_splits)+

lemma issues_only_insert [simp]: "c \<in> N \<Longrightarrow> issues_only N (exec (insert_oidc_code c))"
  by (rule origins.keeps_exec, rule keeps_stmtI)
    (auto simp: codes_from_def as_issued_def insert_oidc_code_def Let_def split: if_splits)

lemma issues_only_store [simp]:
  "issues_only N (EnsureOIDCSubjectWithAudit u ip)" "issues_only N (WriteAudit e)" "issues_only N (UserByUsername n)"
  "issues_only N (CreateUserWithAudit n d dn ev ip)" "issues_only N (OIDCClientByID i)" "issues_only N (GetUser u)"
  "issues_only N (OIDCCodeForExchange h c r now)" "issues_only N (ConsumeOIDCCodeDenialWithAudit h c r now ip reason)"
  "issues_only N (ConsumeOIDCCodeWithSessionAudit h c r now s ip)" "issues_only N (OIDCSessionByTokenHash h c now)"
  "issues_only N (RevokeOIDCSessionByTokenHashWithAudit h c ip)"
  "code \<in> N \<Longrightarrow> issues_only N (CreateOIDCCodeWithAudit code n ip)"
  by (simp_all add: oidc_op_defs WriteAudit_def UserByUsername_def CreateUserWithAudit_def OIDCClientByID_def GetUser_def
      OIDCCodeForExchange_def OIDCSessionByTokenHash_def origins.keeps_intros split: prod.splits)

lemma allowed_frame [simp]: "wd (snd (allowedLimit k n s)) = tick (wd s)" "wd (snd (allowed k s)) = tick (wd s)"
  by (simp_all add: allowed_def allowedLimit_def Let_def)

lemma issues_nothing:
  "upholds (\<lambda>_. True) (\<lambda>_. True) (codes_from N) (oauthError c n)"
  "upholds (\<lambda>_. True) (\<lambda>_. True) (codes_from N) h \<Longrightarrow> upholds (\<lambda>_. True) (\<lambda>_. True) (codes_from N) (oidc_audit r e u c b d h)"
  "upholds (\<lambda>_. True) (\<lambda>_. True) (codes_from N) (consumeDeniedCode r hash c uri now reason)"
  "(\<And>i b. upholds (\<lambda>_. True) (\<lambda>_. True) (codes_from N) (k i b)) \<Longrightarrow> upholds (\<lambda>_. True) (\<lambda>_. True) (codes_from N) (authenticateClient p r k)"
  "upholds (\<lambda>_. True) (\<lambda>_. True) (codes_from N) (issue_token p r hash c uri now stored usr du)"
  unfolding oauthError_def oidc_audit_def consumeDeniedCode_def authenticateClient_def issue_token_def Let_def
  by (auto intro!: origins.upholds_intros split: prod.splits option.splits)

lemma other_endpoints_issue_nothing:
  "upholds (\<lambda>_. True) (\<lambda>_. True) (codes_from N) (token p r)" "upholds (\<lambda>_. True) (\<lambda>_. True) (codes_from N) (introspect p r)"
  "upholds (\<lambda>_. True) (\<lambda>_. True) (codes_from N) (revoke p r)"
  unfolding token_def introspect_def revoke_def Let_def
  by (auto intro!: origins.upholds_intros issues_nothing split: sum.splits)

section \<open>Signing in\<close>

text \<open>The code that a successful sign-in stores, and what has been checked before.\<close>

definition signed_in :: "'url Provider \<Rightarrow> request \<Rightarrow> srv \<Rightarrow> srv \<Rightarrow> OIDCCode \<Rightarrow> bool" where
  "signed_in p r s s' c \<longleftrightarrow> (\<exists>cl n u row raw now.
     cl \<in> set (oidc_clients (tb (wd s))) \<and> oc_enabled cl \<and> oc_client_id cl = od_client_id c \<and>
     od_redirect_uri c \<in> set (Split (CHR 0x0A) (oc_redirect_uris cl)) \<and>
     set (Fields (od_scope c)) \<subseteq> set (Fields (oc_scopes cl)) \<and>
     od_code_challenge c = FormValue r ''code_challenge'' \<and> od_nonce c = FormValue r ''nonce'' \<and>
     AuthenticateUser (pv_dir p) n (TrimSpace (FormValue r ''username'')) (FormValue r ''password'') = Inr u \<and>
     row \<in> set (users (tb (wd s'))) \<and> usr_id row = od_user_id c \<and> lower (usr_username row) = lower (du_Username u) \<and>
     od_code_hash c = token_hash (RawURL_encode raw) \<and> request_time s now \<and> od_expires_at c = now + 90 * second)"

lemma validate_returns:
  assumes "validate r k s = (resp, s')"
  obtains e s1 where "k (parse_request r) (Some e) s1 = (resp, s')" "later s s1" "tb (wd s1) = tb (wd s)"
      "oidcAttempts s1 = oidcAttempts s"
  | cl s1 where "k (parse_request r) None s1 = (resp, s')" "later s s1" "tb (wd s1) = tb (wd s)"
      "cl \<in> set (oidc_clients (tb (wd s)))" "oc_enabled cl" "oc_client_id cl = ar_ClientID (parse_request r)"
      "check_request (parse_request r) cl = None" "oidcAttempts s1 = oidcAttempts s"
proof -
  let ?a = "parse_request r"
  show thesis
  proof (cases "FormValue r ''response_type'' \<noteq> ''code'' \<or> FormValue r ''code_challenge_method'' \<noteq> ''S256'' \<or> ar_State ?a = [] \<or>
         int (length (ar_State ?a)) > 512 \<or> ar_Nonce ?a = [] \<or> int (length (ar_Nonce ?a)) > 256")
    case True
    with assms that(1) [of "''invalid_request''" s] show ?thesis by (simp add: validate_def Let_def)
  next
    case False
    obtain x w where m: "OIDCClientByID (ar_ClientID ?a) (wd s) = (x, w)" by (cases "OIDCClientByID (ar_ClientID ?a) (wd s)")
    then have w: "w = tick (wd s)" by (auto simp: OIDCClientByID_def query_row_def split: if_splits list.splits)
    then have frame: "later s (s\<lparr>wd := w\<rparr>)" "tb (wd (s\<lparr>wd := w\<rparr>)) = tb (wd s)" "oidcAttempts (s\<lparr>wd := w\<rparr>) = oidcAttempts s"
      by (simp_all add: later_def)
    have cl: "cl \<in> set (oidc_clients (tb (wd s))) \<and> oc_client_id cl = ar_ClientID ?a" if "x = Inr cl" for cl
      using m that by (auto simp: OIDCClientByID_def db_simps dest!: filter_eq_Cons_mem)
    from assms False m have run: "(case x of Inl _ \<Rightarrow> k ?a (Some ''unauthorized_client'')
        | Inr cl \<Rightarrow> if \<not> oc_enabled cl then k ?a (Some ''unauthorized_client'') else k ?a (check_request ?a cl)) (s\<lparr>wd := w\<rparr>) = (resp, s')"
      by (cases x) (simp_all add: validate_def Let_def call_def)
    show ?thesis
    proof (cases "\<exists>cl. x = Inr cl \<and> oc_enabled cl \<and> check_request ?a cl = None")
      case True
      then obtain cl' where "x = Inr cl'" "oc_enabled cl'" "check_request ?a cl' = None" by blast
      with run cl frame show ?thesis by (intro that(2) [of "s\<lparr>wd := w\<rparr>" cl']) simp_all
    next
      case False
      with run frame that(1) [of _ "s\<lparr>wd := w\<rparr>"] show ?thesis
        by (cases x) (auto split: if_splits)
    qed
  qed
qed

definition issued_code :: "oidc_request \<Rightarrow> User \<Rightarrow> string \<Rightarrow> time \<Rightarrow> OIDCCode" where
  "issued_code a u raw now = \<lparr>od_code_hash = token_hash (RawURL_encode raw), od_client_id = ar_ClientID a, od_user_id = User_ID u,
      od_redirect_uri = ar_RedirectURI a, od_scope = ar_Scope a, od_nonce = ar_Nonce a,
      od_code_challenge = ar_Challenge a, od_expires_at = now + 90 * second, od_consumed_at = None\<rparr>"

lemma steady_last [steady_intros]: "steady (LastInsertId i)"
  by (simp add: steady_def LastInsertId_def)

lemma steady_oidc [steady_intros]:
  "steady (EnsureOIDCSubjectWithAudit u ip)" "steady (CreateUserWithAudit n d dn ev ip)" "steady (UserByUsername n)"
  "steady (CreateOIDCCodeWithAudit code n ip)" "steady (OIDCClientByID i)" "steady (GetUser uid)" "steady (OIDCCodeForExchange h c uri now)"
  "steady (ConsumeOIDCCodeWithSessionAudit h c uri now ses ip)" "steady (ConsumeOIDCCodeDenialWithAudit h c uri now ip reason)"
  unfolding oidc_op_defs CreateUserWithAudit_def UserByUsername_def OIDCClientByID_def GetUser_def OIDCCodeForExchange_def
  by (auto intro!: steady_intros split: prod.splits)

lemma codes_from_mono: "codes_from M t t' \<Longrightarrow> M \<subseteq> N \<Longrightarrow> codes_from N t t'"
  by (auto simp: codes_from_def)

lemma create_code_user:
  assumes "CreateOIDCCodeWithAudit c name ip w = (Inr x, w')"
  shows "\<exists>row \<in> set (users (tb w')). usr_id row = od_user_id c \<and> usr_username row = name"
  using assms
  by (auto simp: CreateOIDCCodeWithAudit_def validateAuditIP_def db_simps insert_audit_def Let_def
      dest!: map_filter_Cons_mem split: if_splits)

lemma issue_code_effect:
  assumes "issue_code p r a u s = (resp, s')"
  shows "codes_from {} (tb (wd s)) (tb (wd s')) \<or>
    (\<exists>raw now. request_time s now \<and> codes_from {issued_code a u raw now} (tb (wd s)) (tb (wd s')) \<and>
       (\<exists>row \<in> set (users (tb (wd s'))). usr_id row = User_ID u \<and> usr_username row = User_Username u))"
proof -
  obtain x w where m: "EnsureOIDCSubjectWithAudit (User_ID u) (remoteIP r) (wd s) = (x, w)"
    by (cases "EnsureOIDCSubjectWithAudit (User_ID u) (remoteIP r) (wd s)")
  have t: "clock w = clock (wd s) \<and> steps (wd s) \<le> steps w" by (rule steadyD [OF steady_oidc(1) m])
  have c1: "codes_from N (tb (wd s)) (tb w)" for N by (rule keepsD [OF issues_only_store(1) _ m]) simp
  have red: "wd s'' = wd s1" if "redirect_with_code p a c s1 = (resp', s'')" for c s1 resp' s''
    using that by (auto simp: redirect_with_code_def http_simps Let_def split: option.splits if_splits)
  consider "tb (wd s') = tb w" | raw z where "rnd w (steps w) = Some raw"
    "CreateOIDCCodeWithAudit (issued_code a u raw (clock w (Suc (steps w)))) (User_Username u) (remoteIP r) (tick (tick w)) = (z, wd s')"
    using assms m
    by (cases x; cases "rnd w (steps w)") (auto simp: issue_code_def issued_code_def http_simps rand_m_def Let_def dest!: red)
  then show ?thesis
  proof cases
    case 1
    with c1 show ?thesis by simp
  next
    case (2 raw z)
    let ?now = "clock w (Suc (steps w))" and ?c = "issued_code a u raw (clock w (Suc (steps w)))"
    show ?thesis
    proof (cases z)
      case (Inl e)
      have "atomic (CreateOIDCCodeWithAudit ?c (User_Username u) (remoteIP r))"
        unfolding CreateOIDCCodeWithAudit_def validateAuditIP_def by (intro atomic_intros)
      with 2(2) Inl have "tb (wd s') = tb (tick (tick w))" using atomicD by blast
      with c1 show ?thesis by simp
    next
      case (Inr y)
      have "request_time s ?now" using t by (auto simp: request_time_def intro!: exI [of _ "Suc (steps w)"])
      moreover have "codes_from {?c} (tb w) (tb (wd s'))" using keepsD [OF issues_only_store(12) _ 2(2), of "{?c}"] by simp
      then have "codes_from {?c} (tb (wd s)) (tb (wd s'))" using origins.R_trans [OF _ c1] by simp
      moreover have "\<exists>row \<in> set (users (tb (wd s'))). usr_id row = User_ID u \<and> usr_username row = User_Username u"
        using create_code_user [OF 2(2) [unfolded Inr]] by (simp add: issued_code_def)
      ultimately show ?thesis by blast
    qed
  qed
qed

lemma inserted_user:
  assumes "insert_user n d dn now t = Some (t', k, i)" "map scanSQLiteUser (filter (\<lambda>u. usr_id u = i) (users t')) = x # xs"
  shows "User_Username x = n"
proof -
  from assms(1) have i: "i = users_seq t + 1" "i \<notin> usr_id ` set (users t)"
    by (auto simp: insert_user_def Let_def ok_users_def split: if_splits)
  then have "filter (\<lambda>u. usr_id u = i) (users t) = []" by (metis (mono_tags, lifting) filter_False imageI)
  with assms i(1) show ?thesis by (auto simp: insert_user_def Let_def scanSQLiteUser_def split: if_splits)
qed

lemma created_user:
  assumes "CreateUserWithAudit n d dn ev ip w = (Inr u, w')"
  shows "User_Username u = n"
  using assms by (auto simp: CreateUserWithAudit_def validateAuditIP_def db_simps dest: inserted_user)

lemma local_account:
  assumes "UserByUsername n w = (Inr u, w')"
  shows "lower (User_Username u) = lower n" "w' = tick w"
  using assms by (auto simp: UserByUsername_def db_simps scanSQLiteUser_def dest!: map_filter_Cons_mem)

lemma denial_keeps_codes: "oidc_audit r e u c b d (reply x) s = (resp, s') \<Longrightarrow> codes_from N (tb (wd s)) (tb (wd s'))"
  using upholdsD [of "\<lambda>_. True" "\<lambda>_. True" "codes_from N" "oidc_audit r e u c b d (reply x)"]
  by (simp add: issues_nothing(2) origins.upholds_reply)

lemma sign_in_codes:
  assumes "sign_in p r a s = (resp, s')"
  shows "codes_from {} (tb (wd s)) (tb (wd s')) \<or>
    (\<exists>u n usr raw now. request_time s now \<and> codes_from {issued_code a usr raw now} (tb (wd s)) (tb (wd s')) \<and>
       AuthenticateUser (pv_dir p) n (TrimSpace (FormValue r ''username'')) (FormValue r ''password'') = Inr u \<and>
       (\<exists>row \<in> set (users (tb (wd s'))). usr_id row = User_ID usr \<and> lower (usr_username row) = lower (du_Username u)))"
proof -
  let ?k = "''oidc:'' @ remoteIP r" and ?name = "TrimSpace (FormValue r ''username'')"
  obtain ok lim where lim: "allowed ?k s = (ok, lim)" by (rule prod.exhaust)
  have wl: "wd lim = tick (wd s)" using allowed_frame(2) [of ?k s] unfolding lim by (simp only: snd_conv)
  let ?s1 = "lim\<lparr>wd := tick (wd lim)\<rparr>"
  have tb1: "tb (wd ?s1) = tb (wd s)" "later s ?s1" by (simp_all add: later_def wl)
  define x where "x n = fst (UserByUsername n (wd ?s1))" for n
  define w where "w n = snd (UserByUsername n (wd ?s1))" for n
  have find: "UserByUsername n (wd ?s1) = (x n, w n)" for n by (simp add: x_def w_def)
  have found: "codes_from {} (tb (wd s)) (tb (w du))" "later s (?s1\<lparr>wd := w du\<rparr>)" for du
    using keepsD [OF issues_only_store(3) _ find [of du], of "{}"] tb1(1) steadyD [OF steady_oidc(3) find [of du]] by (simp_all add: later_def wl)
  consider "codes_from {} (tb (wd s)) (tb (wd s'))"
  | u usr n s2 where "AuthenticateUser (pv_dir p) n ?name (FormValue r ''password'') = Inr u"
      "later s s2" "codes_from {} (tb (wd s)) (tb (wd s2))" "lower (User_Username usr) = lower (du_Username u)"
      "issue_code p r a usr s2 = (resp, s')"
  proof (cases "ok \<and> (\<exists>u. AuthenticateUser (pv_dir p) (steps (wd lim)) ?name (FormValue r ''password'') = Inr u)")
    case False
    have "codes_from {} (tb (wd s)) (tb (wd s'))"
    proof (cases ok)
      case True
      with False obtain e where "AuthenticateUser (pv_dir p) (steps (wd lim)) ?name (FormValue r ''password'') = Inl e"
        using sum.exhaust by blast
      with assms lim True have "oidc_audit r ''oidc_login_denied'' ?name (ar_ClientID a) False ''invalid_credentials''
          (reply (Problem 401 ''invalid credentials'')) ?s1 = (resp, s')"
        by (simp add: sign_in_def Let_def asks_def consult_def)
      from denial_keeps_codes [OF this, of "{}"] show ?thesis by (simp only: tb1(1))
    next
      case False
      with assms lim have "oidc_audit r ''oidc_login_denied'' ?name (ar_ClientID a) False ''rate_limited''
          (reply (Problem 429 ''rate limited'')) lim = (resp, s')"
        by (simp add: sign_in_def Let_def asks_def)
      from denial_keeps_codes [OF this, of "{}"] show ?thesis by (simp add: wl)
    qed
    then show thesis by (rule that(1))
  next
    case True
    then obtain u where ok and u: "AuthenticateUser (pv_dir p) (steps (wd lim)) ?name (FormValue r ''password'') = Inr u" by blast
    let ?n = "du_Username u"
    let ?s2 = "?s1\<lparr>wd := w ?n\<rparr>"
    show thesis
    proof (cases "x ?n")
      case (Inr usr)
      with assms lim u \<open>ok\<close> find [of ?n] have "issue_code p r a usr ?s2 = (resp, s')"
        by (simp add: sign_in_def Let_def asks_def consult_def call_def)
      with that(2) [OF u found(2)] found(1) local_account(1) [OF find [of ?n, unfolded Inr]] show thesis by simp
    next
      case (Inl e)
      obtain y w2 where create: "CreateUserWithAudit ?n (du_DisplayName u) (du_DN u) ''oidc_user_provisioned'' (remoteIP r) (w ?n) = (y, w2)"
        by (rule prod.exhaust)
      have c2: "codes_from {} (tb (wd s)) (tb w2)"
        using origins.R_trans [OF _ found(1) keepsD [OF issues_only_store(4) _ create]] by simp
      have l2: "later s (?s1\<lparr>wd := w2\<rparr>)"
        using later_trans [OF found(2), of ?n "?s1\<lparr>wd := w2\<rparr>"] steadyD [OF steady_oidc(2) create] by (simp add: later_def)
      have run: "(if e \<noteq> ErrNoRows then reply (Problem 503 ''unavailable'')
          else call (CreateUserWithAudit ?n (du_DisplayName u) (du_DN u) ''oidc_user_provisioned'' (remoteIP r))
            (\<lambda>_. reply (Problem 503 ''unavailable'')) (issue_code p r a)) ?s2 = (resp, s')"
        using assms lim u \<open>ok\<close> find [of ?n] Inl by (simp add: sign_in_def Let_def asks_def consult_def call_def)
      show thesis
      proof (cases "\<exists>usr. e = ErrNoRows \<and> y = Inr usr")
        case True
        then obtain usr where e: "e = ErrNoRows" and y: "y = Inr usr" by blast
        with run create have "issue_code p r a usr (?s1\<lparr>wd := w2\<rparr>) = (resp, s')" by (simp add: http_simps)
        with that(2) [OF u l2, of usr] c2 created_user [OF create [unfolded y]] show thesis by simp
      next
        case False
        with run create have "tb (wd s') = tb (w ?n) \<or> tb (wd s') = tb w2" by (cases y) (auto simp: http_simps split: if_splits)
        with that(1) found(1) c2 show thesis by auto
      qed
    qed
  qed
  then show ?thesis
  proof cases
    case (2 u usr n s2)
    from issue_code_effect [OF 2(5)] show ?thesis
    proof (elim disjE exE conjE bexE)
      assume "codes_from {} (tb (wd s2)) (tb (wd s'))"
      with origins.R_trans [OF _ 2(3)] show ?thesis by simp
    next
      fix raw now row
      assume *: "request_time s2 now" "codes_from {issued_code a usr raw now} (tb (wd s2)) (tb (wd s'))"
        "row \<in> set (users (tb (wd s')))" "usr_id row = User_ID usr" "usr_username row = User_Username usr"
      have "codes_from {issued_code a usr raw now} (tb (wd s)) (tb (wd s2))" using 2(3) by (rule codes_from_mono) simp
      then have "codes_from {issued_code a usr raw now} (tb (wd s)) (tb (wd s'))" using origins.R_trans [OF _ _ *(2)] by simp
      moreover have "request_time s now" using 2(2) *(1) by (rule later_request_time)
      ultimately show ?thesis using 2(1,4) *(3-5) by metis
    qed
  qed simp
qed

lemma checked_request:
  assumes "check_request a cl = None"
  shows "ar_RedirectURI a \<in> set (Split (CHR 0x0A) (oc_redirect_uris cl))" "set (Fields (ar_Scope a)) \<subseteq> set (Fields (oc_scopes cl))"
  using assms by (auto simp: check_request_def Let_def list_all_iff split: if_splits)

lemma authorize_codes:
  assumes "authorize p r s = (resp, s')"
  shows "\<exists>N. codes_from N (tb (wd s)) (tb (wd s')) \<and> (\<forall>c \<in> N. signed_in p r s s' c)"
proof -
  let ?k = "\<lambda>a err. case err of
          Some e \<Rightarrow> oidc_audit r ''oidc_authorization_denied'' [] (ar_ClientID a) False e (reply (Problem 400 e))
        | None \<Rightarrow> if rq_Method r = ''GET'' then sign_in_page p a else sign_in p r a"
  have none: ?thesis if "codes_from {} (tb (wd s)) (tb (wd s'))" using that by blast
  show ?thesis
  proof (cases "rq_ParseForm_ok r")
    case False
    with assms have "s' = s" by (simp add: authorize_def http_simps)
    then show ?thesis using none by (simp add: origins.R_refl)
  next
    case True
    with assms have "validate r ?k s = (resp, s')" by (simp add: authorize_def)
    then show ?thesis
    proof (cases rule: validate_returns)
      case (1 e s1)
      then have "oidc_audit r ''oidc_authorization_denied'' [] (ar_ClientID (parse_request r)) False e (reply (Problem 400 e)) s1 = (resp, s')"
        by simp
      then have "codes_from {} (tb (wd s1)) (tb (wd s'))" by (rule denial_keeps_codes)
      with 1(3) none show ?thesis by simp
    next
      case (2 cl s1)
      show ?thesis
      proof (cases "rq_Method r = ''GET''")
        case True
        with 2(1) have "s' = s1" by (auto simp: sign_in_page_def http_simps split: option.splits if_splits)
        with 2(3) show ?thesis using none by (simp add: origins.R_refl)
      next
        case False
        with 2(1) have "sign_in p r (parse_request r) s1 = (resp, s')" by simp
        from sign_in_codes [OF this] show ?thesis
        proof (elim disjE exE conjE)
          assume "codes_from {} (tb (wd s1)) (tb (wd s'))"
          with 2(3) none show ?thesis by simp
        next
          fix u n usr raw now
          assume *: "request_time s1 now" "codes_from {issued_code (parse_request r) usr raw now} (tb (wd s1)) (tb (wd s'))"
            "AuthenticateUser (pv_dir p) n (TrimSpace (FormValue r ''username'')) (FormValue r ''password'') = Inr u"
            "\<exists>row \<in> set (users (tb (wd s'))). usr_id row = User_ID usr \<and> lower (usr_username row) = lower (du_Username u)"
          have "signed_in p r s s' (issued_code (parse_request r) usr raw now)"
            using * 2(4-6) checked_request [OF 2(7)] later_request_time [OF 2(2) *(1)]
            unfolding signed_in_def by (fastforce simp: issued_code_def parse_request_def)
          with *(2) 2(3) show ?thesis by auto
        qed
      qed
    qed
  qed
qed

section \<open>Exchanging a code\<close>

definition client_authenticated :: "'url Provider \<Rightarrow> request \<Rightarrow> srv \<Rightarrow> bool" where
  "client_authenticated p r s \<longleftrightarrow> (\<exists>cl \<in> set (oidc_clients (tb (wd s))). oc_client_id cl = fst (credentials r) \<and> oc_enabled cl \<and>
     pv_CompareHashAndPassword p (oc_secret_hash cl) (snd (credentials r)))"

lemma authenticateClient_returns:
  assumes "authenticateClient p r k s = (resp, s')"
  obtains ok s1 where "k (fst (credentials r)) ok s1 = (resp, s')" "tb (wd s1) = tb (wd s)" "later s s1"
    "ok \<Longrightarrow> client_authenticated p r s"
proof -
  obtain x w where m: "OIDCClientByID (fst (credentials r)) (wd s) = (x, w)" by (rule prod.exhaust)
  then have w: "w = tick (wd s)" by (auto simp: OIDCClientByID_def query_row_def split: if_splits list.splits)
  let ?ok = "\<lambda>cl. oc_enabled cl \<and> pv_CompareHashAndPassword p (oc_secret_hash cl) (snd (credentials r))"
  have cl: "cl \<in> set (oidc_clients (tb (wd s))) \<and> oc_client_id cl = fst (credentials r)" if "x = Inr cl" for cl
    using m that by (auto simp: OIDCClientByID_def db_simps dest!: filter_eq_Cons_mem)
  have run: "(case x of Inl _ \<Rightarrow> k (fst (credentials r)) False | Inr cl \<Rightarrow> k (fst (credentials r)) (?ok cl)) (s\<lparr>wd := w\<rparr>) = (resp, s')"
    using assms m by (cases x) (simp_all add: authenticateClient_def call_def split: prod.splits)
  show thesis
  proof (cases x)
    case (Inl e)
    with run that [of False "s\<lparr>wd := w\<rparr>"] w show ?thesis by (simp add: later_def)
  next
    case (Inr c)
    with run that [of "?ok c" "s\<lparr>wd := w\<rparr>"] w cl [OF Inr] show ?thesis by (auto simp: later_def client_authenticated_def)
  qed
qed

text \<open>Ensuring a subject changes no code.\<close>

lemma ensure_subject_codes:
  assumes "EnsureOIDCSubjectWithAudit u ip w = (x, w')"
  shows "oidc_codes (tb w') = oidc_codes (tb w)"
proof (cases x)
  case (Inl e)
  have "atomic (EnsureOIDCSubjectWithAudit u ip)"
    unfolding EnsureOIDCSubjectWithAudit_def validateAuditIP_def by (intro atomic_intros)
  with assms Inl show ?thesis using atomicD by metis
next
  case (Inr sub)
  with assms show ?thesis
    by (auto simp: EnsureOIDCSubjectWithAudit_def validateAuditIP_def db_simps set_subject_def update_users_def insert_audit_def
        Let_def split: if_splits)
qed

lemma redeemed_code:
  assumes "ConsumeOIDCCodeWithSessionAudit h client uri now ses ip w = (Inr c, w')"
  shows "\<exists>rest. filter (redeemable h client uri now) (oidc_codes (tb w)) = c # rest"
  using assms
  by (auto simp: ConsumeOIDCCodeWithSessionAudit_def select_code_def validateAuditIP_def db_simps)

definition token_session :: "OIDCCode \<Rightarrow> token_response \<Rightarrow> time \<Rightarrow> tables \<Rightarrow> bool" where
  "token_session c b issued t \<longleftrightarrow> (\<exists>ses \<in> set (oidc_sessions t). os_access_token_hash ses = token_hash (tr_access_token b) \<and>
     os_client_id ses = od_client_id c \<and> os_user_id ses = od_user_id c \<and> os_scope ses = od_scope c \<and>
     os_expires_at ses = issued + 5 * minute \<and> os_revoked_at ses = None)"

lemma issue_token_returns:
  assumes "issue_token p r hash client uri now stored u du s = (Json n (TokenIssued b), s')"
    "filter (redeemable hash client uri now) (oidc_codes (tb (wd s))) = stored # rest"
  obtains issued sub sid where "request_time s issued" "token_session stored b issued (tb (wd s'))"
    "pv_Serialize p (token_claims p stored u du sub client issued sid) = Some (tr_id_token b)" "tr_scope b = od_scope stored"
proof -
  from assms(1) obtain sub w1 where ens: "EnsureOIDCSubjectWithAudit (User_ID u) (remoteIP r) (wd s) = (Inr sub, w1)"
    and run: "with_now (\<lambda>issuedAt. let expiresAt = issuedAt + 5 * minute in
       call rand_m (\<lambda>_. oauthError ''server_error'' 500) (\<lambda>sessionRaw. let sessionID = RawURL_encode sessionRaw in
       case pv_Serialize p (token_claims p stored u du sub client issuedAt sessionID) of
         None \<Rightarrow> oauthError ''server_error'' 500
       | Some idToken \<Rightarrow>
       call rand_m (\<lambda>_. oauthError ''server_error'' 500) (\<lambda>accessRaw. let accessToken = RawURL_encode accessRaw in
       call (ConsumeOIDCCodeWithSessionAudit hash client uri now
           \<lparr>OIDCSession_SessionID = sessionID, OIDCSession_AccessTokenHash = token_hash accessToken, OIDCSession_ClientID = [],
            OIDCSession_UserID = 0, OIDCSession_Username = [], OIDCSession_Subject = [], OIDCSession_Scope = [],
            OIDCSession_IssuedAt = zero_time, OIDCSession_ExpiresAt = expiresAt, OIDCSession_RevokedAt = None\<rparr> (remoteIP r))
         (\<lambda>e. if e = ErrNoRows
              then oidc_audit r ''oidc_token_denied'' [] client False ''invalid_grant'' (oauthError ''invalid_grant'' 400)
              else oauthError ''temporarily_unavailable'' 503)
         (\<lambda>_. reply (Json 200 (TokenIssued \<lparr>tr_access_token = accessToken, tr_token_type = ''Bearer'', tr_expires_in = 300,
                tr_id_token = idToken, tr_scope = od_scope stored\<rparr>)))))) (s\<lparr>wd := w1\<rparr>) = (Json n (TokenIssued b), s')"
    by (auto simp: issue_token_def call_iff oauthError_def reply_iff)
  let ?issued = "clock w1 (steps w1)"
  let ?ses = "\<lambda>raw1 raw2. \<lparr>OIDCSession_SessionID = RawURL_encode raw1, OIDCSession_AccessTokenHash = token_hash (RawURL_encode raw2),
    OIDCSession_ClientID = [], OIDCSession_UserID = 0, OIDCSession_Username = [], OIDCSession_Subject = [], OIDCSession_Scope = [],
    OIDCSession_IssuedAt = zero_time, OIDCSession_ExpiresAt = ?issued + 5 * minute, OIDCSession_RevokedAt = None\<rparr>"
  from run obtain raw1 raw2 idt c w2 where ser: "pv_Serialize p (token_claims p stored u du sub client ?issued (RawURL_encode raw1)) = Some idt"
    and con: "ConsumeOIDCCodeWithSessionAudit hash client uri now (?ses raw1 raw2) (remoteIP r) (tick (tick (tick w1))) = (Inr c, w2)"
    and b: "tr_access_token b = RawURL_encode raw2" "tr_id_token b = idt" "tr_scope b = od_scope stored" and s': "wd s' = w2"
    by (auto simp: http_simps oauthError_def oidc_audit_def Let_def rand_m_Inr split: option.splits if_splits)
  have "oidc_codes (tb w1) = oidc_codes (tb (wd s))" by (rule ensure_subject_codes [OF ens])
  with redeemed_code [OF con] assms(2) have "c = stored" by simp
  with redeemed_session_bound_to_code [OF con] have "token_session stored b ?issued (tb (wd s'))"
    by (auto simp: token_session_def redeemable_def b s')
  moreover have "request_time s ?issued" using steadyD [OF steady_oidc(1) ens] by (auto simp: request_time_def)
  ultimately show thesis using that ser b(2,3) by simp
qed

lemma token_returns:
  assumes "token p r s = (Json n (TokenIssued b), s')"
  obtains c now issued u du sub sid k where "client_authenticated p r s" "c \<in> set (oidc_codes (tb (wd s)))" "request_time s now"
    "redeemable (token_hash (FormValue r ''code'')) (fst (credentials r)) (FormValue r ''redirect_uri'') now c"
    "pkce_ok (FormValue r ''code_verifier'') (od_code_challenge c)" "u \<in> set (users (tb (wd s)))" "usr_id u = od_user_id c"
    "GetDirectoryUser (pv_dir p) k (usr_username u) = Inr du" "request_time s issued" "token_session c b issued (tb (wd s'))"
    "pv_Serialize p (token_claims p c (scanSQLiteUser u) du sub (od_client_id c) issued sid) = Some (tr_id_token b)"
    "tr_scope b = od_scope c"
proof -
  let ?hash = "token_hash (FormValue r ''code'')" and ?uri = "FormValue r ''redirect_uri''" and ?c = "fst (credentials r)"
  obtain ok lim where lim: "allowed (''oidc-token:'' @ remoteIP r) s = (ok, lim)" by (rule prod.exhaust)
  have wl: "wd lim = tick (wd s)" using allowed_frame(2) [of "''oidc-token:'' @ remoteIP r" s] unfolding lim by (simp only: snd_conv)
  have deny: "\<not> (oidc_audit r e u c f d (oauthError x m) s1 = (Json n (TokenIssued b), s'))"
    "\<not> (consumeDeniedCode r h c v t d s1 = (Json n (TokenIssued b), s'))" "\<not> (oauthError x m s1 = (Json n (TokenIssued b), s'))"
    for e u c f d x m h v t and s1 :: srv
    by (auto simp: oidc_audit_def oauthError_def consumeDeniedCode_def http_simps)
  let ?k = "\<lambda>clientID ok.
       if \<not> ok then oidc_audit r ''oidc_token_denied'' [] clientID False ''invalid_client'' (oauthError ''invalid_client'' 401)
       else let codeHash = ?hash; redirectURI = ?uri in
       with_now (\<lambda>exchangeTime.
       call (OIDCCodeForExchange codeHash clientID redirectURI exchangeTime)
         (\<lambda>_. oidc_audit r ''oidc_token_denied'' [] clientID False ''invalid_grant'' (oauthError ''invalid_grant'' 400))
         (\<lambda>stored. let deny = consumeDeniedCode r codeHash clientID redirectURI exchangeTime in
          if \<not> pkce_ok (FormValue r ''code_verifier'') (od_code_challenge stored) then deny ''pkce_failed''
          else call (GetUser (od_user_id stored)) (\<lambda>_. deny ''user_unavailable'') (\<lambda>u.
            consult (\<lambda>n. GetDirectoryUser (pv_dir p) n (User_Username u)) (\<lambda>found. case found of
              Inl _ \<Rightarrow> deny ''user_inactive''
            | Inr du \<Rightarrow> issue_token p r codeHash clientID redirectURI exchangeTime stored u du))))"
  from assms lim deny(3) have "authenticateClient p r ?k lim = (Json n (TokenIssued b), s')"
    by (auto simp: token_def asks_def Let_def split: if_splits)
  then obtain ok' s1 where k: "?k ?c ok' s1 = (Json n (TokenIssued b), s')" and s1: "tb (wd s1) = tb (wd s)" "later s s1"
    and auth: "ok' \<Longrightarrow> client_authenticated p r s"
    using wl by (elim authenticateClient_returns) (auto simp: client_authenticated_def later_def)
  have ok' by (rule ccontr) (use k deny(1) in simp)
  let ?now = "clock (wd s1) (steps (wd s1))" and ?w2 = "tick (tick (wd s1))"
  from k \<open>ok'\<close> deny obtain c usr where sel: "OIDCCodeForExchange ?hash ?c ?uri ?now (tick (wd s1)) = (Inr c, ?w2)"
    and pkce: "pkce_ok (FormValue r ''code_verifier'') (od_code_challenge c)"
    and usr: "GetUser (od_user_id c) ?w2 = (Inr usr, tick ?w2)"
    and ask: "(case GetDirectoryUser (pv_dir p) (steps (tick ?w2)) (User_Username usr) of
        Inl _ \<Rightarrow> consumeDeniedCode r ?hash ?c ?uri ?now ''user_inactive''
      | Inr du \<Rightarrow> issue_token p r ?hash ?c ?uri ?now c usr du) (s1\<lparr>wd := tick (tick ?w2)\<rparr>) = (Json n (TokenIssued b), s')"
    by (auto simp: with_now_iff call_iff Let_def consult_iff if_handler_iff OIDCCodeForExchange_def select_code_def GetUser_def
        query_row_Inr)
  from ask deny(2) obtain du where du: "GetDirectoryUser (pv_dir p) (steps (tick ?w2)) (User_Username usr) = Inr du"
    and iss: "issue_token p r ?hash ?c ?uri ?now c usr du (s1\<lparr>wd := tick (tick ?w2)\<rparr>) = (Json n (TokenIssued b), s')"
    by (cases "GetDirectoryUser (pv_dir p) (steps (tick ?w2)) (User_Username usr)") auto
  from sel obtain rest where rest: "filter (redeemable ?hash ?c ?uri ?now) (oidc_codes (tb (wd s))) = c # rest"
    by (auto simp: OIDCCodeForExchange_def select_code_def query_row_Inr s1)
  from usr obtain u where u: "u \<in> set (users (tb (wd s)))" "usr_id u = od_user_id c" "usr = scanSQLiteUser u"
    by (auto simp: GetUser_def query_row_Inr s1 dest!: map_filter_Cons_mem)
  from iss obtain issued sub sid where it: "request_time (s1\<lparr>wd := tick (tick ?w2)\<rparr>) issued" "token_session c b issued (tb (wd s'))"
    "pv_Serialize p (token_claims p c usr du sub ?c issued sid) = Some (tr_id_token b)" "tr_scope b = od_scope c"
    by (rule issue_token_returns) (use rest s1 in simp_all)
  have "later s (s1\<lparr>wd := tick (tick ?w2)\<rparr>)" using s1(2) by (simp add: later_def)
  with it(1) have rt: "request_time s issued" by (rule later_request_time [rotated])
  have c: "c \<in> set (oidc_codes (tb (wd s)))" "redeemable ?hash ?c ?uri ?now c" using filter_eq_Cons_mem [OF rest] by blast+
  show thesis
  proof (rule that [of c ?now u "steps (tick ?w2)" du issued sub sid])
    show "client_authenticated p r s" using auth \<open>ok'\<close> by blast
    show "request_time s ?now" by (rule later_request_time [OF s1(2) request_time_now])
    show "GetDirectoryUser (pv_dir p) (steps (tick ?w2)) (usr_username u) = Inr du" using du u(3) by (simp add: scanSQLiteUser_def)
    show "pv_Serialize p (token_claims p c (scanSQLiteUser u) du sub (od_client_id c) issued sid) = Some (tr_id_token b)"
      using it(3) u(3) c(2) by (simp add: redeemable_def)
  qed (fact c pkce u(1,2) rt it(2,4))+
qed

section \<open>Runs of the provider\<close>

text \<open>
  Requests to the four endpoints, interleaved with any other operation on the OpenID Connect tables.
  A run records for each event its answer and the states before and after.
\<close>

datatype provider_event = Authorize request | Token request | Introspect request | RevokeToken request | StoreOp oidc_op

fun provide :: "'url Provider \<Rightarrow> provider_event \<Rightarrow> srv \<Rightarrow> oidc_body response option \<times> srv" where
  "provide p (Authorize r) s = map_prod Some id (authorize p r s)"
| "provide p (Token r) s = map_prod Some id (token p r s)"
| "provide p (Introspect r) s = map_prod Some id (introspect p r s)"
| "provide p (RevokeToken r) s = map_prod Some id (revoke p r s)"
| "provide p (StoreOp op) s = (None, s\<lparr>wd := snd (oidc_step op (wd s))\<rparr>)"

type_synonym provider_record = "provider_event \<times> oidc_body response option \<times> srv \<times> srv"

fun provide_all :: "'url Provider \<Rightarrow> provider_event list \<Rightarrow> srv \<Rightarrow> provider_record list" where
  "provide_all p [] s = []"
| "provide_all p (e # es) s = (case provide p e s of (a, s') \<Rightarrow> (e, a, s, s') # provide_all p es s')"

fun stores_code :: "provider_event \<Rightarrow> bool" where
  "stores_code (StoreOp (OpCreateCode c)) = True"
| "stores_code (StoreOp (OpCreateCodeWithAudit c n ip)) = True"
| "stores_code _ = False"

lemma store_op_codes: "\<not> stores_code (StoreOp op) \<Longrightarrow> issues_only N (oidc_step op)"
  by (cases op) (simp_all add: oidc_op_defs origins.keeps_intros split: prod.splits)

lemma provide_codes:
  assumes "provide p e s = (a, s')" "\<not> stores_code e"
  shows "\<exists>N. codes_from N (tb (wd s)) (tb (wd s')) \<and> (\<forall>c \<in> N. \<exists>r. e = Authorize r \<and> signed_in p r s s' c)"
proof (cases e)
  case (Authorize r)
  then obtain x where "authorize p r s = (x, s')" using assms(1) by (auto simp: map_prod_def split: prod.splits)
  from authorize_codes [OF this] Authorize show ?thesis by blast
next
  case (StoreOp op)
  obtain x w where run: "oidc_step op (wd s) = (x, w)" by (rule prod.exhaust)
  with StoreOp assms(1) have "wd s' = w" by auto
  with keepsD [OF store_op_codes [of op "{}"] _ run] assms(2) StoreOp show ?thesis by auto
next
  case (Token r)
  then have "token p r s = (the a, s')" using assms(1) by (auto simp: map_prod_def split: prod.splits)
  from upholdsD [OF other_endpoints_issue_nothing(1) [of "{}"] _ this] show ?thesis by blast
next
  case (Introspect r)
  then have "introspect p r s = (the a, s')" using assms(1) by (auto simp: map_prod_def split: prod.splits)
  from upholdsD [OF other_endpoints_issue_nothing(2) [of "{}"] _ this] show ?thesis by blast
next
  case (RevokeToken r)
  then have "revoke p r s = (the a, s')" using assms(1) by (auto simp: map_prod_def split: prod.splits)
  from upholdsD [OF other_endpoints_issue_nothing(3) [of "{}"] _ this] show ?thesis by blast
qed

lemma code_origin:
  assumes "i < length (provide_all p es s)" "provide_all p es s ! i = (e, a, si, si')" "c \<in> set (oidc_codes (tb (wd si)))"
    "\<forall>e \<in> set es. \<not> stores_code e"
  shows "as_issued c \<in> as_issued ` set (oidc_codes (tb (wd s))) \<or>
    (\<exists>j < i. \<exists>r x sj sj' c'. provide_all p es s ! j = (Authorize r, x, sj, sj') \<and> signed_in p r sj sj' c' \<and> as_issued c' = as_issued c)"
  using assms
proof (induction es arbitrary: s i)
  case (Cons e0 es)
  obtain a0 s1 where run: "provide p e0 s = (a0, s1)" by (rule prod.exhaust)
  show ?case
  proof (cases i)
    case 0
    with Cons.prems(2,3) run show ?thesis by auto
  next
    case (Suc k)
    from Cons.prems run Suc have "as_issued c \<in> as_issued ` set (oidc_codes (tb (wd s1))) \<or>
      (\<exists>j < k. \<exists>r x sj sj' c'. provide_all p es s1 ! j = (Authorize r, x, sj, sj') \<and> signed_in p r sj sj' c' \<and> as_issued c' = as_issued c)"
      by (intro Cons.IH) auto
    then show ?thesis
    proof
      assume c: "as_issued c \<in> as_issued ` set (oidc_codes (tb (wd s1)))"
      from provide_codes [OF run] Cons.prems(4) obtain N where N: "codes_from N (tb (wd s)) (tb (wd s1))"
        "\<forall>c \<in> N. \<exists>r. e0 = Authorize r \<and> signed_in p r s s1 c" by auto
      with c consider "as_issued c \<in> as_issued ` set (oidc_codes (tb (wd s)))" | c' where "c' \<in> N" "as_issued c' = as_issued c"
        unfolding codes_from_def by (metis (no_types, lifting) UnE image_iff subset_iff)
      then show ?thesis
      proof cases
        case 2
        with N(2) obtain r where "e0 = Authorize r" "signed_in p r s s1 c'" by blast
        with 2(2) run Suc show ?thesis by (intro disjI2 exI [of _ 0]) auto
      qed simp
    next
      assume "\<exists>j < k. \<exists>r x sj sj' c'. provide_all p es s1 ! j = (Authorize r, x, sj, sj') \<and> signed_in p r sj sj' c' \<and> as_issued c' = as_issued c"
      then obtain j where "j < k" "\<exists>r x sj sj' c'. provide_all p es s1 ! j = (Authorize r, x, sj, sj') \<and> signed_in p r sj sj' c' \<and> as_issued c' = as_issued c"
        by blast
      with run Suc show ?thesis by (intro disjI2 exI [of _ "Suc j"]) simp
    qed
  qed
qed simp

end
