(* ===== verification/Oidc_Runs.thy ===== *)
theory Oidc_Runs
  imports Oidc_Flow
begin

text \<open>
  Runs of the OpenID Connect provider: every token traces back to a sign-in, revoked tokens stay
  inactive, and password guessing is bounded.
\<close>

section \<open>From sign-in to token\<close>

lemma provide_all_nth:
  "i < length (provide_all p es s) \<Longrightarrow> provide_all p es s ! i = (e, a, si, si') \<Longrightarrow> provide p e si = (a, si')"
proof (induction es arbitrary: s i)
  case (Cons e0 es)
  obtain a0 s1 where run: "provide p e0 s = (a0, s1)" by (rule prod.exhaust)
  with Cons show ?case by (cases i) auto
qed simp


section \<open>Introspection and revocation\<close>

text \<open>The client has no live session for the token.\<close>

definition token_dead_for :: "string \<Rightarrow> string \<Rightarrow> tables \<Rightarrow> bool" where
  "token_dead_for h client t \<longleftrightarrow>
     (\<forall>ses \<in> set (oidc_sessions t). os_access_token_hash ses = h \<and> os_client_id ses = client \<longrightarrow> os_revoked_at ses \<noteq> None)"

definition stays_dead :: "string \<Rightarrow> string \<Rightarrow> tables \<Rightarrow> tables \<Rightarrow> bool" where
  "stays_dead h client t t' \<longleftrightarrow> (token_dead_for h client t \<longrightarrow> token_dead_for h client t')"

interpretation dead: table_contract "\<lambda>_. True" "stays_dead h c" for h c
  by unfold_locales (auto simp: stays_dead_def)

abbreviation revives_nothing :: "string \<Rightarrow> string \<Rightarrow> 'a dbm \<Rightarrow> bool" where
  "revives_nothing h c \<equiv> keeps (\<lambda>_. True) (stays_dead h c)"

lemma revives_nothing_reads [simp]:
  "revives_nothing h c (query_row q)" "revives_nothing h c (query_all q')" "revives_nothing h c (ensure b e)"
  "revives_nothing h c (ret a)" "revives_nothing h c (one_row r)" "revives_nothing h c (one_row_or e r)"
  "revives_nothing h c (RowsAffected r)" "revives_nothing h c now_m" "revives_nothing h c rand_m" "revives_nothing h c (LastInsertId i)"
  by (auto intro!: dead.keeps_read_only atomic_intros)

lemma revives_nothing_writes [simp]:
  "revives_nothing h c (exec (insert_audit a))" "revives_nothing h c (exec delete_expired_codes)"
  "revives_nothing h c (exec (insert_oidc_code code))" "revives_nothing h c (exec (insert_user u d dn))"
  "revives_nothing h c (exec (consume_oidc_code hash now))" "revives_nothing h c (exec (delete_old_oidc_sessions now))"
  "revives_nothing h c (exec (revoke_oidc_sessions P f))" "revives_nothing h c (exec (update_oidc_clients Q g))"
  "revives_nothing h c (exec (insert_oidc_client i se r sc))" "revives_nothing h c (exec (upsert_oidc_client i se r sc))"
  "revives_nothing h c (exec (set_subject userID sub))"
  "os_access_token_hash ses \<noteq> h \<Longrightarrow> revives_nothing h c (exec (insert_oidc_session ses))"
  by (rule dead.keeps_exec, rule keeps_stmtI,
      auto simp: stays_dead_def token_dead_for_def insert_audit_def delete_expired_codes_def insert_oidc_code_def insert_user_def
        consume_oidc_code_def delete_old_oidc_sessions_def revoke_oidc_sessions_def update_oidc_clients_def insert_oidc_client_def
        upsert_oidc_client_def set_subject_def update_users_def insert_oidc_session_def set_update_where Let_def split: if_splits)+

lemma store_revives_nothing: "\<not> issues_token op h \<Longrightarrow> revives_nothing h c (oidc_step op)"
  by (cases op) (simp_all add: oidc_op_defs issues_token_def dead.keeps_intros split: prod.splits)

lemma revives_nothing_store [simp]:
  "revives_nothing h c (EnsureOIDCSubjectWithAudit u ip)" "revives_nothing h c (WriteAudit e)" "revives_nothing h c (UserByUsername n)"
  "revives_nothing h c (CreateUserWithAudit n d dn ev ip)" "revives_nothing h c (OIDCClientByID i)" "revives_nothing h c (GetUser u)"
  "revives_nothing h c (OIDCCodeForExchange hash cl uri now)" "revives_nothing h c (ConsumeOIDCCodeDenialWithAudit hash cl uri now ip reason)"
  "OIDCSession_AccessTokenHash s \<noteq> h \<Longrightarrow> revives_nothing h c (ConsumeOIDCCodeWithSessionAudit hash cl uri now s ip)"
  "revives_nothing h c (OIDCSessionByTokenHash hash cl now)" "revives_nothing h c (RevokeOIDCSessionByTokenHashWithAudit hash cl ip)"
  "revives_nothing h c (CreateOIDCCodeWithAudit code n ip)"
  by (simp_all add: oidc_op_defs WriteAudit_def UserByUsername_def CreateUserWithAudit_def OIDCClientByID_def GetUser_def
      OIDCCodeForExchange_def OIDCSessionByTokenHash_def dead.keeps_intros split: prod.splits)

text \<open>Answers that do not hand out the token with the given hash.\<close>

definition mints :: "string \<Rightarrow> oidc_body response \<Rightarrow> bool" where
  "mints h resp = (case resp of Json n (TokenIssued b) \<Rightarrow> token_hash (tr_access_token b) = h | _ \<Rightarrow> False)"

abbreviation harmless :: "(oidc_body response \<Rightarrow> bool) \<Rightarrow> string \<Rightarrow> string \<Rightarrow> oidc_body handler \<Rightarrow> bool" where
  "harmless P h c \<equiv> upholds P (\<lambda>_. True) (stays_dead h c)"

lemma harmless_parts:
  "harmless P h c (oauthError code n)"
  "harmless P h c k \<Longrightarrow> harmless P h c (oidc_audit r e u cl b d k)"
  "harmless P h c (consumeDeniedCode r hash cl uri now reason)"
  "(\<And>i b. harmless P h c (k' i b)) \<Longrightarrow> harmless P h c (authenticateClient p r k')"
  "(\<And>a e. harmless P h c (k'' a e)) \<Longrightarrow> harmless P h c (validate r k'')"
  "harmless P h c (redirect_with_code p a cd)" "harmless P h c (sign_in_page p a)"
  "harmless P h c (issue_code p r a usr)"
  unfolding oauthError_def oidc_audit_def consumeDeniedCode_def authenticateClient_def validate_def redirect_with_code_def
    sign_in_page_def issue_code_def Let_def
  by (auto intro!: dead.upholds_intros split: prod.splits option.splits)

lemma harmless_endpoints:
  "harmless P h c (authorize p r)" "harmless P h c (introspect p r)" "harmless P h c (revoke p r)"
  unfolding authorize_def sign_in_def introspect_def revoke_def Let_def
  by (auto intro!: dead.upholds_intros harmless_parts split: sum.splits option.splits)

lemma issue_token_harmless: "harmless (\<lambda>resp. \<not> mints h resp) h c (issue_token p r hash cl uri now stored u du)"
proof -
  have leaf: "harmless (\<lambda>resp. \<not> mints h resp) h c (call (ConsumeOIDCCodeWithSessionAudit hash cl uri now ses ip)
      (\<lambda>e. if e = ErrNoRows then oidc_audit r ev n c' ok d (oauthError x st) else oauthError y st')
      (\<lambda>_. reply (Json 200 (TokenIssued b))))" if "OIDCSession_AccessTokenHash ses = token_hash (tr_access_token b)"
    for ses ip ev n c' ok d x st y st' b
  proof (cases "token_hash (tr_access_token b) = h")
    case False
    with that show ?thesis by (auto intro!: dead.upholds_intros harmless_parts)
  next
    case True
    have "atomic (ConsumeOIDCCodeWithSessionAudit hash cl uri now ses ip)"
      unfolding ConsumeOIDCCodeWithSessionAudit_def validateAuditIP_def by (intro atomic_intros)
    then have same: "tb w' = tb w" if "ConsumeOIDCCodeWithSessionAudit hash cl uri now ses ip w = (Inl e, w')" for w e w'
      using that atomicD by blast
    have err: "harmless (\<lambda>resp. \<not> mints h resp) h c (if e = ErrNoRows then oidc_audit r ev n c' ok d (oauthError x st) else oauthError y st')" for e
      by (auto intro!: harmless_parts)
    show ?thesis
      unfolding upholds_def
    proof (intro allI impI)
      fix s resp s'
      assume run: "call (ConsumeOIDCCodeWithSessionAudit hash cl uri now ses ip)
          (\<lambda>e. if e = ErrNoRows then oidc_audit r ev n c' ok d (oauthError x st) else oauthError y st')
          (\<lambda>_. reply (Json 200 (TokenIssued b))) s = (resp, s')" and quiet: "\<not> mints h resp"
      from run consider e w where "ConsumeOIDCCodeWithSessionAudit hash cl uri now ses ip (wd s) = (Inl e, w)"
          "(if e = ErrNoRows then oidc_audit r ev n c' ok d (oauthError x st) else oauthError y st') (s\<lparr>wd := w\<rparr>) = (resp, s')"
        | "resp = Json 200 (TokenIssued b)"
        by (auto simp: call_iff reply_iff)
      then show "stays_dead h c (tb (wd s)) (tb (wd s'))"
      proof cases
        case (1 e w)
        from upholdsD [OF err _ 1(2) quiet] same [OF 1(1)] show ?thesis by simp
      next
        case 2
        with True quiet show ?thesis by (simp add: mints_def)
      qed
    qed
  qed
  show ?thesis
    unfolding issue_token_def Let_def
    by (auto intro!: dead.upholds_reply dead.upholds_with_now dead.upholds_call harmless_parts leaf split: option.splits)
qed

lemma token_harmless: "harmless (\<lambda>resp. \<not> mints h resp) h c (token p r)"
  unfolding token_def Let_def
  by (auto intro!: dead.upholds_intros harmless_parts issue_token_harmless split: sum.splits)

lemma introspect_returns:
  assumes "introspect p r s = (Json n (Active x), s')"
  obtains w now ses w' where "client_authenticated p r s" "tb w = tb (wd s)" "request_time s now"
    "OIDCSessionByTokenHash (token_hash (FormValue r ''token'')) (fst (credentials r)) now w = (Inr ses, w')"
    "x = introspection_of ses"
proof -
  let ?key = "''oidc-client-api:'' @ remoteIP r"
  obtain ok lim where lim: "allowedLimit ?key 600 s = (ok, lim)" by (rule prod.exhaust)
  have wl: "wd lim = tick (wd s)" using allowed_frame(1) [of ?key 600 s] unfolding lim by (simp only: snd_conv)
  let ?k = "\<lambda>clientID ok. if \<not> ok then oauthError ''invalid_client'' 401
       else with_now (\<lambda>now. call (OIDCSessionByTokenHash (token_hash (FormValue r ''token'')) clientID now)
         (\<lambda>_. reply (Json 200 Inactive)) (\<lambda>session. reply (Json 200 (Active (introspection_of session)))))"
  from assms lim have "authenticateClient p r ?k lim = (Json n (Active x), s')"
    by (auto simp: introspect_def asks_def oauthError_def reply_def split: if_splits)
  then obtain ok' s1 where k: "?k (fst (credentials r)) ok' s1 = (Json n (Active x), s')" and s1: "tb (wd s1) = tb (wd s)" "later s s1"
    and auth: "ok' \<Longrightarrow> client_authenticated p r s"
    using wl by (elim authenticateClient_returns) (auto simp: client_authenticated_def later_def)
  from k have ok' by (auto simp: oauthError_def reply_def split: if_splits)
  with k obtain ses w' where "OIDCSessionByTokenHash (token_hash (FormValue r ''token'')) (fst (credentials r))
      (clock (wd s1) (steps (wd s1))) (tick (wd s1)) = (Inr ses, w')" "x = introspection_of ses"
    by (auto simp: http_simps)
  with that [of "tick (wd s1)"] s1 auth \<open>ok'\<close> later_request_time [OF s1(2) request_time_now] show thesis by simp
qed

text \<open>Over runs: an event that hands out the token, and the death of a token through the rest of a run.\<close>

fun hands_out :: "string \<Rightarrow> provider_record \<Rightarrow> bool" where
  "hands_out h (Token r, Some a, s, s') = mints h a"
| "hands_out h (StoreOp op, a, s, s') = issues_token op h"
| "hands_out h _ = False"

lemma provide_keeps_dead:
  assumes "provide p e s = (a, s')" "\<not> hands_out h (e, a, s, s')" "token_dead_for h c (tb (wd s))"
  shows "token_dead_for h c (tb (wd s'))"
proof -
  have "stays_dead h c (tb (wd s)) (tb (wd s'))"
  proof (cases e)
    case (Authorize r)
    then have run: "authorize p r s = (the a, s')" using assms(1) by (auto simp: map_prod_def split: prod.splits)
    from upholdsD [OF harmless_endpoints(1) [of "\<lambda>_. True"] _ run] show ?thesis by simp
  next
    case (Token r)
    then have run: "token p r s = (the a, s')" and a: "a = Some (the a)" using assms(1) by (auto simp: map_prod_def split: prod.splits)
    from assms(2) have "\<not> mints h (the a)" unfolding Token by (subst (asm) a) simp
    from upholdsD [OF token_harmless _ run this] show ?thesis by simp
  next
    case (StoreOp op)
    obtain x w where run: "oidc_step op (wd s) = (x, w)" by (rule prod.exhaust)
    with StoreOp assms(1) have "wd s' = w" by auto
    with keepsD [OF store_revives_nothing _ run] assms(2) StoreOp show ?thesis by auto
  next
    case (Introspect r)
    then have run: "introspect p r s = (the a, s')" using assms(1) by (auto simp: map_prod_def split: prod.splits)
    from upholdsD [OF harmless_endpoints(2) [of "\<lambda>_. True"] _ run] show ?thesis by simp
  next
    case (RevokeToken r)
    then have run: "revoke p r s = (the a, s')" using assms(1) by (auto simp: map_prod_def split: prod.splits)
    from upholdsD [OF harmless_endpoints(3) [of "\<lambda>_. True"] _ run] show ?thesis by simp
  qed
  with assms(3) show ?thesis by (simp add: stays_dead_def)
qed

lemma dead_through_run:
  assumes "token_dead_for h c (tb (wd s))" "\<forall>x \<in> set (provide_all p es s). \<not> hands_out h x" "(e, a, si, si') \<in> set (provide_all p es s)"
  shows "token_dead_for h c (tb (wd si)) \<and> provide p e si = (a, si')"
  using assms
proof (induction es arbitrary: s)
  case (Cons e0 es)
  obtain a0 s1 where run: "provide p e0 s = (a0, s1)" by (rule prod.exhaust)
  with Cons.prems have "token_dead_for h c (tb (wd s1))" by (intro provide_keeps_dead [OF run]) auto
  with Cons.prems Cons.IH [of s1] run show ?case by auto
qed simp

text \<open>A revocation that finds no row: without failures of the database there was nothing to revoke.\<close>

lemma nothing_to_revoke:
  assumes inv: "oidc_inv (tb w)" and ff: "fault_free w" and P: "\<And>ses. P ses \<Longrightarrow> os_access_token_hash ses = h"
    and run: "revokeOIDCSessionWithAudit P ip reason w = (Inl ErrNoRows, w')"
  shows "tb w' = tb w" "\<forall>ses \<in> set (oidc_sessions (tb w)). P ses \<longrightarrow> os_revoked_at ses \<noteq> None"
proof -
  have "atomic (revokeOIDCSessionWithAudit P ip reason)"
    unfolding revokeOIDCSessionWithAudit_def validateAuditIP_def by (intro atomic_intros)
  with run show "tb w' = tb w" using atomicD by blast
  let ?t = "tb w"
  have d: "distinct (map os_access_token_hash (oidc_sessions ?t))" and fk: "\<forall>ses \<in> set (oidc_sessions ?t). os_user_id ses \<in> usr_id ` set (users ?t)"
    using inv by (auto simp: oidc_inv_def ok_oidc_sessions_def)
  have "\<not> (P ses \<and> os_revoked_at ses = None)" if ses: "ses \<in> set (oidc_sessions ?t)" for ses
  proof
    assume live: "P ses \<and> os_revoked_at ses = None"
    let ?q = "[(os_session_id s, usr_username u, os_client_id s). s \<leftarrow> oidc_sessions ?t, u \<leftarrow> users ?t,
        usr_id u = os_user_id s \<and> P s \<and> os_revoked_at s = None]"
    obtain u where "u \<in> set (users ?t)" "usr_id u = os_user_id ses" using fk ses by auto
    with ses live have "(os_session_id ses, usr_username u, os_client_id ses) \<in> set ?q" by force
    then obtain row rest where q: "?q = row # rest" by (cases ?q) auto
    have "count_where (\<lambda>s. P s \<and> os_revoked_at s = None) (oidc_sessions ?t) = 1"
    proof -
      have "(\<lambda>s. P s \<and> os_revoked_at s = None) = (\<lambda>s. os_access_token_hash s = h \<and> (P s \<and> os_revoked_at s = None))" using P by auto
      moreover have "count_where (\<lambda>s. os_access_token_hash s = h \<and> (P s \<and> os_revoked_at s = None)) (oidc_sessions ?t) = 1"
        using live P ses by (subst count_key_eq1_iff [OF d]) auto
      ultimately show ?thesis by simp
    qed
    with run ff q show False
      by (auto simp: revokeOIDCSessionWithAudit_def validateAuditIP_def run_defs tx_def query_row_def exec_def one_row_def
          RowsAffected_def revoke_oidc_sessions_def insert_audit_def
          now_m_def Let_def split: prod.splits option.splits if_splits)
  qed
  then show "\<forall>ses \<in> set (oidc_sessions ?t). P ses \<longrightarrow> os_revoked_at ses \<noteq> None" by auto
qed

text \<open>
  What a successful revocation request leaves, when the database does not fail: no live session.
\<close>

lemma revoke_kills:
  assumes "oidc_inv (tb (wd s))" "fault_free (wd s)" "revoke p r s = (Json 200 Revoked, s')"
  shows "token_dead_for (token_hash (FormValue r ''token'')) (fst (credentials r)) (tb (wd s'))"
proof -
  let ?key = "''oidc-client-api:'' @ remoteIP r" and ?h = "token_hash (FormValue r ''token'')" and ?c = "fst (credentials r)"
  obtain ok lim where lim: "allowedLimit ?key 600 s = (ok, lim)" by (rule prod.exhaust)
  have wl: "wd lim = tick (wd s)" using allowed_frame(1) [of ?key 600 s] unfolding lim by (simp only: snd_conv)
  let ?k = "\<lambda>clientID ok. if \<not> ok then oauthError ''invalid_client'' 401
       else call (RevokeOIDCSessionByTokenHashWithAudit ?h clientID (remoteIP r))
         (\<lambda>e. if e \<noteq> ErrNoRows then oauthError ''temporarily_unavailable'' 503 else reply (Json 200 Revoked))
         (\<lambda>_. reply (Json 200 Revoked))"
  from assms(3) lim have "authenticateClient p r ?k lim = (Json 200 Revoked, s')"
    by (auto simp: revoke_def asks_def oauthError_def reply_def split: if_splits)
  then obtain x where run: "RevokeOIDCSessionByTokenHashWithAudit ?h ?c (remoteIP r) (tick (tick (wd s))) = (x, wd s')"
    and x: "x = Inl ErrNoRows \<or> x = Inr ()"
    by (auto simp: authenticateClient_def call_iff oauthError_def reply_iff if_handler_iff OIDCClientByID_def query_row_Inr wl
        split: prod.splits)
  note run = run [unfolded RevokeOIDCSessionByTokenHashWithAudit_def]
  from x show ?thesis
  proof
    assume "x = Inr ()"
    with revokeOIDCSession_returns [of _ "remoteIP r" _ _ "()"] run show ?thesis
      by (fastforce simp: token_dead_for_def set_update_where)
  next
    assume "x = Inl ErrNoRows"
    with nothing_to_revoke [OF _ _ _ run [unfolded \<open>x = _\<close>], of ?h] assms(1,2) show ?thesis
      by (auto simp: token_dead_for_def)
  qed
qed


section \<open>Guessing passwords\<close>

text \<open>A handler that leaves the table of attempts alone and only moves forward in time.\<close>

definition unlimited :: "'b handler \<Rightarrow> bool" where
  "unlimited h \<longleftrightarrow> (\<forall>s r s'. h s = (r, s') \<longrightarrow> oidcAttempts s' = oidcAttempts s \<and> later s s')"

lemma unlimitedD: "unlimited h \<Longrightarrow> h s = (r, s') \<Longrightarrow> oidcAttempts s' = oidcAttempts s \<and> later s s'"
  by (simp add: unlimited_def)

lemma unlimited_reply: "unlimited (reply x)"
  by (simp add: unlimited_def http_simps)

lemma later_tick: "later (s\<lparr>wd := tick (wd s)\<rparr>) s' \<Longrightarrow> later s s'"
  by (simp add: later_def)

lemma unlimited_with_now: "(\<And>t. unlimited (k t)) \<Longrightarrow> unlimited (with_now k)"
  unfolding unlimited_def with_now_iff by (metis later_tick srv.select_convs(5) srv.surjective srv.update_convs(1))

lemma unlimited_consult: "(\<And>a. unlimited (k a)) \<Longrightarrow> unlimited (consult f k)"
  unfolding unlimited_def consult_iff by (metis later_tick srv.select_convs(5) srv.surjective srv.update_convs(1))

lemma unlimited_call:
  assumes "steady m" "\<And>e. unlimited (f e)" "\<And>a. unlimited (k a)"
  shows "unlimited (call m f k)"
  unfolding unlimited_def
proof (intro allI impI)
  fix s r s'
  assume run: "call m f k s = (r, s')"
  obtain x w where m: "m (wd s) = (x, w)" by (rule prod.exhaust)
  have l: "later s (s\<lparr>wd := w\<rparr>)" using steadyD [OF assms(1) m] by (simp add: later_def)
  from run m obtain h where "unlimited h" "h (s\<lparr>wd := w\<rparr>) = (r, s')"
    using assms(2,3) by (cases x) (auto simp: call_def)
  from unlimitedD [OF this] l show "oidcAttempts s' = oidcAttempts s \<and> later s s'" by (auto intro: later_trans)
qed

lemmas unlimited_intros = unlimited_reply unlimited_with_now unlimited_consult unlimited_call

lemma steady_oidc_more [steady_intros]:
  "steady (WriteAudit e)" "steady (OIDCSessionByTokenHash h c now)" "steady (RevokeOIDCSessionByTokenHashWithAudit h c ip)"
  unfolding oidc_op_defs WriteAudit_def OIDCSessionByTokenHash_def
  by (auto intro!: steady_intros split: prod.splits)

lemma unlimited_parts:
  "unlimited (oauthError c n)" "unlimited h \<Longrightarrow> unlimited (oidc_audit r e u cl b d h)"
  "unlimited (consumeDeniedCode r hash cl uri now reason)"
  "(\<And>i b. unlimited (k i b)) \<Longrightarrow> unlimited (authenticateClient p r k)"
  "unlimited (redirect_with_code p a cd)" "unlimited (sign_in_page p a)" "unlimited (issue_code p r a usr)"
  "unlimited (issue_token p r hash cl uri now stored usr du)"
  unfolding oauthError_def oidc_audit_def consumeDeniedCode_def authenticateClient_def redirect_with_code_def sign_in_page_def
    issue_code_def issue_token_def Let_def
  by (auto intro!: unlimited_intros steady_intros split: prod.splits option.splits)

lemma steady_one_row_or [steady_intros]: "steady (one_row_or e r)"
  by (auto simp: steady_def one_row_or_def RowsAffected_def)

lemma steady_oidc_step: "steady (oidc_step op)"
  by (cases op) (auto simp: oidc_op_defs intro!: steady_intros split: prod.splits)

text \<open>
  What a request does to the table: nothing, or one check of the limiter.  A request is turned down
  before its password is looked at when the answer satisfies \<open>refused\<close>.
\<close>

definition limited :: "string \<Rightarrow> ('b response \<Rightarrow> bool) \<Rightarrow> 'b handler \<Rightarrow> bool" where
  "limited k refused h \<longleftrightarrow> (\<forall>s r s'. h s = (r, s') \<longrightarrow>
     refused r \<and> oidcAttempts s' = oidcAttempts s \<and> later s s' \<or>
     (\<exists>s1 s2 ok. later s s1 \<and> oidcAttempts s1 = oidcAttempts s \<and> allowed k s1 = (ok, s2) \<and>
        oidcAttempts s' = oidcAttempts s2 \<and> later s2 s' \<and> (refused r \<or> ok)))"

lemma limited_cases:
  assumes "limited k refused h" "h s = (r, s')"
  obtains "refused r" "oidcAttempts s' = oidcAttempts s" "later s s'"
  | s1 s2 ok where "later s s1" "oidcAttempts s1 = oidcAttempts s" "allowed k s1 = (ok, s2)" "oidcAttempts s' = oidcAttempts s2"
      "later s2 s'" "refused r \<or> ok"
  using assms unfolding limited_def by blast

definition password_not_read :: "request \<Rightarrow> 'b response \<Rightarrow> bool" where
  "password_not_read r a \<longleftrightarrow> rq_Method r = ''GET'' \<or> (\<exists>e. a = Problem 400 e) \<or> a = Problem 429 ''rate limited''"

lemma sign_in_limited: "limited (''oidc:'' @ remoteIP r) (password_not_read r) (sign_in p r a)"
  unfolding limited_def
proof (intro allI impI disjI2)
  fix s resp s'
  assume run: "sign_in p r a s = (resp, s')"
  let ?k = "''oidc:'' @ remoteIP r"
  obtain ok s2 where lim: "allowed ?k s = (ok, s2)" by (rule prod.exhaust)
  let ?rest = "\<lambda>ok. if \<not> ok then oidc_audit r ''oidc_login_denied'' (TrimSpace (FormValue r ''username'')) (ar_ClientID a) False ''rate_limited''
        (reply (Problem 429 ''rate limited''))
      else consult (\<lambda>n. AuthenticateUser (pv_dir p) n (TrimSpace (FormValue r ''username'')) (FormValue r ''password'')) (\<lambda>found. case found of
        Inl _ \<Rightarrow> oidc_audit r ''oidc_login_denied'' (TrimSpace (FormValue r ''username'')) (ar_ClientID a) False ''invalid_credentials''
          (reply (Problem 401 ''invalid credentials''))
      | Inr u \<Rightarrow>
          call (UserByUsername (du_Username u))
            (\<lambda>e. if e \<noteq> ErrNoRows then reply (Problem 503 ''unavailable'')
                else call (CreateUserWithAudit (du_Username u) (du_DisplayName u) (du_DN u) ''oidc_user_provisioned'' (remoteIP r))
                  (\<lambda>_. reply (Problem 503 ''unavailable'')) (issue_code p r a))
            (issue_code p r a))"
  have rest: "?rest ok s2 = (resp, s')" using run lim by (simp add: sign_in_def Let_def asks_def)
  have "unlimited (?rest ok)"
    by (auto intro!: unlimited_intros unlimited_parts steady_intros split: sum.splits)
  from unlimitedD [OF this rest] have frame: "oidcAttempts s' = oidcAttempts s2" "later s2 s'" by simp_all
  have "password_not_read r resp" if "\<not> ok"
    using rest that by (auto simp: oidc_audit_def http_simps password_not_read_def)
  then show "\<exists>s1 s2 ok. later s s1 \<and> oidcAttempts s1 = oidcAttempts s \<and> allowed ?k s1 = (ok, s2) \<and>
        oidcAttempts s' = oidcAttempts s2 \<and> later s2 s' \<and> (password_not_read r resp \<or> ok)"
    using frame lim by (intro exI [of _ s] exI [of _ s2] exI [of _ ok]) auto
qed

lemma authorize_limited: "limited (''oidc:'' @ remoteIP r) (password_not_read r) (authorize p r)"
  unfolding limited_def
proof (intro allI impI)
  fix s resp s'
  assume run: "authorize p r s = (resp, s')"
  let ?k = "''oidc:'' @ remoteIP r" and ?a = "parse_request r"
  let ?goal = "password_not_read r resp \<and> oidcAttempts s' = oidcAttempts s \<and> later s s' \<or>
     (\<exists>s1 s2 ok. later s s1 \<and> oidcAttempts s1 = oidcAttempts s \<and> allowed ?k s1 = (ok, s2) \<and>
        oidcAttempts s' = oidcAttempts s2 \<and> later s2 s' \<and> (password_not_read r resp \<or> ok))"
  let ?h = "\<lambda>a err. case err of
          Some e \<Rightarrow> oidc_audit r ''oidc_authorization_denied'' [] (ar_ClientID a) False e (reply (Problem 400 e))
        | None \<Rightarrow> if rq_Method r = ''GET'' then sign_in_page p a else sign_in p r a"
  show ?goal
  proof (cases "rq_ParseForm_ok r")
    case False
    with run show ?thesis by (simp add: authorize_def http_simps password_not_read_def)
  next
    case True
    with run have "validate r ?h s = (resp, s')" by (simp add: authorize_def)
    then show ?thesis
    proof (cases rule: validate_returns)
      case (1 e s1)
      then have denied: "oidc_audit r ''oidc_authorization_denied'' [] (ar_ClientID ?a) False e (reply (Problem 400 e)) s1 = (resp, s')" by simp
      then have "password_not_read r resp" by (auto simp: oidc_audit_def http_simps password_not_read_def)
      with unlimitedD [OF unlimited_parts(2) [OF unlimited_reply] denied] 1(2,4) show ?thesis by (auto intro: later_trans)
    next
      case (2 cl s1)
      show ?thesis
      proof (cases "rq_Method r = ''GET''")
        case True
        with 2(1) have "sign_in_page p ?a s1 = (resp, s')" by simp
        from unlimitedD [OF unlimited_parts(6) this] 2(2,8) True show ?thesis
          by (auto simp: password_not_read_def intro: later_trans)
      next
        case False
        with 2(1) have "sign_in p r ?a s1 = (resp, s')" by simp
        from sign_in_limited this show ?thesis
        proof (cases rule: limited_cases)
          case 1
          with 2(2,8) later_trans [OF 2(2)] show ?thesis by auto
        next
          case (2 s3 s4 ok)
          with \<open>later s s1\<close> \<open>oidcAttempts s1 = oidcAttempts s\<close> later_trans [OF \<open>later s s1\<close>, of s3] show ?thesis
            by (intro disjI2 exI [of _ s3] exI [of _ s4] exI [of _ ok]) simp
        qed
      qed
    qed
  qed
qed

lemma allowed_later: "allowed k s = (ok, s') \<Longrightarrow> later s s'"
  by (auto simp: allowed_def allowedLimit_def Let_def later_def split: if_splits)

lemma other_endpoints_limited:
  "token p r s = (a, s') \<Longrightarrow> oidcAttempts s' (''oidc:'' @ ip) = oidcAttempts s (''oidc:'' @ ip) \<and> later s s'"
  "introspect p r s = (a, s') \<Longrightarrow> oidcAttempts s' (''oidc:'' @ ip) = oidcAttempts s (''oidc:'' @ ip) \<and> later s s'"
  "revoke p r s = (a, s') \<Longrightarrow> oidcAttempts s' (''oidc:'' @ ip) = oidcAttempts s (''oidc:'' @ ip) \<and> later s s'"
proof -
  have gen: "oidcAttempts s' (''oidc:'' @ ip) = oidcAttempts s (''oidc:'' @ ip) \<and> later s s'"
    if "asks (allowedLimit k m) h s = (a, s')" "\<And>ok. unlimited (h ok)" "k \<noteq> ''oidc:'' @ ip" for k m and h :: "bool \<Rightarrow> oidc_body handler"
  proof -
    obtain ok s2 where lim: "allowedLimit k m s = (ok, s2)" by (rule prod.exhaust)
    then have "oidcAttempts s2 (''oidc:'' @ ip) = oidcAttempts s (''oidc:'' @ ip)" "later s s2"
      using that(3) by (auto simp: allowedLimit_def Let_def later_def split: if_splits)
    moreover have "h ok s2 = (a, s')" using that(1) lim by (simp add: asks_def)
    from unlimitedD [OF that(2) this] have "oidcAttempts s' = oidcAttempts s2" "later s2 s'" by simp_all
    ultimately show ?thesis by (auto intro: later_trans)
  qed
  show "token p r s = (a, s') \<Longrightarrow> oidcAttempts s' (''oidc:'' @ ip) = oidcAttempts s (''oidc:'' @ ip) \<and> later s s'"
    unfolding token_def allowed_def Let_def
    by (erule gen) (auto intro!: unlimited_intros unlimited_parts steady_intros split: sum.splits)
  show "introspect p r s = (a, s') \<Longrightarrow> oidcAttempts s' (''oidc:'' @ ip) = oidcAttempts s (''oidc:'' @ ip) \<and> later s s'"
    unfolding introspect_def Let_def
    by (erule gen) (auto intro!: unlimited_intros unlimited_parts steady_intros split: sum.splits)
  show "revoke p r s = (a, s') \<Longrightarrow> oidcAttempts s' (''oidc:'' @ ip) = oidcAttempts s (''oidc:'' @ ip) \<and> later s s'"
    unfolding revoke_def Let_def
    by (erule gen) (auto intro!: unlimited_intros unlimited_parts steady_intros split: sum.splits)
qed

text \<open>A sign-in from an address that reached the directory.\<close>

fun password_tried :: "string \<Rightarrow> provider_record \<Rightarrow> bool" where
  "password_tried ip (Authorize r, Some a, s, s') = (remoteIP r = ip \<and> \<not> password_not_read r a)"
| "password_tried ip _ = False"

definition counted :: "time \<Rightarrow> string \<Rightarrow> srv \<Rightarrow> nat" where
  "counted T ip s = length (filter (\<lambda>t. T \<le> t) (oidcAttempts s (''oidc:'' @ ip)))"

lemma allowed_counts:
  assumes "allowed (''oidc:'' @ ip') s = (ok, s')" "srv_now s < T + 10 * minute" "T \<le> srv_now s"
  shows "counted T ip s \<le> counted T ip s'" "ip' = ip \<Longrightarrow> ok \<Longrightarrow> counted T ip s + 1 \<le> counted T ip s' \<and> counted T ip s' \<le> 10"
proof -
  let ?ts = "oidcAttempts s (''oidc:'' @ ip)"
  have keep: "filter (\<lambda>t. T \<le> t) (recent_attempts (srv_now s) ?ts) = filter (\<lambda>t. T \<le> t) ?ts"
    using assms(2) by (auto simp: recent_attempts_def intro!: filter_cong)
  have "length (filter (\<lambda>t. T \<le> t) ?ts) \<le> length (recent_attempts (srv_now s) ?ts)" using keep length_filter_le by metis
  then show "counted T ip s \<le> counted T ip s'" "ip' = ip \<Longrightarrow> ok \<Longrightarrow> counted T ip s + 1 \<le> counted T ip s' \<and> counted T ip s' \<le> 10"
    using assms(1,3) keep
    by (auto simp: allowed_def allowedLimit_def Let_def counted_def srv_now_def split: if_splits)
qed

fun provided :: "'url Provider \<Rightarrow> provider_event list \<Rightarrow> srv \<Rightarrow> srv" where
  "provided p [] s = s"
| "provided p (e # es) s = provided p es (snd (provide p e s))"

lemma clock_forward: "later s s' \<Longrightarrow> mono (clock (wd s)) \<Longrightarrow> srv_now s \<le> srv_now s' \<and> mono (clock (wd s'))"
  by (auto simp: later_def srv_now_def mono_def)

lemma provide_later: "provide p e s = (a, s') \<Longrightarrow> later s s'"
proof (cases e)
  case (Authorize r)
  assume "provide p e s = (a, s')"
  then have "authorize p r s = (the a, s')" using Authorize by (auto simp: map_prod_def split: prod.splits)
  from authorize_limited this show ?thesis
  proof (cases rule: limited_cases)
    case (2 s1 s2 ok)
    have "later s1 s2" by (rule allowed_later [OF 2(3)])
    with 2(1,5) show ?thesis by (blast intro: later_trans)
  qed
next
  case (StoreOp op)
  assume "provide p e s = (a, s')"
  with StoreOp steadyD [OF steady_oidc_step, of op "wd s"] show ?thesis by (cases "oidc_step op (wd s)") (auto simp: later_def)
qed (auto simp: map_prod_def split: prod.splits dest!: other_endpoints_limited(1) other_endpoints_limited(2) other_endpoints_limited(3))

lemma provided_later: "later s (provided p es s)"
proof (induction es arbitrary: s)
  case (Cons e es)
  obtain a s' where "provide p e s = (a, s')" by (rule prod.exhaust)
  with provide_later [OF this] Cons.IH [of s'] show ?case by (auto intro: later_trans)
qed simp

lemma provide_counts:
  assumes run: "provide p e s = (a, s')" and m: "mono (clock (wd s))" and T: "T \<le> srv_now s" "srv_now s' < T + 10 * minute"
  shows "counted T ip s \<le> counted T ip s' \<and> (password_tried ip (e, a, s, s') \<longrightarrow> counted T ip s + 1 \<le> counted T ip s' \<and> counted T ip s' \<le> 10)"
proof (cases e)
  case (Authorize r)
  with run have auth: "authorize p r s = (the a, s')" and a: "a = Some (the a)" by (auto simp: map_prod_def split: prod.splits)
  have tried: "password_tried ip (e, a, s, s') \<longleftrightarrow> remoteIP r = ip \<and> \<not> password_not_read r (the a)" unfolding Authorize by (subst a) simp
  from authorize_limited auth show ?thesis
  proof (cases rule: limited_cases)
    case 1
    then show ?thesis by (simp add: tried counted_def)
  next
    case (2 s1 s2 ok)
    have "later s1 s'" by (rule later_trans [OF allowed_later [OF 2(3)] 2(5)])
    with clock_forward [OF 2(1) m] clock_forward [of s1 s'] T have "T \<le> srv_now s1" "srv_now s1 < T + 10 * minute" by auto
    from allowed_counts [OF 2(3) this(2,1), of ip] 2(2,4,6) show ?thesis by (auto simp: tried counted_def)
  qed
next
  case (StoreOp op)
  with run show ?thesis by (auto simp: counted_def)
qed (use run in \<open>auto simp: counted_def map_prod_def split: prod.splits
    dest!: other_endpoints_limited(1) [where ip = ip] other_endpoints_limited(2) [where ip = ip] other_endpoints_limited(3) [where ip = ip]\<close>)

lemma tries_counted:
  assumes "mono (clock (wd s))" "T \<le> srv_now s" "srv_now (provided p es s) < T + 10 * minute"
  shows "length (filter (password_tried ip) (provide_all p es s)) = 0 \<or>
    length (filter (password_tried ip) (provide_all p es s)) + counted T ip s \<le> 10"
  using assms
proof (induction es arbitrary: s)
  case (Cons e es)
  obtain a s' where run: "provide p e s = (a, s')" by (rule prod.exhaust)
  have l: "srv_now s \<le> srv_now s' \<and> mono (clock (wd s'))" by (rule clock_forward [OF provide_later [OF run] Cons.prems(1)])
  then have "srv_now s' \<le> srv_now (provided p es s')" using clock_forward [OF provided_later] by blast
  with Cons.prems(3) run have "srv_now s' < T + 10 * minute" by simp
  from provide_counts [OF run Cons.prems(1,2) this, of ip] Cons.IH [of s'] l Cons.prems(2,3) run show ?case by auto
qed simp


section \<open>The provider at work\<close>

text \<open>One user, one client, a directory that accepts every password.\<close>

definition demo_verifier :: string where
  "demo_verifier = replicate 43 (CHR ''v'')"

definition demo_provider_tables :: tables where
  "demo_provider_tables = empty_tables\<lparr>
     users := [\<lparr>usr_id = 1, usr_username = ''ada'', usr_display_name = ''Ada'', usr_directory_dn = [], usr_pin_hash = [],
       usr_oidc_subject = ''sub'', usr_created_at = 0, usr_updated_at = 0\<rparr>], users_seq := 1,
     oidc_clients := [\<lparr>oc_client_id = ''app'', oc_secret_hash = ''s'', oc_redirect_uris = ''cb'', oc_scopes = ''openid'',
       oc_enabled = True\<rparr>]\<rparr>"

definition demo_provider_server :: srv where
  "demo_provider_server = (calm_server demo_provider_tables)\<lparr>wd := (calm_world demo_provider_tables)\<lparr>rnd := (\<lambda>_. Some ''seed'')\<rparr>\<rparr>"

definition demo_provider_user :: directory_user where
  "demo_provider_user = \<lparr>du_Username = ''ada'', du_DisplayName = ''Ada'', du_DN = [], du_Mail = []\<rparr>"

definition demo_provider :: "string Provider" where
  "demo_provider = \<lparr>pv_issuer = ''https://id'', pv_dir = \<lparr>UserExists = (\<lambda>_ _. Inr True), GetDirectoryUser = (\<lambda>_ _. Inr demo_provider_user),
       ListUsers = (\<lambda>_. Inr []), AuthenticateUser = (\<lambda>_ _ _. Inr demo_provider_user), AuthenticateAdmin = (\<lambda>_ _ _. Inl ErrDirectory),
       as_administrative = None\<rparr>,
     pv_keyIDs = [], pv_Serialize = (\<lambda>_. Some ''jwt''), pv_CompareHashAndPassword = (\<lambda>h s. h = s), pv_url_Parse = Some,
     pv_url_Scheme = (\<lambda>_. []), pv_url_Host = (\<lambda>_. []), pv_url_Query = (\<lambda>_. []), pv_url_String = (\<lambda>u q. u @ ''?'' @ q)\<rparr>"

definition demo_form :: "(string \<times> string) list \<Rightarrow> request" where
  "demo_form f = \<lparr>rq_Method = ''POST'', rq_Path = ''/'', rq_PathValue_id = [], rq_RemoteAddr = ''192.0.2.7:4000'',
     rq_Header = (\<lambda>_. []), rq_Cookies = [], rq_TLS = None, rq_ParseForm_ok = True, rq_Query = [],
     rq_PostForm = map (\<lambda>(k, v). (k, [v])) f\<rparr>"

definition demo_authorize :: request where
  "demo_authorize = demo_form [(''response_type'', ''code''), (''client_id'', ''app''), (''redirect_uri'', ''cb''), (''scope'', ''openid''),
     (''state'', ''x''), (''nonce'', ''y''), (''code_challenge'', RawURL_encode (sha256 demo_verifier)),
     (''code_challenge_method'', ''S256''), (''username'', ''ada''), (''password'', ''pw'')]"

definition demo_token :: request where
  "demo_token = demo_form [(''grant_type'', ''authorization_code''), (''client_id'', ''app''), (''client_secret'', ''s''),
     (''code'', ''c2VlZA''), (''redirect_uri'', ''cb''), (''code_verifier'', demo_verifier)]"

lemma demo_provider_facts:
  "ParseIP ''192.0.2.7''" "RawURL_encode ''seed'' = ''c2VlZA''" "TrimSpace ''ada'' = ''ada''"
  "Fields ''openid'' = [''openid'']" "Split (CHR 0x0A) ''cb'' = [''cb'']" "current_timestamp 0 = 0" "lower ''ada'' = ''ada''"
  "demo_verifier \<noteq> []" "lower [] = []"
  "\<not> Contains '' openid '' '' profile ''" "\<not> Contains '' openid '' '' email ''" "SplitHostPort ''192.0.2.7:4000'' = Some ''192.0.2.7''"
  by code_simp+

lemma demo_provider_lengths:
  "length demo_verifier = 43" "length (RawURL_encode (sha256 demo_verifier)) = 43" "RawURL_encode (sha256 demo_verifier) \<noteq> []"
proof -
  show "length demo_verifier = 43" by (simp add: demo_verifier_def)
  show len: "length (RawURL_encode (sha256 demo_verifier)) = 43" by simp
  then show "RawURL_encode (sha256 demo_verifier) \<noteq> []" by (metis length_0_conv zero_neq_numeral)
qed

lemma token_hash_nonempty [simp]: "token_hash t \<noteq> []"
proof
  assume "token_hash t = []"
  then have "length (hex_encode (sha256 t)) = 0" by (simp add: token_hash_def)
  then show False by simp
qed

lemmas demo_provider_defs = demo_provider_server_def demo_provider_tables_def empty_tables_def calm_server_def calm_world_def demo_provider_def
  demo_provider_user_def demo_form_def demo_authorize_def demo_token_def FormValue_def values_get_def remoteIP_def

lemmas provider_run_defs = call_def reply_def asks_def with_now_def consult_def Let_def query_row_def tick_def rand_m_def
  dthen_def dbind_def ensure_def ret_def tx_def exec_def one_row_def RowsAffected_def insert_audit_def recent_attempts_def
  count_where_def update_where_def max_int64_def second_def minute_def hour_def allowed_def allowedLimit_def
  OIDCClientByID_def UserByUsername_def GetUser_def EnsureOIDCSubjectWithAudit_def validateAuditIP_def scanSQLiteUser_def audit_event_def

lemma demo_authorized:
  "\<exists>dest s1. authorize demo_provider demo_authorize demo_provider_server = (Redirect dest, s1) \<and>
     oidc_codes (tb (wd s1)) = [\<lparr>od_code_hash = token_hash ''c2VlZA'', od_client_id = ''app'', od_user_id = 1, od_redirect_uri = ''cb'',
       od_scope = ''openid'', od_nonce = ''y'', od_code_challenge = RawURL_encode (sha256 demo_verifier), od_expires_at = 90 * second,
       od_consumed_at = None\<rparr>] \<and>
     users (tb (wd s1)) = users demo_provider_tables \<and> oidc_clients (tb (wd s1)) = oidc_clients demo_provider_tables \<and>
     oidc_sessions (tb (wd s1)) = [] \<and> audit_seq (tb (wd s1)) = 3 \<and> users_seq (tb (wd s1)) = 1 \<and>
     (\<forall>k. clock (wd s1) k = 0) \<and> (\<forall>k. fault (wd s1) k = False) \<and> (\<forall>k. rnd (wd s1) k = Some ''seed'') \<and>
     oidcAttempts s1 ''oidc-token:192.0.2.7'' = []"
  by (simp add: authorize_def validate_def check_request_def parse_request_def sign_in_def issue_code_def redirect_with_code_def
      CreateOIDCCodeWithAudit_def delete_expired_codes_def insert_oidc_code_def ok_oidc_codes_def
      demo_provider_defs demo_provider_facts demo_provider_lengths provider_run_defs)

lemma demo_token_issued:
  assumes "oidc_codes (tb (wd s)) = [\<lparr>od_code_hash = token_hash ''c2VlZA'', od_client_id = ''app'', od_user_id = 1, od_redirect_uri = ''cb'',
       od_scope = ''openid'', od_nonce = ''y'', od_code_challenge = RawURL_encode (sha256 demo_verifier), od_expires_at = 90 * second,
       od_consumed_at = None\<rparr>]"
    "users (tb (wd s)) = users demo_provider_tables" "oidc_clients (tb (wd s)) = oidc_clients demo_provider_tables"
    "oidc_sessions (tb (wd s)) = []" "audit_seq (tb (wd s)) = 3"
    "\<forall>k. clock (wd s) k = 0" "\<forall>k. fault (wd s) k = False" "\<forall>k. rnd (wd s) k = Some ''seed''"
    "oidcAttempts s ''oidc-token:192.0.2.7'' = []"
  shows "\<exists>b s'. token demo_provider demo_token s = (Json 200 (TokenIssued b), s')"
  using assms demo_provider_lengths
  by (simp add: token_def authenticateClient_def credentials_def BasicAuth_def OIDCCodeForExchange_def select_code_def redeemable_def
      pkce_ok_def issue_token_def ConsumeOIDCCodeWithSessionAudit_def consume_oidc_code_def ok_oidc_codes_def token_claims_def
      delete_old_oidc_sessions_def insert_oidc_session_def ok_oidc_sessions_def
      demo_provider_defs demo_provider_facts provider_run_defs)


definition demo_session_tables :: tables where
  "demo_session_tables = demo_provider_tables\<lparr>oidc_sessions := [\<lparr>os_session_id = ''sid'', os_access_token_hash = token_hash ''tok'',
     os_client_id = ''app'', os_user_id = 1, os_scope = ''openid'', os_issued_at = 0, os_expires_at = hour, os_revoked_at = None\<rparr>]\<rparr>"

definition demo_token_request :: request where
  "demo_token_request = demo_form [(''client_id'', ''app''), (''client_secret'', ''s''), (''token'', ''tok'')]"

lemma demo_revoked:
  "\<exists>s1. revoke demo_provider demo_token_request (calm_server demo_session_tables) = (Json 200 Revoked, s1)"
  by (simp add: revoke_def authenticateClient_def credentials_def BasicAuth_def RevokeOIDCSessionByTokenHashWithAudit_def
      revokeOIDCSessionWithAudit_def revoke_oidc_sessions_def ok_oidc_sessions_def now_m_def demo_session_tables_def demo_token_request_def
      demo_provider_defs demo_provider_facts provider_run_defs)



end
