(* ===== verification/Session_Store.thy ===== *)
theory Session_Store
  imports Badge_Store Contracts
begin

text \<open>
  Browser sessions of the self-service pages (\<^verbatim>\<open>database.go\<close>, \<^verbatim>\<open>session_audit.go\<close>) and the
  emergency administrator grants (\<^verbatim>\<open>emergency_admin.go\<close>) of the SQLite store, the contract of the
  two tables, and what they guarantee: a session that was closed never works again, and an
  emergency grant is consumed at most once, inside its short lifetime.
\<close>

section \<open>Statements\<close>

definition insert_self_service_session :: "string \<Rightarrow> string \<Rightarrow> time \<Rightarrow> stmt" where
  "insert_self_service_session i username expiresAt now t =
     (let t' = t\<lparr>self_service_sessions := self_service_sessions t @
            [\<lparr>sss_id = i, sss_username = username, sss_created_at = now, sss_expires_at = expiresAt,
              sss_revoked_at = None\<rparr>]\<rparr>
      in if ok_self_service_sessions t' then Some (t', 1, 0) else None)"

definition revoke_self_service_sessions :: "(time \<Rightarrow> SelfServiceSession \<Rightarrow> bool) \<Rightarrow> stmt" where
  "revoke_self_service_sessions P now t =
     (let t' = t\<lparr>self_service_sessions :=
            update_where (P now) (\<lambda>s. s\<lparr>sss_revoked_at := Some now\<rparr>) (self_service_sessions t)\<rparr>
      in if ok_self_service_sessions t' then Some (t', count_where (P now) (self_service_sessions t), 0)
         else None)"

definition insert_emergency_admin_grant :: "EmergencyAdminGrant \<Rightarrow> stmt" where
  "insert_emergency_admin_grant g now t =
     (let t' = t\<lparr>emergency_admin_grants := emergency_admin_grants t @
            [\<lparr>eg_id = eg_id g, eg_token_hash = eg_token_hash g, eg_session_hash = None,
              eg_created_at = eg_created_at g, eg_expires_at = eg_expires_at g,
              eg_consumed_at = None, eg_revoked_at = None\<rparr>]\<rparr>
      in if ok_emergency_admin_grants t' then Some (t', 1, 0) else None)"

definition update_emergency_admin_grants ::
  "(EmergencyAdminGrant \<Rightarrow> bool) \<Rightarrow> (EmergencyAdminGrant \<Rightarrow> EmergencyAdminGrant) \<Rightarrow> tables \<Rightarrow>
     (tables \<times> EmergencyAdminGrant list) option" where
  "update_emergency_admin_grants P f t =
     (let t' = t\<lparr>emergency_admin_grants := update_where P f (emergency_admin_grants t)\<rparr>
      in if ok_emergency_admin_grants t' then Some (t', map f (filter P (emergency_admin_grants t)))
         else None)"

definition revoke_emergency_admin_grants :: "(EmergencyAdminGrant \<Rightarrow> bool) \<Rightarrow> stmt" where
  "revoke_emergency_admin_grants P now t =
     map_option (\<lambda>(t', rows). (t', length rows, 0))
       (update_emergency_admin_grants
          (\<lambda>g. P g \<and> eg_revoked_at g = None \<and> now < eg_expires_at g)
          (\<lambda>g. g\<lparr>eg_revoked_at := Some now\<rparr>) t)"

section \<open>Self-service sessions\<close>

definition CreateSelfServiceSession :: "string \<Rightarrow> string \<Rightarrow> time \<Rightarrow> unit dbm" where
  "CreateSelfServiceSession i username expiresAt =
     discard (exec (insert_self_service_session i username expiresAt))"

definition session_live :: "string \<Rightarrow> time \<Rightarrow> SelfServiceSession \<Rightarrow> bool" where
  "session_live username now s \<longleftrightarrow>
     lower (sss_username s) = lower username \<and> sss_revoked_at s = None \<and> now \<le> sss_expires_at s"

definition ActiveSelfServiceSession :: "string \<Rightarrow> string \<Rightarrow> time \<Rightarrow> SelfServiceSession dbm" where
  "ActiveSelfServiceSession i username now =
     query_row (\<lambda>t. filter (\<lambda>s. sss_id s = i \<and> session_live username now s) (self_service_sessions t))"

definition ActiveSelfServiceSessions :: "string \<Rightarrow> time \<Rightarrow> SelfServiceSession list dbm" where
  "ActiveSelfServiceSessions username now =
     query_all (\<lambda>t. take 20 (rev (sort_key sss_created_at
       (filter (session_live username now) (self_service_sessions t)))))"

definition other_session :: "string \<Rightarrow> string \<Rightarrow> time \<Rightarrow> SelfServiceSession \<Rightarrow> bool" where
  "other_session username currentID now s \<longleftrightarrow>
     lower (sss_username s) = lower username \<and> sss_id s \<noteq> currentID \<and> sss_revoked_at s = None \<and>
     now \<le> sss_expires_at s"

definition RevokeOtherSelfServiceSessions :: "string \<Rightarrow> string \<Rightarrow> nat dbm" where
  "RevokeOtherSelfServiceSessions username currentID =
     dbind (exec (revoke_self_service_sessions (other_session username currentID))) RowsAffected"

definition RevokeSelfServiceSession :: "string \<Rightarrow> string \<Rightarrow> unit dbm" where
  "RevokeSelfServiceSession i username =
     discard (exec (revoke_self_service_sessions
       (\<lambda>now s. sss_id s = i \<and> lower (sss_username s) = lower username)))"

definition CreateSelfServiceSessionWithAudit :: "string \<Rightarrow> string \<Rightarrow> time \<Rightarrow> string \<Rightarrow> unit dbm" where
  "CreateSelfServiceSessionWithAudit i username expiresAt ip =
     dthen (validateAuditIP ip) (tx (
       dthen (exec (insert_self_service_session i username expiresAt))
       (dthen (exec (insert_audit (audit_event ''self_service_login'' [] username [] True ip [])))
       (ret ()))))"

definition RevokeOtherSelfServiceSessionsWithAudit :: "string \<Rightarrow> string \<Rightarrow> string \<Rightarrow> nat dbm" where
  "RevokeOtherSelfServiceSessionsWithAudit username currentID ip =
     dthen (validateAuditIP ip) (tx (
       dbind (exec (revoke_self_service_sessions (other_session username currentID))) (\<lambda>result.
       dbind (RowsAffected result) (\<lambda>count.
       dthen (exec (insert_audit (audit_event ''self_service_sessions_revoked'' [] username [] True ip
                (''count='' @ show_nat count))))
       (ret count)))))"

definition RevokeSelfServiceSessionWithAudit :: "string \<Rightarrow> string \<Rightarrow> string \<Rightarrow> unit dbm" where
  "RevokeSelfServiceSessionWithAudit i username ip =
     dthen (validateAuditIP ip) (tx (
       dbind (exec (revoke_self_service_sessions (\<lambda>now s. sss_id s = i \<and>
                lower (sss_username s) = lower username \<and> sss_revoked_at s = None))) (\<lambda>result.
       dthen (one_row result)
       (dthen (exec (insert_audit (audit_event ''self_service_logout'' [] username [] True ip [])))
       (ret ())))))"

section \<open>Emergency administrator grants\<close>

definition validateEmergencyAdminGrant :: "EmergencyAdminGrant \<Rightarrow> unit dbm" where
  "validateEmergencyAdminGrant g =
     (let dur = time_sub (eg_expires_at g) (eg_created_at g) in
      ensure (\<not> (length (eg_id g) < 16 \<or> length (eg_id g) > 128 \<or> length (eg_token_hash g) \<noteq> 64 \<or>
                 dur < 5 * minute \<or> dur > hour))
        (ErrText ''invalid emergency administrator grant''))"

definition CreateEmergencyAdminGrantWithAudit :: "EmergencyAdminGrant \<Rightarrow> string \<Rightarrow> unit dbm" where
  "CreateEmergencyAdminGrantWithAudit grant ip =
     dthen (validateEmergencyAdminGrant grant) (tx (
       dthen (exec (insert_emergency_admin_grant grant))
       (dthen (exec (insert_audit (audit_event ''emergency_admin_grant_created'' [] [] [] True ip [])))
       (ret ()))))"

definition ConsumeEmergencyAdminGrantWithAudit ::
  "string \<Rightarrow> string \<Rightarrow> time \<Rightarrow> string \<Rightarrow> EmergencyAdminGrant dbm" where
  "ConsumeEmergencyAdminGrantWithAudit tokenHash sessionHash now ip =
     dthen (ensure (\<not> (length tokenHash \<noteq> 64 \<or> length sessionHash \<noteq> 64))
              (ErrText ''invalid emergency grant proof'')) (tx (
       dbind (exec_returning (\<lambda>_. update_emergency_admin_grants
                (\<lambda>g. eg_token_hash g = tokenHash \<and> eg_consumed_at g = None \<and> eg_revoked_at g = None \<and>
                   now < eg_expires_at g)
                (\<lambda>g. g\<lparr>eg_session_hash := Some sessionHash, eg_consumed_at := Some now\<rparr>))) (\<lambda>grant.
       dthen (exec (insert_audit (audit_event ''emergency_admin_login'' [] [] [] True ip [])))
       (ret grant))))"

definition ActiveEmergencyAdminSession :: "string \<Rightarrow> time \<Rightarrow> EmergencyAdminGrant dbm" where
  "ActiveEmergencyAdminSession sessionHash now =
     query_row (\<lambda>t. filter (\<lambda>g. eg_session_hash g = Some sessionHash \<and> eg_consumed_at g \<noteq> None \<and>
        eg_revoked_at g = None \<and> now < eg_expires_at g) (emergency_admin_grants t))"

definition EmergencyAdminGrants :: "time \<Rightarrow> EmergencyAdminGrant list dbm" where
  "EmergencyAdminGrants now =
     query_all (\<lambda>t. rev (sort_key eg_created_at
       (filter (\<lambda>g. now < eg_expires_at g) (emergency_admin_grants t))))"

definition revokeEmergencyAdminWithAudit :: "string \<Rightarrow> string \<Rightarrow> string \<Rightarrow> unit dbm" where
  "revokeEmergencyAdminWithAudit column val ip =
     dthen (ensure (\<not> (column \<noteq> ''id'' \<and> column \<noteq> ''session_hash''))
              (ErrText ''invalid emergency administrator selector'')) (tx (
       dbind (exec (revoke_emergency_admin_grants
                (\<lambda>g. if column = ''id'' then eg_id g = val else eg_session_hash g = Some val))) (\<lambda>result.
       dthen (one_row result)
       (dthen (exec (insert_audit (audit_event ''emergency_admin_grant_revoked'' [] [] [] True ip [])))
       (ret ())))))"

definition RevokeEmergencyAdminGrantWithAudit :: "string \<Rightarrow> string \<Rightarrow> unit dbm" where
  "RevokeEmergencyAdminGrantWithAudit i ip = revokeEmergencyAdminWithAudit ''id'' i ip"

definition RevokeEmergencyAdminSessionWithAudit :: "string \<Rightarrow> string \<Rightarrow> unit dbm" where
  "RevokeEmergencyAdminSessionWithAudit sessionHash ip =
     dthen (ensure (\<not> length sessionHash \<noteq> 64) (ErrText ''invalid emergency administrator session''))
       (revokeEmergencyAdminWithAudit ''session_hash'' sessionHash ip)"

section \<open>Contract of the tables\<close>

text \<open>A session keeps its owner and its end, and stays revoked.\<close>

definition session_evolves :: "SelfServiceSession \<Rightarrow> SelfServiceSession \<Rightarrow> bool" where
  "session_evolves s s' \<longleftrightarrow> sss_id s' = sss_id s \<and> sss_username s' = sss_username s \<and>
     sss_expires_at s' = sss_expires_at s \<and> (sss_revoked_at s \<noteq> None \<longrightarrow> sss_revoked_at s' \<noteq> None)"

text \<open>A grant keeps its proof and its end; consumption and revocation are for ever.\<close>

definition grant_evolves :: "EmergencyAdminGrant \<Rightarrow> EmergencyAdminGrant \<Rightarrow> bool" where
  "grant_evolves g g' \<longleftrightarrow> eg_id g' = eg_id g \<and> eg_token_hash g' = eg_token_hash g \<and>
     eg_created_at g' = eg_created_at g \<and> eg_expires_at g' = eg_expires_at g \<and>
     (eg_consumed_at g \<noteq> None \<longrightarrow> eg_consumed_at g' = eg_consumed_at g \<and> eg_session_hash g' = eg_session_hash g) \<and>
     (eg_revoked_at g \<noteq> None \<longrightarrow> eg_revoked_at g' \<noteq> None)"

text \<open>A grant carries a session exactly when it was consumed, and lives five minutes to one hour.\<close>

definition session_inv :: "tables \<Rightarrow> bool" where
  "session_inv t \<longleftrightarrow> ok_self_service_sessions t \<and> ok_emergency_admin_grants t \<and>
     (\<forall>g \<in> set (emergency_admin_grants t). (eg_session_hash g = None \<longleftrightarrow> eg_consumed_at g = None) \<and>
        5 * minute \<le> eg_expires_at g - eg_created_at g \<and> eg_expires_at g - eg_created_at g \<le> hour)"

definition sessions_evolve :: "tables \<Rightarrow> tables \<Rightarrow> bool" where
  "sessions_evolve t t' \<longleftrightarrow> session_inv t' \<and>
     grows session_evolves (self_service_sessions t) (self_service_sessions t') \<and>
     grows grant_evolves (emergency_admin_grants t) (emergency_admin_grants t')"

lemma session_evolves_refl [simp]: "session_evolves s s"
  by (simp add: session_evolves_def)

lemma grant_evolves_refl [simp]: "grant_evolves g g"
  by (simp add: grant_evolves_def)

lemma session_evolves_trans: "session_evolves a b \<Longrightarrow> session_evolves b c \<Longrightarrow> session_evolves a c"
  by (auto simp: session_evolves_def)

lemma grant_evolves_trans: "grant_evolves a b \<Longrightarrow> grant_evolves b c \<Longrightarrow> grant_evolves a c"
  by (auto simp: grant_evolves_def)

interpretation session_contract: table_contract session_inv sessions_evolve
  by unfold_locales
    (auto simp: sessions_evolve_def intro: grows_refl grows_trans [OF session_evolves_trans]
      grows_trans [OF grant_evolves_trans])

abbreviation session_stmt :: "stmt \<Rightarrow> bool" where
  "session_stmt \<equiv> keeps_stmt session_inv sessions_evolve"

abbreviation session_prog :: "'a dbm \<Rightarrow> bool" where
  "session_prog \<equiv> keeps session_inv sessions_evolve"

lemma insert_session_keeps: "session_stmt (insert_self_service_session i u e)"
  by (rule keeps_stmtI)
    (auto simp: insert_self_service_session_def Let_def sessions_evolve_def session_inv_def
      ok_emergency_admin_grants_def intro!: grows_new grows_refl split: if_splits)

lemma revoke_sessions_keeps: "session_stmt (revoke_self_service_sessions P)"
  by (rule keeps_stmtI)
    (auto simp: revoke_self_service_sessions_def Let_def sessions_evolve_def session_inv_def session_evolves_def
      ok_emergency_admin_grants_def intro!: grows_update grows_refl split: if_splits)

lemma audit_keeps: "session_stmt (insert_audit a)"
  by (rule keeps_stmtI)
    (auto simp: insert_audit_def Let_def sessions_evolve_def session_inv_def
      ok_self_service_sessions_def ok_emergency_admin_grants_def intro!: grows_refl split: if_splits)

lemma update_grants_keeps:
  assumes inv: "session_inv t" and run: "update_emergency_admin_grants P f t = Some (t', rows)"
    and f: "\<And>g. P g \<Longrightarrow> (eg_session_hash g = None \<longleftrightarrow> eg_consumed_at g = None) \<Longrightarrow>
      (eg_session_hash (f g) = None \<longleftrightarrow> eg_consumed_at (f g) = None)"
    and ev: "\<And>g. P g \<Longrightarrow> grant_evolves g (f g)"
  shows "sessions_evolve t t'"
proof -
  from run have t': "t' = t\<lparr>emergency_admin_grants := update_where P f (emergency_admin_grants t)\<rparr>"
      "ok_emergency_admin_grants t'"
    by (auto simp: update_emergency_admin_grants_def Let_def split: if_splits)
  have "grows grant_evolves (emergency_admin_grants t) (emergency_admin_grants t')"
    unfolding t' using ev by (auto intro!: grows_update)
  moreover have "session_inv t'"
    using inv t' f ev by (auto simp: session_inv_def set_update_where ok_self_service_sessions_def
        grant_evolves_def)
  ultimately show ?thesis
    using t' by (auto simp: sessions_evolve_def intro: grows_refl)
qed

lemma revoke_grants_keeps: "session_stmt (revoke_emergency_admin_grants P)"
  by (rule keeps_stmtI)
    (auto simp: revoke_emergency_admin_grants_def grant_evolves_def intro!: update_grants_keeps)

lemma insert_grant_keeps:
  "session_prog (dthen (validateEmergencyAdminGrant g) (tx (dthen (exec (insert_emergency_admin_grant g)) n)))"
  if n: "session_prog n"
proof -
  have *: "session_stmt (insert_emergency_admin_grant g)"
    if "5 * minute \<le> eg_expires_at g - eg_created_at g" "eg_expires_at g - eg_created_at g \<le> hour"
    using that
    by (intro keeps_stmtI)
      (auto simp: insert_emergency_admin_grant_def Let_def sessions_evolve_def session_inv_def
        ok_self_service_sessions_def intro!: grows_new grows_refl split: if_splits)
  have "session_prog (tx (dthen (exec (insert_emergency_admin_grant g)) n))"
    if "5 * minute \<le> eg_expires_at g - eg_created_at g" "eg_expires_at g - eg_created_at g \<le> hour"
    by (intro session_contract.keeps_intros * that n)
  then show ?thesis
    unfolding validateEmergencyAdminGrant_def Let_def
    by (intro session_contract.keeps_guard)
      (auto simp: not_less time_sub_le_iff time_sub_ge_iff duration_defs int64_defs)
qed

section \<open>Every operation keeps the contract\<close>

datatype session_op =
  OpCreateSession string string time
| OpCreateSessionWithAudit string string time string
| OpRevokeOthers string string
| OpRevokeOthersWithAudit string string string
| OpRevokeSession string string
| OpRevokeSessionWithAudit string string string
| OpCreateGrant EmergencyAdminGrant string
| OpConsumeGrant string string time string
| OpRevokeGrant string string
| OpRevokeGrantSession string string

definition no_grant :: "'a dbm \<Rightarrow> EmergencyAdminGrant option dbm" where
  "no_grant m = dthen m (ret None)"

fun session_step :: "session_op \<Rightarrow> EmergencyAdminGrant option dbm" where
  "session_step (OpCreateSession i u e) = no_grant (CreateSelfServiceSession i u e)"
| "session_step (OpCreateSessionWithAudit i u e ip) = no_grant (CreateSelfServiceSessionWithAudit i u e ip)"
| "session_step (OpRevokeOthers u i) = no_grant (RevokeOtherSelfServiceSessions u i)"
| "session_step (OpRevokeOthersWithAudit u i ip) = no_grant (RevokeOtherSelfServiceSessionsWithAudit u i ip)"
| "session_step (OpRevokeSession i u) = no_grant (RevokeSelfServiceSession i u)"
| "session_step (OpRevokeSessionWithAudit i u ip) = no_grant (RevokeSelfServiceSessionWithAudit i u ip)"
| "session_step (OpCreateGrant g ip) = no_grant (CreateEmergencyAdminGrantWithAudit g ip)"
| "session_step (OpConsumeGrant h s now ip) =
     dbind (ConsumeEmergencyAdminGrantWithAudit h s now ip) (\<lambda>g. ret (Some g))"
| "session_step (OpRevokeGrant i ip) = no_grant (RevokeEmergencyAdminGrantWithAudit i ip)"
| "session_step (OpRevokeGrantSession h ip) = no_grant (RevokeEmergencyAdminSessionWithAudit h ip)"

lemma consume_keeps:
  "session_prog (exec_returning (\<lambda>_. update_emergency_admin_grants
     (\<lambda>g. eg_token_hash g = h \<and> eg_consumed_at g = None \<and> eg_revoked_at g = None \<and> now < eg_expires_at g)
     (\<lambda>g. g\<lparr>eg_session_hash := Some s, eg_consumed_at := Some now\<rparr>)))"
  by (rule session_contract.keeps_exec_returning)
    (auto elim!: update_grants_keeps [rotated 1] simp: grant_evolves_def)

lemma session_reads [simp]:
  "session_prog (query_row q)" "session_prog (query_all q')" "session_prog (ensure c e)" "session_prog (ret a)"
  "session_prog (one_row r)" "session_prog (RowsAffected r)"
  by (auto intro!: session_contract.keeps_read_only atomic_intros)

lemma session_writes [simp]:
  "session_prog (exec (insert_audit a))" "session_prog (exec (insert_self_service_session i u e))"
  "session_prog (exec (revoke_self_service_sessions P))" "session_prog (exec (revoke_emergency_admin_grants Q))"
  by (intro session_contract.keeps_exec audit_keeps insert_session_keeps revoke_sessions_keeps revoke_grants_keeps)+

lemma session_step_keeps: "session_prog (session_step op)"
  by (cases op)
    (simp_all add: no_grant_def discard_def CreateSelfServiceSession_def CreateSelfServiceSessionWithAudit_def
      RevokeOtherSelfServiceSessions_def RevokeOtherSelfServiceSessionsWithAudit_def
      RevokeSelfServiceSession_def RevokeSelfServiceSessionWithAudit_def insert_grant_keeps
      CreateEmergencyAdminGrantWithAudit_def ConsumeEmergencyAdminGrantWithAudit_def consume_keeps
      RevokeEmergencyAdminGrantWithAudit_def RevokeEmergencyAdminSessionWithAudit_def
      revokeEmergencyAdminWithAudit_def validateAuditIP_def session_contract.keeps_dbind
      session_contract.keeps_dthen session_contract.keeps_tx')

section \<open>Emergency grants are consumed once\<close>

definition grant_spent :: "world \<Rightarrow> string \<Rightarrow> bool" where
  "grant_spent w h \<longleftrightarrow> (\<exists>g \<in> set (emergency_admin_grants (tb w)). eg_token_hash g = h \<and>
     (eg_consumed_at g \<noteq> None \<or> eg_revoked_at g \<noteq> None))"

definition grant_won :: "session_op \<Rightarrow> db_error + EmergencyAdminGrant option \<Rightarrow> string \<Rightarrow> bool" where
  "grant_won op r h = (case r of Inr (Some g) \<Rightarrow> eg_token_hash g = h | _ \<Rightarrow> False)"

lemma no_grant_not_won [simp]: "no_grant m w \<noteq> (Inr (Some g), w')"
  by (auto simp: no_grant_def db_simps)

text \<open>What a successful consumption found and what it left.\<close>

lemma consume_returns:
  assumes "ConsumeEmergencyAdminGrantWithAudit h s now ip w = (Inr g', w')"
  obtains g where "g \<in> set (emergency_admin_grants (tb w))" "eg_token_hash g = h" "eg_consumed_at g = None"
    "eg_revoked_at g = None" "now < eg_expires_at g"
    "g' = g\<lparr>eg_session_hash := Some s, eg_consumed_at := Some now\<rparr>"
    "g' \<in> set (emergency_admin_grants (tb w'))"
  using assms that
  by (fastforce simp: ConsumeEmergencyAdminGrantWithAudit_def db_simps update_emergency_admin_grants_def Let_def
      insert_audit_def set_update_where dest!: map_filter_Cons_mem split: if_splits)

lemma won_consume:
  assumes "session_step op w = (r, w')" "grant_won op r h"
  obtains s now ip g where "ConsumeEmergencyAdminGrantWithAudit h s now ip w = (Inr g, w')"
proof -
  from assms obtain h' s now ip g where run: "ConsumeEmergencyAdminGrantWithAudit h' s now ip w = (Inr g, w')"
    and h: "eg_token_hash g = h"
    by (cases op) (auto simp: grant_won_def db_simps split: sum.splits option.splits)
  from run have "h' = h" by (rule consume_returns) (use h in auto)
  with run that show thesis by blast
qed

lemma grant_spent_stays:
  assumes "session_inv (tb w)" "session_step op w = (r, w')" "grant_spent w h"
  shows "grant_spent w' h"
proof -
  have "grows grant_evolves (emergency_admin_grants (tb w)) (emergency_admin_grants (tb w'))"
    using keepsD [OF session_step_keeps assms(1,2)] by (simp add: sessions_evolve_def)
  from grows_mem [OF this] assms(3) show ?thesis
    by (fastforce simp: grant_spent_def grant_evolves_def)
qed

interpretation emergency_use: single_use session_step grant_won grant_spent "\<lambda>w. session_inv (tb w)"
proof unfold_locales
  fix w op r w' h
  assume inv: "session_inv (tb w)" and run: "session_step op w = (r, w')"
  show "session_inv (tb w')"
    using keepsD [OF session_step_keeps inv run] by (simp add: sessions_evolve_def)
  show "grant_spent w h \<Longrightarrow> grant_spent w' h" by (rule grant_spent_stays [OF inv run])
  assume "grant_won op r h"
  with run obtain s now ip g where c: "ConsumeEmergencyAdminGrantWithAudit h s now ip w = (Inr g, w')"
    by (rule won_consume)
  then show "grant_spent w' h"
    unfolding grant_spent_def by (rule consume_returns) (rule bexI [of _ g], simp_all)
  have d: "distinct (map eg_token_hash (emergency_admin_grants (tb w)))"
    using inv by (simp add: session_inv_def ok_emergency_admin_grants_def)
  from c show "\<not> grant_spent w h"
    by (rule consume_returns) (auto simp: grant_spent_def dest: distinct_map_eq [OF d])
qed

text \<open>
  C20: An emergency administrator grant is consumed at most once.  In every sequence of session and
  grant operations, with every failure of the database, at most one consumption of a given
  grant token succeeds.
\<close>

theorem emergency_grant_single_use:
  assumes "session_inv (tb w)"
  shows "wins session_step grant_won ops w tokenHash \<le> 1"
  using assms by (rule emergency_use.wins_at_most_once)

definition demo_grant :: EmergencyAdminGrant where
  "demo_grant = \<lparr>eg_id = replicate 16 (CHR ''i''), eg_token_hash = replicate 64 (CHR ''a''),
     eg_session_hash = None, eg_created_at = 0, eg_expires_at = 10 * minute, eg_consumed_at = None,
     eg_revoked_at = None\<rparr>"

definition demo_grant_ops :: "session_op list" where
  "demo_grant_ops = [OpCreateGrant demo_grant [],
     OpConsumeGrant (replicate 64 (CHR ''a'')) (replicate 64 (CHR ''b'')) minute [],
     OpConsumeGrant (replicate 64 (CHR ''a'')) (replicate 64 (CHR ''c'')) minute []]"

lemma session_inv_empty: "session_inv empty_tables"
  by (simp add: session_inv_def empty_tables_def ok_defs)

theorem emergency_grant_single_use_witness:
  "wins session_step grant_won demo_grant_ops (calm_world empty_tables) (replicate 64 (CHR ''a'')) = 1"
proof -
  have "wins session_step grant_won demo_grant_ops (calm_world empty_tables) (replicate 64 (CHR ''a'')) \<noteq> 0"
    by code_simp
  with emergency_grant_single_use [of "calm_world empty_tables" demo_grant_ops "replicate 64 (CHR ''a'')"]
  show ?thesis by (simp add: session_inv_empty)
qed

text \<open>
  Emergency access is short: in every database reached by the operations, a session that
  the store accepts at a moment belongs to a consumed, unrevoked grant, and that moment lies
  less than one hour after the grant was created.
\<close>

theorem emergency_session_bounded:
  assumes "tb w0 = empty_tables"
    and "ActiveEmergencyAdminSession sessionHash now (run_all session_step ops w0) = (Inr g, w)"
  shows "now < eg_created_at g + hour \<and> eg_consumed_at g \<noteq> None \<and> eg_revoked_at g = None \<and>
    eg_session_hash g = Some sessionHash"
proof -
  have "session_inv (tb (run_all session_step ops w0))"
    by (rule session_contract.keeps_run_all_inv [OF session_step_keeps]) (simp add: assms session_inv_empty)
  with assms(2) show ?thesis
    by (auto simp: ActiveEmergencyAdminSession_def db_simps session_inv_def dest!: filter_eq_Cons_mem)
qed

theorem emergency_session_bounded_witness:
  "case ActiveEmergencyAdminSession (replicate 64 (CHR ''b'')) (2 * minute)
      (run_all session_step demo_grant_ops (calm_world empty_tables)) of
     (Inr g, _) \<Rightarrow> 2 * minute < eg_created_at g + hour | _ \<Rightarrow> False"
proof -
  have "case ActiveEmergencyAdminSession (replicate 64 (CHR ''b'')) (2 * minute)
      (run_all session_step demo_grant_ops (calm_world empty_tables)) of (Inr g, _) \<Rightarrow> True | _ \<Rightarrow> False"
    by code_simp
  then show ?thesis
    using emergency_session_bounded [of "calm_world empty_tables" "replicate 64 (CHR ''b'')" "2 * minute" demo_grant_ops]
    by (auto split: prod.splits sum.splits)
qed

section \<open>Closed sessions stay closed\<close>

lemma revoke_sessions_Some:
  "revoke_self_service_sessions P now t = Some (t', n, i) \<longleftrightarrow>
     t' = t\<lparr>self_service_sessions := update_where (P now) (\<lambda>s. s\<lparr>sss_revoked_at := Some now\<rparr>) (self_service_sessions t)\<rparr> \<and>
     ok_self_service_sessions t' \<and> n = count_where (P now) (self_service_sessions t) \<and> i = 0"
  by (auto simp: revoke_self_service_sessions_def Let_def)

lemma insert_audit_sessions:
  "insert_audit a now t = Some (t', r) \<Longrightarrow> self_service_sessions t' = self_service_sessions t"
  by (auto simp: insert_audit_def Let_def split: if_splits)

text \<open>A row that is revoked or past its end is never found again.\<close>

lemma dead_session_stays_dead:
  assumes inv: "session_inv (tb w)" and s: "s \<in> set (self_service_sessions (tb w))"
    and dead: "sss_revoked_at s \<noteq> None \<or> sss_expires_at s < now"
  shows "ActiveSelfServiceSession (sss_id s) user now (run_all session_step ops w) \<noteq> (Inr x, w')"
proof
  assume run: "ActiveSelfServiceSession (sss_id s) user now (run_all session_step ops w) = (Inr x, w')"
  let ?t = "tb (run_all session_step ops w)"
  have ev: "sessions_evolve (tb w) ?t"
    by (rule session_contract.keeps_run_all [OF session_step_keeps inv])
  then have "grows session_evolves (self_service_sessions (tb w)) (self_service_sessions ?t)"
    by (simp add: sessions_evolve_def)
  from grows_mem [OF this s] obtain s' where
    s': "s' \<in> set (self_service_sessions ?t)" "session_evolves s s'" by blast
  from run have x: "x \<in> set (self_service_sessions ?t)" "sss_id x = sss_id s" "session_live user now x"
    by (auto simp: ActiveSelfServiceSession_def db_simps dest!: filter_eq_Cons_mem)
  have "distinct (map sss_id (self_service_sessions ?t))"
    using ev by (simp add: sessions_evolve_def session_inv_def ok_self_service_sessions_def)
  then have "x = s'"
    using x s' by (auto simp: session_evolves_def dest: distinct_map_eq)
  with x s' dead show False by (auto simp: session_evolves_def session_live_def)
qed

text \<open>
  Logging out is final: once the audited revocation of a session succeeds, no sequence of
  later operations, for no user name and at no time, makes the store accept that session
  identifier again.
\<close>

theorem logout_is_final:
  assumes inv: "session_inv (tb w)" and out: "RevokeSelfServiceSessionWithAudit i user ip w = (Inr (), w1)"
  shows "ActiveSelfServiceSession i user' now (run_all session_step ops w1) \<noteq> (Inr s, w2)"
proof -
  have "session_step (OpRevokeSessionWithAudit i user ip) w = (Inr None, w1)"
    using out by (simp add: no_grant_def db_simps)
  from keepsD [OF session_step_keeps inv this] have inv1: "session_inv (tb w1)"
    by (simp add: sessions_evolve_def)
  let ?P = "\<lambda>s. sss_id s = i \<and> lower (sss_username s) = lower user \<and> sss_revoked_at s = None"
  from out obtain stamp x where x: "x \<in> set (self_service_sessions (tb w))" "?P x"
    and rows: "self_service_sessions (tb w1) =
      update_where ?P (\<lambda>s. s\<lparr>sss_revoked_at := Some stamp\<rparr>) (self_service_sessions (tb w))"
    by (auto simp: RevokeSelfServiceSessionWithAudit_def validateAuditIP_def db_simps
        revoke_sessions_Some dest!: count_where_Suc_ex insert_audit_sessions)
  have "x\<lparr>sss_revoked_at := Some stamp\<rparr> \<in> set (self_service_sessions (tb w1))"
    unfolding rows using x by (rule update_where_mem)
  with dead_session_stays_dead [OF inv1, of "x\<lparr>sss_revoked_at := Some stamp\<rparr>" now] x
  show ?thesis by simp
qed

definition demo_session_world :: world where
  "demo_session_world = run_all session_step [OpCreateSession ''sid'' ''Ada'' hour] (calm_world empty_tables)"

lemma session_inv_demo: "session_inv (tb demo_session_world)"
  unfolding demo_session_world_def
  by (rule session_contract.keeps_run_all_inv [OF session_step_keeps]) (simp add: session_inv_empty)

theorem logout_is_final_witness:
  "\<forall>now ops s w2. ActiveSelfServiceSession ''sid'' ''ada'' now (run_all session_step ops
     (snd (RevokeSelfServiceSessionWithAudit ''sid'' ''ada'' [] demo_session_world))) \<noteq> (Inr s, w2)"
proof -
  have "fst (RevokeSelfServiceSessionWithAudit ''sid'' ''ada'' [] demo_session_world) = Inr ()"
    by code_simp
  then show ?thesis
    using logout_is_final [OF session_inv_demo, of "''sid''" "''ada''" "[]"] by (metis prod.collapse)
qed

text \<open>
  Signing out everywhere else works: after it succeeds, every other session of the user that
  existed then is refused from then on, whatever happens later, while the current session's
  row is untouched.
\<close>

theorem sign_out_elsewhere:
  assumes inv: "session_inv (tb w)"
    and out: "RevokeOtherSelfServiceSessionsWithAudit user cur ip w = (Inr n, w1)"
    and now: "\<forall>k. clock w k \<le> now"
  shows "(\<forall>s \<in> set (self_service_sessions (tb w)). lower (sss_username s) = lower user \<longrightarrow> sss_id s \<noteq> cur \<longrightarrow>
      ActiveSelfServiceSession (sss_id s) user' now (run_all session_step ops w1) \<noteq> (Inr x, w2)) \<and>
    filter (\<lambda>s. sss_id s = cur) (self_service_sessions (tb w1)) =
    filter (\<lambda>s. sss_id s = cur) (self_service_sessions (tb w))"
proof -
  have "session_step (OpRevokeOthersWithAudit user cur ip) w = (Inr None, w1)"
    using out by (simp add: no_grant_def db_simps)
  from keepsD [OF session_step_keeps inv this] have inv1: "session_inv (tb w1)"
    by (simp add: sessions_evolve_def)
  from out obtain k where rows: "self_service_sessions (tb w1) =
      update_where (other_session user cur (current_timestamp (clock w k)))
        (\<lambda>s. s\<lparr>sss_revoked_at := Some (current_timestamp (clock w k))\<rparr>) (self_service_sessions (tb w))"
    by (auto simp: RevokeOtherSelfServiceSessionsWithAudit_def validateAuditIP_def db_simps
        revoke_sessions_Some dest!: insert_audit_sessions)
  define now' where "now' = current_timestamp (clock w k)"
  have le: "now' \<le> now"
    using now current_timestamp_le [of "clock w k"] by (simp add: now'_def) (meson order_trans)
  have "filter (\<lambda>s. sss_id s = cur) (self_service_sessions (tb w1)) =
      filter (\<lambda>s. sss_id s = cur) (self_service_sessions (tb w))"
    unfolding rows by (rule filter_update_where_other) (auto simp: other_session_def)
  moreover have "ActiveSelfServiceSession (sss_id s) user' now (run_all session_step ops w1) \<noteq> (Inr x, w2)"
    if s: "s \<in> set (self_service_sessions (tb w))" "lower (sss_username s) = lower user" "sss_id s \<noteq> cur" for s
  proof -
    let ?s = "if other_session user cur now' s then s\<lparr>sss_revoked_at := Some now'\<rparr> else s"
    have "?s \<in> set (self_service_sessions (tb w1))"
      unfolding rows set_update_where using s(1) by (auto simp: now'_def)
    moreover have "sss_revoked_at ?s \<noteq> None \<or> sss_expires_at ?s < now"
      using s le by (auto simp: other_session_def)
    moreover have "sss_id ?s = sss_id s" by simp
    ultimately show ?thesis
      using dead_session_stays_dead [OF inv1, of ?s now user' ops x w2] by simp
  qed
  ultimately show ?thesis by blast
qed

theorem sign_out_elsewhere_witness:
  "\<forall>ops x w2. ActiveSelfServiceSession ''sid'' ''ada'' (2 * minute) (run_all session_step ops
     (snd (RevokeOtherSelfServiceSessionsWithAudit ''ada'' ''other'' [] (calm_world (tb demo_session_world)))))
     \<noteq> (Inr x, w2)"
proof (intro allI)
  fix ops x w2
  let ?w = "calm_world (tb demo_session_world)"
  let ?s = "\<lparr>sss_id = ''sid'', sss_username = ''Ada'', sss_created_at = 0, sss_expires_at = hour,
      sss_revoked_at = None\<rparr>"
  have run: "RevokeOtherSelfServiceSessionsWithAudit ''ada'' ''other'' [] ?w =
      (Inr 1, snd (RevokeOtherSelfServiceSessionsWithAudit ''ada'' ''other'' [] ?w))"
    unfolding prod_eq_iff by (rule conjI, code_simp, simp)
  have s: "self_service_sessions (tb ?w) = [?s]" by code_simp
  have t: "\<forall>k. clock ?w k \<le> 2 * minute" by (simp add: calm_world_def duration_defs)
  have n: "lower (sss_username ?s) = lower ''ada''" "sss_id ?s \<noteq> ''other''" by code_simp+
  show "ActiveSelfServiceSession ''sid'' ''ada'' (2 * minute) (run_all session_step ops
     (snd (RevokeOtherSelfServiceSessionsWithAudit ''ada'' ''other'' [] ?w))) \<noteq> (Inr x, w2)"
    using sign_out_elsewhere [OF _ run t] session_inv_demo n unfolding s by simp
qed

end
