(* ===== verification/Admin_Server.thy ===== *)
theory Admin_Server
  imports Badge_Login Session_Store Permissions Directory
begin

text \<open>
  The administrative side of \<^verbatim>\<open>internal/server/server.go\<close>: the guard in front of every
  administrative route with the roles of \<^verbatim>\<open>internal/server/authorization.go\<close>, sign-in and
  sign-out, emergency access, and the handlers for users, badges and PINs.  Routing, pages and response encoding belong to the framework.
\<close>

section \<open>Configuration\<close>

record admin_env =
  ae_protect :: bool
  ae_sessions :: "Sessions option"
  ae_dir :: "directory option"
  ae_emergencyAdminEnabled :: bool
  ae_idkey :: idkey

section \<open>Authorization\<close>

definition csrf_token :: "request \<Rightarrow> string" where
  "csrf_token r = (let token = FormValue r ''_csrf'' in if token = [] then rq_Header r ''X-CSRF-Token'' else token)"

definition currentAdministrativeRoles ::
  "admin_env \<Rightarrow> string \<Rightarrow> (directory_error + Role list \<Rightarrow> 'b handler) \<Rightarrow> 'b handler" where
  "currentAdministrativeRoles env username k =
     (case ae_dir env of None \<Rightarrow> k (Inr [RoleAdmin])
      | Some d \<Rightarrow>
          (case as_administrative d of None \<Rightarrow> k (Inr [RoleAdmin])
           | Some a \<Rightarrow> consult (\<lambda>n. AdministrativeRoles a n username) k))"

definition authorizationDenied :: "directory_error \<Rightarrow> 'b handler" where
  "authorizationDenied e =
     (if e = ErrNotAuthorized then reply (Problem 403 ''authorization_required'')
      else reply (Problem 503 ''authorization_unavailable''))"

text \<open>The session part of the guard, reached without an active emergency session.\<close>

definition admin_session_guard :: "admin_env \<Rightarrow> request \<Rightarrow> (Role list \<Rightarrow> 'b handler) \<Rightarrow> 'b handler" where
  "admin_session_guard env r next =
     (let unauthenticated = (if HasPrefix (rq_Path r) ''/api/'' then reply (Problem 401 ''authentication_required'')
                             else reply (Redirect ''/login'')) in
      case Cookie r ''swbadge_admin'' of None \<Rightarrow> unauthenticated
      | Some c \<Rightarrow>
          (case ae_sessions env of None \<Rightarrow> reply Aborted
           | Some ss \<Rightarrow> with_now (\<lambda>now. case VerifySession ss c now of Inl _ \<Rightarrow> unauthenticated
               | Inr username \<Rightarrow>
                   if rq_Path r = ''/logout'' then
                     (if \<not> VerifyCSRF ss c (csrf_token r) then reply (Problem 403 ''csrf_invalid'') else next [])
                   else currentAdministrativeRoles env username (\<lambda>found. case found of
                       Inl e \<Rightarrow> authorizationDenied e
                     | Inr roles \<Rightarrow>
                         if \<not> Allowed (requiredAdministrativePermission (rq_Method r) (rq_Path r)) roles
                         then reply (Problem 403 ''authorization_required'')
                         else if mutating_method (rq_Method r) \<and> \<not> VerifyCSRF ss c (csrf_token r)
                         then reply (Problem 403 ''csrf_invalid'')
                         else next roles))))"

definition adminGuard :: "admin_env \<Rightarrow> request \<Rightarrow> (Role list \<Rightarrow> 'b handler) \<Rightarrow> 'b handler" where
  "adminGuard env r next =
     (if \<not> ae_protect env \<or> public_path (rq_Path r) then next []
      else case Cookie r ''swbadge_emergency_admin'' of None \<Rightarrow> admin_session_guard env r next
      | Some c \<Rightarrow>
          (case ae_sessions env of None \<Rightarrow> reply Aborted
           | Some ss \<Rightarrow> with_now (\<lambda>now1. case VerifyFor ss c ''emergency-admin'' now1 of
               Inl _ \<Rightarrow> admin_session_guard env r next
             | Inr sessionID \<Rightarrow> with_now (\<lambda>now2.
                 call (ActiveEmergencyAdminSession (hex_encode (sha256 sessionID)) now2)
                   (\<lambda>_. admin_session_guard env r next) (\<lambda>_.
                   if mutating_method (rq_Method r) \<and> \<not> VerifyCSRF ss c (csrf_token r)
                   then reply (Problem 403 ''csrf_invalid'')
                   else next [RoleAdmin])))))"

section \<open>Sign-in and sign-out\<close>

definition authenticate_administrator ::
  "directory \<Rightarrow> string \<Rightarrow> string \<Rightarrow> (directory_error + directory_user \<Rightarrow> 'b handler) \<Rightarrow> 'b handler" where
  "authenticate_administrator d username password k =
     (case as_administrative d of
        Some a \<Rightarrow> consult (\<lambda>n. map_sum id fst (AuthenticateAdministrative a n username password)) k
      | None \<Rightarrow> consult (\<lambda>n. AuthenticateAdmin d n username password) k)"

text \<open>The rest of \<^verbatim>\<open>login\<close> once the directory has answered.\<close>

definition finish_login :: "admin_env \<Rightarrow> string \<Rightarrow> string \<Rightarrow> directory_error + directory_user \<Rightarrow> unit handler" where
  "finish_login env ip username result =
     (case result of
        Inl _ \<Rightarrow> asks (loginFailed ip) (\<lambda>_.
          audit (audit_event ''admin_login'' [] username [] False ip ''invalid_credentials'')
            (reply (Redirect ''/login?error=1'')))
      | Inr u \<Rightarrow> asks (loginSucceeded ip) (\<lambda>_.
          call (WriteAudit (audit_event ''admin_login'' [] (du_Username u) [] True ip []))
            (\<lambda>_. reply (Problem 503 ''authentication_unavailable'')) (\<lambda>_.
            case ae_sessions env of None \<Rightarrow> reply Aborted
            | Some ss \<Rightarrow> with_now (\<lambda>now.
                reply (RedirectCookies [(''swbadge_admin'', Issue ss (du_Username u) now, 3600)] ''/'')))))"

definition login :: "admin_env \<Rightarrow> request \<Rightarrow> unit handler" where
  "login env r =
     (if \<not> ae_protect env then reply NotFound
      else let ip = remoteIP r in asks (loginAllowed ip) (\<lambda>allowed.
        if \<not> allowed then reply (Problem 429 ''login_rate_limited'')
        else let username = TrimSpace (FormValue r ''username'') in
          case ae_dir env of None \<Rightarrow> reply Aborted
          | Some d \<Rightarrow> authenticate_administrator d username (FormValue r ''password'') (finish_login env ip username)))"

text \<open>The cookies that sign-out clears.\<close>

definition cleared :: "string \<Rightarrow> string \<times> string \<times> int" where
  "cleared name = (name, [], - 1)"

definition logout :: "admin_env \<Rightarrow> request \<Rightarrow> unit handler" where
  "logout env r =
     (let finish = reply (RedirectCookies [cleared ''swbadge_admin'', cleared ''swbadge_emergency_admin''] ''/login'') in
      case (Cookie r ''swbadge_emergency_admin'', ae_sessions env) of
        (Some c, Some ss) \<Rightarrow> with_now (\<lambda>now. case VerifyFor ss c ''emergency-admin'' now of Inl _ \<Rightarrow> finish
          | Inr sessionID \<Rightarrow>
              call (RevokeEmergencyAdminSessionWithAudit (hex_encode (sha256 sessionID)) (remoteIP r))
                (\<lambda>e. if e \<noteq> ErrNoRows then reply (Problem 503 ''logout_unavailable'') else finish) (\<lambda>_. finish))
      | _ \<Rightarrow> finish)"

definition emergencyLogin :: "admin_env \<Rightarrow> request \<Rightarrow> unit handler" where
  "emergencyLogin env r =
     (if \<not> ae_protect env \<or> \<not> ae_emergencyAdminEnabled env then reply NotFound
      else let ip = remoteIP r; limit = ''emergency:'' @ ip in asks (loginAllowed limit) (\<lambda>allowed.
        if \<not> allowed then reply (Problem 429 ''login_rate_limited'')
        else let token = TrimSpace (FormValue r ''token'');
                 rejected = asks (loginFailed limit) (\<lambda>_. reply (Redirect ''/emergency-login?error=1'')) in
          if length token < 32 \<or> length token > 256 then rejected
          else call rand_m (\<lambda>_. reply (Problem 503 ''authentication_unavailable'')) (\<lambda>raw.
            let sessionID = RawURL_encode raw in with_now (\<lambda>now.
            call (ConsumeEmergencyAdminGrantWithAudit (hex_encode (sha256 token)) (hex_encode (sha256 sessionID)) now ip)
              (\<lambda>_. rejected) (\<lambda>grant.
              asks (loginSucceeded limit) (\<lambda>_. let life = time_sub (eg_expires_at grant) now in
              if life \<le> 0 \<or> life > hour then reply (Problem 503 ''authentication_unavailable'')
              else case ae_sessions env of None \<Rightarrow> reply Aborted
                | Some ss \<Rightarrow> reply (RedirectCookies
                    [cleared ''swbadge_admin'',
                     (''swbadge_emergency_admin'', IssueForDuration ss ''emergency-admin'' sessionID now life, life div second)]
                    ''/'')))))))"

section \<open>Users and PINs\<close>

text \<open>
  \<^verbatim>\<open>strconv.ParseInt\<close> where the error is dropped: 0 for a syntax error, the nearest bound for a
  number out of range.
\<close>

definition ParseInt_value :: "string \<Rightarrow> int" where
  "ParseInt_value s =
     (case ParseInt s of Some n \<Rightarrow> n
      | None \<Rightarrow>
          (let neg = (s \<noteq> [] \<and> hd s = CHR ''-''); ds = (if s \<noteq> [] \<and> (hd s = CHR ''-'' \<or> hd s = CHR ''+'') then tl s else s)
           in if ds = [] \<or> read_nat 0 ds = None then 0 else if neg then min_int64 else max_int64))"

text \<open>\<^verbatim>\<open>badge.GenerateToken\<close> and \<^verbatim>\<open>userpin.Hash\<close> with the random source of the process.\<close>

definition generate_token :: "'b handler \<Rightarrow> (string \<Rightarrow> 'b handler) \<Rightarrow> 'b handler" where
  "generate_token failed k =
     call rand_m (\<lambda>_. failed) (\<lambda>bytes. case GenerateToken (Some bytes) of Inl _ \<Rightarrow> failed | Inr t \<Rightarrow> k t)"

definition hash_pin :: "idkey \<Rightarrow> string \<Rightarrow> 'b handler \<Rightarrow> (string \<Rightarrow> 'b handler) \<Rightarrow> 'b handler" where
  "hash_pin idkey v failed k =
     (if Hash idkey v None = Inl PinLength then failed
      else call rand_m (\<lambda>_. failed) (\<lambda>salt. case Hash idkey v (Some salt) of Inl _ \<Rightarrow> failed | Inr h \<Rightarrow> k h))"

definition directoryUsers :: "admin_env \<Rightarrow> directory_user list handler" where
  "directoryUsers env =
     (case ae_dir env of None \<Rightarrow> reply (Problem 503 ''directory_disabled'')
      | Some d \<Rightarrow> consult (ListUsers d) (\<lambda>found. case found of Inl _ \<Rightarrow> reply (Problem 502 ''directory_unavailable'')
          | Inr us \<Rightarrow> reply (Json 200 us)))"

definition importDirectoryUser :: "admin_env \<Rightarrow> request \<Rightarrow> unit handler" where
  "importDirectoryUser env r =
     (case ae_dir env of None \<Rightarrow> reply (Problem 503 ''directory_disabled'')
      | Some d \<Rightarrow> consult (\<lambda>n. GetDirectoryUser d n (TrimSpace (FormValue r ''username''))) (\<lambda>found. case found of
          Inl _ \<Rightarrow> reply (Problem 404 ''directory_user_not_found'')
        | Inr u \<Rightarrow>
            call (CreateUserWithAudit (du_Username u) (du_DisplayName u) (du_DN u) ''directory_user_imported'' (remoteIP r))
              (\<lambda>_. reply (Redirect ''/users?status=already_imported''))
              (\<lambda>_. reply (Redirect ''/users?status=imported''))))"

definition setUserPIN :: "admin_env \<Rightarrow> request \<Rightarrow> unit handler" where
  "setUserPIN env r =
     (case ParseInt (rq_PathValue_id r) of None \<Rightarrow> reply (Problem 400 ''invalid_id'')
      | Some n \<Rightarrow>
          call (GetUser n) (\<lambda>_. reply (Problem 404 ''user_unknown'')) (\<lambda>_.
            let pin = FormValue r ''pin'';
                store = (\<lambda>hash event. call (SetUserPINWithAudit n hash event (remoteIP r))
                  (\<lambda>_. reply (Problem 500 ''database_error'')) (\<lambda>_. reply (Redirect ''/users'')))
            in if pin = [] then store [] ''pin_disabled''
               else hash_pin (ae_idkey env) pin (reply (Problem 400 ''invalid_pin'')) (\<lambda>hash. store hash ''pin_enabled'')))"

record user_input =
  ui_Username :: string
  ui_DisplayName :: string
  ui_DirectoryDN :: string

definition users_handler :: "request \<Rightarrow> user_input option \<Rightarrow> (User list + User) handler" where
  "users_handler r body =
     (if rq_Method r = ''GET'' then
        call Users (\<lambda>_. reply (Problem 500 ''database_error'')) (\<lambda>v. reply (Json 200 (Inl v)))
      else case body of None \<Rightarrow> reply (Problem 400 ''invalid_request'')
        | Some inp \<Rightarrow>
            if TrimSpace (ui_Username inp) = [] then reply (Problem 400 ''invalid_request'')
            else let display = (if ui_DisplayName inp = [] then ui_Username inp else ui_DisplayName inp) in
              call (CreateUserWithAudit (ui_Username inp) display (ui_DirectoryDN inp) ''user_created'' (remoteIP r))
                (\<lambda>_. reply (Problem 409 ''user_exists'')) (\<lambda>u. reply (Json 201 (Inr u))))"

definition user_handler :: "request \<Rightarrow> User handler" where
  "user_handler r =
     (case ParseInt (rq_PathValue_id r) of None \<Rightarrow> reply (Problem 400 ''invalid_id'')
      | Some n \<Rightarrow> call (GetUser n)
          (\<lambda>e. if e = ErrNoRows then reply (Problem 404 ''user_unknown'') else reply (Problem 500 ''database_error''))
          (\<lambda>u. reply (Json 200 u)))"

section \<open>Badges\<close>

definition createBadge ::
  "admin_env \<Rightarrow> request \<Rightarrow> int \<Rightarrow> string \<Rightarrow> 'b handler \<Rightarrow> (Badge \<Rightarrow> string \<Rightarrow> 'b handler) \<Rightarrow> 'b handler" where
  "createBadge env r user desc failed k =
     call (GetUser user) (\<lambda>_. failed) (\<lambda>u.
       let create = generate_token failed (\<lambda>t.
             call (CreateBadgeWithAudit user (HashToken t) desc (remoteIP r)) (\<lambda>_. failed) (\<lambda>b. k b t))
       in case ae_dir env of None \<Rightarrow> create
          | Some d \<Rightarrow> consult (\<lambda>n. UserExists d n (User_Username u)) (\<lambda>found.
              if found = Inr True then create else failed))"

text \<open>The decoded body of a badge creation: user and description.\<close>

definition badges_handler :: "admin_env \<Rightarrow> request \<Rightarrow> (int \<times> string) option \<Rightarrow> (Badge list + Badge \<times> string) handler" where
  "badges_handler env r body =
     (if rq_Method r = ''GET'' then
        call Badges (\<lambda>_. reply (Problem 500 ''database_error'')) (\<lambda>v. reply (Json 200 (Inl v)))
      else case body of None \<Rightarrow> reply (Problem 400 ''invalid_request'')
        | Some (user, desc) \<Rightarrow>
            if user < 1 then reply (Problem 400 ''invalid_request'')
            else createBadge env r user desc (reply (Problem 400 ''user_unknown''))
              (\<lambda>b t. reply (Json 201 (Inr (b, Payload (Badge_BadgeCode b) t)))))"

definition badge_handler :: "request \<Rightarrow> Badge handler" where
  "badge_handler r =
     (case ParseInt (rq_PathValue_id r) of None \<Rightarrow> reply (Problem 400 ''invalid_id'')
      | Some n \<Rightarrow> call (GetBadge n)
          (\<lambda>e. if e = ErrNoRows then reply (Problem 404 ''badge_unknown'') else reply (Problem 500 ''database_error''))
          (\<lambda>b. reply (Json 200 b)))"

definition revoke :: "request \<Rightarrow> unit handler" where
  "revoke r =
     (case ParseInt (rq_PathValue_id r) of None \<Rightarrow> reply (Problem 400 ''invalid_id'')
      | Some n \<Rightarrow> call (RevokeBadgeWithAudit n (remoteIP r))
          (\<lambda>e. if e = ErrNoRows then reply (Problem 404 ''badge_unknown'') else reply (Problem 500 ''database_error''))
          (\<lambda>_. reply NoContent))"

definition replace :: "request \<Rightarrow> (Badge \<times> string) handler" where
  "replace r =
     (case ParseInt (rq_PathValue_id r) of None \<Rightarrow> reply (Problem 400 ''invalid_id'')
      | Some n \<Rightarrow> call (GetBadge n) (\<lambda>_. reply (Problem 404 ''badge_unknown'')) (\<lambda>old.
          generate_token (reply (Problem 500 ''token_generation_failed'')) (\<lambda>t.
            call (ReplaceBadgePendingWithAudit n (HashToken t) (''Replacement for '' @ Badge_BadgeCode old) (remoteIP r))
              (\<lambda>_. reply (Problem 500 ''database_error''))
              (\<lambda>b. reply (Json 201 (b, Payload (Badge_BadgeCode b) t))))))"

text \<open>The QR code of a payload; its encoding is the library's.\<close>

definition qr :: "(string \<Rightarrow> string option) \<Rightarrow> request \<Rightarrow> string handler" where
  "qr encode r =
     (let payload = values_get (rq_Query r) ''payload'' in
      case (ParsePayload payload, ParseInt (rq_PathValue_id r)) of
        (Inr (c, _), Some n) \<Rightarrow>
          call (GetBadge n) (\<lambda>_. reply (Problem 404 ''badge_unknown'')) (\<lambda>b.
            if Badge_BadgeCode b \<noteq> c then reply (Problem 404 ''badge_unknown'')
            else case encode payload of None \<Rightarrow> reply (Problem 500 ''qrcode_error'') | Some png \<Rightarrow> reply (Json 200 png))
      | _ \<Rightarrow> reply (Problem 400 ''invalid_payload''))"

section \<open>Forms\<close>

definition webCreateUser :: "request \<Rightarrow> unit handler" where
  "webCreateUser r =
     (if \<not> rq_ParseForm_ok r then reply (Redirect ''/users'')
      else let u = TrimSpace (FormValue r ''username''); d = TrimSpace (FormValue r ''display_name'');
               display = (if d = [] then u else d) in
        if u = [] then reply (Redirect ''/users'')
        else call (CreateUserWithAudit u display [] ''user_created'' (remoteIP r))
          (\<lambda>_. reply (Redirect ''/users?error=unavailable'')) (\<lambda>_. reply (Redirect ''/users'')))"

definition webCreateBadge :: "admin_env \<Rightarrow> request \<Rightarrow> unit handler" where
  "webCreateBadge env r =
     createBadge env r (ParseInt_value (FormValue r ''user_id'')) (FormValue r ''description'') (reply (Redirect ''/badges''))
       (\<lambda>b t. reply (Redirect (''/badges?payload='' @ Payload (Badge_BadgeCode b) t)))"

definition webRevoke :: "request \<Rightarrow> unit handler" where
  "webRevoke r =
     call (RevokeBadgeWithAudit (ParseInt_value (rq_PathValue_id r)) (remoteIP r))
       (\<lambda>_. reply (Redirect ''/badges?error=unavailable'')) (\<lambda>_. reply (Redirect ''/badges''))"

definition webReplace :: "request \<Rightarrow> unit handler" where
  "webReplace r =
     call (GetBadge (ParseInt_value (rq_PathValue_id r))) (\<lambda>_. reply (Redirect ''/badges'')) (\<lambda>old.
       if ParseInt (rq_PathValue_id r) = None \<or> \<not> Badge_Enabled old then reply (Redirect ''/badges'')
       else generate_token (reply (Redirect ''/badges'')) (\<lambda>t.
         call (ReplaceBadgePendingWithAudit (Badge_ID old) (HashToken t) (''Replacement for '' @ Badge_BadgeCode old) (remoteIP r))
           (\<lambda>_. reply (Redirect ''/badges''))
           (\<lambda>b. reply (Redirect (''/badges?payload='' @ Payload (Badge_BadgeCode b) t)))))"

end
