(* ===== verification/Self_Service.thy ===== *)
theory Self_Service
  imports Admin_Server
begin

text \<open>
  The self-service portal of \<^verbatim>\<open>internal/server/server.go\<close>: sign-in against the directory, and
  what a signed-in user may do to the own PIN, badges and sessions.  The page itself is not
  modelled.
\<close>

definition selfServiceSession ::
  "admin_env \<Rightarrow> request \<Rightarrow> 'b handler \<Rightarrow> (Sessions \<Rightarrow> string \<Rightarrow> string \<Rightarrow> string \<Rightarrow> 'b handler) \<Rightarrow> 'b handler" where
  "selfServiceSession env r failed k =
     (if \<not> ae_protect env then failed
      else case ae_sessions env of None \<Rightarrow> failed
      | Some ss \<Rightarrow>
          (case Cookie r ''swbadge_selfservice'' of None \<Rightarrow> failed
           | Some c \<Rightarrow> with_now (\<lambda>now1. case VerifyFor ss c ''self-service'' now1 of Inl _ \<Rightarrow> failed
               | Inr identity \<Rightarrow> let parts = Split (CHR 0x1F) identity in
                   if length parts \<noteq> 2 \<or> parts ! 0 = [] \<or> parts ! 1 = [] then failed
                   else with_now (\<lambda>now2. call (ActiveSelfServiceSession (parts ! 1) (parts ! 0) now2)
                     (\<lambda>_. failed) (\<lambda>_. k ss (parts ! 0) (parts ! 1) c)))))"

definition session_expired :: "unit handler" where
  "session_expired = reply (Redirect ''/self-service?error=session_expired'')"

definition unavailable :: "unit handler" where
  "unavailable = reply (Redirect ''/self-service?error=unavailable'')"

definition create_self_service_session :: "Sessions \<Rightarrow> User \<Rightarrow> string \<Rightarrow> unit handler" where
  "create_self_service_session ss local ip =
     generate_token unavailable (\<lambda>sessionID. with_now (\<lambda>now1.
       call (CreateSelfServiceSessionWithAudit sessionID (User_Username local) (now1 + 15 * minute) ip)
         (\<lambda>_. unavailable) (\<lambda>_. with_now (\<lambda>now2.
         reply (RedirectCookies [(''swbadge_selfservice'',
            IssueForDuration ss ''self-service'' (User_Username local @ [CHR 0x1F] @ sessionID) now2 (15 * minute), 900)]
            ''/self-service'')))))"

definition selfServiceLogin :: "admin_env \<Rightarrow> request \<Rightarrow> unit handler" where
  "selfServiceLogin env r =
     (case (ae_protect env, ae_dir env, ae_sessions env) of
        (True, Some d, Some ss) \<Rightarrow>
          (let ip = remoteIP r; limit = ''self-service:'' @ ip in asks (loginAllowed limit) (\<lambda>allowed.
             if \<not> allowed then reply (Redirect ''/self-service?error=rate_limited'')
             else let username = TrimSpace (FormValue r ''username'') in
               consult (\<lambda>n. AuthenticateUser d n username (FormValue r ''password'')) (\<lambda>found. case found of
                 Inl _ \<Rightarrow> asks (loginFailed limit) (\<lambda>_.
                   audit (audit_event ''self_service_login'' [] username [] False ip [])
                     (reply (Redirect ''/self-service?error=invalid_credentials'')))
               | Inr u \<Rightarrow> asks (loginSucceeded limit) (\<lambda>_.
                   call (UserByUsername (du_Username u))
                     (\<lambda>e. if e = ErrNoRows
                        then call (CreateUserWithAudit (du_Username u) (du_DisplayName u) (du_DN u)
                                ''self_service_user_provisioned'' ip)
                          (\<lambda>_. unavailable) (\<lambda>local. create_self_service_session ss local ip)
                        else unavailable)
                     (\<lambda>local. create_self_service_session ss local ip)))))
      | _ \<Rightarrow> reply NotFound)"

definition validSelfServicePIN :: "string \<Rightarrow> bool" where
  "validSelfServicePIN v \<longleftrightarrow> \<not> (length v < 4 \<or> length v > 12) \<and> (\<forall>c \<in> set v. is_digit c)"

text \<open>
  The handlers of a signed-in user check the session and its CSRF token; what follows is a
  definition of its own.
\<close>

definition set_own_pin :: "admin_env \<Rightarrow> request \<Rightarrow> string \<Rightarrow> unit handler" where
  "set_own_pin env r username =
     (let pin = FormValue r ''pin'' in
      if pin \<noteq> FormValue r ''pin_confirm'' \<or> \<not> validSelfServicePIN pin
      then reply (Redirect ''/self-service?error=invalid_pin'')
      else call (UserByUsername username) (\<lambda>_. unavailable) (\<lambda>u.
        hash_pin (ae_idkey env) pin unavailable (\<lambda>hash.
          call (SetUserPINWithAudit (User_ID u) hash ''pin_self_service_changed'' (remoteIP r))
            (\<lambda>_. unavailable) (\<lambda>_. reply (Redirect ''/self-service?status=pin_updated'')))))"

definition selfServiceSetPIN :: "admin_env \<Rightarrow> request \<Rightarrow> unit handler" where
  "selfServiceSetPIN env r =
     selfServiceSession env r session_expired (\<lambda>ss username _ token.
       if \<not> VerifyCSRF ss token (FormValue r ''_csrf'') then reply (Problem 403 ''csrf_invalid'')
       else set_own_pin env r username)"

definition revoke_own_badge :: "request \<Rightarrow> string \<Rightarrow> unit handler" where
  "revoke_own_badge r username =
     (case ParseInt (rq_PathValue_id r) of None \<Rightarrow> reply (Redirect ''/self-service?error=badge_unavailable'')
      | Some badgeID \<Rightarrow>
          if badgeID < 1 then reply (Redirect ''/self-service?error=badge_unavailable'')
          else call (UserByUsername username) (\<lambda>_. unavailable) (\<lambda>u.
            call (RevokeActiveBadgeForUserWithAudit badgeID (User_ID u) (remoteIP r))
              (\<lambda>_. reply (Redirect ''/self-service?error=badge_unavailable''))
              (\<lambda>_. reply (Redirect ''/self-service?status=badge_revoked''))))"

definition selfServiceRevokeBadge :: "admin_env \<Rightarrow> request \<Rightarrow> unit handler" where
  "selfServiceRevokeBadge env r =
     selfServiceSession env r session_expired (\<lambda>ss username _ token.
       if \<not> VerifyCSRF ss token (FormValue r ''_csrf'') then reply (Problem 403 ''csrf_invalid'')
       else revoke_own_badge r username)"

text \<open>The two lookups are made before the payload's error is looked at; its code is then empty.\<close>

definition activate_own_badge :: "request \<Rightarrow> string \<Rightarrow> unit handler" where
  "activate_own_badge r username =
     (let parsed = ParsePayload (TrimSpace (FormValue r ''payload''));
          code = (case parsed of Inr (c, _) \<Rightarrow> c | Inl _ \<Rightarrow> []);
          invalid = reply (Redirect ''/self-service?error=activation_invalid'') in
      call (attempt (UserByUsername username)) (\<lambda>_. invalid) (\<lambda>user.
      call (attempt (BadgeByCode code)) (\<lambda>_. invalid) (\<lambda>found.
        case (parsed, user, found) of
          (Inr (_, token), Inr u, Inr b) \<Rightarrow>
            if Badge_UserID b \<noteq> User_ID u \<or> \<not> Badge_ActivationPending b \<or> Badge_Enabled b \<or>
               \<not> VerifyToken token (Badge_TokenHash b) then invalid
            else call (ActivatePendingBadgeForUserWithAudit (Badge_ID b) (User_ID u) (remoteIP r)) (\<lambda>_. invalid)
              (\<lambda>_. reply (Redirect ''/self-service?status=badge_activated''))
        | _ \<Rightarrow> invalid)))"

definition selfServiceActivateBadge :: "admin_env \<Rightarrow> request \<Rightarrow> unit handler" where
  "selfServiceActivateBadge env r =
     selfServiceSession env r session_expired (\<lambda>ss username _ sessionToken.
       if \<not> VerifyCSRF ss sessionToken (FormValue r ''_csrf'') then reply (Problem 403 ''csrf_invalid'')
       else activate_own_badge r username)"

definition selfServiceLogoutOthers :: "admin_env \<Rightarrow> request \<Rightarrow> unit handler" where
  "selfServiceLogoutOthers env r =
     selfServiceSession env r session_expired (\<lambda>ss username sessionID token.
       if \<not> VerifyCSRF ss token (FormValue r ''_csrf'') then reply (Problem 403 ''csrf_invalid'')
       else call (RevokeOtherSelfServiceSessionsWithAudit username sessionID (remoteIP r))
         (\<lambda>_. unavailable) (\<lambda>_. reply (Redirect ''/self-service?status=sessions_revoked'')))"

definition selfServiceLogout :: "admin_env \<Rightarrow> request \<Rightarrow> unit handler" where
  "selfServiceLogout env r =
     (let finish = reply (RedirectCookies [cleared ''swbadge_selfservice''] ''/self-service'') in
      selfServiceSession env r finish (\<lambda>ss username sessionID token.
        if \<not> VerifyCSRF ss token (FormValue r ''_csrf'') then reply (Problem 403 ''csrf_invalid'')
        else call (RevokeSelfServiceSessionWithAudit sessionID username (remoteIP r))
          (\<lambda>_. reply (Problem 503 ''logout_unavailable'')) (\<lambda>_. finish)))"

end
