(* ===== verification/Access_Rules.thy ===== *)
theory Access_Rules
  imports Self_Service
begin

text \<open>
  Who may do what over HTTP: the guard of the administrative routes, the way from sign-in to
  access, and the rows a self-service request can reach.
\<close>

section \<open>What the guard lets through\<close>

text \<open>An active emergency session, and an administrator session whose current roles suffice.\<close>

definition emergency_access :: "admin_env \<Rightarrow> request \<Rightarrow> srv \<Rightarrow> bool" where
  "emergency_access env r s \<longleftrightarrow> (\<exists>ss c sessionID g now now'. ae_sessions env = Some ss \<and>
     Cookie r ''swbadge_emergency_admin'' = Some c \<and> VerifyFor ss c ''emergency-admin'' now' = Inr sessionID \<and>
     g \<in> set (emergency_admin_grants (tb (wd s))) \<and> eg_session_hash g = Some (hex_encode (sha256 sessionID)) \<and>
     eg_consumed_at g \<noteq> None \<and> eg_revoked_at g = None \<and> now < eg_expires_at g \<and>
     request_time s now' \<and> request_time s now \<and> (mutating_method (rq_Method r) \<longrightarrow> VerifyCSRF ss c (csrf_token r)))"

definition roles_of :: "admin_env \<Rightarrow> string \<Rightarrow> nat \<Rightarrow> Role list option" where
  "roles_of env username n =
     (case ae_dir env of None \<Rightarrow> Some [RoleAdmin]
      | Some d \<Rightarrow> (case as_administrative d of None \<Rightarrow> Some [RoleAdmin]
          | Some a \<Rightarrow> (case AdministrativeRoles a n username of Inl _ \<Rightarrow> None | Inr roles \<Rightarrow> Some roles)))"

definition administrator_access :: "admin_env \<Rightarrow> request \<Rightarrow> Role list \<Rightarrow> srv \<Rightarrow> bool" where
  "administrator_access env r roles s \<longleftrightarrow> (\<exists>ss c username now n. ae_sessions env = Some ss \<and>
     Cookie r ''swbadge_admin'' = Some c \<and> VerifySession ss c now = Inr username \<and> request_time s now \<and>
     (if rq_Path r = ''/logout'' then VerifyCSRF ss c (csrf_token r)
      else roles_of env username n = Some roles \<and> steps (wd s) \<le> n \<and>
        Allowed (requiredAdministrativePermission (rq_Method r) (rq_Path r)) roles \<and>
        (mutating_method (rq_Method r) \<longrightarrow> VerifyCSRF ss c (csrf_token r))))"

lemma request_time_step: "k \<ge> steps (wd s) \<Longrightarrow> request_time s (clock (wd s) k)"
  by (auto simp: request_time_def)

lemma session_guard_cases:
  assumes "admin_session_guard env r next s = (resp, s')"
  obtains "tb (wd s') = tb (wd s)" "\<And>n b. resp \<noteq> Json n b" "resp \<noteq> NoContent"
  | roles s1 where "administrator_access env r roles s" "next roles s1 = (resp, s')" "tb (wd s1) = tb (wd s)" "later s s1"
proof -
  show thesis
  proof (cases "tb (wd s') = tb (wd s) \<and> (\<forall>n b. resp \<noteq> Json n b) \<and> resp \<noteq> NoContent")
    case True
    then show thesis using that(1) by blast
  next
    case False
    let ?now = "clock (wd s) (steps (wd s))" and ?s1 = "s\<lparr>wd := tick (wd s)\<rparr>" and ?s2 = "s\<lparr>wd := tick (tick (wd s))\<rparr>"
    from assms False obtain c ss username where c: "Cookie r ''swbadge_admin'' = Some c" "ae_sessions env = Some ss"
        "VerifySession ss c ?now = Inr username"
      by (auto simp: admin_session_guard_def Let_def http_simps split: option.splits sum.splits if_splits)
    with assms False have "\<exists>roles s1. (s1 = ?s1 \<or> s1 = ?s2) \<and> next roles s1 = (resp, s') \<and>
       (if rq_Path r = ''/logout'' then VerifyCSRF ss c (csrf_token r)
        else roles_of env username (Suc (steps (wd s))) = Some roles \<and>
        Allowed (requiredAdministrativePermission (rq_Method r) (rq_Path r)) roles \<and>
        (mutating_method (rq_Method r) \<longrightarrow> VerifyCSRF ss c (csrf_token r)))"
      by (auto simp: admin_session_guard_def Let_def http_simps currentAdministrativeRoles_def roles_of_def
          authorizationDenied_def split: option.splits sum.splits if_splits)
    then obtain roles s1 where r: "s1 = ?s1 \<or> s1 = ?s2" "next roles s1 = (resp, s')"
       "if rq_Path r = ''/logout'' then VerifyCSRF ss c (csrf_token r)
        else roles_of env username (Suc (steps (wd s))) = Some roles \<and>
        Allowed (requiredAdministrativePermission (rq_Method r) (rq_Path r)) roles \<and>
        (mutating_method (rq_Method r) \<longrightarrow> VerifyCSRF ss c (csrf_token r))" by blast
    have "administrator_access env r roles s"
      unfolding administrator_access_def
      by (intro exI [of _ ss] exI [of _ c] exI [of _ username] exI [of _ ?now] exI [of _ "Suc (steps (wd s))"])
        (use c r(3) in \<open>auto split: if_splits\<close>)
    then show thesis using r(1,2) by (intro that(2) [of roles s1]) (auto simp: later_def)
  qed
qed

lemma administrator_access_earlier:
  assumes "administrator_access env r roles s1" "later s s1"
  shows "administrator_access env r roles s"
proof -
  from assms(1) obtain ss c username now n where a: "ae_sessions env = Some ss" "Cookie r ''swbadge_admin'' = Some c"
    "VerifySession ss c now = Inr username" "request_time s1 now"
    "if rq_Path r = ''/logout'' then VerifyCSRF ss c (csrf_token r)
      else roles_of env username n = Some roles \<and> steps (wd s1) \<le> n \<and>
        Allowed (requiredAdministrativePermission (rq_Method r) (rq_Path r)) roles \<and>
        (mutating_method (rq_Method r) \<longrightarrow> VerifyCSRF ss c (csrf_token r))"
    unfolding administrator_access_def by blast
  then have "request_time s now" "steps (wd s1) \<le> n \<Longrightarrow> steps (wd s) \<le> n"
    using later_request_time [OF assms(2)] assms(2) by (auto simp: later_def)
  with a show ?thesis unfolding administrator_access_def
    by (intro exI [of _ ss] exI [of _ c] exI [of _ username] exI [of _ now] exI [of _ n]) (auto split: if_splits)
qed

lemma guard_cases:
  assumes "ae_protect env" "\<not> public_path (rq_Path r)" "adminGuard env r next s = (resp, s')"
  obtains (refused) "tb (wd s') = tb (wd s)" "\<And>n b. resp \<noteq> Json n b" "resp \<noteq> NoContent"
  | (passed) roles s1 where "emergency_access env r s \<and> roles = [RoleAdmin] \<or> administrator_access env r roles s"
      "next roles s1 = (resp, s')" "tb (wd s1) = tb (wd s)"
proof -
  have session: thesis if run: "admin_session_guard env r next s1 = (resp, s')" and l: "later s s1" "tb (wd s1) = tb (wd s)" for s1
    using run
  proof (cases rule: session_guard_cases)
    case 1
    then show thesis using refused l(2) by simp
  next
    case (2 roles s2)
    then show thesis using passed [of roles s2] administrator_access_earlier [OF 2(1) l(1)] l(2) by simp
  qed
  show thesis
  proof (cases "Cookie r ''swbadge_emergency_admin''")
    case None
    then show thesis using assms by (intro session [of s]) (simp_all add: adminGuard_def)
  next
    case (Some c)
    show thesis
    proof (cases "ae_sessions env")
      case None
      with Some assms show thesis by (intro refused) (auto simp: adminGuard_def http_simps)
    next
      case (Some ss)
      let ?now1 = "clock (wd s) (steps (wd s))" and ?now2 = "clock (wd s) (Suc (steps (wd s)))"
      show thesis
      proof (cases "VerifyFor ss c ''emergency-admin'' ?now1")
        case (Inl e)
        then have "admin_session_guard env r next (s\<lparr>wd := tick (wd s)\<rparr>) = (resp, s')"
          using assms Some \<open>Cookie r _ = Some c\<close> by (simp add: adminGuard_def with_now_def)
        then show thesis by (rule session) (simp_all add: later_def)
      next
        case (Inr sessionID)
        obtain found w where act: "ActiveEmergencyAdminSession (hex_encode (sha256 sessionID)) ?now2 (tick (tick (wd s))) = (found, w)"
          by fastforce
        then have w: "w = tick (tick (tick (wd s)))"
          by (auto simp: ActiveEmergencyAdminSession_def query_row_def split: if_splits list.splits)
        have run: "adminGuard env r next s = (case found of Inl _ \<Rightarrow> admin_session_guard env r next (s\<lparr>wd := w\<rparr>)
            | Inr _ \<Rightarrow> (if mutating_method (rq_Method r) \<and> \<not> VerifyCSRF ss c (csrf_token r)
                   then reply (Problem 403 ''csrf_invalid'') else next [RoleAdmin]) (s\<lparr>wd := w\<rparr>))"
          using assms(1,2) Some \<open>Cookie r _ = Some c\<close> Inr act
          by (simp add: adminGuard_def with_now_def call_def split: sum.splits)
        show thesis
        proof (cases found)
          case (Inl e)
          then have "admin_session_guard env r next (s\<lparr>wd := w\<rparr>) = (resp, s')" using run assms(3) by simp
          then show thesis by (rule session) (simp_all add: later_def w)
        next
          case (Inr g)
          have g: "g \<in> set (emergency_admin_grants (tb (wd s)))" "eg_session_hash g = Some (hex_encode (sha256 sessionID))"
            "eg_consumed_at g \<noteq> None" "eg_revoked_at g = None" "?now2 < eg_expires_at g"
            using act Inr by (auto simp: ActiveEmergencyAdminSession_def query_row_Inr dest!: filter_eq_Cons_mem)
          show thesis
          proof (cases "mutating_method (rq_Method r) \<and> \<not> VerifyCSRF ss c (csrf_token r)")
            case True
            with run Inr assms(3) w show thesis by (intro refused) (auto simp: reply_def)
          next
            case False
            have "request_time s ?now2" "request_time s ?now1" by (rule request_time_step, simp)+
            then have "emergency_access env r s" unfolding emergency_access_def
              using Some \<open>Cookie r _ = Some c\<close> \<open>VerifyFor _ _ _ _ = Inr sessionID\<close> g False by blast
            moreover have "next [RoleAdmin] (s\<lparr>wd := w\<rparr>) = (resp, s')" using run Inr False assms(3) by auto
            ultimately show thesis using w by (intro passed [of "[RoleAdmin]" "s\<lparr>wd := w\<rparr>"]) simp_all
          qed
        qed
      qed
    qed
  qed
qed


section \<open>From sign-in to access\<close>

definition directory_accepts :: "admin_env \<Rightarrow> string \<Rightarrow> string \<Rightarrow> nat \<Rightarrow> string \<Rightarrow> bool" where
  "directory_accepts env username password n u \<longleftrightarrow> (\<exists>d. ae_dir env = Some d \<and>
     (case as_administrative d of
        Some a \<Rightarrow> \<exists>x roles. AuthenticateAdministrative a n username password = Inr (x, roles) \<and> du_Username x = u
      | None \<Rightarrow> \<exists>x. AuthenticateAdmin d n username password = Inr x \<and> du_Username x = u))"

lemma VerifyCSRF_own: "VerifyCSRF ss c (CSRF ss c)"
  by (auto simp: VerifyCSRF_def CSRF_def split: option.splits)

lemma loginAllowed_frame: "wd (snd (loginAllowed k s)) = tick (wd s)" "wd (snd (loginSucceeded k s)) = wd s"
  by (simp_all add: loginAllowed_def loginSucceeded_def Let_def)

lemma finish_login_returns:
  assumes "finish_login env ip username result s = (RedirectCookies cookies loc, s')"
  obtains u ss now where "result = Inr u" "ae_sessions env = Some ss"
    "cookies = [(''swbadge_admin'', Issue ss (du_Username u) now, 3600)]" "request_time s now"
proof (cases result)
  case (Inl e)
  then show thesis using assms by (auto simp: finish_login_def http_simps dest!: audit_answer)
next
  case (Inr u)
  let ?s1 = "snd (loginSucceeded ip s)"
  from Inr assms obtain ss x w where ss: "ae_sessions env = Some ss"
      "WriteAudit (audit_event ''admin_login'' [] (du_Username u) [] True ip []) (wd ?s1) = (Inr x, w)"
      "cookies = [(''swbadge_admin'', Issue ss (du_Username u) (clock w (steps w)), 3600)]"
    by (auto simp: finish_login_def http_simps split: option.splits)
  have "clock w = clock (wd s)" "steps (wd s) \<le> steps w"
    using steadyD [OF steady_store(2) ss(2)] by (simp_all add: loginAllowed_frame)
  then have "request_time s (clock w (steps w))" by (simp add: request_time_step)
  with Inr ss show thesis using that by blast
qed

lemma login_returns:
  assumes "login env r s = (RedirectCookies cookies loc, s')"
  obtains u ss now where "ae_sessions env = Some ss" "cookies = [(''swbadge_admin'', Issue ss u now, 3600)]" "request_time s now"
    "directory_accepts env (TrimSpace (FormValue r ''username'')) (FormValue r ''password'') (Suc (steps (wd s))) u"
    "fst (loginAllowed (remoteIP r) s)"
proof -
  let ?s1 = "snd (loginAllowed (remoteIP r) s)" and ?name = "TrimSpace (FormValue r ''username'')" and ?pw = "FormValue r ''password''"
  from assms obtain d where d: "fst (loginAllowed (remoteIP r) s)" "ae_dir env = Some d"
    and run: "authenticate_administrator d ?name ?pw (finish_login env (remoteIP r) ?name) ?s1 = (RedirectCookies cookies loc, s')"
    by (auto simp: login_def http_simps Let_def split: option.splits if_splits)
  let ?answer = "case as_administrative d of
      Some a \<Rightarrow> map_sum id fst (AuthenticateAdministrative a (Suc (steps (wd s))) ?name ?pw)
    | None \<Rightarrow> AuthenticateAdmin d (Suc (steps (wd s))) ?name ?pw"
  have "finish_login env (remoteIP r) ?name ?answer (?s1\<lparr>wd := tick (wd ?s1)\<rparr>) = (RedirectCookies cookies loc, s')"
    using run by (auto simp: authenticate_administrator_def consult_def loginAllowed_frame split: option.splits)
  then show thesis
  proof (rule finish_login_returns)
    fix u ss now
    assume u: "?answer = Inr u" "ae_sessions env = Some ss" "cookies = [(''swbadge_admin'', Issue ss (du_Username u) now, 3600)]"
      and now: "request_time (?s1\<lparr>wd := tick (wd ?s1)\<rparr>) now"
    have "later s (?s1\<lparr>wd := tick (wd ?s1)\<rparr>)" by (simp add: later_def loginAllowed_frame)
    then have "request_time s now" using now by (rule later_request_time)
    moreover have "directory_accepts env ?name ?pw (Suc (steps (wd s))) (du_Username u)"
      using u(1) d(2) unfolding directory_accepts_def
      by (cases "as_administrative d") (auto simp: map_sum_def split: sum.splits)
    ultimately show thesis using that u d(1) by blast
  qed
qed

text \<open>What the guard does with the cookie of a sign-in, before and after its expiry.\<close>

lemma guard_accepts_session:
  assumes "ae_protect env" "ae_sessions env = Some ss" "\<not> public_path (rq_Path r)" "rq_Path r \<noteq> ''/logout''"
    "Cookie r ''swbadge_emergency_admin'' = None" "Cookie r ''swbadge_admin'' = Some c" "VerifySession ss c (srv_now s) = Inr u"
    "roles_of env u (Suc (steps (wd s))) = Some roles" "Allowed (requiredAdministrativePermission (rq_Method r) (rq_Path r)) roles"
    "mutating_method (rq_Method r) \<Longrightarrow> VerifyCSRF ss c (csrf_token r)"
  shows "\<exists>s1. tb (wd s1) = tb (wd s) \<and> adminGuard env r next s = next roles s1"
proof (cases "\<exists>d a. ae_dir env = Some d \<and> as_administrative d = Some a")
  case True
  with assms have "adminGuard env r next s = next roles (s\<lparr>wd := tick (tick (wd s))\<rparr>)"
    by (auto simp: adminGuard_def admin_session_guard_def with_now_def srv_now_def currentAdministrativeRoles_def consult_def
        roles_of_def Let_def split: sum.splits)
  then show ?thesis by (intro exI [of _ "s\<lparr>wd := tick (tick (wd s))\<rparr>"]) simp
next
  case False
  with assms have "adminGuard env r next s = next roles (s\<lparr>wd := tick (wd s)\<rparr>)"
    by (auto simp: adminGuard_def admin_session_guard_def with_now_def srv_now_def currentAdministrativeRoles_def
        roles_of_def Let_def split: option.splits)
  then show ?thesis by (intro exI [of _ "s\<lparr>wd := tick (wd s)\<rparr>"]) simp
qed

lemma VerifySession_issued:
  assumes "u \<noteq> []" "min_int64 \<le> Unix (now + lifetime ss)" "Unix (now + lifetime ss) \<le> max_int64"
  shows "VerifySession ss (Issue ss u now) t = (if Unix t > Unix (now + lifetime ss) then Inl ErrInvalidSession else Inr u)"
  using assms VerifyFor_issued [OF assms(2,3), of ss "''admin''" u "''admin''" t]
  by (simp add: VerifySession_def Issue_def IssueFor_def HasPrefix_iff TrimPrefix_def)


section \<open>Self-service touches only its user\<close>

datatype self_service_op = SetPIN | RevokeBadge | ActivateBadge | LogoutOthers | Logout

fun self_service :: "self_service_op \<Rightarrow> admin_env \<Rightarrow> request \<Rightarrow> unit handler" where
  "self_service SetPIN = selfServiceSetPIN"
| "self_service RevokeBadge = selfServiceRevokeBadge"
| "self_service ActivateBadge = selfServiceActivateBadge"
| "self_service LogoutOthers = selfServiceLogoutOthers"
| "self_service Logout = selfServiceLogout"

text \<open>The session behind a request, with its CSRF token.\<close>

definition self_service_user :: "admin_env \<Rightarrow> request \<Rightarrow> string \<Rightarrow> srv \<Rightarrow> bool" where
  "self_service_user env r username s \<longleftrightarrow> (\<exists>ss c sessionID row now now'. ae_sessions env = Some ss \<and>
     Cookie r ''swbadge_selfservice'' = Some c \<and> VerifyFor ss c ''self-service'' now = Inr (username @ [CHR 0x1F] @ sessionID) \<and>
     row \<in> set (self_service_sessions (tb (wd s))) \<and> sss_id row = sessionID \<and> session_live username now' row \<and>
     request_time s now \<and> request_time s now' \<and> VerifyCSRF ss c (FormValue r ''_csrf''))"

text \<open>Every row that changes belongs to the user.\<close>

definition only_own_rows :: "string \<Rightarrow> tables \<Rightarrow> tables \<Rightarrow> bool" where
  "only_own_rows username t t' \<longleftrightarrow>
     (\<forall>u \<in> set (users t). u \<notin> set (users t') \<longrightarrow> lower (usr_username u) = lower username) \<and>
     (\<forall>b \<in> set (badges t). b \<notin> set (badges t') \<longrightarrow>
        (\<exists>u \<in> set (users t). usr_id u = bdg_user_id b \<and> lower (usr_username u) = lower username)) \<and>
     (\<forall>x \<in> set (self_service_sessions t). x \<notin> set (self_service_sessions t') \<longrightarrow> lower (sss_username x) = lower username)"

lemma update_where_changed: "x \<in> set xs \<Longrightarrow> x \<notin> set (update_where P f xs) \<Longrightarrow> P x"
  by (auto simp: set_update_where image_iff)

lemma only_own_refl [simp]: "only_own_rows username t t"
  by (simp add: only_own_rows_def)

lemma Split_two: "Split c s = [a, b] \<Longrightarrow> s = a @ [c] @ b"
  using join_Split [of c s] by simp

lemma session_cases:
  assumes "selfServiceSession env r failed k s = (resp, s')"
  obtains s1 where "failed s1 = (resp, s')" "tb (wd s1) = tb (wd s)"
  | ss username sessionID c s1 row now now' where "ae_sessions env = Some ss" "Cookie r ''swbadge_selfservice'' = Some c"
      "VerifyFor ss c ''self-service'' now = Inr (username @ [CHR 0x1F] @ sessionID)"
      "row \<in> set (self_service_sessions (tb (wd s)))" "sss_id row = sessionID" "session_live username now' row"
      "request_time s now" "request_time s now'" "k ss username sessionID c s1 = (resp, s')" "tb (wd s1) = tb (wd s)"
proof (cases "\<exists>s1. failed s1 = (resp, s') \<and> tb (wd s1) = tb (wd s)")
  case True
  then show thesis using that(1) by blast
next
  case False
  let ?now1 = "clock (wd s) (steps (wd s))" and ?now2 = "clock (wd s) (Suc (steps (wd s)))"
  have no: "failed (s\<lparr>wd := w\<rparr>) \<noteq> (resp, s')" if "tb w = tb (wd s)" for w
    using False that by auto
  have no0: "failed s \<noteq> (resp, s')" using False by auto
  from assms no0 no [of "tick (wd s)"] obtain ss c identity where
    ss: "ae_sessions env = Some ss" "Cookie r ''swbadge_selfservice'' = Some c" "VerifyFor ss c ''self-service'' ?now1 = Inr identity"
    and parts: "length (Split (CHR 0x1F) identity) = 2"
    and run: "call (ActiveSelfServiceSession (Split (CHR 0x1F) identity ! 1) (Split (CHR 0x1F) identity ! 0) ?now2)
                (\<lambda>_. failed) (\<lambda>_. k ss (Split (CHR 0x1F) identity ! 0) (Split (CHR 0x1F) identity ! 1) c)
                (s\<lparr>wd := tick (tick (wd s))\<rparr>) = (resp, s')"
    by (auto simp: selfServiceSession_def Let_def with_now_def split: option.splits sum.splits if_splits)
  from parts obtain a b where ab: "Split (CHR 0x1F) identity = [a, b]"
    by (auto simp: numeral_2_eq_2 length_Suc_conv)
  from run [unfolded ab] obtain row w where act: "ActiveSelfServiceSession b a ?now2 (tick (tick (wd s))) = (Inr row, w)"
    and k: "k ss a b c (s\<lparr>wd := w\<rparr>) = (resp, s')"
    using no [of "tick (tick (tick (wd s)))"]
    by (auto simp: http_simps ActiveSelfServiceSession_def query_row_def split: if_splits list.splits)
  from act have row: "row \<in> set (self_service_sessions (tb (wd s)))" "sss_id row = b" "session_live a ?now2 row" "tb w = tb (wd s)"
    by (auto simp: ActiveSelfServiceSession_def query_row_Inr dest!: filter_eq_Cons_mem)
  have times: "request_time s ?now1" "request_time s ?now2" by (rule request_time_step, simp)+
  show thesis
    by (rule that(2) [OF ss(1,2) _ row(1-3) times k]) (use ss(3) Split_two [OF ab] row(4) in simp_all)
qed

lemma UserByUsername_returns:
  "UserByUsername name w = (Inr v, w') \<Longrightarrow>
   tb w' = tb w \<and> (\<exists>u \<in> set (users (tb w)). usr_id u = User_ID v \<and> lower (usr_username u) = lower name)"
  by (auto simp: UserByUsername_def query_row_Inr scanSQLiteUser_def map_eq_Cons_conv dest!: filter_eq_Cons_mem)

lemma read_only_lookups: "read_only (UserByUsername name)" "read_only (BadgeByCode code)"
  by (simp_all add: UserByUsername_def BadgeByCode_def atomic_intros)

lemma own_operations_atomic:
  "atomic (SetUserPINWithAudit i h e ip)" "atomic (RevokeActiveBadgeForUserWithAudit i n ip)"
  "atomic (ActivatePendingBadgeForUserWithAudit i n ip)" "atomic (RevokeOtherSelfServiceSessionsWithAudit name sid ip)"
  "atomic (RevokeSelfServiceSessionWithAudit sid name ip)"
  unfolding SetUserPINWithAudit_def RevokeActiveBadgeForUserWithAudit_def ActivatePendingBadgeForUserWithAudit_def
    RevokeOtherSelfServiceSessionsWithAudit_def RevokeSelfServiceSessionWithAudit_def validateAuditIP_def lostBadgeAudit_def
  by (simp_all add: atomic_intros)

lemma own_operations_return:
  "SetUserPINWithAudit i h e ip w = (Inr a, w') \<Longrightarrow> (\<exists>f. users (tb w') = update_where (\<lambda>u. usr_id u = i) f (users (tb w))) \<and>
     badges (tb w') = badges (tb w) \<and> self_service_sessions (tb w') = self_service_sessions (tb w)"
  "RevokeActiveBadgeForUserWithAudit k i ip w = (Inr b, w') \<Longrightarrow> users (tb w') = users (tb w) \<and>
     (\<exists>f. badges (tb w') = update_where (\<lambda>b. bdg_id b = k \<and> bdg_user_id b = i \<and> bdg_enabled b) f (badges (tb w))) \<and>
     self_service_sessions (tb w') = self_service_sessions (tb w)"
  "ActivatePendingBadgeForUserWithAudit k i ip w = (Inr c, w') \<Longrightarrow> users (tb w') = users (tb w) \<and>
     (\<exists>f. badges (tb w') = update_where (\<lambda>b. bdg_id b = k \<and> bdg_user_id b = i \<and> \<not> bdg_enabled b \<and> bdg_pending b) f (badges (tb w))) \<and>
     self_service_sessions (tb w') = self_service_sessions (tb w)"
  "RevokeOtherSelfServiceSessionsWithAudit name sid ip w = (Inr d, w') \<Longrightarrow> users (tb w') = users (tb w) \<and> badges (tb w') = badges (tb w) \<and>
     (\<exists>f now. self_service_sessions (tb w') = update_where (other_session name sid now) f (self_service_sessions (tb w)))"
  "RevokeSelfServiceSessionWithAudit sid name ip w = (Inr g, w') \<Longrightarrow> users (tb w') = users (tb w) \<and> badges (tb w') = badges (tb w) \<and>
     (\<exists>f. self_service_sessions (tb w') = update_where (\<lambda>s. sss_id s = sid \<and>
                lower (sss_username s) = lower name \<and> sss_revoked_at s = None) f (self_service_sessions (tb w)))"
  by (auto simp: SetUserPINWithAudit_def RevokeActiveBadgeForUserWithAudit_def ActivatePendingBadgeForUserWithAudit_def
    RevokeOtherSelfServiceSessionsWithAudit_def RevokeSelfServiceSessionWithAudit_def validateAuditIP_def lostBadgeAudit_def db_simps
    update_users_def update_badges_def revoke_self_service_sessions_def insert_audit_def Let_def split: if_splits)

lemma own_users_update:
  assumes "users t' = update_where P f (users t)" "badges t' = badges t" "self_service_sessions t' = self_service_sessions t"
    "\<And>u. u \<in> set (users t) \<Longrightarrow> P u \<Longrightarrow> lower (usr_username u) = lower name"
  shows "only_own_rows name t t'"
  unfolding only_own_rows_def assms(1-3) using assms(4) update_where_changed [of _ "users t" P f] by blast

lemma own_badges_update:
  assumes "users t' = users t" "badges t' = update_where P f (badges t)" "self_service_sessions t' = self_service_sessions t"
    "\<And>b. P b \<Longrightarrow> \<exists>u \<in> set (users t). usr_id u = bdg_user_id b \<and> lower (usr_username u) = lower name"
  shows "only_own_rows name t t'"
  unfolding only_own_rows_def assms(1-3) using assms(4) update_where_changed [of _ "badges t" P f] by blast

lemma own_sessions_update:
  assumes "users t' = users t" "badges t' = badges t" "self_service_sessions t' = update_where P f (self_service_sessions t)"
    "\<And>x. P x \<Longrightarrow> lower (sss_username x) = lower name"
  shows "only_own_rows name t t'"
  unfolding only_own_rows_def assms(1-3) using assms(4) update_where_changed [of _ "self_service_sessions t" P f] by blast

text \<open>Each operation, on whichever outcome, changes only rows of the user.\<close>

lemma own_atomic:
  assumes "atomic m" "m w = (a, w')" "\<And>x. a = Inr x \<Longrightarrow> only_own_rows name (tb w) (tb w')"
  shows "only_own_rows name (tb w) (tb w')"
proof (cases a)
  case (Inl e)
  with atomicD [OF assms(1)] assms(2) have "tb w' = tb w" by blast
  then show ?thesis by simp
qed (rule assms(3))

lemma own_pin:
  assumes "SetUserPINWithAudit i h e ip w = (a, w')" "ok_users (tb w)" "u \<in> set (users (tb w))" "usr_id u = i"
    "lower (usr_username u) = lower name"
  shows "only_own_rows name (tb w) (tb w')"
proof (rule own_atomic [OF own_operations_atomic(1) assms(1)])
  fix x
  assume "a = Inr x"
  from own_operations_return(1) [OF assms(1) [unfolded this]] obtain f where
    f: "users (tb w') = update_where (\<lambda>u. usr_id u = i) f (users (tb w))" "badges (tb w') = badges (tb w)"
      "self_service_sessions (tb w') = self_service_sessions (tb w)" by blast
  have "v = u" if "v \<in> set (users (tb w))" "usr_id v = i" for v
    using assms(2-4) that by (auto simp: ok_users_def distinct_map dest: inj_onD)
  with assms(5) show "only_own_rows name (tb w) (tb w')" by (intro own_users_update [OF f]) auto
qed

lemma own_badge:
  assumes "\<exists>u \<in> set (users (tb w)). usr_id u = i \<and> lower (usr_username u) = lower name"
    and run: "RevokeActiveBadgeForUserWithAudit k i ip w = (a, w') \<or> ActivatePendingBadgeForUserWithAudit k i ip w = (b, w')"
  shows "only_own_rows name (tb w) (tb w')"
  using run
proof
  assume r: "RevokeActiveBadgeForUserWithAudit k i ip w = (a, w')"
  show ?thesis
  proof (rule own_atomic [OF own_operations_atomic(2) r])
    fix x
    assume "a = Inr x"
    from own_operations_return(2) [OF r [unfolded this]] obtain f where
      f: "badges (tb w') = update_where (\<lambda>b. bdg_id b = k \<and> bdg_user_id b = i \<and> bdg_enabled b) f (badges (tb w))"
      and rest: "users (tb w') = users (tb w)" "self_service_sessions (tb w') = self_service_sessions (tb w)" by blast
    show "only_own_rows name (tb w) (tb w')"
      by (rule own_badges_update [OF rest(1) f rest(2)]) (use assms(1) in auto)
  qed
next
  assume r: "ActivatePendingBadgeForUserWithAudit k i ip w = (b, w')"
  show ?thesis
  proof (rule own_atomic [OF own_operations_atomic(3) r])
    fix x
    assume "b = Inr x"
    from own_operations_return(3) [OF r [unfolded this]] obtain f where
      f: "badges (tb w') = update_where (\<lambda>b. bdg_id b = k \<and> bdg_user_id b = i \<and> \<not> bdg_enabled b \<and> bdg_pending b) f (badges (tb w))"
      and rest: "users (tb w') = users (tb w)" "self_service_sessions (tb w') = self_service_sessions (tb w)" by blast
    show "only_own_rows name (tb w) (tb w')"
      by (rule own_badges_update [OF rest(1) f rest(2)]) (use assms(1) in auto)
  qed
qed

lemma own_sessions:
  assumes "RevokeOtherSelfServiceSessionsWithAudit name sid ip w = (a, w') \<or> RevokeSelfServiceSessionWithAudit sid name ip w = (b, w')"
  shows "only_own_rows name (tb w) (tb w')"
  using assms
proof
  assume r: "RevokeOtherSelfServiceSessionsWithAudit name sid ip w = (a, w')"
  show ?thesis
  proof (rule own_atomic [OF own_operations_atomic(4) r])
    fix x
    assume "a = Inr x"
    from own_operations_return(4) [OF r [unfolded this]] obtain f now where
      f: "self_service_sessions (tb w') = update_where (other_session name sid now) f (self_service_sessions (tb w))"
      and rest: "users (tb w') = users (tb w)" "badges (tb w') = badges (tb w)" by blast
    show "only_own_rows name (tb w) (tb w')" by (rule own_sessions_update [OF rest f]) (simp add: other_session_def)
  qed
next
  assume r: "RevokeSelfServiceSessionWithAudit sid name ip w = (b, w')"
  show ?thesis
  proof (rule own_atomic [OF own_operations_atomic(5) r])
    fix x
    assume "b = Inr x"
    from own_operations_return(5) [OF r [unfolded this]] obtain f where
      f: "self_service_sessions (tb w') = update_where (\<lambda>s. sss_id s = sid \<and>
                lower (sss_username s) = lower name \<and> sss_revoked_at s = None) f (self_service_sessions (tb w))"
      and rest: "users (tb w') = users (tb w)" "badges (tb w') = badges (tb w)" by blast
    show "only_own_rows name (tb w) (tb w')" by (rule own_sessions_update [OF rest f]) simp
  qed
qed

lemma via_session:
  assumes "selfServiceSession env r failed (\<lambda>ss u sid c. if \<not> VerifyCSRF ss c (FormValue r ''_csrf'')
      then reply (Problem 403 ''csrf_invalid'') else body ss u sid) s = (resp, s')"
    and "\<And>s1. failed s1 = (resp, s') \<Longrightarrow> tb (wd s') = tb (wd s1)"
    and "\<And>ss u sid s1. body ss u sid s1 = (resp, s') \<Longrightarrow> tb (wd s1) = tb (wd s) \<Longrightarrow> only_own_rows u (tb (wd s)) (tb (wd s'))"
  shows "tb (wd s') = tb (wd s) \<or> (\<exists>u. self_service_user env r u s \<and> only_own_rows u (tb (wd s)) (tb (wd s')))"
  using assms(1)
proof (cases rule: session_cases)
  case (1 s1)
  with assms(2) show ?thesis by simp
next
  case (2 ss u sid c s1 row now now')
  show ?thesis
  proof (cases "VerifyCSRF ss c (FormValue r ''_csrf'')")
    case False
    with 2(9,10) show ?thesis by (simp add: reply_def)
  next
    case True
    then have "body ss u sid s1 = (resp, s')" using 2(9) by simp
    then have "only_own_rows u (tb (wd s)) (tb (wd s'))" using assms(3) 2(10) by blast
    moreover have "self_service_user env r u s"
      unfolding self_service_user_def using 2(1-8) True by blast
    ultimately show ?thesis by blast
  qed
qed

lemma redirects_keep [simp]:
  "session_expired s = (resp, s') \<longleftrightarrow> resp = Redirect ''/self-service?error=session_expired'' \<and> s' = s"
  "unavailable s = (resp, s') \<longleftrightarrow> resp = Redirect ''/self-service?error=unavailable'' \<and> s' = s"
  by (auto simp: session_expired_def unavailable_def reply_def)

lemma hash_pin_cases:
  assumes "hash_pin idkey v failed k s = (resp, s')"
  obtains s1 where "failed s1 = (resp, s')" "tb (wd s1) = tb (wd s)"
  | h s1 where "k h s1 = (resp, s')" "tb (wd s1) = tb (wd s)"
proof (cases "Hash idkey v None = Inl PinLength")
  case True
  then show thesis using assms that(1) by (auto simp: hash_pin_def)
next
  case False
  have rand: "tb w = tb (wd s)" if "rand_m (wd s) = (x, w)" for x w
    using read_onlyD [OF rand_read_only that] .
  obtain x w where x: "rand_m (wd s) = (x, w)" by fastforce
  with rand have tb: "tb (wd (s\<lparr>wd := w\<rparr>)) = tb (wd s)" by simp
  show thesis
  proof (cases "\<exists>salt h. x = Inr salt \<and> Hash idkey v (Some salt) = Inr h")
    case True
    then show thesis using False assms x that(2) [OF _ tb] by (auto simp: hash_pin_def call_def)
  next
    case no: False
    then have "failed (s\<lparr>wd := w\<rparr>) = (resp, s')"
      using False assms x by (auto simp: hash_pin_def call_def split: sum.splits)
    then show thesis using that(1) tb by blast
  qed
qed

lemma lookup_user:
  assumes "call (UserByUsername u) (\<lambda>_. unavailable) k s = (resp, s')"
  obtains "tb (wd s') = tb (wd s)"
  | v s1 where "k v s1 = (resp, s')" "tb (wd s1) = tb (wd s)"
      "\<exists>x \<in> set (users (tb (wd s))). usr_id x = User_ID v \<and> lower (usr_username x) = lower u"
proof -
  obtain found w where f: "UserByUsername u (wd s) = (found, w)" by fastforce
  have w: "tb w = tb (wd s)" by (rule read_onlyD [OF read_only_lookups(1) f])
  show thesis
  proof (cases found)
    case (Inl e)
    then show thesis using assms f w that(1) by (auto simp: call_iff)
  next
    case (Inr v)
    then have "k v (s\<lparr>wd := w\<rparr>) = (resp, s')" using assms f by (auto simp: call_iff)
    then show thesis using that(2) w UserByUsername_returns [OF f [unfolded Inr]] by simp
  qed
qed

lemma own_call:
  assumes "call m failed k s = (resp, s')" "\<And>x w. m (wd s) = (x, w) \<Longrightarrow> only_own_rows u (tb (wd s)) (tb w)"
    "\<And>e s1. failed e s1 = (resp, s') \<Longrightarrow> tb (wd s') = tb (wd s1)" "\<And>a s1. k a s1 = (resp, s') \<Longrightarrow> tb (wd s') = tb (wd s1)"
  shows "only_own_rows u (tb (wd s)) (tb (wd s'))"
  using assms by (auto simp: call_iff)

lemma own_set_pin:
  assumes "set_own_pin env r u s = (resp, s')" "ok_users (tb (wd s))"
  shows "only_own_rows u (tb (wd s)) (tb (wd s'))"
proof (cases "FormValue r ''pin'' \<noteq> FormValue r ''pin_confirm'' \<or> \<not> validSelfServicePIN (FormValue r ''pin'')")
  case True
  with assms(1) show ?thesis by (auto simp: set_own_pin_def Let_def reply_def)
next
  case False
  with assms(1) have "call (UserByUsername u) (\<lambda>_. unavailable) (\<lambda>v.
       hash_pin (ae_idkey env) (FormValue r ''pin'') unavailable (\<lambda>hash.
         call (SetUserPINWithAudit (User_ID v) hash ''pin_self_service_changed'' (remoteIP r))
           (\<lambda>_. unavailable) (\<lambda>_. reply (Redirect ''/self-service?status=pin_updated'')))) s = (resp, s')"
    by (auto simp: set_own_pin_def Let_def)
  then show ?thesis
  proof (cases rule: lookup_user)
    case (2 v s2)
    note user = 2(3) and s2 = 2(2)
    from 2(1) show ?thesis
    proof (cases rule: hash_pin_cases)
      case (1 s3)
      then show ?thesis using s2 by simp
    next
      case (2 h s3)
      have s3: "tb (wd s3) = tb (wd s)" using 2(2) s2 by simp
      from user obtain x where x: "x \<in> set (users (tb (wd s3)))" "usr_id x = User_ID v" "lower (usr_username x) = lower u"
        using s3 by auto
      have "only_own_rows u (tb (wd s3)) (tb (wd s'))"
        by (rule own_call [OF 2(1)]) (use own_pin [OF _ _ x] assms(2) s3 in \<open>auto simp: reply_def\<close>)
      then show ?thesis by (simp add: s3)
    qed
  qed simp
qed

lemma own_revoke_badge:
  assumes "revoke_own_badge r u s = (resp, s')"
  shows "only_own_rows u (tb (wd s)) (tb (wd s'))"
proof (cases "\<exists>n. ParseInt (rq_PathValue_id r) = Some n \<and> \<not> n < 1")
  case False
  with assms show ?thesis by (auto simp: revoke_own_badge_def reply_def split: option.splits if_splits)
next
  case True
  then obtain n where "call (UserByUsername u) (\<lambda>_. unavailable) (\<lambda>v.
           call (RevokeActiveBadgeForUserWithAudit n (User_ID v) (remoteIP r))
             (\<lambda>_. reply (Redirect ''/self-service?error=badge_unavailable''))
             (\<lambda>_. reply (Redirect ''/self-service?status=badge_revoked''))) s = (resp, s')"
    using assms by (auto simp: revoke_own_badge_def)
  then show ?thesis
  proof (cases rule: lookup_user)
    case (2 v s2)
    have "only_own_rows u (tb (wd s2)) (tb (wd s'))"
    proof (rule own_call [OF 2(1)])
      fix x w
      assume "RevokeActiveBadgeForUserWithAudit n (User_ID v) (remoteIP r) (wd s2) = (x, w)"
      then show "only_own_rows u (tb (wd s2)) (tb w)" using 2(2,3) by (intro own_badge) auto
    qed (auto simp: reply_def)
    then show ?thesis by (simp add: 2(2))
  qed simp
qed

lemma own_activate_badge:
  assumes "activate_own_badge r u s = (resp, s')"
  shows "only_own_rows u (tb (wd s)) (tb (wd s'))"
proof -
  obtain user w1 where user: "UserByUsername u (wd s) = (user, w1)" by fastforce
  let ?code = "case ParsePayload (TrimSpace (FormValue r ''payload'')) of Inr (c, _) \<Rightarrow> c | Inl _ \<Rightarrow> []"
  obtain found w2 where found: "BadgeByCode ?code w1 = (found, w2)" by fastforce
  have w: "tb w1 = tb (wd s)" "tb w2 = tb (wd s)"
    using read_onlyD [OF read_only_lookups(1) user] read_onlyD [OF read_only_lookups(2) found] by simp_all
  show ?thesis
  proof (cases "tb (wd s') = tb (wd s)")
    case False
    with assms user found w obtain v and b :: Badge and x where v: "user = Inr v"
      and run: "ActivatePendingBadgeForUserWithAudit (Badge_ID b) (User_ID v) (remoteIP r) w2 = (x, wd s')"
      by (auto simp: activate_own_badge_def Let_def call_def attempt_def reply_def split: sum.splits prod.splits if_splits)
    have "only_own_rows u (tb w2) (tb (wd s'))"
      using UserByUsername_returns [OF user [unfolded v]] w run by (intro own_badge) auto
    then show ?thesis using w by simp
  qed simp
qed

lemma own_logouts:
  assumes "call (RevokeOtherSelfServiceSessionsWithAudit u sid ip) (\<lambda>_. unavailable) (\<lambda>_. reply x) s = (resp, s') \<or>
    call (RevokeSelfServiceSessionWithAudit sid u ip) (\<lambda>_. reply y) (\<lambda>_. reply z) s = (resp, s')"
  shows "only_own_rows u (tb (wd s)) (tb (wd s'))"
  using assms
proof
  assume "call (RevokeOtherSelfServiceSessionsWithAudit u sid ip) (\<lambda>_. unavailable) (\<lambda>_. reply x) s = (resp, s')"
  then show ?thesis by (rule own_call) (auto simp: reply_def intro: own_sessions)
next
  assume "call (RevokeSelfServiceSessionWithAudit sid u ip) (\<lambda>_. reply y) (\<lambda>_. reply z) s = (resp, s')"
  then show ?thesis by (rule own_call) (auto simp: reply_def intro: own_sessions)
qed

text \<open>
  C11: Self-service stays with its user.  Whatever a self-service request changes, it does so only
  with a signed, live session of a user and that session's CSRF token, and every user, badge and
  session row that changes belongs to that user.
\<close>

theorem self_service_touches_own_rows:
  assumes "self_service op env r s = (resp, s')" "ok_users (tb (wd s))"
  shows "tb (wd s') = tb (wd s) \<or>
    (\<exists>u. self_service_user env r u s \<and> only_own_rows u (tb (wd s)) (tb (wd s')))"
proof (cases op)
  case SetPIN
  show ?thesis
    using assms(1) unfolding SetPIN self_service.simps selfServiceSetPIN_def
    by (rule via_session) (use assms(2) own_set_pin in fastforce)+
next
  case RevokeBadge
  show ?thesis
    using assms(1) unfolding RevokeBadge self_service.simps selfServiceRevokeBadge_def
    by (rule via_session) (use own_revoke_badge in fastforce)+
next
  case ActivateBadge
  show ?thesis
    using assms(1) unfolding ActivateBadge self_service.simps selfServiceActivateBadge_def
    by (rule via_session) (use own_activate_badge in fastforce)+
next
  case LogoutOthers
  show ?thesis
    using assms(1) unfolding LogoutOthers self_service.simps selfServiceLogoutOthers_def
    by (rule via_session) (use own_logouts in fastforce)+
next
  case Logout
  show ?thesis
    using assms(1) unfolding Logout self_service.simps selfServiceLogout_def Let_def
    by (rule via_session) (use own_logouts in \<open>fastforce simp: reply_def\<close>)+
qed

section \<open>Sessions at work\<close>

definition demo_sessions :: Sessions where
  "demo_sessions = \<lparr>key = replicate 32 (CHR ''k''), lifetime = hour\<rparr>"

definition demo_directory :: directory where
  "demo_directory = \<lparr>UserExists = (\<lambda>_ _. Inr True), GetDirectoryUser = (\<lambda>_ _. Inl ErrUserNotFound), ListUsers = (\<lambda>_. Inr []),
     AuthenticateUser = (\<lambda>_ _ _. Inl ErrNotAuthorized),
     AuthenticateAdmin = (\<lambda>_ u _. Inr \<lparr>du_Username = u, du_DisplayName = u, du_DN = [], du_Mail = []\<rparr>), as_administrative = None\<rparr>"

definition demo_admin_env :: admin_env where
  "demo_admin_env = \<lparr>ae_protect = True, ae_sessions = Some demo_sessions, ae_dir = Some demo_directory,
     ae_emergencyAdminEnabled = False, ae_idkey = (\<lambda>_ _ _ _ _ _. [])\<rparr>"

definition demo_admin_request :: "string \<Rightarrow> (string \<times> string) list \<Rightarrow> (string \<times> string list) list \<Rightarrow> request" where
  "demo_admin_request path cookies form = \<lparr>rq_Method = ''GET'', rq_Path = path, rq_PathValue_id = [],
     rq_RemoteAddr = ''192.0.2.7:4000'', rq_Header = (\<lambda>_. []), rq_Cookies = cookies, rq_TLS = None, rq_ParseForm_ok = True,
     rq_Query = [], rq_PostForm = form\<rparr>"

definition demo_admin_cookie :: string where
  "demo_admin_cookie = Issue demo_sessions ''ada'' 0"

definition demo_self_cookie :: string where
  "demo_self_cookie = IssueForDuration demo_sessions ''self-service'' (''ada'' @ [CHR 0x1F] @ ''sid'') 0 (15 * minute)"

definition demo_self_server :: srv where
  "demo_self_server = calm_server (empty_tables\<lparr>self_service_sessions := [\<lparr>sss_id = ''sid'', sss_username = ''ada'',
     sss_created_at = 0, sss_expires_at = 15 * minute, sss_revoked_at = None\<rparr>]\<rparr>)"

definition demo_self_request :: request where
  "demo_self_request = demo_admin_request ''/self-service/logout'' [(''swbadge_selfservice'', demo_self_cookie)]
     [(''_csrf'', [CSRF demo_sessions demo_self_cookie])]"

lemma demo_expiry: "min_int64 \<le> Unix (0 + hour)" "Unix (0 + hour) \<le> max_int64"
  "min_int64 \<le> Unix (0 + 15 * minute)" "Unix (0 + 15 * minute) \<le> max_int64" "Unix 0 = 0"
  by code_simp+

lemma demo_admin_verified: "VerifySession demo_sessions demo_admin_cookie 0 = Inr ''ada''"
  unfolding demo_admin_cookie_def
  by (subst VerifySession_issued) (use demo_expiry in \<open>simp_all add: demo_sessions_def Unix_def duration_defs\<close>)

lemma demo_self_verified: "VerifyFor demo_sessions demo_self_cookie ''self-service'' 0 = Inr (''ada'' @ [CHR 0x1F] @ ''sid'')"
  unfolding demo_self_cookie_def
  by (subst VerifyFor_issued [OF demo_expiry(3,4)]) (simp add: HasPrefix_iff TrimPrefix_def Unix_def duration_defs)



lemma demo_split: "Split (CHR 0x1F) (''ada'' @ [CHR 0x1F] @ ''sid'') = [''ada'', ''sid'']" "ParseIP ''192.0.2.7''"
  "SplitHostPort ''192.0.2.7:4000'' = Some ''192.0.2.7''"
  by code_simp+

lemma demo_remoteIP: "remoteIP (demo_admin_request p c f) = ''192.0.2.7''"
  by (simp add: remoteIP_def demo_admin_request_def demo_split(3))

theorem self_service_touches_own_rows_witness:
  "\<exists>u. self_service_user demo_admin_env demo_self_request u demo_self_server"
proof -
  let ?x = "self_service Logout demo_admin_env demo_self_request demo_self_server"
  have "map sss_revoked_at (self_service_sessions (tb (wd (snd ?x)))) = [Some 0]"
  proof -
    have fields: "Cookie demo_self_request ''swbadge_selfservice'' = Some demo_self_cookie"
      "FormValue demo_self_request ''_csrf'' = CSRF demo_sessions demo_self_cookie" "remoteIP demo_self_request = ''192.0.2.7''"
      by (simp_all add: demo_self_request_def Cookie_def FormValue_def demo_remoteIP) (simp_all add: demo_admin_request_def)
    show ?thesis
      by (simp add: selfServiceLogout_def selfServiceSession_def demo_admin_env_def fields demo_self_verified [simplified]
          demo_split [simplified] with_now_def demo_self_server_def calm_world_def calm_server_def call_def ActiveSelfServiceSession_def
          query_row_def session_live_def minute_def second_def VerifyCSRF_own RevokeSelfServiceSessionWithAudit_def Let_def
          validateAuditIP_def dthen_def dbind_def ensure_def ret_def tx_def exec_def revoke_self_service_sessions_def
          one_row_def RowsAffected_def insert_audit_def reply_def tick_def empty_tables_def update_where_def count_where_def
          ok_self_service_sessions_def max_int64_def current_timestamp_def fromUnix_def Unix_def)
  qed
  moreover have "map sss_revoked_at (self_service_sessions (tb (wd demo_self_server))) = [None]"
    by (simp add: demo_self_server_def)
  ultimately have changed: "tb (wd (snd ?x)) \<noteq> tb (wd demo_self_server)" by auto
  have users: "ok_users (tb (wd demo_self_server))" by (simp add: demo_self_server_def ok_users_def empty_tables_def)
  have "?x = (fst ?x, snd ?x)" by simp
  from self_service_touches_own_rows [OF this users] changed show ?thesis by blast
qed

end
