(* ===== verification/WebAuthn_Store.thy ===== *)
theory WebAuthn_Store
  imports Badge_Store Contracts
begin

text \<open>
  Passkeys in the SQLite store (\<^verbatim>\<open>internal/database/webauthn.go\<close>): user handles, ceremonies and
  credentials, with the contract of their tables and what it guarantees: a ceremony completes
  once, a signature counter never goes back, and a revoked passkey never logs in again.
\<close>

section \<open>Validation\<close>

definition validWebAuthnRPID :: "string \<Rightarrow> bool" where
  "validWebAuthnRPID v \<longleftrightarrow>
     \<not> (v = [] \<or> length v > 253 \<or> v \<noteq> lower v \<or> ParseIP v \<or>
        (\<exists>c \<in> set v. c = CHR '':'' \<or> c = CHR ''/'' \<or> c = CHR '' '' \<or> c = CHR 0x5C)) \<and>
     (\<forall>label \<in> set (Split (CHR ''.'') v).
        \<not> (label = [] \<or> length label > 63 \<or> hd label = CHR ''-'' \<or> last label = CHR ''-'') \<and>
        (\<forall>c \<in> set label. c = CHR ''-'' \<or> is_lower_alpha c \<or> is_digit c))"

definition validWebAuthnCredential :: "WebAuthnCredential \<Rightarrow> bool" where
  "validWebAuthnCredential c \<longleftrightarrow>
     (let name = TrimSpace (wc_name c) in
      length (wc_credential_id c) \<ge> 1 \<and> int (length (wc_credential_id c)) \<le> 4096 \<and>
      length (wc_management_id c) \<ge> 16 \<and> length (wc_management_id c) \<le> 128 \<and>
      wc_user_id c > 0 \<and> length (wc_public_key c) \<ge> 1 \<and> int (length (wc_public_key c)) \<le> 8192 \<and>
      validWebAuthnRPID (wc_rp_id c) \<and> length name \<ge> 1 \<and> length name \<le> 64 \<and> name = wc_name c \<and>
      length (wc_transports c) \<le> 256 \<and> length (wc_attestation_type c) \<le> 64 \<and>
      length (wc_attestation_format c) \<le> 64 \<and>
      wc_flags c \<ge> 0 \<and> wc_flags c \<le> 255 \<and> wc_last_used_at c = None \<and> wc_revoked_at c = None)"

definition valid_kind :: "string \<Rightarrow> bool" where
  "valid_kind k \<longleftrightarrow> \<not> (k \<noteq> ''registration'' \<and> k \<noteq> ''authentication'')"

definition valid_audience :: "string \<Rightarrow> bool" where
  "valid_audience a \<longleftrightarrow> \<not> (a \<noteq> ''self-service'' \<and> a \<noteq> ''admin'')"

definition validWebAuthnCeremony :: "WebAuthnCeremony \<Rightarrow> bool" where
  "validWebAuthnCeremony c \<longleftrightarrow>
     \<not> (ce_id c = [] \<or> length (ce_id c) > 128 \<or> \<not> valid_kind (ce_kind c) \<or> \<not> valid_audience (ce_audience c)) \<and>
     \<not> (length (ce_session_data c) < 1 \<or> int (length (ce_session_data c)) > 65536 \<or> IsZero (ce_expires_at c) \<or>
        \<not> ce_expires_at c > ce_created_at c \<or> ce_expires_at c > ce_created_at c + 5 * minute) \<and>
     (ce_kind c \<noteq> ''registration'' \<or> ce_user_id c \<noteq> None)"

record WebAuthnAuthenticationUpdate =
  wau_CredentialID :: string
  wau_UserID :: int
  wau_SignCount :: u32
  wau_BackupState :: bool

definition validWebAuthnAuthentication ::
  "string \<Rightarrow> time \<Rightarrow> WebAuthnAuthenticationUpdate \<Rightarrow> SelfServiceSession \<Rightarrow> bool" where
  "validWebAuthnAuthentication ceremonyID now update session \<longleftrightarrow>
     ceremonyID \<noteq> [] \<and> length ceremonyID \<le> 128 \<and> \<not> IsZero now \<and>
     length (wau_CredentialID update) \<ge> 1 \<and> int (length (wau_CredentialID update)) \<le> 4096 \<and> wau_UserID update > 0 \<and>
     sss_id session \<noteq> [] \<and> length (sss_id session) \<le> 128 \<and> sss_username session \<noteq> [] \<and>
     length (sss_username session) \<le> 256 \<and>
     sss_expires_at session > now \<and> \<not> sss_expires_at session > now + 15 * minute"

definition validWebAuthnSignCount :: "u32 \<Rightarrow> u32 \<Rightarrow> bool" where
  "validWebAuthnSignCount previous next \<longleftrightarrow> previous = 0 \<and> next = 0 \<or> next > previous"

section \<open>Statements\<close>

text \<open>\<^verbatim>\<open>INSERT OR IGNORE\<close>: a violated uniqueness or check constraint inserts nothing, a missing user fails.\<close>

definition insert_webauthn_user :: "int \<Rightarrow> string \<Rightarrow> stmt" where
  "insert_webauthn_user userID handle now t =
     (if userID \<in> wu_user_id ` set (webauthn_users t) \<or> handle \<in> wu_user_handle ` set (webauthn_users t) \<or>
         length handle < 32 \<or> length handle > 64 then Some (t, 0, 0)
      else if userID \<notin> usr_id ` set (users t) then None
      else Some (t\<lparr>webauthn_users := webauthn_users t @ [\<lparr>wu_user_id = userID, wu_user_handle = handle\<rparr>]\<rparr>, 1, 0))"

definition insert_webauthn_ceremony :: "WebAuthnCeremony \<Rightarrow> stmt" where
  "insert_webauthn_ceremony c now t =
     (let t' = t\<lparr>webauthn_ceremonies := webauthn_ceremonies t @ [c\<lparr>ce_consumed_at := None\<rparr>]\<rparr>
      in if ok_webauthn_ceremonies t' then Some (t', 1, 0) else None)"

definition consume_webauthn_ceremony :: "string \<Rightarrow> time \<Rightarrow> stmt" where
  "consume_webauthn_ceremony i now stamp t =
     (let P = (\<lambda>c. ce_id c = i \<and> ce_consumed_at c = None);
          t' = t\<lparr>webauthn_ceremonies := update_where P (\<lambda>c. c\<lparr>ce_consumed_at := Some now\<rparr>) (webauthn_ceremonies t)\<rparr>
      in if ok_webauthn_ceremonies t' then Some (t', count_where P (webauthn_ceremonies t), 0) else None)"

definition insert_webauthn_credential :: "WebAuthnCredential \<Rightarrow> stmt" where
  "insert_webauthn_credential c now t =
     (let t' = t\<lparr>webauthn_credentials := webauthn_credentials t @
            [c\<lparr>wc_last_used_at := None, wc_revoked_at := None\<rparr>]\<rparr>
      in if ok_webauthn_credentials t' then Some (t', 1, 0) else None)"

definition update_webauthn_credentials ::
  "(WebAuthnCredential \<Rightarrow> bool) \<Rightarrow> (WebAuthnCredential \<Rightarrow> WebAuthnCredential) \<Rightarrow> stmt" where
  "update_webauthn_credentials P f now t =
     (let t' = t\<lparr>webauthn_credentials := update_where P f (webauthn_credentials t)\<rparr>
      in if ok_webauthn_credentials t' then Some (t', count_where P (webauthn_credentials t), 0) else None)"

definition insert_login_session :: "string \<Rightarrow> string \<Rightarrow> time \<Rightarrow> time \<Rightarrow> stmt" where
  "insert_login_session i username createdAt expiresAt now t =
     (let t' = t\<lparr>self_service_sessions := self_service_sessions t @
            [\<lparr>sss_id = i, sss_username = username, sss_created_at = createdAt, sss_expires_at = expiresAt,
              sss_revoked_at = None\<rparr>]\<rparr>
      in if ok_self_service_sessions t' then Some (t', 1, 0) else None)"

section \<open>Operations\<close>

definition newWebAuthnManagementID :: "string dbm" where
  "newWebAuthnManagementID = dbind rand_m (\<lambda>raw. ret (RawURL_encode raw))"

definition EnsureWebAuthnUserHandle :: "int \<Rightarrow> string dbm" where
  "EnsureWebAuthnUserHandle userID =
     dthen (ensure (\<not> userID < 1) (ErrText ''invalid WebAuthn user''))
     (dbind rand_m (\<lambda>candidate. tx (
       dthen (exec (insert_webauthn_user userID candidate))
       (query_row (\<lambda>t. map wu_user_handle (filter (\<lambda>u. wu_user_id u = userID) (webauthn_users t)))))))"

definition CreateWebAuthnCeremony :: "WebAuthnCeremony \<Rightarrow> unit dbm" where
  "CreateWebAuthnCeremony ceremony =
     dbind (if IsZero (ce_created_at ceremony) then dbind now_m (\<lambda>now. ret (ceremony\<lparr>ce_created_at := now\<rparr>))
            else ret ceremony) (\<lambda>ceremony.
     dthen (ensure (validWebAuthnCeremony ceremony) (ErrText ''invalid WebAuthn ceremony''))
     (discard (exec (insert_webauthn_ceremony ceremony))))"

definition active_ceremony :: "string \<Rightarrow> string \<Rightarrow> string \<Rightarrow> time \<Rightarrow> WebAuthnCeremony \<Rightarrow> bool" where
  "active_ceremony i kind audience now c \<longleftrightarrow>
     ce_id c = i \<and> ce_kind c = kind \<and> ce_audience c = audience \<and> ce_consumed_at c = None \<and> now \<le> ce_expires_at c"

definition ActiveWebAuthnCeremony :: "string \<Rightarrow> string \<Rightarrow> string \<Rightarrow> time \<Rightarrow> WebAuthnCeremony dbm" where
  "ActiveWebAuthnCeremony i kind audience now =
     dthen (ensure (\<not> (i = [] \<or> length i > 128 \<or> \<not> valid_kind kind \<or> \<not> valid_audience audience \<or> IsZero now)) ErrNoRows)
     (query_row (\<lambda>t. filter (active_ceremony i kind audience now) (webauthn_ceremonies t)))"

definition ConsumeWebAuthnCeremony :: "string \<Rightarrow> string \<Rightarrow> string \<Rightarrow> time \<Rightarrow> WebAuthnCeremony dbm" where
  "ConsumeWebAuthnCeremony i kind audience now =
     dthen (ensure (\<not> (i = [] \<or> length i > 128 \<or> \<not> valid_kind kind \<or> \<not> valid_audience audience \<or> IsZero now)) ErrNoRows)
     (tx (
       dbind (query_row (\<lambda>t. filter (active_ceremony i kind audience now) (webauthn_ceremonies t))) (\<lambda>ceremony.
       dbind (exec (consume_webauthn_ceremony i now)) (\<lambda>result.
       dthen (one_row result)
       (ret (ceremony\<lparr>ce_consumed_at := Some now\<rparr>))))))"

definition WebAuthnUserByHandle :: "string \<Rightarrow> User dbm" where
  "WebAuthnUserByHandle handle =
     dthen (ensure (\<not> (length handle < 32 \<or> length handle > 64)) ErrNoRows)
     (query_row (\<lambda>t. [scanSQLiteUser u. w \<leftarrow> webauthn_users t, u \<leftarrow> users t,
        usr_id u = wu_user_id w \<and> wu_user_handle w = handle]))"

definition WebAuthnCredentialsByUser :: "int \<Rightarrow> WebAuthnCredential list dbm" where
  "WebAuthnCredentialsByUser userID =
     dthen (ensure (\<not> userID < 1) (ErrText ''invalid WebAuthn user''))
     (query_all (\<lambda>t. sort_key wc_created_at (sort_key wc_credential_id
        (filter (\<lambda>c. wc_user_id c = userID \<and> wc_revoked_at c = None) (webauthn_credentials t)))))"

definition finishWebAuthnRegistration ::
  "string \<Rightarrow> string \<Rightarrow> time \<Rightarrow> WebAuthnCredential \<Rightarrow> string \<Rightarrow> string \<Rightarrow> unit dbm" where
  "finishWebAuthnRegistration ceremonyID audience now credential username ip = tx (
     dbind (query_row (\<lambda>t. [(usr_id u, usr_username u). c \<leftarrow> webauthn_ceremonies t, u \<leftarrow> users t,
              ce_user_id c = Some (usr_id u) \<and> active_ceremony ceremonyID ''registration'' audience now c]))
       (\<lambda>(userID, storedUsername).
     dthen (ensure (\<not> (userID \<noteq> wc_user_id credential \<or> storedUsername \<noteq> username)) ErrNoRows)
     (dthen (exec (insert_webauthn_credential (credential\<lparr>wc_created_at := now\<rparr>)))
     (dthen (exec (insert_audit (audit_event ''passkey_registered'' [] username [] True ip [])))
     (dbind (exec (consume_webauthn_ceremony ceremonyID now)) (\<lambda>result.
     dthen (one_row result) (ret ())))))))"

definition CompleteWebAuthnRegistration ::
  "string \<Rightarrow> string \<Rightarrow> time \<Rightarrow> WebAuthnCredential \<Rightarrow> string \<Rightarrow> string \<Rightarrow> unit dbm" where
  "CompleteWebAuthnRegistration ceremonyID audience now credential username ip =
     dbind (if wc_management_id credential = []
            then dbind newWebAuthnManagementID (\<lambda>m. ret (credential\<lparr>wc_management_id := m\<rparr>))
            else ret credential) (\<lambda>credential.
     dthen (ensure (\<not> (ceremonyID = [] \<or> length ceremonyID > 128 \<or> \<not> valid_audience audience \<or> IsZero now \<or>
                      \<not> validWebAuthnCredential credential)) (ErrText ''invalid WebAuthn registration''))
     (dthen (validateAuditIP ip)
     (finishWebAuthnRegistration ceremonyID audience now credential username ip)))"

definition RevokeWebAuthnCredentialWithAudit ::
  "string \<Rightarrow> int \<Rightarrow> string \<Rightarrow> string \<Rightarrow> time \<Rightarrow> unit dbm" where
  "RevokeWebAuthnCredentialWithAudit managementID userID username ip now =
     dthen (ensure (\<not> (length managementID < 16 \<or> length managementID > 128 \<or> userID < 1 \<or> username = [] \<or>
                      length username > 256 \<or> IsZero now)) (ErrText ''invalid WebAuthn revocation''))
     (dthen (validateAuditIP ip) (tx (
       dbind (query_row (\<lambda>t. [usr_username u. c \<leftarrow> webauthn_credentials t, u \<leftarrow> users t,
                usr_id u = wc_user_id c \<and> wc_management_id c = managementID \<and> wc_user_id c = userID \<and>
                wc_revoked_at c = None])) (\<lambda>storedUsername.
       dthen (ensure (\<not> storedUsername \<noteq> username) ErrNoRows)
       (dbind (exec (update_webauthn_credentials
                (\<lambda>c. wc_management_id c = managementID \<and> wc_user_id c = userID \<and> wc_revoked_at c = None)
                (\<lambda>c. c\<lparr>wc_revoked_at := Some now\<rparr>))) (\<lambda>result.
       dthen (one_row result)
       (dthen (exec (insert_audit (audit_event ''passkey_revoked'' [] username [] True ip [])))
       (ret ()))))))))"

definition CompleteWebAuthnAuthentication ::
  "string \<Rightarrow> time \<Rightarrow> WebAuthnAuthenticationUpdate \<Rightarrow> SelfServiceSession \<Rightarrow> string \<Rightarrow> unit dbm" where
  "CompleteWebAuthnAuthentication ceremonyID now update session ip =
     dthen (ensure (validWebAuthnAuthentication ceremonyID now update session)
              (ErrText ''invalid WebAuthn authentication''))
     (dthen (validateAuditIP ip) (tx (
       dbind (query_row (\<lambda>t. map ce_user_id (filter
                (active_ceremony ceremonyID ''authentication'' ''self-service'' now) (webauthn_ceremonies t))))
         (\<lambda>ceremonyUserID.
       dbind (query_row (\<lambda>t. [(wc_user_id c, usr_username u, wc_sign_count c). c \<leftarrow> webauthn_credentials t, u \<leftarrow> users t,
                usr_id u = wc_user_id c \<and> wc_credential_id c = wau_CredentialID update \<and> wc_revoked_at c = None]))
         (\<lambda>(credentialUserID, username, previousSignCount).
       dthen (ensure (\<not> (credentialUserID \<noteq> wau_UserID update \<or>
                (case ceremonyUserID of None \<Rightarrow> False | Some u \<Rightarrow> u \<noteq> wau_UserID update) \<or>
                username \<noteq> sss_username session \<or>
                \<not> validWebAuthnSignCount previousSignCount (wau_SignCount update))) ErrNoRows)
       (dbind (exec (update_webauthn_credentials
                (\<lambda>c. wc_credential_id c = wau_CredentialID update \<and> wc_user_id c = wau_UserID update \<and>
                   wc_revoked_at c = None \<and> wc_sign_count c = previousSignCount)
                (\<lambda>c. c\<lparr>wc_sign_count := wau_SignCount update, wc_backup_state := wau_BackupState update,
                      wc_last_used_at := Some now\<rparr>))) (\<lambda>result.
       dthen (one_row result)
       (dthen (exec (insert_login_session (sss_id session) username now (sss_expires_at session)))
       (dthen (exec (insert_audit (audit_event ''passkey_login'' [] username [] True ip [])))
       (dbind (exec (consume_webauthn_ceremony ceremonyID now)) (\<lambda>result.
       dthen (one_row result) (ret ()))))))))))))"

section \<open>Contract of the tables\<close>

definition passkey_evolves :: "WebAuthnCredential \<Rightarrow> WebAuthnCredential \<Rightarrow> bool" where
  "passkey_evolves c c' \<longleftrightarrow> wc_credential_id c' = wc_credential_id c \<and> wc_management_id c' = wc_management_id c \<and>
     wc_user_id c' = wc_user_id c \<and> wc_public_key c' = wc_public_key c \<and> wc_rp_id c' = wc_rp_id c \<and>
     wc_sign_count c \<le> wc_sign_count c' \<and> (wc_revoked_at c \<noteq> None \<longrightarrow> wc_revoked_at c' = wc_revoked_at c)"

definition ceremony_evolves :: "WebAuthnCeremony \<Rightarrow> WebAuthnCeremony \<Rightarrow> bool" where
  "ceremony_evolves c c' \<longleftrightarrow> ce_id c' = ce_id c \<and> ce_user_id c' = ce_user_id c \<and>
     (ce_consumed_at c \<noteq> None \<longrightarrow> ce_consumed_at c' = ce_consumed_at c)"

definition webauthn_inv :: "tables \<Rightarrow> bool" where
  "webauthn_inv t \<longleftrightarrow> ok_users t \<and> ok_webauthn_users t \<and> ok_webauthn_credentials t \<and> ok_webauthn_ceremonies t"

definition webauthn_evolves :: "tables \<Rightarrow> tables \<Rightarrow> bool" where
  "webauthn_evolves t t' \<longleftrightarrow> webauthn_inv t' \<and>
     grows passkey_evolves (webauthn_credentials t) (webauthn_credentials t') \<and>
     grows ceremony_evolves (webauthn_ceremonies t) (webauthn_ceremonies t')"

lemma webauthn_refl [simp]: "passkey_evolves c c" "ceremony_evolves d d"
  by (simp_all add: passkey_evolves_def ceremony_evolves_def)

lemma passkey_evolves_trans: "passkey_evolves a b \<Longrightarrow> passkey_evolves b c \<Longrightarrow> passkey_evolves a c"
  by (auto simp: passkey_evolves_def)

lemma ceremony_evolves_trans: "ceremony_evolves a b \<Longrightarrow> ceremony_evolves b c \<Longrightarrow> ceremony_evolves a c"
  by (auto simp: ceremony_evolves_def)

interpretation webauthn_contract: table_contract webauthn_inv webauthn_evolves
  by unfold_locales (auto simp: webauthn_evolves_def intro: grows_refl
      grows_trans [OF passkey_evolves_trans] grows_trans [OF ceremony_evolves_trans])

abbreviation webauthn_prog :: "'a dbm \<Rightarrow> bool" where
  "webauthn_prog \<equiv> keeps webauthn_inv webauthn_evolves"

lemma webauthn_stmtI:
  assumes "\<And>now t t' r. webauthn_inv t \<Longrightarrow> s now t = Some (t', r) \<Longrightarrow> webauthn_evolves t t'"
  shows "webauthn_prog (exec s)"
  by (rule webauthn_contract.keeps_exec, rule keeps_stmtI) (rule assms)

lemma webauthn_frame:
  assumes "webauthn_inv t" "users t' = users t" "webauthn_users t' = webauthn_users t"
    "webauthn_credentials t' = webauthn_credentials t \<or> ok_webauthn_credentials t' \<and>
       grows passkey_evolves (webauthn_credentials t) (webauthn_credentials t')"
    "webauthn_ceremonies t' = webauthn_ceremonies t \<or> ok_webauthn_ceremonies t' \<and>
       grows ceremony_evolves (webauthn_ceremonies t) (webauthn_ceremonies t')"
  shows "webauthn_evolves t t'"
proof -
  have "ok_users t'" "ok_webauthn_users t'"
    using assms(1-3) by (simp_all add: webauthn_inv_def ok_users_def ok_webauthn_users_def)
  moreover have "ok_webauthn_credentials t' \<and> grows passkey_evolves (webauthn_credentials t) (webauthn_credentials t')"
    using assms(1,3,4) by (auto simp: webauthn_inv_def ok_webauthn_credentials_def intro!: grows_refl)
  moreover have "ok_webauthn_ceremonies t' \<and> grows ceremony_evolves (webauthn_ceremonies t) (webauthn_ceremonies t')"
    using assms(1,2,5) by (auto simp: webauthn_inv_def ok_webauthn_ceremonies_def intro!: grows_refl)
  ultimately show ?thesis by (simp add: webauthn_evolves_def webauthn_inv_def)
qed

lemma webauthn_writes [simp]:
  "webauthn_prog (exec (insert_audit a))"
  "webauthn_prog (exec (insert_login_session i u cr ex))"
  "webauthn_prog (exec (insert_webauthn_ceremony c))"
  "webauthn_prog (exec (consume_webauthn_ceremony i now))"
  "webauthn_prog (exec (insert_webauthn_credential k))"
  by (rule webauthn_stmtI, erule webauthn_frame,
      auto simp: insert_audit_def insert_login_session_def insert_webauthn_ceremony_def
        consume_webauthn_ceremony_def insert_webauthn_credential_def Let_def ceremony_evolves_def
        intro!: grows_new grows_update split: if_splits)+

lemma insert_webauthn_user_keeps [simp]: "webauthn_prog (exec (insert_webauthn_user u h))"
  by (rule webauthn_stmtI)
    (auto simp: insert_webauthn_user_def webauthn_evolves_def webauthn_inv_def ok_users_def ok_webauthn_users_def
      ok_webauthn_credentials_def ok_webauthn_ceremonies_def intro!: grows_refl split: if_splits)

lemma update_credentials_keep:
  assumes "\<And>c. P c \<Longrightarrow> passkey_evolves c (f c)"
  shows "webauthn_prog (exec (update_webauthn_credentials P f))"
  using assms
  by (intro webauthn_stmtI, erule_tac webauthn_frame)
    (auto simp: update_webauthn_credentials_def Let_def intro!: grows_update split: if_splits)

lemma passkey_updates [simp]:
  "webauthn_prog (exec (update_webauthn_credentials
     (\<lambda>c. wc_management_id c = m \<and> wc_user_id c = u \<and> wc_revoked_at c = None) (\<lambda>c. c\<lparr>wc_revoked_at := Some now\<rparr>)))"
  "validWebAuthnSignCount prev n \<Longrightarrow> webauthn_prog (exec (update_webauthn_credentials
     (\<lambda>c. wc_credential_id c = i \<and> wc_user_id c = u \<and> wc_revoked_at c = None \<and> wc_sign_count c = prev)
     (\<lambda>c. c\<lparr>wc_sign_count := n, wc_backup_state := b, wc_last_used_at := Some now\<rparr>)))"
  by (rule update_credentials_keep, auto simp: passkey_evolves_def validWebAuthnSignCount_def)+

lemma webauthn_reads [simp]:
  "webauthn_prog (query_row q)" "webauthn_prog (query_all q')" "webauthn_prog (ensure c e)" "webauthn_prog (ret a)"
  "webauthn_prog (one_row r)" "webauthn_prog now_m" "webauthn_prog rand_m" "webauthn_prog (validateAuditIP ip)"
  "webauthn_prog newWebAuthnManagementID"
  by (auto simp: validateAuditIP_def newWebAuthnManagementID_def
      intro!: webauthn_contract.keeps_read_only atomic_intros)

section \<open>Every operation keeps the contract\<close>

datatype webauthn_op =
  OpEnsureHandle int
| OpCreateCeremony WebAuthnCeremony
| OpConsumeCeremony string string string time
| OpCompleteRegistration string string time WebAuthnCredential string string
| OpRevokePasskey string int string string time
| OpCompleteAuthentication string time WebAuthnAuthenticationUpdate SelfServiceSession string

fun webauthn_step :: "webauthn_op \<Rightarrow> unit dbm" where
  "webauthn_step (OpEnsureHandle u) = discard (EnsureWebAuthnUserHandle u)"
| "webauthn_step (OpCreateCeremony c) = CreateWebAuthnCeremony c"
| "webauthn_step (OpConsumeCeremony i k a now) = discard (ConsumeWebAuthnCeremony i k a now)"
| "webauthn_step (OpCompleteRegistration i a now c u ip) = CompleteWebAuthnRegistration i a now c u ip"
| "webauthn_step (OpRevokePasskey m i u ip now) = RevokeWebAuthnCredentialWithAudit m i u ip now"
| "webauthn_step (OpCompleteAuthentication i now up s ip) = CompleteWebAuthnAuthentication i now up s ip"

lemma webauthn_step_keeps: "webauthn_prog (webauthn_step op)"
  by (cases op)
    (simp_all add: EnsureWebAuthnUserHandle_def CreateWebAuthnCeremony_def ConsumeWebAuthnCeremony_def
      CompleteWebAuthnRegistration_def finishWebAuthnRegistration_def RevokeWebAuthnCredentialWithAudit_def
      CompleteWebAuthnAuthentication_def discard_def webauthn_contract.keeps_guard
      webauthn_contract.keeps_dbind webauthn_contract.keeps_dthen webauthn_contract.keeps_tx' split: prod.splits)

section \<open>A ceremony completes once\<close>

definition ceremony_spent :: "world \<Rightarrow> string \<Rightarrow> bool" where
  "ceremony_spent w i \<longleftrightarrow> (\<exists>c \<in> set (webauthn_ceremonies (tb w)). ce_id c = i \<and> ce_consumed_at c \<noteq> None)"

fun ceremony_of :: "webauthn_op \<Rightarrow> string option" where
  "ceremony_of (OpConsumeCeremony i k a now) = Some i"
| "ceremony_of (OpCompleteRegistration i a now c u ip) = Some i"
| "ceremony_of (OpCompleteAuthentication i now up s ip) = Some i"
| "ceremony_of _ = None"

definition ceremony_won :: "webauthn_op \<Rightarrow> db_error + unit \<Rightarrow> string \<Rightarrow> bool" where
  "ceremony_won op r i \<longleftrightarrow> r = Inr () \<and> ceremony_of op = Some i"

lemma consume_ceremony_Some:
  "consume_webauthn_ceremony i now stamp t = Some (t', n, k) \<Longrightarrow>
   webauthn_ceremonies t' = update_where (\<lambda>c. ce_id c = i \<and> ce_consumed_at c = None)
     (\<lambda>c. c\<lparr>ce_consumed_at := Some now\<rparr>) (webauthn_ceremonies t) \<and>
   webauthn_credentials t' = webauthn_credentials t \<and> self_service_sessions t' = self_service_sessions t \<and>
   audit_log t' = audit_log t \<and> users t' = users t \<and>
   count_where (\<lambda>c. ce_id c = i \<and> ce_consumed_at c = None) (webauthn_ceremonies t) = n"
  by (auto simp: consume_webauthn_ceremony_def Let_def split: if_splits)

lemma webauthn_appends:
  "insert_audit a now t = Some (t', r) \<Longrightarrow>
     audit_log t' = audit_log t @ [a\<lparr>aud_id := audit_seq t + 1, aud_timestamp := now\<rparr>] \<and>
     webauthn_ceremonies t' = webauthn_ceremonies t \<and> webauthn_credentials t' = webauthn_credentials t \<and>
     self_service_sessions t' = self_service_sessions t"
  "insert_login_session i u cr ex now t = Some (t', r) \<Longrightarrow>
     self_service_sessions t' = self_service_sessions t @ [\<lparr>sss_id = i, sss_username = u,
       sss_created_at = cr, sss_expires_at = ex, sss_revoked_at = None\<rparr>] \<and> audit_log t' = audit_log t \<and>
     webauthn_ceremonies t' = webauthn_ceremonies t \<and> webauthn_credentials t' = webauthn_credentials t"
  "insert_webauthn_credential c now t = Some (t', r) \<Longrightarrow>
     webauthn_credentials t' = webauthn_credentials t @ [c\<lparr>wc_last_used_at := None, wc_revoked_at := None\<rparr>] \<and>
     audit_log t' = audit_log t \<and> webauthn_ceremonies t' = webauthn_ceremonies t"
  "update_webauthn_credentials P f now t = Some (t', n, k) \<Longrightarrow>
     webauthn_credentials t' = update_where P f (webauthn_credentials t) \<and>
     audit_log t' = audit_log t \<and> webauthn_ceremonies t' = webauthn_ceremonies t \<and>
     self_service_sessions t' = self_service_sessions t \<and> count_where P (webauthn_credentials t) = n"
  by (auto simp: insert_audit_def insert_login_session_def insert_webauthn_credential_def
      update_webauthn_credentials_def Let_def split: if_splits)

text \<open>What a completed ceremony looked like before and after.\<close>

definition ceremony_used :: "string \<Rightarrow> tables \<Rightarrow> tables \<Rightarrow> bool" where
  "ceremony_used i t t' \<longleftrightarrow> (\<exists>c \<in> set (webauthn_ceremonies t). ce_id c = i \<and> ce_consumed_at c = None) \<and>
     (\<exists>c \<in> set (webauthn_ceremonies t'). ce_id c = i \<and> ce_consumed_at c \<noteq> None)"

lemma ceremony_usedI:
  assumes "c \<in> set cs" "ce_id c = i" "ce_consumed_at c = None"
    "webauthn_ceremonies t = cs"
    "webauthn_ceremonies t' = update_where (\<lambda>c. ce_id c = i \<and> ce_consumed_at c = None)
       (\<lambda>c. c\<lparr>ce_consumed_at := Some now\<rparr>) cs"
  shows "ceremony_used i t t'"
proof -
  have "c\<lparr>ce_consumed_at := Some now\<rparr> \<in> set (webauthn_ceremonies t')"
    unfolding assms(5) set_update_where using assms(1-3) by force
  then have "\<exists>d \<in> set (webauthn_ceremonies t'). ce_id d = i \<and> ce_consumed_at d \<noteq> None"
    using assms(2) by (intro bexI [of _ "c\<lparr>ce_consumed_at := Some now\<rparr>"]) simp_all
  with assms(1-4) show ?thesis by (auto simp: ceremony_used_def)
qed

lemma ConsumeCeremony_uses:
  assumes "ConsumeWebAuthnCeremony i k a now w = (Inr x, w')"
  shows "ceremony_used i (tb w) (tb w')"
  using assms by (auto simp: ConsumeWebAuthnCeremony_def db_simps active_ceremony_def
      dest!: filter_eq_Cons_mem consume_ceremony_Some intro!: ceremony_usedI)

lemma validateAuditIP_same: "validateAuditIP ip w = (Inr u, w') \<Longrightarrow> w' = w"
  by (auto simp: validateAuditIP_def db_simps split: if_splits)

lemma optional_owner: "(case o' of None \<Rightarrow> False | Some u \<Rightarrow> u \<noteq> x) \<longleftrightarrow> o' \<noteq> None \<and> o' \<noteq> Some x"
  by (auto split: option.splits)

definition registered :: "string \<Rightarrow> string \<Rightarrow> time \<Rightarrow> WebAuthnCredential \<Rightarrow> string \<Rightarrow> tables \<Rightarrow> tables \<Rightarrow> bool" where
  "registered i a now k username t t' \<longleftrightarrow>
     (\<exists>c \<in> set (webauthn_ceremonies t). active_ceremony i ''registration'' a now c \<and> ce_user_id c = Some (wc_user_id k)) \<and>
     (\<exists>u \<in> set (users t). usr_id u = wc_user_id k \<and> usr_username u = username) \<and>
     webauthn_credentials t' = webauthn_credentials t @
       [k\<lparr>wc_created_at := now, wc_last_used_at := None, wc_revoked_at := None\<rparr>] \<and>
     (\<exists>e. audit_log t' = audit_log t @ [e] \<and> aud_event_type e = ''passkey_registered'' \<and> aud_username e = username) \<and>
     webauthn_ceremonies t' = update_where (\<lambda>c. ce_id c = i \<and> ce_consumed_at c = None)
       (\<lambda>c. c\<lparr>ce_consumed_at := Some now\<rparr>) (webauthn_ceremonies t)"

lemma finishRegistration_returns:
  assumes "finishWebAuthnRegistration i a now k username ip w = (Inr x, w')"
  shows "registered i a now k username (tb w) (tb w')"
  using assms
  by (auto simp: finishWebAuthnRegistration_def registered_def tx_Inr dthen_Inr dbind_Inr ensure_Inr exec_Inr
      one_row_Inr ret_Inr audit_event_def dest!: query_row_mem webauthn_appends consume_ceremony_Some) blast+

definition logged_in :: "string \<Rightarrow> time \<Rightarrow> WebAuthnAuthenticationUpdate \<Rightarrow> SelfServiceSession \<Rightarrow>
    WebAuthnCredential \<Rightarrow> tables \<Rightarrow> tables \<Rightarrow> bool" where
  "logged_in i now up s k t t' \<longleftrightarrow>
     (\<exists>c \<in> set (webauthn_ceremonies t). active_ceremony i ''authentication'' ''self-service'' now c \<and>
        (ce_user_id c = None \<or> ce_user_id c = Some (wc_user_id k))) \<and>
     k \<in> set (webauthn_credentials t) \<and> wc_credential_id k = wau_CredentialID up \<and> wc_revoked_at k = None \<and>
     wc_user_id k = wau_UserID up \<and> validWebAuthnSignCount (wc_sign_count k) (wau_SignCount up) \<and>
     (\<exists>u \<in> set (users t). usr_id u = wc_user_id k \<and> usr_username u = sss_username s) \<and>
     webauthn_credentials t' = update_where (\<lambda>c. wc_credential_id c = wau_CredentialID up \<and>
          wc_user_id c = wau_UserID up \<and> wc_revoked_at c = None \<and> wc_sign_count c = wc_sign_count k)
        (\<lambda>c. c\<lparr>wc_sign_count := wau_SignCount up, wc_backup_state := wau_BackupState up, wc_last_used_at := Some now\<rparr>)
        (webauthn_credentials t) \<and>
     self_service_sessions t' = self_service_sessions t @ [\<lparr>sss_id = sss_id s, sss_username = sss_username s,
       sss_created_at = now, sss_expires_at = sss_expires_at s, sss_revoked_at = None\<rparr>] \<and>
     (\<exists>e. audit_log t' = audit_log t @ [e] \<and> aud_event_type e = ''passkey_login'' \<and>
        aud_username e = sss_username s \<and> aud_success e) \<and>
     webauthn_ceremonies t' = update_where (\<lambda>c. ce_id c = i \<and> ce_consumed_at c = None)
       (\<lambda>c. c\<lparr>ce_consumed_at := Some now\<rparr>) (webauthn_ceremonies t)"

lemma CompleteAuthentication_returns:
  assumes "CompleteWebAuthnAuthentication i now up s ip w = (Inr x, w')"
  shows "validWebAuthnAuthentication i now up s \<and> (\<exists>k. logged_in i now up s k (tb w) (tb w'))"
  using assms
  by (auto simp: CompleteWebAuthnAuthentication_def logged_in_def tx_Inr dthen_Inr dbind_Inr
      ensure_Inr exec_Inr one_row_Inr ret_Inr audit_event_def optional_owner
      dest!: validateAuditIP_same query_row_mem webauthn_appends consume_ceremony_Some)
    (rule_tac x = xa in exI, simp, (intro conjI; (erule rev_bexI, simp)))+

lemma CompleteRegistration_returns:
  assumes "CompleteWebAuthnRegistration i a now k username ip w = (Inr x, w')"
  shows "\<exists>m. registered i a now (k\<lparr>wc_management_id := m\<rparr>) username (tb w) (tb w')"
proof (cases "wc_management_id k = []")
  case True
  with assms obtain m w1 where "tb w1 = tb w"
    "finishWebAuthnRegistration i a now (k\<lparr>wc_management_id := m\<rparr>) username ip w1 = (Inr x, w')"
    by (auto simp: CompleteWebAuthnRegistration_def newWebAuthnManagementID_def db_simps
        dest!: validateAuditIP_same) (metis tick_simps(1))
  then show ?thesis using finishRegistration_returns by metis
next
  case False
  with assms have "finishWebAuthnRegistration i a now k username ip w = (Inr x, w')"
    by (auto simp: CompleteWebAuthnRegistration_def db_simps dest!: validateAuditIP_same)
  from finishRegistration_returns [OF this] have
    "registered i a now (k\<lparr>wc_management_id := wc_management_id k\<rparr>) username (tb w) (tb w')" by simp
  then show ?thesis by blast
qed

lemma ceremony_won_uses:
  assumes "webauthn_step op w = (r, w')" "ceremony_won op r i"
  shows "ceremony_used i (tb w) (tb w')"
proof (cases op)
  case (OpConsumeCeremony i' k a now)
  with assms show ?thesis
    by (auto simp: ceremony_won_def db_simps intro: ConsumeCeremony_uses)
next
  case (OpCompleteRegistration i' a now k u ip)
  with assms CompleteRegistration_returns [of i a now k u ip w "()" w'] show ?thesis
    by (auto simp: ceremony_won_def registered_def active_ceremony_def intro: ceremony_usedI)
next
  case (OpCompleteAuthentication i' now up s ip)
  with assms CompleteAuthentication_returns [of i now up s ip w "()" w'] show ?thesis
    by (auto simp: ceremony_won_def logged_in_def active_ceremony_def intro: ceremony_usedI)
qed (use assms in \<open>auto simp: ceremony_won_def\<close>)

interpretation ceremony_use: single_use webauthn_step ceremony_won ceremony_spent "\<lambda>w. webauthn_inv (tb w)"
proof
  fix w w' :: world and op r i
  assume inv: "webauthn_inv (tb w)" and st: "webauthn_step op w = (r, w')"
  have ev: "webauthn_evolves (tb w) (tb w')" by (rule keepsD [OF webauthn_step_keeps inv st])
  then show "webauthn_inv (tb w')" by (simp add: webauthn_evolves_def)
  show "ceremony_spent w' i" if "ceremony_won op r i"
    using ceremony_won_uses [OF st that] by (auto simp: ceremony_used_def ceremony_spent_def)
  show "\<not> ceremony_spent w i" if won: "ceremony_won op r i"
  proof
    assume "ceremony_spent w i"
    then obtain c where c: "c \<in> set (webauthn_ceremonies (tb w))" "ce_id c = i" "ce_consumed_at c \<noteq> None"
      by (auto simp: ceremony_spent_def)
    from ceremony_won_uses [OF st won] obtain d where d: "d \<in> set (webauthn_ceremonies (tb w))" "ce_id d = i"
      "ce_consumed_at d = None" by (auto simp: ceremony_used_def)
    have "distinct (map ce_id (webauthn_ceremonies (tb w)))"
      using inv by (simp add: webauthn_inv_def ok_webauthn_ceremonies_def)
    from distinct_map_eq [OF this c(1) d(1)] c(2,3) d(2,3) show False by simp
  qed
  show "ceremony_spent w' i" if spent: "ceremony_spent w i"
  proof -
    from spent obtain c where c: "c \<in> set (webauthn_ceremonies (tb w))" "ce_id c = i" "ce_consumed_at c \<noteq> None"
      by (auto simp: ceremony_spent_def)
    have "grows ceremony_evolves (webauthn_ceremonies (tb w)) (webauthn_ceremonies (tb w'))"
      using ev by (simp add: webauthn_evolves_def)
    from grows_mem [OF this c(1)] c(2,3) show ?thesis by (auto simp: ceremony_spent_def ceremony_evolves_def)
  qed
qed

text \<open>
  C18: A WebAuthn ceremony is good for one completion: whatever sequence of passkey operations is
  run, at most one of the attempts to consume it, to register a passkey with it or to log in
  with it succeeds.
\<close>

theorem webauthn_ceremony_single_use:
  "webauthn_inv (tb w) \<Longrightarrow> wins webauthn_step ceremony_won ops w i \<le> 1"
  by (rule ceremony_use.wins_at_most_once)

definition demo_passkey :: WebAuthnCredential where
  "demo_passkey = \<lparr>wc_credential_id = ''pk'', wc_management_id = ''0123456789abcdef'', wc_user_id = 1,
     wc_public_key = ''key'', wc_rp_id = ''id.example'', wc_name = ''Key'', wc_transports = [],
     wc_attestation_type = [], wc_attestation_format = [], wc_flags = 1, wc_sign_count = 5,
     wc_backup_eligible = False, wc_backup_state = False, wc_created_at = 0,
     wc_last_used_at = None, wc_revoked_at = None\<rparr>"

definition demo_ceremony :: "string \<Rightarrow> string \<Rightarrow> WebAuthnCeremony" where
  "demo_ceremony i kind = \<lparr>ce_id = i, ce_kind = kind, ce_audience = ''self-service'', ce_user_id = Some 1,
     ce_session_data = ''{}'', ce_created_at = 0, ce_expires_at = minute, ce_consumed_at = None\<rparr>"

definition demo_webauthn_tables :: tables where
  "demo_webauthn_tables = (case insert_user ''ada'' ''Ada'' [] 0 empty_tables of None \<Rightarrow> empty_tables
     | Some (t, _) \<Rightarrow> t\<lparr>webauthn_users := [\<lparr>wu_user_id = 1, wu_user_handle = replicate 32 (CHR ''h'')\<rparr>],
         webauthn_credentials := [demo_passkey],
         webauthn_ceremonies := [demo_ceremony ''c1'' ''authentication'', demo_ceremony ''c2'' ''registration'']\<rparr>)"

definition demo_assertion :: WebAuthnAuthenticationUpdate where
  "demo_assertion = \<lparr>wau_CredentialID = ''pk'', wau_UserID = 1, wau_SignCount = 6, wau_BackupState = False\<rparr>"

definition demo_login_session :: SelfServiceSession where
  "demo_login_session = \<lparr>sss_id = ''s1'', sss_username = ''ada'', sss_created_at = 0,
     sss_expires_at = 10 * minute, sss_revoked_at = None\<rparr>"

definition demo_passkey_login :: webauthn_op where
  "demo_passkey_login = OpCompleteAuthentication ''c1'' 0 demo_assertion demo_login_session []"

lemma webauthn_inv_demo: "webauthn_inv demo_webauthn_tables"
  by code_simp

theorem webauthn_ceremony_single_use_witness:
  "wins webauthn_step ceremony_won [demo_passkey_login, demo_passkey_login]
     (calm_world demo_webauthn_tables) ''c1'' = 1"
proof -
  have "wins webauthn_step ceremony_won [demo_passkey_login, demo_passkey_login]
     (calm_world demo_webauthn_tables) ''c1'' \<noteq> 0" by code_simp
  with webauthn_ceremony_single_use [of "calm_world demo_webauthn_tables" "[demo_passkey_login, demo_passkey_login]"
      "''c1''"] webauthn_inv_demo show ?thesis by simp
qed

section \<open>Login and registration\<close>

text \<open>
  A passkey login is what it claims: when it succeeds, the ceremony was an active self-service
  authentication, open or started for the passkey's owner, the passkey was registered and not
  revoked, its signature counter advanced (or both counters are zero); exactly one session is
  created, for the passkey's owner and for at most 15 minutes, together with one audit event.
\<close>

theorem passkey_login_bound:
  assumes "CompleteWebAuthnAuthentication i now up s ip w = (Inr (), w')"
  shows "(\<exists>c \<in> set (webauthn_ceremonies (tb w)). active_ceremony i ''authentication'' ''self-service'' now c \<and>
      (ce_user_id c = None \<or> ce_user_id c = Some (wau_UserID up))) \<and>
    (\<exists>k \<in> set (webauthn_credentials (tb w)). wc_credential_id k = wau_CredentialID up \<and> wc_revoked_at k = None \<and>
      wc_user_id k = wau_UserID up \<and>
      (wc_sign_count k < wau_SignCount up \<or> wc_sign_count k = 0 \<and> wau_SignCount up = 0)) \<and>
    (\<exists>u \<in> set (users (tb w)). usr_id u = wau_UserID up \<and>
      self_service_sessions (tb w') = self_service_sessions (tb w) @ [\<lparr>sss_id = sss_id s, sss_username = usr_username u,
        sss_created_at = now, sss_expires_at = sss_expires_at s, sss_revoked_at = None\<rparr>]) \<and>
    now < sss_expires_at s \<and> sss_expires_at s \<le> now + 15 * minute \<and>
    (\<exists>e. audit_log (tb w') = audit_log (tb w) @ [e] \<and> aud_event_type e = ''passkey_login'' \<and> aud_success e)"
proof -
  from CompleteAuthentication_returns [OF assms] obtain k where
    v: "validWebAuthnAuthentication i now up s" and k: "logged_in i now up s k (tb w) (tb w')" by blast
  from k show ?thesis
    using v by (auto simp: logged_in_def validWebAuthnAuthentication_def validWebAuthnSignCount_def)
qed

theorem passkey_login_bound_witness:
  "self_service_sessions (tb (snd (CompleteWebAuthnAuthentication ''c1'' 0 demo_assertion demo_login_session []
      (calm_world demo_webauthn_tables)))) \<noteq> []"
proof -
  let ?m = "CompleteWebAuthnAuthentication ''c1'' 0 demo_assertion demo_login_session []
      (calm_world demo_webauthn_tables)"
  have "?m = (Inr (), snd ?m)" unfolding prod_eq_iff by (rule conjI, code_simp, simp)
  from passkey_login_bound [OF this] show ?thesis by auto
qed

text \<open>
  A passkey is registered only for the user the ceremony was started for: a successful
  registration found an active registration ceremony of exactly the credential's user, whose name
  is the one that is audited, and adds exactly that credential, unrevoked and never used.
\<close>

theorem passkey_registration_bound:
  assumes "CompleteWebAuthnRegistration i a now k username ip w = (Inr (), w')"
  shows "(\<exists>c \<in> set (webauthn_ceremonies (tb w)). active_ceremony i ''registration'' a now c \<and>
      ce_user_id c = Some (wc_user_id k)) \<and>
    (\<exists>u \<in> set (users (tb w)). usr_id u = wc_user_id k \<and> usr_username u = username) \<and>
    (\<exists>new. webauthn_credentials (tb w') = webauthn_credentials (tb w) @ [new] \<and>
      wc_credential_id new = wc_credential_id k \<and> wc_user_id new = wc_user_id k \<and>
      wc_public_key new = wc_public_key k \<and> wc_sign_count new = wc_sign_count k \<and> wc_revoked_at new = None \<and>
      wc_last_used_at new = None) \<and>
    (\<exists>e. audit_log (tb w') = audit_log (tb w) @ [e] \<and> aud_event_type e = ''passkey_registered'' \<and>
      aud_username e = username)"
  using CompleteRegistration_returns [OF assms] by (auto simp: registered_def)

theorem passkey_registration_bound_witness:
  "\<exists>new. webauthn_credentials (tb (snd (CompleteWebAuthnRegistration ''c2'' ''self-service'' 0
       (demo_passkey\<lparr>wc_credential_id := ''pk2'', wc_management_id := ''0123456789abcdeg''\<rparr>) ''ada'' []
       (calm_world demo_webauthn_tables)))) = [demo_passkey, new] \<and> wc_user_id new = 1"
proof -
  let ?m = "CompleteWebAuthnRegistration ''c2'' ''self-service'' 0
       (demo_passkey\<lparr>wc_credential_id := ''pk2'', wc_management_id := ''0123456789abcdeg''\<rparr>) ''ada'' []
       (calm_world demo_webauthn_tables)"
  have "?m = (Inr (), snd ?m)" unfolding prod_eq_iff by (rule conjI, code_simp, simp)
  note bound = passkey_registration_bound [OF this]
  have "webauthn_credentials (tb (calm_world demo_webauthn_tables)) = [demo_passkey]" by code_simp
  with bound show ?thesis by (auto simp: demo_passkey_def)
qed

section \<open>Counters and revocation\<close>

text \<open>
  C27: A signature counter is never accepted twice: after a login with a non-zero counter, every
  later login with the same passkey, whatever happened in between, needs a strictly larger one.
\<close>

theorem sign_count_never_replayed:
  assumes inv: "webauthn_inv (tb w)"
    and first: "CompleteWebAuthnAuthentication i now up s ip w = (Inr (), w1)" and "wau_SignCount up \<noteq> 0"
    and again: "CompleteWebAuthnAuthentication i' now' up' s' ip' (run_all webauthn_step ops w1) = (Inr (), w2)"
    and "wau_CredentialID up' = wau_CredentialID up"
  shows "wau_SignCount up < wau_SignCount up'"
proof -
  let ?w = "run_all webauthn_step ops w1"
  from CompleteAuthentication_returns [OF first] obtain k where k: "logged_in i now up s k (tb w) (tb w1)" by blast
  have "k\<lparr>wc_sign_count := wau_SignCount up, wc_backup_state := wau_BackupState up, wc_last_used_at := Some now\<rparr>
      \<in> set (webauthn_credentials (tb w1))" (is "?k \<in> _")
    using k by (force simp: logged_in_def set_update_where)
  note member = this
  have ev: "webauthn_evolves (tb w) (tb w1)"
    using keepsD [OF webauthn_step_keeps inv, of "OpCompleteAuthentication i now up s ip"] first by simp
  then have ev1: "webauthn_evolves (tb w1) (tb ?w)"
    by (intro webauthn_contract.keeps_run_all [OF webauthn_step_keeps]) (simp add: webauthn_evolves_def)
  then have "grows passkey_evolves (webauthn_credentials (tb w1)) (webauthn_credentials (tb ?w))"
    by (simp add: webauthn_evolves_def)
  from grows_mem [OF this member] obtain k1 where k1: "k1 \<in> set (webauthn_credentials (tb ?w))" "passkey_evolves ?k k1"
    by blast
  from CompleteAuthentication_returns [OF again] obtain k2 where
    k2: "logged_in i' now' up' s' k2 (tb ?w) (tb w2)" by blast
  have "distinct (map wc_credential_id (webauthn_credentials (tb ?w)))"
    using ev1 by (simp add: webauthn_evolves_def webauthn_inv_def ok_webauthn_credentials_def)
  from distinct_map_eq [OF this k1(1), of k2] k1 k2 k assms(5) have "k1 = k2"
    by (simp add: logged_in_def passkey_evolves_def)
  with k1(2) k2 assms(3) show ?thesis by (auto simp: logged_in_def passkey_evolves_def validWebAuthnSignCount_def)
qed

text \<open>
  C28: A revoked passkey never logs in again: once a passkey is revoked, no sequence of passkey
  operations makes a login with its credential identifier succeed.
\<close>

theorem revoked_passkey_never_logs_in:
  assumes inv: "webauthn_inv (tb w)" and row: "k \<in> set (webauthn_credentials (tb w))" "wc_management_id k = m"
    and revoked: "RevokeWebAuthnCredentialWithAudit m uid username ip now w = (Inr (), w1)"
    and "wau_CredentialID up = wc_credential_id k"
  shows "CompleteWebAuthnAuthentication i now' up s ip' (run_all webauthn_step ops w1) \<noteq> (Inr (), w2)"
proof
  let ?w = "run_all webauthn_step ops w1"
  assume login: "CompleteWebAuthnAuthentication i now' up s ip' ?w = (Inr (), w2)"
  from revoked obtain c where c: "c \<in> set (webauthn_credentials (tb w))" "wc_management_id c = m"
    "wc_user_id c = uid" "wc_revoked_at c = None"
    and rows: "webauthn_credentials (tb w1) = update_where
      (\<lambda>c. wc_management_id c = m \<and> wc_user_id c = uid \<and> wc_revoked_at c = None)
      (\<lambda>c. c\<lparr>wc_revoked_at := Some now\<rparr>) (webauthn_credentials (tb w))"
    by (auto simp: RevokeWebAuthnCredentialWithAudit_def tx_Inr dthen_Inr dbind_Inr ensure_Inr exec_Inr one_row_Inr
        ret_Inr dest!: validateAuditIP_same query_row_mem webauthn_appends)
  have "distinct (map wc_management_id (webauthn_credentials (tb w)))"
    using inv by (simp add: webauthn_inv_def ok_webauthn_credentials_def)
  from distinct_map_eq [OF this c(1) row(1)] c(2) row(2) have "c = k" by simp
  with c rows have k: "k\<lparr>wc_revoked_at := Some now\<rparr> \<in> set (webauthn_credentials (tb w1))"
    by (force simp: set_update_where)
  have "webauthn_evolves (tb w) (tb w1)"
    using keepsD [OF webauthn_step_keeps inv, of "OpRevokePasskey m uid username ip now"] revoked by simp
  then have ev: "webauthn_evolves (tb w1) (tb ?w)"
    by (intro webauthn_contract.keeps_run_all [OF webauthn_step_keeps]) (simp add: webauthn_evolves_def)
  then have "grows passkey_evolves (webauthn_credentials (tb w1)) (webauthn_credentials (tb ?w))"
    by (simp add: webauthn_evolves_def)
  from grows_mem [OF this k] obtain k1 where k1: "k1 \<in> set (webauthn_credentials (tb ?w))"
    "wc_credential_id k1 = wc_credential_id k" "wc_revoked_at k1 \<noteq> None" by (auto simp: passkey_evolves_def)
  from CompleteAuthentication_returns [OF login] obtain k2 where
    k2: "logged_in i now' up s k2 (tb ?w) (tb w2)" by blast
  have "distinct (map wc_credential_id (webauthn_credentials (tb ?w)))"
    using ev by (simp add: webauthn_evolves_def webauthn_inv_def ok_webauthn_credentials_def)
  from distinct_map_eq [OF this k1(1), of k2] k1 k2 assms(5) show False by (auto simp: logged_in_def)
qed

theorem revoked_passkey_never_logs_in_witness:
  "\<forall>w2. CompleteWebAuthnAuthentication ''c1'' 0 demo_assertion demo_login_session []
     (snd (RevokeWebAuthnCredentialWithAudit ''0123456789abcdef'' 1 ''ada'' [] 0 (calm_world demo_webauthn_tables)))
   \<noteq> (Inr (), w2)"
proof -
  let ?m = "RevokeWebAuthnCredentialWithAudit ''0123456789abcdef'' 1 ''ada'' [] 0 (calm_world demo_webauthn_tables)"
  have out: "?m = (Inr (), snd ?m)" unfolding prod_eq_iff by (rule conjI, code_simp, simp)
  have inv: "webauthn_inv (tb (calm_world demo_webauthn_tables))" by (simp add: webauthn_inv_demo)
  have k: "demo_passkey \<in> set (webauthn_credentials (tb (calm_world demo_webauthn_tables)))" by code_simp
  from revoked_passkey_never_logs_in [OF inv k _ out, of demo_assertion "''c1''" 0 demo_login_session "[]" "[]"]
  show ?thesis by (simp add: demo_passkey_def demo_assertion_def)
qed

text \<open>A second ceremony and a second session for the same passkey.\<close>

definition demo_second_login :: "world \<Rightarrow> (db_error + unit) \<times> world" where
  "demo_second_login = CompleteWebAuthnAuthentication ''c3'' 0 (demo_assertion\<lparr>wau_SignCount := 9\<rparr>)
     (demo_login_session\<lparr>sss_id := ''s2''\<rparr>) []"

theorem sign_count_never_replayed_witness:
  "wau_SignCount demo_assertion < wau_SignCount (demo_assertion\<lparr>wau_SignCount := 9\<rparr>)"
proof -
  let ?m = "CompleteWebAuthnAuthentication ''c1'' 0 demo_assertion demo_login_session []
      (calm_world demo_webauthn_tables)"
  let ?ops = "[OpCreateCeremony (demo_ceremony ''c3'' ''authentication'')]"
  let ?n = "demo_second_login (run_all webauthn_step ?ops (snd ?m))"
  have inv: "webauthn_inv (tb (calm_world demo_webauthn_tables))" by (simp add: webauthn_inv_demo)
  have m: "?m = (Inr (), snd ?m)" unfolding prod_eq_iff by (rule conjI, code_simp, simp)
  have "?n = (Inr (), snd ?n)" unfolding prod_eq_iff by (rule conjI, code_simp, simp)
  then have n: "CompleteWebAuthnAuthentication ''c3'' 0 (demo_assertion\<lparr>wau_SignCount := 9\<rparr>)
     (demo_login_session\<lparr>sss_id := ''s2''\<rparr>) [] (run_all webauthn_step ?ops (snd ?m)) = (Inr (), snd ?n)"
    by (simp only: demo_second_login_def)
  have "wau_SignCount demo_assertion \<noteq> 0" by (simp add: demo_assertion_def)
  from sign_count_never_replayed [OF inv m this n] show ?thesis by simp
qed

end
