(* ===== verification/Passkeys.thy ===== *)
theory Passkeys
  imports Access_Rules WebAuthn_Store
begin

text \<open>
  Passkeys on the self-service portal: the adapter of \<^verbatim>\<open>internal/passkey\<close> around the WebAuthn
  library and the handlers of \<^verbatim>\<open>internal/server/passkeys.go\<close>.  The library itself is a parameter;
  the adapter is what a successful \<^verbatim>\<open>New\<close> returns, so neither it nor its library is nil.
\<close>

unbundle bit_operations_syntax

section \<open>The WebAuthn library\<close>

type_synonym u8 = "8 word"

record CredentialFlags =
  fl_BackupEligible :: bool
  fl_BackupState :: bool
  fl_MsgpByte :: u8

text \<open>A credential, a user and the data of a ceremony as the library sees them.\<close>

record wa_Credential =
  wa_ID :: string
  wa_PublicKey :: string
  wa_AttestationType :: string
  wa_AttestationFormat :: string
  wa_Transport :: "string list"
  wa_Flags :: CredentialFlags
  wa_SignCount :: u32
  wa_CloneWarning :: bool

record wa_User =
  wa_WebAuthnID :: string
  wa_WebAuthnName :: string
  wa_WebAuthnDisplayName :: string
  wa_WebAuthnCredentials :: "wa_Credential list"

record SessionData =
  sd_Challenge :: string
  sd_RelyingPartyID :: string
  sd_Origin :: string
  sd_UserID :: string
  sd_Expires :: time
  sd_UserVerification :: string

text \<open>
  The functions of the library.  Those that draw a challenge get the step at which they are called.
  Parsed responses and the options for the browser are opaque texts.  \<open>PasskeyLoginQuery\<close>
  says with which credential and user handle \<^verbatim>\<open>ValidatePasskeyLogin\<close> asks for the user, if it does;
  \<open>PasskeyLoginVerify\<close> is its answer once it has the user, with whether the user it
  returns is the one it was given.  A missing result is an error, an inner \<open>None\<close> a nil pointer.
\<close>

record wa_library =
  FlagBackupState :: u8
  NewCredentialFlags :: "u8 \<Rightarrow> CredentialFlags"
  lib_BeginRegistration :: "nat \<Rightarrow> wa_User \<Rightarrow> string \<Rightarrow> string \<Rightarrow> (string \<times> SessionData) option"
  lib_BeginDiscoverableLogin :: "nat \<Rightarrow> string \<Rightarrow> string \<Rightarrow> (string \<times> SessionData) option"
  json_SessionData :: "SessionData \<Rightarrow> string option"
  unjson_SessionData :: "string \<Rightarrow> SessionData option"
  ParseCredentialCreationResponseBytes :: "string \<Rightarrow> string option"
  ParseCredentialRequestResponseBytes :: "string \<Rightarrow> string option"
  CreateCredential :: "wa_User \<Rightarrow> SessionData \<Rightarrow> string \<Rightarrow> wa_Credential option option"
  PasskeyLoginQuery :: "SessionData \<Rightarrow> string \<Rightarrow> (string \<times> string) option"
  PasskeyLoginVerify :: "SessionData \<Rightarrow> string \<Rightarrow> wa_User \<Rightarrow> (bool \<times> wa_Credential option) option"

section \<open>The adapter\<close>

record Adapter =
  ad_rpID :: string
  ad_origin :: string
  ad_inner :: wa_library

record PasskeyCredential =
  pc_ID :: string
  pc_PublicKey :: string
  pc_AttestationType :: string
  pc_AttestationFormat :: string
  pc_Transports :: "string list"
  pc_Flags :: u8
  pc_SignCount :: u32
  pc_BackupEligible :: bool
  pc_BackupState :: bool

record PasskeyUser =
  pu_LocalID :: int
  pu_Handle :: string
  pu_Name :: string
  pu_DisplayName :: string
  pu_Credentials :: "PasskeyCredential list"

record AuthenticationResult =
  au_LocalUserID :: int
  au_CredentialID :: string
  au_SignCount :: u32
  au_BackupState :: bool

record RegistrationResult =
  rg_CredentialID :: string
  rg_PublicKey :: string
  rg_AttestationType :: string
  rg_AttestationFormat :: string
  rg_Transports :: "string list"
  rg_Flags :: u8
  rg_SignCount :: u32
  rg_BackupEligible :: bool
  rg_BackupState :: bool

definition maximumSessionBytes :: int where
  "maximumSessionBytes = 65536"

definition maximumAssertionBytes :: int where
  "maximumAssertionBytes = 65536"

definition maximumRegistrationBytes :: int where
  "maximumRegistrationBytes = 65536"

definition WebAuthnCredentials :: "wa_library \<Rightarrow> PasskeyUser \<Rightarrow> wa_Credential list" where
  "WebAuthnCredentials L u = map (\<lambda>stored.
     let rawFlags = (if pc_BackupState stored then pc_Flags stored OR FlagBackupState L else pc_Flags stored AND NOT (FlagBackupState L))
     in \<lparr>wa_ID = pc_ID stored, wa_PublicKey = pc_PublicKey stored, wa_AttestationType = pc_AttestationType stored,
         wa_AttestationFormat = pc_AttestationFormat stored, wa_Transport = pc_Transports stored,
         wa_Flags = NewCredentialFlags L rawFlags, wa_SignCount = pc_SignCount stored, wa_CloneWarning = False\<rparr>) (pu_Credentials u)"

definition library_user :: "wa_library \<Rightarrow> PasskeyUser \<Rightarrow> wa_User" where
  "library_user L u = \<lparr>wa_WebAuthnID = pu_Handle u, wa_WebAuthnName = pu_Name u, wa_WebAuthnDisplayName = pu_DisplayName u,
     wa_WebAuthnCredentials = WebAuthnCredentials L u\<rparr>"

definition valid_stored_credential :: "wa_library \<Rightarrow> PasskeyCredential \<Rightarrow> bool" where
  "valid_stored_credential L c \<longleftrightarrow>
     \<not> (length (pc_ID c) < 1 \<or> int (length (pc_ID c)) > 4096 \<or> length (pc_PublicKey c) < 1 \<or> int (length (pc_PublicKey c)) > 8192 \<or>
        length (pc_AttestationType c) > 64 \<or> length (pc_AttestationFormat c) > 64 \<or> length (pc_Transports c) > 16) \<and>
     \<not> (fl_BackupEligible (NewCredentialFlags L (pc_Flags c)) \<noteq> pc_BackupEligible c \<or> pc_BackupState c \<and> \<not> pc_BackupEligible c) \<and>
     list_all (\<lambda>t. \<not> (length t = 0 \<or> length t > 32)) (pc_Transports c)"

definition validStoredUser :: "wa_library \<Rightarrow> PasskeyUser \<Rightarrow> bool \<Rightarrow> bool" where
  "validStoredUser L u requireCredential \<longleftrightarrow>
     \<not> (pu_LocalID u < 1 \<or> length (pu_Handle u) < 32 \<or> length (pu_Handle u) > 64 \<or> pu_Name u = [] \<or> length (pu_Name u) > 256 \<or>
        length (pu_DisplayName u) > 256 \<or> length (pu_Credentials u) > 64 \<or> requireCredential \<and> length (pu_Credentials u) < 1) \<and>
     list_all (valid_stored_credential L) (pu_Credentials u)"

fun equal_from :: "string \<Rightarrow> string \<Rightarrow> nat \<Rightarrow> nat" where
  "equal_from (l # ls) (r # rs) difference = equal_from ls rs (difference OR (of_char l XOR of_char r))"
| "equal_from _ _ difference = difference"

definition equalBytes :: "string \<Rightarrow> string \<Rightarrow> bool" where
  "equalBytes left right = (if length left \<noteq> length right then False else equal_from left right 0 = 0)"

text \<open>\<^verbatim>\<open>New\<close> checks the origin and hands a fixed configuration to the library.\<close>

record origin_url =
  or_Scheme :: string
  or_Host :: string
  or_Hostname :: string
  or_User :: bool
  or_Path :: string
  or_RawQuery :: string
  or_Fragment :: string

definition New ::
  "(string \<Rightarrow> origin_url option) \<Rightarrow> (string \<Rightarrow> string) \<Rightarrow> (string \<Rightarrow> string \<Rightarrow> bool) \<Rightarrow> (string \<Rightarrow> string \<Rightarrow> wa_library option) \<Rightarrow>
     string \<Rightarrow> string \<Rightarrow> Adapter option" where
  "New url_Parse ToLower EqualFold wa_New rpID origin =
     (let rpID = TrimSpace (ToLower rpID) in
      case url_Parse (TrimSpace origin) of None \<Rightarrow> None
      | Some parsed \<Rightarrow>
          if or_Scheme parsed \<noteq> ''https'' \<or> or_Host parsed = [] \<or> or_User parsed \<or> or_Path parsed \<noteq> [] \<or>
             or_RawQuery parsed \<noteq> [] \<or> or_Fragment parsed \<noteq> [] then None
          else if rpID = [] \<or> CHR '':'' \<in> set rpID \<or> CHR ''/'' \<in> set rpID \<or> \<not> EqualFold (or_Hostname parsed) rpID then None
          else (let origin = ''https://'' @ or_Host parsed in
            case wa_New rpID origin of None \<Rightarrow> None
            | Some inner \<Rightarrow> Some \<lparr>ad_rpID = rpID, ad_origin = origin, ad_inner = inner\<rparr>))"

definition encode_session :: "wa_library \<Rightarrow> string \<times> SessionData \<Rightarrow> (string \<times> string) option" where
  "encode_session L begun = (case json_SessionData L (snd begun) of None \<Rightarrow> None
     | Some encoded \<Rightarrow> if length encoded = 0 \<or> int (length encoded) > maximumSessionBytes then None else Some (fst begun, encoded))"

definition BeginRegistration :: "Adapter \<Rightarrow> nat \<Rightarrow> PasskeyUser \<Rightarrow> (string \<times> string) option" where
  "BeginRegistration a n user =
     (if \<not> validStoredUser (ad_inner a) user False then None
      else case lib_BeginRegistration (ad_inner a) n (library_user (ad_inner a) user) (ad_rpID a) (ad_origin a) of None \<Rightarrow> None
           | Some begun \<Rightarrow> encode_session (ad_inner a) begun)"

definition BeginDiscoverableLogin :: "Adapter \<Rightarrow> nat \<Rightarrow> (string \<times> string) option" where
  "BeginDiscoverableLogin a n =
     (case lib_BeginDiscoverableLogin (ad_inner a) n (ad_rpID a) (ad_origin a) of None \<Rightarrow> None
      | Some begun \<Rightarrow> encode_session (ad_inner a) begun)"

definition DecodeSession :: "wa_library \<Rightarrow> string \<Rightarrow> SessionData option" where
  "DecodeSession L encoded =
     (if length encoded = 0 \<or> int (length encoded) > maximumSessionBytes then None
      else case unjson_SessionData L encoded of None \<Rightarrow> None
           | Some session \<Rightarrow>
               if sd_Challenge session = [] \<or> sd_RelyingPartyID session = [] \<or> sd_Origin session = [] \<or> IsZero (sd_Expires session) \<or>
                  sd_UserVerification session \<noteq> ''required'' then None
               else Some session)"

definition ValidateRegistration :: "Adapter \<Rightarrow> PasskeyUser \<Rightarrow> string \<Rightarrow> string \<Rightarrow> RegistrationResult option" where
  "ValidateRegistration a user encodedSession response =
     (let L = ad_inner a in
      if \<not> validStoredUser L user False then None
      else if length response = 0 \<or> int (length response) > maximumRegistrationBytes then None
      else case DecodeSession L encodedSession of None \<Rightarrow> None
      | Some session \<Rightarrow>
          if sd_RelyingPartyID session \<noteq> ad_rpID a \<or> sd_Origin session \<noteq> ad_origin a \<or> sd_UserVerification session \<noteq> ''required'' \<or>
             \<not> equalBytes (sd_UserID session) (pu_Handle user) then None
          else case ParseCredentialCreationResponseBytes L response of None \<Rightarrow> None
          | Some parsed \<Rightarrow>
              (case CreateCredential L (library_user L user) session parsed of
                 Some (Some c) \<Rightarrow>
                   if length (wa_ID c) = 0 \<or> length (wa_PublicKey c) = 0 then None
                   else if wa_CloneWarning c then None
                   else Some \<lparr>rg_CredentialID = wa_ID c, rg_PublicKey = wa_PublicKey c, rg_AttestationType = wa_AttestationType c,
                          rg_AttestationFormat = wa_AttestationFormat c, rg_Transports = wa_Transport c,
                          rg_Flags = fl_MsgpByte (wa_Flags c), rg_SignCount = wa_SignCount c,
                          rg_BackupEligible = fl_BackupEligible (wa_Flags c), rg_BackupState = fl_BackupState (wa_Flags c)\<rparr>
               | _ \<Rightarrow> None))"

text \<open>What becomes of the assertion once the user is known.\<close>

definition accept_assertion :: "wa_library \<Rightarrow> SessionData \<Rightarrow> string \<Rightarrow> PasskeyUser \<Rightarrow> AuthenticationResult dbm" where
  "accept_assertion L session parsed resolved =
     (if \<not> validStoredUser L resolved True then throw (ErrText ''Passkey assertion verification failed'')
      else case PasskeyLoginVerify L session parsed (library_user L resolved) of
        Some (True, Some verified) \<Rightarrow>
          if wa_CloneWarning verified then throw (ErrText ''Passkey signature counter rejected'')
          else ret \<lparr>au_LocalUserID = pu_LocalID resolved, au_CredentialID = wa_ID verified,
                 au_SignCount = wa_SignCount verified, au_BackupState = fl_BackupState (wa_Flags verified)\<rparr>
      | _ \<Rightarrow> throw (ErrText ''Passkey assertion verification failed''))"

text \<open>
  The lookup of the user is a program of the store; it runs when the library asks for the user.
\<close>

definition ValidateDiscoverableLogin ::
  "Adapter \<Rightarrow> string \<Rightarrow> string \<Rightarrow> (string \<Rightarrow> string \<Rightarrow> PasskeyUser dbm) \<Rightarrow> AuthenticationResult dbm" where
  "ValidateDiscoverableLogin a encodedSession assertion lookup =
     (let L = ad_inner a; rejected = throw (ErrText ''Passkey assertion verification failed'') in
      if length assertion = 0 \<or> int (length assertion) > maximumAssertionBytes then throw (ErrText ''invalid Passkey assertion size'')
      else case DecodeSession L encodedSession of None \<Rightarrow> throw (ErrText ''Passkey session boundary mismatch'')
      | Some session \<Rightarrow>
          if sd_RelyingPartyID session \<noteq> ad_rpID a \<or> sd_Origin session \<noteq> ad_origin a \<or> sd_UserVerification session \<noteq> ''required'' \<or>
             length (sd_UserID session) \<noteq> 0 then throw (ErrText ''Passkey session boundary mismatch'')
          else case ParseCredentialRequestResponseBytes L assertion of None \<Rightarrow> throw (ErrText ''invalid Passkey assertion'')
          | Some parsed \<Rightarrow>
              (case PasskeyLoginQuery L session parsed of None \<Rightarrow> rejected
               | Some (rawID, userHandle) \<Rightarrow>
                   dbind (attempt (lookup rawID userHandle)) (\<lambda>candidate.
                   case candidate of Inl _ \<Rightarrow> rejected | Inr resolved \<Rightarrow> accept_assertion L session parsed resolved)))"

section \<open>The user behind a passkey\<close>

fun project_credentials :: "string \<Rightarrow> WebAuthnCredential list \<Rightarrow> PasskeyCredential list option" where
  "project_credentials rpID [] = Some []"
| "project_credentials rpID (c # cs) =
     (if wc_rp_id c \<noteq> rpID \<or> wc_flags c < 0 \<or> wc_flags c > 255 then None
      else case project_credentials rpID cs of None \<Rightarrow> None
           | Some ps \<Rightarrow> Some (\<lparr>pc_ID = wc_credential_id c, pc_PublicKey = wc_public_key c, pc_AttestationType = wc_attestation_type c,
               pc_AttestationFormat = wc_attestation_format c,
               pc_Transports = (if wc_transports c \<noteq> [] then Split (CHR '','') (wc_transports c) else []),
               pc_Flags = word_of_int (wc_flags c), pc_SignCount = wc_sign_count c, pc_BackupEligible = wc_backup_eligible c,
               pc_BackupState = wc_backup_state c\<rparr> # ps))"

definition projectPasskeyUser :: "User \<Rightarrow> string \<Rightarrow> WebAuthnCredential list \<Rightarrow> string \<Rightarrow> PasskeyUser dbm" where
  "projectPasskeyUser user handle credentials rpID =
     (case project_credentials rpID credentials of None \<Rightarrow> throw (ErrText ''Passkey credential boundary mismatch'')
      | Some ps \<Rightarrow> ret \<lparr>pu_LocalID = User_ID user, pu_Handle = handle, pu_Name = User_Username user,
          pu_DisplayName = User_DisplayName user, pu_Credentials = ps\<rparr>)"

definition passkeyUserByUsername :: "Adapter \<Rightarrow> string \<Rightarrow> PasskeyUser dbm" where
  "passkeyUserByUsername a username =
     dbind (UserByUsername username) (\<lambda>user.
     dbind (EnsureWebAuthnUserHandle (User_ID user)) (\<lambda>handle.
     dbind (WebAuthnCredentialsByUser (User_ID user)) (\<lambda>credentials.
     projectPasskeyUser user handle credentials (ad_rpID a))))"

definition passkeyUserByHandle :: "Adapter \<Rightarrow> string \<Rightarrow> string \<Rightarrow> PasskeyUser dbm" where
  "passkeyUserByHandle a rawID handle =
     dbind (WebAuthnUserByHandle handle) (\<lambda>user.
     dbind (WebAuthnCredentialsByUser (User_ID user)) (\<lambda>credentials.
     dbind (projectPasskeyUser user handle credentials (ad_rpID a)) (\<lambda>projected.
     if list_ex (\<lambda>c. pc_ID c = rawID) (pu_Credentials projected) then ret projected else throw ErrNoRows)))"

section \<open>The handlers\<close>

text \<open>
  \<open>px_EqualFold\<close> is \<^verbatim>\<open>strings.EqualFold\<close> with its Unicode tables.  The body of an answer is a
  status, a ceremony with the options for the browser, or a status with the cookie that is set.
\<close>

record passkey_env =
  px_env :: admin_env
  px_adapter :: Adapter
  px_EqualFold :: "string \<Rightarrow> string \<Rightarrow> bool"

datatype passkey_body = Status string | Ceremony string string | StatusCookie "string \<times> string \<times> int" string

record passkeyRevokeRequest =
  pr_ManagementID :: string
  pr_Password :: string

record passkeyRegistrationRequest =
  rr_CeremonyID :: string
  rr_Name :: string
  rr_Response :: string

record passkeyLoginRequest =
  lr_CeremonyID :: string
  lr_Response :: string

text \<open>\<^verbatim>\<open>ConfigurePasskeys\<close>: the adapter is set once, on a server with protected self-service.\<close>

definition ConfigurePasskeys :: "admin_env \<Rightarrow> Adapter option \<Rightarrow> Adapter option \<Rightarrow> string + Adapter" where
  "ConfigurePasskeys env configured adapter =
     (case adapter of None \<Rightarrow> Inl ''Passkeys require protected directory self-service''
      | Some a \<Rightarrow>
          if \<not> ae_protect env \<or> ae_dir env = None \<or> ae_sessions env = None then Inl ''Passkeys require protected directory self-service''
          else if configured \<noteq> None then Inl ''Passkeys already configured''
          else Inr a)"

definition passkey_session :: "passkey_env \<Rightarrow> request \<Rightarrow> (string \<Rightarrow> passkey_body handler) \<Rightarrow> passkey_body handler" where
  "passkey_session env r k =
     (let denied = reply (Problem 403 ''authentication_required'') in
      selfServiceSession (px_env env) r denied (\<lambda>ss username _ token.
        if \<not> VerifyCSRF ss token (rq_Header r ''X-CSRF-Token'') then denied else k username))"

text \<open>The password is asked for again before a passkey is added or revoked.\<close>

definition confirm_password ::
  "passkey_env \<Rightarrow> request \<Rightarrow> string \<Rightarrow> string \<Rightarrow> string \<Rightarrow> string \<Rightarrow> string \<Rightarrow> passkey_body handler \<Rightarrow> passkey_body handler" where
  "confirm_password env r limit event problem username password k =
     asks (loginAllowed limit) (\<lambda>allowed.
       if \<not> allowed then reply (Problem 429 ''rate_limited'')
       else case ae_dir (px_env env) of None \<Rightarrow> reply Aborted
       | Some d \<Rightarrow> consult (\<lambda>n. AuthenticateUser d n username password) (\<lambda>found.
           if (case found of Inl _ \<Rightarrow> False | Inr directoryUser \<Rightarrow> px_EqualFold env (du_Username directoryUser) username) then k
           else asks (loginFailed limit) (\<lambda>_.
             audit (audit_event event [] username [] False (remoteIP r) ''invalid_credentials'') (reply (Problem 401 problem)))))"

definition passkeyRevoke :: "passkey_env \<Rightarrow> request \<Rightarrow> passkeyRevokeRequest option \<Rightarrow> passkey_body handler" where
  "passkeyRevoke env r body =
     passkey_session env r (\<lambda>username. case body of
       None \<Rightarrow> reply (Problem 400 ''revocation_failed'')
     | Some request \<Rightarrow>
         if pr_Password request = [] \<or> length (pr_ManagementID request) < 16 \<or> length (pr_ManagementID request) > 128
         then reply (Problem 400 ''revocation_failed'')
         else let ip = remoteIP r; limit = ''passkey-revocation:'' @ ip;
                  failed = asks (loginFailed limit) (\<lambda>_. reply (Problem 400 ''revocation_failed'')) in
           confirm_password env r limit ''passkey_revocation_denied'' ''revocation_failed'' username (pr_Password request)
             (call (UserByUsername username) (\<lambda>_. failed) (\<lambda>user. with_now (\<lambda>now.
                call (RevokeWebAuthnCredentialWithAudit (pr_ManagementID request) (User_ID user) username ip now) (\<lambda>_. failed)
                  (\<lambda>_. asks (loginSucceeded limit) (\<lambda>_. reply (Json 200 (Status ''revoked''))))))))"

text \<open>A ceremony is stored under a fresh token and is open for five minutes.\<close>

definition store_ceremony ::
  "string \<Rightarrow> int option \<Rightarrow> (string \<times> string) option \<Rightarrow> string \<Rightarrow> passkey_body handler" where
  "store_ceremony kind userID begun limit =
     (let unavailable = reply (Problem 503 ''unavailable'') in
      call (attempt rand_m) (\<lambda>_. unavailable) (\<lambda>bytes. with_now (\<lambda>now.
        case (begun, GenerateToken (case bytes of Inl _ \<Rightarrow> None | Inr raw \<Rightarrow> Some raw)) of
          (Some (options, sessionData), Inr i) \<Rightarrow>
            call (CreateWebAuthnCeremony \<lparr>ce_id = i, ce_kind = kind, ce_audience = ''self-service'', ce_user_id = userID,
                    ce_session_data = sessionData, ce_created_at = now, ce_expires_at = now + 5 * minute, ce_consumed_at = None\<rparr>)
              (\<lambda>_. unavailable) (\<lambda>_. asks (loginFailed limit) (\<lambda>_. reply (Json 200 (Ceremony i options))))
        | _ \<Rightarrow> unavailable)))"

definition passkeyRegistrationBegin :: "passkey_env \<Rightarrow> request \<Rightarrow> string option \<Rightarrow> passkey_body handler" where
  "passkeyRegistrationBegin env r password =
     passkey_session env r (\<lambda>username.
       if (case password of None \<Rightarrow> True | Some p \<Rightarrow> p = []) then reply (Problem 400 ''invalid_request'')
       else let limit = ''passkey-registration:'' @ remoteIP r in
         confirm_password env r limit ''passkey_registration_denied'' ''invalid_credentials'' username (the password)
           (asks (loginSucceeded limit) (\<lambda>_.
            call (passkeyUserByUsername (px_adapter env) username) (\<lambda>_. reply (Problem 503 ''unavailable'')) (\<lambda>user.
            consult (\<lambda>n. BeginRegistration (px_adapter env) n user) (\<lambda>begun.
              if begun = None then reply (Problem 503 ''unavailable'')
              else store_ceremony ''registration'' (Some (pu_LocalID user)) begun limit)))))"

definition registered_credential :: "Adapter \<Rightarrow> PasskeyUser \<Rightarrow> string \<Rightarrow> RegistrationResult \<Rightarrow> WebAuthnCredential" where
  "registered_credential a user name verified =
     \<lparr>wc_credential_id = rg_CredentialID verified, wc_management_id = [], wc_user_id = pu_LocalID user,
      wc_public_key = rg_PublicKey verified, wc_rp_id = ad_rpID a, wc_name = name,
      wc_transports = join_with (CHR '','') (rg_Transports verified), wc_attestation_type = rg_AttestationType verified,
      wc_attestation_format = rg_AttestationFormat verified, wc_flags = uint (rg_Flags verified),
      wc_sign_count = rg_SignCount verified, wc_backup_eligible = rg_BackupEligible verified,
      wc_backup_state = rg_BackupState verified, wc_created_at = zero_time, wc_last_used_at = None, wc_revoked_at = None\<rparr>"

text \<open>Both lookups are made before their errors are looked at.\<close>

definition register_passkey :: "passkey_env \<Rightarrow> request \<Rightarrow> string \<Rightarrow> passkeyRegistrationRequest \<Rightarrow> passkey_body handler" where
  "register_passkey env r username request =
     (let failed = reply (Problem 400 ''registration_failed''); a = px_adapter env in
      with_now (\<lambda>now.
      call (attempt (ActiveWebAuthnCeremony (rr_CeremonyID request) ''registration'' ''self-service'' now)) (\<lambda>_. failed) (\<lambda>ceremony.
      call (attempt (passkeyUserByUsername a username)) (\<lambda>_. failed) (\<lambda>user.
        case (ceremony, user) of
          (Inr ceremony, Inr user) \<Rightarrow>
            if ce_user_id ceremony \<noteq> Some (pu_LocalID user) then failed
            else (case ValidateRegistration a user (ce_session_data ceremony) (rr_Response request) of
              None \<Rightarrow> failed
            | Some verified \<Rightarrow>
                call (CompleteWebAuthnRegistration (ce_id ceremony) ''self-service'' now
                        (registered_credential a user (rr_Name request) verified) username (remoteIP r)) (\<lambda>_. failed)
                  (\<lambda>_. asks (loginSucceeded (''passkey-registration:'' @ remoteIP r)) (\<lambda>_. reply (Json 200 (Status ''registered'')))))
        | _ \<Rightarrow> failed))))"

definition passkeyRegistrationComplete :: "passkey_env \<Rightarrow> request \<Rightarrow> passkeyRegistrationRequest option \<Rightarrow> passkey_body handler" where
  "passkeyRegistrationComplete env r body =
     passkey_session env r (\<lambda>username. case body of
       None \<Rightarrow> reply (Problem 400 ''invalid_request'')
     | Some request \<Rightarrow>
         if TrimSpace (rr_Name request) \<noteq> rr_Name request \<or> rr_Name request = [] \<or> length (rr_Name request) > 64
         then reply (Problem 400 ''invalid_request'')
         else register_passkey env r username request)"

definition passkeyLoginBegin :: "passkey_env \<Rightarrow> request \<Rightarrow> passkey_body handler" where
  "passkeyLoginBegin env r =
     (let limit = ''passkey-login:'' @ remoteIP r in
      asks (loginAllowed limit) (\<lambda>allowed.
        if \<not> allowed then reply (Problem 429 ''rate_limited'')
        else consult (\<lambda>n. BeginDiscoverableLogin (px_adapter env) n) (\<lambda>begun. store_ceremony ''authentication'' None begun limit)))"

text \<open>The verified assertion becomes a session of fifteen minutes.\<close>

definition passkey_signed_in :: "passkey_env \<Rightarrow> request \<Rightarrow> time \<Rightarrow> string \<Rightarrow> AuthenticationResult \<Rightarrow> passkey_body handler" where
  "passkey_signed_in env r now ceremonyID verified =
     (let failed = reply (Problem 401 ''login_failed''); ip = remoteIP r in
      call (attempt (GetUser (au_LocalUserID verified))) (\<lambda>_. failed) (\<lambda>user.
      call (attempt rand_m) (\<lambda>_. failed) (\<lambda>bytes.
        case (user, GenerateToken (case bytes of Inl _ \<Rightarrow> None | Inr raw \<Rightarrow> Some raw)) of
          (Inr user, Inr sessionID) \<Rightarrow>
            call (CompleteWebAuthnAuthentication ceremonyID now
                    \<lparr>wau_CredentialID = au_CredentialID verified, wau_UserID = au_LocalUserID verified,
                     wau_SignCount = au_SignCount verified, wau_BackupState = au_BackupState verified\<rparr>
                    \<lparr>sss_id = sessionID, sss_username = User_Username user, sss_created_at = zero_time,
                     sss_expires_at = now + 15 * minute, sss_revoked_at = None\<rparr> ip) (\<lambda>_. failed)
              (\<lambda>_. asks (loginSucceeded (''passkey-login:'' @ ip)) (\<lambda>_. case ae_sessions (px_env env) of
                 None \<Rightarrow> reply Aborted
               | Some ss \<Rightarrow> reply (Json 200 (StatusCookie (''swbadge_selfservice'',
                     IssueForDuration ss ''self-service'' (User_Username user @ [CHR 0x1F] @ sessionID) now (15 * minute), 900)
                     ''authenticated''))))
        | _ \<Rightarrow> failed)))"

definition passkeyLoginComplete :: "passkey_env \<Rightarrow> request \<Rightarrow> passkeyLoginRequest option \<Rightarrow> passkey_body handler" where
  "passkeyLoginComplete env r body =
     (case body of None \<Rightarrow> reply (Problem 400 ''login_failed'')
      | Some request \<Rightarrow>
          let ip = remoteIP r; limit = ''passkey-login:'' @ ip; a = px_adapter env in
          asks (loginAllowed limit) (\<lambda>allowed.
            if \<not> allowed then reply (Problem 429 ''rate_limited'')
            else with_now (\<lambda>now.
              call (ActiveWebAuthnCeremony (lr_CeremonyID request) ''authentication'' ''self-service'' now)
                (\<lambda>_. asks (loginFailed limit) (\<lambda>_. reply (Problem 401 ''login_failed''))) (\<lambda>ceremony.
              call (ValidateDiscoverableLogin a (ce_session_data ceremony) (lr_Response request) (passkeyUserByHandle a))
                (\<lambda>_. asks (loginFailed limit) (\<lambda>_.
                   audit (audit_event ''passkey_login'' [] [] [] False ip ''verification_failed'') (reply (Problem 401 ''login_failed''))))
                (passkey_signed_in env r now (ce_id ceremony))))))"

end
