(* ===== verification/Passkey_Access.thy ===== *)
theory Passkey_Access
  imports Passkeys
begin

text \<open>
  Who signs in with a passkey and who registers one: what the handlers, the adapter and the store
  together guarantee when a request succeeds.
\<close>

section \<open>The user the library is given\<close>

definition stored_passkey :: "Adapter \<Rightarrow> int \<Rightarrow> WebAuthnCredential \<Rightarrow> tables \<Rightarrow> bool" where
  "stored_passkey a userID k t \<longleftrightarrow> k \<in> set (webauthn_credentials t) \<and> wc_user_id k = userID \<and> wc_revoked_at k = None \<and> wc_rp_id k = ad_rpID a"

text \<open>
  The user found for a handle: a row of the user table with that handle, whose own unrevoked passkeys
  for this relying party are the ones the library checks the assertion against.
\<close>

definition stored_owner :: "Adapter \<Rightarrow> string \<Rightarrow> string \<Rightarrow> PasskeyUser \<Rightarrow> tables \<Rightarrow> bool" where
  "stored_owner a rawID handle owner t \<longleftrightarrow>
     (\<exists>u \<in> set (users t). \<exists>row \<in> set (webauthn_users t). wu_user_id row = usr_id u \<and> wu_user_handle row = handle \<and>
        pu_LocalID owner = usr_id u \<and> pu_Name owner = usr_username u) \<and> pu_Handle owner = handle \<and>
     (\<exists>k. stored_passkey a (pu_LocalID owner) k t \<and> wc_credential_id k = rawID) \<and>
     (\<forall>p \<in> set (pu_Credentials owner). \<exists>k. stored_passkey a (pu_LocalID owner) k t \<and> pc_ID p = wc_credential_id k \<and>
        pc_PublicKey p = wc_public_key k \<and> pc_SignCount p = wc_sign_count k)"

lemma project_credentials_Some:
  "project_credentials rpID cs = Some ps \<Longrightarrow> p \<in> set ps \<Longrightarrow>
     \<exists>c \<in> set cs. wc_rp_id c = rpID \<and> pc_ID p = wc_credential_id c \<and> pc_PublicKey p = wc_public_key c \<and> pc_SignCount p = wc_sign_count c"
  by (induction cs arbitrary: ps) (fastforce split: if_splits option.splits)+

lemma CredentialsByUser_Inr:
  "WebAuthnCredentialsByUser i w = (Inr cs, w') \<Longrightarrow> tb w' = tb w \<and> clock w' = clock w \<and> steps w \<le> steps w' \<and>
     set cs = {c \<in> set (webauthn_credentials (tb w)). wc_user_id c = i \<and> wc_revoked_at c = None}"
  by (auto simp: WebAuthnCredentialsByUser_def db_simps)

lemma UserByHandle_Inr:
  "WebAuthnUserByHandle h w = (Inr u, w') \<Longrightarrow> tb w' = tb w \<and>
     (\<exists>row \<in> set (users (tb w)). \<exists>x \<in> set (webauthn_users (tb w)). u = scanSQLiteUser row \<and> wu_user_id x = usr_id row \<and> wu_user_handle x = h)"
  by (fastforce simp: WebAuthnUserByHandle_def dthen_Inr ensure_Inr dest!: query_row_mem)

lemma passkeyUserByHandle_Inr:
  assumes "passkeyUserByHandle a rawID h w = (Inr owner, w')"
  shows "tb w' = tb w \<and> stored_owner a rawID h owner (tb w)"
proof -
  from assms obtain u w1 cs w2 ps where u: "WebAuthnUserByHandle h w = (Inr u, w1)"
    and cs: "WebAuthnCredentialsByUser (User_ID u) w1 = (Inr cs, w2)" and ps: "project_credentials (ad_rpID a) cs = Some ps"
    and owner: "w' = w2" "owner = \<lparr>pu_LocalID = User_ID u, pu_Handle = h, pu_Name = User_Username u, pu_DisplayName = User_DisplayName u, pu_Credentials = ps\<rparr>"
      "list_ex (\<lambda>c. pc_ID c = rawID) ps"
    by (auto simp: passkeyUserByHandle_def projectPasskeyUser_def db_simps split: option.splits if_splits)
  from UserByHandle_Inr [OF u] CredentialsByUser_Inr [OF cs] have tables: "tb w1 = tb w" "tb w2 = tb w"
    and mine: "set cs = {c \<in> set (webauthn_credentials (tb w)). wc_user_id c = User_ID u \<and> wc_revoked_at c = None}" by auto
  have stored: "\<exists>k. stored_passkey a (User_ID u) k (tb w) \<and> pc_ID p = wc_credential_id k \<and> pc_PublicKey p = wc_public_key k \<and>
      pc_SignCount p = wc_sign_count k" if "p \<in> set ps" for p
    using project_credentials_Some [OF ps that] mine by (auto simp: stored_passkey_def)
  with owner(3) have "\<exists>k. stored_passkey a (User_ID u) k (tb w) \<and> wc_credential_id k = rawID" by (force simp: list_ex_iff)
  moreover from UserByHandle_Inr [OF u] have "\<exists>v \<in> set (users (tb w)). \<exists>row \<in> set (webauthn_users (tb w)). wu_user_id row = usr_id v \<and>
      wu_user_handle row = h \<and> User_ID u = usr_id v \<and> User_Username u = usr_username v"
    unfolding scanSQLiteUser_def by (metis User.select_convs(1,2))
  ultimately show ?thesis using stored tables owner(1) by (simp add: stored_owner_def owner(2))
qed

section \<open>What the adapter accepted\<close>

text \<open>The session of a ceremony of this relying party and origin, in which the user had to be verified.\<close>

definition own_session :: "Adapter \<Rightarrow> string \<Rightarrow> SessionData \<Rightarrow> bool" where
  "own_session a encoded session \<longleftrightarrow> unjson_SessionData (ad_inner a) encoded = Some session \<and> sd_RelyingPartyID session = ad_rpID a \<and>
     sd_Origin session = ad_origin a \<and> sd_UserVerification session = ''required'' \<and> sd_Challenge session \<noteq> []"

lemma DecodeSession_Some:
  "DecodeSession L encoded = Some session \<Longrightarrow> unjson_SessionData L encoded = Some session \<and> sd_UserVerification session = ''required'' \<and>
     sd_Challenge session \<noteq> []"
  by (auto simp: DecodeSession_def split: if_splits option.splits)

definition assertion_verified ::
  "Adapter \<Rightarrow> string \<Rightarrow> string \<Rightarrow> PasskeyUser \<Rightarrow> wa_Credential \<Rightarrow> tables \<Rightarrow> bool" where
  "assertion_verified a encoded response owner verified t \<longleftrightarrow> (\<exists>session parsed rawID handle. own_session a encoded session \<and>
     sd_UserID session = [] \<and> ParseCredentialRequestResponseBytes (ad_inner a) response = Some parsed \<and>
     PasskeyLoginQuery (ad_inner a) session parsed = Some (rawID, handle) \<and> stored_owner a rawID handle owner t \<and>
     PasskeyLoginVerify (ad_inner a) session parsed (library_user (ad_inner a) owner) = Some (True, Some verified) \<and>
     \<not> wa_CloneWarning verified)"

lemma ValidateDiscoverableLogin_Inr:
  assumes "ValidateDiscoverableLogin a encoded response (passkeyUserByHandle a) w = (Inr res, w')"
  obtains owner verified where "assertion_verified a encoded response owner verified (tb w)" "tb w' = tb w"
    "res = \<lparr>au_LocalUserID = pu_LocalID owner, au_CredentialID = wa_ID verified, au_SignCount = wa_SignCount verified,
       au_BackupState = fl_BackupState (wa_Flags verified)\<rparr>"
proof -
  let ?L = "ad_inner a"
  from assms obtain session parsed rawID handle owner w1 where s: "DecodeSession ?L encoded = Some session"
    "sd_RelyingPartyID session = ad_rpID a" "sd_Origin session = ad_origin a" "sd_UserID session = []"
    and p: "ParseCredentialRequestResponseBytes ?L response = Some parsed" "PasskeyLoginQuery ?L session parsed = Some (rawID, handle)"
    and o: "passkeyUserByHandle a rawID handle w = (Inr owner, w1)" and c: "accept_assertion ?L session parsed owner w1 = (Inr res, w')"
    by (auto simp: ValidateDiscoverableLogin_def Let_def db_simps split: if_split_asm option.split_asm sum.split_asm) (metis obj_sumE)
  from c obtain verified where v: "PasskeyLoginVerify ?L session parsed (library_user ?L owner) = Some (True, Some verified)"
      "\<not> wa_CloneWarning verified" "res = \<lparr>au_LocalUserID = pu_LocalID owner, au_CredentialID = wa_ID verified, au_SignCount = wa_SignCount verified,
       au_BackupState = fl_BackupState (wa_Flags verified)\<rparr>" "w' = w1"
    by (auto simp: accept_assertion_def db_simps split: if_split_asm option.split_asm prod.split_asm bool.split_asm)
  from DecodeSession_Some [OF s(1)] s have "own_session a encoded session" by (simp add: own_session_def)
  with s p v passkeyUserByHandle_Inr [OF o] have "assertion_verified a encoded response owner verified (tb w)"
    unfolding assertion_verified_def by blast
  with passkeyUserByHandle_Inr [OF o] v(3,4) show thesis by (intro that) auto
qed

section \<open>Signing in\<close>

lemma limiter_tables [simp]:
  "tb (wd (snd (loginAllowed k s))) = tb (wd s)" "tb (wd (snd (loginFailed k s))) = tb (wd s)" "wd (snd (loginSucceeded k s)) = wd s"
  by (simp_all add: loginAllowed_def loginFailed_def loginSucceeded_def Let_def)

lemma loginAllowed_later: "loginAllowed k s = (b, s') \<Longrightarrow> tb (wd s') = tb (wd s) \<and> later s s'"
  by (auto simp: loginAllowed_def later_def Let_def)

lemma signed_in_returns:
  assumes "passkey_signed_in env r now i verified s = (Json n (StatusCookie cookie st), s')"
  shows "\<exists>ss username sid k. ae_sessions (px_env env) = Some ss \<and>
    cookie = (''swbadge_selfservice'', IssueForDuration ss ''self-service'' (username @ [CHR 0x1F] @ sid) now (15 * minute), 900) \<and>
    logged_in i now \<lparr>wau_CredentialID = au_CredentialID verified, wau_UserID = au_LocalUserID verified,
        wau_SignCount = au_SignCount verified, wau_BackupState = au_BackupState verified\<rparr>
      \<lparr>sss_id = sid, sss_username = username, sss_created_at = zero_time, sss_expires_at = now + 15 * minute, sss_revoked_at = None\<rparr>
      k (tb (wd s)) (tb (wd s'))"
proof -
  let ?up = "\<lparr>wau_CredentialID = au_CredentialID verified, wau_UserID = au_LocalUserID verified,
        wau_SignCount = au_SignCount verified, wau_BackupState = au_BackupState verified\<rparr>"
  let ?ses = "\<lambda>username sid. \<lparr>sss_id = sid, sss_username = username, sss_created_at = zero_time, sss_expires_at = now + 15 * minute, sss_revoked_at = None\<rparr>"
  obtain x w1 where g: "GetUser (au_LocalUserID verified) (wd s) = (x, w1)" by (rule prod.exhaust)
  obtain y w2 where rnd: "rand_m w1 = (y, w2)" by (rule prod.exhaust)
  from assms g rnd obtain user raw where x: "x = Inr user" and y: "y = Inr raw"
    by (cases x; cases y) (auto simp: passkey_signed_in_def Let_def call_def attempt_def GenerateToken_def reply_def)
  from assms obtain ss w3 u where ss: "ae_sessions (px_env env) = Some ss"
    and c: "cookie = (''swbadge_selfservice'', IssueForDuration ss ''self-service'' (User_Username user @ [CHR 0x1F] @ RawURL_encode raw) now (15 * minute), 900)"
    and run: "CompleteWebAuthnAuthentication i now ?up (?ses (User_Username user) (RawURL_encode raw)) (remoteIP r) w2 = (Inr u, w3)" "wd s' = w3"
    by (auto simp: passkey_signed_in_def Let_def call_def [of "attempt _"] attempt_def g rnd x y GenerateToken_def http_simps loginSucceeded_def
        split: option.split_asm)
  have "tb w2 = tb (wd s)" using g rnd by (auto simp: GetUser_def query_row_def rand_m_def split: list.splits option.splits if_splits)
  with CompleteAuthentication_returns [OF run(1)] run(2) obtain k where
    "logged_in i now ?up (?ses (User_Username user) (RawURL_encode raw)) k (tb (wd s)) (tb (wd s'))" by auto
  with ss c show ?thesis by blast
qed

text \<open>
  C16: A passkey login is what it claims.  When the login endpoint answers with a cookie, the ceremony
  was stored, open and unexpired, with session data for this relying party and origin that demand
  verification of the user and are bound to no user; the WebAuthn library accepted the response for
  the user whose handle it named, given that user's own unrevoked passkeys, among them the one the
  response was made with, and gave no warning of a cloned counter; the passkey it verified is stored
  for that user and not revoked and its counter advanced or both counters are zero; the ceremony is
  used up, and exactly one session is added, for that user and for fifteen minutes, which is the
  session the cookie names.
\<close>

theorem passkey_login_authentic:
  assumes "passkeyLoginComplete env r body s = (Json n (StatusCookie cookie status), s')"
  defines "a \<equiv> px_adapter env" and "t \<equiv> tb (wd s)" and "t' \<equiv> tb (wd s')"
  shows "\<exists>request ss ceremony now owner verified k u sid. body = Some request \<and> ae_sessions (px_env env) = Some ss \<and> request_time s now \<and>
    ceremony \<in> set (webauthn_ceremonies t) \<and> ce_id ceremony = lr_CeremonyID request \<and>
    ce_kind ceremony = ''authentication'' \<and> ce_audience ceremony = ''self-service'' \<and> ce_consumed_at ceremony = None \<and> now \<le> ce_expires_at ceremony \<and>
    assertion_verified a (ce_session_data ceremony) (lr_Response request) owner verified t \<and>
    k \<in> set (webauthn_credentials t) \<and> wc_credential_id k = wa_ID verified \<and> wc_user_id k = pu_LocalID owner \<and> wc_revoked_at k = None \<and>
    (wc_sign_count k < wa_SignCount verified \<or> wc_sign_count k = 0 \<and> wa_SignCount verified = 0) \<and>
    u \<in> set (users t) \<and> usr_id u = pu_LocalID owner \<and>
    self_service_sessions t' = self_service_sessions t @ [\<lparr>sss_id = sid, sss_username = usr_username u, sss_created_at = now,
      sss_expires_at = now + 15 * minute, sss_revoked_at = None\<rparr>] \<and>
    cookie = (''swbadge_selfservice'', IssueForDuration ss ''self-service'' (usr_username u @ [CHR 0x1F] @ sid) now (15 * minute), 900) \<and>
    (\<forall>c \<in> set (webauthn_ceremonies t'). ce_id c = lr_CeremonyID request \<longrightarrow> ce_consumed_at c \<noteq> None)"
proof -
  let ?limit = "''passkey-login:'' @ remoteIP r"
  from assms(1) obtain request s0 ceremony w1 res w2 where body: "body = Some request"
    and s0: "loginAllowed ?limit s = (True, s0)"
    and c: "ActiveWebAuthnCeremony (lr_CeremonyID request) ''authentication'' ''self-service'' (clock (wd s0) (steps (wd s0))) (tick (wd s0)) = (Inr ceremony, w1)"
    and v: "ValidateDiscoverableLogin a (ce_session_data ceremony) (lr_Response request) (passkeyUserByHandle a) w1 = (Inr res, w2)"
    and fin: "passkey_signed_in env r (clock (wd s0) (steps (wd s0))) (ce_id ceremony) res (s0\<lparr>wd := w2\<rparr>) = (Json n (StatusCookie cookie status), s')"
    unfolding a_def
    by (auto simp: passkeyLoginComplete_def Let_def http_simps audit_def split: option.split_asm)
  let ?now = "clock (wd s0) (steps (wd s0))"
  from loginAllowed_later [OF s0] have s0': "tb (wd s0) = t" "request_time s ?now"
    by (auto simp: t_def intro: later_request_time)
  from c have cer: "ceremony \<in> set (webauthn_ceremonies t)" "active_ceremony (lr_CeremonyID request) ''authentication'' ''self-service'' ?now ceremony"
    and w1: "tb w1 = t"
    using s0' by (auto simp: ActiveWebAuthnCeremony_def db_simps dest!: filter_eq_Cons_mem)
  from ValidateDiscoverableLogin_Inr [OF v] w1 obtain owner verified where av: "assertion_verified a (ce_session_data ceremony) (lr_Response request) owner verified t"
    "tb w2 = t" "res = \<lparr>au_LocalUserID = pu_LocalID owner, au_CredentialID = wa_ID verified, au_SignCount = wa_SignCount verified,
       au_BackupState = fl_BackupState (wa_Flags verified)\<rparr>" by metis
  from signed_in_returns [OF fin] obtain ss username sid k where ss: "ae_sessions (px_env env) = Some ss"
    and cookie: "cookie = (''swbadge_selfservice'', IssueForDuration ss ''self-service'' (username @ [CHR 0x1F] @ sid) ?now (15 * minute), 900)"
    and li: "logged_in (ce_id ceremony) ?now \<lparr>wau_CredentialID = wa_ID verified, wau_UserID = pu_LocalID owner,
        wau_SignCount = wa_SignCount verified, wau_BackupState = fl_BackupState (wa_Flags verified)\<rparr>
      \<lparr>sss_id = sid, sss_username = username, sss_created_at = zero_time, sss_expires_at = ?now + 15 * minute, sss_revoked_at = None\<rparr> k t t'"
    unfolding av(3) t'_def using av(2) by auto
  from li obtain u where u: "u \<in> set (users t)" "usr_id u = pu_LocalID owner" "usr_username u = username" by (auto simp: logged_in_def)
  have used: "\<forall>c \<in> set (webauthn_ceremonies t'). ce_id c = lr_CeremonyID request \<longrightarrow> ce_consumed_at c \<noteq> None"
    using li cer(2) by (auto simp: logged_in_def active_ceremony_def set_update_where)
  from body ss s0'(2) cer av(1) li u cookie used show ?thesis
    unfolding logged_in_def active_ceremony_def validWebAuthnSignCount_def by (intro exI conjI) auto
qed

section \<open>Registering\<close>

lemma equal_from_iff: "length l = length r \<Longrightarrow> equal_from l r d = 0 \<longleftrightarrow> l = r \<and> d = 0"
  by (induction l r arbitrary: d rule: list_induct2) (auto simp: nat_or_eq_0_iff nat_xor_eq_0_iff)

lemma equalBytes_iff: "equalBytes l r \<longleftrightarrow> l = r"
  by (auto simp: equalBytes_def equal_from_iff)

text \<open>The user of a live session, with the CSRF token of that session in the header.\<close>

definition passkey_user :: "passkey_env \<Rightarrow> request \<Rightarrow> string \<Rightarrow> srv \<Rightarrow> bool" where
  "passkey_user env r username s \<longleftrightarrow> (\<exists>ss c sessionID row now now'. ae_sessions (px_env env) = Some ss \<and>
     Cookie r ''swbadge_selfservice'' = Some c \<and> VerifyFor ss c ''self-service'' now = Inr (username @ [CHR 0x1F] @ sessionID) \<and>
     row \<in> set (self_service_sessions (tb (wd s))) \<and> sss_id row = sessionID \<and> session_live username now' row \<and>
     request_time s now \<and> request_time s now' \<and> VerifyCSRF ss c (rq_Header r ''X-CSRF-Token''))"

lemma passkey_session_returns:
  assumes "passkey_session env r k s = (Json n b, s')"
  obtains username s1 where "passkey_user env r username s" "k username s1 = (Json n b, s')" "tb (wd s1) = tb (wd s)"
  using assms unfolding passkey_session_def Let_def
proof (cases rule: session_cases)
  case (1 s1)
  then show thesis by (simp add: reply_def)
next
  case (2 ss username sid c s1 row now now')
  then have csrf: "VerifyCSRF ss c (rq_Header r ''X-CSRF-Token'')" and k: "k username s1 = (Json n b, s')"
    by (auto simp: http_simps)
  with 2 have "passkey_user env r username s" unfolding passkey_user_def by blast
  from that [OF this k 2(10)] show thesis .
qed

lemma EnsureHandle_Inr:
  assumes "EnsureWebAuthnUserHandle i w = (Inr h, w')"
  shows "webauthn_credentials (tb w') = webauthn_credentials (tb w) \<and> webauthn_ceremonies (tb w') = webauthn_ceremonies (tb w) \<and>
    users (tb w') = users (tb w)"
proof -
  from assms obtain candidate w1 w2 n w3 where w1: "rand_m w = (Inr candidate, w1)"
    and ins: "exec (insert_webauthn_user i candidate) (tick w1) = (Inr n, w2)"
    and q: "query_row (\<lambda>t. map wu_user_handle (filter (\<lambda>u. wu_user_id u = i) (webauthn_users t))) w2 = (Inr h, w3)" "tb w' = tb w3"
    by (auto simp: EnsureWebAuthnUserHandle_def dthen_Inr dbind_Inr ensure_Inr tx_Inr)
  have "tb w1 = tb w" using w1 by (auto simp: rand_m_def split: option.splits if_splits)
  with ins show ?thesis using q query_row_mem [OF q(1)] by (auto simp: exec_Inr insert_webauthn_user_def split: if_splits)
qed

lemma passkeyUserByUsername_Inr:
  assumes "passkeyUserByUsername a username w = (Inr user, w')"
  shows "webauthn_credentials (tb w') = webauthn_credentials (tb w) \<and> webauthn_ceremonies (tb w') = webauthn_ceremonies (tb w) \<and>
    users (tb w') = users (tb w)"
proof -
  from assms obtain u w1 h w2 cs w3 where "UserByUsername username w = (Inr u, w1)" "EnsureWebAuthnUserHandle (User_ID u) w1 = (Inr h, w2)"
    "WebAuthnCredentialsByUser (User_ID u) w2 = (Inr cs, w3)" "w' = w3"
    by (auto simp: passkeyUserByUsername_def projectPasskeyUser_def db_simps split: option.splits)
  with EnsureHandle_Inr [OF this(2)] CredentialsByUser_Inr [OF this(3)] show ?thesis
    by (auto simp: UserByUsername_def dest!: query_row_mem)
qed

text \<open>The library created the credential for the user of the ceremony.\<close>

definition registration_verified :: "Adapter \<Rightarrow> string \<Rightarrow> string \<Rightarrow> PasskeyUser \<Rightarrow> wa_Credential \<Rightarrow> bool" where
  "registration_verified a encoded response user c \<longleftrightarrow> (\<exists>session parsed. own_session a encoded session \<and> sd_UserID session = pu_Handle user \<and>
     ParseCredentialCreationResponseBytes (ad_inner a) response = Some parsed \<and>
     CreateCredential (ad_inner a) (library_user (ad_inner a) user) session parsed = Some (Some c) \<and> \<not> wa_CloneWarning c)"

lemma ValidateRegistration_Some:
  assumes "ValidateRegistration a user encoded response = Some verified"
  shows "\<exists>c. registration_verified a encoded response user c \<and> rg_CredentialID verified = wa_ID c \<and> rg_PublicKey verified = wa_PublicKey c"
proof -
  from assms obtain session parsed c where s: "DecodeSession (ad_inner a) encoded = Some session" "sd_RelyingPartyID session = ad_rpID a"
    "sd_Origin session = ad_origin a" "sd_UserID session = pu_Handle user"
    and p: "ParseCredentialCreationResponseBytes (ad_inner a) response = Some parsed"
      "CreateCredential (ad_inner a) (library_user (ad_inner a) user) session parsed = Some (Some c)" "\<not> wa_CloneWarning c"
    and v: "rg_CredentialID verified = wa_ID c" "rg_PublicKey verified = wa_PublicKey c"
    by (auto simp: ValidateRegistration_def Let_def equalBytes_iff split: if_split_asm option.split_asm)
  from DecodeSession_Some [OF s(1)] s have "own_session a encoded session" by (simp add: own_session_def)
  with s p v show ?thesis unfolding registration_verified_def by blast
qed

lemma register_passkey_returns:
  assumes "register_passkey env r username request s = (Json n b, s')"
  defines "a \<equiv> px_adapter env" and "now \<equiv> clock (wd s) (steps (wd s))" and "t \<equiv> tb (wd s)"
  obtains ceremony user verified m where "ceremony \<in> set (webauthn_ceremonies t)"
    "active_ceremony (rr_CeremonyID request) ''registration'' ''self-service'' now ceremony" "ce_user_id ceremony = Some (pu_LocalID user)"
    "ValidateRegistration a user (ce_session_data ceremony) (rr_Response request) = Some verified"
    "\<exists>u \<in> set (users t). usr_id u = pu_LocalID user \<and> usr_username u = username"
    "webauthn_credentials (tb (wd s')) = webauthn_credentials t @
       [(registered_credential a user (rr_Name request) verified)\<lparr>wc_management_id := m, wc_created_at := now\<rparr>]"
proof -
  obtain x w1 where c: "ActiveWebAuthnCeremony (rr_CeremonyID request) ''registration'' ''self-service'' now (tick (wd s)) = (x, w1)"
    by (rule prod.exhaust)
  obtain y w2 where u: "passkeyUserByUsername a username w1 = (y, w2)" by (rule prod.exhaust)
  note run = assms(1) [unfolded register_passkey_def Let_def with_now_def call_def [of "attempt _"] attempt_def, folded a_def now_def]
  from run obtain ceremony user where x: "x = Inr ceremony" and y: "y = Inr user"
    by (cases x; cases y) (auto simp: c u reply_def)
  from run obtain verified z w3 where v: "ce_user_id ceremony = Some (pu_LocalID user)"
    "ValidateRegistration a user (ce_session_data ceremony) (rr_Response request) = Some verified"
    and fin: "CompleteWebAuthnRegistration (ce_id ceremony) ''self-service'' now (registered_credential a user (rr_Name request) verified)
       username (remoteIP r) w2 = (Inr z, w3)" "wd s' = w3"
    by (auto simp: c x y u http_simps loginSucceeded_def split: if_split_asm option.split_asm)
  from c x have cer: "ceremony \<in> set (webauthn_ceremonies t)"
    "active_ceremony (rr_CeremonyID request) ''registration'' ''self-service'' now ceremony" "tb w1 = t"
    by (auto simp: t_def ActiveWebAuthnCeremony_def db_simps dest!: filter_eq_Cons_mem)
  from passkeyUserByUsername_Inr u y cer(3) have same: "webauthn_credentials (tb w2) = webauthn_credentials t" "users (tb w2) = users t" by auto
  from CompleteRegistration_returns [OF fin(1)] fin(2) obtain m where "registered (ce_id ceremony) ''self-service'' now
    ((registered_credential a user (rr_Name request) verified)\<lparr>wc_management_id := m\<rparr>) username (tb w2) (tb (wd s'))" by auto
  with same have "\<exists>u \<in> set (users t). usr_id u = pu_LocalID user \<and> usr_username u = username"
    "webauthn_credentials (tb (wd s')) = webauthn_credentials t @
       [(registered_credential a user (rr_Name request) verified)\<lparr>wc_management_id := m, wc_created_at := now\<rparr>]"
    by (auto simp: registered_def registered_credential_def)
  from that [OF cer(1,2) v this] show thesis .
qed

text \<open>
  C17: A passkey is registered only by its owner.  When the registration endpoint reports success, the
  request came from a live self-service session with its CSRF token, the ceremony was stored, open,
  unexpired and bound to the user of that session, with session data for this relying party and
  origin that name the user's handle; the WebAuthn library created the credential from the response
  for that user; and exactly this credential is added, for that user.
\<close>

theorem passkey_registered_by_owner:
  assumes "passkeyRegistrationComplete env r body s = (Json n (Status status), s')"
  defines "a \<equiv> px_adapter env" and "t \<equiv> tb (wd s)" and "t' \<equiv> tb (wd s')"
  shows "\<exists>request username u ceremony now user c k. body = Some request \<and> passkey_user env r username s \<and>
    u \<in> set (users t) \<and> usr_username u = username \<and> usr_id u = pu_LocalID user \<and>
    ceremony \<in> set (webauthn_ceremonies t) \<and> ce_id ceremony = rr_CeremonyID request \<and> ce_kind ceremony = ''registration'' \<and>
    ce_audience ceremony = ''self-service'' \<and> ce_consumed_at ceremony = None \<and> now \<le> ce_expires_at ceremony \<and>
    ce_user_id ceremony = Some (usr_id u) \<and> registration_verified a (ce_session_data ceremony) (rr_Response request) user c \<and>
    webauthn_credentials t' = webauthn_credentials t @ [k] \<and> wc_credential_id k = wa_ID c \<and> wc_public_key k = wa_PublicKey c \<and>
    wc_user_id k = usr_id u \<and> wc_rp_id k = ad_rpID a \<and> wc_revoked_at k = None"
proof -
  from assms(1) [unfolded passkeyRegistrationComplete_def] obtain username s1 where pu: "passkey_user env r username s" "tb (wd s1) = t"
    and run: "(case body of None \<Rightarrow> reply (Problem 400 ''invalid_request'')
     | Some request \<Rightarrow>
         if TrimSpace (rr_Name request) \<noteq> rr_Name request \<or> rr_Name request = [] \<or> length (rr_Name request) > 64
         then reply (Problem 400 ''invalid_request'')
         else register_passkey env r username request) s1 = (Json n (Status status), s')"
    unfolding t_def by (rule passkey_session_returns)
  from run obtain request where body: "body = Some request" and go: "register_passkey env r username request s1 = (Json n (Status status), s')"
    by (auto simp: http_simps split: option.split_asm)
  from register_passkey_returns [OF go] pu(2) obtain ceremony user verified m where
    cer: "ceremony \<in> set (webauthn_ceremonies t)" "ce_user_id ceremony = Some (pu_LocalID user)"
      "active_ceremony (rr_CeremonyID request) ''registration'' ''self-service'' (clock (wd s1) (steps (wd s1))) ceremony"
    and v: "ValidateRegistration a user (ce_session_data ceremony) (rr_Response request) = Some verified"
    and u: "\<exists>u \<in> set (users t). usr_id u = pu_LocalID user \<and> usr_username u = username"
    and new: "webauthn_credentials t' = webauthn_credentials t @
       [(registered_credential a user (rr_Name request) verified)\<lparr>wc_management_id := m, wc_created_at := clock (wd s1) (steps (wd s1))\<rparr>]"
    unfolding a_def t'_def by metis
  from ValidateRegistration_Some [OF v] obtain c where c: "registration_verified a (ce_session_data ceremony) (rr_Response request) user c"
    "rg_CredentialID verified = wa_ID c" "rg_PublicKey verified = wa_PublicKey c" by blast
  from u obtain row where "row \<in> set (users t)" "usr_id row = pu_LocalID user" "usr_username row = username" by blast
  with body pu cer c new show ?thesis unfolding active_ceremony_def by (intro exI conjI) (auto simp: registered_credential_def)
qed

section \<open>A library that accepts\<close>

definition demo_verified :: wa_Credential where
  "demo_verified = \<lparr>wa_ID = ''pk'', wa_PublicKey = ''key'', wa_AttestationType = [], wa_AttestationFormat = [], wa_Transport = [],
     wa_Flags = \<lparr>fl_BackupEligible = False, fl_BackupState = False, fl_MsgpByte = 1\<rparr>, wa_SignCount = 6, wa_CloneWarning = False\<rparr>"

definition demo_adapter :: "string \<Rightarrow> Adapter" where
  "demo_adapter user = \<lparr>ad_rpID = ''id.example'', ad_origin = ''https://id.example'', ad_inner =
     \<lparr>FlagBackupState = 16, NewCredentialFlags = (\<lambda>b. \<lparr>fl_BackupEligible = False, fl_BackupState = False, fl_MsgpByte = b\<rparr>),
      lib_BeginRegistration = (\<lambda>_ _ _ _. None), lib_BeginDiscoverableLogin = (\<lambda>_ _ _. None), json_SessionData = (\<lambda>_. None),
      unjson_SessionData = (\<lambda>_. Some \<lparr>sd_Challenge = ''c'', sd_RelyingPartyID = ''id.example'', sd_Origin = ''https://id.example'',
        sd_UserID = user, sd_Expires = 0, sd_UserVerification = ''required''\<rparr>),
      ParseCredentialCreationResponseBytes = Some, ParseCredentialRequestResponseBytes = Some,
      CreateCredential = (\<lambda>_ _ _. Some (Some (demo_verified\<lparr>wa_ID := ''pk2''\<rparr>))),
      PasskeyLoginQuery = (\<lambda>_ _. Some (''pk'', replicate 32 (CHR ''h''))),
      PasskeyLoginVerify = (\<lambda>_ _ _. Some (True, Some demo_verified))\<rparr>\<rparr>"

definition demo_passkey_env :: "string \<Rightarrow> passkey_env" where
  "demo_passkey_env user = \<lparr>px_env = demo_admin_env, px_adapter = demo_adapter user, px_EqualFold = (\<lambda>s t. s = t)\<rparr>"

definition demo_passkey_server :: srv where
  "demo_passkey_server = (let t = demo_webauthn_tables\<lparr>self_service_sessions := self_service_sessions (tb (wd demo_self_server))\<rparr>
     in (calm_server t)\<lparr>wd := (calm_world t)\<lparr>rnd := (\<lambda>_. Some (replicate 32 (CHR ''x'')))\<rparr>\<rparr>)"

text \<open>Without session keys the handler panics at the very end, with them it answers with the cookie.\<close>

lemma login_cookie:
  assumes "fst (passkeyLoginComplete (env\<lparr>px_env := (px_env env)\<lparr>ae_sessions := None\<rparr>\<rparr>) r body s) = Aborted" "ae_sessions (px_env env) = Some ss"
  shows "\<exists>n cookie status s'. passkeyLoginComplete env r body s = (Json n (StatusCookie cookie status), s')"
  using assms
  by (auto simp: passkeyLoginComplete_def passkey_signed_in_def asks_def with_now_def call_def audit_def reply_def Let_def
      split: option.splits prod.splits sum.splits if_splits)

lemma demo_login_aborts:
  "fst (passkeyLoginComplete \<lparr>px_env = demo_admin_env\<lparr>ae_sessions := None\<rparr>, px_adapter = demo_adapter [], px_EqualFold = (\<lambda>s t. s = t)\<rparr>
     (demo_admin_request ''/'' [] []) (Some \<lparr>lr_CeremonyID = ''c1'', lr_Response = ''r''\<rparr>) demo_passkey_server) = Aborted"
  by code_simp

theorem passkey_login_authentic_witness:
  "\<exists>n cookie status s' new. passkeyLoginComplete (demo_passkey_env []) (demo_admin_request ''/'' [] [])
       (Some \<lparr>lr_CeremonyID = ''c1'', lr_Response = ''r''\<rparr>) demo_passkey_server = (Json n (StatusCookie cookie status), s') \<and>
     self_service_sessions (tb (wd s')) = self_service_sessions (tb (wd demo_passkey_server)) @ [new] \<and> sss_username new = ''ada''"
proof -
  have env: "(demo_passkey_env [])\<lparr>px_env := (px_env (demo_passkey_env []))\<lparr>ae_sessions := None\<rparr>\<rparr> =
      \<lparr>px_env = demo_admin_env\<lparr>ae_sessions := None\<rparr>, px_adapter = demo_adapter [], px_EqualFold = (\<lambda>s t. s = t)\<rparr>"
    "ae_sessions (px_env (demo_passkey_env [])) = Some demo_sessions"
    by (simp_all add: demo_passkey_env_def demo_admin_env_def)
  from login_cookie [OF demo_login_aborts [folded env(1)] env(2)] obtain n cookie status s' where
    run: "passkeyLoginComplete (demo_passkey_env []) (demo_admin_request ''/'' [] []) (Some \<lparr>lr_CeremonyID = ''c1'', lr_Response = ''r''\<rparr>)
      demo_passkey_server = (Json n (StatusCookie cookie status), s')" by blast
  have names: "\<forall>u \<in> set (users (tb (wd demo_passkey_server))). usr_username u = ''ada''" by code_simp
  from passkey_login_authentic [OF run] obtain now u sid where "u \<in> set (users (tb (wd demo_passkey_server)))"
    "self_service_sessions (tb (wd s')) = self_service_sessions (tb (wd demo_passkey_server)) @ [\<lparr>sss_id = sid, sss_username = usr_username u,
      sss_created_at = now, sss_expires_at = now + 15 * minute, sss_revoked_at = None\<rparr>]" by blast
  with names run show ?thesis by (intro exI conjI) auto
qed

definition demo_register_request :: request where
  "demo_register_request = demo_self_request\<lparr>rq_Header := (\<lambda>_. CSRF demo_sessions demo_self_cookie)\<rparr>"

definition demo_registration :: passkeyRegistrationRequest where
  "demo_registration = \<lparr>rr_CeremonyID = ''c2'', rr_Name = ''Key'', rr_Response = ''r''\<rparr>"

lemma demo_registers:
  "(case fst (register_passkey (demo_passkey_env (replicate 32 (CHR ''h''))) (demo_admin_request ''/'' [] []) ''ada'' demo_registration
     (demo_passkey_server\<lparr>wd := tick (tick (tick (wd demo_passkey_server)))\<rparr>)) of Json n b \<Rightarrow> b = Status ''registered'' | _ \<Rightarrow> False)"
  by code_simp

lemma register_same_address: "remoteIP r = remoteIP r' \<Longrightarrow> register_passkey env r u q = register_passkey env r' u q"
  unfolding register_passkey_def by (simp only:)

lemma demo_passkey_session:
  "passkey_session (demo_passkey_env h) demo_register_request k demo_passkey_server =
     k ''ada'' (demo_passkey_server\<lparr>wd := tick (tick (tick (wd demo_passkey_server)))\<rparr>)"
proof -
  have fields: "Cookie demo_register_request ''swbadge_selfservice'' = Some demo_self_cookie"
    "rq_Header demo_register_request n = CSRF demo_sessions demo_self_cookie" for n
    by (simp_all add: demo_register_request_def demo_self_request_def demo_admin_request_def Cookie_def)
  show ?thesis
    by (simp add: passkey_session_def selfServiceSession_def demo_passkey_env_def demo_admin_env_def fields demo_self_verified [simplified]
        demo_split [simplified] with_now_def demo_passkey_server_def demo_self_server_def calm_world_def calm_server_def call_def
        ActiveSelfServiceSession_def query_row_def session_live_def minute_def second_def VerifyCSRF_own Let_def tick_def)
qed

theorem passkey_registered_by_owner_witness:
  "\<exists>n status s' k. passkeyRegistrationComplete (demo_passkey_env (replicate 32 (CHR ''h''))) demo_register_request (Some demo_registration)
     demo_passkey_server = (Json n (Status status), s') \<and> webauthn_credentials (tb (wd s')) = [demo_passkey, k]"
proof -
  have ip: "remoteIP demo_register_request = remoteIP (demo_admin_request ''/'' [] [])"
    by (simp add: demo_register_request_def demo_self_request_def demo_admin_request_def remoteIP_def demo_split(3))
  have name: "TrimSpace ''Key'' = ''Key''" by code_simp
  from demo_registers obtain n s' where
    "register_passkey (demo_passkey_env (replicate 32 (CHR ''h''))) (demo_admin_request ''/'' [] []) ''ada'' demo_registration
      (demo_passkey_server\<lparr>wd := tick (tick (tick (wd demo_passkey_server)))\<rparr>) = (Json n (Status ''registered''), s')"
    by (auto split: response.splits simp: prod_eq_iff)
  then have run: "passkeyRegistrationComplete (demo_passkey_env (replicate 32 (CHR ''h''))) demo_register_request (Some demo_registration)
      demo_passkey_server = (Json n (Status ''registered''), s')"
    using name by (simp add: passkeyRegistrationComplete_def demo_passkey_session register_same_address [OF ip])
      (simp add: demo_registration_def)
  have "webauthn_credentials (tb (wd demo_passkey_server)) = [demo_passkey]" by code_simp
  with passkey_registered_by_owner [OF run] run show ?thesis by auto
qed

end
