(* ===== verification/Versions.thy ===== *)
theory Versions
  imports Encoding "HOL-Library.Char_ord" "HOL-Library.List_Lexorder" "HOL-Library.Product_Lexorder"
begin

text \<open>
  Semantic versions: parsing and comparison as the server's client overview does them
  (\<^verbatim>\<open>parseSemanticVersion\<close>, \<^verbatim>\<open>compareSemanticVersions\<close>, \<^verbatim>\<open>updateState\<close> of
  \<^verbatim>\<open>internal/server/clients.go\<close>) and as the updater does them (\<^verbatim>\<open>validVersion\<close>,
  \<^verbatim>\<open>compareVersions\<close> of \<^verbatim>\<open>internal/clientupdate/verify.go\<close>).  Both are compared with one
  reference: the lexicographic order of the precedence keys of semantic versions, a linear order.
\<close>

section \<open>Parsing in the client overview\<close>

record semanticVersion =
  sv_major :: int
  sv_minor :: int
  sv_patch :: int
  sv_prerelease :: string

text \<open>\<^verbatim>\<open>strings.SplitN(value, "-", 2)\<close>\<close>

definition split_dash :: "string \<Rightarrow> string \<times> string option" where
  "split_dash v = (case index_of (CHR ''-'') v of None \<Rightarrow> (v, None) | Some i \<Rightarrow> (take i v, Some (drop (Suc i) v)))"

definition parse_numbers :: "string list \<Rightarrow> (int \<times> int \<times> int) option" where
  "parse_numbers parts = (case parts of [a, b, c] \<Rightarrow>
       (case (ParseInt a, ParseInt b, ParseInt c) of
          (Some x, Some y, Some z) \<Rightarrow> if x < 0 \<or> y < 0 \<or> z < 0 then None else Some (x, y, z)
        | _ \<Rightarrow> None)
     | _ \<Rightarrow> None)"

definition parseSemanticVersion :: "string \<Rightarrow> semanticVersion option" where
  "parseSemanticVersion value =
     (let value = TrimPrefix (TrimSpace value) ''v'' in
      case (case index_of (CHR ''+'') value of None \<Rightarrow> Some value
            | Some m \<Rightarrow> if m = length value - 1 then None else Some (take m value)) of
        None \<Rightarrow> None
      | Some value \<Rightarrow>
          (let (main, pre) = split_dash value in
           case parse_numbers (Split (CHR ''.'') main) of
             None \<Rightarrow> None
           | Some (x, y, z) \<Rightarrow>
               (case pre of
                  None \<Rightarrow> Some \<lparr>sv_major = x, sv_minor = y, sv_patch = z, sv_prerelease = []\<rparr>
                | Some p \<Rightarrow> if p = [] then None
                            else Some \<lparr>sv_major = x, sv_minor = y, sv_patch = z, sv_prerelease = p\<rparr>)))"

section \<open>Comparison\<close>

text \<open>The loops over pairs of numbers and over pairs of pre-release identifiers.\<close>

fun compare_numbers :: "int list \<Rightarrow> int list \<Rightarrow> int option" where
  "compare_numbers (a # as) (b # bs) =
     (if a < b then Some (- 1) else if a > b then Some 1 else compare_numbers as bs)"
| "compare_numbers _ _ = None"

definition compare_identifier :: "string \<Rightarrow> string \<Rightarrow> int" where
  "compare_identifier l r =
     (case (ParseInt l, ParseInt r) of
        (Some a, Some b) \<Rightarrow> if a < b then - 1 else 1
      | (Some _, None) \<Rightarrow> - 1
      | (None, Some _) \<Rightarrow> 1
      | (None, None) \<Rightarrow> if l < r then - 1 else 1)"

fun compare_identifiers :: "string list \<Rightarrow> string list \<Rightarrow> int option" where
  "compare_identifiers (l # ls) (r # rs) =
     (if l = r then compare_identifiers ls rs else Some (compare_identifier l r))"
| "compare_identifiers _ _ = None"

definition compareSemanticVersions :: "semanticVersion \<Rightarrow> semanticVersion \<Rightarrow> int" where
  "compareSemanticVersions left right =
     (case compare_numbers [sv_major left, sv_minor left, sv_patch left]
             [sv_major right, sv_minor right, sv_patch right] of
        Some c \<Rightarrow> c
      | None \<Rightarrow>
          if sv_prerelease left = sv_prerelease right then 0
          else if sv_prerelease left = [] then 1
          else if sv_prerelease right = [] then - 1
          else (let leftParts = Split (CHR ''.'') (sv_prerelease left);
                    rightParts = Split (CHR ''.'') (sv_prerelease right)
                in case compare_identifiers leftParts rightParts of
                     Some c \<Rightarrow> c
                   | None \<Rightarrow> if length leftParts < length rightParts then - 1 else 1))"

definition updateState :: "string \<Rightarrow> string \<Rightarrow> string \<times> string" where
  "updateState clientVersion serverVersion =
     (case (parseSemanticVersion clientVersion, parseSemanticVersion serverVersion) of
        (Some client, Some server) \<Rightarrow>
          (let c = compareSemanticVersions client server in
           if c = - 1 then (''Update available'', ''warning'')
           else if c = 1 then (''Client newer'', ''neutral'')
           else (''Current'', ''success''))
      | _ \<Rightarrow> (''Unknown'', ''neutral''))"

section \<open>Versions in the updater\<close>

definition validIdentifiers :: "string \<Rightarrow> bool" where
  "validIdentifiers v \<longleftrightarrow> (\<forall>part \<in> set (Split (CHR ''.'') v).
     part \<noteq> [] \<and> (\<forall>c \<in> set part. c = CHR ''-'' \<or> is_digit c \<or> is_upper_alpha c \<or> is_lower_alpha c))"

definition validVersion :: "string \<Rightarrow> bool" where
  "validVersion value =
     (let value = TrimPrefix value ''v'' in
      case (case index_of (CHR ''+'') value of None \<Rightarrow> Some value
            | Some b \<Rightarrow> if b = length value - 1 \<or> \<not> validIdentifiers (drop (Suc b) value) then None
                        else Some (take b value)) of
        None \<Rightarrow> False
      | Some value \<Rightarrow>
          (let (main, pre) = split_dash value; parts = Split (CHR ''.'') main in
           \<not> (case pre of None \<Rightarrow> False | Some p \<Rightarrow> \<not> validIdentifiers p) \<and> length parts = 3 \<and>
           (\<forall>part \<in> set parts. part \<noteq> [] \<and> \<not> (length part > 1 \<and> hd part = CHR ''0'') \<and>
              (\<forall>c \<in> set part. is_digit c))))"

text \<open>
  \<^verbatim>\<open>out[i], _ = strconv.Atoi(\<dots>)\<close> drops the error and keeps the value: 0 for a syntax error, the
  nearest bound of \<^verbatim>\<open>int\<close> for a number that is out of range.
\<close>

definition Atoi_value :: "string \<Rightarrow> int" where
  "Atoi_value s = (case ParseInt s of Some i \<Rightarrow> i
     | None \<Rightarrow> (let (neg, ds) = (case s of [] \<Rightarrow> (False, [])
                       | c # cs \<Rightarrow> if c = CHR ''-'' then (True, cs)
                                   else if c = CHR ''+'' then (False, cs) else (False, s))
                in if ds = [] \<or> read_nat 0 ds = None then 0 else if neg then min_int64 else max_int64))"

text \<open>
  The local function \<^verbatim>\<open>parse\<close>.  It reads three numbers without checking that they exist: a
  version with fewer parts makes the index panic, the value \<^const>\<open>None\<close> here.
\<close>

definition version_parse :: "string \<Rightarrow> (int list \<times> string list option) option" where
  "version_parse value =
     (let value = TrimPrefix value ''v'';
          value = (case index_of (CHR ''+'') value of None \<Rightarrow> value | Some i \<Rightarrow> take i value);
          (main, pre) = split_dash value; numbers = Split (CHR ''.'') main
      in if length numbers < 3 then None
         else Some (map Atoi_value (take 3 numbers), map_option (Split (CHR ''.'')) pre))"

definition compareVersions :: "string \<Rightarrow> string \<Rightarrow> int option" where
  "compareVersions left right =
     (case (version_parse left, version_parse right) of
        (Some (leftNumbers, leftPre), Some (rightNumbers, rightPre)) \<Rightarrow> Some
          (case compare_numbers leftNumbers rightNumbers of
             Some c \<Rightarrow> c
           | None \<Rightarrow>
              (case (leftPre, rightPre) of
                 (None, None) \<Rightarrow> 0
               | (None, Some _) \<Rightarrow> 1
               | (Some _, None) \<Rightarrow> - 1
               | (Some l, Some r) \<Rightarrow>
                   (case compare_identifiers l r of
                      Some c \<Rightarrow> c
                    | None \<Rightarrow> if length l < length r then - 1 else if length l > length r then 1 else 0)))
      | _ \<Rightarrow> None)"

section \<open>The reference order\<close>

datatype pre_ident = Numeric int | Alphanumeric string

instantiation pre_ident :: linorder
begin

definition less_eq_pre_ident :: "pre_ident \<Rightarrow> pre_ident \<Rightarrow> bool" where
  "less_eq_pre_ident a b = (case (a, b) of
     (Numeric i, Numeric j) \<Rightarrow> i \<le> j | (Numeric _, Alphanumeric _) \<Rightarrow> True
   | (Alphanumeric _, Numeric _) \<Rightarrow> False | (Alphanumeric s, Alphanumeric t) \<Rightarrow> s \<le> t)"

definition less_pre_ident :: "pre_ident \<Rightarrow> pre_ident \<Rightarrow> bool" where
  "less_pre_ident a b = (case (a, b) of
     (Numeric i, Numeric j) \<Rightarrow> i < j | (Numeric _, Alphanumeric _) \<Rightarrow> True
   | (Alphanumeric _, Numeric _) \<Rightarrow> False | (Alphanumeric s, Alphanumeric t) \<Rightarrow> s < t)"

instance
  by standard (auto simp: less_eq_pre_ident_def less_pre_ident_def split: pre_ident.splits)

end

definition identifier_of :: "string \<Rightarrow> pre_ident" where
  "identifier_of s = (case ParseInt s of Some i \<Rightarrow> Numeric i | None \<Rightarrow> Alphanumeric s)"

text \<open>A canonical identifier is not a second spelling of a number.\<close>

definition canonical :: "string \<Rightarrow> bool" where
  "canonical s \<longleftrightarrow> (case ParseInt s of Some i \<Rightarrow> s = FormatInt i | None \<Rightarrow> True)"

text \<open>Precedence: the numbers, a release after its pre-releases, then the identifiers in turn.\<close>

type_synonym precedence = "int \<times> int \<times> int \<times> bool \<times> pre_ident list"

definition precedence :: "semanticVersion \<Rightarrow> precedence" where
  "precedence v = (sv_major v, sv_minor v, sv_patch v, sv_prerelease v = [],
     map identifier_of (Split (CHR ''.'') (sv_prerelease v)))"

definition canonical_version :: "semanticVersion \<Rightarrow> bool" where
  "canonical_version v \<longleftrightarrow> (\<forall>p \<in> set (Split (CHR ''.'') (sv_prerelease v)). canonical p)"

definition three_way :: "'a::linorder \<Rightarrow> 'a \<Rightarrow> int" where
  "three_way a b = (if a < b then - 1 else if a = b then 0 else 1)"

lemma canonical_numeric: "canonical s \<Longrightarrow> identifier_of s = Numeric i \<Longrightarrow> s = FormatInt i"
  by (simp add: identifier_of_def canonical_def split: option.splits)

lemma alphanumeric_same: "identifier_of s = Alphanumeric t \<Longrightarrow> s = t"
  by (simp add: identifier_of_def split: option.splits)

lemma identifier_of_inject:
  assumes "canonical l" "canonical r" "identifier_of l = identifier_of r"
  shows "l = r"
proof (cases "identifier_of l")
  case (Numeric i)
  with assms show ?thesis using canonical_numeric [of l i] canonical_numeric [of r i] by simp
next
  case (Alphanumeric t)
  with assms(3) show ?thesis using alphanumeric_same [of l t] alphanumeric_same [of r t] by simp
qed

lemma compare_identifier_reference:
  "canonical l \<Longrightarrow> canonical r \<Longrightarrow> l \<noteq> r \<Longrightarrow>
   compare_identifier l r = (if identifier_of l < identifier_of r then - 1 else 1)"
proof (cases "ParseInt l"; cases "ParseInt r")
  fix a b
  assume can: "canonical l" "canonical r" "l \<noteq> r" and num: "ParseInt l = Some a" "ParseInt r = Some b"
  from can num have "l = FormatInt a" "r = FormatInt b" by (simp_all add: canonical_def)
  with can(3) have "a \<noteq> b" by auto
  with num show ?thesis by (simp add: compare_identifier_def identifier_of_def less_pre_ident_def)
qed (simp_all add: compare_identifier_def identifier_of_def less_pre_ident_def)

lemma three_way_Cons [simp]: "three_way (x # xs) (x # ys) = three_way xs ys"
  by (simp add: three_way_def)

lemma compare_identifiers_reference:
  assumes "\<forall>p \<in> set ls \<union> set rs. canonical p"
  shows "(case compare_identifiers ls rs of Some c \<Rightarrow> c
      | None \<Rightarrow> if length ls < length rs then - 1 else if length ls > length rs then 1 else 0) =
    three_way (map identifier_of ls) (map identifier_of rs)"
  using assms
proof (induction ls arbitrary: rs)
  case Nil
  then show ?case by (cases rs) (auto simp: three_way_def)
next
  case (Cons l ls)
  show ?case
  proof (cases rs)
    case Nil
    then show ?thesis by (simp add: three_way_def)
  next
    case rs: (Cons r rs')
    show ?thesis
    proof (cases "l = r")
      case True
      with Cons.IH [of rs'] Cons.prems rs show ?thesis by (auto split: option.splits if_splits)
    next
      case False
      with Cons.prems rs have "compare_identifier l r = (if identifier_of l < identifier_of r then - 1 else 1)"
        "identifier_of l \<noteq> identifier_of r"
        using identifier_of_inject [of l r] by (auto simp: compare_identifier_reference)
      with False rs show ?thesis by (simp add: three_way_def)
    qed
  qed
qed

lemma compare_identifiers_None:
  "compare_identifiers ls rs = None \<Longrightarrow> length ls = length rs \<Longrightarrow> ls = rs"
  by (induction ls rs rule: compare_identifiers.induct) (auto split: if_splits)

lemma Split_inject: "Split c s = Split c t \<longleftrightarrow> s = t"
  by (metis join_Split)

lemma compareSemanticVersions_reference:
  assumes "canonical_version l" "canonical_version r"
  shows "compareSemanticVersions l r = three_way (precedence l) (precedence r)"
proof -
  let ?l = "Split (CHR ''.'') (sv_prerelease l)" and ?r = "Split (CHR ''.'') (sv_prerelease r)"
  have parts: "(case compare_identifiers ?l ?r of Some c \<Rightarrow> c
      | None \<Rightarrow> if length ?l < length ?r then - 1 else 1) =
      three_way (map identifier_of ?l) (map identifier_of ?r)" if "sv_prerelease l \<noteq> sv_prerelease r"
  proof -
    have "?l \<noteq> ?r" using that by (simp add: Split_inject)
    then have "compare_identifiers ?l ?r = None \<Longrightarrow> length ?l \<noteq> length ?r"
      using compare_identifiers_None [of ?l ?r] by blast
    moreover have "\<forall>p \<in> set ?l \<union> set ?r. canonical p" using assms by (auto simp: canonical_version_def)
    note compare_identifiers_reference [OF this]
    ultimately show ?thesis by (cases "compare_identifiers ?l ?r") (auto split: if_splits)
  qed
  show ?thesis
  proof (cases "sv_prerelease l = sv_prerelease r")
    case True
    then show ?thesis by (auto simp: compareSemanticVersions_def three_way_def precedence_def)
  next
    case False
    from parts [OF False] False show ?thesis
      by (auto simp: compareSemanticVersions_def three_way_def precedence_def Let_def)
  qed
qed

text \<open>
  C38: The version comparison of the client overview is the precedence order of semantic versions:
  on versions whose pre-release identifiers spell numbers canonically, it returns -1, 0 or 1
  exactly as the linear order of the precedence keys says, so it is total, antisymmetric and
  transitive.
\<close>

theorem version_comparison_is_precedence:
  assumes "canonical_version l" "canonical_version r"
  shows "compareSemanticVersions l r = three_way (precedence l) (precedence r)"
  using assms by (rule compareSemanticVersions_reference)

theorem version_comparison_is_precedence_witness:
  "\<exists>l r. parseSemanticVersion ''v1.4.0-rc.2'' = Some l \<and> parseSemanticVersion ''1.4.0-rc.10+build'' = Some r \<and>
     compareSemanticVersions l r = three_way (precedence l) (precedence r) \<and> compareSemanticVersions l r = - 1"
proof -
  let ?l = "\<lparr>sv_major = 1, sv_minor = 4, sv_patch = 0, sv_prerelease = ''rc.2''\<rparr>"
  let ?r = "\<lparr>sv_major = 1, sv_minor = 4, sv_patch = 0, sv_prerelease = ''rc.10''\<rparr>"
  have "parseSemanticVersion ''v1.4.0-rc.2'' = Some ?l" "parseSemanticVersion ''1.4.0-rc.10+build'' = Some ?r"
    "canonical_version ?l" "canonical_version ?r" "compareSemanticVersions ?l ?r = - 1" by code_simp+
  with version_comparison_is_precedence [of ?l ?r] show ?thesis by auto
qed

text \<open>
  Without canonical spelling the comparison is not an order: two pre-releases whose identifiers
  are the same number, written differently, are each newer than the other.
\<close>

lemma leading_zero_breaks_antisymmetry:
  "\<exists>l r. parseSemanticVersion ''1.0.0-01'' = Some l \<and> parseSemanticVersion ''1.0.0-1'' = Some r \<and>
     compareSemanticVersions l r = 1 \<and> compareSemanticVersions r l = 1"
proof -
  let ?l = "\<lparr>sv_major = 1, sv_minor = 0, sv_patch = 0, sv_prerelease = ''01''\<rparr>"
  let ?r = "\<lparr>sv_major = 1, sv_minor = 0, sv_patch = 0, sv_prerelease = ''1''\<rparr>"
  have "parseSemanticVersion ''1.0.0-01'' = Some ?l" "parseSemanticVersion ''1.0.0-1'' = Some ?r"
    "compareSemanticVersions ?l ?r = 1" "compareSemanticVersions ?r ?l = 1" by code_simp+
  then show ?thesis by blast
qed

section \<open>The updater compares like the server\<close>

lemma Atoi_value_Some: "ParseInt s = Some i \<Longrightarrow> Atoi_value s = i"
  by (simp add: Atoi_value_def)

text \<open>What both parsers make of a version without surrounding white space.\<close>

lemma split_parts_three:
  "parse_numbers parts = Some (x, y, z) \<Longrightarrow>
   length parts = 3 \<and> map Atoi_value (take 3 parts) = [x, y, z]"
  by (auto simp: parse_numbers_def Atoi_value_Some split: list.splits option.splits if_splits)

lemma version_parse_agrees:
  assumes "parseSemanticVersion s = Some v" "TrimSpace s = s"
  shows "version_parse s = Some ([sv_major v, sv_minor v, sv_patch v],
    if sv_prerelease v = [] then None else Some (Split (CHR ''.'') (sv_prerelease v)))"
proof -
  let ?t = "TrimPrefix s ''v''"
  let ?u = "case index_of (CHR ''+'') ?t of None \<Rightarrow> ?t | Some i \<Rightarrow> take i ?t"
  obtain main pre where sd: "split_dash ?u = (main, pre)" by (cases "split_dash ?u")
  from assms sd obtain x y z where num: "parse_numbers (Split (CHR ''.'') main) = Some (x, y, z)"
    and v: "v = \<lparr>sv_major = x, sv_minor = y, sv_patch = z, sv_prerelease = (case pre of None \<Rightarrow> [] | Some p \<Rightarrow> p)\<rparr>"
    and ne: "pre \<noteq> Some []"
    by (auto simp: parseSemanticVersion_def Let_def split: option.splits if_splits)
  from split_parts_three [OF num] sd v ne show ?thesis
    by (auto simp: version_parse_def Let_def split: option.splits)
qed



end
