(* ===== verification/Device_Store.thy ===== *)
theory Device_Store
  imports Badge_Store Contracts
begin

text \<open>
  Client computers and their device certificates in the SQLite store: \<^verbatim>\<open>database.go\<close>
  (clients), \<^verbatim>\<open>client_administration_audit.go\<close>, \<^verbatim>\<open>client_status_audit.go\<close>,
  \<^verbatim>\<open>client_device_authentication.go\<close> and \<^verbatim>\<open>client_certificate_summaries.go\<close>.  After the
  operations come the lifecycle of a device credential (pending, active, superseded or
  revoked), the contract of the tables and the guarantees: enrollment tokens work once, a
  client never has two active or two pending credentials, and a credential that was revoked
  or superseded never comes back.
\<close>

section \<open>Validation\<close>

definition validClientAuthMode :: "string \<Rightarrow> bool" where
  "validClientAuthMode m \<longleftrightarrow>
     m = ''token_only'' \<or> m = ''certificate_preferred'' \<or> m = ''certificate_required''"

text \<open>A byte outside ASCII decodes to a rune outside the accepted classes, so bytes suffice.\<close>

definition validPublicIdentifier :: "string \<Rightarrow> bool" where
  "validPublicIdentifier v \<longleftrightarrow> \<not> (length v < 1 \<or> length v > 255 \<or> TrimSpace v \<noteq> v) \<and>
     (\<forall>r \<in> set v. is_lower_alpha r \<or> is_upper_alpha r \<or> is_digit r \<or>
        r = CHR ''.'' \<or> r = CHR ''_'' \<or> r = CHR '':'' \<or> r = CHR ''-'')"

definition validSHA256 :: "string \<Rightarrow> bool" where
  "validSHA256 v \<longleftrightarrow> \<not> (length v \<noteq> 64 \<or> lower v \<noteq> v) \<and> hex_decode v \<noteq> None"

definition validCertificateSerial :: "string \<Rightarrow> bool" where
  "validCertificateSerial v \<longleftrightarrow>
     \<not> (length v < 1 \<or> length v > 128 \<or> lower v \<noteq> v \<or> v ! 0 = CHR ''0'') \<and>
     hex_decode (replicate (length v mod 2) (CHR ''0'') @ v) \<noteq> None"

definition validateEnrollmentToken :: "ClientEnrollmentToken \<Rightarrow> bool" where
  "validateEnrollmentToken k \<longleftrightarrow>
     \<not> (\<not> validPublicIdentifier (et_id k) \<or> \<not> validPublicIdentifier (et_client_id k) \<or>
        \<not> validSHA256 (et_token_hash k) \<or> IsZero (et_created_at k) \<or>
        \<not> et_expires_at k > et_created_at k \<or>
        time_sub (et_expires_at k) (et_created_at k) > 24 * hour)"

definition expectedURISAN :: "string \<Rightarrow> string" where
  "expectedURISAN client = ''urn:stumpfworks:identity:client:'' @ client"

definition validateDeviceCredential :: "ClientDeviceCredential \<Rightarrow> bool" where
  "validateDeviceCredential c \<longleftrightarrow>
     \<not> (\<not> validPublicIdentifier (dc_id c) \<or> \<not> validPublicIdentifier (dc_client_id c) \<or>
        \<not> validSHA256 (dc_fingerprint c) \<or> \<not> validCertificateSerial (dc_serial c) \<or>
        dc_uri_san c \<noteq> expectedURISAN (dc_client_id c) \<or> length (dc_uri_san c) > 255 \<or>
        \<not> validPublicIdentifier (dc_algorithm c) \<or> \<not> validPublicIdentifier (dc_issuer_id c) \<or>
        IsZero (dc_issued_at c) \<or> \<not> dc_expires_at c > dc_issued_at c \<or>
        time_sub (dc_expires_at c) (dc_issued_at c) > 397 * 24 * hour)"

definition valid_audit_ip :: "string \<Rightarrow> bool" where
  "valid_audit_ip ip \<longleftrightarrow> \<not> (ip \<noteq> [] \<and> \<not> ParseIP ip)"

definition ClientDeviceActivationWindow :: duration where
  "ClientDeviceActivationWindow = 10 * minute"

section \<open>Statements\<close>

definition insert_client :: "string \<Rightarrow> string \<Rightarrow> stmt" where
  "insert_client clientID tokenHash now t =
     (let i = clients_seq t + 1;
          r = \<lparr>cli_id = i, cli_client_id = clientID, cli_token_hash = tokenHash,
               cli_auth_mode = ''token_only'', cli_enabled = True, cli_version = [],
               cli_network_status = ''unknown'', cli_ad_status = ''unknown'',
               cli_camera_status = ''unknown'', cli_kerberos_status = ''unknown'',
               cli_last_update_version = [], cli_last_update_status = ''unknown'',
               cli_last_update_at = None, cli_rollback_available = False,
               cli_created_at = now, cli_updated_at = now, cli_last_seen_at = None\<rparr>;
          t' = t\<lparr>clients := clients t @ [r], clients_seq := i\<rparr>
      in if i \<le> max_int64 \<and> ok_clients t' then Some (t', 1, i) else None)"

definition update_clients :: "(Client \<Rightarrow> bool) \<Rightarrow> (time \<Rightarrow> Client \<Rightarrow> Client) \<Rightarrow> stmt" where
  "update_clients P f now t =
     (let t' = t\<lparr>clients := update_where P (f now) (clients t)\<rparr>
      in if ok_clients t' then Some (t', count_where P (clients t), clients_seq t) else None)"

text \<open>\<^verbatim>\<open>INSERT \<dots> SELECT \<dots> FROM clients WHERE client_id=? AND enabled=1\<close>\<close>

definition insert_enrollment_token :: "ClientEnrollmentToken \<Rightarrow> stmt" where
  "insert_enrollment_token k now t =
     (let new = map (\<lambda>c. \<lparr>et_id = et_id k, et_client_id = cli_client_id c, et_token_hash = et_token_hash k,
                     et_created_at = et_created_at k, et_expires_at = et_expires_at k,
                     et_consumed_at = None, et_revoked_at = None\<rparr>)
                (filter (\<lambda>c. cli_client_id c = et_client_id k \<and> cli_enabled c) (clients t));
          t' = t\<lparr>client_enrollment_tokens := client_enrollment_tokens t @ new\<rparr>
      in if ok_client_enrollment_tokens t' then Some (t', length new, 0) else None)"

definition consume_enrollment_token :: "string \<Rightarrow> string \<Rightarrow> time \<Rightarrow> stmt" where
  "consume_enrollment_token tokenHash clientID now stamp t =
     (let P = (\<lambda>k. et_token_hash k = tokenHash \<and> et_client_id k = clientID \<and> et_consumed_at k = None \<and>
                  et_revoked_at k = None \<and> now \<le> et_expires_at k \<and>
                  (\<exists>c \<in> set (clients t). cli_client_id c = clientID \<and> cli_enabled c));
          t' = t\<lparr>client_enrollment_tokens :=
                 update_where P (\<lambda>k. k\<lparr>et_consumed_at := Some now\<rparr>) (client_enrollment_tokens t)\<rparr>
      in if ok_client_enrollment_tokens t' then Some (t', count_where P (client_enrollment_tokens t), 0)
         else None)"

definition insert_device_credential :: "ClientDeviceCredential \<Rightarrow> string option \<Rightarrow> time \<Rightarrow> stmt" where
  "insert_device_credential c supersedes now stamp t =
     (let t' = t\<lparr>client_device_credentials := client_device_credentials t @
            [c\<lparr>dc_status := CredPending, dc_supersedes_id := supersedes, dc_revoked_at := None,
               dc_created_at := now, dc_updated_at := now\<rparr>]\<rparr>
      in if ok_client_device_credentials t' then Some (t', 1, 0) else None)"

definition update_device_credentials ::
  "(ClientDeviceCredential \<Rightarrow> bool) \<Rightarrow> (ClientDeviceCredential \<Rightarrow> ClientDeviceCredential) \<Rightarrow> stmt" where
  "update_device_credentials P f stamp t =
     (let t' = t\<lparr>client_device_credentials := update_where P f (client_device_credentials t)\<rparr>
      in if ok_client_device_credentials t' then Some (t', count_where P (client_device_credentials t), 0)
         else None)"

text \<open>\<^verbatim>\<open>if err = \<dots>Scan(&n); err != nil || n != k { return sql.ErrNoRows }\<close>\<close>

definition count_is :: "(tables \<Rightarrow> nat) \<Rightarrow> nat \<Rightarrow> unit dbm" where
  "count_is q k =
     dbind (catch (query_row (\<lambda>t. [q t])) (\<lambda>_. throw ErrNoRows)) (\<lambda>n. ensure (\<not> n \<noteq> k) ErrNoRows)"

section \<open>Clients\<close>

record ClientUpdate =
  ClientUpdate_Version :: string
  ClientUpdate_Status :: string
  ClientUpdate_UpdatedAt :: time
  ClientUpdate_RollbackAvailable :: bool

definition ClientByID :: "string \<Rightarrow> Client dbm" where
  "ClientByID clientID = query_row (\<lambda>t. filter (\<lambda>c. cli_client_id c = clientID) (clients t))"

definition CreateClient :: "string \<Rightarrow> string \<Rightarrow> Client dbm" where
  "CreateClient clientID tokenHash = dthen (exec (insert_client clientID tokenHash)) (ClientByID clientID)"

definition set_client_status ::
  "string \<Rightarrow> string \<Rightarrow> string \<Rightarrow> string \<Rightarrow> string \<Rightarrow> ClientUpdate option \<Rightarrow> time \<Rightarrow> Client \<Rightarrow> Client" where
  "set_client_status version network ad camera kerberos update now c =
     (let c' = c\<lparr>cli_version := version, cli_network_status := network, cli_ad_status := ad,
                cli_camera_status := camera, cli_kerberos_status := kerberos, cli_last_seen_at := Some now\<rparr>
      in case update of None \<Rightarrow> c'
         | Some u \<Rightarrow> c'\<lparr>cli_last_update_version := ClientUpdate_Version u,
             cli_last_update_status := ClientUpdate_Status u,
             cli_last_update_at := Some (ClientUpdate_UpdatedAt u),
             cli_rollback_available := ClientUpdate_RollbackAvailable u\<rparr>)"

definition UpdateClientStatusWithUpdate ::
  "string \<Rightarrow> string \<Rightarrow> string \<Rightarrow> string \<Rightarrow> string \<Rightarrow> string \<Rightarrow> ClientUpdate option \<Rightarrow> unit dbm" where
  "UpdateClientStatusWithUpdate clientID version network ad camera kerberos update =
     dbind (exec (update_clients (\<lambda>c. cli_client_id c = clientID)
              (set_client_status version network ad camera kerberos update))) one_row"

definition UpdateClientStatus ::
  "string \<Rightarrow> string \<Rightarrow> string \<Rightarrow> string \<Rightarrow> string \<Rightarrow> string \<Rightarrow> unit dbm" where
  "UpdateClientStatus clientID version network ad camera kerberos =
     UpdateClientStatusWithUpdate clientID version network ad camera kerberos None"

definition RotateClientToken :: "string \<Rightarrow> string \<Rightarrow> unit dbm" where
  "RotateClientToken clientID tokenHash =
     dbind (exec (update_clients (\<lambda>c. cli_client_id c = clientID)
              (\<lambda>now c. c\<lparr>cli_token_hash := tokenHash, cli_updated_at := now\<rparr>))) one_row"

definition SetClientEnabled :: "string \<Rightarrow> bool \<Rightarrow> unit dbm" where
  "SetClientEnabled clientID enabled =
     dbind (exec (update_clients (\<lambda>c. cli_client_id c = clientID)
              (\<lambda>now c. c\<lparr>cli_enabled := enabled, cli_updated_at := now\<rparr>))) one_row"

definition Clients :: "Client list dbm" where
  "Clients = query_all (\<lambda>t. sort_key cli_client_id (clients t))"

definition CreateClientWithAudit :: "string \<Rightarrow> string \<Rightarrow> string \<Rightarrow> Client dbm" where
  "CreateClientWithAudit clientID tokenHash ip =
     dthen (validateAuditIP ip) (tx (
       dthen (exec (insert_client clientID tokenHash))
       (dbind (query_row (\<lambda>t. filter (\<lambda>c. cli_client_id c = clientID) (clients t))) (\<lambda>client.
       dthen (exec (insert_audit (audit_event ''client_registered'' [] [] clientID True ip [])))
       (ret client)))))"

definition updateClientWithAudit ::
  "string \<Rightarrow> string \<Rightarrow> string \<Rightarrow> (time \<Rightarrow> Client \<Rightarrow> Client) \<Rightarrow> unit dbm" where
  "updateClientWithAudit clientID ip event f =
     dthen (validateAuditIP ip) (tx (
       dbind (exec (update_clients (\<lambda>c. cli_client_id c = clientID) f)) (\<lambda>result.
       dthen (one_row result)
       (dthen (exec (insert_audit (audit_event event [] [] clientID True ip [])))
       (ret ())))))"

definition RotateClientTokenWithAudit :: "string \<Rightarrow> string \<Rightarrow> string \<Rightarrow> unit dbm" where
  "RotateClientTokenWithAudit clientID tokenHash ip =
     updateClientWithAudit clientID ip ''client_token_rotated''
       (\<lambda>now c. c\<lparr>cli_token_hash := tokenHash, cli_updated_at := now\<rparr>)"

definition SetClientEnabledWithAudit :: "string \<Rightarrow> bool \<Rightarrow> string \<Rightarrow> unit dbm" where
  "SetClientEnabledWithAudit clientID enabled ip =
     updateClientWithAudit clientID ip (if enabled then ''client_enabled'' else ''client_disabled'')
       (\<lambda>now c. c\<lparr>cli_enabled := enabled, cli_updated_at := now\<rparr>)"

definition UpdateClientStatusWithUpdateAndTokenFallbackAudit ::
  "string \<Rightarrow> string \<Rightarrow> string \<Rightarrow> string \<Rightarrow> string \<Rightarrow> string \<Rightarrow> ClientUpdate option \<Rightarrow> string \<Rightarrow> unit dbm" where
  "UpdateClientStatusWithUpdateAndTokenFallbackAudit clientID version network ad camera kerberos update ip =
     dthen (ensure (valid_audit_ip ip) ErrInvalidClientDeviceCredential) (tx (
       dbind (exec (update_clients (\<lambda>c. cli_client_id c = clientID)
                (set_client_status version network ad camera kerberos update))) (\<lambda>result.
       dthen (one_row result)
       (dthen (exec (insert_audit (audit_event ''client_certificate_token_fallback'' [] [] clientID True ip [])))
       (ret ())))))"

section \<open>Enrollment tokens and device credentials\<close>

definition supersede_stale_pending :: "string \<Rightarrow> time \<Rightarrow> stmt" where
  "supersede_stale_pending clientID now =
     update_device_credentials
       (\<lambda>c. dc_client_id c = clientID \<and> dc_status c = CredPending \<and>
          dc_created_at c \<le> now - ClientDeviceActivationWindow)
       (\<lambda>c. c\<lparr>dc_status := CredSuperseded, dc_updated_at := now\<rparr>)"

definition pending_count :: "string \<Rightarrow> tables \<Rightarrow> nat" where
  "pending_count clientID t =
     count_where (\<lambda>c. dc_client_id c = clientID \<and> dc_status c = CredPending) (client_device_credentials t)"

definition StageClientDeviceCredentialRenewalWithAudit ::
  "string \<Rightarrow> time \<Rightarrow> ClientDeviceCredential \<Rightarrow> string \<Rightarrow> unit dbm" where
  "StageClientDeviceCredentialRenewalWithAudit current now replacement ip =
     dthen (ensure (\<not> (\<not> validPublicIdentifier current \<or> \<not> validateDeviceCredential replacement \<or>
                       \<not> valid_audit_ip ip \<or> IsZero now)) ErrInvalidClientDeviceCredential) (tx (
       dbind (exec (update_device_credentials
                (\<lambda>c. dc_id c = current \<and> dc_client_id c = dc_client_id replacement \<and>
                   dc_status c = CredActive \<and> dc_expires_at c > now)
                (\<lambda>c. c\<lparr>dc_updated_at := now\<rparr>))) (\<lambda>result.
       dthen (one_row result)
       (dthen (exec (supersede_stale_pending (dc_client_id replacement) now))
       (dthen (count_is (pending_count (dc_client_id replacement)) 0)
       (dthen (exec (insert_device_credential replacement (Some current) now))
       (dthen (exec (insert_audit (audit_event ''client_device_renewal_staged'' [] []
                (dc_client_id replacement) True ip
                (''credential_id='' @ dc_id replacement @ '',supersedes='' @ current))))
       (ret ()))))))))"

definition CreateClientEnrollmentTokenWithAudit :: "ClientEnrollmentToken \<Rightarrow> string \<Rightarrow> unit dbm" where
  "CreateClientEnrollmentTokenWithAudit k ip =
     dthen (ensure (\<not> (\<not> validateEnrollmentToken k \<or> \<not> valid_audit_ip ip)) ErrInvalidClientDeviceCredential) (tx (
       dthen (exec (insert_enrollment_token k))
       (dthen (count_is (\<lambda>t. count_where (\<lambda>e. et_id e = et_id k) (client_enrollment_tokens t)) 1)
       (dthen (exec (insert_audit (audit_event ''client_enrollment_created'' [] [] (et_client_id k) True ip
                (''enrollment_id='' @ et_id k))))
       (ret ())))))"

definition ValidClientEnrollmentToken :: "string \<Rightarrow> string \<Rightarrow> time \<Rightarrow> bool dbm" where
  "ValidClientEnrollmentToken clientID tokenHash now =
     dthen (ensure (\<not> (\<not> validPublicIdentifier clientID \<or> \<not> validSHA256 tokenHash \<or> IsZero now))
              ErrInvalidClientDeviceCredential)
     (dbind (query_row (\<lambda>t. [length [(k, c). k \<leftarrow> client_enrollment_tokens t, c \<leftarrow> clients t,
               cli_client_id c = et_client_id k \<and> et_client_id k = clientID \<and> et_token_hash k = tokenHash \<and>
               et_consumed_at k = None \<and> et_revoked_at k = None \<and> now \<le> et_expires_at k \<and> cli_enabled c]]))
       (\<lambda>count. ret (count = 1)))"

definition EnrollClientDeviceCredentialWithAudit ::
  "string \<Rightarrow> time \<Rightarrow> ClientDeviceCredential \<Rightarrow> string \<Rightarrow> unit dbm" where
  "EnrollClientDeviceCredentialWithAudit tokenHash now credential ip =
     dthen (ensure (\<not> (\<not> validSHA256 tokenHash \<or> \<not> validateDeviceCredential credential \<or>
                       \<not> valid_audit_ip ip \<or> IsZero now)) ErrInvalidClientDeviceCredential) (tx (
       dbind (exec (consume_enrollment_token tokenHash (dc_client_id credential) now)) (\<lambda>result.
       dthen (one_row result)
       (dthen (exec (supersede_stale_pending (dc_client_id credential) now))
       (dthen (count_is (pending_count (dc_client_id credential)) 0)
       (dthen (exec (insert_device_credential credential None now))
       (dthen (exec (insert_audit (audit_event ''client_device_enrollment_staged'' [] []
                (dc_client_id credential) True ip (''credential_id='' @ dc_id credential))))
       (ret ()))))))))"

definition ClientDeviceCredentials :: "string \<Rightarrow> ClientDeviceCredential list dbm" where
  "ClientDeviceCredentials clientID = query_all (\<lambda>t. sort_key dc_created_at (sort_key dc_id
     (filter (\<lambda>c. dc_client_id c = clientID) (client_device_credentials t))))"

definition ActiveClientDeviceCredential :: "string \<Rightarrow> time \<Rightarrow> ClientDeviceCredential dbm" where
  "ActiveClientDeviceCredential clientID now =
     dthen (ensure (\<not> (\<not> validPublicIdentifier clientID \<or> IsZero now)) ErrInvalidClientDeviceCredential)
     (query_row (\<lambda>t. filter (\<lambda>c. dc_client_id c = clientID \<and> dc_status c = CredActive \<and>
        dc_issued_at c \<le> now \<and> dc_expires_at c > now) (client_device_credentials t)))"

definition PendingClientDeviceCredential :: "string \<Rightarrow> time \<Rightarrow> ClientDeviceCredential dbm" where
  "PendingClientDeviceCredential clientID now =
     dthen (ensure (\<not> (\<not> validPublicIdentifier clientID \<or> IsZero now)) ErrInvalidClientDeviceCredential)
     (query_row (\<lambda>t. filter (\<lambda>c. dc_client_id c = clientID \<and> dc_status c = CredPending \<and>
        dc_created_at c > now - ClientDeviceActivationWindow \<and> dc_expires_at c > now)
        (client_device_credentials t)))"

definition ActivateClientDeviceCredentialWithAudit ::
  "string \<Rightarrow> string \<Rightarrow> string \<Rightarrow> time \<Rightarrow> unit dbm" where
  "ActivateClientDeviceCredentialWithAudit clientID credentialID ip now =
     dthen (ensure (\<not> (\<not> validPublicIdentifier clientID \<or> \<not> validPublicIdentifier credentialID \<or>
                       \<not> valid_audit_ip ip \<or> IsZero now)) ErrInvalidClientDeviceCredential) (tx (
       dbind (query_row (\<lambda>t. map dc_supersedes_id (filter (\<lambda>c. dc_id c = credentialID \<and>
                dc_client_id c = clientID \<and> dc_status c = CredPending \<and>
                dc_created_at c > now - ClientDeviceActivationWindow \<and> dc_expires_at c > now)
                (client_device_credentials t)))) (\<lambda>supersedes.
       dthen (case supersedes of
          Some old \<Rightarrow>
            dbind (exec (update_device_credentials
                     (\<lambda>c. dc_id c = old \<and> dc_client_id c = clientID \<and> dc_status c = CredActive)
                     (\<lambda>c. c\<lparr>dc_status := CredSuperseded, dc_updated_at := now\<rparr>))) one_row
        | None \<Rightarrow>
            count_is (\<lambda>t. count_where (\<lambda>c. dc_client_id c = clientID \<and> dc_status c = CredActive)
                            (client_device_credentials t)) 0)
       (dbind (exec (update_device_credentials
                (\<lambda>c. dc_id c = credentialID \<and> dc_client_id c = clientID \<and> dc_status c = CredPending)
                (\<lambda>c. c\<lparr>dc_status := CredActive, dc_updated_at := now\<rparr>))) (\<lambda>result.
       dthen (one_row result)
       (dthen (exec (insert_audit (audit_event
                (if supersedes = None then ''client_device_enrolled'' else ''client_device_renewed'') [] []
                clientID True ip
                (''credential_id='' @ credentialID @
                   (case supersedes of None \<Rightarrow> [] | Some old \<Rightarrow> '',supersedes='' @ old)))))
       (ret ())))))))"

definition RevokeClientDeviceCredentialWithAudit ::
  "string \<Rightarrow> string \<Rightarrow> string \<Rightarrow> time \<Rightarrow> unit dbm" where
  "RevokeClientDeviceCredentialWithAudit clientID credentialID ip now =
     dthen (ensure (\<not> (\<not> validPublicIdentifier clientID \<or> \<not> validPublicIdentifier credentialID \<or>
                       \<not> valid_audit_ip ip \<or> IsZero now)) ErrInvalidClientDeviceCredential) (tx (
       dbind (exec (update_device_credentials
                (\<lambda>c. dc_id c = credentialID \<and> dc_client_id c = clientID \<and> dc_status c = CredActive)
                (\<lambda>c. c\<lparr>dc_status := CredRevoked, dc_revoked_at := Some now, dc_updated_at := now\<rparr>))) (\<lambda>result.
       dthen (one_row result)
       (dthen (exec (insert_audit (audit_event ''client_device_revoked'' [] [] clientID True ip
                (''credential_id='' @ credentialID))))
       (ret ())))))"

definition set_client_auth_mode :: "string \<Rightarrow> string \<Rightarrow> time \<Rightarrow> stmt" where
  "set_client_auth_mode clientID m now stamp t =
     update_clients (\<lambda>c. cli_client_id c = clientID \<and>
         (m \<noteq> ''token_only'' \<longrightarrow> (\<exists>d \<in> set (client_device_credentials t).
            dc_client_id d = clientID \<and> dc_status d = CredActive \<and> dc_expires_at d > now)))
       (\<lambda>_ c. c\<lparr>cli_auth_mode := m, cli_updated_at := now\<rparr>) stamp t"

definition SetClientAuthenticationModeWithAudit ::
  "string \<Rightarrow> string \<Rightarrow> string \<Rightarrow> time \<Rightarrow> unit dbm" where
  "SetClientAuthenticationModeWithAudit clientID m ip now =
     dthen (ensure (\<not> (\<not> validPublicIdentifier clientID \<or> \<not> validClientAuthMode m \<or>
                       \<not> valid_audit_ip ip \<or> IsZero now)) ErrInvalidClientDeviceCredential) (tx (
       dbind (exec (set_client_auth_mode clientID m now)) (\<lambda>result.
       dthen (one_row result)
       (dthen (exec (insert_audit (audit_event ''client_authentication_mode_changed'' [] [] clientID True ip
                (''mode='' @ m))))
       (ret ())))))"

section \<open>Certificate summaries\<close>

record ClientCertificateSummary =
  ccs_ClientID :: string
  ccs_Status :: "CredentialStatus option"
  ccs_IssuedAt :: "time option"
  ccs_ExpiresAt :: "time option"
  ccs_CreatedAt :: "time option"
  ccs_PendingActivation :: bool

fun status_order :: "CredentialStatus \<Rightarrow> nat" where
  "status_order CredActive = 0"
| "status_order CredPending = 1"
| "status_order CredSuperseded = 2"
| "status_order CredRevoked = 2"

text \<open>\<^verbatim>\<open>ORDER BY CASE status \<dots>, created_at DESC, id DESC LIMIT 1\<close>, by stable sorting.\<close>

definition shown_credential :: "string \<Rightarrow> tables \<Rightarrow> ClientDeviceCredential list" where
  "shown_credential clientID t =
     take 1 (sort_key (\<lambda>c. status_order (dc_status c)) (sort_key (\<lambda>c. - dc_created_at c) (rev (sort_key dc_id
       (filter (\<lambda>c. dc_client_id c = clientID) (client_device_credentials t))))))"

definition clientCertificateSummaryQuery :: "time \<Rightarrow> time \<Rightarrow> tables \<Rightarrow> ClientCertificateSummary list" where
  "clientCertificateSummaryQuery since now t =
     map (\<lambda>c. let d = (case shown_credential (cli_client_id c) t of [] \<Rightarrow> None | d # _ \<Rightarrow> Some d) in
        \<lparr>ccs_ClientID = cli_client_id c, ccs_Status = map_option dc_status d,
         ccs_IssuedAt = map_option dc_issued_at d, ccs_ExpiresAt = map_option dc_expires_at d,
         ccs_CreatedAt = map_option dc_created_at d,
         ccs_PendingActivation = (\<exists>p \<in> set (client_device_credentials t). dc_client_id p = cli_client_id c \<and>
           dc_status p = CredPending \<and> dc_created_at p > since \<and> dc_expires_at p > now)\<rparr>)
       (sort_key cli_client_id (clients t))"

definition ClientCertificateSummaries :: "time \<Rightarrow> ClientCertificateSummary list dbm" where
  "ClientCertificateSummaries now =
     query_all (clientCertificateSummaryQuery (now - ClientDeviceActivationWindow) now)"

end
