(* ===== verification/Job_Store.thy ===== *)
theory Job_Store
  imports Device_Store
begin

text \<open>
  Update jobs for client computers: the lifecycle rules of \<^verbatim>\<open>internal/clientupdate/job.go\<close> and
  the store of \<^verbatim>\<open>internal/database/client_update_jobs.go\<close>.  The two operations run in one
  transaction each; \<open>createUpdateJob\<close> and \<open>changeUpdateJob\<close> are the transaction bodies that both
  database back ends share.
\<close>

section \<open>Execution windows and transitions\<close>

record JobWindow =
  NotBefore :: time
  ExpiresAt :: time
  LightDMMaintenance :: bool

datatype job_error = ErrWindow | ErrMaintenance | ErrTransition

definition Validate :: "JobWindow \<Rightarrow> time \<Rightarrow> bool \<Rightarrow> job_error option" where
  "Validate w now requiresLightDM =
     (if IsZero (NotBefore w) \<or> IsZero (ExpiresAt w) \<or> \<not> ExpiresAt w > NotBefore w \<or>
         time_sub (ExpiresAt w) (NotBefore w) > 24 * hour \<or> \<not> ExpiresAt w > now \<or>
         NotBefore w > now + 90 * 24 * hour
      then Some ErrWindow
      else if requiresLightDM \<and> \<not> LightDMMaintenance w then Some ErrMaintenance else None)"

definition Transition :: "JobWindow \<Rightarrow> JobState \<Rightarrow> JobState \<Rightarrow> time \<Rightarrow> job_error option" where
  "Transition w a b now =
     (if a = b \<and> (a = JobSucceeded \<or> a = JobFailed \<or> a = JobCancelled \<or> a = JobExpired) then None
      else if a = JobScheduled \<and> b = JobCancelled then None
      else if a = JobScheduled \<and> b = JobExpired \<and> \<not> now < ExpiresAt w then None
      else if a = JobScheduled \<and> b = JobDispatched \<and> \<not> now < NotBefore w \<and> now < ExpiresAt w then None
      else if a = JobDispatched \<and> (b = JobSucceeded \<or> b = JobFailed) then None
      else Some ErrTransition)"

text \<open>The lifecycle without its clock: the abstract specification.\<close>

inductive job_trans :: "JobState \<Rightarrow> JobState \<Rightarrow> bool" where
  stay: "job_trans s s"
| cancel: "job_trans JobScheduled JobCancelled"
| expire: "job_trans JobScheduled JobExpired"
| dispatch: "job_trans JobScheduled JobDispatched"
| succeed: "job_trans JobDispatched JobSucceeded"
| fail: "job_trans JobDispatched JobFailed"

inductive_simps job_trans_simps [simp]:
  "job_trans JobScheduled s" "job_trans JobDispatched s" "job_trans JobSucceeded s" "job_trans JobFailed s"
  "job_trans JobCancelled s" "job_trans JobExpired s"

fun job_rank :: "JobState \<Rightarrow> nat" where
  "job_rank JobScheduled = 0"
| "job_rank JobDispatched = 1"
| "job_rank _ = 2"

definition job_final :: "JobState \<Rightarrow> bool" where
  "job_final s \<longleftrightarrow> s \<noteq> JobScheduled \<and> s \<noteq> JobDispatched"

interpretation job_life: lifecycle job_trans job_rank job_final
proof unfold_locales
  fix a b
  show "job_trans a b \<Longrightarrow> a \<noteq> b \<Longrightarrow> job_rank a < job_rank b" by (cases a) auto
  show "job_final a \<Longrightarrow> job_trans a b \<Longrightarrow> b = a" by (cases a) (auto simp: job_final_def)
qed

lemma Transition_sound: "Transition w a b now = None \<Longrightarrow> job_trans a b"
  by (auto simp: Transition_def split: if_splits)

section \<open>Statements\<close>

definition insert_update_job :: "ClientUpdateJob \<Rightarrow> int \<Rightarrow> stmt" where
  "insert_update_job j nowUnix stamp t =
     (let t' = t\<lparr>client_update_jobs := client_update_jobs t @
            [j\<lparr>job_state := JobScheduled, job_rollback_available := False,
               job_created_at := nowUnix, job_updated_at := nowUnix\<rparr>]\<rparr>
      in if ok_client_update_jobs t' then Some (t', 1, 0) else None)"

definition update_update_jobs ::
  "(ClientUpdateJob \<Rightarrow> bool) \<Rightarrow> (ClientUpdateJob \<Rightarrow> ClientUpdateJob) \<Rightarrow> stmt" where
  "update_update_jobs P f stamp t =
     (let t' = t\<lparr>client_update_jobs := update_where P f (client_update_jobs t)\<rparr>
      in if ok_client_update_jobs t' then Some (t', count_where P (client_update_jobs t), 0) else None)"

text \<open>\<^verbatim>\<open>jobTransaction.exec\<close>: the statement and its row count.\<close>

definition job_exec :: "stmt \<Rightarrow> nat dbm" where
  "job_exec s = dbind (exec s) RowsAffected"

section \<open>Operations\<close>

definition is_identifier_char :: "char \<Rightarrow> bool" where
  "is_identifier_char c \<longleftrightarrow> is_alnum c \<or> c = CHR ''_'' \<or> c = CHR ''-''"

definition ValidUpdateIdentifier :: "string \<Rightarrow> bool" where
  "ValidUpdateIdentifier s \<longleftrightarrow> (\<forall>c \<in> set s. is_identifier_char c) \<and> 16 \<le> length s \<and> length s \<le> 64"

fun JobState_text :: "JobState \<Rightarrow> string" where
  "JobState_text JobScheduled = ''scheduled''"
| "JobState_text JobDispatched = ''dispatched''"
| "JobState_text JobSucceeded = ''succeeded''"
| "JobState_text JobFailed = ''failed''"
| "JobState_text JobCancelled = ''cancelled''"
| "JobState_text JobExpired = ''expired''"

definition job_window :: "ClientUpdateJob \<Rightarrow> bool \<Rightarrow> JobWindow" where
  "job_window j maintenance =
     \<lparr>NotBefore = fromUnix (job_not_before j), ExpiresAt = fromUnix (job_expires_at j),
      LightDMMaintenance = maintenance\<rparr>"

text \<open>\<^verbatim>\<open>SELECT enabled,auth_mode FROM clients WHERE client_id=$1\<close> and the check behind it.\<close>

definition client_eligible :: "string \<Rightarrow> string \<Rightarrow> unit dbm" where
  "client_eligible client message =
     dbind (query_row (\<lambda>t. map (\<lambda>c. (cli_enabled c, cli_auth_mode c))
              (filter (\<lambda>c. cli_client_id c = client) (clients t)))) (\<lambda>(enabled, m).
     ensure (\<not> (\<not> enabled \<or> m = ''token_only'')) (ErrText message))"

text \<open>The second half of \<open>changeUpdateJob\<close>, once the job was found in another state.\<close>

definition applyJobChange ::
  "ClientUpdateJob \<Rightarrow> string \<Rightarrow> string \<Rightarrow> JobState \<Rightarrow> bool \<Rightarrow> string \<Rightarrow> string \<Rightarrow> time \<Rightarrow> unit dbm" where
  "applyJobChange j i client to rollback actor ip now =
     dthen (ensure (Transition (job_window j False) (job_state j) to now = None)
              (ErrText ''invalid update job transition''))
     (dthen (if to = JobDispatched then client_eligible client ''device unavailable'' else ret ())
     (dbind (job_exec (update_update_jobs
               (\<lambda>x. job_id x = i \<and> job_client_id x = client \<and> job_state x = job_state j)
               (\<lambda>x. x\<lparr>job_state := to, job_rollback_available := rollback, job_updated_at := Unix now\<rparr>)))
        (\<lambda>changed.
     dthen (ensure (\<not> changed \<noteq> 1) (ErrText ''concurrent job transition''))
     (dthen (job_exec (insert_audit (audit_event (''client_update_'' @ JobState_text to) [] actor client
               True ip (''job='' @ i))))
     (ret ())))))"

definition changeUpdateJob ::
  "string \<Rightarrow> string \<Rightarrow> JobState \<Rightarrow> bool \<Rightarrow> string \<Rightarrow> string \<Rightarrow> time \<Rightarrow> unit dbm" where
  "changeUpdateJob i client to rollback actor ip now =
     dthen (ensure (\<not> (\<not> ValidUpdateIdentifier i \<or> length actor > 128)) (ErrText ''invalid job identity''))
     (dthen (validateAuditIP ip)
     (dbind (query_row (\<lambda>t. filter (\<lambda>j. job_id j = i \<and> job_client_id j = client) (client_update_jobs t))) (\<lambda>j.
      if job_state j = to then
        ensure (\<not> job_rollback_available j \<noteq> rollback) (ErrText ''conflicting result'')
      else applyJobChange j i client to rollback actor ip now)))"

definition same_request :: "ClientUpdateJob \<Rightarrow> ClientUpdateJob \<Rightarrow> bool" where
  "same_request old j \<longleftrightarrow> job_client_id old = job_client_id j \<and> job_release_id old = job_release_id j \<and>
     job_release_version old = job_release_version j \<and> job_package_sha256 old = job_package_sha256 j \<and>
     job_not_before old = job_not_before j \<and> job_expires_at old = job_expires_at j \<and>
     job_maintenance old = job_maintenance j"

text \<open>The part of \<open>createUpdateJob\<close> after no earlier job with the identifier was found.\<close>

definition insertUpdateJob :: "ClientUpdateJob \<Rightarrow> string \<Rightarrow> string \<Rightarrow> time \<Rightarrow> unit dbm" where
  "insertUpdateJob j actor ip now =
     dbind (attempt (query_row (\<lambda>t. filter (\<lambda>x. job_client_id x = job_client_id j \<and>
              job_state x = JobScheduled \<and> job_expires_at x \<le> Unix now) (client_update_jobs t)))) (\<lambda>previous.
     dthen (case previous of
              Inr p \<Rightarrow> changeUpdateJob (job_id p) (job_client_id j) JobExpired False actor ip now
            | Inl e \<Rightarrow> ensure (e = ErrNoRows) e)
     (dthen (job_exec (insert_update_job j (Unix now)))
     (dthen (job_exec (insert_audit (audit_event ''client_update_scheduled'' [] actor (job_client_id j)
               True ip (''job='' @ job_id j))))
     (ret ()))))"

definition createUpdateJob :: "ClientUpdateJob \<Rightarrow> string \<Rightarrow> string \<Rightarrow> time \<Rightarrow> unit dbm" where
  "createUpdateJob j actor ip now =
     dthen (ensure (\<not> (\<not> ValidUpdateIdentifier (job_id j) \<or> \<not> ValidUpdateIdentifier (job_release_id j) \<or>
                      length (job_client_id j) > 64 \<or> job_client_id j = [] \<or> length actor > 128))
              (ErrText ''invalid update job''))
     (dthen (ensure (case hex_decode (job_package_sha256 j) of None \<Rightarrow> False | Some digest \<Rightarrow> length digest = 32)
              (ErrText ''invalid package digest''))
     (dthen (ensure (Validate (job_window j (job_maintenance j)) now False = None)
              (ErrText ''invalid update execution window''))
     (dthen (validateAuditIP ip)
     (dthen (client_eligible (job_client_id j) ''device certificate required'')
     (dbind (attempt (query_row (\<lambda>t. filter (\<lambda>x. job_id x = job_id j) (client_update_jobs t)))) (\<lambda>old.
      case old of
        Inr old \<Rightarrow> ensure (same_request old j) (ErrText ''conflicting update request'')
      | Inl e \<Rightarrow> dthen (ensure (e = ErrNoRows) e) (insertUpdateJob j actor ip now)))))))"

definition updateJobTransaction :: "unit dbm \<Rightarrow> unit dbm" where
  "updateJobTransaction fn = tx fn"

definition CreateClientUpdateJob :: "ClientUpdateJob \<Rightarrow> string \<Rightarrow> string \<Rightarrow> time \<Rightarrow> unit dbm" where
  "CreateClientUpdateJob j actor ip now = updateJobTransaction (createUpdateJob j actor ip now)"

definition ChangeClientUpdateJob ::
  "string \<Rightarrow> string \<Rightarrow> JobState \<Rightarrow> bool \<Rightarrow> string \<Rightarrow> string \<Rightarrow> time \<Rightarrow> unit dbm" where
  "ChangeClientUpdateJob i client to rollback actor ip now =
     updateJobTransaction (changeUpdateJob i client to rollback actor ip now)"

definition ClientUpdateJobs :: "string \<Rightarrow> ClientUpdateJob list dbm" where
  "ClientUpdateJobs client = query_all (\<lambda>t. take 200 (rev (sort_key job_created_at (sort_key job_id
     (filter (\<lambda>j. client = [] \<or> job_client_id j = client) (client_update_jobs t))))))"

definition ClientUpdateJobByID :: "string \<Rightarrow> ClientUpdateJob dbm" where
  "ClientUpdateJobByID i = query_row (\<lambda>t. filter (\<lambda>j. job_id j = i) (client_update_jobs t))"

section \<open>Contract of the job table\<close>

definition job_evolves :: "ClientUpdateJob \<Rightarrow> ClientUpdateJob \<Rightarrow> bool" where
  "job_evolves j j' \<longleftrightarrow> job_id j' = job_id j \<and> same_request j' j \<and> job_created_at j' = job_created_at j \<and>
     job_trans\<^sup>*\<^sup>* (job_state j) (job_state j')"

definition jobs_evolve :: "tables \<Rightarrow> tables \<Rightarrow> bool" where
  "jobs_evolve t t' \<longleftrightarrow> ok_client_update_jobs t' \<and> grows job_evolves (client_update_jobs t) (client_update_jobs t')"

lemma job_evolves_refl [simp]: "job_evolves j j"
  by (simp add: job_evolves_def same_request_def)

lemma job_evolves_trans: "job_evolves a b \<Longrightarrow> job_evolves b c \<Longrightarrow> job_evolves a c"
  by (auto simp: job_evolves_def same_request_def)

interpretation job_contract: table_contract ok_client_update_jobs jobs_evolve
  by unfold_locales (auto simp: jobs_evolve_def intro: grows_refl grows_trans [OF job_evolves_trans])

abbreviation job_prog :: "'a dbm \<Rightarrow> bool" where
  "job_prog \<equiv> keeps ok_client_update_jobs jobs_evolve"

lemma insert_job_keeps: "keeps_stmt ok_client_update_jobs jobs_evolve (insert_update_job j u)"
  by (rule keeps_stmtI)
    (auto simp: insert_update_job_def Let_def jobs_evolve_def intro!: grows_new split: if_splits)

lemma insert_audit_keeps_jobs: "keeps_stmt ok_client_update_jobs jobs_evolve (insert_audit a)"
  by (rule keeps_stmtI)
    (auto simp: insert_audit_def Let_def jobs_evolve_def ok_client_update_jobs_def intro!: grows_refl split: if_splits)

lemma update_jobs_keeps:
  assumes "\<And>j. P j \<Longrightarrow> job_evolves j (f j)"
  shows "keeps_stmt ok_client_update_jobs jobs_evolve (update_update_jobs P f)"
  using assms
  by (intro keeps_stmtI)
    (auto simp: update_update_jobs_def Let_def jobs_evolve_def intro!: grows_update split: if_splits)

lemma job_reads [simp]:
  "job_prog (query_row q)" "job_prog (query_all q')" "job_prog (ensure c e)" "job_prog (ret a)"
  "job_prog (attempt (query_row q))" "job_prog (validateAuditIP ip)" "job_prog (client_eligible cl m)"
  by (auto simp: validateAuditIP_def client_eligible_def split: prod.splits
      intro!: job_contract.keeps_read_only atomic_intros)

lemma job_exec_keeps: "keeps_stmt ok_client_update_jobs jobs_evolve s \<Longrightarrow> job_prog (job_exec s)"
  unfolding job_exec_def
  by (intro job_contract.keeps_dbind job_contract.keeps_exec job_contract.keeps_read_only atomic_intros)

lemma job_writes [simp]: "job_prog (job_exec (insert_audit a))" "job_prog (job_exec (insert_update_job j u))"
  by (intro job_exec_keeps insert_audit_keeps_jobs insert_job_keeps)+

lemma job_state_change [simp]:
  "Transition w s to now = None \<Longrightarrow>
   job_prog (job_exec (update_update_jobs (\<lambda>x. job_id x = i \<and> job_client_id x = cl \<and> job_state x = s)
     (\<lambda>x. x\<lparr>job_state := to, job_rollback_available := rb, job_updated_at := u\<rparr>)))"
  by (rule job_exec_keeps, rule update_jobs_keeps)
    (auto simp: job_evolves_def same_request_def dest: Transition_sound)

lemma changeUpdateJob_keeps [simp]: "job_prog (changeUpdateJob i cl to rb actor ip now)"
  unfolding changeUpdateJob_def applyJobChange_def
  by (intro job_contract.keeps_dthen job_contract.keeps_dbind job_reads)
    (simp add: job_contract.keeps_guard job_contract.keeps_dthen job_contract.keeps_dbind)

lemma createUpdateJob_keeps [simp]: "job_prog (createUpdateJob j actor ip now)"
  unfolding createUpdateJob_def insertUpdateJob_def
  by (intro job_contract.keeps_dthen job_contract.keeps_dbind job_reads)
    (simp add: job_contract.keeps_guard job_contract.keeps_dthen job_contract.keeps_dbind split: sum.splits)

datatype job_op =
  OpCreateJob ClientUpdateJob string string time
| OpChangeJob string string JobState bool string string time

fun job_step :: "job_op \<Rightarrow> unit dbm" where
  "job_step (OpCreateJob j actor ip now) = CreateClientUpdateJob j actor ip now"
| "job_step (OpChangeJob i cl to rb actor ip now) = ChangeClientUpdateJob i cl to rb actor ip now"

lemma job_step_keeps: "job_prog (job_step op)"
  by (cases op)
    (simp_all add: CreateClientUpdateJob_def ChangeClientUpdateJob_def updateJobTransaction_def
      job_contract.keeps_tx')

section \<open>A job is dispatched once\<close>

text \<open>The observed step: the identifiers of the jobs that this operation dispatched.\<close>

definition dispatched_by :: "tables \<Rightarrow> tables \<Rightarrow> string list" where
  "dispatched_by t t' =
     [job_id j. j \<leftarrow> client_update_jobs t', job_state j = JobDispatched \<and>
        (\<exists>i \<in> set (client_update_jobs t). job_id i = job_id j \<and> job_state i = JobScheduled)]"

definition observed_step :: "job_op \<Rightarrow> world \<Rightarrow> string list \<times> world" where
  "observed_step op w = (case job_step op w of (r, w') \<Rightarrow> (dispatched_by (tb w) (tb w'), w'))"

definition job_started :: "world \<Rightarrow> string \<Rightarrow> bool" where
  "job_started w i \<longleftrightarrow> (\<exists>j \<in> set (client_update_jobs (tb w)). job_id j = i \<and> job_state j \<noteq> JobScheduled)"

lemma left_scheduled: "job_trans\<^sup>*\<^sup>* a b \<Longrightarrow> a \<noteq> JobScheduled \<Longrightarrow> b \<noteq> JobScheduled"
  using job_life.rank_star [of a b] by (cases a) auto

interpretation dispatch_once: single_use observed_step "\<lambda>op r i. i \<in> set r" job_started
    "\<lambda>w. ok_client_update_jobs (tb w)"
proof unfold_locales
  fix w op r w' i
  assume inv: "ok_client_update_jobs (tb w)" and obs: "observed_step op w = (r, w')"
  then obtain r0 where run: "job_step op w = (r0, w')" and r: "r = dispatched_by (tb w) (tb w')"
    by (auto simp: observed_step_def split: prod.splits)
  have ev: "jobs_evolve (tb w) (tb w')" by (rule keepsD [OF job_step_keeps inv run])
  then show "ok_client_update_jobs (tb w')" by (simp add: jobs_evolve_def)
  have g: "grows job_evolves (client_update_jobs (tb w)) (client_update_jobs (tb w'))"
    using ev by (simp add: jobs_evolve_def)
  show "job_started w' i" if started: "job_started w i"
  proof -
    from started obtain j where j: "j \<in> set (client_update_jobs (tb w))" "job_id j = i" "job_state j \<noteq> JobScheduled"
      by (auto simp: job_started_def)
    from grows_mem [OF g j(1)] obtain j' where "j' \<in> set (client_update_jobs (tb w'))" "job_evolves j j'"
      by blast
    with j left_scheduled show ?thesis
      unfolding job_started_def job_evolves_def by (intro bexI [of _ j']) auto
  qed
  assume "i \<in> set r"
  then obtain j k where j: "j \<in> set (client_update_jobs (tb w'))" "job_id j = i" "job_state j = JobDispatched"
    and k: "k \<in> set (client_update_jobs (tb w))" "job_id k = i" "job_state k = JobScheduled"
    by (auto simp: r dispatched_by_def split: if_splits)
  from j show "job_started w' i" unfolding job_started_def by (intro bexI [of _ j]) auto
  have d: "distinct (map job_id (client_update_jobs (tb w)))"
    using inv by (simp add: ok_client_update_jobs_def Let_def)
  show "\<not> job_started w i"
  proof
    assume "job_started w i"
    then obtain x where x: "x \<in> set (client_update_jobs (tb w))" "job_id x = i" "job_state x \<noteq> JobScheduled"
      by (auto simp: job_started_def)
    with distinct_map_eq [OF d x(1) k(1)] k show False by simp
  qed
qed

text \<open>
  C21: A job is dispatched at most once.  In every sequence of job operations, with every failure of
  the database, at most one of them moves a given job from scheduled to dispatched: a job is
  never requeued.
\<close>

theorem job_dispatched_once:
  assumes "ok_client_update_jobs (tb w)"
  shows "wins observed_step (\<lambda>op r i. i \<in> set r) ops w i \<le> 1"
  using assms by (rule dispatch_once.wins_at_most_once)


text \<open>The client and the job of the witnesses.\<close>

definition demo_job :: ClientUpdateJob where
  "demo_job = \<lparr>job_id = replicate 16 (CHR ''j''), job_client_id = ''ws-1'', job_release_id = replicate 16 (CHR ''r''),
     job_release_version = ''1.0.0'', job_package_sha256 = replicate 64 (CHR ''0''), job_not_before = 0,
     job_expires_at = 3600, job_maintenance = False, job_state = JobScheduled, job_rollback_available = False,
     job_created_at = 0, job_updated_at = 0\<rparr>"

definition demo_job_tables :: tables where
  "demo_job_tables = (case insert_client ''ws-1'' ''h'' 0 empty_tables of None \<Rightarrow> empty_tables
     | Some (t, _) \<Rightarrow> t\<lparr>clients := map (\<lambda>c. c\<lparr>cli_auth_mode := ''certificate_required''\<rparr>) (clients t)\<rparr>)"

definition demo_job_ops :: "job_op list" where
  "demo_job_ops = [OpCreateJob demo_job ''ada'' [] minute,
     OpChangeJob (job_id demo_job) ''ws-1'' JobDispatched False [] [] (2 * minute),
     OpChangeJob (job_id demo_job) ''ws-1'' JobDispatched False [] [] (3 * minute)]"

theorem job_dispatched_once_witness:
  "wins observed_step (\<lambda>op r i. i \<in> set r) demo_job_ops (calm_world demo_job_tables) (job_id demo_job) = 1"
proof -
  have "ok_client_update_jobs (tb (calm_world demo_job_tables))" by code_simp
  moreover have "wins observed_step (\<lambda>op r i. i \<in> set r) demo_job_ops (calm_world demo_job_tables) (job_id demo_job) \<noteq> 0"
    by code_simp
  ultimately show ?thesis
    using job_dispatched_once [of "calm_world demo_job_tables" demo_job_ops "job_id demo_job"] by simp
qed

section \<open>Conditions and effects of a transition\<close>

lemma insert_audit_jobs:
  "insert_audit a now t = Some (t', r) \<Longrightarrow>
   client_update_jobs t' = client_update_jobs t \<and> clients t' = clients t \<and>
   (\<exists>e. audit_log t' = audit_log t @ [e] \<and> aud_event_type e = aud_event_type a \<and> aud_details e = aud_details a)"
  by (auto simp: insert_audit_def Let_def split: if_splits)

lemma update_jobs_Some:
  "update_update_jobs P f stamp t = Some (t', n, i) \<Longrightarrow>
   client_update_jobs t' = update_where P f (client_update_jobs t) \<and> clients t' = clients t \<and>
   audit_log t' = audit_log t \<and> count_where P (client_update_jobs t) = n"
  by (auto simp: update_update_jobs_def Let_def split: if_splits)

lemma applyJobChange_returns:
  assumes "applyJobChange j i client to rollback actor ip now w = (Inr u, w')"
  shows "Transition (job_window j False) (job_state j) to now = None \<and>
    client_update_jobs (tb w') = update_where
      (\<lambda>x. job_id x = i \<and> job_client_id x = client \<and> job_state x = job_state j)
      (\<lambda>x. x\<lparr>job_state := to, job_rollback_available := rollback, job_updated_at := Unix now\<rparr>)
      (client_update_jobs (tb w)) \<and>
    (\<exists>e. audit_log (tb w') = audit_log (tb w) @ [e] \<and>
       aud_event_type e = ''client_update_'' @ JobState_text to \<and> aud_details e = ''job='' @ i) \<and>
    (to = JobDispatched \<longrightarrow> (\<exists>c \<in> set (clients (tb w)). cli_client_id c = client \<and> cli_enabled c \<and>
       cli_auth_mode c \<noteq> ''token_only''))"
proof -
  have ev: "aud_event_type (audit_event a b c d e f g) = a" "aud_details (audit_event a b c d e f g) = g"
    for a b c d e f g by (simp_all add: audit_event_def)
  from assms show ?thesis
    by (cases "to = JobDispatched")
      (auto simp: applyJobChange_def job_exec_def client_eligible_def db_simps ev
        dest!: update_jobs_Some insert_audit_jobs map_filter_Cons_mem)
qed

lemma ChangeClientUpdateJob_returns:
  assumes "ChangeClientUpdateJob i client to rollback actor ip now w = (Inr u, w')"
  obtains j w1 w2 where "j \<in> set (client_update_jobs (tb w))" "job_id j = i" "job_client_id j = client"
    "tb w1 = tb w" "tb w' = tb w2"
    "(if job_state j = to then ensure (\<not> job_rollback_available j \<noteq> rollback) (ErrText ''conflicting result'')
      else applyJobChange j i client to rollback actor ip now) w1 = (Inr u, w2)"
proof -
  from assms obtain w2 j xs where run: "w' = tick w2"
    "filter (\<lambda>j. job_id j = i \<and> job_client_id j = client) (client_update_jobs (tb w)) = j # xs"
    "(if job_state j = to then ensure (\<not> job_rollback_available j \<noteq> rollback) (ErrText ''conflicting result'')
      else applyJobChange j i client to rollback actor ip now) (tick (tick w)) = (Inr u, w2)"
    by (auto simp: ChangeClientUpdateJob_def updateJobTransaction_def changeUpdateJob_def
        tx_Inr dthen_Inr dbind_Inr ensure_Inr validateAuditIP_def query_row_Inr)
  with filter_eq_Cons_mem [OF run(2)] show thesis
    by (intro that [of j "tick (tick w)" w2]) auto
qed

text \<open>
  A successful report either repeats the state the job already has, with the same rollback flag,
  and changes nothing, or it is a permitted transition at that moment that changes exactly this
  job and writes one audit event for it.
\<close>

theorem job_change_audited:
  assumes "ChangeClientUpdateJob i client to rollback actor ip now w = (Inr (), w')"
  shows "\<exists>j \<in> set (client_update_jobs (tb w)). job_id j = i \<and> job_client_id j = client \<and>
    (if job_state j = to then job_rollback_available j = rollback \<and> tb w' = tb w
     else Transition (job_window j False) (job_state j) to now = None \<and>
       client_update_jobs (tb w') = update_where
         (\<lambda>x. job_id x = i \<and> job_client_id x = client \<and> job_state x = job_state j)
         (\<lambda>x. x\<lparr>job_state := to, job_rollback_available := rollback, job_updated_at := Unix now\<rparr>)
         (client_update_jobs (tb w)) \<and>
       (\<exists>e. audit_log (tb w') = audit_log (tb w) @ [e] \<and>
          aud_event_type e = ''client_update_'' @ JobState_text to \<and> aud_details e = ''job='' @ i))"
proof -
  from assms obtain j w1 w2 where j: "j \<in> set (client_update_jobs (tb w))" "job_id j = i" "job_client_id j = client"
    and w: "tb w1 = tb w" "tb w' = tb w2"
    and run: "(if job_state j = to then ensure (\<not> job_rollback_available j \<noteq> rollback) (ErrText ''conflicting result'')
      else applyJobChange j i client to rollback actor ip now) w1 = (Inr (), w2)"
    by (rule ChangeClientUpdateJob_returns)
  show ?thesis
  proof (cases "job_state j = to")
    case True
    with run w j show ?thesis by (intro bexI [of _ j]) (simp_all add: ensure_Inr)
  next
    case False
    with run have "applyJobChange j i client to rollback actor ip now w1 = (Inr (), w2)" by simp
    from applyJobChange_returns [OF this] False w j show ?thesis by (intro bexI [of _ j]) simp_all
  qed
qed

text \<open>
  C34: A scheduled job is started only inside its execution window and only for an enabled client
  that authenticates with a device certificate.
\<close>

theorem job_starts_inside_window:
  assumes "ok_client_update_jobs (tb w)"
    and "ChangeClientUpdateJob i client JobDispatched rollback actor ip now w = (Inr (), w')"
    and "j \<in> set (client_update_jobs (tb w))" "job_id j = i" "job_state j = JobScheduled"
  shows "fromUnix (job_not_before j) \<le> now \<and> now < fromUnix (job_expires_at j) \<and>
    (\<exists>c \<in> set (clients (tb w)). cli_client_id c = client \<and> cli_enabled c \<and> cli_auth_mode c \<noteq> ''token_only'')"
proof -
  from assms(2) obtain x w1 w2 where x: "x \<in> set (client_update_jobs (tb w))" "job_id x = i"
    and w: "tb w1 = tb w"
    and run: "(if job_state x = JobDispatched then ensure (\<not> job_rollback_available x \<noteq> rollback) (ErrText ''conflicting result'')
      else applyJobChange x i client JobDispatched rollback actor ip now) w1 = (Inr (), w2)"
    by (rule ChangeClientUpdateJob_returns)
  have "distinct (map job_id (client_update_jobs (tb w)))"
    using assms(1) by (simp add: ok_client_update_jobs_def Let_def)
  from distinct_map_eq [OF this x(1) assms(3)] x(2) assms(4) have "x = j" by simp
  with run assms(5) have "applyJobChange j i client JobDispatched rollback actor ip now w1 = (Inr (), w2)" by simp
  from applyJobChange_returns [OF this] assms(5) w show ?thesis
    by (simp add: Transition_def job_window_def split: if_splits)
qed


definition demo_job_world :: world where
  "demo_job_world = calm_world (demo_job_tables\<lparr>client_update_jobs := [demo_job]\<rparr>)"

lemma demo_dispatch:
  "ChangeClientUpdateJob (job_id demo_job) ''ws-1'' JobDispatched False [] [] minute demo_job_world =
   (Inr (), snd (ChangeClientUpdateJob (job_id demo_job) ''ws-1'' JobDispatched False [] [] minute demo_job_world))"
  unfolding prod_eq_iff by (rule conjI, code_simp, simp)

theorem job_change_audited_witness:
  "\<exists>e. audit_log (tb (snd (ChangeClientUpdateJob (job_id demo_job) ''ws-1'' JobDispatched False [] [] minute demo_job_world)))
     = audit_log (tb demo_job_world) @ [e] \<and> aud_event_type e = ''client_update_dispatched''"
proof -
  have "client_update_jobs (tb demo_job_world) = [demo_job]" "job_state demo_job = JobScheduled" by code_simp+
  with job_change_audited [OF demo_dispatch] show ?thesis by auto
qed

theorem job_starts_inside_window_witness:
  "fromUnix (job_not_before demo_job) \<le> minute \<and> minute < fromUnix (job_expires_at demo_job)"
proof -
  have "ok_client_update_jobs (tb demo_job_world)" by code_simp
  moreover have "demo_job \<in> set (client_update_jobs (tb demo_job_world))" "job_state demo_job = JobScheduled"
    by code_simp+
  ultimately show ?thesis using job_starts_inside_window [OF _ demo_dispatch] by blast
qed

section \<open>Repeated scheduling requests\<close>

text \<open>The checks a request has to pass before the store looks for an earlier one.\<close>

definition job_request_ok :: "ClientUpdateJob \<Rightarrow> string \<Rightarrow> string \<Rightarrow> time \<Rightarrow> tables \<Rightarrow> bool" where
  "job_request_ok j actor ip now t \<longleftrightarrow>
     ValidUpdateIdentifier (job_id j) \<and> ValidUpdateIdentifier (job_release_id j) \<and>
     length (job_client_id j) \<le> 64 \<and> job_client_id j \<noteq> [] \<and> length actor \<le> 128 \<and>
     (\<exists>digest. hex_decode (job_package_sha256 j) = Some digest \<and> length digest = 32) \<and>
     Validate (job_window j (job_maintenance j)) now False = None \<and> (ip = [] \<or> ParseIP ip) \<and>
     (\<exists>c cs. filter (\<lambda>c. cli_client_id c = job_client_id j) (clients t) = c # cs \<and> cli_enabled c \<and>
        cli_auth_mode c \<noteq> ''token_only'')"

text \<open>
  Scheduling is idempotent: a request whose identifier is already used never changes the
  database, and succeeds only if it is the same request in every field; and the same request
  does succeed again while it passes the checks and the database works.
\<close>

theorem repeated_schedule_is_noop:
  assumes "ok_client_update_jobs (tb w)" "old \<in> set (client_update_jobs (tb w))" "job_id old = job_id j"
    and run: "CreateClientUpdateJob j actor ip now w = (r, w')"
  shows "tb w' = tb w \<and> (r = Inr () \<longrightarrow> same_request old j) \<and>
    (fault_free w \<and> job_request_ok j actor ip now (tb w) \<and> same_request old j \<longrightarrow> r = Inr ())"
proof -
  have "distinct (map job_id (client_update_jobs (tb w)))"
    using assms(1) by (simp add: ok_client_update_jobs_def Let_def)
  from filter_key_single [OF this assms(2,3)]
  have rows: "filter (\<lambda>x. job_id x = job_id j) (client_update_jobs (tb w)) = [old]" .
  have ok: "tb w' = tb w \<and> same_request old j" if "r = Inr ()"
    using run rows unfolding that CreateClientUpdateJob_def updateJobTransaction_def createUpdateJob_def
    by (auto simp: dbind_def [of "attempt _"] attempt_query_found tx_Inr dthen_Inr ensure_Inr
        validateAuditIP_def client_eligible_def dbind_Inr [of "query_row _"] query_row_Inr split: if_splits)
  have "tb w' = tb w" if "r = Inl e" for e
    using run atomicD [OF tx_atomic] unfolding that CreateClientUpdateJob_def updateJobTransaction_def by blast
  moreover have "r = Inr ()" if "fault_free w" "job_request_ok j actor ip now (tb w)" "same_request old j"
    using run rows that
    by (auto simp: CreateClientUpdateJob_def updateJobTransaction_def createUpdateJob_def tx_def run_defs
        job_request_ok_def validateAuditIP_def client_eligible_def query_row_calm attempt_def
        split: prod.splits sum.splits if_splits list.splits)
  ultimately show ?thesis using ok by (cases r) auto
qed

theorem repeated_schedule_is_noop_witness:
  "tb (snd (CreateClientUpdateJob demo_job ''ada'' [] minute demo_job_world)) = tb demo_job_world \<and>
   fst (CreateClientUpdateJob demo_job ''ada'' [] minute demo_job_world) = Inr ()"
proof -
  have ok: "ok_client_update_jobs (tb demo_job_world)" "demo_job \<in> set (client_update_jobs (tb demo_job_world))"
    by code_simp+
  have run: "CreateClientUpdateJob demo_job ''ada'' [] minute demo_job_world =
    (Inr (), snd (CreateClientUpdateJob demo_job ''ada'' [] minute demo_job_world))"
    unfolding prod_eq_iff by (rule conjI, code_simp, simp)
  show ?thesis
    using repeated_schedule_is_noop [OF ok refl run] run by (metis fst_conv)
qed

end
