(* ===== verification/Client_Api.thy ===== *)
theory Client_Api
  imports Http Times Versions Device_Store Job_Store
begin

text \<open>
  The API for managed client computers: device identities from TLS
  (\<^verbatim>\<open>internal/deviceauth/certificate.go\<close>), status reports and their authentication
  (\<^verbatim>\<open>internal/server/clients.go\<close>), device certificates (\<^verbatim>\<open>internal/server/device_certificates.go\<close>)
  and update jobs (\<^verbatim>\<open>internal/server/client_update_jobs.go\<close>).

  Verification of the TLS peer is the framework's (\<^verbatim>\<open>certificates.VerifiedPeer\<close>), and parsing and
  signing of certificates is the X.509 library's: both are fields of the environment record.
\<close>

section \<open>Device identities\<close>

record peer_metadata =
  pm_URIs :: "string list"
  pm_DNSNames :: "string list"
  pm_EmailAddresses :: "string list"
  pm_IPAddresses :: "string list"
  pm_FingerprintSHA256 :: string
  pm_Serial :: string

record Identity =
  id_ClientID :: string
  id_FingerprintSHA256 :: string
  id_Serial :: string
  id_URISAN :: string

definition clientURIPrefix :: string where
  "clientURIPrefix = ''urn:stumpfworks:identity:client:''"

definition client_id_char :: "char \<Rightarrow> bool" where
  "client_id_char r \<longleftrightarrow> is_lower_alpha r \<or> is_upper_alpha r \<or> is_digit r \<or>
     r = CHR ''.'' \<or> r = CHR ''_'' \<or> r = CHR ''-''"

definition validDeviceClientID :: "string \<Rightarrow> bool" where
  "validDeviceClientID v \<longleftrightarrow> \<not> (length v < 1 \<or> length v > 64) \<and> (\<forall>r \<in> set v. client_id_char r)"

definition validClientID :: "string \<Rightarrow> bool" where
  "validClientID v \<longleftrightarrow> \<not> (length v < 1 \<or> length v > 64) \<and>
     (\<forall>r \<in> set v. r = CHR ''-'' \<or> r = CHR ''_'' \<or> r = CHR ''.'' \<or> is_lower_alpha r \<or> is_upper_alpha r \<or> is_digit r)"

type_synonym verified_peer = "tls_state option \<Rightarrow> time \<Rightarrow> peer_metadata option"

definition FromTLS :: "verified_peer \<Rightarrow> tls_state option \<Rightarrow> time \<Rightarrow> Identity option" where
  "FromTLS VerifiedPeer state now =
     (if (case state of Some st \<Rightarrow> (case PeerCertificates st of Some c # _ \<Rightarrow> None \<in> set (cert_URIs c) | _ \<Rightarrow> False)
          | None \<Rightarrow> False) then None
      else case VerifiedPeer state now of None \<Rightarrow> None
      | Some metadata \<Rightarrow>
          if length (pm_URIs metadata) \<noteq> 1 \<or> length (pm_DNSNames metadata) \<noteq> 0 \<or>
             length (pm_EmailAddresses metadata) \<noteq> 0 \<or> length (pm_IPAddresses metadata) \<noteq> 0 then None
          else (let uri = hd (pm_URIs metadata); clientID = TrimPrefix uri clientURIPrefix
                in if clientID = uri \<or> \<not> validDeviceClientID clientID \<or> uri \<noteq> clientURIPrefix @ clientID then None
                   else Some \<lparr>id_ClientID = clientID, id_FingerprintSHA256 = pm_FingerprintSHA256 metadata,
                          id_Serial = pm_Serial metadata, id_URISAN = uri\<rparr>))"

definition sameDeviceCredential :: "Identity \<Rightarrow> ClientDeviceCredential \<Rightarrow> bool" where
  "sameDeviceCredential identity credential =
     (case hex_decode (id_FingerprintSHA256 identity) of None \<Rightarrow> False
      | Some got \<Rightarrow>
          (case hex_decode (dc_fingerprint credential) of None \<Rightarrow> False
           | Some want \<Rightarrow> ConstantTimeCompare got want \<and> id_Serial identity = dc_serial credential \<and>
               id_URISAN identity = dc_uri_san credential))"

section \<open>Configuration\<close>

record ApprovedRelease =
  ar_ID :: string
  ar_SHA256 :: string
  ar_ReleaseVersion :: string
  ar_RequiresMaintenance :: bool
  ar_Package :: string

text \<open>The certificate template of \<^verbatim>\<open>issue\<close>, as far as it varies.\<close>

record cert_template =
  ct_SerialNumber :: nat
  ct_NotBefore :: time
  ct_NotAfter :: time
  ct_URI :: string

record 'csr device_issuer =
  is_caPEM :: string
  is_issuerID :: string
  is_lifetime :: duration
  is_CA_NotAfter :: time
  is_CreateCertificate :: "cert_template \<Rightarrow> 'csr \<Rightarrow> string option"

record 'csr api_env =
  env_VerifiedPeer :: verified_peer
  env_pem_Decode :: "string \<Rightarrow> (string \<times> string \<times> string) option"
  env_ParseCertificateRequest :: "string \<Rightarrow> 'csr option"
  env_CheckSignature :: "'csr \<Rightarrow> bool"
  env_isP256 :: "'csr \<Rightarrow> bool"
  env_deviceIssuer :: "'csr device_issuer option"
  env_updateCatalog :: "(string \<times> ApprovedRelease) list option"
  env_sessions :: "Sessions option"
  env_protect :: bool

definition catalog_lookup :: "'csr api_env \<Rightarrow> string \<Rightarrow> ApprovedRelease option" where
  "catalog_lookup env i = (case env_updateCatalog env of None \<Rightarrow> None | Some c \<Rightarrow> map_of c i)"

section \<open>Status reports\<close>

record ClientUpdateRequest =
  cu_Version :: string
  cu_Status :: string
  cu_UpdatedAt :: time
  cu_RollbackAvailable :: bool

record ClientStatusRequest =
  cs_ClientID :: string
  cs_Version :: string
  cs_NetworkStatus :: string
  cs_ADStatus :: string
  cs_CameraStatus :: string
  cs_KerberosStatus :: string
  cs_Update :: "ClientUpdateRequest option"

definition HashClientToken :: "string \<Rightarrow> string" where
  "HashClientToken token = hex_encode (sha256 token)"

definition validState :: "string \<Rightarrow> bool" where
  "validState v \<longleftrightarrow> v = ''unknown'' \<or> v = ''ok'' \<or> v = ''degraded'' \<or> v = ''unavailable''"

definition validClientUpdate :: "ClientUpdateRequest option \<Rightarrow> time \<Rightarrow> bool" where
  "validClientUpdate update now =
     (case update of None \<Rightarrow> True
      | Some u \<Rightarrow>
          if length (cu_Version u) > 64 \<or> cu_Status u \<noteq> ''success'' \<and> cu_Status u \<noteq> ''failed'' \<or> IsZero (cu_UpdatedAt u)
          then False
          else if parseSemanticVersion (cu_Version u) = None then False
          else \<not> cu_UpdatedAt u > now + 5 * minute \<and> \<not> cu_UpdatedAt u < AddYears (- 1) now)"

text \<open>The second half of the authentication: the bearer token.\<close>

definition bearer_valid :: "request \<Rightarrow> Client \<Rightarrow> bool" where
  "bearer_valid r client =
     (let auth = rq_Header r ''Authorization'' in
      if \<not> HasPrefix auth ''Bearer '' then False
      else let token = TrimSpace (TrimPrefix auth ''Bearer '') in
        if token = [] then False
        else case hex_decode (HashClientToken token) of None \<Rightarrow> False
          | Some got \<Rightarrow> (case hex_decode (cli_token_hash client) of None \<Rightarrow> False
                        | Some want \<Rightarrow> ConstantTimeCompare got want))"

definition certificate_presented :: "request \<Rightarrow> bool" where
  "certificate_presented r = (case rq_TLS r of None \<Rightarrow> False | Some st \<Rightarrow> PeerCertificates st \<noteq> [])"

definition authenticateClientStatus :: "'csr api_env \<Rightarrow> request \<Rightarrow> Client \<Rightarrow> time \<Rightarrow> (bool \<times> bool) dbm" where
  "authenticateClientStatus env r client now =
     (if cli_auth_mode client \<noteq> ''token_only'' \<and> certificate_presented r then
        (case FromTLS (env_VerifiedPeer env) (rq_TLS r) now of
           None \<Rightarrow> ret (False, False)
         | Some identity \<Rightarrow>
             if id_ClientID identity \<noteq> cli_client_id client then ret (False, False)
             else dbind (attempt (ActiveClientDeviceCredential (cli_client_id client) now)) (\<lambda>found.
               case found of
                 Inl _ \<Rightarrow> ret (False, False)
               | Inr credential \<Rightarrow>
                   if dc_serial credential \<noteq> id_Serial identity \<or> dc_uri_san credential \<noteq> id_URISAN identity
                   then ret (False, False)
                   else ret (case hex_decode (id_FingerprintSHA256 identity) of None \<Rightarrow> False
                     | Some got \<Rightarrow> (case hex_decode (dc_fingerprint credential) of None \<Rightarrow> False
                         | Some want \<Rightarrow> ConstantTimeCompare got want), False)))
      else if cli_auth_mode client = ''certificate_required'' then ret (False, False)
      else let valid = bearer_valid r client in
        ret (valid, valid \<and> cli_auth_mode client = ''certificate_preferred''))"

definition clientStatus :: "'csr api_env \<Rightarrow> request \<Rightarrow> ClientStatusRequest option \<Rightarrow> unit handler" where
  "clientStatus env r body =
     (case body of None \<Rightarrow> reply (Problem 400 ''invalid_client_status'')
      | Some inp \<Rightarrow> with_now (\<lambda>now0.
          if \<not> validClientID (cs_ClientID inp) \<or> length (cs_Version inp) > 64 \<or> \<not> validState (cs_NetworkStatus inp) \<or>
             \<not> validState (cs_ADStatus inp) \<or> \<not> validState (cs_CameraStatus inp) \<or>
             \<not> validState (cs_KerberosStatus inp) \<or> \<not> validClientUpdate (cs_Update inp) now0
          then reply (Problem 400 ''invalid_client_status'')
          else call (ClientByID (cs_ClientID inp)) (\<lambda>_. reply (Problem 401 ''invalid_client_credentials'')) (\<lambda>c.
            with_now (\<lambda>now. call (authenticateClientStatus env r c now)
              (\<lambda>_. reply (Problem 401 ''invalid_client_credentials'')) (\<lambda>(authenticated, tokenFallback).
              if \<not> authenticated then reply (Problem 401 ''invalid_client_credentials'')
              else if \<not> cli_enabled c then reply (Problem 403 ''client_disabled'')
              else let update = map_option (\<lambda>u. \<lparr>ClientUpdate_Version = cu_Version u, ClientUpdate_Status = cu_Status u,
                       ClientUpdate_UpdatedAt = cu_UpdatedAt u, ClientUpdate_RollbackAvailable = cu_RollbackAvailable u\<rparr>)
                       (cs_Update inp)
                in call (if tokenFallback
                     then UpdateClientStatusWithUpdateAndTokenFallbackAudit (cs_ClientID inp) (cs_Version inp)
                       (cs_NetworkStatus inp) (cs_ADStatus inp) (cs_CameraStatus inp) (cs_KerberosStatus inp) update (remoteIP r)
                     else UpdateClientStatusWithUpdate (cs_ClientID inp) (cs_Version inp)
                       (cs_NetworkStatus inp) (cs_ADStatus inp) (cs_CameraStatus inp) (cs_KerberosStatus inp) update)
                   (\<lambda>_. reply (Problem 500 ''status_update_failed'')) (\<lambda>_. reply NoContent))))))"

section \<open>Update jobs\<close>

definition administrativeCookieToken :: "request \<Rightarrow> string" where
  "administrativeCookieToken r =
     (case filter (\<lambda>v. v \<noteq> []) (List.map_filter (Cookie r) [''swbadge_admin'', ''swbadge_emergency_admin'']) of
        [] \<Rightarrow> [] | v # _ \<Rightarrow> v)"

definition updateActor :: "'csr api_env \<Rightarrow> request \<Rightarrow> time \<Rightarrow> string" where
  "updateActor env r now =
     (case env_sessions env of None \<Rightarrow> ''emergency-admin''
      | Some s \<Rightarrow> (case VerifyFor s (administrativeCookieToken r) ''admin'' now of
                     Inr u \<Rightarrow> u | Inl _ \<Rightarrow> ''emergency-admin''))"

definition schedule_fields :: "string list" where
  "schedule_fields = [''_csrf'', ''id'', ''client_id'', ''release_id'', ''not_before'', ''expires_at'', ''maintenance'']"

definition scheduleClientUpdate :: "'csr api_env \<Rightarrow> request \<Rightarrow> unit handler" where
  "scheduleClientUpdate env r =
     (if \<not> env_protect env \<or> env_updateCatalog env = None then reply (Problem 403 ''updates_disabled'')
      else if \<not> rq_ParseForm_ok r \<or> rq_Query r \<noteq> [] then reply (Problem 400 ''invalid_update_job'')
      else if \<exists>(k, v) \<in> set (rq_PostForm r). k \<notin> set schedule_fields \<or> length v \<noteq> 1
        then reply (Problem 400 ''invalid_update_job'')
      else let get = values_get (rq_PostForm r) in
        case catalog_lookup env (get ''release_id'') of
          None \<Rightarrow> reply (Problem 400 ''release_not_approved'')
        | Some release \<Rightarrow>
            let start = ParseRFC3339 (get ''not_before''); fin = ParseRFC3339 (get ''expires_at'');
                maintenance = get ''maintenance'';
                window = \<lparr>NotBefore = (case start of None \<Rightarrow> zero_time | Some t \<Rightarrow> t), ExpiresAt = (case fin of None \<Rightarrow> zero_time | Some t \<Rightarrow> t),
                          LightDMMaintenance = (maintenance = ''confirmed'')\<rparr>
            in with_now (\<lambda>now.
               if start = None \<or> fin = None \<or> maintenance \<noteq> [] \<and> maintenance \<noteq> ''confirmed'' \<or>
                  Validate window now (ar_RequiresMaintenance release) \<noteq> None \<or> \<not> validClientID (get ''client_id'')
               then reply (Problem 400 ''invalid_execution_window'')
               else let j = \<lparr>job_id = get ''id'', job_client_id = get ''client_id'', job_release_id = ar_ID release,
                          job_release_version = ar_ReleaseVersion release, job_package_sha256 = ar_SHA256 release,
                          job_not_before = Unix (NotBefore window), job_expires_at = Unix (ExpiresAt window),
                          job_maintenance = LightDMMaintenance window, job_state = JobScheduled,
                          job_rollback_available = False, job_created_at = 0, job_updated_at = 0\<rparr>
                in with_now (\<lambda>now1. with_now (\<lambda>now2.
                     call (CreateClientUpdateJob j (updateActor env r now1) (remoteIP r) now2)
                       (\<lambda>_. reply (Problem 409 ''update_job_not_created''))
                       (\<lambda>_. reply (Redirect ''/client-updates''))))))"

definition cancelClientUpdate :: "'csr api_env \<Rightarrow> request \<Rightarrow> unit handler" where
  "cancelClientUpdate env r =
     (if \<not> env_protect env then reply (Problem 403 ''updates_disabled'')
      else if \<not> rq_ParseForm_ok r \<or> rq_Query r \<noteq> [] then reply (Problem 400 ''invalid_update_cancellation'')
      else if \<exists>(k, v) \<in> set (rq_PostForm r). k \<noteq> ''_csrf'' \<or> length v \<noteq> 1
        then reply (Problem 400 ''invalid_update_cancellation'')
      else call (ClientUpdateJobByID (rq_PathValue_id r)) (\<lambda>_. reply (Problem 404 ''update_not_found'')) (\<lambda>j.
        with_now (\<lambda>now1. with_now (\<lambda>now2.
          call (ChangeClientUpdateJob (job_id j) (job_client_id j) JobCancelled False (updateActor env r now1)
                  (remoteIP r) now2)
            (\<lambda>_. reply (Problem 409 ''update_not_cancelable'')) (\<lambda>_. reply (Redirect ''/client-updates''))))))"

text \<open>\<^verbatim>\<open>updateDevice\<close> and \<^verbatim>\<open>deviceJob\<close> answer the request themselves when they fail.\<close>

definition updateDevice :: "'csr api_env \<Rightarrow> request \<Rightarrow> (Client \<Rightarrow> 'b handler) \<Rightarrow> 'b handler" where
  "updateDevice env r k =
     with_now (\<lambda>now0. case FromTLS (env_VerifiedPeer env) (rq_TLS r) now0 of
        None \<Rightarrow> reply (Problem 401 ''invalid_client_credentials'')
      | Some identity \<Rightarrow>
          call (ClientByID (id_ClientID identity)) (\<lambda>_. reply (Problem 401 ''invalid_client_credentials'')) (\<lambda>c.
            if \<not> cli_enabled c \<or> cli_auth_mode c = ''token_only'' then reply (Problem 401 ''invalid_client_credentials'')
            else with_now (\<lambda>now. call (authenticateClientStatus env r c now)
              (\<lambda>_. reply (Problem 401 ''invalid_client_credentials'')) (\<lambda>(ok, fallback).
              if \<not> ok \<or> fallback then reply (Problem 401 ''invalid_client_credentials'') else k c))))"

definition approvedJob :: "'csr api_env \<Rightarrow> ClientUpdateJob \<Rightarrow> ApprovedRelease option" where
  "approvedJob env j =
     (case catalog_lookup env (job_release_id j) of None \<Rightarrow> None
      | Some v \<Rightarrow> if ar_SHA256 v = job_package_sha256 j \<and> ar_ReleaseVersion v = job_release_version j \<and>
                    (\<not> ar_RequiresMaintenance v \<or> job_maintenance j) then Some v else None)"

definition deviceJob :: "'csr api_env \<Rightarrow> request \<Rightarrow> (ClientUpdateJob \<Rightarrow> 'b handler) \<Rightarrow> 'b handler" where
  "deviceJob env r k =
     updateDevice env r (\<lambda>c.
       call (ClientUpdateJobByID (rq_PathValue_id r)) (\<lambda>_. reply (Problem 404 ''update_not_found'')) (\<lambda>j.
         if job_client_id j \<noteq> cli_client_id c then reply (Problem 404 ''update_not_found'') else k j))"

text \<open>The loop of the poll: expired jobs are closed, the first due job is answered.\<close>

fun poll_jobs :: "'csr api_env \<Rightarrow> string \<Rightarrow> string \<Rightarrow> time \<Rightarrow> ClientUpdateJob list \<Rightarrow> ClientUpdateJob handler" where
  "poll_jobs env client ip now [] = reply NoContent"
| "poll_jobs env client ip now (j # js) =
     (if job_state j = JobScheduled \<and> Unix now \<ge> job_expires_at j then
        call (ChangeClientUpdateJob (job_id j) client JobExpired False [] ip now)
          (\<lambda>_. reply (Problem 409 ''job_transition_failed'')) (\<lambda>_. poll_jobs env client ip now js)
      else if job_state j = JobDispatched \<or> job_state j = JobScheduled \<and> Unix now \<ge> job_not_before j then
        (if approvedJob env j = None then reply (Problem 409 ''release_approval_unavailable'') else reply (Json 200 j))
      else poll_jobs env client ip now js)"

definition pollClientUpdate :: "'csr api_env \<Rightarrow> request \<Rightarrow> ClientUpdateJob handler" where
  "pollClientUpdate env r =
     updateDevice env r (\<lambda>c.
       call (ClientUpdateJobs (cli_client_id c)) (\<lambda>_. reply (Problem 500 ''update_jobs_unavailable'')) (\<lambda>jobs.
         with_now (\<lambda>now. poll_jobs env (cli_client_id c) (remoteIP r) now jobs)))"

definition startClientUpdate :: "'csr api_env \<Rightarrow> request \<Rightarrow> unit handler" where
  "startClientUpdate env r =
     deviceJob env r (\<lambda>j.
       if approvedJob env j = None then reply (Problem 409 ''release_approval_unavailable'')
       else with_now (\<lambda>now.
         call (ChangeClientUpdateJob (job_id j) (job_client_id j) JobDispatched False [] (remoteIP r) now)
           (\<lambda>_. reply (Problem 409 ''update_not_executable'')) (\<lambda>_. reply NoContent)))"

text \<open>The decoded result body: the reported state and whether a rollback is available.\<close>

definition finishClientUpdate :: "'csr api_env \<Rightarrow> request \<Rightarrow> (JobState \<times> bool) option \<Rightarrow> unit handler" where
  "finishClientUpdate env r result =
     deviceJob env r (\<lambda>j.
       case result of None \<Rightarrow> reply (Problem 400 ''invalid_update_result'')
       | Some (state, rollback) \<Rightarrow>
           if state \<noteq> JobSucceeded \<and> state \<noteq> JobFailed then reply (Problem 400 ''invalid_update_result'')
           else with_now (\<lambda>now.
             call (ChangeClientUpdateJob (job_id j) (job_client_id j) state rollback [] (remoteIP r) now)
               (\<lambda>_. reply (Problem 409 ''update_result_conflict'')) (\<lambda>_. reply NoContent)))"

definition downloadClientUpdate :: "'csr api_env \<Rightarrow> request \<Rightarrow> string handler" where
  "downloadClientUpdate env r =
     deviceJob env r (\<lambda>j. with_now (\<lambda>now.
       case approvedJob env j of
         None \<Rightarrow> reply (Problem 409 ''package_unavailable'')
       | Some release \<Rightarrow>
           if job_state j \<noteq> JobScheduled \<and> job_state j \<noteq> JobDispatched \<or> Unix now \<ge> job_expires_at j
           then reply (Problem 409 ''package_unavailable'')
           else reply (Json 200 (ar_Package release))))"

section \<open>Device certificates\<close>

record deviceEnrollmentRequest =
  er_ClientID :: string
  er_Token :: string
  er_CSR :: string

record deviceCertificateResponse =
  cr_Certificate :: "string \<times> string"
  cr_CA :: string
  cr_ExpiresAt :: time

definition parseDeviceCSR :: "'csr api_env \<Rightarrow> string \<Rightarrow> 'csr option" where
  "parseDeviceCSR env v =
     (case env_pem_Decode env v of None \<Rightarrow> None
      | Some (type, bytes, rest) \<Rightarrow>
          if type \<noteq> ''CERTIFICATE REQUEST'' \<or> length rest \<noteq> 0 then None
          else case env_ParseCertificateRequest env bytes of None \<Rightarrow> None
            | Some csr \<Rightarrow> if \<not> env_CheckSignature env csr then None
                         else if \<not> env_isP256 env csr then None else Some csr)"

definition be_nat :: "string \<Rightarrow> nat" where
  "be_nat bs = foldl (\<lambda>n c. 256 * n + of_char c) 0 bs"

fun show_hex :: "nat \<Rightarrow> string" where
  "show_hex n = (if n < 16 then [hex_digits ! n] else show_hex (n div 16) @ [hex_digits ! (n mod 16)])"

declare show_hex.simps [simp del]

text \<open>
  \<^verbatim>\<open>issue\<close>: \<^verbatim>\<open>rand.Int\<close> below \<^verbatim>\<open>1<<128\<close> reads sixteen bytes, big-endian.  The certificate is
  returned as the type and content of its PEM block.
\<close>

definition issue :: "'csr device_issuer \<Rightarrow> string \<Rightarrow> 'csr \<Rightarrow> time \<Rightarrow> ((string \<times> string) \<times> ClientDeviceCredential) dbm" where
  "issue i clientID csr now =
     dbind rand_m (\<lambda>serialBytes. let serial = be_nat (take 16 serialBytes) in
     dthen (ensure (\<not> serial = 0) (ErrText ''device serial generation failed''))
     (dbind rand_m (\<lambda>credentialBytes.
       let identityURI = clientURIPrefix @ clientID; expires = min (now + is_lifetime i) (is_CA_NotAfter i) in
       dthen (ensure (expires > now) (ErrText ''device CA is expired''))
       (let template = \<lparr>ct_SerialNumber = serial, ct_NotBefore = now - 30 * second, ct_NotAfter = expires,
                       ct_URI = identityURI\<rparr> in
        case is_CreateCertificate i template csr of
          None \<Rightarrow> throw (ErrText ''certificate'')
        | Some der \<Rightarrow> ret ((''CERTIFICATE'', der),
            \<lparr>dc_id = hex_encode credentialBytes, dc_client_id = clientID, dc_fingerprint = hex_encode (sha256 der),
             dc_serial = show_hex serial, dc_uri_san = identityURI, dc_algorithm = ''ECDSA-P256'',
             dc_issuer_id = is_issuerID i, dc_issued_at = now - 30 * second, dc_expires_at = expires,
             dc_status = CredPending, dc_supersedes_id = None, dc_revoked_at = None, dc_created_at = zero_time,
             dc_updated_at = zero_time\<rparr>)))))"

definition enrollClientDeviceCertificate ::
  "'csr api_env \<Rightarrow> request \<Rightarrow> deviceEnrollmentRequest option \<Rightarrow> deviceCertificateResponse handler" where
  "enrollClientDeviceCertificate env r body =
     (case env_deviceIssuer env of None \<Rightarrow> reply (Problem 404 ''not_found'')
      | Some issuer \<Rightarrow>
          (case body of None \<Rightarrow> reply (Problem 400 ''invalid_device_enrollment'')
           | Some rq \<Rightarrow>
               if \<not> validClientID (er_ClientID rq) \<or> length (er_Token rq) < 32 \<or> length (er_Token rq) > 256 \<or>
                  int (length (er_CSR rq)) > 16384 then reply (Problem 400 ''invalid_device_enrollment'')
               else case parseDeviceCSR env (er_CSR rq) of
                 None \<Rightarrow> reply (Problem 400 ''invalid_device_enrollment'')
               | Some csr \<Rightarrow> with_now (\<lambda>now.
                   let tokenHash = hex_encode (sha256 (er_Token rq)) in
                   call (ValidClientEnrollmentToken (er_ClientID rq) tokenHash now)
                     (\<lambda>_. reply (Problem 401 ''invalid_device_enrollment'')) (\<lambda>valid.
                     if \<not> valid then reply (Problem 401 ''invalid_device_enrollment'')
                     else call (issue issuer (er_ClientID rq) csr now)
                       (\<lambda>_. reply (Problem 500 ''device_enrollment_failed'')) (\<lambda>(certificatePEM, credential).
                       call (EnrollClientDeviceCredentialWithAudit tokenHash now credential (remoteIP r))
                         (\<lambda>_. reply (Problem 401 ''invalid_device_enrollment''))
                         (\<lambda>_. reply (Json 200 \<lparr>cr_Certificate = certificatePEM, cr_CA = is_caPEM issuer,
                            cr_ExpiresAt = dc_expires_at credential\<rparr>)))))))"

definition renewClientDeviceCertificate ::
  "'csr api_env \<Rightarrow> request \<Rightarrow> string option \<Rightarrow> deviceCertificateResponse handler" where
  "renewClientDeviceCertificate env r body =
     (case env_deviceIssuer env of None \<Rightarrow> reply (Problem 404 ''not_found'')
      | Some issuer \<Rightarrow> with_now (\<lambda>now0.
          case FromTLS (env_VerifiedPeer env) (rq_TLS r) now0 of
            None \<Rightarrow> reply (Problem 401 ''invalid_client_credentials'')
          | Some identity \<Rightarrow> with_now (\<lambda>now1.
              call (ActiveClientDeviceCredential (id_ClientID identity) now1)
                (\<lambda>_. reply (Problem 401 ''invalid_client_credentials'')) (\<lambda>current.
                if \<not> sameDeviceCredential identity current then reply (Problem 401 ''invalid_client_credentials'')
                else case body of None \<Rightarrow> reply (Problem 400 ''invalid_device_renewal'')
                  | Some csrText \<Rightarrow>
                      if int (length csrText) > 16384 then reply (Problem 400 ''invalid_device_renewal'')
                      else case parseDeviceCSR env csrText of None \<Rightarrow> reply (Problem 400 ''invalid_device_renewal'')
                      | Some csr \<Rightarrow> with_now (\<lambda>now2.
                          call (issue issuer (id_ClientID identity) csr now2)
                            (\<lambda>_. reply (Problem 500 ''device_renewal_failed'')) (\<lambda>(certificatePEM, replacement).
                            with_now (\<lambda>now3.
                              call (StageClientDeviceCredentialRenewalWithAudit (dc_id current) now3 replacement (remoteIP r))
                                (\<lambda>_. reply (Problem 409 ''device_renewal_failed''))
                                (\<lambda>_. reply (Json 200 \<lparr>cr_Certificate = certificatePEM, cr_CA = is_caPEM issuer,
                                   cr_ExpiresAt = dc_expires_at replacement\<rparr>)))))))))"

definition activateClientDeviceCertificate :: "'csr api_env \<Rightarrow> request \<Rightarrow> unit handler" where
  "activateClientDeviceCertificate env r =
     with_now (\<lambda>now. case FromTLS (env_VerifiedPeer env) (rq_TLS r) now of
        None \<Rightarrow> reply (Problem 401 ''invalid_client_credentials'')
      | Some identity \<Rightarrow>
          call (PendingClientDeviceCredential (id_ClientID identity) now)
            (\<lambda>_. reply (Problem 401 ''invalid_client_credentials'')) (\<lambda>pending.
            if \<not> sameDeviceCredential identity pending then reply (Problem 401 ''invalid_client_credentials'')
            else call (ClientByID (id_ClientID identity)) (\<lambda>_. reply (Problem 401 ''invalid_client_credentials'')) (\<lambda>client.
              if \<not> cli_enabled client then reply (Problem 401 ''invalid_client_credentials'')
              else call (ActivateClientDeviceCredentialWithAudit (id_ClientID identity) (dc_id pending) (remoteIP r) now)
                (\<lambda>_. reply (Problem 409 ''device_activation_failed'')) (\<lambda>_. reply NoContent))))"

end
