(* ===== verification/Device_Lifecycle.thy ===== *)
theory Device_Lifecycle
  imports Device_Store
begin

text \<open>
  The lifecycle of a device credential, the contract of the client tables, its preservation by
  every operation, and the guarantees that follow from it.
\<close>

section \<open>Lifecycle of a credential\<close>

inductive cred_trans :: "CredentialStatus \<Rightarrow> CredentialStatus \<Rightarrow> bool" where
  stay: "cred_trans s s"
| leave_pending: "cred_trans CredPending s"
| supersede: "cred_trans CredActive CredSuperseded"
| revoke: "cred_trans CredActive CredRevoked"

inductive_simps cred_trans_simps [simp]:
  "cred_trans CredPending s" "cred_trans CredActive s" "cred_trans CredSuperseded s"
  "cred_trans CredRevoked s"

fun cred_rank :: "CredentialStatus \<Rightarrow> nat" where
  "cred_rank CredPending = 0"
| "cred_rank CredActive = 1"
| "cred_rank CredSuperseded = 2"
| "cred_rank CredRevoked = 2"

interpretation cred_life: lifecycle cred_trans cred_rank "\<lambda>s. s = CredSuperseded \<or> s = CredRevoked"
proof unfold_locales
  fix a b
  show "cred_trans a b \<Longrightarrow> a \<noteq> b \<Longrightarrow> cred_rank a < cred_rank b"
    by (cases a; cases b) auto
  show "a = CredSuperseded \<or> a = CredRevoked \<Longrightarrow> cred_trans a b \<Longrightarrow> b = a"
    by auto
qed

lemma cred_trans_trans: "cred_trans a b \<Longrightarrow> cred_trans b c \<Longrightarrow> cred_trans a c"
  by (cases a; cases b) auto

section \<open>Invariant and evolution of the tables\<close>

definition cred_evolves :: "ClientDeviceCredential \<Rightarrow> ClientDeviceCredential \<Rightarrow> bool" where
  "cred_evolves c c' \<longleftrightarrow>
     c' = c\<lparr>dc_status := dc_status c', dc_revoked_at := dc_revoked_at c', dc_updated_at := dc_updated_at c'\<rparr> \<and>
     cred_trans (dc_status c) (dc_status c')"

definition token_evolves :: "ClientEnrollmentToken \<Rightarrow> ClientEnrollmentToken \<Rightarrow> bool" where
  "token_evolves k k' \<longleftrightarrow> et_id k' = et_id k \<and> et_client_id k' = et_client_id k \<and>
     et_token_hash k' = et_token_hash k \<and> et_created_at k' = et_created_at k \<and>
     et_expires_at k' = et_expires_at k \<and> et_revoked_at k' = et_revoked_at k \<and>
     (et_consumed_at k \<noteq> None \<longrightarrow> et_consumed_at k' = et_consumed_at k)"

definition client_evolves :: "Client \<Rightarrow> Client \<Rightarrow> bool" where
  "client_evolves c c' \<longleftrightarrow> cli_id c' = cli_id c \<and> cli_client_id c' = cli_client_id c"

definition device_inv :: "tables \<Rightarrow> bool" where
  "device_inv t \<longleftrightarrow> ok_clients t \<and> ok_client_enrollment_tokens t \<and> ok_client_device_credentials t \<and>
     (\<forall>c \<in> set (client_device_credentials t). validateDeviceCredential c)"

definition devices_evolve :: "tables \<Rightarrow> tables \<Rightarrow> bool" where
  "devices_evolve t t' \<longleftrightarrow> device_inv t' \<and>
     grows client_evolves (clients t) (clients t') \<and>
     grows token_evolves (client_enrollment_tokens t) (client_enrollment_tokens t') \<and>
     grows cred_evolves (client_device_credentials t) (client_device_credentials t')"

lemma evolves_refl [simp]: "cred_evolves c c" "token_evolves k k" "client_evolves d d"
  by (simp_all add: cred_evolves_def token_evolves_def client_evolves_def cred_trans.stay)

lemma cred_evolves_fields:
  assumes "cred_evolves c c'"
  shows "dc_id c' = dc_id c" "dc_client_id c' = dc_client_id c" "dc_fingerprint c' = dc_fingerprint c"
    "dc_serial c' = dc_serial c" "dc_expires_at c' = dc_expires_at c" "dc_issued_at c' = dc_issued_at c"
    "validateDeviceCredential c' = validateDeviceCredential c" "cred_trans (dc_status c) (dc_status c')"
proof -
  from assms have eq: "c' = c\<lparr>dc_status := dc_status c', dc_revoked_at := dc_revoked_at c',
      dc_updated_at := dc_updated_at c'\<rparr>" and tr: "cred_trans (dc_status c) (dc_status c')"
    by (auto simp: cred_evolves_def)
  show "cred_trans (dc_status c) (dc_status c')" by (rule tr)
  show "dc_id c' = dc_id c" "dc_client_id c' = dc_client_id c" "dc_fingerprint c' = dc_fingerprint c"
    "dc_serial c' = dc_serial c" "dc_expires_at c' = dc_expires_at c" "dc_issued_at c' = dc_issued_at c"
    "validateDeviceCredential c' = validateDeviceCredential c"
    by (subst eq, simp add: validateDeviceCredential_def)+
qed

lemma cred_evolves_trans: "cred_evolves a b \<Longrightarrow> cred_evolves b c \<Longrightarrow> cred_evolves a c"
  by (cases a; cases b; cases c) (auto simp: cred_evolves_def intro: cred_trans_trans)

lemma token_evolves_trans: "token_evolves a b \<Longrightarrow> token_evolves b c \<Longrightarrow> token_evolves a c"
  by (auto simp: token_evolves_def)

lemma client_evolves_trans: "client_evolves a b \<Longrightarrow> client_evolves b c \<Longrightarrow> client_evolves a c"
  by (simp add: client_evolves_def)

interpretation device_contract: table_contract device_inv devices_evolve
  by unfold_locales
    (auto simp: devices_evolve_def intro: grows_refl grows_trans [OF cred_evolves_trans]
      grows_trans [OF token_evolves_trans] grows_trans [OF client_evolves_trans])

abbreviation device_stmt :: "stmt \<Rightarrow> bool" where
  "device_stmt \<equiv> keeps_stmt device_inv devices_evolve"

abbreviation device_prog :: "'a dbm \<Rightarrow> bool" where
  "device_prog \<equiv> keeps device_inv devices_evolve"

section \<open>Statements keep the contract\<close>

text \<open>Constraints that mention other tables survive when those tables only grow.\<close>

lemma ok_tokens_frame:
  "ok_client_enrollment_tokens t \<Longrightarrow> client_enrollment_tokens t' = client_enrollment_tokens t \<Longrightarrow>
   cli_client_id ` set (clients t) \<subseteq> cli_client_id ` set (clients t') \<Longrightarrow> ok_client_enrollment_tokens t'"
  by (auto simp: ok_client_enrollment_tokens_def)

lemma ok_creds_frame:
  "ok_client_device_credentials t \<Longrightarrow> client_device_credentials t' = client_device_credentials t \<Longrightarrow>
   cli_client_id ` set (clients t) \<subseteq> cli_client_id ` set (clients t') \<Longrightarrow> ok_client_device_credentials t'"
  by (auto simp: ok_client_device_credentials_def Let_def)

lemma ok_clients_frame: "ok_clients t \<Longrightarrow> clients t' = clients t \<Longrightarrow> ok_clients t'"
  by (simp add: ok_clients_def)

lemma insert_audit_keeps_devices: "device_stmt (insert_audit a)"
  by (rule keeps_stmtI)
    (auto simp: insert_audit_def Let_def devices_evolve_def device_inv_def
      intro!: grows_refl elim: ok_clients_frame ok_tokens_frame ok_creds_frame split: if_splits)

lemma insert_client_keeps: "device_stmt (insert_client c h)"
  by (rule keeps_stmtI)
    (auto simp: insert_client_def Let_def devices_evolve_def device_inv_def
      intro!: grows_refl grows_new elim: ok_clients_frame ok_tokens_frame ok_creds_frame split: if_splits)

lemma update_clients_keeps:
  assumes f: "\<And>now c. cli_id (f now c) = cli_id c" "\<And>now c. cli_client_id (f now c) = cli_client_id c"
  shows "device_stmt (update_clients P f)"
proof (rule keeps_stmtI)
  fix now t t' r
  assume inv: "device_inv t" and run: "update_clients P f now t = Some (t', r)"
  then have t': "t' = t\<lparr>clients := update_where P (f now) (clients t)\<rparr>" "ok_clients t'"
    by (auto simp: update_clients_def Let_def split: if_splits)
  have "map cli_client_id (clients t') = map cli_client_id (clients t)"
    unfolding t' using f by (simp add: map_update_where)
  then have "cli_client_id ` set (clients t) \<subseteq> cli_client_id ` set (clients t')"
    by (metis order_refl set_map)
  moreover have "client_enrollment_tokens t' = client_enrollment_tokens t"
    "client_device_credentials t' = client_device_credentials t" by (simp_all add: t')
  ultimately have "device_inv t'"
    using inv t'(2) ok_tokens_frame [of t t'] ok_creds_frame [of t t'] unfolding device_inv_def by simp
  with f t' show "devices_evolve t t'"
    by (auto simp: devices_evolve_def client_evolves_def intro!: grows_update grows_refl)
qed

lemma insert_token_keeps: "device_stmt (insert_enrollment_token k)"
  by (rule keeps_stmtI)
    (auto simp: insert_enrollment_token_def Let_def devices_evolve_def device_inv_def
      intro!: grows_refl grows_new elim: ok_clients_frame ok_creds_frame split: if_splits)

lemma consume_token_keeps: "device_stmt (consume_enrollment_token h c now)"
  by (rule keeps_stmtI)
    (auto simp: consume_enrollment_token_def Let_def devices_evolve_def device_inv_def token_evolves_def
      intro!: grows_update grows_refl elim: ok_clients_frame ok_creds_frame split: if_splits)

lemma insert_credential_keeps:
  "validateDeviceCredential c \<Longrightarrow> device_stmt (insert_device_credential c old now)"
  by (rule keeps_stmtI)
    (auto simp: insert_device_credential_def Let_def devices_evolve_def device_inv_def
      validateDeviceCredential_def
      intro!: grows_refl grows_new elim: ok_clients_frame ok_tokens_frame split: if_splits)

lemma update_credentials_keeps:
  assumes f: "\<And>c. P c \<Longrightarrow> cred_evolves c (f c)"
  shows "device_stmt (update_device_credentials P f)"
proof (rule keeps_stmtI)
  fix stamp t t' r
  assume inv: "device_inv t" and run: "update_device_credentials P f stamp t = Some (t', r)"
  then have t': "t' = t\<lparr>client_device_credentials := update_where P f (client_device_credentials t)\<rparr>"
      "ok_client_device_credentials t'"
    by (auto simp: update_device_credentials_def Let_def split: if_splits)
  have "\<forall>c \<in> set (client_device_credentials t'). validateDeviceCredential c"
    using inv f cred_evolves_fields(7) unfolding t' by (auto simp: device_inv_def set_update_where)
  with inv t' have "device_inv t'"
    by (auto simp: device_inv_def elim: ok_clients_frame ok_tokens_frame)
  with f t' show "devices_evolve t t'"
    by (auto simp: devices_evolve_def intro!: grows_update grows_refl)
qed

section \<open>Every operation keeps the contract\<close>

datatype device_op =
  OpCreateClient string string
| OpCreateClientWithAudit string string string
| OpUpdateClientStatus string string string string string string
| OpUpdateClientStatusWithUpdate string string string string string string "ClientUpdate option"
| OpUpdateClientStatusFallback string string string string string string "ClientUpdate option" string
| OpRotateClientToken string string
| OpRotateClientTokenWithAudit string string string
| OpSetClientEnabled string bool
| OpSetClientEnabledWithAudit string bool string
| OpStageRenewal string time ClientDeviceCredential string
| OpCreateEnrollmentToken ClientEnrollmentToken string
| OpEnroll string time ClientDeviceCredential string
| OpActivateCredential string string string time
| OpRevokeCredential string string string time
| OpSetAuthenticationMode string string string time

fun device_step :: "device_op \<Rightarrow> unit dbm" where
  "device_step (OpCreateClient c h) = discard (CreateClient c h)"
| "device_step (OpCreateClientWithAudit c h ip) = discard (CreateClientWithAudit c h ip)"
| "device_step (OpUpdateClientStatus c v n a m k) = UpdateClientStatus c v n a m k"
| "device_step (OpUpdateClientStatusWithUpdate c v n a m k u) = UpdateClientStatusWithUpdate c v n a m k u"
| "device_step (OpUpdateClientStatusFallback c v n a m k u ip) =
     UpdateClientStatusWithUpdateAndTokenFallbackAudit c v n a m k u ip"
| "device_step (OpRotateClientToken c h) = RotateClientToken c h"
| "device_step (OpRotateClientTokenWithAudit c h ip) = RotateClientTokenWithAudit c h ip"
| "device_step (OpSetClientEnabled c e) = SetClientEnabled c e"
| "device_step (OpSetClientEnabledWithAudit c e ip) = SetClientEnabledWithAudit c e ip"
| "device_step (OpStageRenewal i now c ip) = StageClientDeviceCredentialRenewalWithAudit i now c ip"
| "device_step (OpCreateEnrollmentToken k ip) = CreateClientEnrollmentTokenWithAudit k ip"
| "device_step (OpEnroll h now c ip) = EnrollClientDeviceCredentialWithAudit h now c ip"
| "device_step (OpActivateCredential c i ip now) = ActivateClientDeviceCredentialWithAudit c i ip now"
| "device_step (OpRevokeCredential c i ip now) = RevokeClientDeviceCredentialWithAudit c i ip now"
| "device_step (OpSetAuthenticationMode c m ip now) = SetClientAuthenticationModeWithAudit c m ip now"

lemma device_reads [simp]:
  "device_prog (query_row q)" "device_prog (query_all q')" "device_prog (ensure c e)" "device_prog (ret a)"
  "device_prog (one_row r)" "device_prog (count_is q'' n)"
  by (auto simp: count_is_def intro!: device_contract.keeps_read_only atomic_intros)

lemma client_updates [simp]:
  "device_prog (exec (update_clients P (set_client_status v n a m k u)))"
  "device_prog (exec (update_clients P (\<lambda>now c. c\<lparr>cli_token_hash := h, cli_updated_at := now\<rparr>)))"
  "device_prog (exec (update_clients P (\<lambda>now c. c\<lparr>cli_enabled := e, cli_updated_at := now\<rparr>)))"
  "device_prog (exec (set_client_auth_mode i am tm))"
proof -
  have "device_stmt (set_client_auth_mode i am tm)"
  proof (rule keeps_stmtI)
    fix now t t' r
    assume "device_inv t" "set_client_auth_mode i am tm now t = Some (t', r)"
    then show "devices_evolve t t'"
      unfolding set_client_auth_mode_def
      by (rule keeps_stmtD [OF update_clients_keeps, rotated 2]) simp_all
  qed
  then show "device_prog (exec (set_client_auth_mode i am tm))" by (rule device_contract.keeps_exec)
qed (rule device_contract.keeps_exec, rule update_clients_keeps,
     simp_all add: set_client_status_def Let_def split: option.splits)+

lemma device_writes [simp]:
  "device_prog (exec (insert_audit a))" "device_prog (exec (insert_client c h))"
  "device_prog (exec (insert_enrollment_token k))" "device_prog (exec (consume_enrollment_token h c now))"
  "device_prog (exec (supersede_stale_pending c now))"
  by (auto simp: supersede_stale_pending_def cred_evolves_def
      intro!: device_contract.keeps_exec insert_audit_keeps_devices insert_client_keeps insert_token_keeps
        consume_token_keeps update_credentials_keeps)

lemma credential_updates [simp]:
  "device_prog (exec (update_device_credentials P (\<lambda>c. c\<lparr>dc_updated_at := now\<rparr>)))"
  "device_prog (exec (update_device_credentials
     (\<lambda>c. dc_id c = i \<and> dc_client_id c = cl \<and> dc_status c = CredActive)
     (\<lambda>c. c\<lparr>dc_status := CredSuperseded, dc_updated_at := now\<rparr>)))"
  "device_prog (exec (update_device_credentials
     (\<lambda>c. dc_id c = i \<and> dc_client_id c = cl \<and> dc_status c = CredPending)
     (\<lambda>c. c\<lparr>dc_status := CredActive, dc_updated_at := now\<rparr>)))"
  "device_prog (exec (update_device_credentials
     (\<lambda>c. dc_id c = i \<and> dc_client_id c = cl \<and> dc_status c = CredActive)
     (\<lambda>c. c\<lparr>dc_status := CredRevoked, dc_revoked_at := Some now, dc_updated_at := now\<rparr>)))"
  by (rule device_contract.keeps_exec, rule update_credentials_keeps,
      simp add: cred_evolves_def cred_trans.stay)+

lemma insert_credential_prog [simp]:
  "validateDeviceCredential c \<Longrightarrow> device_prog (exec (insert_device_credential c old now))"
  by (rule device_contract.keeps_exec, rule insert_credential_keeps)

lemma device_step_keeps: "device_prog (device_step op)"
  by (cases op)
    (simp_all add: discard_def CreateClient_def ClientByID_def CreateClientWithAudit_def UpdateClientStatus_def
      UpdateClientStatusWithUpdate_def UpdateClientStatusWithUpdateAndTokenFallbackAudit_def
      RotateClientToken_def RotateClientTokenWithAudit_def SetClientEnabled_def SetClientEnabledWithAudit_def
      updateClientWithAudit_def StageClientDeviceCredentialRenewalWithAudit_def
      CreateClientEnrollmentTokenWithAudit_def EnrollClientDeviceCredentialWithAudit_def
      ActivateClientDeviceCredentialWithAudit_def RevokeClientDeviceCredentialWithAudit_def
      SetClientAuthenticationModeWithAudit_def validateAuditIP_def device_contract.keeps_guard
      device_contract.keeps_dbind device_contract.keeps_dthen device_contract.keeps_tx'
      split: option.splits)

section \<open>Enrollment tokens work once\<close>

definition enrollment_spent :: "world \<Rightarrow> string \<Rightarrow> bool" where
  "enrollment_spent w h \<longleftrightarrow>
     (\<exists>k \<in> set (client_enrollment_tokens (tb w)). et_token_hash k = h \<and> et_consumed_at k \<noteq> None)"

definition enrollment_won :: "device_op \<Rightarrow> db_error + unit \<Rightarrow> string \<Rightarrow> bool" where
  "enrollment_won op r h = (case (op, r) of (OpEnroll h' now c ip, Inr _) \<Rightarrow> h' = h | _ \<Rightarrow> False)"

lemma count_is_Inr [db_simps]:
  "count_is q k w = (Inr u, w') \<longleftrightarrow> \<not> fault w (steps w) \<and> q (tb w) = k \<and> w' = tick w"
  by (auto simp: count_is_def db_simps)

lemma consume_token_Some:
  assumes "consume_enrollment_token h c now stamp t = Some (t', n, i)"
  shows "client_enrollment_tokens t' = update_where (\<lambda>k. et_token_hash k = h \<and> et_client_id k = c \<and>
      et_consumed_at k = None \<and> et_revoked_at k = None \<and> now \<le> et_expires_at k \<and>
      (\<exists>c' \<in> set (clients t). cli_client_id c' = c \<and> cli_enabled c'))
      (\<lambda>k. k\<lparr>et_consumed_at := Some now\<rparr>) (client_enrollment_tokens t) \<and>
    n = count_where (\<lambda>k. et_token_hash k = h \<and> et_client_id k = c \<and>
      et_consumed_at k = None \<and> et_revoked_at k = None \<and> now \<le> et_expires_at k \<and>
      (\<exists>c' \<in> set (clients t). cli_client_id c' = c \<and> cli_enabled c')) (client_enrollment_tokens t)"
  using assms by (auto simp: consume_enrollment_token_def Let_def split: if_splits)

lemma credential_stmts_keep_tokens:
  "update_device_credentials P f stamp t = Some (t', r) \<Longrightarrow> client_enrollment_tokens t' = client_enrollment_tokens t"
  "insert_device_credential c old now stamp t = Some (t', r) \<Longrightarrow> client_enrollment_tokens t' = client_enrollment_tokens t"
  "insert_audit a stamp t = Some (t', r) \<Longrightarrow> client_enrollment_tokens t' = client_enrollment_tokens t"
  by (auto simp: update_device_credentials_def insert_device_credential_def insert_audit_def Let_def split: if_splits)

lemma enroll_returns:
  assumes "EnrollClientDeviceCredentialWithAudit h now c ip w = (Inr u, w')"
  obtains k where "k \<in> set (client_enrollment_tokens (tb w))" "et_token_hash k = h"
    "et_client_id k = dc_client_id c" "et_consumed_at k = None" "et_revoked_at k = None" "now \<le> et_expires_at k"
    "\<exists>cl \<in> set (clients (tb w)). cli_client_id cl = dc_client_id c \<and> cli_enabled cl"
    "k\<lparr>et_consumed_at := Some now\<rparr> \<in> set (client_enrollment_tokens (tb w'))"
proof -
  let ?P = "\<lambda>k. et_token_hash k = h \<and> et_client_id k = dc_client_id c \<and>
      et_consumed_at k = None \<and> et_revoked_at k = None \<and> now \<le> et_expires_at k \<and>
      (\<exists>c' \<in> set (clients (tb w)). cli_client_id c' = dc_client_id c \<and> cli_enabled c')"
  from assms have toks: "client_enrollment_tokens (tb w') =
        update_where ?P (\<lambda>k. k\<lparr>et_consumed_at := Some now\<rparr>) (client_enrollment_tokens (tb w))"
    and n: "count_where ?P (client_enrollment_tokens (tb w)) = 1"
    by (auto simp: EnrollClientDeviceCredentialWithAudit_def supersede_stale_pending_def db_simps
        dest!: consume_token_Some credential_stmts_keep_tokens)
  from n obtain k where k: "k \<in> set (client_enrollment_tokens (tb w))" "?P k"
    using count_where_Suc_ex [of ?P "client_enrollment_tokens (tb w)" 0] by auto
  have "k\<lparr>et_consumed_at := Some now\<rparr> \<in> set (client_enrollment_tokens (tb w'))"
    unfolding toks using k by (rule update_where_mem)
  with k that show thesis by blast
qed

lemma device_step_evolves:
  "device_inv (tb w) \<Longrightarrow> device_step op w = (r, w') \<Longrightarrow> devices_evolve (tb w) (tb w')"
  by (rule keepsD [OF device_step_keeps])

interpretation enrollment_use: single_use device_step enrollment_won enrollment_spent "\<lambda>w. device_inv (tb w)"
proof unfold_locales
  fix w op r w' h
  assume inv: "device_inv (tb w)" and run: "device_step op w = (r, w')"
  note ev = device_step_evolves [OF inv run]
  then show "device_inv (tb w')" by (simp add: devices_evolve_def)
  have g: "grows token_evolves (client_enrollment_tokens (tb w)) (client_enrollment_tokens (tb w'))"
    using ev by (simp add: devices_evolve_def)
  show "enrollment_spent w' h" if spent: "enrollment_spent w h"
  proof -
    from spent obtain k where k: "k \<in> set (client_enrollment_tokens (tb w))" "et_token_hash k = h"
      "et_consumed_at k \<noteq> None" by (auto simp: enrollment_spent_def)
    from grows_mem [OF g k(1)] obtain k' where "k' \<in> set (client_enrollment_tokens (tb w'))"
      "token_evolves k k'" by blast
    with k show ?thesis
      unfolding enrollment_spent_def by (intro bexI [of _ k']) (simp_all add: token_evolves_def)
  qed
  assume "enrollment_won op r h"
  then obtain now c ip where op: "op = OpEnroll h now c ip" "r = Inr ()"
    by (auto simp: enrollment_won_def split: device_op.splits sum.splits)
  with run have e: "EnrollClientDeviceCredentialWithAudit h now c ip w = (Inr (), w')" by simp
  then show "enrollment_spent w' h"
    unfolding enrollment_spent_def by (rule enroll_returns) (erule bexI [rotated], simp)
  have d: "distinct (map et_token_hash (client_enrollment_tokens (tb w)))"
    using inv by (simp add: device_inv_def ok_client_enrollment_tokens_def)
  from e show "\<not> enrollment_spent w h"
    by (rule enroll_returns) (auto simp: enrollment_spent_def dest: distinct_map_eq [OF d])
qed

text \<open>
  C19: An enrollment token enrolls at most one device.  In every sequence of client operations, with
  every failure of the database, at most one enrollment with a given token hash succeeds.
\<close>

theorem enrollment_token_single_use:
  assumes "device_inv (tb w)"
  shows "wins device_step enrollment_won ops w tokenHash \<le> 1"
  using assms by (rule enrollment_use.wins_at_most_once)


text \<open>The client, token and credential of the witnesses.\<close>

definition demo_hash :: "char \<Rightarrow> string" where
  "demo_hash c = c # replicate 63 (CHR ''0'')"

definition demo_token :: ClientEnrollmentToken where
  "demo_token = \<lparr>et_id = ''e1'', et_client_id = ''ws-1'', et_token_hash = demo_hash (CHR ''a''),
     et_created_at = 0, et_expires_at = hour, et_consumed_at = None, et_revoked_at = None\<rparr>"

definition demo_credential :: "string \<Rightarrow> char \<Rightarrow> ClientDeviceCredential" where
  "demo_credential i c = \<lparr>dc_id = i, dc_client_id = ''ws-1'', dc_fingerprint = demo_hash c, dc_serial = [c],
     dc_uri_san = expectedURISAN ''ws-1'', dc_algorithm = ''ECDSA'', dc_issuer_id = ''ca-1'',
     dc_issued_at = 0, dc_expires_at = 24 * hour, dc_status = CredPending, dc_supersedes_id = None,
     dc_revoked_at = None, dc_created_at = 0, dc_updated_at = 0\<rparr>"

definition demo_device_ops :: "device_op list" where
  "demo_device_ops = [OpCreateClient ''ws-1'' ''h'', OpCreateEnrollmentToken demo_token [],
     OpEnroll (demo_hash (CHR ''a'')) minute (demo_credential ''c1'' (CHR ''b'')) [],
     OpEnroll (demo_hash (CHR ''a'')) minute (demo_credential ''c2'' (CHR ''c'')) [],
     OpActivateCredential ''ws-1'' ''c1'' [] minute]"

lemma device_inv_empty: "device_inv empty_tables"
  by (simp add: device_inv_def empty_tables_def ok_defs Let_def)

lemma device_inv_reached: "tb w = empty_tables \<Longrightarrow> device_inv (tb (run_all device_step ops w))"
  by (rule device_contract.keeps_run_all_inv [OF device_step_keeps]) (simp add: device_inv_empty)

theorem enrollment_token_single_use_witness:
  "wins device_step enrollment_won demo_device_ops (calm_world empty_tables) (demo_hash (CHR ''a'')) = 1"
proof -
  have "wins device_step enrollment_won demo_device_ops (calm_world empty_tables) (demo_hash (CHR ''a'')) \<noteq> 0"
    by code_simp
  with enrollment_token_single_use [of "calm_world empty_tables" demo_device_ops "demo_hash (CHR ''a'')"]
  show ?thesis by (simp add: device_inv_empty)
qed

section \<open>Retired credentials\<close>

text \<open>
  C31: A device credential that was superseded or revoked is never accepted again: whatever client
  operations run afterwards, the store returns no active and no pending credential with its
  identifier or its certificate fingerprint.
\<close>

theorem retired_credential_never_returns:
  assumes inv: "device_inv (tb w)" and c: "c \<in> set (client_device_credentials (tb w))"
    and dead: "dc_status c = CredSuperseded \<or> dc_status c = CredRevoked"
    and found: "ActiveClientDeviceCredential client now (run_all device_step ops w) = (Inr c', w') \<or>
      PendingClientDeviceCredential client now (run_all device_step ops w) = (Inr c', w')"
  shows "dc_id c' \<noteq> dc_id c \<and> dc_fingerprint c' \<noteq> dc_fingerprint c"
proof -
  let ?t = "tb (run_all device_step ops w)"
  have ev: "devices_evolve (tb w) ?t"
    by (rule device_contract.keeps_run_all [OF device_step_keeps inv])
  then have "grows cred_evolves (client_device_credentials (tb w)) (client_device_credentials ?t)"
    by (simp add: devices_evolve_def)
  from grows_mem [OF this c] obtain d where d: "d \<in> set (client_device_credentials ?t)" "cred_evolves c d"
    by blast
  from dead cred_evolves_fields(8) [OF d(2)] have status: "dc_status d = dc_status c" by auto
  from found have c': "c' \<in> set (client_device_credentials ?t)" "dc_status c' = CredActive \<or> dc_status c' = CredPending"
    by (auto simp: ActiveClientDeviceCredential_def PendingClientDeviceCredential_def db_simps
        dest!: filter_eq_Cons_mem)
  have uniq: "distinct (map dc_id (client_device_credentials ?t))"
      "distinct (map dc_fingerprint (client_device_credentials ?t))"
    using ev by (simp_all add: devices_evolve_def device_inv_def ok_client_device_credentials_def Let_def)
  have "c' \<noteq> d" using c'(2) status dead by auto
  then have "dc_id c' \<noteq> dc_id d" "dc_fingerprint c' \<noteq> dc_fingerprint d"
    using distinct_map_eq [OF uniq(1) c'(1) d(1)] distinct_map_eq [OF uniq(2) c'(1) d(1)] by blast+
  with cred_evolves_fields [OF d(2)] show ?thesis by simp
qed

definition demo_device_world :: world where
  "demo_device_world = run_all device_step (demo_device_ops @ [OpRevokeCredential ''ws-1'' ''c1'' [] (2 * minute)])
     (calm_world empty_tables)"

definition demo_reenroll_ops :: "device_op list" where
  "demo_reenroll_ops = [OpCreateEnrollmentToken (demo_token\<lparr>et_id := ''e2'', et_token_hash := demo_hash (CHR ''e'')\<rparr>) [],
     OpEnroll (demo_hash (CHR ''e'')) minute (demo_credential ''c4'' (CHR ''d'')) [],
     OpActivateCredential ''ws-1'' ''c4'' [] minute]"

theorem retired_credential_never_returns_witness:
  "\<exists>c' w'. ActiveClientDeviceCredential ''ws-1'' (3 * minute) (run_all device_step demo_reenroll_ops demo_device_world)
     = (Inr c', w') \<and> dc_id c' \<noteq> ''c1''"
proof -
  let ?m = "ActiveClientDeviceCredential ''ws-1'' (3 * minute) (run_all device_step demo_reenroll_ops demo_device_world)"
  have inv: "device_inv (tb demo_device_world)"
    unfolding demo_device_world_def by (rule device_inv_reached) simp
  have "case fst ?m of Inl _ \<Rightarrow> False | Inr _ \<Rightarrow> True" by code_simp
  then obtain c' where "fst ?m = Inr c'" by (auto split: sum.splits)
  then have found: "?m = (Inr c', snd ?m)" by (simp add: prod_eq_iff)
  have "map (\<lambda>c. (dc_id c, dc_status c)) (client_device_credentials (tb demo_device_world)) = [(''c1'', CredRevoked)]"
    by code_simp
  then obtain c where "c \<in> set (client_device_credentials (tb demo_device_world))" "dc_id c = ''c1''"
    "dc_status c = CredRevoked" by auto
  with retired_credential_never_returns [OF inv] found have "dc_id c' \<noteq> ''c1''" by metis
  with found show ?thesis by blast
qed



section \<open>Activation, authentication mode and summaries\<close>

lemma update_credentials_Some:
  "update_device_credentials P f stamp t = Some (t', n, i) \<Longrightarrow>
   client_device_credentials t' = update_where P f (client_device_credentials t) \<and>
   count_where P (client_device_credentials t) = n"
  by (auto simp: update_device_credentials_def Let_def split: if_splits)

lemma insert_audit_credentials:
  "insert_audit a now t = Some (t', r) \<Longrightarrow>
   client_device_credentials t' = client_device_credentials t \<and> clients t' = clients t"
  by (auto simp: insert_audit_def Let_def split: if_splits)

lemma activate_returns:
  assumes "ActivateClientDeviceCredentialWithAudit client i ip now w = (Inr u, w')"
  obtains c c' where "c \<in> set (client_device_credentials (tb w))" "dc_id c = i" "dc_client_id c = client"
    "dc_status c = CredPending" "now - ClientDeviceActivationWindow < dc_created_at c" "now < dc_expires_at c"
    "c' \<in> set (client_device_credentials (tb w'))" "dc_id c' = i" "dc_client_id c' = client" "dc_status c' = CredActive"
proof -
  let ?P = "\<lambda>c. dc_id c = i \<and> dc_client_id c = client \<and> dc_status c = CredPending"
  let ?f = "\<lambda>c. c\<lparr>dc_status := CredActive, dc_updated_at := now\<rparr>"
  obtain cs where n: "count_where ?P cs = Suc 0"
    and rows: "client_device_credentials (tb w') = update_where ?P ?f cs"
    using assms
    by (auto simp: ActivateClientDeviceCredentialWithAudit_def db_simps
        dest!: update_credentials_Some insert_audit_credentials split: option.splits)
  from count_where_Suc_ex [OF n] obtain x where "x \<in> set cs" "?P x" by blast
  then have x': "?f x \<in> set (client_device_credentials (tb w'))" "?P x"
    unfolding rows by (auto intro: update_where_mem)
  obtain c where "c \<in> set (client_device_credentials (tb w))" "dc_id c = i" "dc_client_id c = client"
    "dc_status c = CredPending" "now - ClientDeviceActivationWindow < dc_created_at c" "now < dc_expires_at c"
    using assms
    by (auto simp: ActivateClientDeviceCredentialWithAudit_def db_simps dest!: map_filter_Cons_mem)
  with x' that [of c "?f x"] show thesis by simp
qed

text \<open>
  Activation is bound to its window: it succeeds only for a pending, unexpired credential of
  that client that was created less than ten minutes before, and afterwards that credential is
  the client's one and only active credential.
\<close>

theorem activation_within_window:
  assumes inv: "device_inv (tb w)"
    and run: "ActivateClientDeviceCredentialWithAudit client i ip now w = (Inr (), w')"
  shows "(\<exists>c \<in> set (client_device_credentials (tb w)). dc_id c = i \<and> dc_client_id c = client \<and>
      dc_status c = CredPending \<and> now - dc_created_at c < 10 * minute \<and> now < dc_expires_at c) \<and>
    map dc_id (filter (\<lambda>c. dc_client_id c = client \<and> dc_status c = CredActive)
      (client_device_credentials (tb w'))) = [i]"
proof -
  from run obtain c c' where c: "c \<in> set (client_device_credentials (tb w))" "dc_id c = i" "dc_client_id c = client"
      "dc_status c = CredPending" "now - ClientDeviceActivationWindow < dc_created_at c" "now < dc_expires_at c"
    and c': "c' \<in> set (client_device_credentials (tb w'))" "dc_id c' = i" "dc_client_id c' = client"
      "dc_status c' = CredActive"
    by (rule activate_returns)
  let ?act = "filter (\<lambda>c. dc_status c = CredActive) (client_device_credentials (tb w'))"
  let ?one = "filter (\<lambda>c. dc_client_id c = client \<and> dc_status c = CredActive) (client_device_credentials (tb w'))"
  have "devices_evolve (tb w) (tb w')"
    using device_step_evolves [OF inv, of "OpActivateCredential client i ip now"] run by simp
  then have "distinct (map dc_client_id ?act)"
    by (simp add: devices_evolve_def device_inv_def ok_client_device_credentials_def Let_def)
  then have "length (filter (\<lambda>c. dc_client_id c = client \<and> True) ?act) \<le> 1"
    by (rule filter_key_le1)
  then have "length ?one \<le> 1" by (simp add: conj_commute)
  moreover have "c' \<in> set ?one" using c' by simp
  ultimately have "?one = [c']"
    by (cases ?one) (auto simp: Suc_le_eq)
  with c c'(2) show ?thesis by (auto simp: ClientDeviceActivationWindow_def)
qed

definition mode_change_allowed :: "string \<Rightarrow> string \<Rightarrow> time \<Rightarrow> tables \<Rightarrow> bool" where
  "mode_change_allowed client m now t \<longleftrightarrow> (m \<noteq> ''token_only'' \<longrightarrow> (\<exists>d \<in> set (client_device_credentials t).
     dc_client_id d = client \<and> dc_status d = CredActive \<and> now < dc_expires_at d))"

lemma set_client_auth_mode_Some:
  "set_client_auth_mode client m now stamp t = Some (t', n, i) \<Longrightarrow>
   clients t' = update_where (\<lambda>c. cli_client_id c = client \<and> mode_change_allowed client m now t)
     (\<lambda>c. c\<lparr>cli_auth_mode := m, cli_updated_at := now\<rparr>) (clients t) \<and>
   count_where (\<lambda>c. cli_client_id c = client \<and> mode_change_allowed client m now t) (clients t) = n"
  by (auto simp: set_client_auth_mode_def update_clients_def Let_def mode_change_allowed_def split: if_splits)

text \<open>
  A client is switched to a certificate mode only while it has an active, unexpired device
  credential; on success the client carries the new mode.
\<close>

theorem certificate_mode_needs_credential:
  assumes "SetClientAuthenticationModeWithAudit client m ip now w = (Inr (), w')"
  shows "(m = ''token_only'' \<or> (\<exists>d \<in> set (client_device_credentials (tb w)).
      dc_client_id d = client \<and> dc_status d = CredActive \<and> now < dc_expires_at d)) \<and>
    (\<exists>c \<in> set (clients (tb w')). cli_client_id c = client \<and> cli_auth_mode c = m)"
proof -
  let ?P = "\<lambda>c. cli_client_id c = client \<and> mode_change_allowed client m now (tb w)"
  let ?f = "\<lambda>c. c\<lparr>cli_auth_mode := m, cli_updated_at := now\<rparr>"
  have n: "count_where ?P (clients (tb w)) = Suc 0" and rows: "clients (tb w') = update_where ?P ?f (clients (tb w))"
    using assms
    by (auto simp: SetClientAuthenticationModeWithAudit_def db_simps
        dest!: set_client_auth_mode_Some insert_audit_credentials)
  from count_where_Suc_ex [OF n] obtain x where x: "x \<in> set (clients (tb w))" "?P x" by blast
  then have "?f x \<in> set (clients (tb w'))" unfolding rows by (rule update_where_mem)
  then have "\<exists>c \<in> set (clients (tb w')). cli_client_id c = client \<and> cli_auth_mode c = m"
    using x by (intro bexI [of _ "?f x"]) simp_all
  with x show ?thesis unfolding mode_change_allowed_def by blast
qed

lemma hd_sort_key_min: "x \<in> set xs \<Longrightarrow> f (hd (sort_key f xs)) \<le> f x"
proof -
  assume x: "x \<in> set xs"
  have "sorted (map f (sort_key f xs))" by simp
  moreover have "x \<in> set (sort_key f xs)" using x by simp
  ultimately show ?thesis
    by (cases "sort_key f xs") auto
qed

lemma shown_credential_active:
  assumes "device_inv t" "d \<in> set (client_device_credentials t)" "dc_status d = CredActive"
  shows "shown_credential (dc_client_id d) t = [d]"
proof -
  let ?cs = "filter (\<lambda>c. dc_client_id c = dc_client_id d) (client_device_credentials t)"
  let ?ys = "sort_key (\<lambda>c. - dc_created_at c) (rev (sort_key dc_id ?cs))"
  let ?zs = "sort_key (\<lambda>c. status_order (dc_status c)) ?ys"
  have set: "set ?ys = set ?cs" by simp
  have "d \<in> set ?ys" using assms(2) by simp
  then have "status_order (dc_status (hd ?zs)) \<le> 0"
    using hd_sort_key_min [of d ?ys "\<lambda>c. status_order (dc_status c)"] assms(3) by simp
  then have act: "dc_status (hd ?zs) = CredActive"
    by (cases "dc_status (hd ?zs)") auto
  have ne: "?zs \<noteq> []" using \<open>d \<in> set ?ys\<close> by (metis empty_iff list.set(1) set_sort)
  then have mem: "hd ?zs \<in> set ?cs" using set by (metis hd_in_set set_sort)
  have "distinct (map dc_client_id (filter (\<lambda>c. dc_status c = CredActive) (client_device_credentials t)))"
    using assms(1) by (simp add: device_inv_def ok_client_device_credentials_def Let_def)
  from distinct_map_eq [OF this, of "hd ?zs" d] have "hd ?zs = d"
    using mem act assms(2,3) by simp
  with ne show ?thesis unfolding shown_credential_def by (cases ?zs) auto
qed

text \<open>
  The certificate overview never hides the authoritative certificate: for a client with an
  active credential it shows that credential's status and dates, even when the credential has
  expired or a renewal is pending.
\<close>

theorem summary_shows_active_credential:
  assumes "device_inv t" "d \<in> set (client_device_credentials t)" "dc_status d = CredActive"
    and "s \<in> set (clientCertificateSummaryQuery since now t)" "ccs_ClientID s = dc_client_id d"
  shows "ccs_Status s = Some CredActive \<and> ccs_IssuedAt s = Some (dc_issued_at d) \<and>
    ccs_ExpiresAt s = Some (dc_expires_at d) \<and> ccs_CreatedAt s = Some (dc_created_at d)"
  using assms(3-5) shown_credential_active [OF assms(1-3)]
  by (auto simp: clientCertificateSummaryQuery_def Let_def)

text \<open>A client with one active credential and a pending renewal.\<close>

definition demo_renewal_tables :: tables where
  "demo_renewal_tables = (case insert_client ''ws-1'' ''h'' 0 empty_tables of None \<Rightarrow> empty_tables
     | Some (t, _) \<Rightarrow> t\<lparr>client_device_credentials :=
         [(demo_credential ''c1'' (CHR ''b''))\<lparr>dc_status := CredActive\<rparr>, (demo_credential ''c3'' (CHR ''d''))\<lparr>dc_supersedes_id := Some ''c1''\<rparr>]\<rparr>)"

definition demo_renewal_world :: world where
  "demo_renewal_world = calm_world demo_renewal_tables"

lemma device_inv_demo: "device_inv (tb demo_renewal_world)"
  by code_simp

theorem activation_within_window_witness:
  "map dc_id (filter (\<lambda>c. dc_client_id c = ''ws-1'' \<and> dc_status c = CredActive) (client_device_credentials
     (tb (snd (ActivateClientDeviceCredentialWithAudit ''ws-1'' ''c3'' [] (3 * minute) demo_renewal_world))))) = [''c3'']"
proof -
  have "fst (ActivateClientDeviceCredentialWithAudit ''ws-1'' ''c3'' [] (3 * minute) demo_renewal_world) = Inr ()"
    by code_simp
  then have "ActivateClientDeviceCredentialWithAudit ''ws-1'' ''c3'' [] (3 * minute) demo_renewal_world =
      (Inr (), snd (ActivateClientDeviceCredentialWithAudit ''ws-1'' ''c3'' [] (3 * minute) demo_renewal_world))"
    by (simp add: prod_eq_iff)
  from activation_within_window [OF device_inv_demo this] show ?thesis by blast
qed

theorem certificate_mode_needs_credential_witness:
  "\<exists>d \<in> set (client_device_credentials (tb demo_renewal_world)).
     dc_client_id d = ''ws-1'' \<and> dc_status d = CredActive \<and> 3 * minute < dc_expires_at d"
proof -
  let ?m = "SetClientAuthenticationModeWithAudit ''ws-1'' ''certificate_preferred'' [] (3 * minute) demo_renewal_world"
  have "fst ?m = Inr ()" by code_simp
  then have "?m = (Inr (), snd ?m)" by (simp add: prod_eq_iff)
  from certificate_mode_needs_credential [OF this] show ?thesis by simp
qed

theorem summary_shows_active_credential_witness:
  "\<exists>d \<in> set (client_device_credentials (tb demo_renewal_world)). dc_id d = ''c1'' \<and>
     (\<exists>s \<in> set (clientCertificateSummaryQuery 0 (3 * minute) (tb demo_renewal_world)).
        ccs_Status s = Some CredActive \<and> ccs_ExpiresAt s = Some (dc_expires_at d))"
proof -
  have "map (\<lambda>c. (dc_id c, dc_client_id c, dc_status c)) (client_device_credentials (tb demo_renewal_world)) =
      [(''c1'', ''ws-1'', CredActive), (''c3'', ''ws-1'', CredPending)]"
    by code_simp
  then obtain d where d: "d \<in> set (client_device_credentials (tb demo_renewal_world))" "dc_id d = ''c1''"
    "dc_client_id d = ''ws-1''" "dc_status d = CredActive" by (auto simp: map_eq_Cons_conv) blast
  have "map ccs_ClientID (clientCertificateSummaryQuery 0 (3 * minute) (tb demo_renewal_world)) = [''ws-1'']"
    by code_simp
  then obtain s where s: "s \<in> set (clientCertificateSummaryQuery 0 (3 * minute) (tb demo_renewal_world))"
    "ccs_ClientID s = ''ws-1''" by (auto simp: map_eq_Cons_conv)
  with summary_shows_active_credential [OF device_inv_demo d(1) d(4) s(1)] d show ?thesis by auto
qed

end
