(* ===== verification/Client_Access.thy ===== *)
theory Client_Access
  imports Client_Api Device_Lifecycle
begin

text \<open>
  What the client API grants and to whom: an update job, a package, a status report and a device
  certificate reach only the client that proved itself, and enrollment and activation tie a stored
  credential to the certificate and the token of the request.
\<close>

section \<open>Who was authenticated\<close>

text \<open>The certificate of the request is that of the client's active credential.\<close>

definition certificate_matches :: "'csr api_env \<Rightarrow> request \<Rightarrow> time \<Rightarrow> Client \<Rightarrow> tables \<Rightarrow> bool" where
  "certificate_matches env r now c t \<longleftrightarrow>
     (\<exists>identity credential. FromTLS (env_VerifiedPeer env) (rq_TLS r) now = Some identity \<and>
        id_ClientID identity = cli_client_id c \<and> credential \<in> set (client_device_credentials t) \<and>
        dc_client_id credential = cli_client_id c \<and> dc_status credential = CredActive \<and>
        dc_issued_at credential \<le> now \<and> now < dc_expires_at credential \<and> sameDeviceCredential identity credential)"

lemma FromTLS_client:
  "FromTLS vp st now = Some i \<Longrightarrow> id_URISAN i = clientURIPrefix @ id_ClientID i \<and> validDeviceClientID (id_ClientID i)"
  by (auto simp: FromTLS_def Let_def split: option.splits if_splits)

lemma ActiveCredential_returns:
  "ActiveClientDeviceCredential client now w = (Inr c, w') \<Longrightarrow>
   c \<in> set (client_device_credentials (tb w)) \<and> dc_client_id c = client \<and> dc_status c = CredActive \<and>
   dc_issued_at c \<le> now \<and> now < dc_expires_at c \<and> tb w' = tb w"
  by (auto simp: ActiveClientDeviceCredential_def db_simps dest!: filter_eq_Cons_mem)

lemma ActiveCredential_read_only: "read_only (ActiveClientDeviceCredential client now)"
  by (simp add: ActiveClientDeviceCredential_def atomic_intros)

lemma authenticate_read_only: "read_only (authenticateClientStatus env r c now)"
  unfolding authenticateClientStatus_def
  by (auto simp: Let_def intro!: atomic_intros ActiveCredential_read_only split: option.splits sum.splits)

lemma authenticate_steady: "steady (authenticateClientStatus env r c now)"
  unfolding authenticateClientStatus_def ActiveClientDeviceCredential_def
  by (auto simp: Let_def intro!: steady_intros split: option.splits sum.splits)

text \<open>A client is accepted by its certificate, or by its bearer token where its mode allows it.\<close>

lemma authenticate_returns:
  assumes "authenticateClientStatus env r c now w = (Inr (ok, fallback), w')"
  shows "tb w' = tb w \<and>
    (ok \<longrightarrow> (if cli_auth_mode c \<noteq> ''token_only'' \<and> certificate_presented r
             then certificate_matches env r now c (tb w) \<and> \<not> fallback
             else cli_auth_mode c \<noteq> ''certificate_required'' \<and> bearer_valid r c \<and>
               (fallback \<longleftrightarrow> cli_auth_mode c = ''certificate_preferred'')))"
proof (cases "cli_auth_mode c \<noteq> ''token_only'' \<and> certificate_presented r")
  case False
  with assms show ?thesis by (auto simp: authenticateClientStatus_def Let_def db_simps split: if_splits)
next
  case True
  show ?thesis
  proof (cases "FromTLS (env_VerifiedPeer env) (rq_TLS r) now")
    case None
    with True assms show ?thesis by (auto simp: authenticateClientStatus_def db_simps)
  next
    case (Some i)
    have same: "tb w' = tb w" by (rule read_onlyD [OF authenticate_read_only assms])
    obtain found w1 where act: "ActiveClientDeviceCredential (cli_client_id c) now w = (found, w1)"
      by (cases "ActiveClientDeviceCredential (cli_client_id c) now w")
    show ?thesis
    proof (cases found)
      case (Inl e)
      with True Some assms act same show ?thesis
        by (auto simp: authenticateClientStatus_def dbind_def attempt_def ret_def split: if_splits)
    next
      case (Inr credential)
      with True Some assms act have "ok \<Longrightarrow> id_ClientID i = cli_client_id c \<and> sameDeviceCredential i credential \<and> \<not> fallback"
        by (auto simp: authenticateClientStatus_def dbind_def attempt_def ret_def sameDeviceCredential_def
            split: if_splits option.splits)
      moreover from act Inr have "credential \<in> set (client_device_credentials (tb w)) \<and>
          dc_client_id credential = cli_client_id c \<and> dc_status credential = CredActive \<and>
          dc_issued_at credential \<le> now \<and> now < dc_expires_at credential"
        by (auto dest!: ActiveCredential_returns)
      ultimately show ?thesis
        using same True Some unfolding certificate_matches_def by simp blast
    qed
  qed
qed

lemma ClientByID_returns:
  "ClientByID i w = (Inr c, w') \<Longrightarrow> c \<in> set (clients (tb w)) \<and> cli_client_id c = i \<and> w' = tick w"
  by (auto simp: ClientByID_def db_simps dest!: filter_eq_Cons_mem)

definition device_authenticated :: "'csr api_env \<Rightarrow> request \<Rightarrow> Client \<Rightarrow> srv \<Rightarrow> bool" where
  "device_authenticated env r c s \<longleftrightarrow> c \<in> set (clients (tb (wd s))) \<and> cli_enabled c \<and>
     cli_auth_mode c \<noteq> ''token_only'' \<and> (\<exists>now. request_time s now \<and> certificate_matches env r now c (tb (wd s)))"

lemma preferred_mode:
  "ok_clients t \<Longrightarrow> c \<in> set (clients t) \<Longrightarrow> cli_auth_mode c \<noteq> ''token_only'' \<Longrightarrow>
   cli_auth_mode c \<noteq> ''certificate_required'' \<Longrightarrow> cli_auth_mode c = ''certificate_preferred''"
  by (auto simp: ok_clients_def)

lemma updateDevice_returns:
  assumes "updateDevice env r k s = (resp, s')" "resp \<noteq> Problem 401 ''invalid_client_credentials''"
    and ok: "ok_clients (tb (wd s))"
  obtains c s1 where "device_authenticated env r c s" "k c s1 = (resp, s')" "tb (wd s1) = tb (wd s)" "later s s1"
proof -
  let ?w = "tick (tick (tick (wd s)))" and ?now = "clock (wd s) (Suc (Suc (steps (wd s))))"
  from assms(1,2) obtain c fallback w where c: "c \<in> set (clients (tb (wd s)))" "cli_enabled c"
      "cli_auth_mode c \<noteq> ''token_only''"
    and auth: "authenticateClientStatus env r c ?now ?w = (Inr (True, False), w)"
    and k: "k c (s\<lparr>wd := w\<rparr>) = (resp, s')"
    by (auto simp: updateDevice_def http_simps dest!: ClientByID_returns split: option.splits if_splits)
  from authenticate_returns [OF auth] preferred_mode [OF ok c(1,3)]
  have "certificate_matches env r ?now c (tb (wd s))" "tb w = tb (wd s)" by (auto split: if_splits)
  moreover have "later s (s\<lparr>wd := w\<rparr>)" using steadyD [OF authenticate_steady auth] by (simp add: later_def)
  moreover have "request_time s ?now" unfolding request_time_def by (rule exI [of _ "Suc (Suc (steps (wd s)))"]) simp
  ultimately show thesis using c k by (intro that [of c "s\<lparr>wd := w\<rparr>"]) (auto simp: device_authenticated_def)
qed

section \<open>Update jobs over HTTP\<close>

lemma response_neq: "NoContent \<noteq> Problem n p" "Json m b \<noteq> Problem n p"
  by simp_all

lemma deviceJob_returns:
  assumes "deviceJob env r k s = (resp, s')" "resp \<noteq> Problem 401 ''invalid_client_credentials''"
    "resp \<noteq> Problem 404 ''update_not_found''" and ok: "ok_clients (tb (wd s))"
  obtains c j s1 where "device_authenticated env r c s" "j \<in> set (client_update_jobs (tb (wd s)))"
    "job_id j = rq_PathValue_id r" "job_client_id j = cli_client_id c" "k j s1 = (resp, s')" "tb (wd s1) = tb (wd s)"
    "later s s1"
proof -
  obtain c s1 where c: "device_authenticated env r c s"
    and k: "call (ClientUpdateJobByID (rq_PathValue_id r)) (\<lambda>_. reply (Problem 404 ''update_not_found'')) (\<lambda>j.
         if job_client_id j \<noteq> cli_client_id c then reply (Problem 404 ''update_not_found'') else k j) s1 = (resp, s')"
    and tb: "tb (wd s1) = tb (wd s)" "later s s1"
    by (rule updateDevice_returns [OF assms(1) [unfolded deviceJob_def] assms(2) ok])
  from k assms(3) tb(1) obtain j w where j: "j \<in> set (client_update_jobs (tb (wd s)))" "job_id j = rq_PathValue_id r"
    "job_client_id j = cli_client_id c" "k j (s1\<lparr>wd := w\<rparr>) = (resp, s')" "tb w = tb (wd s)"
    "w = tick (wd s1)"
    by (auto simp: http_simps ClientUpdateJobByID_def query_row_Inr dest!: filter_eq_Cons_mem)
  have "later s (s1\<lparr>wd := w\<rparr>)" using tb(2) j(6) by (simp add: later_def)
  with c j show thesis by (intro that [of c j "s1\<lparr>wd := w\<rparr>"]) auto
qed

lemma change_reaches_state:
  assumes "ChangeClientUpdateJob i client to rollback actor ip now w = (Inr u, w')"
  shows "\<exists>j \<in> set (client_update_jobs (tb w')). job_id j = i \<and> job_client_id j = client \<and> job_state j = to"
  using assms
proof (rule ChangeClientUpdateJob_returns)
  fix j w1 w2
  assume j: "j \<in> set (client_update_jobs (tb w))" "job_id j = i" "job_client_id j = client" "tb w1 = tb w" "tb w' = tb w2"
    and run: "(if job_state j = to then ensure (\<not> job_rollback_available j \<noteq> rollback) (ErrText ''conflicting result'')
      else applyJobChange j i client to rollback actor ip now) w1 = (Inr u, w2)"
  show ?thesis
  proof (cases "job_state j = to")
    case True
    with run j show ?thesis by (auto simp: db_simps)
  next
    case False
    with run have "applyJobChange j i client to rollback actor ip now w1 = (Inr u, w2)" by simp
    note rows = applyJobChange_returns [OF this, THEN conjunct2, THEN conjunct1]
    let ?j = "j\<lparr>job_state := to, job_rollback_available := rollback, job_updated_at := Unix now\<rparr>"
    have "?j \<in> set (client_update_jobs (tb w'))"
      unfolding j(5) rows set_update_where j(4) using j(1-3) by (intro image_eqI [of _ _ j]) simp_all
    then show ?thesis using j(2,3) by (intro bexI [of _ ?j]) simp_all
  qed
qed

lemma approvedJob_Some:
  "approvedJob env j = Some v \<Longrightarrow> catalog_lookup env (job_release_id j) = Some v \<and>
   ar_SHA256 v = job_package_sha256 j \<and> ar_ReleaseVersion v = job_release_version j \<and>
   (ar_RequiresMaintenance v \<longrightarrow> job_maintenance j)"
  by (auto simp: approvedJob_def split: option.splits if_splits)

text \<open>
  C22: An update starts only for its own device: the server grants a start only when the request's
  certificate is that of the enabled client's active credential, the job is that client's, and its
  release is still approved with the digest, version and maintenance consent of the job; afterwards
  the job is dispatched.
\<close>

theorem update_start_authorized:
  assumes "startClientUpdate env r s = (NoContent, s')" "ok_clients (tb (wd s))"
  shows "\<exists>c j release. device_authenticated env r c s \<and> j \<in> set (client_update_jobs (tb (wd s))) \<and>
    job_id j = rq_PathValue_id r \<and> job_client_id j = cli_client_id c \<and>
    catalog_lookup env (job_release_id j) = Some release \<and> ar_SHA256 release = job_package_sha256 j \<and>
    ar_ReleaseVersion release = job_release_version j \<and> (ar_RequiresMaintenance release \<longrightarrow> job_maintenance j) \<and>
    (\<exists>j' \<in> set (client_update_jobs (tb (wd s'))). job_id j' = job_id j \<and> job_state j' = JobDispatched)"
proof -
  obtain c j s1 where
    c: "device_authenticated env r c s" and j: "j \<in> set (client_update_jobs (tb (wd s)))"
      "job_id j = rq_PathValue_id r" "job_client_id j = cli_client_id c"
    and k: "(if approvedJob env j = None then reply (Problem 409 ''release_approval_unavailable'')
       else with_now (\<lambda>now.
         call (ChangeClientUpdateJob (job_id j) (job_client_id j) JobDispatched False [] (remoteIP r) now)
           (\<lambda>_. reply (Problem 409 ''update_not_executable'')) (\<lambda>_. reply NoContent))) s1 = (NoContent :: unit response, s')" "tb (wd s1) = tb (wd s)" "later s s1"
    by (rule deviceJob_returns [OF assms(1) [unfolded startClientUpdate_def] response_neq(1) response_neq(1) assms(2)])
  from k(1) obtain release where rel: "approvedJob env j = Some release"
    and run: "\<exists>now w u w'. ChangeClientUpdateJob (job_id j) (job_client_id j) JobDispatched False [] (remoteIP r) now w
      = (Inr u, w') \<and> wd s' = w'"
    by (auto simp: http_simps) blast
  from run obtain j' where "j' \<in> set (client_update_jobs (tb (wd s')))" "job_id j' = job_id j" "job_state j' = JobDispatched"
    using change_reaches_state by metis
  with approvedJob_Some [OF rel] c j show ?thesis by blast
qed

lemma poll_jobs_answer:
  "poll_jobs env client ip now js s = (Json n j, s') \<Longrightarrow> j \<in> set js \<and> n = 200 \<and> approvedJob env j \<noteq> None \<and>
   (job_state j = JobDispatched \<or>
    job_state j = JobScheduled \<and> job_not_before j \<le> Unix now \<and> Unix now < job_expires_at j)"
  by (induction js arbitrary: s) (auto simp: http_simps split: if_splits)

text \<open>
  Polling offers nothing but due work: the job a poll returns belongs to the client whose
  active certificate authenticated the request, its release is approved, and it is either already
  dispatched or scheduled with its execution window open.
\<close>

theorem poll_offers_due_job:
  assumes "pollClientUpdate env r s = (Json n j, s')" "ok_clients (tb (wd s))"
  shows "\<exists>c. device_authenticated env r c s \<and> j \<in> set (client_update_jobs (tb (wd s))) \<and>
    job_client_id j = cli_client_id c \<and> approvedJob env j \<noteq> None \<and>
    (job_state j = JobDispatched \<or> job_state j = JobScheduled \<and>
      (\<exists>now. request_time s now \<and> job_not_before j \<le> Unix now \<and> Unix now < job_expires_at j))"
proof -
  obtain c s1 where c: "device_authenticated env r c s"
    and k: "call (ClientUpdateJobs (cli_client_id c)) (\<lambda>_. reply (Problem 500 ''update_jobs_unavailable'')) (\<lambda>jobs.
         with_now (\<lambda>now. poll_jobs env (cli_client_id c) (remoteIP r) now jobs)) s1 = (Json n j, s')"
    and tb: "tb (wd s1) = tb (wd s)" "later s s1"
    by (rule updateDevice_returns [OF assms(1) [unfolded pollClientUpdate_def] response_neq(2) assms(2)])
  from k obtain jobs s2 w where jobs: "ClientUpdateJobs (cli_client_id c) (wd s1) = (Inr jobs, w)"
    and poll: "poll_jobs env (cli_client_id c) (remoteIP r) (clock w (steps w)) jobs s2 = (Json n j, s')"
    by (auto simp: http_simps)
  from jobs have "clock w = clock (wd s1)" "steps (wd s1) \<le> steps w" by (simp_all add: ClientUpdateJobs_def query_all_Inr)
  then have time: "request_time s (clock w (steps w))"
    using tb(2) by (auto simp: request_time_def later_def intro!: exI [of _ "steps w"])
  have "j \<in> set (client_update_jobs (tb (wd s)))" "job_client_id j = cli_client_id c"
    if "cli_client_id c \<noteq> []"
    using jobs poll_jobs_answer [OF poll] tb(1) that by (auto simp: ClientUpdateJobs_def query_all_Inr dest!: in_set_takeD)
  moreover have "cli_client_id c \<noteq> []"
    using c by (auto simp: device_authenticated_def certificate_matches_def validDeviceClientID_def dest!: FromTLS_client)
  ultimately show ?thesis using c time poll_jobs_answer [OF poll] by blast
qed

text \<open>
  A package leaves the server only for its job: a download succeeds only for the certificate
  of the job's own client, while the job is open and its window has not ended, and delivers the
  bytes of the approved release the job names, with the job's digest and version, and with the consent
  to maintenance the release needs.
\<close>

theorem package_only_for_open_job:
  assumes "downloadClientUpdate env r s = (Json n package, s')" "ok_clients (tb (wd s))"
  shows "\<exists>c j release. device_authenticated env r c s \<and> j \<in> set (client_update_jobs (tb (wd s))) \<and>
    job_id j = rq_PathValue_id r \<and> job_client_id j = cli_client_id c \<and>
    (job_state j = JobScheduled \<or> job_state j = JobDispatched) \<and> (\<exists>now. request_time s now \<and> Unix now < job_expires_at j) \<and>
    catalog_lookup env (job_release_id j) = Some release \<and> ar_SHA256 release = job_package_sha256 j \<and>
    ar_ReleaseVersion release = job_release_version j \<and> (ar_RequiresMaintenance release \<longrightarrow> job_maintenance j) \<and>
    package = ar_Package release"
proof -
  obtain c j s1 where c: "device_authenticated env r c s"
    and j: "j \<in> set (client_update_jobs (tb (wd s)))" "job_id j = rq_PathValue_id r" "job_client_id j = cli_client_id c"
    and k: "with_now (\<lambda>now. case approvedJob env j of
         None \<Rightarrow> reply (Problem 409 ''package_unavailable'')
       | Some release \<Rightarrow>
           if job_state j \<noteq> JobScheduled \<and> job_state j \<noteq> JobDispatched \<or> Unix now \<ge> job_expires_at j
           then reply (Problem 409 ''package_unavailable'')
           else reply (Json 200 (ar_Package release))) s1 = (Json n package, s')" "tb (wd s1) = tb (wd s)" "later s s1"
    by (rule deviceJob_returns [OF assms(1) [unfolded downloadClientUpdate_def] response_neq(2) response_neq(2) assms(2)])
  let ?now = "clock (wd s1) (steps (wd s1))"
  from k(1) obtain release where rel: "approvedJob env j = Some release" "package = ar_Package release"
    "job_state j = JobScheduled \<or> job_state j = JobDispatched" "Unix ?now < job_expires_at j"
    by (auto simp: http_simps split: option.splits)
  moreover have "request_time s ?now" by (rule later_request_time [OF k(3)]) simp
  ultimately show ?thesis using approvedJob_Some [OF rel(1)] c j by blast
qed

section \<open>Status reports\<close>

text \<open>
  C26: A status report is accepted only from the client itself: a successful report comes from an
  enabled, registered client that proved itself with the certificate of its active credential, or,
  where its mode does not require a certificate, with its bearer token; a token used in place of a
  preferred certificate is audited in the same transaction.
\<close>

theorem status_report_authenticated:
  assumes "clientStatus env r (Some inp) s = (NoContent, s')"
  shows "\<exists>c now. c \<in> set (clients (tb (wd s))) \<and> cli_client_id c = cs_ClientID inp \<and> cli_enabled c \<and>
    (cli_auth_mode c \<noteq> ''token_only'' \<and> request_time s now \<and> certificate_matches env r now c (tb (wd s)) \<or>
     cli_auth_mode c \<noteq> ''certificate_required'' \<and> bearer_valid r c \<and>
     (cli_auth_mode c = ''certificate_preferred'' \<longrightarrow>
        (\<exists>e. audit_log (tb (wd s')) = audit_log (tb (wd s)) @ [e] \<and>
           aud_event_type e = ''client_certificate_token_fallback'' \<and> aud_client_id e = cs_ClientID inp)))"
proof -
  from assms obtain c fallback w2 w3 u where
    c: "ClientByID (cs_ClientID inp) (tick (wd s)) = (Inr c, w2)" "cli_enabled c"
    and a: "authenticateClientStatus env r c (clock w2 (steps w2)) (tick w2) = (Inr (True, fallback), w3)"
    and u: "fallback \<longrightarrow> UpdateClientStatusWithUpdateAndTokenFallbackAudit (cs_ClientID inp) (cs_Version inp)
       (cs_NetworkStatus inp) (cs_ADStatus inp) (cs_CameraStatus inp) (cs_KerberosStatus inp) u (remoteIP r) w3
       = (Inr (), wd s')"
    unfolding clientStatus_def by (auto simp: http_simps Let_def split: if_splits)
  from ClientByID_returns [OF c(1)] have cl: "c \<in> set (clients (tb (wd s)))" "cli_client_id c = cs_ClientID inp"
    "tb (tick w2) = tb (wd s)" and w2: "w2 = tick (tick (wd s))" by simp_all
  have time: "request_time s (clock w2 (steps w2))"
    unfolding request_time_def w2 by (rule exI [of _ "Suc (Suc (steps (wd s)))"]) simp
  have audit: "\<exists>e. audit_log (tb (wd s')) = audit_log (tb (wd s)) @ [e] \<and>
      aud_event_type e = ''client_certificate_token_fallback'' \<and> aud_client_id e = cs_ClientID inp"
    if fallback
    using u that authenticate_returns [OF a] cl(3)
    by (auto simp: UpdateClientStatusWithUpdateAndTokenFallbackAudit_def db_simps update_clients_def insert_audit_def
        audit_event_def Let_def split: if_splits)
  from authenticate_returns [OF a] time cl c(2) audit show ?thesis by (auto split: if_splits)
qed

section \<open>Issued certificates\<close>

lemma issue_returns:
  assumes "issue i client csr now w = (Inr ((type, der), credential), w')"
  shows "tb w' = tb w \<and> type = ''CERTIFICATE'' \<and> dc_fingerprint credential = hex_encode (sha256 der) \<and>
    dc_client_id credential = client \<and> dc_uri_san credential = clientURIPrefix @ client \<and>
    now < dc_expires_at credential \<and> dc_expires_at credential \<le> is_CA_NotAfter i \<and>
    dc_expires_at credential \<le> now + is_lifetime i"
  using assms by (auto simp: issue_def Let_def db_simps split: option.splits)

lemma enroll_adds_credential:
  assumes "EnrollClientDeviceCredentialWithAudit h now c ip w = (Inr u, w')"
  shows "\<exists>c' \<in> set (client_device_credentials (tb w')). dc_id c' = dc_id c \<and> dc_client_id c' = dc_client_id c \<and>
    dc_fingerprint c' = dc_fingerprint c \<and> dc_uri_san c' = dc_uri_san c \<and> dc_expires_at c' = dc_expires_at c \<and>
    dc_status c' = CredPending"
  using assms
  by (auto simp: EnrollClientDeviceCredentialWithAudit_def db_simps insert_device_credential_def Let_def
      insert_audit_def split: if_splits)

text \<open>
  C24: Enrollment ties the certificate to the token.  When the server returns a certificate, the
  presented token was open and belonged to the enabled client of the request; it is consumed, and
  the store holds a pending credential of that client with the SHA-256 fingerprint of exactly the
  returned certificate, which does not outlive the device authority or the configured lifetime.
\<close>

theorem enrolled_certificate_bound_to_token:
  assumes "enrollClientDeviceCertificate env r (Some rq) s = (Json n resp, s')"
  shows "\<exists>k issuer c now. k \<in> set (client_enrollment_tokens (tb (wd s))) \<and> et_token_hash k = hex_encode (sha256 (er_Token rq)) \<and>
    et_client_id k = er_ClientID rq \<and> et_consumed_at k = None \<and> et_revoked_at k = None \<and> now \<le> et_expires_at k \<and>
    request_time s now \<and> k\<lparr>et_consumed_at := Some now\<rparr> \<in> set (client_enrollment_tokens (tb (wd s'))) \<and>
    (\<exists>cl \<in> set (clients (tb (wd s))). cli_client_id cl = er_ClientID rq \<and> cli_enabled cl) \<and>
    env_deviceIssuer env = Some issuer \<and> c \<in> set (client_device_credentials (tb (wd s'))) \<and>
    dc_client_id c = er_ClientID rq \<and> dc_status c = CredPending \<and>
    dc_fingerprint c = hex_encode (sha256 (snd (cr_Certificate resp))) \<and>
    dc_uri_san c = clientURIPrefix @ er_ClientID rq \<and> cr_ExpiresAt resp = dc_expires_at c \<and>
    now < dc_expires_at c \<and> dc_expires_at c \<le> is_CA_NotAfter issuer \<and> dc_expires_at c \<le> now + is_lifetime issuer"
proof -
  let ?now = "clock (wd s) (steps (wd s))"
  from assms obtain issuer csr valid w1 type der cred w2 u w3 where
    i: "env_deviceIssuer env = Some issuer"
    and v: "ValidClientEnrollmentToken (er_ClientID rq) (hex_encode (sha256 (er_Token rq))) ?now (tick (wd s)) = (Inr valid, w1)"
    and iss: "issue issuer (er_ClientID rq) csr ?now w1 = (Inr ((type, der), cred), w2)"
    and e: "EnrollClientDeviceCredentialWithAudit (hex_encode (sha256 (er_Token rq))) ?now cred (remoteIP r) w2 = (Inr u, wd s')"
    and resp: "cr_Certificate resp = (type, der)" "cr_ExpiresAt resp = dc_expires_at cred"
    unfolding enrollClientDeviceCertificate_def
    by (auto simp: http_simps Let_def split: option.splits if_splits)
  note iss_facts = issue_returns [OF iss]
  from v iss_facts have tb: "tb w2 = tb (wd s)"
    by (auto simp: ValidClientEnrollmentToken_def db_simps)
  from e obtain k where k: "k \<in> set (client_enrollment_tokens (tb w2))" "et_token_hash k = hex_encode (sha256 (er_Token rq))"
    "et_client_id k = dc_client_id cred" "et_consumed_at k = None" "et_revoked_at k = None" "?now \<le> et_expires_at k"
    "\<exists>cl \<in> set (clients (tb w2)). cli_client_id cl = dc_client_id cred \<and> cli_enabled cl"
    "k\<lparr>et_consumed_at := Some ?now\<rparr> \<in> set (client_enrollment_tokens (tb (wd s')))"
    by (rule enroll_returns)
  from enroll_adds_credential [OF e] obtain c where c: "c \<in> set (client_device_credentials (tb (wd s')))"
    "dc_client_id c = dc_client_id cred" "dc_fingerprint c = dc_fingerprint cred" "dc_uri_san c = dc_uri_san cred"
    "dc_expires_at c = dc_expires_at cred" "dc_status c = CredPending" by blast
  have "request_time s ?now" by simp
  with i k c iss_facts resp tb show ?thesis
    by (intro exI [of _ k] exI [of _ issuer] exI [of _ c] exI [of _ ?now]) simp
qed

text \<open>
  Only the holder of the new key activates it: an activation succeeds only for the pending
  credential whose certificate the request presented, inside its activation window, of an enabled
  client, and makes that credential the active one.
\<close>

theorem activation_needs_pending_certificate:
  assumes "activateClientDeviceCertificate env r s = (NoContent, s')"
  shows "\<exists>identity pending now. request_time s now \<and> FromTLS (env_VerifiedPeer env) (rq_TLS r) now = Some identity \<and>
    pending \<in> set (client_device_credentials (tb (wd s))) \<and> dc_client_id pending = id_ClientID identity \<and>
    dc_status pending = CredPending \<and> sameDeviceCredential identity pending \<and>
    now - ClientDeviceActivationWindow < dc_created_at pending \<and> now < dc_expires_at pending \<and>
    (\<exists>cl \<in> set (clients (tb (wd s))). cli_client_id cl = id_ClientID identity \<and> cli_enabled cl) \<and>
    (\<exists>c \<in> set (client_device_credentials (tb (wd s'))). dc_id c = dc_id pending \<and> dc_status c = CredActive)"
proof -
  let ?now = "clock (wd s) (steps (wd s))"
  from assms obtain identity pending w1 client w2 u where
    i: "FromTLS (env_VerifiedPeer env) (rq_TLS r) ?now = Some identity"
    and p: "PendingClientDeviceCredential (id_ClientID identity) ?now (tick (wd s)) = (Inr pending, w1)"
      "sameDeviceCredential identity pending"
    and c: "ClientByID (id_ClientID identity) w1 = (Inr client, w2)" "cli_enabled client"
    and a: "ActivateClientDeviceCredentialWithAudit (id_ClientID identity) (dc_id pending) (remoteIP r) ?now w2 = (Inr u, wd s')"
    unfolding activateClientDeviceCertificate_def
    by (auto simp: http_simps split: option.splits if_splits)
  from p(1) have pend: "pending \<in> set (client_device_credentials (tb (wd s)))" "dc_client_id pending = id_ClientID identity"
    "dc_status pending = CredPending" "?now - ClientDeviceActivationWindow < dc_created_at pending"
    "?now < dc_expires_at pending" "tb w1 = tb (wd s)"
    by (auto simp: PendingClientDeviceCredential_def db_simps dest!: filter_eq_Cons_mem)
  from ClientByID_returns [OF c(1)] c(2) pend(6)
  have "\<exists>cl \<in> set (clients (tb (wd s))). cli_client_id cl = id_ClientID identity \<and> cli_enabled cl" by auto
  moreover from a obtain c' where "c' \<in> set (client_device_credentials (tb (wd s')))" "dc_id c' = dc_id pending"
    "dc_status c' = CredActive" by (rule activate_returns)
  moreover have "request_time s ?now" by simp
  ultimately show ?thesis using i p(2) pend by blast
qed

section \<open>A device at work\<close>

text \<open>
  The world of the witnesses: the client \<^verbatim>\<open>ws-1\<close> in certificate mode, its active credential, a
  pending renewal, a scheduled job and an open enrollment token.  The demo verifier reads the peer's
  identity off the presented certificate.
\<close>

definition demo_VerifiedPeer :: verified_peer where
  "demo_VerifiedPeer st now =
     (case st of None \<Rightarrow> None
      | Some state \<Rightarrow> (case PeerCertificates state of
          [Some c] \<Rightarrow> Some \<lparr>pm_URIs = map the (cert_URIs c), pm_DNSNames = [], pm_EmailAddresses = [], pm_IPAddresses = [],
             pm_FingerprintSHA256 = demo_hash (hd (cert_raw c)), pm_Serial = cert_raw c\<rparr>
        | _ \<Rightarrow> None))"

definition demo_release :: ApprovedRelease where
  "demo_release = \<lparr>ar_ID = job_release_id demo_job, ar_SHA256 = job_package_sha256 demo_job,
     ar_ReleaseVersion = job_release_version demo_job, ar_RequiresMaintenance = False, ar_Package = ''package''\<rparr>"

definition demo_issuer :: "string device_issuer" where
  "demo_issuer = \<lparr>is_caPEM = ''ca'', is_issuerID = ''ca-1'', is_lifetime = 24 * hour, is_CA_NotAfter = 12 * hour,
     is_CreateCertificate = (\<lambda>template csr. Some csr)\<rparr>"

definition demo_env :: "string api_env" where
  "demo_env = \<lparr>env_VerifiedPeer = demo_VerifiedPeer,
     env_pem_Decode = (\<lambda>s. Some (''CERTIFICATE REQUEST'', s, [])), env_ParseCertificateRequest = Some,
     env_CheckSignature = (\<lambda>_. True), env_isP256 = (\<lambda>_. True), env_deviceIssuer = Some demo_issuer,
     env_updateCatalog = Some [(ar_ID demo_release, demo_release)], env_sessions = None, env_protect = False\<rparr>"

definition demo_request :: "char \<Rightarrow> request" where
  "demo_request c = \<lparr>rq_Method = ''POST'', rq_Path = ''/'', rq_PathValue_id = job_id demo_job, rq_RemoteAddr = ''192.0.2.7:4000'',
     rq_Header = (\<lambda>_. []), rq_Cookies = [],
     rq_TLS = Some \<lparr>PeerCertificates = [Some \<lparr>cert_raw = [c], cert_URIs = [Some (expectedURISAN ''ws-1'')]\<rparr>]\<rparr>,
     rq_ParseForm_ok = True, rq_Query = [], rq_PostForm = []\<rparr>"

definition demo_secret :: string where
  "demo_secret = replicate 32 (CHR ''s'')"

definition demo_device_server :: srv where
  "demo_device_server = calm_server (demo_renewal_tables\<lparr>
     clients := map (\<lambda>c. c\<lparr>cli_auth_mode := ''certificate_required''\<rparr>) (clients demo_renewal_tables),
     client_update_jobs := [demo_job]\<rparr>)"

definition demo_enrollment_server :: srv where
  "demo_enrollment_server = (let t = demo_renewal_tables\<lparr>client_device_credentials := [],
       client_enrollment_tokens := [demo_token\<lparr>et_token_hash := hex_encode (sha256 demo_secret)\<rparr>]\<rparr>
     in (calm_server t)\<lparr>wd := (calm_world t)\<lparr>rnd := (\<lambda>_. Some (replicate 15 (CHR 0x00) @ [CHR 0x01]))\<rparr>\<rparr>)"

definition demo_enrollment :: deviceEnrollmentRequest where
  "demo_enrollment = \<lparr>er_ClientID = ''ws-1'', er_Token = demo_secret, er_CSR = ''csr''\<rparr>"

definition demo_status :: ClientStatusRequest where
  "demo_status = \<lparr>cs_ClientID = ''ws-1'', cs_Version = ''1.0.0'', cs_NetworkStatus = ''ok'', cs_ADStatus = ''ok'',
     cs_CameraStatus = ''ok'', cs_KerberosStatus = ''ok'', cs_Update = None\<rparr>"

lemma answered: "fst x = a \<Longrightarrow> x = (a, snd x)"
  by (simp add: prod_eq_iff)

lemma demo_clients_ok: "ok_clients (tb (wd demo_device_server))"
  by code_simp

lemma answered_json: "(case fst x of Json _ _ \<Rightarrow> True | _ \<Rightarrow> False) \<Longrightarrow> \<exists>n b. x = (Json n b, snd x)"
  by (auto simp: prod_eq_iff split: response.splits)

theorem update_start_authorized_witness:
  "\<exists>j' \<in> set (client_update_jobs (tb (wd (snd (startClientUpdate demo_env (demo_request (CHR ''b'')) demo_device_server))))).
     job_id j' = job_id demo_job \<and> job_state j' = JobDispatched"
proof -
  have "fst (startClientUpdate demo_env (demo_request (CHR ''b'')) demo_device_server) = NoContent" by code_simp
  moreover have "rq_PathValue_id (demo_request (CHR ''b'')) = job_id demo_job" by (simp add: demo_request_def)
  ultimately show ?thesis using update_start_authorized [OF answered demo_clients_ok] by metis
qed

theorem poll_offers_due_job_witness:
  "\<exists>c j. device_authenticated demo_env (demo_request (CHR ''b'')) c demo_device_server \<and> job_client_id j = cli_client_id c \<and>
     fst (pollClientUpdate demo_env (demo_request (CHR ''b'')) demo_device_server) = Json 200 j"
proof -
  have "fst (pollClientUpdate demo_env (demo_request (CHR ''b'')) demo_device_server) = Json 200 demo_job" by code_simp
  from poll_offers_due_job [OF answered [OF this] demo_clients_ok] this show ?thesis by blast
qed

theorem package_only_for_open_job_witness:
  "\<exists>c. device_authenticated demo_env (demo_request (CHR ''b'')) c demo_device_server \<and>
     fst (downloadClientUpdate demo_env (demo_request (CHR ''b'')) demo_device_server) = Json 200 ''package''"
proof -
  have "fst (downloadClientUpdate demo_env (demo_request (CHR ''b'')) demo_device_server) = Json 200 ''package''" by code_simp
  from package_only_for_open_job [OF answered [OF this] demo_clients_ok] this show ?thesis by blast
qed

theorem status_report_authenticated_witness:
  "\<exists>c now. cli_client_id c = ''ws-1'' \<and> cli_enabled c \<and>
     (certificate_matches demo_env (demo_request (CHR ''b'')) now c (tb (wd demo_device_server)) \<or> bearer_valid (demo_request (CHR ''b'')) c)"
proof -
  have "fst (clientStatus demo_env (demo_request (CHR ''b'')) (Some demo_status) demo_device_server) = NoContent" by code_simp
  from status_report_authenticated [OF answered [OF this]] show ?thesis by (auto simp: demo_status_def)
qed

theorem activation_needs_pending_certificate_witness:
  "\<exists>c \<in> set (client_device_credentials (tb (wd (snd (activateClientDeviceCertificate demo_env (demo_request (CHR ''d'')) demo_device_server))))).
     dc_status c = CredActive"
proof -
  have "fst (activateClientDeviceCertificate demo_env (demo_request (CHR ''d'')) demo_device_server) = NoContent" by code_simp
  from activation_needs_pending_certificate [OF answered [OF this]] show ?thesis by blast
qed

lemma valid_sha256 [simp]: "validSHA256 (hex_encode (sha256 m))"
  by (simp add: validSHA256_def)

lemma demo_issue_parts:
  "be_nat (replicate 15 (CHR 0x00) @ [CHR 0x01]) = 1"
  "hex_encode (replicate 15 (CHR 0x00) @ [CHR 0x01]) = ''00000000000000000000000000000001''"
  "show_hex (Suc 0) = ''1''"
  "length demo_secret = 32" "validClientID ''ws-1''" "validPublicIdentifier ''ws-1''"
  "validPublicIdentifier ''00000000000000000000000000000001''" "validCertificateSerial ''1''"
  "validPublicIdentifier ''ECDSA-P256''" "validPublicIdentifier ''ca-1''" "valid_audit_ip ''192.0.2.7''"
  "remoteIP (demo_request (CHR ''b'')) = ''192.0.2.7''" "clientURIPrefix @ ''ws-1'' = expectedURISAN ''ws-1''"
  "\<not> 255 < length (expectedURISAN ''ws-1'')" "\<not> IsZero 0"  "\<not> IsZero (- (30 * second))"
  by code_simp+

lemma demo_enrollment_client: "\<exists>c. clients demo_renewal_tables = [c] \<and> cli_client_id c = ''ws-1'' \<and> cli_enabled c"
proof -
  have "map (\<lambda>c. (cli_client_id c, cli_enabled c)) (clients demo_renewal_tables) = [(''ws-1'', True)]" by code_simp
  then show ?thesis by (auto simp: map_eq_Cons_conv)
qed

lemma demo_enrolls: "case fst (enrollClientDeviceCertificate demo_env (demo_request (CHR ''b'')) (Some demo_enrollment) demo_enrollment_server)
  of Json _ _ \<Rightarrow> True | _ \<Rightarrow> False"
proof -
  obtain c where c: "clients demo_renewal_tables = [c]" "cli_client_id c = ''ws-1''" "cli_enabled c"
    using demo_enrollment_client by blast
  have seq: "audit_seq demo_renewal_tables = 0" by code_simp
  show ?thesis
    unfolding enrollClientDeviceCertificate_def
    by (simp add: demo_env_def demo_enrollment_def demo_issue_parts parseDeviceCSR_def with_now_def call_def reply_def Let_def
      ValidClientEnrollmentToken_def EnrollClientDeviceCredentialWithAudit_def issue_def demo_issuer_def
      dthen_def dbind_def ensure_def ret_def query_row_def exec_def one_row_def RowsAffected_def rand_m_def tx_def
      demo_enrollment_server_def calm_server_def calm_world_def tick_def c seq demo_token_def hour_def minute_def second_def
      validateDeviceCredential_def count_is_def catch_def pending_count_def supersede_stale_pending_def
      update_device_credentials_def insert_device_credential_def insert_audit_def consume_enrollment_token_def
      ok_client_enrollment_tokens_def ok_client_device_credentials_def update_where_def count_where_def throw_def
      time_sub_def max_int64_def IsZero_def zero_time_def fromUnix_def min_int64_def)
qed

theorem enrolled_certificate_bound_to_token_witness:
  "\<exists>c \<in> set (client_device_credentials (tb (wd (snd
       (enrollClientDeviceCertificate demo_env (demo_request (CHR ''b'')) (Some demo_enrollment) demo_enrollment_server))))).
     dc_client_id c = ''ws-1'' \<and> dc_status c = CredPending"
proof -
  let ?x = "enrollClientDeviceCertificate demo_env (demo_request (CHR ''b'')) (Some demo_enrollment) demo_enrollment_server"
  obtain n b where "?x = (Json n b, snd ?x)" using answered_json [OF demo_enrolls] by blast
  from enrolled_certificate_bound_to_token [OF this] show ?thesis by (auto simp: demo_enrollment_def)
qed

end
