(* ===== verification/Login_Runs.thy ===== *)
theory Login_Runs
  imports Badge_Login
begin

text \<open>
  Runs of the badge login: what a successful authentication has checked, the life of a login grant
  from the login that made it to the one certificate it buys, and how many wrong PINs are evaluated
  in ten minutes.
\<close>

section \<open>A successful badge login\<close>

lemma pinAllowed_frame:
  "grants (snd (pinAllowed k s)) = grants s" "wd (snd (pinAllowed k s)) = tick (wd s)"
  "grants (snd (pinFailed k s)) = grants s" "wd (snd (pinFailed k s)) = tick (wd s)"
  "grants (snd (pinSucceeded k s)) = grants s" "wd (snd (pinSucceeded k s)) = wd s"
  by (simp_all add: pinAllowed_def pinFailed_def pinSucceeded_def Let_def)

lemma auth_reason_frame:
  assumes "auth_reason idkey inp k found s = (reason, s1)"
  shows "grants s1 = grants s" "tb (wd s1) = tb (wd s)" "clock (wd s1) = clock (wd s)" "steps (wd s) \<le> steps (wd s1)"
  using assms pinAllowed_frame [of k s] pinAllowed_frame [of k "snd (pinAllowed k s)"]
  by (auto simp: auth_reason_def split: sum.splits prod.splits if_splits)

text \<open>What has been checked when no reason for a denial is left.\<close>

definition badge_verified :: "idkey \<Rightarrow> AuthRequest \<Rightarrow> Badge \<Rightarrow> bool" where
  "badge_verified idkey inp b \<longleftrightarrow> Badge_Enabled b \<and> VerifyToken (aq_Token inp) (Badge_TokenHash b) \<and>
     (Badge_PINHash b \<noteq> [] \<longrightarrow> Verify idkey (aq_PIN inp) (Badge_PINHash b))"

lemma auth_reason_accepts:
  assumes "auth_reason idkey inp k found s = ([], s1)"
  obtains b where "found = Inr b" "badge_verified idkey inp b" "Badge_PINHash b \<noteq> [] \<Longrightarrow> fst (pinAllowed k s)"
  using assms by (auto simp: auth_reason_def badge_verified_def split: sum.splits prod.splits if_splits)

lemma BadgeByCode_returns:
  assumes "BadgeByCode code w = (Inr b, w')"
  obtains row u where "row \<in> set (badges (tb w))" "u \<in> set (users (tb w))" "bdg_code row = code"
    "usr_id u = bdg_user_id row" "b = scanSQLiteBadge (row, u)" "w' = tick w"
  using assms by (auto simp: BadgeByCode_def query_row_Inr map_eq_Cons_conv dest!: select_badges_mem)

lemma record_success_returns:
  assumes "RecordBadgeAuthenticationSuccess i client ip w = (Inr u, w')"
  shows "\<exists>e. audit_log (tb w') = audit_log (tb w) @ [e] \<and> aud_event_type e = ''auth_success'' \<and> aud_client_id e = client"
    "clock w' = clock w" "steps w \<le> steps w'"
  using assms
  by (auto simp: RecordBadgeAuthenticationSuccess_def db_simps insert_audit_def update_badges_def audit_event_def Let_def
      split: if_splits)

text \<open>What a successful login leaves behind.\<close>

lemma auth_accepts:
  assumes "auth idkey r (Some inp) s = (Json n resp, s')" "ap_Valid resp"
  obtains row u now where "row \<in> set (badges (tb (wd s)))" "u \<in> set (users (tb (wd s)))" "bdg_code row = aq_BadgeID inp"
    "usr_id u = bdg_user_id row" "badge_verified idkey inp (scanSQLiteBadge (row, u))" "ap_Username resp = usr_username u"
    "usr_pin_hash u \<noteq> [] \<Longrightarrow> fst (pinAllowed (pin_key inp (remoteIP r)) (s\<lparr>wd := tick (wd s)\<rparr>))"
    "request_time s now" "now \<le> clock (wd s) (steps (wd s')) \<or> \<not> mono (clock (wd s))" "later s s'"
    "grants s' = (\<lambda>k. case grants s k of None \<Rightarrow> None | Some v \<Rightarrow> if \<not> lg_Expires v > now then None else Some v)
       (ap_LoginGrant resp \<mapsto> \<lparr>lg_Username = usr_username u, lg_ClientID = aq_ClientID inp, lg_Expires = now + 30 * second\<rparr>)"
    "\<exists>e. audit_log (tb (wd s')) = audit_log (tb (wd s)) @ [e] \<and> aud_event_type e = ''auth_success'' \<and> aud_client_id e = aq_ClientID inp"
proof -
  have nd: "\<not> ap_Valid (denied reason)" for reason by (simp add: denied_def)
  let ?s0 = "s\<lparr>wd := tick (wd s)\<rparr>" and ?k = "pin_key inp (remoteIP r)"
  from assms(1) obtain found w0 where found: "BadgeByCode (aq_BadgeID inp) (wd s) = (found, w0)"
    and body: "auth_body idkey r inp found (s\<lparr>wd := w0\<rparr>) = (Json n resp, s')"
    by (auto simp: auth_def http_simps split: if_splits)
  from body assms(2) nd obtain s1 b bytes w2 where
    reason: "auth_reason idkey inp ?k found (s\<lparr>wd := w0\<rparr>) = ([], s1)" and b: "found = Inr b"
    and rand: "rand_m (wd s1) = (Inr bytes, w2)"
    and rest: "call (RecordBadgeAuthenticationSuccess (Badge_ID b) (aq_ClientID inp) (remoteIP r))
                (\<lambda>_. reply (Problem 503 ''authentication_unavailable'')) (\<lambda>_.
              asks (saveLoginGrant (RawURL_encode bytes) (Badge_Username b) (aq_ClientID inp)) (\<lambda>_.
              asks (pinSucceeded ?k) (\<lambda>_.
              reply (Json 200 \<lparr>ap_Valid = True, ap_Username = Badge_Username b, ap_DisplayName = Badge_DisplayName b,
                 ap_BadgeID = Badge_BadgeCode b, ap_Reason = [], ap_LoginGrant = RawURL_encode bytes\<rparr>)))) (s1\<lparr>wd := w2\<rparr>) = (Json n resp, s')"
    unfolding auth_body_def Let_def audit_def
    by (auto simp: http_simps split: sum.splits if_splits)
  from found b obtain row u where row: "row \<in> set (badges (tb (wd s)))" "u \<in> set (users (tb (wd s)))"
    "bdg_code row = aq_BadgeID inp" "usr_id u = bdg_user_id row" "b = scanSQLiteBadge (row, u)" and w0: "w0 = tick (wd s)"
    by (auto elim!: BadgeByCode_returns)
  from reason b have ver: "badge_verified idkey inp b" "Badge_PINHash b \<noteq> [] \<Longrightarrow> fst (pinAllowed ?k ?s0)"
    using w0 by (auto elim!: auth_reason_accepts)
  note frame = auth_reason_frame [OF reason]
  from rand have w2: "w2 = tick (wd s1)" by (simp add: rand_m_Inr)
  from rest obtain x w3 where rec: "RecordBadgeAuthenticationSuccess (Badge_ID b) (aq_ClientID inp) (remoteIP r) w2 = (Inr x, w3)"
    and s': "s' = snd (pinSucceeded ?k (snd (saveLoginGrant (RawURL_encode bytes) (Badge_Username b) (aq_ClientID inp) (s1\<lparr>wd := w3\<rparr>))))"
    and resp: "ap_Username resp = Badge_Username b" "ap_LoginGrant resp = RawURL_encode bytes"
    by (auto simp: http_simps)
  let ?now = "clock w3 (steps w3)"
  have gr: "grants s' = (\<lambda>k. case grants s1 k of None \<Rightarrow> None | Some v \<Rightarrow> if \<not> lg_Expires v > ?now then None else Some v)
       (RawURL_encode bytes \<mapsto> \<lparr>lg_Username = Badge_Username b, lg_ClientID = aq_ClientID inp, lg_Expires = ?now + 30 * second\<rparr>)"
    and wd': "wd s' = tick w3"
    by (simp_all add: s' pinAllowed_frame saveLoginGrant_def Let_def)
  have time: "clock w3 = clock (wd s)" "steps (wd s) \<le> steps w3"
    using record_success_returns(2,3) [OF rec] frame(3,4) w0 w2 by simp_all
  show thesis
  proof (rule that [of row u ?now])
    show "request_time s ?now" using time by (auto simp: request_time_def)
    show "?now \<le> clock (wd s) (steps (wd s')) \<or> \<not> mono (clock (wd s))"
      using time(1) wd' by (auto intro: monoD)
    show "later s s'" using time wd' by (simp add: later_def)
    show "\<exists>e. audit_log (tb (wd s')) = audit_log (tb (wd s)) @ [e] \<and> aud_event_type e = ''auth_success'' \<and>
        aud_client_id e = aq_ClientID inp"
      using record_success_returns(1) [OF rec] frame(2) w0 w2 wd' by simp
  qed (use row ver gr frame(1) resp in \<open>simp_all add: scanSQLiteBadge_def\<close>)
qed

section \<open>Login grants over a run of the server\<close>

text \<open>A request to one of the two endpoints, its answer, and the run of a list of requests: for
  each request its answer and the state it found.\<close>

datatype login_request = AuthReq request "AuthRequest option" | PkinitReq request "PKINITRequest option"

datatype login_answer = AuthAns "AuthResponse response" | PkinitAns "PKINITResponse response"

fun serve :: "idkey \<Rightarrow> 'csr PKINITIssuer option \<Rightarrow> login_request \<Rightarrow> srv \<Rightarrow> login_answer \<times> srv" where
  "serve idkey pk (AuthReq r body) s = map_prod AuthAns id (auth idkey r body s)"
| "serve idkey pk (PkinitReq r body) s = map_prod PkinitAns id (issuePKINIT pk r body s)"

fun serve_all :: "idkey \<Rightarrow> 'csr PKINITIssuer option \<Rightarrow> login_request list \<Rightarrow> srv \<Rightarrow> (login_request \<times> login_answer \<times> srv) list" where
  "serve_all idkey pk [] s = []"
| "serve_all idkey pk (q # qs) s = (case serve idkey pk q s of (a, s') \<Rightarrow> (q, a, s) # serve_all idkey pk qs s')"

text \<open>The login that returned a grant, and the certificate that was issued for one.\<close>

fun grants_login :: "string \<Rightarrow> login_request \<times> login_answer \<times> srv \<Rightarrow> bool" where
  "grants_login k (AuthReq r (Some inp), AuthAns (Json n resp), s) = (ap_Valid resp \<and> ap_LoginGrant resp = k)"
| "grants_login k _ = False"

fun certificate_issued :: "string \<Rightarrow> login_request \<times> login_answer \<times> srv \<Rightarrow> bool" where
  "certificate_issued k (PkinitReq r (Some inp), PkinitAns (Json n resp), s) = (pq_Grant inp = k)"
| "certificate_issued k _ = False"

lemma redeem_effect:
  "redeemLoginGrant k c s = (g, s1) \<Longrightarrow>
   grants s1 = (grants s)(k := None) \<and> (g \<noteq> None \<longrightarrow> grants s k = g \<and> lg_ClientID (the g) = c \<and> srv_now s < lg_Expires (the g))"
  by (auto simp: redeemLoginGrant_def srv_now_def Let_def split: option.splits if_splits)

lemma certify_login_frame:
  assumes "certify_login i r inp g s = (resp, s')"
  shows "grants s' = grants s \<and> (\<forall>n a. resp = Json n a \<longrightarrow> pp_Username a = lg_Username g)"
  using assms by (auto simp: certify_login_def http_simps split: option.splits prod.splits if_splits)

lemma issuePKINIT_cases:
  assumes "issuePKINIT pk r body s = (resp, s')"
  obtains "grants s' = grants s" "\<And>n a. resp \<noteq> Json n a"
  | inp where "body = Some inp" "grants s' = (grants s)(pq_Grant inp := None)" "\<And>n a. resp \<noteq> Json n a"
  | inp g where "body = Some inp" "grants s' = (grants s)(pq_Grant inp := None)" "grants s (pq_Grant inp) = Some g"
      "lg_ClientID g = pq_ClientID inp" "srv_now s < lg_Expires g" "loginUsername (lg_Username g)"
      "\<And>n a. resp = Json n a \<Longrightarrow> pp_Username a = lg_Username g"
  using assms
  by (auto simp: issuePKINIT_def Let_def http_simps split: option.splits if_splits
      dest!: audit_answer redeem_effect certify_login_frame)

lemma auth_denied_grants:
  assumes "auth idkey r body s = (resp, s')" "\<not> (\<exists>inp n a. body = Some inp \<and> resp = Json n a \<and> ap_Valid a)"
  shows "grants s' = grants s"
  using assms
  by (auto simp: auth_def auth_body_def Let_def http_simps split: option.splits if_splits sum.splits
      dest!: audit_answer auth_reason_frame(1))

lemma serve_auth_grants:
  assumes "auth idkey r body s = (a, s')"
  shows "grants s' k \<noteq> None \<Longrightarrow> grants s k \<noteq> None \<or> grants_login k (AuthReq r body, AuthAns a, s)"
proof (cases "\<exists>inp n x. body = Some inp \<and> a = Json n x \<and> ap_Valid x")
  case True
  then obtain inp n x where x: "body = Some inp" "a = Json n x" "ap_Valid x" by blast
  assume "grants s' k \<noteq> None"
  with assms [unfolded x(1,2)] x(3) show ?thesis
    by (auto elim!: auth_accepts simp: x split: if_splits option.splits)
next
  case False
  assume "grants s' k \<noteq> None"
  with auth_denied_grants [OF assms] False show ?thesis by simp
qed

lemma serve_pkinit_grants:
  assumes "issuePKINIT pk r body s = (a, s')"
  shows "of_bool (certificate_issued k (PkinitReq r body, PkinitAns a, s)) + of_bool (grants s' k \<noteq> None)
    \<le> (of_bool (grants s k \<noteq> None) :: nat)"
  using assms
proof (cases rule: issuePKINIT_cases)
  case 1
  then have "\<not> certificate_issued k (PkinitReq r body, PkinitAns a, s)"
    by (cases body; cases a) auto
  with 1 show ?thesis by simp
next
  case (2 inp)
  then have "\<not> certificate_issued k (PkinitReq r body, PkinitAns a, s)"
    by (cases a) auto
  with 2 show ?thesis by simp
next
  case (3 inp g)
  then show ?thesis by (cases a) (auto simp: of_bool_def)
qed

lemma certificates_bounded:
  "length (filter (certificate_issued k) (serve_all idkey pk qs s))
   \<le> length (filter (grants_login k) (serve_all idkey pk qs s)) + of_bool (grants s k \<noteq> None)"
proof (induction qs arbitrary: s)
  case (Cons q qs)
  show ?case
  proof (cases q)
    case (AuthReq r body)
    obtain a s' where run: "auth idkey r body s = (a, s')" by (cases "auth idkey r body s")
    have "(of_bool (grants s' k \<noteq> None) :: nat) \<le> of_bool (grants s k \<noteq> None) + of_bool (grants_login k (AuthReq r body, AuthAns a, s))"
      using serve_auth_grants [OF run, of k] by (cases "grants s' k") (auto simp: of_bool_def)
    with Cons.IH [of s'] show ?thesis by (simp add: AuthReq run of_bool_def split: if_splits)
  next
    case (PkinitReq r body)
    obtain a s' where run: "issuePKINIT pk r body s = (a, s')" by (cases "issuePKINIT pk r body s")
    from serve_pkinit_grants [OF run, of k] Cons.IH [of s'] show ?thesis
      by (simp add: PkinitReq run of_bool_def split: if_splits)
  qed
qed simp

text \<open>
  C3: A login grant is used at most once.  In every run of badge logins and certificate requests
  of a freshly started server, with every failure of the database, at most as many certificates
  are issued for a grant as logins returned it: one, unless the random source repeats itself.
\<close>

theorem login_grant_single_use:
  assumes "\<And>k. grants s k = None"
  shows "length (filter (certificate_issued k) (serve_all idkey pk qs s))
    \<le> length (filter (grants_login k) (serve_all idkey pk qs s))"
  using certificates_bounded [of k idkey pk qs s] assms by simp

text \<open>The login behind a grant: which badge, which user, which client, and when.\<close>

definition login_behind :: "idkey \<Rightarrow> string \<Rightarrow> loginGrant \<Rightarrow> login_request \<times> login_answer \<times> srv \<Rightarrow> bool" where
  "login_behind idkey k g = (\<lambda>(q, a, s). \<exists>r inp n resp row u now. q = AuthReq r (Some inp) \<and> a = AuthAns (Json n resp) \<and>
     ap_Valid resp \<and> ap_LoginGrant resp = k \<and> lg_Username g = usr_username u \<and> lg_ClientID g = aq_ClientID inp \<and>
     row \<in> set (badges (tb (wd s))) \<and> u \<in> set (users (tb (wd s))) \<and> bdg_code row = aq_BadgeID inp \<and>
     usr_id u = bdg_user_id row \<and> badge_verified idkey inp (scanSQLiteBadge (row, u)) \<and>
     request_time s now \<and> lg_Expires g = now + 30 * second)"

lemma serve_grant_origin:
  assumes "serve idkey pk q s = (a, s')" "grants s' k = Some g"
  shows "grants s k = Some g \<or> login_behind idkey k g (q, a, s)"
proof (cases q)
  case (PkinitReq r body)
  then obtain x where "issuePKINIT pk r body s = (x, s')" using assms(1) by (auto simp: map_prod_def split: prod.splits)
  then show ?thesis using assms(2) by (cases rule: issuePKINIT_cases) (auto split: if_splits)
next
  case (AuthReq r body)
  then obtain x where run: "auth idkey r body s = (x, s')" and a: "a = AuthAns x"
    using assms(1) by (auto simp: map_prod_def split: prod.splits)
  show ?thesis
  proof (cases "\<exists>inp n y. body = Some inp \<and> x = Json n y \<and> ap_Valid y")
    case False
    with auth_denied_grants [OF run] assms(2) show ?thesis by simp
  next
    case True
    then obtain inp n y where y: "body = Some inp" "x = Json n y" "ap_Valid y" by blast
    from run [unfolded y(1,2)] y(3) obtain row u now where
      row: "row \<in> set (badges (tb (wd s)))" "u \<in> set (users (tb (wd s)))" "bdg_code row = aq_BadgeID inp"
      "usr_id u = bdg_user_id row" "badge_verified idkey inp (scanSQLiteBadge (row, u))" and time: "request_time s now"
      and gr: "grants s' = (\<lambda>k. case grants s k of None \<Rightarrow> None | Some v \<Rightarrow> if \<not> lg_Expires v > now then None else Some v)
       (ap_LoginGrant y \<mapsto> \<lparr>lg_Username = usr_username u, lg_ClientID = aq_ClientID inp, lg_Expires = now + 30 * second\<rparr>)"
      by (rule auth_accepts)
    show ?thesis
    proof (cases "k = ap_LoginGrant y")
      case True
      with gr assms(2) have "g = \<lparr>lg_Username = usr_username u, lg_ClientID = aq_ClientID inp, lg_Expires = now + 30 * second\<rparr>"
        by simp
      with True row time y AuthReq a show ?thesis by (auto simp: login_behind_def)
    next
      case False
      with gr assms(2) show ?thesis by (auto split: option.splits if_splits)
    qed
  qed
qed

lemma certificate_origin:
  assumes "i < length (serve_all idkey pk qs s)"
    "serve_all idkey pk qs s ! i = (PkinitReq r (Some inp), PkinitAns (Json n resp), si)"
  shows "\<exists>g. lg_ClientID g = pq_ClientID inp \<and> srv_now si < lg_Expires g \<and> pp_Username resp = lg_Username g \<and>
    (grants s (pq_Grant inp) = Some g \<or> (\<exists>j < i. login_behind idkey (pq_Grant inp) g (serve_all idkey pk qs s ! j)))"
  using assms
proof (induction qs arbitrary: s i)
  case (Cons q qs)
  obtain a s' where run: "serve idkey pk q s = (a, s')" by (cases "serve idkey pk q s")
  show ?case
  proof (cases i)
    case 0
    with Cons.prems run have q: "q = PkinitReq r (Some inp)" "a = PkinitAns (Json n resp)" "si = s" by simp_all
    with run have "issuePKINIT pk r (Some inp) s = (Json n resp, s')" by (auto simp: map_prod_def split: prod.splits)
    then show ?thesis using q(3) by (cases rule: issuePKINIT_cases) auto
  next
    case (Suc m)
    with Cons.prems run obtain g where g: "lg_ClientID g = pq_ClientID inp" "srv_now si < lg_Expires g"
      "pp_Username resp = lg_Username g"
      and from_: "grants s' (pq_Grant inp) = Some g \<or> (\<exists>j < m. login_behind idkey (pq_Grant inp) g (serve_all idkey pk qs s' ! j))"
      using Cons.IH [of m s'] by auto
    from from_ have "grants s (pq_Grant inp) = Some g \<or>
        (\<exists>j < i. login_behind idkey (pq_Grant inp) g (serve_all idkey pk (q # qs) s ! j))"
    proof
      assume "grants s' (pq_Grant inp) = Some g"
      from serve_grant_origin [OF run this] show ?thesis using Suc run by auto
    next
      assume "\<exists>j < m. login_behind idkey (pq_Grant inp) g (serve_all idkey pk qs s' ! j)"
      then obtain j where "j < m" "login_behind idkey (pq_Grant inp) g (serve_all idkey pk qs s' ! j)" by blast
      then have "Suc j < i \<and> login_behind idkey (pq_Grant inp) g (serve_all idkey pk (q # qs) s ! Suc j)" using Suc run by simp
      then show ?thesis by blast
    qed
    with g show ?thesis by blast
  qed
qed simp

text \<open>
  C2: No Kerberos certificate without a badge.  In every run of a freshly started server, a
  certificate for a user is issued only after an earlier request of the run in which an enabled
  badge of that user was presented with its token (and with the user's PIN, where one is set), at
  the same client and less than thirty seconds before.
\<close>

theorem kerberos_certificate_needs_badge:
  assumes "\<And>k. grants s k = None" "i < length (serve_all idkey pk qs s)"
    "serve_all idkey pk qs s ! i = (PkinitReq r (Some inp), PkinitAns (Json n resp), si)"
  shows "\<exists>j < i. \<exists>r' inp' m resp' sj row u now. serve_all idkey pk qs s ! j = (AuthReq r' (Some inp'), AuthAns (Json m resp'), sj) \<and>
    ap_LoginGrant resp' = pq_Grant inp \<and> aq_ClientID inp' = pq_ClientID inp \<and>
    row \<in> set (badges (tb (wd sj))) \<and> u \<in> set (users (tb (wd sj))) \<and> usr_id u = bdg_user_id row \<and>
    bdg_code row = aq_BadgeID inp' \<and> bdg_enabled row \<and> VerifyToken (aq_Token inp') (bdg_token_hash row) \<and>
    (usr_pin_hash u \<noteq> [] \<longrightarrow> Verify idkey (aq_PIN inp') (usr_pin_hash u)) \<and>
    pp_Username resp = usr_username u \<and> request_time sj now \<and> srv_now si < now + 30 * second"
proof -
  from certificate_origin [OF assms(2,3)] assms(1) obtain g j where
    g: "lg_ClientID g = pq_ClientID inp" "srv_now si < lg_Expires g" "pp_Username resp = lg_Username g"
    and j: "j < i" "login_behind idkey (pq_Grant inp) g (serve_all idkey pk qs s ! j)" by auto
  obtain q a sj where tr: "serve_all idkey pk qs s ! j = (q, a, sj)" by (cases "serve_all idkey pk qs s ! j")
  from j(2) [unfolded tr login_behind_def] g j(1) tr show ?thesis
    by (clarsimp simp: badge_verified_def scanSQLiteBadge_def) (metis)
qed

section \<open>Wrong PINs in ten minutes\<close>

fun wrong_pin :: "string \<Rightarrow> login_request \<times> login_answer \<times> srv \<Rightarrow> bool" where
  "wrong_pin k (AuthReq r (Some inp), AuthAns (Json n resp), s) =
     (pin_key inp (remoteIP r) = k \<and> ap_Reason resp = ''invalid_pin'')"
| "wrong_pin k _ = False"

fun right_pin :: "string \<Rightarrow> login_request \<times> login_answer \<times> srv \<Rightarrow> bool" where
  "right_pin k (AuthReq r (Some inp), AuthAns (Json n resp), s) = (pin_key inp (remoteIP r) = k \<and> ap_Valid resp)"
| "right_pin k _ = False"

definition served :: "idkey \<Rightarrow> 'csr PKINITIssuer option \<Rightarrow> login_request list \<Rightarrow> srv \<Rightarrow> srv" where
  "served idkey pk qs s = foldl (\<lambda>s q. snd (serve idkey pk q s)) s qs"

lemma later_limiter:
  "later s (snd (pinAllowed k s))" "later s (snd (pinFailed k s))" "later s (snd (pinSucceeded k s))"
  "later s (snd (saveLoginGrant t u c s))" "later s (snd (redeemLoginGrant t c s))"
  by (auto simp: later_def pinAllowed_def pinFailed_def pinSucceeded_def saveLoginGrant_def redeemLoginGrant_def Let_def
      split: option.splits)

lemma later_auth_reason: "later s (snd (auth_reason idkey inp k found s))"
proof -
  obtain reason s1 where "auth_reason idkey inp k found s = (reason, s1)" by (cases "auth_reason idkey inp k found s")
  then show ?thesis using auth_reason_frame by (simp add: later_def)
qed

lemma patient_audit [patient_intros]: "patient h \<Longrightarrow> patient (audit e h)"
  unfolding audit_def by (intro patient_intros steady_intros)

lemma patient_auth: "patient (auth idkey r body)"
  unfolding auth_def auth_body_def Let_def
  by (auto intro!: patient_intros steady_intros later_limiter later_auth_reason split: option.splits sum.splits)

lemma patient_pkinit: "patient (issuePKINIT pk r body)"
  unfolding issuePKINIT_def certify_login_def Let_def
  by (auto intro!: patient_intros steady_intros later_limiter split: option.splits prod.splits)

lemma serve_later: "later s (snd (serve idkey pk q s))"
  by (cases q) (auto simp: map_prod_def split: prod.splits intro: patientD [OF patient_auth] patientD [OF patient_pkinit])

lemma served_later: "later s (served idkey pk qs s)"
  by (induction qs arbitrary: s) (auto simp: served_def intro: later_trans [OF serve_later])

lemma auth_reason_attempts:
  assumes "auth_reason idkey inp k found s = (reason, s1)"
  shows "if reason = ''invalid_pin'' then fst (pinAllowed k s) \<and> s1 = snd (pinFailed k (snd (pinAllowed k s)))
    else s1 = s \<or> s1 = snd (pinAllowed k s)"
  using assms by (auto simp: auth_reason_def split: sum.splits prod.splits if_splits)

text \<open>A request with another key, or without a PIN check, leaves the attempts of a key alone.\<close>

definition attempts_kept :: "string \<Rightarrow> srv \<Rightarrow> srv \<Rightarrow> bool" where
  "attempts_kept k s s' \<longleftrightarrow> pinAttempts s' k = pinAttempts s k \<or>
     (\<exists>s0. later s s0 \<and> later s0 s' \<and> pinAttempts s' k = recent_attempts (srv_now s0) (pinAttempts s k))"

definition attempt_failed :: "string \<Rightarrow> srv \<Rightarrow> srv \<Rightarrow> bool" where
  "attempt_failed k s s' \<longleftrightarrow> (\<exists>s0 s1. later s s0 \<and> later s0 s1 \<and> later s1 s' \<and> fst (pinAllowed k s0) \<and> pinAttempts s0 = pinAttempts s \<and>
     pinAttempts s' k = recent_attempts (srv_now s0) (pinAttempts s k) @ [srv_now s1])"

lemma audit_reply:
  assumes "audit e (reply x) s = (y, s')"
  shows "y = x" "later s s'" "pinAttempts s' = pinAttempts s"
  using audit_answer [OF assms] patientD [OF patient_audit [OF patient_reply] assms] by auto

lemma same_attempts: "s' = s\<lparr>wd := w\<rparr> \<Longrightarrow> pinAttempts s' = pinAttempts s"
  by simp

lemma auth_cases:
  assumes "auth idkey r body s = (a, s')"
  obtains (bad) "s' = s" "\<And>n x. a \<noteq> Json n x"
  | (denied) inp s0 s1 reason found where "body = Some inp" "later s s0" "pinAttempts s0 = pinAttempts s"
      "auth_reason idkey inp (pin_key inp (remoteIP r)) found s0 = (reason, s1)" "a = Json 200 (denied reason)"
      "later s1 s'" "pinAttempts s' = pinAttempts s1"
  | (failed) inp s0 s1 found where "body = Some inp" "later s s0" "pinAttempts s0 = pinAttempts s"
      "auth_reason idkey inp (pin_key inp (remoteIP r)) found s0 = ([], s1)" "\<And>n x. a \<noteq> Json n x"
      "later s1 s'" "pinAttempts s' = pinAttempts s1"
  | (valid) inp n x where "body = Some inp" "a = Json n x" "ap_Valid x" "ap_Reason x = []"
      "\<And>k. k \<noteq> pin_key inp (remoteIP r) \<Longrightarrow> pinAttempts s' k = pinAttempts s k"
proof (cases "\<exists>inp. body = Some inp \<and> \<not> (aq_BadgeID inp = [] \<or> aq_Token inp = [] \<or> aq_ClientID inp = [])")
  case False
  then have "s' = s" "\<And>n x. a \<noteq> Json n x"
    using assms by (auto simp: auth_def http_simps split: option.splits if_splits)
  then show thesis by (rule bad)
next
  case True
  then obtain inp found w where inp: "body = Some inp" and found: "BadgeByCode (aq_BadgeID inp) (wd s) = (found, w)"
    and run: "auth_body idkey r inp found (s\<lparr>wd := w\<rparr>) = (a, s')"
    using assms by (auto simp: auth_def http_simps)
  obtain reason s1 where reason: "auth_reason idkey inp (pin_key inp (remoteIP r)) found (s\<lparr>wd := w\<rparr>) = (reason, s1)"
    by fastforce
  have l0: "later s (s\<lparr>wd := w\<rparr>)" using steadyD [OF steady_store(1) found] by (simp add: later_def)
  have p0: "pinAttempts (s\<lparr>wd := w\<rparr>) = pinAttempts s" by simp
  show thesis
  proof (cases "reason = []")
    case False
    with run reason obtain e where "audit e (reply (Json 200 (denied reason))) s1 = (a, s')"
      by (auto simp: auth_body_def Let_def http_simps)
    from audit_reply [OF this] show thesis by (intro denied [OF inp l0 p0 reason]) auto
  next
    case True
    then obtain b where b: "found = Inr b" using reason by (auto elim: auth_reason_accepts)
    let ?problem = "s' = s1\<lparr>wd := wd s'\<rparr> \<and> (\<forall>n x. a \<noteq> Json n x)"
    from run reason True b consider
        (ok) n x where "a = Json n x" "ap_Valid x" "ap_Reason x = []"
          "\<And>k. k \<noteq> pin_key inp (remoteIP r) \<Longrightarrow> pinAttempts s' k = pinAttempts s1 k"
      | (rand) e where "rand_m (wd s1) = (Inl e, wd s')" ?problem
      | (recording) v w2 e where "rand_m (wd s1) = (Inr v, w2)"
          "RecordBadgeAuthenticationSuccess (Badge_ID b) (aq_ClientID inp) (remoteIP r) w2 = (Inl e, wd s')" ?problem
      by (auto simp: auth_body_def Let_def http_simps saveLoginGrant_def pinSucceeded_def)
    then show thesis
    proof cases
      case ok
      moreover have "pinAttempts s1 k = pinAttempts s k" if "k \<noteq> pin_key inp (remoteIP r)" for k
        using auth_reason_attempts [OF reason] True that by (auto simp: pin_limiter.allowed_table)
      ultimately show thesis using inp by (intro valid) auto
    next
      case rand
      have "later s1 s'" using steadyD [OF steady_basic(11) rand(1)] by (simp add: later_def)
      moreover have "pinAttempts s' = pinAttempts s1" using rand(2) same_attempts by blast
      ultimately show thesis using rand(2) failed [OF inp l0 p0 reason [unfolded True]] by blast
    next
      case recording
      have "later s1 s'" using steadyD [OF steady_basic(11) recording(1)] steadyD [OF steady_store(3) recording(2)] by (simp add: later_def)
      moreover have "pinAttempts s' = pinAttempts s1" using recording(3) same_attempts by blast
      ultimately show thesis using recording(3) failed [OF inp l0 p0 reason [unfolded True]] by blast
    qed
  qed
qed

lemma kept_by_reason:
  assumes "later s s0" "pinAttempts s0 = pinAttempts s" "s1 = s0 \<or> s1 = snd (pinAllowed pk s0)" "later s1 s'"
    "pinAttempts s' = pinAttempts s1"
  shows "attempts_kept k s s'"
  using assms(3)
proof
  assume "s1 = s0"
  then show ?thesis using assms(2,5) by (simp add: attempts_kept_def)
next
  assume s1: "s1 = snd (pinAllowed pk s0)"
  then have tab: "pinAttempts s' = (pinAttempts s)(pk := recent_attempts (srv_now s0) (pinAttempts s pk))"
    using assms(2,5) by (simp add: pin_limiter.allowed_table)
  have "later s0 s'" using later_trans [OF later_limiter(1) [of s0 pk]] assms(4) s1 by simp
  with tab assms(1) show ?thesis by (cases "pk = k") (auto simp: attempts_kept_def)
qed

lemma auth_attempts:
  assumes "auth idkey r body s = (a, s')" "\<not> right_pin k (AuthReq r body, AuthAns a, s)"
  shows "if wrong_pin k (AuthReq r body, AuthAns a, s) then attempt_failed k s s' else attempts_kept k s s'"
  using assms(1)
proof (cases rule: auth_cases)
  case bad
  then show ?thesis by (cases body; cases a) (auto simp: attempts_kept_def)
next
  case (denied inp s0 s1 reason found)
  let ?key = "pin_key inp (remoteIP r)"
  have wrong: "wrong_pin k (AuthReq r body, AuthAns a, s) \<longleftrightarrow> ?key = k \<and> reason = ''invalid_pin''"
    using denied by (simp add: denied_def)
  show ?thesis
  proof (cases "reason = ''invalid_pin''")
    case True
    with auth_reason_attempts [OF denied(4)] have f: "fst (pinAllowed ?key s0)"
      "s1 = snd (pinFailed ?key (snd (pinAllowed ?key s0)))" by simp_all
    let ?s1 = "snd (pinAllowed ?key s0)"
    have tab: "pinAttempts s' = (pinAttempts s)(?key := recent_attempts (srv_now s0) (pinAttempts s ?key) @ [srv_now ?s1])"
      using denied(3,7) by (simp add: f(2) pin_limiter.failed_table pin_limiter.allowed_table)
    show ?thesis
    proof (cases "?key = k")
      case False
      with wrong tab show ?thesis by (simp add: attempts_kept_def)
    next
      case True
      have "later ?s1 s'" using later_trans [OF later_limiter(2) [of ?s1 ?key]] denied(6) f(2) by simp
      then have "attempt_failed k s s'"
        unfolding attempt_failed_def using denied(2,3) f(1) tab True
        by (intro exI [of _ s0] exI [of _ ?s1]) (simp add: later_limiter(1))
      with wrong True \<open>reason = _\<close> show ?thesis by simp
    qed
  next
    case False
    with auth_reason_attempts [OF denied(4)] have "s1 = s0 \<or> s1 = snd (pinAllowed ?key s0)" by simp
    then have "attempts_kept k s s'" by (rule kept_by_reason [OF denied(2,3) _ denied(6,7)])
    with wrong False show ?thesis by simp
  qed
next
  case (failed inp s0 s1 found)
  have "\<not> wrong_pin k (AuthReq r body, AuthAns a, s)" using failed(1,5) by (cases a) auto
  moreover have "attempts_kept k s s'"
    using auth_reason_attempts [OF failed(4)] by (intro kept_by_reason [OF failed(2,3) _ failed(6,7)]) simp
  ultimately show ?thesis by simp
next
  case (valid inp n x)
  with assms(2) have "pin_key inp (remoteIP r) \<noteq> k" by simp
  with valid show ?thesis by (auto simp: attempts_kept_def)
qed

lemma redeem_attempts: "redeemLoginGrant k c s = (g, s1) \<Longrightarrow> pinAttempts s1 = pinAttempts s"
  by (auto simp: redeemLoginGrant_def Let_def split: option.splits if_splits)

lemma certify_attempts: "certify_login i r inp g s = (resp, s') \<Longrightarrow> pinAttempts s' = pinAttempts s"
  by (auto simp: certify_login_def http_simps split: option.splits prod.splits if_splits)

text \<open>Attempts recorded since an instant \<open>T\<close> survive every check less than ten minutes after it.\<close>

definition since :: "time \<Rightarrow> string \<Rightarrow> srv \<Rightarrow> nat" where
  "since T k s = length (filter (\<lambda>t. T \<le> t) (pinAttempts s k))"

lemma since_recent:
  "now < T + 10 * minute \<Longrightarrow> filter (\<lambda>t. T \<le> t) (recent_attempts now ts) = filter (\<lambda>t. T \<le> t) ts"
  by (auto simp: recent_attempts_def intro!: filter_cong)

lemma later_now:
  assumes "later s s'" "mono (clock (wd s))"
  shows "srv_now s \<le> srv_now s'"
  using assms by (simp add: later_def srv_now_def monoD)

lemma serve_since:
  assumes "serve idkey pk q s = (a, s')" "\<not> right_pin k (q, a, s)" "mono (clock (wd s))" "T \<le> srv_now s" "srv_now s' < T + 10 * minute"
  shows "if wrong_pin k (q, a, s) then since T k s < 5 \<and> since T k s' = Suc (since T k s) else since T k s' = since T k s"
proof (cases q)
  case (PkinitReq r body)
  then have "\<not> wrong_pin k (q, a, s)" by simp
  moreover obtain x where "issuePKINIT pk r body s = (x, s')" using assms(1) PkinitReq by (auto simp: map_prod_def split: prod.splits)
  then have "pinAttempts s' = pinAttempts s"
    by (auto simp: issuePKINIT_def Let_def http_simps split: option.splits if_splits
        dest!: audit_reply(3) redeem_attempts certify_attempts)
  ultimately show ?thesis by (simp add: since_def)
next
  case (AuthReq r body)
  then obtain x where run: "auth idkey r body s = (x, s')" and a: "a = AuthAns x"
    using assms(1) by (auto simp: map_prod_def split: prod.splits)
  have mono: "mono (clock (wd s1))" if "later s s1" for s1 using assms(3) that by (simp add: later_def)
  show ?thesis
  proof (cases "wrong_pin k (q, a, s)")
    case False
    with auth_attempts [OF run, of k] assms(2) AuthReq a have "attempts_kept k s s'" by simp
    then have "since T k s' = since T k s" unfolding attempts_kept_def
    proof (elim disjE exE conjE)
      fix s0
      assume l: "later s s0" "later s0 s'" and tab: "pinAttempts s' k = recent_attempts (srv_now s0) (pinAttempts s k)"
      have "srv_now s0 < T + 10 * minute" using later_now [OF l(2) mono [OF l(1)]] assms(5) by linarith
      then show ?thesis by (simp add: since_def tab since_recent)
    qed (simp add: since_def)
    with False show ?thesis by simp
  next
    case True
    with auth_attempts [OF run, of k] assms(2) AuthReq a have "attempt_failed k s s'" by simp
    then obtain s0 s1 where l: "later s s0" "later s0 s1" "later s1 s'" and ok: "fst (pinAllowed k s0)" "pinAttempts s0 = pinAttempts s"
      and tab: "pinAttempts s' k = recent_attempts (srv_now s0) (pinAttempts s k) @ [srv_now s1]"
      unfolding attempt_failed_def by blast
    have t: "T \<le> srv_now s1" "srv_now s0 < T + 10 * minute"
      using later_now [OF l(1) assms(3)] later_now [OF l(2) mono [OF l(1)]]
        later_now [OF l(3) mono [OF later_trans [OF l(1,2)]]] assms(4,5) by linarith+
    then have "since T k s < 5"
      using pin_limiter.few_recent_failures [OF ok(1), of T] ok(2) by (simp add: since_def)
    moreover have "since T k s' = Suc (since T k s)"
      by (simp add: since_def tab since_recent [OF t(2)] t(1))
    ultimately show ?thesis using True by simp
  qed
qed

lemma wrong_pins_bounded:
  assumes "mono (clock (wd s))" "T \<le> srv_now s" "srv_now (served idkey pk qs s) < T + 10 * minute"
    "\<And>e. e \<in> set (serve_all idkey pk qs s) \<Longrightarrow> \<not> right_pin k e"
  shows "length (filter (wrong_pin k) (serve_all idkey pk qs s)) + since T k s \<le> max 5 (since T k s)"
  using assms
proof (induction qs arbitrary: s)
  case (Cons q qs)
  obtain a s' where run: "serve idkey pk q s = (a, s')" by (cases "serve idkey pk q s")
  have l: "later s s'" using serve_later [of s idkey pk q] run by simp
  have mono: "mono (clock (wd s'))" using Cons.prems(1) l by (simp add: later_def)
  have end_: "served idkey pk (q # qs) s = served idkey pk qs s'" using run by (simp add: served_def)
  have t: "T \<le> srv_now s'" "srv_now s' < T + 10 * minute"
    using later_now [OF l Cons.prems(1)] later_now [OF served_later [of s' idkey pk qs] mono] Cons.prems(2,3)
    unfolding end_ by linarith+
  have ih: "length (filter (wrong_pin k) (serve_all idkey pk qs s')) + since T k s' \<le> max 5 (since T k s')"
    by (rule Cons.IH) (use mono t Cons.prems(3,4) end_ run in auto)
  have "\<not> right_pin k (q, a, s)" using Cons.prems(4) run by simp
  from serve_since [OF run this Cons.prems(1,2) t(2)] ih run show ?case by (simp split: if_splits)
qed simp


section \<open>A login at work\<close>

text \<open>One user with one badge; the second user's PIN hash matches no PIN.\<close>

definition demo_badge_tables :: "string \<Rightarrow> tables" where
  "demo_badge_tables pin = empty_tables\<lparr>
     users := [\<lparr>usr_id = 1, usr_username = ''ada'', usr_display_name = ''Ada'', usr_directory_dn = [], usr_pin_hash = pin,
       usr_oidc_subject = [], usr_created_at = 0, usr_updated_at = 0\<rparr>],
     badges := [\<lparr>bdg_id = 1, bdg_code = ''SW-0001'', bdg_user_id = 1, bdg_token_hash = HashToken ''secret'', bdg_enabled = True,
       bdg_pending = False, bdg_description = [], bdg_created_at = 0, bdg_updated_at = 0, bdg_last_used_at = None, bdg_revoked_at = None\<rparr>],
     users_seq := 1, badges_seq := 1\<rparr>"

definition demo_login_server :: "string \<Rightarrow> srv" where
  "demo_login_server pin = (calm_server (demo_badge_tables pin))\<lparr>
     wd := (calm_world (demo_badge_tables pin))\<lparr>rnd := (\<lambda>_. Some ''seed'')\<rparr>\<rparr>"

definition demo_login_request :: request where
  "demo_login_request = \<lparr>rq_Method = ''POST'', rq_Path = ''/'', rq_PathValue_id = [], rq_RemoteAddr = ''192.0.2.7:4000'',
     rq_Header = (\<lambda>_. []), rq_Cookies = [], rq_TLS = None, rq_ParseForm_ok = True, rq_Query = [], rq_PostForm = []\<rparr>"

definition demo_auth :: AuthRequest where
  "demo_auth = \<lparr>aq_BadgeID = ''SW-0001'', aq_Token = ''secret'', aq_ClientID = ''ws-1'', aq_PIN = ''1234''\<rparr>"

definition demo_pkinit_issuer :: "string PKINITIssuer" where
  "demo_pkinit_issuer = \<lparr>pk_caPEM = ''ca'', pk_realm = ''EXAMPLE'', pk_life = 5 * minute, pk_upnSAN = Some,
     pk_CreateCertificate = (\<lambda>template csr. Some csr), pk_pem_Decode = (\<lambda>s. Some (''CERTIFICATE REQUEST'', s, [])),
     pk_ParseCertificateRequest = Some, pk_CheckSignature = (\<lambda>_. True)\<rparr>"

definition demo_pkinit :: PKINITRequest where
  "demo_pkinit = \<lparr>pq_Grant = RawURL_encode ''seed'', pq_ClientID = ''ws-1'', pq_CSR = ''csr''\<rparr>"

definition demo_login_run :: "login_request list" where
  "demo_login_run = [AuthReq demo_login_request (Some demo_auth), PkinitReq demo_login_request (Some demo_pkinit),
     PkinitReq demo_login_request (Some demo_pkinit)]"

definition demo_idkey :: idkey where
  "demo_idkey v salt t m p n = []"

lemma demo_facts:
  "remoteIP demo_login_request = ''192.0.2.7''" "ParseIP ''192.0.2.7''" "RawURL_encode ''seed'' = ''c2VlZA''"
  "loginUsername ''ada''" "\<not> Verify demo_idkey ''1234'' ''x''"
  by code_simp+

lemmas demo_run_defs = demo_login_server_def demo_badge_tables_def empty_tables_def calm_server_def calm_world_def demo_auth_def
  auth_def auth_body_def auth_reason_def badge_verified_def audit_def call_def reply_def asks_def Let_def
  BadgeByCode_def select_badges_def query_row_def scanSQLiteBadge_def tick_def VerifyToken_iff HashToken_def rand_m_def
  RecordBadgeAuthenticationSuccess_def dthen_def dbind_def ensure_def ret_def tx_def exec_def update_badges_def
  one_row_def RowsAffected_def insert_audit_def saveLoginGrant_def pinSucceeded_def pinAllowed_def pinFailed_def recent_attempts_def
  count_where_def update_where_def ok_badges_def max_int64_def demo_facts WriteAudit_def denied_def second_def minute_def

lemma demo_login:
  "\<exists>s1. auth demo_idkey demo_login_request (Some demo_auth) (demo_login_server []) =
     (Json 200 \<lparr>ap_Valid = True, ap_Username = ''ada'', ap_DisplayName = ''Ada'', ap_BadgeID = ''SW-0001'', ap_Reason = [],
        ap_LoginGrant = ''c2VlZA''\<rparr>, s1) \<and>
     grants s1 = [''c2VlZA'' \<mapsto> \<lparr>lg_Username = ''ada'', lg_ClientID = ''ws-1'', lg_Expires = 30 * second\<rparr>] \<and>
     (\<forall>k. clock (wd s1) k = 0) \<and> (\<forall>k. fault (wd s1) k = False) \<and> (\<forall>k. rnd (wd s1) k = Some ''seed'') \<and> audit_seq (tb (wd s1)) = 1"
  by (simp add: demo_run_defs)

lemma demo_certificate:
  assumes "grants s (''c2VlZA'') = Some \<lparr>lg_Username = ''ada'', lg_ClientID = ''ws-1'', lg_Expires = 30 * second\<rparr>"
    "\<forall>k. clock (wd s) k = 0" "\<forall>k. fault (wd s) k = False" "\<forall>k. rnd (wd s) k = Some ''seed''" "audit_seq (tb (wd s)) = 1"
  shows "\<exists>resp s2. issuePKINIT (Some demo_pkinit_issuer) demo_login_request (Some demo_pkinit) s = (Json 200 resp, s2)"
  using assms
  by (simp add: issuePKINIT_def demo_pkinit_def demo_facts asks_def redeemLoginGrant_def Let_def certify_login_def
      demo_pkinit_issuer_def call_def sign_def dbind_def rand_m_def now_m_def ret_def WriteAudit_def dthen_def exec_def
      insert_audit_def reply_def second_def max_int64_def)

theorem kerberos_certificate_needs_badge_witness:
  "\<exists>m resp sj. serve_all demo_idkey (Some demo_pkinit_issuer) demo_login_run (demo_login_server []) ! 0 =
     (AuthReq demo_login_request (Some demo_auth), AuthAns (Json m resp), sj) \<and> ap_LoginGrant resp = pq_Grant demo_pkinit"
proof -
  let ?run = "serve_all demo_idkey (Some demo_pkinit_issuer) demo_login_run (demo_login_server [])"
  from demo_login obtain resp s1 where a: "auth demo_idkey demo_login_request (Some demo_auth) (demo_login_server []) = (Json 200 resp, s1)"
    and s1: "grants s1 (''c2VlZA'') = Some \<lparr>lg_Username = ''ada'', lg_ClientID = ''ws-1'', lg_Expires = 30 * second\<rparr>"
      "\<forall>k. clock (wd s1) k = 0" "\<forall>k. fault (wd s1) k = False" "\<forall>k. rnd (wd s1) k = Some ''seed''" "audit_seq (tb (wd s1)) = 1"
    by auto
  from demo_certificate [OF s1] obtain cert s2 where
    p: "issuePKINIT (Some demo_pkinit_issuer) demo_login_request (Some demo_pkinit) s1 = (Json 200 cert, s2)" by blast
  have empty: "grants (demo_login_server []) k = None" for k by (simp add: demo_login_server_def calm_server_def)
  have len: "1 < length ?run"
    and second: "?run ! 1 = (PkinitReq demo_login_request (Some demo_pkinit), PkinitAns (Json 200 cert), s1)"
    and first: "?run ! 0 = (AuthReq demo_login_request (Some demo_auth), AuthAns (Json 200 resp), demo_login_server [])"
    by (simp_all add: demo_login_run_def a p split: prod.splits)
  from kerberos_certificate_needs_badge [OF empty len second] obtain j r' inp' m resp' sj where "j < 1"
    "?run ! j = (AuthReq r' (Some inp'), AuthAns (Json m resp'), sj)" "ap_LoginGrant resp' = pq_Grant demo_pkinit" by blast
  with first show ?thesis by auto
qed

theorem login_grant_single_use_witness:
  "length (filter (certificate_issued ''c2VlZA'') (serve_all demo_idkey (Some demo_pkinit_issuer) demo_login_run (demo_login_server [])))
   \<le> length (filter (grants_login ''c2VlZA'') (serve_all demo_idkey (Some demo_pkinit_issuer) demo_login_run (demo_login_server [])))"
  by (rule login_grant_single_use) (simp add: demo_login_server_def calm_server_def)

lemma demo_wrong_pin:
  "\<exists>s1. auth demo_idkey demo_login_request (Some demo_auth) (demo_login_server ''x'') = (Json 200 (denied ''invalid_pin''), s1) \<and>
     (\<forall>k. clock (wd s1) k = 0)"
  by (simp add: demo_run_defs)


end
