(* ===== verification/Update_Host.thy ===== *)
theory Update_Host
  imports Versions Crypto "HOL-Library.Sublist"
begin

text \<open>
  The machine the client updater runs on: a tree of files, the commands it runs and the requests
  it sends, behind a monad in which every call into the operating system can succeed, return an
  error or be the last one before the process dies.  What happens is an arbitrary function of the
  step, so a statement about every \<open>host\<close> is a statement about every sequence of errors
  and every moment of a power loss.  The second half is the frame calculus of the updater:
  \<open>near Ps m\<close> says that \<open>m\<close> changes only entries at or below the paths \<open>Ps\<close>, and creates
  missing directories above them.
\<close>

section \<open>Files\<close>

text \<open>
  A cleaned absolute path is the list of its segments, so \<^verbatim>\<open>filepath.Join\<close> is \<open>@\<close>.  A
  \<open>Special\<close> entry is a symbolic link or a device, with what reading it gives; a dangling link
  has no contents.  Directories on the way to a file are real directories.
\<close>

type_synonym path = "string list"

datatype node = Directory nat | Regular nat string | Special "string option"

type_synonym files = "(path \<times> node) list"

definition put :: "path \<Rightarrow> node \<Rightarrow> files \<Rightarrow> files" where
  "put p n fs = (p, n) # filter (\<lambda>e. fst e \<noteq> p) fs"

definition unlink :: "path \<Rightarrow> files \<Rightarrow> files" where
  "unlink p fs = filter (\<lambda>e. fst e \<noteq> p) fs"

definition unlink_below :: "(path \<Rightarrow> bool) \<Rightarrow> path \<Rightarrow> files \<Rightarrow> files" where
  "unlink_below kept p fs = filter (\<lambda>e. prefix p (fst e) \<longrightarrow> kept (fst e)) fs"

definition move :: "path \<Rightarrow> path \<Rightarrow> files \<Rightarrow> files" where
  "move p q fs = map (\<lambda>e. (if prefix p (fst e) then q @ drop (length p) (fst e) else fst e, snd e))
     (filter (\<lambda>e. \<not> prefix q (fst e)) fs)"

definition is_dir :: "files \<Rightarrow> path \<Rightarrow> bool" where
  "is_dir fs p = (case map_of fs p of Some (Directory _) \<Rightarrow> True | _ \<Rightarrow> False)"

text \<open>Whether an existing ancestor of the path is not a directory.\<close>

definition blocked :: "files \<Rightarrow> path \<Rightarrow> bool" where
  "blocked fs p = list_ex (\<lambda>n. map_of fs (take n p) \<noteq> None \<and> \<not> is_dir fs (take n p)) [0..<length p]"

definition has_entries :: "files \<Rightarrow> path \<Rightarrow> bool" where
  "has_entries fs p = list_ex (\<lambda>e. strict_prefix p (fst e)) fs"

definition mkdirs :: "nat \<Rightarrow> nat \<Rightarrow> path \<Rightarrow> files \<Rightarrow> files" where
  "mkdirs mode n p fs =
     fold (\<lambda>i fs. if map_of fs (take i p) = None then put (take i p) (Directory mode) fs else fs) [0..<n] fs"

text \<open>\<^verbatim>\<open>path + suffix\<close>\<close>

definition sibling :: "path \<Rightarrow> string \<Rightarrow> path" where
  "sibling p ext = butlast p @ [last p @ ext]"

text \<open>\<^verbatim>\<open>mode.Perm()\<close>: the lowest nine bits.\<close>

definition perm :: "nat \<Rightarrow> nat" where
  "perm mode = mode mod 512"

section \<open>The monad\<close>

datatype outcome = Works | Fails | Dies

datatype host_error =
  NotExist | Exist | IOError | Panic | Message string
| Wrapped string host_error | RolledBack host_error | NotRestored host_error | NotRecovered host_error | NotCleaned host_error

datatype 'a res = Done 'a | Failed host_error | Died

text \<open>
  \<open>outcome\<close>: what the system does at each step; \<open>written\<close>, \<open>kept\<close> and \<open>made\<close>: how far
  a write, a recursive removal and the creation of parent directories get when they do not finish;
  \<open>tmpname\<close>: the names of temporary files; \<open>lock_free\<close>: whether no other process holds
  the lock; \<open>answer\<close>: the status and body of the server's response; \<open>requests\<close> logs every
  request with the status of the response that was received.
\<close>

record host =
  files :: files
  commands :: "string list list"
  requests :: "(string \<times> (string \<times> bool) option \<times> nat option) list"
  hstep :: nat
  outcome :: "nat \<Rightarrow> outcome"
  written :: "nat \<Rightarrow> nat"
  kept :: "nat \<Rightarrow> path \<Rightarrow> bool"
  made :: "nat \<Rightarrow> nat"
  tmpname :: "nat \<Rightarrow> string"
  lock_free :: "nat \<Rightarrow> bool"
  answer :: "nat \<Rightarrow> nat \<times> string"
  hclock :: "nat \<Rightarrow> time"

type_synonym 'a hm = "host \<Rightarrow> 'a res \<times> host"

abbreviation look :: "host \<Rightarrow> path \<Rightarrow> node option" where
  "look h p \<equiv> map_of (files h) p"

definition hret :: "'a \<Rightarrow> 'a hm" where
  "hret a h = (Done a, h)"

definition hfail :: "host_error \<Rightarrow> 'a hm" where
  "hfail e h = (Failed e, h)"

definition hbind :: "'a hm \<Rightarrow> ('a \<Rightarrow> 'b hm) \<Rightarrow> 'b hm" where
  "hbind m f h = (case m h of (Done a, h') \<Rightarrow> f a h' | (Failed e, h') \<Rightarrow> (Failed e, h') | (Died, h') \<Rightarrow> (Died, h'))"

definition hthen :: "'a hm \<Rightarrow> 'b hm \<Rightarrow> 'b hm" where
  "hthen m n = hbind m (\<lambda>_. n)"

definition hensure :: "bool \<Rightarrow> host_error \<Rightarrow> unit hm" where
  "hensure c e = (if c then hret () else hfail e)"

text \<open>\<^verbatim>\<open>x, err := \<dots>\<close> followed by a case analysis.\<close>

definition htry :: "'a hm \<Rightarrow> (host_error + 'a) hm" where
  "htry m h = (case m h of (Done a, h') \<Rightarrow> (Done (Inr a), h') | (Failed e, h') \<Rightarrow> (Done (Inl e), h')
     | (Died, h') \<Rightarrow> (Died, h'))"

text \<open>\<^verbatim>\<open>_ = call()\<close>\<close>

definition hignore :: "unit hm \<Rightarrow> unit hm" where
  "hignore m = hthen (htry m) (hret ())"

text \<open>\<^verbatim>\<open>if err != nil { handler }\<close>\<close>

definition on_error :: "'a hm \<Rightarrow> (host_error \<Rightarrow> 'a hm) \<Rightarrow> 'a hm" where
  "on_error m f = hbind (htry m) (\<lambda>r. case r of Inl e \<Rightarrow> f e | Inr a \<Rightarrow> hret a)"

text \<open>\<^verbatim>\<open>defer call()\<close>: it runs on every return, and not when the process dies.\<close>

definition deferred :: "'a hm \<Rightarrow> unit hm \<Rightarrow> 'a hm" where
  "deferred m c = hbind (htry m) (\<lambda>r. hthen (hignore c) (case r of Inl e \<Rightarrow> hfail e | Inr a \<Rightarrow> hret a))"

fun each :: "('a \<Rightarrow> unit hm) \<Rightarrow> 'a list \<Rightarrow> unit hm" where
  "each f [] = hret ()"
| "each f (x # xs) = hthen (f x) (each f xs)"

section \<open>Calls into the system\<close>

definition call :: "(host \<Rightarrow> 'a res \<times> host) \<Rightarrow> (host \<Rightarrow> host) \<Rightarrow> 'a hm" where
  "call good partial h =
     (let tick = (\<lambda>h. h\<lparr>hstep := Suc (hstep h)\<rparr>) in
      case outcome h (hstep h) of
        Works \<Rightarrow> (case good h of (r, h') \<Rightarrow> (r, tick h'))
      | Fails \<Rightarrow> (Failed IOError, tick (partial h))
      | Dies \<Rightarrow> (Died, tick (partial h)))"

definition absent :: "files \<Rightarrow> path \<Rightarrow> host_error" where
  "absent fs p = (if blocked fs p then IOError else NotExist)"

definition Lstat :: "path \<Rightarrow> node hm" where
  "Lstat p = call (\<lambda>h. (case look h p of None \<Rightarrow> Failed (absent (files h) p) | Some n \<Rightarrow> Done n, h)) id"

text \<open>\<^verbatim>\<open>os.Open\<close> for reading: the contents, or \<open>None\<close> for a directory, which can be opened and not read.\<close>

definition Open :: "path \<Rightarrow> string option hm" where
  "Open p = call (\<lambda>h. (case look h p of
       None \<Rightarrow> Failed (absent (files h) p) | Some (Directory _) \<Rightarrow> Done None | Some (Regular _ c) \<Rightarrow> Done (Some c)
     | Some (Special (Some c)) \<Rightarrow> Done (Some c) | Some (Special None) \<Rightarrow> Failed NotExist, h)) id"

definition ReadFile :: "path \<Rightarrow> string hm" where
  "ReadFile p = hbind (Open p) (\<lambda>c. call (\<lambda>h. (case c of None \<Rightarrow> Failed IOError | Some c \<Rightarrow> Done c, h)) id)"

text \<open>\<^verbatim>\<open>os.OpenFile(path, O_CREATE|O_EXCL|O_WRONLY, mode)\<close>\<close>

definition CreateExcl :: "path \<Rightarrow> nat \<Rightarrow> unit hm" where
  "CreateExcl p mode = call (\<lambda>h.
     if look h p \<noteq> None then (Failed Exist, h)
     else if p = [] \<or> \<not> is_dir (files h) (butlast p) then (Failed (absent (files h) p), h)
     else (Done (), h\<lparr>files := put p (Regular mode []) (files h)\<rparr>)) id"

definition put_contents :: "path \<Rightarrow> string \<Rightarrow> host \<Rightarrow> host" where
  "put_contents p data h = (case look h p of Some (Regular m _) \<Rightarrow> h\<lparr>files := put p (Regular m data) (files h)\<rparr> | _ \<Rightarrow> h)"

text \<open>Writing to the file just created.\<close>

definition Write :: "path \<Rightarrow> string \<Rightarrow> unit hm" where
  "Write p data = call (\<lambda>h. (Done (), put_contents p data h))
     (\<lambda>h. put_contents p (take (written h (hstep h)) data) h)"

text \<open>\<^verbatim>\<open>Sync\<close> and \<^verbatim>\<open>Close\<close>, which can fail.\<close>

definition Settle :: "unit hm" where
  "Settle = call (\<lambda>h. (Done (), h)) id"

definition Chmod :: "path \<Rightarrow> nat \<Rightarrow> unit hm" where
  "Chmod p mode = call (\<lambda>h. (case look h p of
       None \<Rightarrow> (Failed (absent (files h) p), h)
     | Some (Regular _ c) \<Rightarrow> (Done (), h\<lparr>files := put p (Regular mode c) (files h)\<rparr>)
     | Some (Directory _) \<Rightarrow> (Done (), h\<lparr>files := put p (Directory mode) (files h)\<rparr>)
     | Some (Special _) \<Rightarrow> (Done (), h))) id"

definition Remove :: "path \<Rightarrow> unit hm" where
  "Remove p = call (\<lambda>h. case look h p of
       None \<Rightarrow> (Failed (absent (files h) p), h)
     | Some n \<Rightarrow> if is_dir (files h) p \<and> has_entries (files h) p then (Failed IOError, h)
                 else (Done (), h\<lparr>files := unlink p (files h)\<rparr>)) id"

definition RemoveAll :: "path \<Rightarrow> unit hm" where
  "RemoveAll p = call (\<lambda>h. (Done (), h\<lparr>files := unlink_below (\<lambda>_. False) p (files h)\<rparr>))
     (\<lambda>h. h\<lparr>files := unlink_below (kept h (hstep h)) p (files h)\<rparr>)"

definition Mkdir :: "path \<Rightarrow> nat \<Rightarrow> unit hm" where
  "Mkdir p mode = call (\<lambda>h.
     if look h p \<noteq> None then (Failed Exist, h)
     else if p = [] \<or> \<not> is_dir (files h) (butlast p) then (Failed (absent (files h) p), h)
     else (Done (), h\<lparr>files := put p (Directory mode) (files h)\<rparr>)) id"

definition MkdirAll :: "path \<Rightarrow> nat \<Rightarrow> unit hm" where
  "MkdirAll p mode = call (\<lambda>h.
     if blocked (files h) p \<or> look h p \<noteq> None \<and> \<not> is_dir (files h) p then (Failed IOError, h)
     else (Done (), h\<lparr>files := mkdirs mode (Suc (length p)) p (files h)\<rparr>))
     (\<lambda>h. if blocked (files h) p then h else h\<lparr>files := mkdirs mode (made h (hstep h)) p (files h)\<rparr>)"

definition Rename :: "path \<Rightarrow> path \<Rightarrow> unit hm" where
  "Rename p q = call (\<lambda>h. case look h p of
       None \<Rightarrow> (Failed (absent (files h) p), h)
     | Some n \<Rightarrow>
         if prefix p q \<or> prefix q p \<or> \<not> is_dir (files h) (butlast q) then (Failed IOError, h)
         else if is_dir (files h) p \<and> (look h q \<noteq> None \<and> \<not> is_dir (files h) q \<or> has_entries (files h) q) \<or>
                 \<not> is_dir (files h) p \<and> is_dir (files h) q then (Failed IOError, h)
         else (Done (), h\<lparr>files := move p q (files h)\<rparr>)) id"

definition MkdirTemp :: "path \<Rightarrow> string \<Rightarrow> path hm" where
  "MkdirTemp d pat = call (\<lambda>h. let p = d @ [pat @ tmpname h (hstep h)] in
     if look h p \<noteq> None \<or> \<not> is_dir (files h) d then (Failed IOError, h)
     else (Done p, h\<lparr>files := put p (Directory 448) (files h)\<rparr>)) id"

definition CreateTemp :: "path \<Rightarrow> string \<Rightarrow> path hm" where
  "CreateTemp d pat = call (\<lambda>h. let p = d @ [pat @ tmpname h (hstep h)] in
     if look h p \<noteq> None \<or> \<not> is_dir (files h) d then (Failed IOError, h)
     else (Done p, h\<lparr>files := put p (Regular 384 []) (files h)\<rparr>)) id"

text \<open>Opening a directory and syncing it.\<close>

definition SyncDir :: "path \<Rightarrow> unit hm" where
  "SyncDir p = hthen (Open p) Settle"

definition Run :: "string list \<Rightarrow> unit hm" where
  "Run cmd = call (\<lambda>h. (Done (), h\<lparr>commands := commands h @ [cmd]\<rparr>)) (\<lambda>h. h\<lparr>commands := commands h @ [cmd]\<rparr>)"

definition Post :: "string \<Rightarrow> (string \<times> bool) option \<Rightarrow> (nat \<times> string) hm" where
  "Post target payload = call
     (\<lambda>h. (Done (answer h (hstep h)), h\<lparr>requests := requests h @ [(target, payload, Some (fst (answer h (hstep h))))]\<rparr>))
     (\<lambda>h. h\<lparr>requests := requests h @ [(target, payload, None)]\<rparr>)"

definition Now :: "time hm" where
  "Now h = (Done (hclock h (hstep h)), h\<lparr>hstep := Suc (hstep h)\<rparr>)"

definition TryLock :: "path \<Rightarrow> bool hm" where
  "TryLock p = call (\<lambda>h. case look h p of
       None \<Rightarrow> if p = [] \<or> \<not> is_dir (files h) (butlast p) then (Failed (absent (files h) p), h)
               else (Done (lock_free h (hstep h)), h\<lparr>files := put p (Regular 384 []) (files h)\<rparr>)
     | Some n \<Rightarrow> (if is_dir (files h) p then Failed IOError else Done (lock_free h (hstep h)), h)) id"

section \<open>Looking up after a change\<close>

lemma map_of_filter_key: "map_of (filter (\<lambda>e. P (fst e)) fs) p = (if P p then map_of fs p else None)"
  by (induction fs) auto

lemma look_put [simp]: "map_of (put p n fs) q = (if q = p then Some n else map_of fs q)"
  using map_of_filter_key [of "\<lambda>q. q \<noteq> p" fs q] by (simp add: put_def)

lemma look_unlink [simp]: "map_of (unlink p fs) q = (if q = p then None else map_of fs q)"
  using map_of_filter_key [of "\<lambda>q. q \<noteq> p" fs q] by (simp add: unlink_def)

lemma look_unlink_below [simp]:
  "map_of (unlink_below k p fs) q = (if prefix p q \<and> \<not> k q then None else map_of fs q)"
  using map_of_filter_key [of "\<lambda>q. prefix p q \<longrightarrow> k q" fs q] by (simp add: unlink_below_def)

lemma look_move:
  assumes "\<not> prefix p q" "\<not> prefix q p"
  shows "map_of (move p q fs) r =
    (if prefix q r then map_of fs (p @ drop (length q) r) else if prefix p r then None else map_of fs r)"
proof (induction fs)
  case Nil
  then show ?case by (simp add: move_def)
next
  case (Cons e fs)
  obtain k n where e: "e = (k, n)" by (cases e)
  have clash: "\<not> prefix q (p @ s)" "\<not> prefix p (q @ s)" for s
    using assms prefix_same_cases [of p "p @ s" q] prefix_same_cases [of q "q @ s" p] by auto
  consider "prefix q k" | "prefix p k" "\<not> prefix q k" | "\<not> prefix p k" "\<not> prefix q k" by blast
  then show ?case
  proof cases
    case 1
    with clash have "k \<noteq> p @ s" "p @ s \<noteq> k" for s by auto
    with 1 Cons e show ?thesis by (auto simp: move_def)
  next
    case 2
    then obtain s where s: "k = p @ s" by (auto simp: prefix_def)
    have "r = q @ s \<longleftrightarrow> prefix q r \<and> p @ drop (length q) r = k" by (auto simp: s prefix_def)
    with 2 Cons e s clash show ?thesis by (auto simp: move_def)
  next
    case 3
    then have "k \<noteq> p @ s" "p @ s \<noteq> k" for s by auto
    with 3 Cons e show ?thesis by (auto simp: move_def)
  qed
qed

lemma look_move_below [simp]:
  "\<not> prefix p q \<Longrightarrow> \<not> prefix q p \<Longrightarrow> map_of (move p q fs) (q @ s) = map_of fs (p @ s)"
  by (simp add: look_move)

lemma look_mkdirs:
  "map_of (mkdirs mode n p fs) q = (if map_of fs q = None \<and> (\<exists>i < n. q = take i p) then Some (Directory mode) else map_of fs q)"
proof (induction n)
  case 0
  then show ?case by (simp add: mkdirs_def)
next
  case (Suc n)
  have "mkdirs mode (Suc n) p fs = (let g = mkdirs mode n p fs in
      if map_of g (take n p) = None then put (take n p) (Directory mode) g else g)"
    by (simp add: mkdirs_def Let_def)
  moreover have "(\<exists>i < Suc n. q = take i p) \<longleftrightarrow> (\<exists>i < n. q = take i p) \<or> q = take n p"
    using less_Suc_eq by blast
  ultimately show ?case using Suc by (cases "q = take n p") (auto simp: Let_def)
qed

section \<open>When a program returns\<close>

named_theorems host_simps \<open>inversion equations of the updater's monad\<close>

lemma hbind_Done [host_simps]:
  "hbind m f h = (Done b, h') \<longleftrightarrow> (\<exists>a h1. m h = (Done a, h1) \<and> f a h1 = (Done b, h'))"
  by (auto simp: hbind_def split: prod.splits res.splits)

lemma hthen_Done [host_simps]:
  "hthen m n h = (Done b, h') \<longleftrightarrow> (\<exists>a h1. m h = (Done a, h1) \<and> n h1 = (Done b, h'))"
  by (simp add: hthen_def hbind_Done)

lemma hret_eq [host_simps]: "hret a h = (r, h') \<longleftrightarrow> r = Done a \<and> h' = h"
  by (auto simp: hret_def)

lemma hfail_eq [host_simps]: "hfail e h = (r, h') \<longleftrightarrow> r = Failed e \<and> h' = h"
  by (auto simp: hfail_def)

lemma hensure_Done [host_simps]: "hensure c e h = (Done u, h') \<longleftrightarrow> c \<and> h' = h"
  by (simp add: hensure_def host_simps)

lemma htry_Done [host_simps]:
  "htry m h = (Done x, h') \<longleftrightarrow> (case x of Inl e \<Rightarrow> m h = (Failed e, h') | Inr a \<Rightarrow> m h = (Done a, h'))"
  by (auto simp: htry_def split: prod.splits res.splits sum.splits)

lemma hignore_Done [host_simps]:
  "hignore m h = (Done u, h') \<longleftrightarrow> (m h = (Done (), h') \<or> (\<exists>e. m h = (Failed e, h')))"
  by (auto simp: hignore_def hthen_def hbind_def htry_def hret_def split: prod.splits res.splits)

lemma on_error_Done [host_simps]:
  "on_error m f h = (Done a, h') \<longleftrightarrow> m h = (Done a, h') \<or> (\<exists>e h1. m h = (Failed e, h1) \<and> f e h1 = (Done a, h'))"
  by (auto simp: on_error_def hbind_def htry_def hret_def split: prod.splits res.splits)

lemma deferred_Done [host_simps]:
  "deferred m c h = (Done a, h') \<longleftrightarrow> (\<exists>h1. m h = (Done a, h1) \<and> hignore c h1 = (Done (), h'))"
  by (auto simp: deferred_def hbind_def hthen_def htry_def hret_def hfail_def split: prod.splits res.splits)

lemma call_Done:
  "call g b h = (Done a, h') \<Longrightarrow> \<exists>h1. g h = (Done a, h1) \<and> h' = h1\<lparr>hstep := Suc (hstep h1)\<rparr>"
  by (auto simp: call_def Let_def split: outcome.splits prod.splits)

section \<open>What a call returns\<close>

text \<open>Neither path is an ancestor of the other.\<close>

definition apart :: "path \<Rightarrow> path \<Rightarrow> bool" where
  "apart p q \<longleftrightarrow> \<not> prefix p q \<and> \<not> prefix q p"

lemma Lstat_Done: "Lstat p h = (Done n, h') \<Longrightarrow> look h p = Some n \<and> files h' = files h"
  by (auto simp: Lstat_def dest!: call_Done split: option.splits)

lemma Lstat_files: "Lstat p h = (r, h') \<Longrightarrow> files h' = files h"
  by (auto simp: Lstat_def call_def Let_def split: outcome.splits option.splits)

lemma Lstat_missing: "Lstat p h = (Failed NotExist, h') \<Longrightarrow> look h p = None"
  by (auto simp: Lstat_def call_def Let_def split: outcome.splits option.splits)

lemma Open_Done:
  "Open p h = (Done d, h') \<Longrightarrow> files h' = files h \<and>
     (case d of None \<Rightarrow> is_dir (files h) p
      | Some c \<Rightarrow> (\<exists>m. look h p = Some (Regular m c)) \<or> look h p = Some (Special (Some c)))"
  by (auto simp: Open_def is_dir_def dest!: call_Done split: option.splits node.splits)

lemma ReadFile_Done:
  "ReadFile p h = (Done c, h') \<Longrightarrow> files h' = files h \<and>
     ((\<exists>m. look h p = Some (Regular m c)) \<or> look h p = Some (Special (Some c)))"
proof -
  assume "ReadFile p h = (Done c, h')"
  then obtain d h1 where d: "Open p h = (Done d, h1)"
    and r: "call (\<lambda>h. (case d of None \<Rightarrow> Failed IOError | Some c \<Rightarrow> Done c, h)) id h1 = (Done c, h')"
    by (auto simp: ReadFile_def hbind_Done)
  from call_Done [OF r] have "d = Some c" "files h' = files h1" by (auto split: option.splits)
  with Open_Done [OF d] show ?thesis by simp
qed

lemma ReadFile_missing:
  "ReadFile p h = (Failed NotExist, h') \<Longrightarrow> look h p = None \<or> look h p = Some (Special None)"
  by (auto simp: ReadFile_def Open_def hbind_def call_def Let_def
      split: outcome.splits option.splits node.splits prod.splits res.splits)

lemma CreateExcl_Done:
  "CreateExcl p mode h = (Done u, h') \<Longrightarrow>
     look h p = None \<and> p \<noteq> [] \<and> is_dir (files h) (butlast p) \<and> files h' = put p (Regular mode []) (files h)"
  by (auto simp: CreateExcl_def dest!: call_Done split: if_splits)

lemma Write_Done:
  "Write p d h = (Done u, h') \<Longrightarrow> look h p = Some (Regular m c) \<Longrightarrow> files h' = put p (Regular m d) (files h)"
  by (auto simp: Write_def put_contents_def dest!: call_Done)

lemma Settle_Done: "Settle h = (Done u, h') \<Longrightarrow> files h' = files h"
  by (auto simp: Settle_def dest!: call_Done)

lemma Chmod_Done:
  "Chmod p mode h = (Done u, h') \<Longrightarrow> look h p = Some (Regular m c) \<Longrightarrow> files h' = put p (Regular mode c) (files h)"
  by (auto simp: Chmod_def dest!: call_Done)

lemma Remove_Done: "Remove p h = (Done u, h') \<Longrightarrow> look h p \<noteq> None \<and> files h' = unlink p (files h)"
  by (auto simp: Remove_def dest!: call_Done split: option.splits if_splits)

lemma Remove_not_Done: "Remove p h = (r, h') \<Longrightarrow> r \<noteq> Done () \<Longrightarrow> files h' = files h"
  by (auto simp: Remove_def call_def Let_def split: outcome.splits option.splits if_splits)

lemma Remove_missing: "Remove p h = (Failed NotExist, h') \<Longrightarrow> look h p = None \<and> files h' = files h"
  by (auto simp: Remove_def call_def Let_def split: outcome.splits option.splits if_splits)

lemma RemoveAll_Done: "RemoveAll p h = (Done u, h') \<Longrightarrow> files h' = unlink_below (\<lambda>_. False) p (files h)"
  by (auto simp: RemoveAll_def dest!: call_Done)

lemma Mkdir_Done:
  "Mkdir p mode h = (Done u, h') \<Longrightarrow> look h p = None \<and> p \<noteq> [] \<and> files h' = put p (Directory mode) (files h)"
  by (auto simp: Mkdir_def dest!: call_Done split: if_splits)

lemma MkdirAll_Done: "MkdirAll p mode h = (Done u, h') \<Longrightarrow> files h' = mkdirs mode (Suc (length p)) p (files h)"
  by (auto simp: MkdirAll_def dest!: call_Done split: if_splits)

lemma Rename_Done:
  "Rename p q h = (Done u, h') \<Longrightarrow> apart p q \<and> look h p \<noteq> None \<and> files h' = move p q (files h)"
  by (auto simp: Rename_def apart_def dest!: call_Done split: option.splits if_splits)

lemma Rename_not_Done: "Rename p q h = (r, h') \<Longrightarrow> r \<noteq> Done () \<Longrightarrow> files h' = files h"
  by (auto simp: Rename_def call_def Let_def split: outcome.splits option.splits if_splits)

lemmas call_results = Lstat_Done Open_Done ReadFile_Done CreateExcl_Done Settle_Done Remove_Done RemoveAll_Done
  Mkdir_Done MkdirAll_Done Rename_Done

section \<open>Frames\<close>

text \<open>
  \<open>frame Ps h h'\<close>: outside what lies at or below the paths \<open>Ps\<close> nothing is different, except
  that missing directories on the way to them have been created.
\<close>

definition frame :: "path set \<Rightarrow> host \<Rightarrow> host \<Rightarrow> bool" where
  "frame Ps h h' \<longleftrightarrow> (\<forall>p. (\<forall>q \<in> Ps. \<not> prefix q p) \<longrightarrow>
     look h' p = look h p \<or> look h p = None \<and> look h' p \<noteq> None \<and> (\<exists>q \<in> Ps. strict_prefix p q))"

definition near :: "path set \<Rightarrow> 'a hm \<Rightarrow> bool" where
  "near Ps m \<longleftrightarrow> (\<forall>h r h'. m h = (r, h') \<longrightarrow> frame Ps h h')"

named_theorems near_intros \<open>programs that change only entries near given paths\<close>

lemma frame_refl: "files h' = files h \<Longrightarrow> frame Ps h h'"
  by (simp add: frame_def)

lemma frame_same [simp]: "frame Ps h h"
  by (simp add: frame_refl)

lemma frame_trans: "frame Ps h h1 \<Longrightarrow> frame Ps h1 h2 \<Longrightarrow> frame Ps h h2"
  unfolding frame_def by metis

lemma frame_mono: "frame Ps h h' \<Longrightarrow> Ps \<subseteq> Qs \<Longrightarrow> frame Qs h h'"
  unfolding frame_def by (meson subsetD)

lemma frame_apart:
  assumes "frame Ps h h'" "\<forall>q \<in> Ps. apart p q"
  shows "look h' p = look h p"
  using assms by (auto simp: frame_def apart_def strict_prefix_def)

lemma frame_existing: "frame Ps h h' \<Longrightarrow> \<forall>q \<in> Ps. \<not> prefix q p \<Longrightarrow> look h p = Some n \<Longrightarrow> look h' p = Some n"
  unfolding frame_def by (metis option.distinct(1))

lemma near_frame: "near Ps m \<Longrightarrow> m h = (r, h') \<Longrightarrow> frame Ps h h'"
  by (auto simp: near_def)

lemma near_mono: "near Ps m \<Longrightarrow> Ps \<subseteq> Qs \<Longrightarrow> near Qs m"
  unfolding near_def using frame_mono by blast

lemma near_hret [near_intros]: "near Ps (hret a)"
  by (simp add: near_def hret_def frame_refl)

lemma near_hfail [near_intros]: "near Ps (hfail e)"
  by (simp add: near_def hfail_def frame_refl)

lemma near_hensure [near_intros]: "near Ps (hensure c e)"
  by (simp add: hensure_def near_intros)

lemma near_hbind_of:
  assumes "near Ps m" "\<And>h a h'. m h = (Done a, h') \<Longrightarrow> near Ps (f a)"
  shows "near Ps (hbind m f)"
  unfolding near_def
proof (intro allI impI)
  fix h r h' assume b: "hbind m f h = (r, h')"
  obtain x h1 where m: "m h = (x, h1)" by (cases "m h")
  with assms(1) have "frame Ps h h1" by (rule near_frame)
  with b m assms(2) [of h] show "frame Ps h h'"
    by (cases x) (auto simp: hbind_def dest: near_frame intro: frame_trans)
qed

lemma near_hbind [near_intros]: "near Ps m \<Longrightarrow> (\<And>a. near Ps (f a)) \<Longrightarrow> near Ps (hbind m f)"
  by (rule near_hbind_of)

lemma near_hthen [near_intros]: "near Ps m \<Longrightarrow> near Ps n \<Longrightarrow> near Ps (hthen m n)"
  by (simp add: hthen_def near_intros)

lemma near_htry [near_intros]: "near Ps m \<Longrightarrow> near Ps (htry m)"
  unfolding near_def htry_def by (fastforce split: prod.splits res.splits)

lemma near_hignore [near_intros]: "near Ps m \<Longrightarrow> near Ps (hignore m)"
  by (simp add: hignore_def near_intros)

lemma near_on_error [near_intros]: "near Ps m \<Longrightarrow> (\<And>e. near Ps (f e)) \<Longrightarrow> near Ps (on_error m f)"
  by (auto simp: on_error_def intro!: near_intros split: sum.split)

lemma near_deferred [near_intros]: "near Ps m \<Longrightarrow> near Ps c \<Longrightarrow> near Ps (deferred m c)"
  by (auto simp: deferred_def intro!: near_intros split: sum.split)

lemma near_each [near_intros]: "(\<And>x. x \<in> set xs \<Longrightarrow> near Ps (f x)) \<Longrightarrow> near Ps (each f xs)"
  by (induction xs) (auto intro: near_intros)

lemma near_call:
  assumes "\<And>h. frame Ps h (snd (good h))" "\<And>h. frame Ps h (partial h)"
  shows "near Ps (call good partial)"
  unfolding near_def
proof (intro allI impI)
  fix h r h' assume "call good partial h = (r, h')"
  with assms [of h] show "frame Ps h h'"
    by (cases "good h") (auto simp: call_def Let_def frame_def split: outcome.splits)
qed

lemma near_reading [near_intros]:
  "near Ps (Lstat p)" "near Ps (Open p)" "near Ps (ReadFile p)" "near Ps Settle" "near Ps (SyncDir p)"
  "near Ps (Run c)" "near Ps (Post t b)" "near Ps Now"
  unfolding ReadFile_def SyncDir_def Lstat_def Open_def Settle_def Run_def Post_def
  by (auto intro!: near_intros near_call frame_refl) (simp add: near_def Now_def frame_refl)

definition covers :: "path set \<Rightarrow> path \<Rightarrow> bool" where
  "covers Ps p \<longleftrightarrow> (\<exists>q \<in> Ps. prefix q p)"

definition leads :: "path set \<Rightarrow> path \<Rightarrow> bool" where
  "leads Ps p \<longleftrightarrow> (\<exists>q \<in> Ps. prefix p q \<or> prefix q p)"

lemma covers_intros [near_intros]: "p \<in> Ps \<Longrightarrow> covers Ps p" "covers Ps p \<Longrightarrow> covers Ps (p @ s)"
  unfolding covers_def using prefix_prefix by blast+

lemma leads_intros [near_intros]: "covers Ps p \<Longrightarrow> leads Ps p" "covers Ps p \<Longrightarrow> leads Ps (butlast p)"
  using prefix_same_cases [of _ p "butlast p"] prefixeq_butlast [of p]
  by (auto simp: covers_def leads_def)

lemma near_entry [near_intros]:
  assumes "covers Ps p"
  shows "near Ps (CreateExcl p m)" "near Ps (Write p d)" "near Ps (Chmod p m)" "near Ps (Remove p)"
    "near Ps (Mkdir p m)" "near Ps (TryLock p)" "near Ps (RemoveAll p)"
proof -
  have f: "frame Ps h (h\<lparr>files := fs\<rparr>)" if "\<And>r. \<not> prefix p r \<Longrightarrow> map_of fs r = look h r" for h fs
    unfolding frame_def using that assms by (auto simp: covers_def dest: prefix_order.trans)
  have "frame Ps h (put_contents p d h)" for h d
    unfolding put_contents_def by (auto intro!: f split: option.split node.split)
  then show "near Ps (CreateExcl p m)" "near Ps (Write p d)" "near Ps (Chmod p m)" "near Ps (Remove p)"
    "near Ps (Mkdir p m)" "near Ps (TryLock p)" "near Ps (RemoveAll p)"
    unfolding CreateExcl_def Write_def Chmod_def Remove_def Mkdir_def TryLock_def RemoveAll_def
    by (auto intro!: near_call f split: option.split node.split)
qed

lemma near_MkdirAll [near_intros]:
  assumes "leads Ps p"
  shows "near Ps (MkdirAll p m)"
proof -
  from assms obtain q where q: "q \<in> Ps" "prefix p q \<or> prefix q p" by (auto simp: leads_def)
  have above: "prefix q (take i p) \<or> strict_prefix (take i p) q" for i
    using q(2) take_is_prefix [of i p] prefix_same_cases [of "take i p" p q]
    by (auto simp: strict_prefix_def dest: prefix_order.trans)
  have "frame Ps h (h\<lparr>files := mkdirs m n p (files h)\<rparr>)" for h n
    unfolding frame_def using q(1) above by (simp add: look_mkdirs) blast
  then show ?thesis
    unfolding MkdirAll_def by (intro near_call) (auto intro: frame_refl)
qed

lemma near_Rename [near_intros]:
  assumes "covers Ps p" "covers Ps p'"
  shows "near Ps (Rename p p')"
proof -
  have "frame Ps h (h\<lparr>files := move p p' (files h)\<rparr>)" if "\<not> prefix p p'" "\<not> prefix p' p" for h
    unfolding frame_def using assms by (auto simp: covers_def look_move [OF that] dest: prefix_order.trans)
  then show ?thesis unfolding Rename_def by (intro near_call) (auto intro: frame_refl split: option.split)
qed

lemma near_temporary [near_intros]: "covers Ps d \<Longrightarrow> near Ps (MkdirTemp d t)" "covers Ps d \<Longrightarrow> near Ps (CreateTemp d t)"
  unfolding MkdirTemp_def CreateTemp_def by (auto intro!: near_call simp: covers_def frame_def Let_def)

lemma apart_sym: "apart p q \<Longrightarrow> apart q p"
  by (auto simp: apart_def)

lemma apart_below: "apart p q \<Longrightarrow> apart (p @ s) q"
  using prefix_same_cases [of p "p @ s" q] by (auto simp: apart_def dest: append_prefixD)

lemma apart_append [simp]: "apart (r @ p) (r @ q) \<longleftrightarrow> apart p q"
  by (simp add: apart_def)

section \<open>Triples\<close>

text \<open>
  \<open>triple P m Q E\<close>: from a state with \<open>P\<close>, a returned value satisfies \<open>Q\<close>, and the state
  after an error or at the death of the process satisfies \<open>E\<close>.
\<close>

definition triple :: "(host \<Rightarrow> bool) \<Rightarrow> 'a hm \<Rightarrow> ('a \<Rightarrow> host \<Rightarrow> bool) \<Rightarrow> (host_error option \<Rightarrow> host \<Rightarrow> bool) \<Rightarrow> bool" where
  "triple P m Q E \<longleftrightarrow> (\<forall>h. P h \<longrightarrow> (case m h of (Done a, h') \<Rightarrow> Q a h' | (Failed e, h') \<Rightarrow> E (Some e) h' | (Died, h') \<Rightarrow> E None h'))"

lemma tripleI:
  "(\<And>h h' a. P h \<Longrightarrow> m h = (Done a, h') \<Longrightarrow> Q a h') \<Longrightarrow>
   (\<And>h h' r. P h \<Longrightarrow> m h = (r, h') \<Longrightarrow> (\<And>a. r \<noteq> Done a) \<Longrightarrow>
      E (case r of Failed e \<Rightarrow> Some e | _ \<Rightarrow> None) h') \<Longrightarrow> triple P m Q E"
  by (fastforce simp: triple_def split: prod.splits res.splits)

lemma tripleD:
  "triple P m Q E \<Longrightarrow> P h \<Longrightarrow> m h = (Done a, h') \<Longrightarrow> Q a h'"
  "triple P m Q E \<Longrightarrow> P h \<Longrightarrow> m h = (Failed e, h') \<Longrightarrow> E (Some e) h'"
  "triple P m Q E \<Longrightarrow> P h \<Longrightarrow> m h = (Died, h') \<Longrightarrow> E None h'"
  by (auto simp: triple_def)

lemma triple_bind:
  "triple P m R E \<Longrightarrow> (\<And>a. triple (R a) (f a) Q E) \<Longrightarrow> triple P (hbind m f) Q E"
  unfolding triple_def hbind_def by (fastforce split: prod.splits res.splits)

lemma triple_then:
  "triple P m (\<lambda>_. R) E \<Longrightarrow> triple R n Q E \<Longrightarrow> triple P (hthen m n) Q E"
  unfolding hthen_def by (rule triple_bind)

lemma triple_weaken:
  "triple P m Q E \<Longrightarrow> (\<And>h. P' h \<Longrightarrow> P h) \<Longrightarrow> (\<And>a h. Q a h \<Longrightarrow> Q' a h) \<Longrightarrow> (\<And>e h. E e h \<Longrightarrow> E' e h) \<Longrightarrow> triple P' m Q' E'"
  unfolding triple_def by (fastforce split: prod.splits res.splits)

lemma triple_hret: "(\<And>h. P h \<Longrightarrow> Q a h) \<Longrightarrow> triple P (hret a) Q E"
  by (simp add: triple_def hret_def)

lemma triple_hfail: "(\<And>h. P h \<Longrightarrow> E (Some e) h) \<Longrightarrow> triple P (hfail e) Q E"
  by (simp add: triple_def hfail_def)

lemma triple_ensure: "(\<And>h. P h \<Longrightarrow> \<not> c \<Longrightarrow> E (Some e) h) \<Longrightarrow> triple P (hensure c e) (\<lambda>_ h. P h \<and> c) E"
  by (simp add: triple_def hensure_def hret_def hfail_def)

text \<open>An assertion that does not look near the paths a program changes is kept by it.\<close>

definition off :: "path set \<Rightarrow> (host \<Rightarrow> bool) \<Rightarrow> bool" where
  "off Ps P \<longleftrightarrow> (\<forall>h h'. frame Ps h h' \<longrightarrow> P h \<longrightarrow> P h')"

lemma offD: "off Ps P \<Longrightarrow> near Ps m \<Longrightarrow> m h = (r, h') \<Longrightarrow> P h \<Longrightarrow> P h'"
  unfolding off_def near_def by blast

lemma triple_near: "near Ps m \<Longrightarrow> off Ps P \<Longrightarrow> triple P m (\<lambda>_. P) (\<lambda>_. P)"
  unfolding triple_def by (auto split: prod.splits res.splits dest: offD)

lemma triple_on_error:
  "triple P m Q F \<Longrightarrow> (\<And>e. triple (F (Some e)) (f e) Q E) \<Longrightarrow> (\<And>h. F None h \<Longrightarrow> E None h) \<Longrightarrow> triple P (on_error m f) Q E"
  unfolding triple_def on_error_def hbind_def htry_def hret_def
  by (fastforce split: prod.splits res.splits)

end
