(* ===== verification/Update_Package.thy ===== *)
theory Update_Package
  imports Update_Host
begin

text \<open>
  Signed update packages: the manifest and its validation, the verifier shared by the updater and
  the server's catalog, the packager that signs a release, and staging of a verified package
  (\<^verbatim>\<open>verify.go\<close>, \<^verbatim>\<open>package.go\<close> and \<^verbatim>\<open>stage.go\<close> of \<^verbatim>\<open>internal/clientupdate\<close>).
  Archives, Ed25519 and JSON are parameters, collected in \<open>tools\<close>.
\<close>

section \<open>Data\<close>

record File =
  f_Component :: string
  f_Size :: int
  f_SHA256 :: string

record Manifest =
  m_SchemaVersion :: int
  m_ReleaseVersion :: string
  m_Channel :: string
  m_Architecture :: string
  m_MinimumVersion :: string
  m_CreatedAt :: time
  m_Files :: "File list"

record Result =
  r_Manifest :: Manifest
  r_Files :: "string list"

record ComponentSpec =
  spec_Target :: path
  spec_Mode :: nat
  spec_RestartLightDM :: bool

record StagedComponent =
  sc_Component :: string
  sc_Target :: path
  sc_Mode :: nat
  sc_SHA256 :: string
  sc_RestartLightDM :: bool

record StagePlan =
  sp_ReleaseVersion :: string
  sp_Architecture :: string
  sp_Components :: "StagedComponent list"

record RollbackFile =
  rf_Component :: string
  rf_Target :: path
  rf_Existed :: bool
  rf_Mode :: nat
  rf_Size :: int
  rf_SHA256 :: string

record RollbackManifest =
  rm_SchemaVersion :: int
  rm_PreparedAt :: time
  rm_ForRelease :: string
  rm_Files :: "RollbackFile list"

record UpdateTransaction =
  ut_SchemaVersion :: int
  ut_ReleaseVersion :: string
  ut_RollbackDir :: "path option"
  ut_StartedAt :: time

record UpdateState =
  us_Version :: string
  us_Status :: string
  us_UpdatedAt :: time
  us_RollbackAvailable :: bool

text \<open>An entry of an archive, with the size its header declares and its contents when they can be read.\<close>

record zip_file =
  z_Name :: string
  z_IsDir :: bool
  z_UncompressedSize64 :: nat
  z_Data :: "string option"

text \<open>
  What the updater calls and does not define.  A decoder returns \<open>None\<close> for text that is not
  the JSON of one value of its type, has an unknown field or is followed by other text.
\<close>

record tools =
  zip_NewReader :: "string \<Rightarrow> zip_file list option"
  zip_Write :: "(string \<times> string) list \<Rightarrow> string"
  ed25519_Verify :: "string \<Rightarrow> string \<Rightarrow> string \<Rightarrow> bool"
  ed25519_Sign :: "string \<Rightarrow> string \<Rightarrow> string"
  json_Manifest :: "Manifest \<Rightarrow> string"
  unjson_Manifest :: "string \<Rightarrow> Manifest option"
  json_StagePlan :: "StagePlan \<Rightarrow> string"
  unjson_StagePlan :: "string \<Rightarrow> StagePlan option"
  json_RollbackManifest :: "RollbackManifest \<Rightarrow> string"
  unjson_RollbackManifest :: "string \<Rightarrow> RollbackManifest option"
  json_UpdateTransaction :: "UpdateTransaction \<Rightarrow> string"
  unjson_UpdateTransaction :: "string \<Rightarrow> UpdateTransaction option"
  json_UpdateState :: "UpdateState \<Rightarrow> string"
  unjson_UpdateState :: "string \<Rightarrow> UpdateState option"
  platform :: string

definition maxManifestSize :: nat where
  "maxManifestSize = 65536"

definition maxFileSize :: nat where
  "maxFileSize = 67108864"

definition maxPackageSize :: nat where
  "maxPackageSize = 268435456"

definition allowedComponents :: "string list" where
  "allowedComponents =
    [''sw-badge-native-greeter'', ''sw-badge-pam-helper'', ''sw-badge-client-status'',
     ''sw-badge-client-diagnostics'', ''sw-badge-client-updater'', ''sw-badge-client-update-worker'',
     ''swbadge-client-updates.service'', ''swbadge-client-updates.timer'',
     ''sw-badge-native-greeter-wrapper'', ''sw-badge-pam-helper-wrapper'',
     ''swbadge-client-status.service'', ''swbadge-client-status.timer'']"

definition componentSpecs :: "(string \<times> ComponentSpec) list" where
  "componentSpecs =
    [(''sw-badge-native-greeter'',
        \<lparr>spec_Target = [''usr'', ''local'', ''bin'', ''sw-badge-native-greeter''], spec_Mode = 493, spec_RestartLightDM = True\<rparr>),
     (''sw-badge-pam-helper'',
        \<lparr>spec_Target = [''usr'', ''local'', ''libexec'', ''sw-badge-pam-helper''], spec_Mode = 493, spec_RestartLightDM = False\<rparr>),
     (''sw-badge-client-status'',
        \<lparr>spec_Target = [''usr'', ''local'', ''libexec'', ''sw-badge-client-status''], spec_Mode = 493, spec_RestartLightDM = False\<rparr>),
     (''sw-badge-client-diagnostics'',
        \<lparr>spec_Target = [''usr'', ''local'', ''sbin'', ''sw-badge-client-diagnostics''], spec_Mode = 493, spec_RestartLightDM = False\<rparr>),
     (''sw-badge-client-updater'',
        \<lparr>spec_Target = [''usr'', ''local'', ''sbin'', ''sw-badge-client-updater''], spec_Mode = 493, spec_RestartLightDM = False\<rparr>),
     (''sw-badge-client-update-worker'',
        \<lparr>spec_Target = [''usr'', ''local'', ''sbin'', ''sw-badge-client-update-worker''], spec_Mode = 493, spec_RestartLightDM = False\<rparr>),
     (''swbadge-client-updates.service'',
        \<lparr>spec_Target = [''etc'', ''systemd'', ''system'', ''swbadge-client-updates.service''], spec_Mode = 420, spec_RestartLightDM = False\<rparr>),
     (''swbadge-client-updates.timer'',
        \<lparr>spec_Target = [''etc'', ''systemd'', ''system'', ''swbadge-client-updates.timer''], spec_Mode = 420, spec_RestartLightDM = False\<rparr>),
     (''sw-badge-native-greeter-wrapper'',
        \<lparr>spec_Target = [''usr'', ''local'', ''bin'', ''sw-badge-native-greeter-wrapper''], spec_Mode = 493, spec_RestartLightDM = True\<rparr>),
     (''sw-badge-pam-helper-wrapper'',
        \<lparr>spec_Target = [''usr'', ''local'', ''libexec'', ''sw-badge-pam-helper-wrapper''], spec_Mode = 493, spec_RestartLightDM = False\<rparr>),
     (''swbadge-client-status.service'',
        \<lparr>spec_Target = [''etc'', ''systemd'', ''system'', ''swbadge-client-status.service''], spec_Mode = 420, spec_RestartLightDM = False\<rparr>),
     (''swbadge-client-status.timer'',
        \<lparr>spec_Target = [''etc'', ''systemd'', ''system'', ''swbadge-client-status.timer''], spec_Mode = 420, spec_RestartLightDM = False\<rparr>)]"

abbreviation component_spec :: "string \<Rightarrow> ComponentSpec option" where
  "component_spec \<equiv> map_of componentSpecs"

section \<open>Verification\<close>

text \<open>\<^verbatim>\<open>base64.StdEncoding\<close>: groups of four, the last one padded.\<close>

definition Std_decode :: "string \<Rightarrow> string option" where
  "Std_decode s =
     (let t = filter (\<lambda>c. c \<noteq> CHR 0x0A \<and> c \<noteq> CHR 0x0D) s;
          u = (if HasSuffix t ''=='' then take (length t - 2) t else if HasSuffix t ''='' then take (length t - 1) t else t)
      in if length t mod 4 \<noteq> 0 then None else RawStd_decode u)"

definition Std_encode :: "string \<Rightarrow> string" where
  "Std_encode s = (let t = RawStd_encode s in t @ replicate ((4 - length t mod 4) mod 4) (CHR ''=''))"

definition EqualFold :: "string \<Rightarrow> string \<Rightarrow> bool" where
  "EqualFold s t \<longleftrightarrow> lower s = lower t"

text \<open>The loop over the files of the manifest, with the components seen so far.\<close>

fun validate_files :: "string list \<Rightarrow> File list \<Rightarrow> host_error option" where
  "validate_files seen [] = None"
| "validate_files seen (file # fls) =
     (if f_Component file \<notin> set allowedComponents \<or> f_Component file \<in> set seen then Some (Message ''invalid component'')
      else if f_Size file < 0 \<or> f_Size file > int maxFileSize then Some (Message ''invalid size'')
      else case hex_decode (f_SHA256 file) of
             None \<Rightarrow> Some (Message ''invalid SHA-256'')
           | Some decoded \<Rightarrow> if length decoded \<noteq> 32 then Some (Message ''invalid SHA-256'')
                             else validate_files (f_Component file # seen) fls)"

text \<open>A version that \<^const>\<open>validVersion\<close> rejected would make \<^const>\<open>compareVersions\<close> panic.\<close>

definition validateManifest :: "tools \<Rightarrow> Manifest \<Rightarrow> string \<Rightarrow> string \<Rightarrow> host_error option" where
  "validateManifest T manifest expectedArchitecture currentVersion =
     (if m_SchemaVersion manifest \<noteq> 1 then Some (Message ''unsupported manifest schema'')
      else if \<not> validVersion (m_ReleaseVersion manifest) \<or> \<not> validVersion (m_MinimumVersion manifest)
      then Some (Message ''invalid release version'')
      else if m_Channel manifest \<noteq> ''development'' \<and> m_Channel manifest \<noteq> ''stable'' then Some (Message ''invalid release channel'')
      else if m_Architecture manifest \<noteq> (if expectedArchitecture = [] then platform T else expectedArchitecture)
      then Some (Message ''package architecture does not match'')
      else if IsZero (m_CreatedAt manifest) \<or> m_Files manifest = [] then Some (Message ''manifest is incomplete'')
      else if currentVersion \<noteq> [] \<and> \<not> validVersion currentVersion then Some (Message ''invalid current client version'')
      else if currentVersion = [] then validate_files [] (m_Files manifest)
      else case (compareVersions currentVersion (m_MinimumVersion manifest), compareVersions currentVersion (m_ReleaseVersion manifest)) of
             (Some low, Some high) \<Rightarrow>
               if low < 0 then Some (Message ''client version is below minimum'')
               else if high \<ge> 0 then Some (Message ''release is not newer than client'')
               else validate_files [] (m_Files manifest)
           | _ \<Rightarrow> Some Panic)"

definition readEntry :: "zip_file option \<Rightarrow> nat \<Rightarrow> host_error + string" where
  "readEntry entry limit =
     (case entry of None \<Rightarrow> Inl (Message ''entry is missing'')
      | Some z \<Rightarrow>
          if z_UncompressedSize64 z > limit then Inl (Message ''entry exceeds size limit'')
          else case z_Data z of
                 None \<Rightarrow> Inl IOError
               | Some d \<Rightarrow> (let data = take (limit + 1) d in
                            if length data > limit then Inl (Message ''entry exceeds size limit'') else Inr data))"

definition contains_dots :: "string \<Rightarrow> bool" where
  "contains_dots s \<longleftrightarrow> list_ex (\<lambda>n. take 2 (drop n s) = ''..'') [0..<length s]"

fun collect_entries :: "(string \<times> zip_file) list \<Rightarrow> zip_file list \<Rightarrow> host_error + (string \<times> zip_file) list" where
  "collect_entries entries [] = Inr entries"
| "collect_entries entries (z # zs) =
     (if length entries \<ge> 32 then Inl (Message ''package contains too many entries'')
      else if z_IsDir z \<or> CHR 0x5C \<in> set (z_Name z) \<or> contains_dots (z_Name z) \<or> HasPrefix (z_Name z) ''/''
      then Inl (Message ''unsafe package entry'')
      else if map_of entries (z_Name z) \<noteq> None then Inl (Message ''duplicate package entry'')
      else collect_entries ((z_Name z, z) # entries) zs)"

definition payload_name :: "string \<Rightarrow> string" where
  "payload_name component = ''payload/'' @ component"

text \<open>The loop that compares every listed component with its payload; \<open>so_far\<close> is the size so far.\<close>

fun check_payloads :: "(string \<times> zip_file) list \<Rightarrow> int \<Rightarrow> File list \<Rightarrow> host_error option" where
  "check_payloads entries so_far [] = None"
| "check_payloads entries so_far (file # fls) =
     (let so_far = so_far + f_Size file in
      if so_far > int maxPackageSize then Some (Message ''package payload exceeds size limit'')
      else case readEntry (map_of entries (payload_name (f_Component file))) (nat (f_Size file)) of
             Inl e \<Rightarrow> Some e
           | Inr payload \<Rightarrow>
               if int (length payload) \<noteq> f_Size file then Some (Message ''component size mismatch'')
               else if \<not> EqualFold (hex_encode (sha256 payload)) (f_SHA256 file) then Some (Message ''component hash mismatch'')
               else check_payloads entries so_far fls)"

definition verifyPackageEntries :: "tools \<Rightarrow> zip_file list \<Rightarrow> string \<Rightarrow> string \<Rightarrow> string \<Rightarrow> host_error + Result" where
  "verifyPackageEntries T fls publicKey expectedArchitecture currentVersion =
     (case collect_entries [] fls of Inl e \<Rightarrow> Inl e | Inr entries \<Rightarrow>
      case readEntry (map_of entries ''manifest.json'') maxManifestSize of Inl e \<Rightarrow> Inl e | Inr manifestBytes \<Rightarrow>
      case readEntry (map_of entries ''manifest.sig'') 1024 of Inl e \<Rightarrow> Inl e | Inr signatureText \<Rightarrow>
      case Std_decode (TrimSpace signatureText) of
        None \<Rightarrow> Inl (Message ''invalid manifest signature encoding'')
      | Some signature \<Rightarrow>
          if length signature \<noteq> 64 then Inl (Message ''invalid manifest signature encoding'')
          else if length publicKey \<noteq> 32 \<or> \<not> ed25519_Verify T publicKey manifestBytes signature
          then Inl (Message ''manifest signature verification failed'')
          else case unjson_Manifest T manifestBytes of
                 None \<Rightarrow> Inl (Message ''decode manifest'')
               | Some manifest \<Rightarrow>
                   (case validateManifest T manifest expectedArchitecture currentVersion of
                      Some e \<Rightarrow> Inl e
                    | None \<Rightarrow>
                        (case check_payloads entries 0 (m_Files manifest) of
                           Some e \<Rightarrow> Inl e
                         | None \<Rightarrow>
                             (let names = map f_Component (m_Files manifest);
                                  listed = ''manifest.json'' # ''manifest.sig'' # map payload_name names
                              in if list_ex (\<lambda>e. fst e \<notin> set listed) entries then Inl (Message ''unlisted package entry'')
                                 else Inr \<lparr>r_Manifest = manifest, r_Files = sort names\<rparr>))))"

definition of_sum :: "host_error + 'a \<Rightarrow> 'a hm" where
  "of_sum r = (case r of Inl e \<Rightarrow> hfail e | Inr a \<Rightarrow> hret a)"

definition LoadPublicKey :: "path \<Rightarrow> string hm" where
  "LoadPublicKey p =
     hbind (ReadFile p) (\<lambda>raw.
       case Std_decode (TrimSpace raw) of
         None \<Rightarrow> hfail (Message ''invalid base64 public key'')
       | Some decoded \<Rightarrow> if length decoded \<noteq> 32 then hfail (Message ''invalid Ed25519 public key length'') else hret decoded)"

text \<open>\<^verbatim>\<open>zip.OpenReader\<close>\<close>

definition zip_OpenReader :: "tools \<Rightarrow> path \<Rightarrow> zip_file list hm" where
  "zip_OpenReader T p = hbind (ReadFile p) (\<lambda>data.
     case zip_NewReader T data of None \<Rightarrow> hfail (Message ''open package'') | Some zs \<Rightarrow> hret zs)"

definition VerifyPackage :: "tools \<Rightarrow> path \<Rightarrow> string \<Rightarrow> string \<Rightarrow> string \<Rightarrow> Result hm" where
  "VerifyPackage T p publicKey expectedArchitecture currentVersion =
     hbind (zip_OpenReader T p) (\<lambda>zs. of_sum (verifyPackageEntries T zs publicKey expectedArchitecture currentVersion))"

definition VerifyPackageBytes :: "tools \<Rightarrow> string \<Rightarrow> string \<Rightarrow> string \<Rightarrow> string \<Rightarrow> host_error + Result" where
  "VerifyPackageBytes T data publicKey expectedArchitecture currentVersion =
     (if length data > maxPackageSize + 1048576 then Inl (Message ''package exceeds size limit'')
      else case zip_NewReader T data of None \<Rightarrow> Inl (Message ''open package'')
           | Some zs \<Rightarrow> verifyPackageEntries T zs publicKey expectedArchitecture currentVersion)"

section \<open>Packaging\<close>

definition writeExclusive :: "path \<Rightarrow> string \<Rightarrow> nat \<Rightarrow> unit hm" where
  "writeExclusive p data mode =
     hthen (CreateExcl p mode)
     (hthen (on_error (Write p data) (\<lambda>e. hthen (hignore Settle) (hthen (hignore (Remove p)) (hfail e))))
     (hthen (on_error Settle (\<lambda>e. hthen (hignore Settle) (hthen (hignore (Remove p)) (hfail e))))
     (hthen (on_error Settle (\<lambda>e. hthen (hignore (Remove p)) (hfail e)))
     (Chmod p mode))))"

definition not_exists :: "path \<Rightarrow> string \<Rightarrow> unit hm" where
  "not_exists p message =
     hbind (htry (Lstat p)) (\<lambda>r. if r = Inl NotExist then hret () else hfail (Message message))"

text \<open>The key pair is what the random source gives.\<close>

definition GenerateSigningKey :: "path option \<Rightarrow> path option \<Rightarrow> (string \<times> string) option \<Rightarrow> unit hm" where
  "GenerateSigningKey privatePath publicPath generated =
     (case (privatePath, publicPath) of
        (Some private, Some public) \<Rightarrow>
          hthen (hensure (private \<noteq> public) (Message ''distinct private and public key paths are required''))
          (hthen (not_exists private ''private key path already exists'')
          (hthen (not_exists public ''public key path already exists'')
          (case generated of
             None \<Rightarrow> hfail IOError
           | Some (publicKey, privateKey) \<Rightarrow>
               hthen (writeExclusive private (Std_encode privateKey) 384)
               (on_error (writeExclusive public (Std_encode publicKey) 420)
                  (\<lambda>e. hthen (hignore (Remove private)) (hfail e))))))
      | _ \<Rightarrow> hfail (Message ''distinct private and public key paths are required''))"

definition LoadPrivateKey :: "path \<Rightarrow> string hm" where
  "LoadPrivateKey p =
     hbind (ReadFile p) (\<lambda>raw. case Std_decode raw of
       None \<Rightarrow> hfail (Message ''invalid Ed25519 private key'')
     | Some decoded \<Rightarrow> if length decoded \<noteq> 64 then hfail (Message ''invalid Ed25519 private key'') else hret decoded)"

record PackageOptions =
  po_ReleaseVersion :: string
  po_Channel :: string
  po_Architecture :: string
  po_MinimumVersion :: string
  po_CreatedAt :: time
  po_Components :: "(string \<times> path) list"

definition hashFile :: "path \<Rightarrow> string hm" where
  "hashFile p = hbind (ReadFile p) (\<lambda>c. hret (hex_encode (sha256 (take (maxFileSize + 1) c))))"

fun list_components :: "(string \<times> path) list \<Rightarrow> string list \<Rightarrow> File list hm" where
  "list_components components [] = hret []"
| "list_components components (name # names) =
     hthen (hensure (name \<in> set allowedComponents) (Message ''invalid component''))
     (case map_of components name of None \<Rightarrow> hfail NotExist | Some p \<Rightarrow>
      hbind (Lstat p) (\<lambda>info.
      case info of
        Regular _ c \<Rightarrow>
          hthen (hensure (length c \<le> maxFileSize) (Message ''component is not a supported regular file''))
          (hbind (hashFile p) (\<lambda>digest.
          hbind (list_components components names) (\<lambda>fls.
            hret (\<lparr>f_Component = name, f_Size = int (length c), f_SHA256 = digest\<rparr> # fls))))
      | _ \<Rightarrow> hfail (Message ''component is not a supported regular file'')))"

fun read_components :: "(string \<times> path) list \<Rightarrow> string list \<Rightarrow> (string \<times> string) list hm" where
  "read_components components [] = hret []"
| "read_components components (name # names) =
     (case map_of components name of None \<Rightarrow> hfail NotExist | Some p \<Rightarrow>
      hbind (ReadFile p) (\<lambda>data.
      hbind (read_components components names) (\<lambda>rest. hret ((payload_name name, data) # rest))))"

text \<open>
  The two entries of the manifest are written in the order of a Go map iteration, which
  \<open>swap\<close> decides; the archive is on disk when the writer and the file are closed.
\<close>

definition CreateSignedPackage :: "tools \<Rightarrow> bool \<Rightarrow> path option \<Rightarrow> string \<Rightarrow> PackageOptions \<Rightarrow> unit hm" where
  "CreateSignedPackage T swap outputPath privateKey options =
     hthen (hensure (length privateKey = 64) (Message ''invalid Ed25519 private key''))
     (case outputPath of None \<Rightarrow> hfail (Message ''output path is required'') | Some out \<Rightarrow>
      hthen (not_exists out ''output package already exists'')
      (hbind (if IsZero (po_CreatedAt options) then Now else hret (po_CreatedAt options)) (\<lambda>createdAt.
       let names = sort (map fst (po_Components options)) in
       hbind (list_components (po_Components options) names) (\<lambda>fls.
       let manifest = \<lparr>m_SchemaVersion = 1, m_ReleaseVersion = po_ReleaseVersion options, m_Channel = po_Channel options,
             m_Architecture = po_Architecture options, m_MinimumVersion = po_MinimumVersion options,
             m_CreatedAt = createdAt, m_Files = fls\<rparr> in
       case validateManifest T manifest (po_Architecture options) [] of
         Some e \<Rightarrow> hfail e
       | None \<Rightarrow>
           (let manifestBytes = json_Manifest T manifest;
                head = [(''manifest.json'', manifestBytes),
                        (''manifest.sig'', Std_encode (ed25519_Sign T privateKey manifestBytes))]
            in hthen (CreateExcl out 384)
               (on_error
                  (hbind (read_components (po_Components options) names) (\<lambda>payload.
                   hthen (Write out (zip_Write T ((if swap then rev head else head) @ payload))) Settle))
                  (\<lambda>e. hthen (hignore (Remove out)) (hfail e))))))))"

section \<open>Staging\<close>

definition stageEntry :: "zip_file option \<Rightarrow> path \<Rightarrow> File \<Rightarrow> nat \<Rightarrow> unit hm" where
  "stageEntry entry destination file mode =
     (case entry of None \<Rightarrow> hfail (Message ''payload entry is missing'')
      | Some z \<Rightarrow> (case z_Data z of None \<Rightarrow> hfail IOError
         | Some d \<Rightarrow>
             (let data = take (nat (f_Size file) + 1) d in
              hthen (CreateExcl destination mode)
              (hthen (Write destination data)
              (hthen Settle
              (hthen (hensure (int (length data) = f_Size file \<and> EqualFold (hex_encode (sha256 data)) (f_SHA256 file))
                        (Message ''payload changed after verification''))
              (Chmod destination mode)))))))"

text \<open>
  The loop over \<^verbatim>\<open>result.Files\<close>, which the verifier took from the manifest and the allowed
  components; the last case, a name without a file or a specification, does not occur.
\<close>

fun stage_components :: "path \<Rightarrow> zip_file list \<Rightarrow> File list \<Rightarrow> string list \<Rightarrow> StagedComponent list hm" where
  "stage_components temporary zs fls [] = hret []"
| "stage_components temporary zs fls (component # rest) =
     (case (map_of (map (\<lambda>f. (f_Component f, f)) fls) component, component_spec component) of
        (Some manifestFile, Some spec) \<Rightarrow>
          (let destination = temporary @ [''payload'', component] in
           hthen (MkdirAll (temporary @ [''payload'']) 448)
           (hthen (stageEntry (map_of (rev (map (\<lambda>z. (z_Name z, z)) zs)) (payload_name component)) destination manifestFile (spec_Mode spec))
           (hbind (stage_components temporary zs fls rest) (\<lambda>staged.
             hret (\<lparr>sc_Component = component, sc_Target = spec_Target spec, sc_Mode = perm (spec_Mode spec),
                    sc_SHA256 = f_SHA256 manifestFile, sc_RestartLightDM = spec_RestartLightDM spec\<rparr> # staged)))))
      | _ \<Rightarrow> hfail (Message ''payload entry is missing''))"

definition VerifyAndStage :: "tools \<Rightarrow> path \<Rightarrow> string \<Rightarrow> string \<Rightarrow> string \<Rightarrow> path option \<Rightarrow> StagePlan hm" where
  "VerifyAndStage T packagePath publicKey architecture currentVersion stageDir =
     hbind (VerifyPackage T packagePath publicKey architecture currentVersion) (\<lambda>result.
     case stageDir of None \<Rightarrow> hfail (Message ''stage directory is required'') | Some stage \<Rightarrow>
     hthen (not_exists stage ''stage directory already exists'')
     (let temporary = sibling stage ''.tmp'' in
      hthen (not_exists temporary ''temporary stage directory already exists'')
      (hthen (MkdirAll (butlast stage) 448)
      (hthen (Mkdir temporary 448)
      (on_error
        (hbind (zip_OpenReader T packagePath) (\<lambda>zs.
         hbind (stage_components temporary zs (m_Files (r_Manifest result)) (r_Files result)) (\<lambda>components.
         let plan = \<lparr>sp_ReleaseVersion = m_ReleaseVersion (r_Manifest result),
                     sp_Architecture = m_Architecture (r_Manifest result), sp_Components = components\<rparr> in
         hthen (CreateExcl (temporary @ [''stage-plan.json'']) 384)
         (hthen (Write (temporary @ [''stage-plan.json'']) (json_StagePlan T plan))
         (hthen Settle
         (hthen (Rename temporary stage)
         (hret plan)))))))
        (\<lambda>e. hthen (hignore (RemoveAll temporary)) (hfail e)))))))"

lemma not_exists_Done: "not_exists p message h = (Done u, h') \<Longrightarrow> look h p = None \<and> files h' = files h"
  by (auto simp: not_exists_def host_simps split: if_splits dest: Lstat_missing Lstat_files)

section \<open>Versions do not panic\<close>

lemma validVersion_parse: "validVersion s \<Longrightarrow> version_parse s \<noteq> None"
  by (auto simp: validVersion_def version_parse_def Let_def split: option.splits if_splits prod.splits)

lemma compare_identifiers_range: "compare_identifiers l r = Some c \<Longrightarrow> c \<in> {- 1, 1}"
  by (induction l r rule: compare_identifiers.induct)
     (auto simp: compare_identifier_def split: if_splits option.splits)

lemma compare_numbers_range: "compare_numbers l r = Some c \<Longrightarrow> c \<in> {- 1, 1}"
  by (induction l r rule: compare_numbers.induct) (auto split: if_splits)

lemma compareVersions_valid:
  assumes "validVersion s" "validVersion t"
  obtains c where "compareVersions s t = Some c" "c \<in> {- 1, 0, 1}"
proof -
  obtain l r where "version_parse s = Some l" "version_parse t = Some r"
    using validVersion_parse [OF assms(1)] validVersion_parse [OF assms(2)] by auto
  then have "\<exists>c. compareVersions s t = Some c \<and> c \<in> {- 1, 0, 1}"
    using compare_identifiers_range compare_numbers_range
    by (cases l; cases r) (fastforce simp: compareVersions_def split: option.splits)
  with that show ?thesis by blast
qed

section \<open>What the verifier accepts\<close>

lemma collect_entries_Inr:
  assumes "collect_entries es zs = Inr entries" "distinct (map fst es)" "length es \<le> 32"
  shows "entries = rev (map (\<lambda>z. (z_Name z, z)) zs) @ es \<and> distinct (map fst entries) \<and> length entries \<le> 32"
  using assms
proof (induction zs arbitrary: es)
  case (Cons z zs)
  from Cons.prems(1) have new: "\<not> length es \<ge> 32" "map_of es (z_Name z) = None"
    "collect_entries ((z_Name z, z) # es) zs = Inr entries"
    by (simp_all split: if_splits)
  have "distinct (map fst ((z_Name z, z) # es))" "length ((z_Name z, z) # es) \<le> 32"
    using new Cons.prems(2) by (simp_all add: map_of_eq_None_iff)
  from Cons.IH [OF new(3) this] show ?case unfolding list.map rev.simps append_assoc append.simps .
qed simp

lemma readEntry_Inr:
  "readEntry e n = Inr d \<longleftrightarrow> (\<exists>z. e = Some z \<and> z_UncompressedSize64 z \<le> n \<and> z_Data z = Some d \<and> length d \<le> n)"
  by (auto simp: readEntry_def Let_def min_def split: option.splits if_splits)

lemma readEntry_no_panic: "readEntry e n = Inl x \<Longrightarrow> x \<noteq> Panic"
  by (auto simp: readEntry_def Let_def split: option.splits if_splits)

lemma collect_entries_no_panic: "collect_entries es zs = Inl x \<Longrightarrow> x \<noteq> Panic"
  by (induction es zs rule: collect_entries.induct) (auto split: if_splits)

lemma validate_files_no_panic: "validate_files seen fs \<noteq> Some Panic"
  by (induction seen fs rule: validate_files.induct) (auto split: option.splits)

lemma check_payloads_no_panic: "check_payloads es n fs = Some x \<Longrightarrow> x \<noteq> Panic"
  by (induction es n fs rule: check_payloads.induct)
     (auto simp: Let_def split: sum.splits if_splits dest: readEntry_no_panic)

lemma validateManifest_no_panic: "validateManifest T m arch cur \<noteq> Some Panic"
proof (cases "validVersion cur \<and> validVersion (m_ReleaseVersion m) \<and> validVersion (m_MinimumVersion m)")
  case True
  obtain a b where "compareVersions cur (m_MinimumVersion m) = Some a" "compareVersions cur (m_ReleaseVersion m) = Some b"
    using True compareVersions_valid by metis
  then show ?thesis by (simp add: validateManifest_def validate_files_no_panic)
next
  case False
  then show ?thesis by (auto simp: validateManifest_def validate_files_no_panic)
qed

definition good_file :: "string list \<Rightarrow> File \<Rightarrow> bool" where
  "good_file seen f \<longleftrightarrow> f_Component f \<in> set allowedComponents \<and> f_Component f \<notin> set seen \<and>
    0 \<le> f_Size f \<and> f_Size f \<le> int maxFileSize \<and> (\<exists>d. hex_decode (f_SHA256 f) = Some d \<and> length d = 32)"

lemma validate_files_step:
  "validate_files seen (f # fs) = None \<longleftrightarrow> good_file seen f \<and> validate_files (f_Component f # seen) fs = None"
  by (auto simp: good_file_def split: option.splits)

lemma validate_files_None:
  "validate_files seen fs = None \<longleftrightarrow> distinct (map f_Component fs) \<and> (\<forall>f \<in> set fs. good_file seen f)"
proof (induction fs arbitrary: seen)
  case (Cons f fs)
  have "good_file (f_Component f # seen) g \<longleftrightarrow> good_file seen g \<and> f_Component g \<noteq> f_Component f" for g
    by (auto simp: good_file_def)
  with Cons show ?case by (auto simp: validate_files_step image_iff simp del: validate_files.simps)
qed simp

definition good_payload :: "(string \<times> zip_file) list \<Rightarrow> File \<Rightarrow> bool" where
  "good_payload es f \<longleftrightarrow> (\<exists>z d. map_of es (payload_name (f_Component f)) = Some z \<and> z_Data z = Some d \<and>
     z_UncompressedSize64 z \<le> length d \<and> int (length d) = f_Size f \<and> hex_encode (sha256 d) = lower (f_SHA256 f))"

lemma check_payloads_step:
  "check_payloads es n (f # fs) = None \<longleftrightarrow> n + f_Size f \<le> int maxPackageSize \<and> good_payload es f \<and>
     check_payloads es (n + f_Size f) fs = None"
proof (cases "readEntry (map_of es (payload_name (f_Component f))) (nat (f_Size f))")
  case (Inl e)
  then have "\<not> good_payload es f" by (auto simp: good_payload_def readEntry_def Let_def split: option.splits if_splits)
  with Inl show ?thesis by (simp add: Let_def)
next
  case (Inr d)
  then have "good_payload es f \<longleftrightarrow> int (length d) = f_Size f \<and> EqualFold (hex_encode (sha256 d)) (f_SHA256 f)"
    by (auto simp: good_payload_def readEntry_Inr EqualFold_def)
  with Inr show ?thesis by (auto simp: Let_def)
qed

lemma check_payloads_None:
  "\<forall>f \<in> set fs. 0 \<le> f_Size f \<Longrightarrow> n \<le> int maxPackageSize \<Longrightarrow>
   check_payloads es n fs = None \<longleftrightarrow>
     n + sum_list (map f_Size fs) \<le> int maxPackageSize \<and> (\<forall>f \<in> set fs. good_payload es f)"
proof (induction fs arbitrary: n)
  case (Cons f fs)
  have "0 \<le> sum_list (map f_Size fs)" using Cons.prems by (intro sum_list_nonneg) auto
  with Cons show ?case by (auto simp: check_payloads_step algebra_simps simp del: check_payloads.simps)
qed simp


lemma validateManifest_None:
  assumes "validateManifest T m arch cur = None"
  shows "validate_files [] (m_Files m) = None \<and> validVersion (m_ReleaseVersion m) \<and> m_Files m \<noteq> [] \<and>
    m_Architecture m = (if arch = [] then platform T else arch) \<and> \<not> IsZero (m_CreatedAt m) \<and>
    m_SchemaVersion m = 1 \<and> m_Channel m \<in> {''development'', ''stable''} \<and>
    (cur \<noteq> [] \<longrightarrow> compareVersions cur (m_ReleaseVersion m) = Some (- 1) \<and> validVersion cur)"
proof (cases "cur = []")
  case True
  with assms show ?thesis by (auto simp: validateManifest_def split: if_splits)
next
  case False
  with assms have v: "validVersion cur" "validVersion (m_ReleaseVersion m)" by (auto simp: validateManifest_def split: if_splits)
  then obtain c where c: "compareVersions cur (m_ReleaseVersion m) = Some c" "c \<in> {- 1, 0, 1}"
    by (rule compareVersions_valid)
  with assms False v show ?thesis by (auto simp: validateManifest_def split: if_splits option.splits)
qed


lemma map_of_rev_distinct: "distinct (map fst xs) \<Longrightarrow> map_of (rev xs) = map_of xs"
  by (rule map_of_inject_set [THEN iffD2]) (simp_all flip: rev_map)

abbreviation named :: "zip_file list \<Rightarrow> (string \<times> zip_file) list" where
  "named zs \<equiv> map (\<lambda>z. (z_Name z, z)) zs"

lemma collected:
  assumes "collect_entries [] zs = Inr entries"
  shows "distinct (map z_Name zs) \<and> length zs \<le> 32 \<and> map_of entries = map_of (named zs) \<and> map fst entries = rev (map z_Name zs)"
proof -
  have e: "entries = rev (named zs)" "distinct (map fst entries)" "length entries \<le> 32"
    using collect_entries_Inr [OF assms] by auto
  then have d: "distinct (map fst (named zs))" by (simp flip: rev_map)
  then show ?thesis using e map_of_rev_distinct [OF d] by (simp add: comp_def flip: rev_map)
qed

lemma map_of_named: "map_of (named zs) n = Some z \<Longrightarrow> z \<in> set zs \<and> z_Name z = n"
  by (auto dest: map_of_SomeD)

text \<open>
  What a verified package is: the names of its entries are exactly the manifest, its signature and
  one payload per listed component; the manifest decodes to the result and carries a valid
  signature of the key.
\<close>

definition signed_by :: "tools \<Rightarrow> zip_file list \<Rightarrow> string \<Rightarrow> Manifest \<Rightarrow> bool" where
  "signed_by T zs key m \<longleftrightarrow> (\<exists>z bytes s signature. z \<in> set zs \<and> z_Name z = ''manifest.json'' \<and> z_Data z = Some bytes \<and>
     length bytes \<le> maxManifestSize \<and> s \<in> set zs \<and> z_Name s = ''manifest.sig'' \<and> length key = 32 \<and>
     map_option (Std_decode \<circ> TrimSpace) (z_Data s) = Some (Some signature) \<and> length signature = 64 \<and>
     ed25519_Verify T key bytes signature \<and> unjson_Manifest T bytes = Some m)"

definition carries :: "zip_file list \<Rightarrow> File \<Rightarrow> bool" where
  "carries zs f \<longleftrightarrow> (\<exists>z d. z \<in> set zs \<and> z_Name z = payload_name (f_Component f) \<and> z_Data z = Some d \<and>
     int (length d) = f_Size f \<and> hex_encode (sha256 d) = lower (f_SHA256 f))"

lemma verifyPackageEntries_Inr:
  assumes "verifyPackageEntries T zs key arch cur = Inr r"
  obtains entries where "collect_entries [] zs = Inr entries" "signed_by T zs key (r_Manifest r)"
    "validateManifest T (r_Manifest r) arch cur = None" "check_payloads entries 0 (m_Files (r_Manifest r)) = None"
    "r_Files r = sort (map f_Component (m_Files (r_Manifest r)))"
    "set (map fst entries) \<subseteq> {''manifest.json'', ''manifest.sig''} \<union> payload_name ` f_Component ` set (m_Files (r_Manifest r))"
proof -
  from assms obtain entries where c: "collect_entries [] zs = Inr entries" by (auto simp: verifyPackageEntries_def split: sum.splits)
  note e = conjunct1 [OF conjunct2 [OF conjunct2 [OF collected [OF c]]]]
  from assms c obtain bytes st signature m where st: "readEntry (map_of entries ''manifest.json'') maxManifestSize = Inr bytes"
    "readEntry (map_of entries ''manifest.sig'') 1024 = Inr st" "Std_decode (TrimSpace st) = Some signature"
    "length signature = 64" "length key = 32" "ed25519_Verify T key bytes signature" "unjson_Manifest T bytes = Some m"
    and rest: "(case validateManifest T m arch cur of Some e \<Rightarrow> Inl e
       | None \<Rightarrow> (case check_payloads entries 0 (m_Files m) of Some e \<Rightarrow> Inl e
         | None \<Rightarrow> (let names = map f_Component (m_Files m);
                        listed = ''manifest.json'' # ''manifest.sig'' # map payload_name names
                    in if list_ex (\<lambda>e. fst e \<notin> set listed) entries then Inl (Message ''unlisted package entry'')
                       else Inr \<lparr>r_Manifest = m, r_Files = sort names\<rparr>))) = Inr r"
    by (auto simp: verifyPackageEntries_def split: sum.splits option.splits if_splits)
  from rest have v: "validateManifest T m arch cur = None" "check_payloads entries 0 (m_Files m) = None"
    and r: "r = \<lparr>r_Manifest = m, r_Files = sort (map f_Component (m_Files m))\<rparr>"
    and l: "\<not> list_ex (\<lambda>e. fst e \<notin> set (''manifest.json'' # ''manifest.sig'' # map payload_name (map f_Component (m_Files m)))) entries"
    by (auto simp: Let_def image_image split: option.splits if_splits)
  from st(1,2) obtain z z' where "map_of (named zs) ''manifest.json'' = Some z" "z_Data z = Some bytes" "length bytes \<le> maxManifestSize"
    "map_of (named zs) ''manifest.sig'' = Some z'" "z_Data z' = Some st" by (auto simp: readEntry_Inr e)
  with map_of_named [OF this(1)] map_of_named [OF this(4)] st(3-7) have "signed_by T zs key m"
    unfolding signed_by_def by (intro exI [of _ z] exI [of _ bytes] exI [of _ z'] exI [of _ signature]) simp
  moreover have "set (map fst entries) \<subseteq> {''manifest.json'', ''manifest.sig''} \<union> payload_name ` f_Component ` set (m_Files m)"
    using l by (simp add: list_ex_iff image_image) blast
  ultimately show thesis using that [OF c] v r by simp
qed

end
