(* ===== verification/Update_Signing.thy ===== *)
theory Update_Signing
  imports Update_Package "HOL-Library.Countable"
begin

text \<open>
  Properties of signed packages: what a package that the verifier accepts is, and that a package
  made by the packager is accepted.
\<close>

section \<open>Soundness of the verifier\<close>

text \<open>
  C7: A package that the verifier accepts is what its signature says.  Its manifest carries a valid
  signature of the configured key, is meant for the expected architecture and, when the client
  knows its version, is strictly newer.  The archive holds the manifest, its signature and exactly
  one payload for each listed component and nothing else; every component is on the list of
  allowed ones, occurs once, and its payload has the listed size and SHA-256 digest; the payloads
  together stay below the size limit.
\<close>

theorem verified_package_sound:
  assumes "verifyPackageEntries T zs key arch cur = Inr r"
  defines "fls \<equiv> m_Files (r_Manifest r)"
  shows "signed_by T zs key (r_Manifest r) \<and> m_Architecture (r_Manifest r) = (if arch = [] then platform T else arch) \<and>
    (cur \<noteq> [] \<longrightarrow> compareVersions cur (m_ReleaseVersion (r_Manifest r)) = Some (- 1)) \<and>
    distinct (map z_Name zs) \<and>
    z_Name ` set zs = {''manifest.json'', ''manifest.sig''} \<union> payload_name ` f_Component ` set fls \<and>
    distinct (map f_Component fls) \<and> f_Component ` set fls \<subseteq> set allowedComponents \<and> (\<forall>f \<in> set fls. carries zs f) \<and>
    sum_list (map f_Size fls) \<le> int maxPackageSize"
proof -
  from assms obtain entries where c: "collect_entries [] zs = Inr entries" and s: "signed_by T zs key (r_Manifest r)"
    and v: "validateManifest T (r_Manifest r) arch cur = None" and p: "check_payloads entries 0 fls = None"
    and l: "set (map fst entries) \<subseteq> {''manifest.json'', ''manifest.sig''} \<union> payload_name ` f_Component ` set fls"
    by (auto elim: verifyPackageEntries_Inr)
  note e = collected [OF c]
  from validateManifest_None [OF v] have f: "distinct (map f_Component fls)" "\<forall>f \<in> set fls. good_file [] f"
    by (simp_all add: validate_files_None fls_def)
  with p have "sum_list (map f_Size fls) \<le> int maxPackageSize" and g: "\<forall>f \<in> set fls. good_payload entries f"
    by (simp_all add: check_payloads_None good_file_def)
  have names: "z_Name ` set zs = set (map fst entries)" using e by simp
  have carry: "carries zs f" if "f \<in> set fls" for f
  proof -
    from that g e obtain z d where "map_of (named zs) (payload_name (f_Component f)) = Some z" "z_Data z = Some d"
      "int (length d) = f_Size f" "hex_encode (sha256 d) = lower (f_SHA256 f)" by (auto simp: good_payload_def)
    with map_of_named [OF this(1)] show ?thesis by (auto simp: carries_def)
  qed
  have head: "{''manifest.json'', ''manifest.sig''} \<subseteq> z_Name ` set zs" using s by (force simp: signed_by_def)
  have tail: "payload_name ` f_Component ` set fls \<subseteq> z_Name ` set zs" using carry by (force simp: carries_def)
  have "z_Name ` set zs = {''manifest.json'', ''manifest.sig''} \<union> payload_name ` f_Component ` set fls"
    by (rule equalityI [OF l [folded names] Un_least [OF head tail]])
  moreover have "f_Component ` set fls \<subseteq> set allowedComponents" using f by (auto simp: good_file_def)
  moreover have "distinct (map z_Name zs)" using e by simp
  moreover have "m_Architecture (r_Manifest r) = (if arch = [] then platform T else arch)"
    "cur \<noteq> [] \<longrightarrow> compareVersions cur (m_ReleaseVersion (r_Manifest r)) = Some (- 1)"
    using validateManifest_None [OF v] by auto
  ultimately show ?thesis using s f(1) carry \<open>sum_list _ \<le> _\<close> by (intro conjI ballI) assumption+
qed

section \<open>A signed package verifies\<close>

lemma space_at_other: "\<forall>c \<in> set s. \<forall>r \<in> set rs. c \<notin> set r \<Longrightarrow> [] \<notin> set rs \<Longrightarrow> space_at rs s = 0"
proof -
  assume other: "\<forall>c \<in> set s. \<forall>r \<in> set rs. c \<notin> set r" and ne: "[] \<notin> set rs"
  have "\<not> HasPrefix s r" if "r \<in> set rs" for r
  proof
    assume "HasPrefix s r"
    then have "set r \<subseteq> set s" by (auto simp: HasPrefix_iff)
    moreover from that ne have "r \<noteq> []" by blast
    then have "hd r \<in> set r" by simp
    ultimately show False using other that by blast
  qed
  then show ?thesis by (auto simp: space_at_def find_Some_iff split: option.splits)
qed

lemma TrimSpace_other:
  assumes "\<forall>c \<in> set s. \<forall>r \<in> set space_runes. c \<notin> set r"
  shows "TrimSpace s = s"
proof -
  have ne: "[] \<notin> set space_runes" "[] \<notin> set (map rev space_runes)" by (simp_all add: space_runes_def)
  have "space_at space_runes s = 0" "space_at (map rev space_runes) (rev s) = 0"
    using assms ne by (auto intro!: space_at_other)
  then show ?thesis by (simp add: TrimSpace_def trim_with.simps)
qed

lemma std_not_special:
  "c \<in> set std_alphabet \<Longrightarrow> c \<noteq> CHR ''='' \<and> c \<noteq> CHR 0x0A \<and> c \<noteq> CHR 0x0D \<and> (\<forall>r \<in> set space_runes. c \<notin> set r)"
proof -
  have "list_all (\<lambda>c. c \<noteq> CHR ''='' \<and> c \<noteq> CHR 0x0A \<and> c \<noteq> CHR 0x0D \<and> list_all (\<lambda>r. c \<notin> set r) space_runes) std_alphabet"
    by code_simp
  then show "c \<in> set std_alphabet \<Longrightarrow> ?thesis" by (auto simp: list_all_iff)
qed

lemma RawStd_chars: "c \<in> set (RawStd_encode s) \<Longrightarrow> c \<noteq> CHR ''='' \<and> c \<noteq> CHR 0x0A \<and> c \<noteq> CHR 0x0D \<and> (\<forall>r \<in> set space_runes. c \<notin> set r)"
  using set_b64_encode [of std_alphabet s] std_not_special by (auto simp del: b64_alphabets simp: b64_alphabets)

lemma Std_encode_chars:
  assumes "c \<in> set (Std_encode s)"
  shows "c \<noteq> CHR 0x0A \<and> c \<noteq> CHR 0x0D \<and> (\<forall>r \<in> set space_runes. c \<notin> set r)"
proof -
  have "\<forall>r \<in> set space_runes. CHR ''='' \<notin> set r" by (simp add: space_runes_def)
  with assms RawStd_chars [of c s] show ?thesis by (auto simp: Std_encode_def Let_def)
qed

lemma TrimSpace_Std [simp]: "TrimSpace (Std_encode s) = Std_encode s"
  using Std_encode_chars by (intro TrimSpace_other) blast

lemma HasSuffix_iff: "HasSuffix s p \<longleftrightarrow> (\<exists>r. s = r @ p)"
proof
  assume "HasSuffix s p"
  then have "s = take (length s - length p) s @ p" by (metis HasSuffix_def append_take_drop_id)
  then show "\<exists>r. s = r @ p" by blast
qed (auto simp: HasSuffix_def)

lemma Std_decode_padded:
  assumes "\<forall>c \<in> set t. c \<noteq> CHR ''='' \<and> c \<noteq> CHR 0x0A \<and> c \<noteq> CHR 0x0D" "n = 0 \<or> n = 1 \<or> n = 2" "(length t + n) mod 4 = 0"
  shows "Std_decode (t @ replicate n (CHR ''='')) = RawStd_decode t"
proof -
  have flt: "filter (\<lambda>c. c \<noteq> CHR 0x0A \<and> c \<noteq> CHR 0x0D) (t @ replicate n (CHR ''='')) = t @ replicate n (CHR ''='')"
    using assms(1) by (simp add: filter_id_conv)
  have "CHR ''='' \<notin> set t" using assms(1) by blast
  then have noeq: "\<not> HasSuffix t (x @ ''='')" for x unfolding HasSuffix_iff by (metis append.assoc in_set_conv_decomp)
  have suff: "HasSuffix (t @ ''='') (x @ ''='') \<longleftrightarrow> HasSuffix t x" for x by (auto simp: HasSuffix_iff)
  show ?thesis unfolding Std_decode_def flt Let_def
    using assms(2,3) noeq [of "[]"] noeq [of "''=''"] suff [of "''=''"]
    by (auto simp: numeral_2_eq_2 HasSuffix_iff)
qed

lemma Std_roundtrip [simp]: "Std_decode (Std_encode s) = Some s"
proof -
  let ?t = "RawStd_encode s" and ?n = "(4 - length (RawStd_encode s) mod 4) mod 4"
  have len: "length ?t mod 4 \<noteq> 1" by simp presburger
  have l: "length ?t mod 4 = 0 \<or> length ?t mod 4 = 2 \<or> length ?t mod 4 = 3"
    using len mod_less_divisor [of 4 "length ?t"] by linarith
  then have "(length ?t + ?n) mod 4 = 0" using mod_add_left_eq [of "length ?t" 4 ?n] by (elim disjE) simp_all
  moreover have "?n = 0 \<or> ?n = 1 \<or> ?n = 2" using l by auto
  ultimately have "Std_decode (?t @ replicate ?n (CHR ''='')) = RawStd_decode ?t"
    using RawStd_chars by (intro Std_decode_padded) blast+
  then show ?thesis by (simp add: Std_encode_def Let_def)
qed


text \<open>The contents of the component files, and the manifest a package of them has.\<close>

definition component_data :: "(string \<times> path) list \<Rightarrow> files \<Rightarrow> string \<Rightarrow> string" where
  "component_data components fs n =
     (case map_of components n of None \<Rightarrow> [] | Some p \<Rightarrow> (case map_of fs p of Some (Regular _ c) \<Rightarrow> c | _ \<Rightarrow> []))"

definition package_manifest :: "PackageOptions \<Rightarrow> files \<Rightarrow> Manifest" where
  "package_manifest options fs =
     \<lparr>m_SchemaVersion = 1, m_ReleaseVersion = po_ReleaseVersion options, m_Channel = po_Channel options,
      m_Architecture = po_Architecture options, m_MinimumVersion = po_MinimumVersion options,
      m_CreatedAt = po_CreatedAt options,
      m_Files = map (\<lambda>n. let d = component_data (po_Components options) fs n in
         \<lparr>f_Component = n, f_Size = int (length d), f_SHA256 = hex_encode (sha256 d)\<rparr>) (sort (map fst (po_Components options)))\<rparr>"

definition packable :: "(string \<times> path) list \<Rightarrow> files \<Rightarrow> string \<Rightarrow> bool" where
  "packable components fs n \<longleftrightarrow> n \<in> set allowedComponents \<and> (\<exists>p m c. map_of components n = Some p \<and>
     map_of fs p = Some (Regular m c) \<and> length c \<le> maxFileSize)"

lemma list_components_Done:
  "list_components components names h = (Done fls, h') \<Longrightarrow> files h' = files h \<and>
     (\<forall>n \<in> set names. packable components (files h) n) \<and>
     fls = map (\<lambda>n. let d = component_data components (files h) n in
       \<lparr>f_Component = n, f_Size = int (length d), f_SHA256 = hex_encode (sha256 d)\<rparr>) names"
proof (induction names arbitrary: h fls h')
  case (Cons n names)
  from Cons.prems obtain p info h1 where p: "map_of components n = Some p" "n \<in> set allowedComponents"
    and l: "Lstat p h = (Done info, h1)"
    and k: "(case info of Regular _ c \<Rightarrow>
          hthen (hensure (length c \<le> maxFileSize) (Message ''component is not a supported regular file''))
          (hbind (hashFile p) (\<lambda>digest. hbind (list_components components names) (\<lambda>fls.
            hret (\<lparr>f_Component = n, f_Size = int (length c), f_SHA256 = digest\<rparr> # fls))))
      | _ \<Rightarrow> hfail (Message ''component is not a supported regular file'')) h1 = (Done fls, h')"
    by (auto simp: host_simps split: option.splits)
  then obtain m c where info: "info = Regular m c" by (cases info) (auto simp: host_simps)
  with k obtain digest rest h2 where c: "length c \<le> maxFileSize" "hashFile p h1 = (Done digest, h2)"
    "list_components components names h2 = (Done rest, h')"
    "fls = \<lparr>f_Component = n, f_Size = int (length c), f_SHA256 = digest\<rparr> # rest"
    by (auto simp: host_simps)
  from Lstat_Done [OF l] have look: "look h p = Some (Regular m c)" "files h1 = files h" by (simp_all add: info)
  from c(2) look have "files h2 = files h" "digest = hex_encode (sha256 (take (maxFileSize + 1) c))"
    by (auto simp: hashFile_def host_simps dest!: ReadFile_Done)
  with c(1) look p Cons.IH [OF c(3)] c(4) show ?case
    by (simp add: packable_def component_data_def Let_def)
qed (simp add: host_simps)

lemma read_components_Done:
  "read_components components names h = (Done payload, h') \<Longrightarrow> \<forall>n \<in> set names. packable components (files h) n \<Longrightarrow>
   files h' = files h \<and> payload = map (\<lambda>n. (payload_name n, component_data components (files h) n)) names"
proof (induction names arbitrary: h payload h')
  case (Cons n names)
  from Cons.prems(2) obtain p m c where p: "map_of components n = Some p" "look h p = Some (Regular m c)"
    by (auto simp: packable_def)
  with Cons.prems(1) obtain d rest h1 where r: "ReadFile p h = (Done d, h1)"
    "read_components components names h1 = (Done rest, h')" "payload = (payload_name n, d) # rest"
    by (auto simp: host_simps)
  with ReadFile_Done [OF r(1)] p Cons.IH [OF r(2)] Cons.prems(2) show ?case by (simp add: component_data_def)
qed (simp add: host_simps)

text \<open>An archive is read back as it was written; a name that ends in a slash is a directory.\<close>

definition written_entry :: "string \<times> string \<Rightarrow> zip_file" where
  "written_entry e = \<lparr>z_Name = fst e, z_IsDir = HasSuffix (fst e) ''/'', z_UncompressedSize64 = length (snd e), z_Data = Some (snd e)\<rparr>"

lemma written_entry_simps [simp]:
  "z_Name (written_entry e) = fst e" "z_IsDir (written_entry e) = HasSuffix (fst e) ''/''"
  "z_UncompressedSize64 (written_entry e) = length (snd e)" "z_Data (written_entry e) = Some (snd e)"
  by (simp_all add: written_entry_def)

lemma map_of_named_written: "map_of (named (map written_entry es)) n = map_option (\<lambda>d. written_entry (n, d)) (map_of es n)"
  by (induction es) (auto simp: written_entry_def)

lemma named_names: "map fst (named (map written_entry es)) = map fst es"
  by simp

definition safe_name :: "string \<Rightarrow> bool" where
  "safe_name n \<longleftrightarrow> \<not> HasSuffix n ''/'' \<and> CHR 0x5C \<notin> set n \<and> \<not> contains_dots n \<and> \<not> HasPrefix n ''/''"

lemma collect_entries_safe:
  "\<forall>e \<in> set es. safe_name (fst e) \<Longrightarrow> distinct (map fst done @ map fst es) \<Longrightarrow> length done + length es \<le> 32 \<Longrightarrow>
   collect_entries done (map written_entry es) = Inr (rev (named (map written_entry es)) @ done)"
proof (induction es arbitrary: "done")
  case (Cons e es)
  have new: "map_of done (fst e) = None" using Cons.prems(2) by (simp add: map_of_eq_None_iff)
  moreover have "collect_entries ((fst e, written_entry e) # done) (map written_entry es) =
      Inr (rev (named (map written_entry es)) @ (fst e, written_entry e) # done)"
    using Cons.prems by (intro Cons.IH) auto
  ultimately show ?case using Cons.prems(1,3) by (simp add: safe_name_def)
qed simp

lemma payload_names_safe: "n \<in> set allowedComponents \<Longrightarrow> safe_name (payload_name n)"
proof -
  have "list_all (\<lambda>n. safe_name (payload_name n)) allowedComponents" by code_simp
  then show "n \<in> set allowedComponents \<Longrightarrow> ?thesis" by (auto simp: list_all_iff)
qed

lemma manifest_names_safe [simp]:
  "safe_name ''manifest.json''" "safe_name ''manifest.sig''"
  by code_simp+

lemma payload_name_other [simp]: "payload_name n \<noteq> ''manifest.json''" "payload_name n \<noteq> ''manifest.sig''"
  by (simp_all add: payload_name_def)

lemma payload_name_inject [simp]: "payload_name m = payload_name n \<longleftrightarrow> m = n"
  by (simp add: payload_name_def)

lemma length_allowed: "distinct ns \<Longrightarrow> set ns \<subseteq> set allowedComponents \<Longrightarrow> length ns \<le> 12"
  using card_mono [of "set allowedComponents" "set ns"] card_length [of allowedComponents]
  by (auto simp: distinct_card allowedComponents_def)

text \<open>The verifier accepts an archive with a signed valid manifest and payloads that match it.\<close>

lemma verify_written:
  assumes names: "map f_Component (m_Files m) = map fst payload"
    and m: "validateManifest T m arch cur = None" "unjson_Manifest T bytes = Some m" "length bytes \<le> maxManifestSize"
    and key: "length key = 32" "length signature = 64" "ed25519_Verify T key bytes signature"
    and sizes: "sum_list (map f_Size (m_Files m)) \<le> int maxPackageSize"
    and data: "\<forall>f \<in> set (m_Files m). \<forall>d. map_of payload (f_Component f) = Some d \<longrightarrow>
       int (length d) = f_Size f \<and> hex_encode (sha256 d) = lower (f_SHA256 f)"
    and head: "set head = {(''manifest.json'', bytes), (''manifest.sig'', Std_encode signature)}" "length head = 2" "distinct (map fst head)"
  shows "verifyPackageEntries T (map written_entry (head @ map (\<lambda>(n, d). (payload_name n, d)) payload)) key arch cur =
    Inr \<lparr>r_Manifest = m, r_Files = sort (map f_Component (m_Files m))\<rparr>"
proof -
  let ?es = "head @ map (\<lambda>(n, d). (payload_name n, d)) payload"
  from validateManifest_None [OF m(1)] have f: "distinct (map f_Component (m_Files m))" "\<forall>f \<in> set (m_Files m). good_file [] f"
    by (simp_all add: validate_files_None)
  have comps: "set (map fst payload) \<subseteq> set allowedComponents" using f(2) by (auto simp: good_file_def simp flip: names)
  have fst: "map fst ?es = map fst head @ map payload_name (map fst payload)" by (simp add: case_prod_beta)
  have keys: "set (map fst head) = {''manifest.json'', ''manifest.sig''}" unfolding set_map head(1) by simp
  have "distinct (map payload_name (map fst payload))"
    using f(1) unfolding names by (simp only: distinct_map [of payload_name]) (simp add: inj_on_def)
  moreover have "set (map fst head) \<inter> set (map payload_name (map fst payload)) = {}"
    unfolding keys using payload_name_other by (force simp del: payload_name_other)
  ultimately have dist: "distinct (map fst ?es)" unfolding fst using head(3) by (simp only: distinct_append simp_thms)
  have safe: "\<forall>e \<in> set ?es. safe_name (fst e)"
    using comps payload_names_safe by (auto simp: head(1))
  have "length payload \<le> 12" using length_allowed [OF f(1) [unfolded names] comps] by simp
  then have col: "collect_entries [] (map written_entry ?es) = Inr (rev (named (map written_entry ?es)))"
    using collect_entries_safe [of ?es "[]"] dist head(2) safe by (simp only: append_Nil append_Nil2 list.map length_append) simp
  let ?en = "rev (named (map written_entry ?es))"
  have look: "map_of ?en n = map_option (\<lambda>d. written_entry (n, d)) (map_of ?es n)" for n
    using map_of_rev_distinct [OF dist [folded named_names]] by (simp only: map_of_named_written)
  have mem: "map_of ?es n = Some d" if "(n, d) \<in> set ?es" for n d using dist that by (rule map_of_is_SomeI)
  have hd: "map_of ?en ''manifest.json'' = Some (written_entry (''manifest.json'', bytes))"
    "map_of ?en ''manifest.sig'' = Some (written_entry (''manifest.sig'', Std_encode signature))"
    unfolding look using mem [of "''manifest.json''" bytes] mem [of "''manifest.sig''" "Std_encode signature"] head(1) by simp_all
  have "length (Std_encode signature) \<le> 1024" using key(2) by (simp add: Std_encode_def Let_def)
  then have rd: "readEntry (map_of ?en ''manifest.json'') maxManifestSize = Inr bytes"
    "readEntry (map_of ?en ''manifest.sig'') 1024 = Inr (Std_encode signature)"
    using hd m(3) by (simp_all add: readEntry_Inr)
  have "good_payload ?en g" if "g \<in> set (m_Files m)" for g
  proof -
    from that names have "f_Component g \<in> set (map fst payload)" by (metis image_eqI set_map)
    then obtain d where d: "(f_Component g, d) \<in> set payload" by auto
    have "distinct (map fst payload)" using f(1) names by simp
    with d have "map_of payload (f_Component g) = Some d" by simp
    moreover from d have "(payload_name (f_Component g), d) \<in> set ?es" by force
    ultimately show ?thesis using data that mem unfolding good_payload_def look by auto
  qed
  then have "check_payloads ?en 0 (m_Files m) = None"
    using f(2) sizes by (subst check_payloads_None) (auto simp: good_file_def)
  moreover have "\<not> list_ex (\<lambda>e. fst e \<notin> set (''manifest.json'' # ''manifest.sig'' # map payload_name (map f_Component (m_Files m)))) ?en"
    using head(1) unfolding names by (force simp: list_ex_iff case_prod_beta)
  ultimately show ?thesis unfolding verifyPackageEntries_def col using rd m key by (simp add: Let_def image_image)
qed




text \<open>A small release, with an archive format and a signature that satisfy the laws.\<close>

definition sample_host :: "files \<Rightarrow> host" where
  "sample_host fs = \<lparr>files = fs, commands = [], requests = [], hstep = 0, outcome = (\<lambda>_. Works), written = (\<lambda>_. 0),
     kept = (\<lambda>_ _. False), made = (\<lambda>_. 0), tmpname = (\<lambda>_. ''1''), lock_free = (\<lambda>_. True), answer = (\<lambda>_. (204, [])),
     hclock = (\<lambda>_. 0)\<rparr>"

definition sample_options :: PackageOptions where
  "sample_options = \<lparr>po_ReleaseVersion = ''1.14.0'', po_Channel = ''stable'', po_Architecture = ''linux-amd64'',
     po_MinimumVersion = ''1.13.0'', po_CreatedAt = 5, po_Components = [(''sw-badge-pam-helper'', [''helper''])]\<rparr>"

definition sample_manifest :: Manifest where
  "sample_manifest = \<lparr>m_SchemaVersion = 1, m_ReleaseVersion = ''1.14.0'', m_Channel = ''stable'', m_Architecture = ''linux-amd64'',
     m_MinimumVersion = ''1.13.0'', m_CreatedAt = 5,
     m_Files = [\<lparr>f_Component = ''sw-badge-pam-helper'', f_Size = 3, f_SHA256 = hex_encode (sha256 ''elf'')\<rparr>]\<rparr>"

definition sample_tools :: tools where
  "sample_tools = \<lparr>zip_NewReader = (\<lambda>s. Some (map written_entry (from_nat (length s)))),
     zip_Write = (\<lambda>es. replicate (to_nat es) (CHR ''z'')),
     ed25519_Verify = (\<lambda>_ _ signature. signature = replicate 64 (CHR ''s'')), ed25519_Sign = (\<lambda>_ _. replicate 64 (CHR ''s'')),
     json_Manifest = (\<lambda>_. ''{}''), unjson_Manifest = (\<lambda>_. Some sample_manifest),
     json_StagePlan = (\<lambda>_. ''{}''), unjson_StagePlan = (\<lambda>_. None),
     json_RollbackManifest = (\<lambda>_. ''{}''), unjson_RollbackManifest = (\<lambda>_. None),
     json_UpdateTransaction = (\<lambda>_. ''{}''), unjson_UpdateTransaction = (\<lambda>_. None),
     json_UpdateState = (\<lambda>_. ''{}''), unjson_UpdateState = (\<lambda>_. None), platform = ''linux-amd64''\<rparr>"

definition sample_files :: files where
  "sample_files = [([], Directory 493), ([''helper''], Regular 493 ''elf'')]"

lemma sample_versions: "validVersion ''1.14.0''" "validVersion ''1.13.0''" "validVersion ''1.13.1''"
  "compareVersions ''1.13.1'' ''1.13.0'' = Some 1" "compareVersions ''1.13.1'' ''1.14.0'' = Some (- 1)"
  by code_simp+

lemma sample_time [simp]: "\<not> IsZero 5"
  by code_simp

lemma sample_valid: "validateManifest sample_tools sample_manifest ''linux-amd64'' [] = None"
  by (simp add: validateManifest_def sample_manifest_def sample_versions allowedComponents_def maxFileSize_def)

lemma sample_package: "package_manifest sample_options sample_files = sample_manifest"
  by (simp add: package_manifest_def sample_options_def sample_files_def sample_manifest_def component_data_def)

lemma sample_run:
  "\<exists>h'. CreateSignedPackage sample_tools swap (Some [''out.zip'']) (replicate 64 (CHR ''k'')) sample_options (sample_host sample_files) = (Done (), h')"
proof -
  note m = sample_valid [unfolded sample_manifest_def]
  show ?thesis
    using m by (simp add: CreateSignedPackage_def hthen_def hbind_def hensure_def hret_def not_exists_def htry_def Lstat_def call_def
        sample_host_def sample_files_def sample_options_def absent_def blocked_def is_dir_def
        allowedComponents_def hashFile_def ReadFile_def Open_def CreateExcl_def on_error_def Write_def Settle_def maxFileSize_def
        Let_def put_contents_def)
qed


lemma sample_laws:
  "zip_NewReader sample_tools (zip_Write sample_tools es) = Some (map written_entry es)"
  "length (ed25519_Sign sample_tools k b) = 64" "ed25519_Verify sample_tools p b (ed25519_Sign sample_tools k b)"
  "json_Manifest sample_tools m = ''{}''" "unjson_Manifest sample_tools b = Some sample_manifest"
  by (simp_all add: sample_tools_def)


definition sample_archive :: "zip_file list" where
  "sample_archive = map written_entry [(''manifest.json'', ''{}''), (''manifest.sig'', Std_encode (replicate 64 (CHR ''s''))),
     (payload_name ''sw-badge-pam-helper'', ''elf'')]"

lemma sample_newer: "validateManifest sample_tools sample_manifest ''linux-amd64'' ''1.13.1'' = None"
  using sample_valid by (simp add: validateManifest_def sample_versions sample_manifest_def split: if_splits)

theorem verified_package_sound_witness:
  "\<exists>r. verifyPackageEntries sample_tools sample_archive (replicate 32 (CHR ''p'')) ''linux-amd64'' ''1.13.1'' = Inr r \<and>
    z_Name ` set sample_archive = {''manifest.json'', ''manifest.sig''} \<union> payload_name ` f_Component ` set (m_Files (r_Manifest r))"
proof -
  let ?r = "\<lparr>r_Manifest = sample_manifest, r_Files = sort (map f_Component (m_Files sample_manifest))\<rparr>"
  have "verifyPackageEntries sample_tools (map written_entry ([(''manifest.json'', ''{}''), (''manifest.sig'', Std_encode (replicate 64 (CHR ''s'')))] @
      map (\<lambda>(n, d). (payload_name n, d)) [(''sw-badge-pam-helper'', ''elf'')])) (replicate 32 (CHR ''p'')) ''linux-amd64'' ''1.13.1'' = Inr ?r"
    by (rule verify_written [OF _ sample_newer])
       (simp_all add: sample_laws sample_manifest_def maxManifestSize_def maxPackageSize_def sample_tools_def)
  then have "verifyPackageEntries sample_tools sample_archive (replicate 32 (CHR ''p'')) ''linux-amd64'' ''1.13.1'' = Inr ?r"
    by (simp add: sample_archive_def)
  from this verified_package_sound [OF this] show ?thesis by (elim conjE, intro exI conjI)
qed

end
