(* ===== verification/Update_Install.thy ===== *)
theory Update_Install
  imports Update_Package
begin

text \<open>
  Installing a staged update: the snapshot of the files it replaces, the transaction marker, the
  replacement of the targets, the health checks, the rollback after a failure and the recovery
  after an interruption (\<^verbatim>\<open>install.go\<close>, \<^verbatim>\<open>rollback.go\<close>, \<^verbatim>\<open>restore.go\<close>,
  \<^verbatim>\<open>acceptance.go\<close>, \<^verbatim>\<open>state.go\<close>, \<^verbatim>\<open>transaction.go\<close> and \<^verbatim>\<open>orchestrate.go\<close> of
  \<^verbatim>\<open>internal/clientupdate\<close>).  The hooks that only the tests pass (\<^verbatim>\<open>beforeApply\<close>) are absent.
\<close>

section \<open>Copying and checking files\<close>

definition rootedTarget :: "path \<Rightarrow> path \<Rightarrow> path" where
  "rootedTarget root target = root @ target"

definition copyAndVerify :: "path \<Rightarrow> path \<Rightarrow> int \<Rightarrow> string \<Rightarrow> nat \<Rightarrow> unit hm" where
  "copyAndVerify source destination count expectedHash mode =
     hbind (Open source) (\<lambda>input.
     hthen (CreateExcl destination mode)
     (case input of None \<Rightarrow> hfail IOError | Some c \<Rightarrow>
        (let data = take (maxFileSize + 1) c in
         hthen (Write destination data)
         (hthen Settle
         (if int (length data) \<noteq> count \<or> \<not> EqualFold (hex_encode (sha256 data)) expectedHash
          then hthen (hignore (Remove destination)) (hfail (Message ''size or hash mismatch''))
          else Chmod destination mode)))))"

definition copyRollbackFile :: "path \<Rightarrow> path \<Rightarrow> string hm" where
  "copyRollbackFile source destination =
     hbind (Open source) (\<lambda>input.
     hthen (CreateExcl destination 384)
     (case input of None \<Rightarrow> hfail IOError | Some c \<Rightarrow>
        (let data = take (maxFileSize + 1) c in
         hthen (Write destination data)
         (hthen Settle
         (hthen Settle
         (hthen (hensure (length data \<le> maxFileSize) (Message ''rollback source exceeds size limit''))
         (hret (hex_encode (sha256 data)))))))))"

definition hashRegularFile :: "path \<Rightarrow> int \<Rightarrow> string hm" where
  "hashRegularFile p expectedSize =
     hbind (ReadFile p) (\<lambda>c. let data = take (maxFileSize + 1) c in
       if int (length data) \<noteq> expectedSize then hfail (Message ''size mismatch'') else hret (hex_encode (sha256 data)))"

text \<open>\<^verbatim>\<open>os.Stat\<close> follows a link; the size of a directory is not used.\<close>

definition fileSize :: "path \<Rightarrow> int hm" where
  "fileSize p = hbind (htry (Lstat p)) (\<lambda>r. hret (case r of
     Inr (Regular _ c) \<Rightarrow> int (length c) | Inr (Special (Some c)) \<Rightarrow> int (length c) | Inr (Directory _) \<Rightarrow> 0 | _ \<Rightarrow> - 1))"

section \<open>Update state and transaction marker\<close>

text \<open>The common part of \<^verbatim>\<open>WriteUpdateState\<close> and \<^verbatim>\<open>WriteUpdateTransaction\<close>.\<close>

definition replace_file :: "path \<Rightarrow> string \<Rightarrow> nat \<Rightarrow> unit hm" where
  "replace_file p raw mode =
     hthen (MkdirAll (butlast p) 493)
     (let temporary = sibling p ''.tmp'' in
      hthen (writeExclusive temporary raw mode)
      (on_error (Rename temporary p) (\<lambda>e. hthen (hignore (Remove temporary)) (hfail e))))"

definition valid_state :: "UpdateState \<Rightarrow> bool" where
  "valid_state state \<longleftrightarrow> validVersion (us_Version state) \<and> (us_Status state = ''success'' \<or> us_Status state = ''failed'') \<and>
     \<not> IsZero (us_UpdatedAt state)"

definition WriteUpdateState :: "tools \<Rightarrow> path \<Rightarrow> UpdateState \<Rightarrow> unit hm" where
  "WriteUpdateState T p state =
     hthen (hensure (valid_state state) (Message ''invalid update state''))
     (replace_file p (json_UpdateState T state) 420)"

definition ReadUpdateState :: "tools \<Rightarrow> path \<Rightarrow> UpdateState option hm" where
  "ReadUpdateState T p =
     hbind (htry (ReadFile p)) (\<lambda>r. case r of
       Inl e \<Rightarrow> if e = NotExist then hret None else hfail e
     | Inr raw \<Rightarrow>
         if length raw > 4096 then hfail (Message ''update state exceeds size limit'')
         else case unjson_UpdateState T raw of
                None \<Rightarrow> hfail (Message ''invalid update state'')
              | Some state \<Rightarrow> if valid_state state then hret (Some state) else hfail (Message ''invalid update state''))"

definition valid_transaction :: "UpdateTransaction \<Rightarrow> bool" where
  "valid_transaction t \<longleftrightarrow> ut_SchemaVersion t = 1 \<and> validVersion (ut_ReleaseVersion t) \<and> ut_RollbackDir t \<noteq> None \<and>
     \<not> IsZero (ut_StartedAt t)"

definition WriteUpdateTransaction :: "tools \<Rightarrow> path \<Rightarrow> UpdateTransaction \<Rightarrow> unit hm" where
  "WriteUpdateTransaction T p t =
     hthen (hensure (valid_transaction t) (Message ''invalid update transaction''))
     (hthen (replace_file p (json_UpdateTransaction T t) 384)
     (SyncDir (butlast p)))"

definition ReadUpdateTransaction :: "tools \<Rightarrow> path \<Rightarrow> UpdateTransaction option hm" where
  "ReadUpdateTransaction T p =
     hbind (htry (ReadFile p)) (\<lambda>r. case r of
       Inl e \<Rightarrow> if e = NotExist then hret None else hfail e
     | Inr raw \<Rightarrow>
         if length raw > 4096 then hfail (Message ''update transaction exceeds size limit'')
         else case unjson_UpdateTransaction T raw of
                None \<Rightarrow> hfail (Message ''invalid update transaction'')
              | Some t \<Rightarrow> if valid_transaction t then hret (Some t) else hfail (Message ''invalid update transaction''))"

section \<open>Snapshots\<close>

definition create_record :: "path \<Rightarrow> path \<Rightarrow> StagedComponent \<Rightarrow> RollbackFile hm" where
  "create_record root temporary c =
     (let source = root @ sc_Target c; destination = temporary @ [''files'', sc_Component c] in
      hbind (htry (Lstat source)) (\<lambda>r. case r of
        Inl e \<Rightarrow>
          if e = NotExist then hret \<lparr>rf_Component = sc_Component c, rf_Target = sc_Target c, rf_Existed = False,
                                     rf_Mode = 0, rf_Size = 0, rf_SHA256 = []\<rparr>
          else hfail e
      | Inr (Regular mode data) \<Rightarrow>
          hthen (hensure (length data \<le> maxFileSize) (Message ''rollback source exceeds size limit''))
          (hthen (MkdirAll (butlast destination) 448)
          (hbind (copyRollbackFile source destination) (\<lambda>hash.
             hret \<lparr>rf_Component = sc_Component c, rf_Target = sc_Target c, rf_Existed = True,
                   rf_Mode = perm mode, rf_Size = int (length data), rf_SHA256 = hash\<rparr>)))
      | Inr _ \<Rightarrow> hfail (Message ''rollback source is not a regular file'')))"

text \<open>The loop over the components of the plan; an error leaves the removal to the caller.\<close>

fun create_records :: "path \<Rightarrow> path \<Rightarrow> string list \<Rightarrow> StagedComponent list \<Rightarrow> RollbackFile list hm" where
  "create_records root temporary seen [] = hret []"
| "create_records root temporary seen (c # cs) =
     (case component_spec (sc_Component c) of
        None \<Rightarrow> hfail (Message ''invalid staged component'')
      | Some spec \<Rightarrow>
          if sc_Target c \<noteq> spec_Target spec \<or> sc_Mode c \<noteq> perm (spec_Mode spec) \<or> sc_Component c \<in> set seen
          then hfail (Message ''invalid staged component'')
          else hbind (create_record root temporary c) (\<lambda>record.
               hbind (create_records root temporary (sc_Component c # seen) cs) (\<lambda>records. hret (record # records))))"

definition CreateRollback :: "tools \<Rightarrow> path option \<Rightarrow> StagePlan \<Rightarrow> path option \<Rightarrow> time \<Rightarrow> RollbackManifest hm" where
  "CreateRollback T root plan rollbackDir now =
     (case (root, rollbackDir) of
        (Some root, Some dir) \<Rightarrow>
          (let temporary = sibling dir ''.tmp''; manifestPath = temporary @ [''rollback.json''] in
           hthen (not_exists dir ''rollback directory already exists'')
           (hthen (not_exists temporary ''temporary rollback directory already exists'')
           (hthen (MkdirAll (butlast dir) 448)
           (hthen (Mkdir temporary 448)
           (hbind
             (on_error
               (hbind (create_records root temporary [] (sp_Components plan)) (\<lambda>records.
                let manifest = \<lparr>rm_SchemaVersion = 1, rm_PreparedAt = now, rm_ForRelease = sp_ReleaseVersion plan,
                                rm_Files = records\<rparr> in
                hthen (CreateExcl manifestPath 384)
                (hthen (Write manifestPath (json_RollbackManifest T manifest))
                (hthen Settle
                (hthen Settle
                (hthen (hbind (htry (Lstat (temporary @ [''files'']))) (\<lambda>r.
                          case r of Inl _ \<Rightarrow> hret () | Inr _ \<Rightarrow> SyncDir (temporary @ [''files''])))
                (hthen (SyncDir temporary)
                (hthen (Rename temporary dir)
                (hret manifest)))))))))
               (\<lambda>e. hthen (hignore (RemoveAll temporary)) (hfail e)))
             (\<lambda>manifest. hthen (SyncDir (butlast dir)) (hret manifest)))))))
      | _ \<Rightarrow> hfail (Message ''root and rollback directory are required''))"

definition loadRollbackManifest :: "tools \<Rightarrow> path \<Rightarrow> RollbackManifest hm" where
  "loadRollbackManifest T dir =
     hbind (ReadFile (dir @ [''rollback.json''])) (\<lambda>raw.
       if length raw > maxManifestSize then hfail (Message ''rollback manifest exceeds size limit'')
       else case unjson_RollbackManifest T raw of
              None \<Rightarrow> hfail (Message ''decode rollback manifest'')
            | Some manifest \<Rightarrow>
                if rm_SchemaVersion manifest \<noteq> 1 \<or> IsZero (rm_PreparedAt manifest) \<or> rm_ForRelease manifest = [] \<or> rm_Files manifest = []
                then hfail (Message ''rollback manifest is incomplete'') else hret manifest)"

definition verify_record :: "path \<Rightarrow> path \<Rightarrow> RollbackFile \<Rightarrow> unit hm" where
  "verify_record root dir file =
     hthen (hbind (htry (Lstat (rootedTarget root (rf_Target file)))) (\<lambda>r. case r of
         Inl e \<Rightarrow> if e = NotExist then hret () else hfail e
       | Inr (Regular _ _) \<Rightarrow> hret ()
       | Inr _ \<Rightarrow> hfail (Message ''restore target is not a regular file'')))
     (if \<not> rf_Existed file then
        hensure (\<not> (rf_Mode file \<noteq> 0 \<or> rf_Size file \<noteq> 0 \<or> rf_SHA256 file \<noteq> [])) (Message ''invalid absent-file record'')
      else
        hthen (hensure (\<not> (rf_Mode file = 0 \<or> rf_Mode file \<ge> 512 \<or> rf_Size file < 0 \<or> rf_Size file > int maxFileSize))
                 (Message ''invalid rollback metadata''))
        (let backup = dir @ [''files'', rf_Component file] in
         hbind (Lstat backup) (\<lambda>info.
         hthen (hensure (case info of Regular m c \<Rightarrow> perm m = 384 \<and> int (length c) = rf_Size file | _ \<Rightarrow> False)
                  (Message ''rollback file metadata mismatch''))
         (hbind (hashRegularFile backup (rf_Size file)) (\<lambda>hash.
          hensure (EqualFold hash (rf_SHA256 file)) (Message ''rollback file hash mismatch''))))))"

fun verify_records :: "path \<Rightarrow> path \<Rightarrow> string list \<Rightarrow> RollbackFile list \<Rightarrow> unit hm" where
  "verify_records root dir seen [] = hret ()"
| "verify_records root dir seen (file # rest) =
     (case component_spec (rf_Component file) of
        None \<Rightarrow> hfail (Message ''invalid rollback component'')
      | Some spec \<Rightarrow>
          if rf_Target file \<noteq> spec_Target spec \<or> rf_Component file \<in> set seen then hfail (Message ''invalid rollback component'')
          else hthen (verify_record root dir file) (verify_records root dir (rf_Component file # seen) rest))"

definition VerifyRollback :: "tools \<Rightarrow> path \<Rightarrow> path \<Rightarrow> RollbackManifest hm" where
  "VerifyRollback T root dir =
     hbind (Lstat dir) (\<lambda>info.
     hthen (hensure (case info of Directory m \<Rightarrow> perm m = 448 | _ \<Rightarrow> False) (Message ''rollback directory is not a root-only directory''))
     (hbind (Lstat (dir @ [''rollback.json''])) (\<lambda>info.
     hthen (hensure (case info of Regular m _ \<Rightarrow> perm m = 384 | _ \<Rightarrow> False) (Message ''rollback manifest is not a root-only regular file''))
     (hbind (loadRollbackManifest T dir) (\<lambda>manifest.
     hthen (verify_records root dir [] (rm_Files manifest))
     (hret manifest))))))"

section \<open>Restoring\<close>

definition prepare_record :: "path \<Rightarrow> path \<Rightarrow> RollbackFile \<Rightarrow> unit hm" where
  "prepare_record dir prepared file =
     (if \<not> rf_Existed file then hret ()
      else copyAndVerify (dir @ [''files'', rf_Component file]) (prepared @ [rf_Component file])
             (rf_Size file) (rf_SHA256 file) (rf_Mode file))"

text \<open>Copying to a sibling of the target and renaming it into place; both callers remove the sibling on error.\<close>

definition replace_target :: "string \<Rightarrow> path \<Rightarrow> path \<Rightarrow> int \<Rightarrow> string \<Rightarrow> nat \<Rightarrow> unit hm" where
  "replace_target ext source target count hash mode =
     (let replacement = sibling target ext; discard = (\<lambda>e. hthen (hignore (Remove replacement)) (hfail e)) in
      hthen (on_error (copyAndVerify source replacement count hash mode) discard)
      (on_error (Rename replacement target) discard))"

definition restore_record :: "path \<Rightarrow> path \<Rightarrow> RollbackFile \<Rightarrow> unit hm" where
  "restore_record root prepared file =
     (let target = rootedTarget root (rf_Target file) in
      hthen (MkdirAll (butlast target) 493)
      (if \<not> rf_Existed file then on_error (Remove target) (\<lambda>e. if e = NotExist then hret () else hfail e)
       else replace_target ''.swbadge-restore-new'' (prepared @ [rf_Component file]) target
              (rf_Size file) (rf_SHA256 file) (rf_Mode file)))"

definition RestoreRollback :: "tools \<Rightarrow> path \<Rightarrow> path \<Rightarrow> unit hm" where
  "RestoreRollback T root dir =
     hbind (VerifyRollback T root dir) (\<lambda>manifest.
     let prepared = dir @ [''.restore-prepared''] in
     hthen (RemoveAll prepared)
     (hthen (Mkdir prepared 448)
     (deferred
        (hthen (each (prepare_record dir prepared) (rm_Files manifest))
        (each (restore_record root prepared) (rm_Files manifest)))
        (RemoveAll prepared))))"

section \<open>Service checks\<close>

definition RequiresLightDMMaintenance :: "StagePlan \<Rightarrow> bool" where
  "RequiresLightDMMaintenance plan = list_ex sc_RestartLightDM (sp_Components plan)"

definition has_component :: "string list \<Rightarrow> StagePlan \<Rightarrow> bool" where
  "has_component names plan = list_ex (\<lambda>c. sc_Component c \<in> set names) (sp_Components plan)"

definition systemd_units :: "string list" where
  "systemd_units = [''swbadge-client-updates.service'', ''swbadge-client-updates.timer'',
     ''swbadge-client-status.service'', ''swbadge-client-status.timer'']"

definition systemctl :: "string list \<Rightarrow> unit hm" where
  "systemctl arguments = Run (''systemctl'' # arguments)"

definition restart_greeter :: "StagePlan \<Rightarrow> unit hm" where
  "restart_greeter plan =
     (if RequiresLightDMMaintenance plan
      then hthen (systemctl [''restart'', ''lightdm.service'']) (systemctl [''try-restart'', ''swbadge-vnc.service''])
      else hret ())"

definition serviceHealthCheck :: "StagePlan \<Rightarrow> unit hm" where
  "serviceHealthCheck plan =
     (let hasSystemdUnit = has_component systemd_units plan; hasStatusComponent = has_component [''sw-badge-client-status''] plan in
      hthen (if hasSystemdUnit then systemctl [''daemon-reload''] else hret ())
      (hthen (if hasSystemdUnit \<or> hasStatusComponent
              then hthen (systemctl [''start'', ''swbadge-client-status.service''])
                         (systemctl [''is-active'', ''swbadge-client-status.timer''])
              else hret ())
      (hthen (restart_greeter plan)
      (systemctl [''is-active'', ''lightdm.service'']))))"

definition PostInterruptedRecovery :: "StagePlan \<Rightarrow> unit hm" where
  "PostInterruptedRecovery plan =
     (let hasSystemdUnit = has_component systemd_units plan; hasStatusComponent = has_component [''sw-badge-client-status''] plan in
      hthen (if hasSystemdUnit then systemctl [''daemon-reload''] else hret ())
      (hthen (if hasSystemdUnit \<or> hasStatusComponent then systemctl [''start'', ''swbadge-client-status.timer''] else hret ())
      (hthen (restart_greeter plan)
      (systemctl [''is-active'', ''lightdm.service'']))))"

definition ReleaseAcceptanceHealthCheck :: "StagePlan \<Rightarrow> unit hm" where
  "ReleaseAcceptanceHealthCheck plan =
     hthen (if has_component [''sw-badge-client-status'', ''swbadge-client-status.service'', ''swbadge-client-status.timer''] plan
            then hthen (systemctl [''start'', ''swbadge-client-status.service''])
                       (systemctl [''is-active'', ''swbadge-client-status.timer''])
            else hret ())
     (hthen (systemctl [''is-active'', ''lightdm.service''])
     (if has_component [''sw-badge-native-greeter'', ''sw-badge-native-greeter-wrapper''] plan
      then systemctl [''is-active'', ''swbadge-vnc.service''] else hret ()))"

definition UpdateHealthCallbacks :: "tools \<Rightarrow> StagePlan \<Rightarrow> path \<Rightarrow> time \<Rightarrow> unit hm \<times> unit hm" where
  "UpdateHealthCallbacks T plan statePath installedAt =
     (let record = (\<lambda>status. WriteUpdateState T statePath
            \<lparr>us_Version = sp_ReleaseVersion plan, us_Status = status, us_UpdatedAt = installedAt, us_RollbackAvailable = True\<rparr>)
      in (hthen (record ''success'') (serviceHealthCheck plan), hthen (record ''failed'') (serviceHealthCheck plan)))"

section \<open>Installing\<close>

definition loadStagePlan :: "tools \<Rightarrow> path \<Rightarrow> StagePlan hm" where
  "loadStagePlan T stageDir =
     hbind (ReadFile (stageDir @ [''stage-plan.json''])) (\<lambda>raw.
       if length raw > maxManifestSize then hfail (Message ''stage plan exceeds size limit'')
       else case unjson_StagePlan T raw of
              None \<Rightarrow> hfail (Message ''decode stage plan'')
            | Some plan \<Rightarrow>
                if \<not> validVersion (sp_ReleaseVersion plan) \<or> sp_Architecture plan = [] \<or> sp_Components plan = []
                then hfail (Message ''stage plan is incomplete'') else hret plan)"

definition validate_payload :: "path \<Rightarrow> StagedComponent \<Rightarrow> unit hm" where
  "validate_payload stageDir c =
     (let p = stageDir @ [''payload'', sc_Component c]; temporary = stageDir @ [''.validate-'' @ sc_Component c] in
      hbind (Lstat p) (\<lambda>info. case info of
        Regular _ data \<Rightarrow>
          hthen (hensure (length data \<le> maxFileSize) (Message ''invalid staged payload''))
          (hthen (on_error (copyAndVerify p temporary (int (length data)) (sc_SHA256 c) 384)
                    (\<lambda>e. hthen (hignore (Remove temporary)) (hfail e)))
          (hignore (Remove temporary)))
      | _ \<Rightarrow> hfail (Message ''invalid staged payload'')))"

fun validate_staged :: "path \<Rightarrow> string list \<Rightarrow> StagedComponent list \<Rightarrow> unit hm" where
  "validate_staged stageDir seen [] = hret ()"
| "validate_staged stageDir seen (c # cs) =
     (case component_spec (sc_Component c) of
        None \<Rightarrow> hfail (Message ''invalid staged component'')
      | Some spec \<Rightarrow>
          if sc_Component c \<in> set seen \<or> sc_Target c \<noteq> spec_Target spec \<or> sc_Mode c \<noteq> perm (spec_Mode spec) \<or>
             sc_RestartLightDM c \<noteq> spec_RestartLightDM spec
          then hfail (Message ''invalid staged component'')
          else if length (sc_SHA256 c) \<noteq> 64 then hfail (Message ''invalid staged hash'')
          else hthen (validate_payload stageDir c) (validate_staged stageDir (sc_Component c # seen) cs))"

definition validateStagedPayload :: "path \<Rightarrow> StagePlan \<Rightarrow> unit hm" where
  "validateStagedPayload stageDir plan = validate_staged stageDir [] (sp_Components plan)"

definition rollbackInstallFailure ::
  "tools \<Rightarrow> path \<Rightarrow> path \<Rightarrow> path option \<Rightarrow> unit hm option \<Rightarrow> host_error \<Rightarrow> unit hm" where
  "rollbackInstallFailure T root rollbackDir transactionPath rollbackRecovery installErr =
     hthen (on_error (RestoreRollback T root rollbackDir) (\<lambda>e. hfail (NotRestored e)))
     (case rollbackRecovery of
        None \<Rightarrow> hfail (NotRecovered installErr)
      | Some recover \<Rightarrow>
          hthen (on_error recover (\<lambda>e. hfail (NotRecovered e)))
          (hthen (case transactionPath of
                    None \<Rightarrow> hret ()
                  | Some p \<Rightarrow> on_error (Remove p) (\<lambda>e. if e = NotExist then hret () else hfail (NotCleaned e)))
          (hfail (RolledBack installErr))))"

definition prepare_component :: "path \<Rightarrow> path \<Rightarrow> StagedComponent \<Rightarrow> unit hm" where
  "prepare_component stageDir prepared c =
     (let source = stageDir @ [''payload'', sc_Component c] in
      hbind (fileSize source) (\<lambda>n. copyAndVerify source (prepared @ [sc_Component c]) n (sc_SHA256 c) (sc_Mode c)))"

definition apply_component :: "path \<Rightarrow> path \<Rightarrow> StagedComponent \<Rightarrow> unit hm" where
  "apply_component root prepared c =
     (let target = rootedTarget root (sc_Target c); source = prepared @ [sc_Component c] in
      hthen (MkdirAll (butlast target) 493)
      (hbind (fileSize source) (\<lambda>n. replace_target ''.swbadge-install-new'' source target n (sc_SHA256 c) (sc_Mode c))))"

definition installStaged ::
  "tools \<Rightarrow> path \<Rightarrow> path \<Rightarrow> path \<Rightarrow> path option \<Rightarrow> time \<Rightarrow> bool \<Rightarrow> unit hm option \<Rightarrow> unit hm option \<Rightarrow> unit hm" where
  "installStaged T root stageDir rollbackDir transactionPath now allowLightDMMaintenance healthCheck rollbackRecovery =
     hbind (loadStagePlan T stageDir) (\<lambda>plan.
     hthen (hensure (\<not> (RequiresLightDMMaintenance plan \<and> \<not> allowLightDMMaintenance))
              (Message ''update requires an explicit LightDM maintenance window''))
     (hthen (validateStagedPayload stageDir plan)
     (hthen (on_error (CreateRollback T (Some root) plan (Some rollbackDir) now) (\<lambda>e. hfail (Wrapped ''prepare rollback'' e)))
     (hthen (case transactionPath of
               None \<Rightarrow> hret ()
             | Some p \<Rightarrow> on_error (WriteUpdateTransaction T p \<lparr>ut_SchemaVersion = 1, ut_ReleaseVersion = sp_ReleaseVersion plan,
                            ut_RollbackDir = Some rollbackDir, ut_StartedAt = now\<rparr>)
                          (\<lambda>e. hfail (Wrapped ''record update transaction'' e)))
     (let prepared = stageDir @ [''.install-prepared''];
          failed = rollbackInstallFailure T root rollbackDir transactionPath rollbackRecovery in
      hthen (on_error (RemoveAll prepared) failed)
      (hthen (on_error (Mkdir prepared 448) failed)
      (deferred
         (on_error
            (hthen (each (prepare_component stageDir prepared) (sp_Components plan))
            (hthen (each (apply_component root prepared) (sp_Components plan))
            (hthen (case healthCheck of None \<Rightarrow> hfail (Message ''post-install health check is required'') | Some check \<Rightarrow> check)
            (case transactionPath of None \<Rightarrow> hret () | Some p \<Rightarrow> Remove p))))
            failed)
         (RemoveAll prepared))))))))"

definition installStagedWithTransaction ::
  "tools \<Rightarrow> path \<Rightarrow> path \<Rightarrow> path \<Rightarrow> path option \<Rightarrow> time \<Rightarrow> bool \<Rightarrow> unit hm option \<Rightarrow> unit hm option \<Rightarrow> unit hm" where
  "installStagedWithTransaction T root stageDir rollbackDir transactionPath now allowLightDMMaintenance healthCheck rollbackRecovery =
     (if healthCheck = None then hfail (Message ''post-install health check is required'')
      else if rollbackRecovery = None then hfail (Message ''post-rollback recovery check is required'')
      else installStaged T root stageDir rollbackDir transactionPath now allowLightDMMaintenance healthCheck rollbackRecovery)"

definition InstallStagedWithTransaction ::
  "tools \<Rightarrow> path \<Rightarrow> path \<Rightarrow> path \<Rightarrow> path option \<Rightarrow> time \<Rightarrow> bool \<Rightarrow> unit hm option \<Rightarrow> unit hm option \<Rightarrow> unit hm" where
  "InstallStagedWithTransaction T root stageDir rollbackDir transactionPath now allowLightDMMaintenance healthCheck rollbackRecovery =
     hthen (case transactionPath of
              None \<Rightarrow> hret ()
            | Some p \<Rightarrow> hthen (MkdirAll (butlast p) 493)
                (hbind (TryLock (sibling p ''.lock'')) (\<lambda>acquired. hensure acquired (Message ''another update is active''))))
     (installStagedWithTransaction T root stageDir rollbackDir transactionPath now allowLightDMMaintenance healthCheck rollbackRecovery)"

definition InstallStaged ::
  "tools \<Rightarrow> path \<Rightarrow> path \<Rightarrow> path \<Rightarrow> time \<Rightarrow> bool \<Rightarrow> unit hm option \<Rightarrow> unit hm option \<Rightarrow> unit hm" where
  "InstallStaged T root stageDir rollbackDir now allowLightDMMaintenance healthCheck rollbackRecovery =
     InstallStagedWithTransaction T root stageDir rollbackDir None now allowLightDMMaintenance healthCheck rollbackRecovery"

section \<open>Recovery\<close>

fun recovery_plan :: "string list \<Rightarrow> RollbackFile list \<Rightarrow> host_error + StagedComponent list" where
  "recovery_plan seen [] = Inr []"
| "recovery_plan seen (file # rest) =
     (case component_spec (rf_Component file) of
        None \<Rightarrow> Inl (Message ''update transaction contains invalid rollback component'')
      | Some spec \<Rightarrow>
          if rf_Component file \<in> set seen \<or> rf_Target file \<noteq> spec_Target spec
          then Inl (Message ''update transaction contains invalid rollback component'')
          else map_sum id (\<lambda>cs. \<lparr>sc_Component = rf_Component file, sc_Target = rf_Target file, sc_Mode = perm (spec_Mode spec),
                              sc_SHA256 = [], sc_RestartLightDM = spec_RestartLightDM spec\<rparr> # cs)
                 (recovery_plan (rf_Component file # seen) rest))"

definition backup_root :: path where
  "backup_root = [''var'', ''backups'', ''stumpfworks-badge'']"

text \<open>
  \<^verbatim>\<open>filepath.Rel\<close> gives neither \<^verbatim>\<open>.\<close> nor a path that starts with \<^verbatim>\<open>..\<close> exactly for the
  directories below the backup root.  The first result of the function, whether a transaction was
  pending, is returned with an error too in the source; here it comes with success only.
\<close>

definition recoverPendingUpdate :: "tools \<Rightarrow> path \<Rightarrow> path \<Rightarrow> path \<Rightarrow> bool hm" where
  "recoverPendingUpdate T root transactionPath statePath =
     hbind (ReadUpdateTransaction T transactionPath) (\<lambda>t. case t of
       None \<Rightarrow> hret False
     | Some t \<Rightarrow>
         (case ut_RollbackDir t of None \<Rightarrow> hfail (Message ''invalid update transaction'') | Some dir \<Rightarrow>
          hthen (hensure (strict_prefix (rootedTarget root backup_root) dir)
                   (Message ''update transaction rollback is outside the managed backup directory''))
          (hbind (loadRollbackManifest T dir) (\<lambda>manifest.
           hthen (hensure (rm_ForRelease manifest = ut_ReleaseVersion t) (Message ''update transaction does not match rollback manifest''))
           (hbind (of_sum (recovery_plan [] (rm_Files manifest))) (\<lambda>components.
            let plan = \<lparr>sp_ReleaseVersion = ut_ReleaseVersion t, sp_Architecture = [], sp_Components = components\<rparr> in
            hthen (RestoreRollback T root dir)
            (hthen (WriteUpdateState T statePath \<lparr>us_Version = sp_ReleaseVersion plan, us_Status = ''failed'',
                      us_UpdatedAt = ut_StartedAt t, us_RollbackAvailable = True\<rparr>)
            (hthen (PostInterruptedRecovery plan)
            (hthen (on_error (Remove transactionPath) (\<lambda>e. if e = NotExist then hret () else hfail e))
            (hret True))))))))))"

definition RecoverPendingUpdate :: "tools \<Rightarrow> path \<Rightarrow> path \<Rightarrow> path \<Rightarrow> bool hm" where
  "RecoverPendingUpdate T root transactionPath statePath =
     hthen (MkdirAll (butlast transactionPath) 493)
     (hbind (TryLock (sibling transactionPath ''.lock'')) (\<lambda>acquired.
        if \<not> acquired then hret False else recoverPendingUpdate T root transactionPath statePath))"

section \<open>Acceptance\<close>

fun accept_files :: "path \<Rightarrow> string list \<Rightarrow> File list \<Rightarrow> StagedComponent list hm" where
  "accept_files root seen [] = hret []"
| "accept_files root seen (file # rest) =
     (case component_spec (f_Component file) of
        None \<Rightarrow> hfail (Message ''invalid release component'')
      | Some spec \<Rightarrow>
          if f_Component file \<in> set seen then hfail (Message ''invalid release component'')
          else
            (let target = rootedTarget root (spec_Target spec) in
             hbind (Lstat target) (\<lambda>info.
             hthen (hensure (case info of Regular m c \<Rightarrow> perm m = perm (spec_Mode spec) \<and> int (length c) = f_Size file | _ \<Rightarrow> False)
                      (Message ''installed component metadata mismatch''))
             (hbind (hashRegularFile target (f_Size file)) (\<lambda>hash.
              hthen (hensure (EqualFold hash (f_SHA256 file)) (Message ''installed component hash mismatch''))
              (hbind (accept_files root (f_Component file # seen) rest) (\<lambda>cs.
               hret (\<lparr>sc_Component = f_Component file, sc_Target = spec_Target spec, sc_Mode = perm (spec_Mode spec),
                      sc_SHA256 = f_SHA256 file, sc_RestartLightDM = spec_RestartLightDM spec\<rparr> # cs))))))))"

definition VerifyReleaseAcceptance :: "tools \<Rightarrow> path option \<Rightarrow> Result \<Rightarrow> path option \<Rightarrow> StagePlan hm" where
  "VerifyReleaseAcceptance T root result rollbackDir =
     (case (root, rollbackDir) of
        (Some root, Some dir) \<Rightarrow>
          (let manifest = r_Manifest result; names = map f_Component (m_Files manifest) in
           hbind (accept_files root [] (m_Files manifest)) (\<lambda>components.
           hbind (VerifyRollback T root dir) (\<lambda>rollback.
           hthen (hensure (rm_ForRelease rollback = m_ReleaseVersion manifest \<and> length (rm_Files rollback) = length names)
                    (Message ''rollback does not match accepted release''))
           (hthen (hensure (list_all (\<lambda>f. rf_Component f \<in> set names) (rm_Files rollback))
                     (Message ''rollback does not match accepted components''))
           (hret \<lparr>sp_ReleaseVersion = m_ReleaseVersion manifest, sp_Architecture = m_Architecture manifest,
                   sp_Components = components\<rparr>)))))
      | _ \<Rightarrow> hfail (Message ''root and rollback directory are required''))"

end
