(* ===== verification/Update_Snapshot.thy ===== *)
theory Update_Snapshot
  imports Update_Install
begin

text \<open>
  Snapshots of the files an update replaces: the places the updater writes to and that they are
  apart from each other, what each step leaves on disk, and the two facts about snapshots the
  installer rests on, that \<^verbatim>\<open>CreateRollback\<close> records every target as it is and that
  \<^verbatim>\<open>RestoreRollback\<close> brings every target back.
\<close>

section \<open>Places\<close>

text \<open>Every target with the two names under which its replacement is written.\<close>

definition target_paths :: "path list" where
  "target_paths = concat (map (\<lambda>(c, s). [spec_Target s, sibling (spec_Target s) ''.swbadge-install-new'',
     sibling (spec_Target s) ''.swbadge-restore-new'']) componentSpecs)"

fun all_apart :: "path list \<Rightarrow> bool" where
  "all_apart [] = True"
| "all_apart (p # ps) = (list_all (apart p) ps \<and> all_apart ps)"

lemma target_paths_apart: "all_apart target_paths" "[] \<notin> set target_paths"
  by code_simp+

lemma all_apart_nth: "all_apart ps \<Longrightarrow> i < length ps \<Longrightarrow> j < length ps \<Longrightarrow> i \<noteq> j \<Longrightarrow> apart (ps ! i) (ps ! j)"
proof (induction ps arbitrary: i j)
  case (Cons p ps)
  then show ?case
    by (cases i; cases j) (auto simp: list_all_iff dest: apart_sym)
qed simp

lemma all_apart_distinct: "all_apart ps \<Longrightarrow> distinct ps"
  by (induction ps) (auto simp: list_all_iff apart_def)

lemma all_apartD: "all_apart ps \<Longrightarrow> p \<in> set ps \<Longrightarrow> q \<in> set ps \<Longrightarrow> p \<noteq> q \<Longrightarrow> apart p q"
  by (metis all_apart_nth in_set_conv_nth)

definition targets :: "path \<Rightarrow> path set" where
  "targets root = (\<lambda>t. root @ t) ` set target_paths"

lemma sibling_root [simp]: "t \<noteq> [] \<Longrightarrow> sibling (root @ t) ext = root @ sibling t ext"
  by (simp add: sibling_def butlast_append)

lemma spec_target:
  assumes "component_spec c = Some s"
  shows "root @ spec_Target s \<in> targets root" "sibling (root @ spec_Target s) ''.swbadge-install-new'' \<in> targets root"
    "sibling (root @ spec_Target s) ''.swbadge-restore-new'' \<in> targets root" "spec_Target s \<noteq> []"
proof -
  from assms have m: "(c, s) \<in> set componentSpecs" by (rule map_of_SomeD)
  then have t: "spec_Target s \<in> set target_paths" "sibling (spec_Target s) ''.swbadge-install-new'' \<in> set target_paths"
    "sibling (spec_Target s) ''.swbadge-restore-new'' \<in> set target_paths" by (force simp: target_paths_def)+
  with target_paths_apart(2) show "spec_Target s \<noteq> []" by metis
  with t show "root @ spec_Target s \<in> targets root" "sibling (root @ spec_Target s) ''.swbadge-install-new'' \<in> targets root"
    "sibling (root @ spec_Target s) ''.swbadge-restore-new'' \<in> targets root" by (auto simp: targets_def)
qed

lemma targets_apart: "p \<in> targets root \<Longrightarrow> q \<in> targets root \<Longrightarrow> p \<noteq> q \<Longrightarrow> apart p q"
  unfolding targets_def using all_apartD [OF target_paths_apart(1)] by fastforce

lemma spec_target_last: "component_spec c = Some s \<Longrightarrow> last (spec_Target s) = c"
proof -
  have "list_all (\<lambda>(c, s). last (spec_Target s) = c) componentSpecs" by code_simp
  then show "component_spec c = Some s \<Longrightarrow> ?thesis" unfolding list_all_iff using map_of_SomeD by fastforce
qed

lemma specs_distinct:
  "component_spec c = Some s \<Longrightarrow> component_spec c' = Some s' \<Longrightarrow> spec_Target s = spec_Target s' \<Longrightarrow> c = c'"
  using spec_target_last [of c s] spec_target_last [of c' s'] by simp

lemma replacement_differs:
  assumes "component_spec c = Some s" "component_spec c' = Some s'"
  shows "sibling (root @ spec_Target s) ''.swbadge-install-new'' \<noteq> root @ spec_Target s'"
    "sibling (root @ spec_Target s) ''.swbadge-restore-new'' \<noteq> root @ spec_Target s'"
proof -
  have "list_all (\<lambda>(c, s). list_all (\<lambda>(c', s'). sibling (spec_Target s) ''.swbadge-install-new'' \<noteq> spec_Target s' \<and>
      sibling (spec_Target s) ''.swbadge-restore-new'' \<noteq> spec_Target s') componentSpecs) componentSpecs" by code_simp
  with assms spec_target(4) [OF assms(1)] show "sibling (root @ spec_Target s) ''.swbadge-install-new'' \<noteq> root @ spec_Target s'"
    "sibling (root @ spec_Target s) ''.swbadge-restore-new'' \<noteq> root @ spec_Target s'"
    by (fastforce simp: list_all_iff dest!: map_of_SomeD)+
qed

text \<open>The places the updater uses besides the targets: none lies above, below or at another.\<close>

definition well_placed :: "path \<Rightarrow> path list \<Rightarrow> bool" where
  "well_placed root ps \<longleftrightarrow> all_apart ps \<and> list_all (\<lambda>p. list_all (\<lambda>t. apart p (root @ t)) target_paths) ps"

lemma well_placedD:
  assumes "well_placed root ps" "p \<in> set ps"
  shows "q \<in> set ps \<Longrightarrow> p \<noteq> q \<Longrightarrow> apart p q" "t \<in> targets root \<Longrightarrow> apart p t" "t \<in> targets root \<Longrightarrow> apart t p"
  using assms all_apartD by (auto simp: well_placed_def list_all_iff targets_def intro: apart_sym)

section \<open>Frames\<close>

lemma near_copyAndVerify [near_intros]: "covers Ps d \<Longrightarrow> near Ps (copyAndVerify s d n x m)"
  by (auto simp: copyAndVerify_def Let_def intro!: near_intros split: option.split)

lemma near_checks [near_intros]:
  "near Ps (hashRegularFile p n)" "near Ps (fileSize p)" "near Ps (loadRollbackManifest T dir)"
  "near Ps (loadStagePlan T dir)" "near Ps (systemctl a)" "near Ps (ReadUpdateTransaction T p)" "near Ps (ReadUpdateState T p)"
  "near Ps (verify_record root dir f)" "near Ps (not_exists p message)"
  by (auto simp: hashRegularFile_def fileSize_def loadRollbackManifest_def loadStagePlan_def systemctl_def ReadUpdateTransaction_def
      ReadUpdateState_def verify_record_def not_exists_def Let_def
      intro!: near_intros split: option.split sum.split node.split)

lemma near_verify_records [near_intros]: "near Ps (verify_records root dir seen fs)"
  by (induction fs arbitrary: seen) (auto intro!: near_intros split: option.split)

lemma near_VerifyRollback [near_intros]: "near Ps (VerifyRollback T root dir)"
  unfolding VerifyRollback_def by (intro near_intros)

lemma near_writeExclusive [near_intros]: "covers Ps p \<Longrightarrow> near Ps (writeExclusive p d m)"
  by (auto simp: writeExclusive_def intro!: near_intros)

lemma near_replace_file [near_intros]:
  "p \<in> Ps \<Longrightarrow> sibling p ''.tmp'' \<in> Ps \<Longrightarrow> near Ps (replace_file p d m)"
  by (auto simp: replace_file_def Let_def intro!: near_intros)

lemma near_states [near_intros]:
  "p \<in> Ps \<Longrightarrow> sibling p ''.tmp'' \<in> Ps \<Longrightarrow> near Ps (WriteUpdateState T p s)"
  "p \<in> Ps \<Longrightarrow> sibling p ''.tmp'' \<in> Ps \<Longrightarrow> near Ps (WriteUpdateTransaction T p t)"
  by (auto simp: WriteUpdateState_def WriteUpdateTransaction_def intro!: near_intros)

lemma near_services [near_intros]: "near Ps (serviceHealthCheck plan)" "near Ps (PostInterruptedRecovery plan)"
  by (auto simp: serviceHealthCheck_def PostInterruptedRecovery_def restart_greeter_def Let_def intro!: near_intros)

lemma near_create_record [near_intros]: "covers Ps tmp \<Longrightarrow> near Ps (create_record root tmp c)"
  unfolding create_record_def copyRollbackFile_def Let_def
  by (auto simp: butlast_append intro!: near_intros split: option.split sum.split node.split)

lemma near_create_records [near_intros]: "covers Ps tmp \<Longrightarrow> near Ps (create_records root tmp seen cs)"
  by (induction cs arbitrary: seen) (auto intro!: near_intros split: option.split)

lemma near_CreateRollback [near_intros]:
  "dir \<in> Ps \<Longrightarrow> sibling dir ''.tmp'' \<in> Ps \<Longrightarrow> near Ps (CreateRollback T root plan (Some dir) now)"
  by (auto simp: CreateRollback_def Let_def intro!: near_intros split: option.split sum.split)


section \<open>What the copies leave\<close>

lemma copyAndVerify_Done:
  assumes "copyAndVerify s d n x m h = (Done u, h')"
  obtains c where "(\<exists>k. look h s = Some (Regular k c)) \<or> look h s = Some (Special (Some c))" "look h d = None"
    "int (length (take (maxFileSize + 1) c)) = n" "EqualFold (hex_encode (sha256 (take (maxFileSize + 1) c))) x"
    "\<And>p. look h' p = (if p = d then Some (Regular m (take (maxFileSize + 1) c)) else look h p)"
proof -
  from assms obtain i h1 h2 where o: "Open s h = (Done i, h1)" "CreateExcl d m h1 = (Done (), h2)"
    and r: "(case i of None \<Rightarrow> hfail IOError | Some c \<Rightarrow>
        (let data = take (maxFileSize + 1) c in
         hthen (Write d data) (hthen Settle
         (if int (length data) \<noteq> n \<or> \<not> EqualFold (hex_encode (sha256 data)) x
          then hthen (hignore (Remove d)) (hfail (Message ''size or hash mismatch'')) else Chmod d m)))) h2 = (Done u, h')"
    by (auto simp: copyAndVerify_def host_simps)
  then obtain c where i: "i = Some c" by (cases i) (auto simp: host_simps)
  let ?data = "take (maxFileSize + 1) c"
  from r obtain h3 h4 where w: "Write d ?data h2 = (Done (), h3)" "Settle h3 = (Done (), h4)" "Chmod d m h4 = (Done u, h')"
    and ok: "int (length ?data) = n" "EqualFold (hex_encode (sha256 ?data)) x"
    by (auto simp: i Let_def host_simps split: if_splits)
  note c1 = Open_Done [OF o(1)] and c2 = CreateExcl_Done [OF o(2)]
  have "look h2 d = Some (Regular m [])" using c2 by simp
  note c3 = Write_Done [OF w(1) this] and c4 = Settle_Done [OF w(2)]
  have "look h4 d = Some (Regular m ?data)" using c3 c4 by simp
  note c5 = Chmod_Done [OF w(3) this]
  have "look h' p = (if p = d then Some (Regular m ?data) else look h p)" for p using c1 c2 c3 c4 c5 by simp
  with that [of c] c1 c2 ok i show thesis by simp
qed

lemma copyRollbackFile_Done:
  assumes "copyRollbackFile s d h = (Done x, h')" "look h s = Some (Regular k c)"
  shows "look h d = None \<and> length c \<le> maxFileSize \<and> x = hex_encode (sha256 c) \<and>
    (\<forall>p. look h' p = (if p = d then Some (Regular 384 c) else look h p))"
proof -
  from assms(1) obtain i h1 h2 where o: "Open s h = (Done i, h1)" "CreateExcl d 384 h1 = (Done (), h2)"
    and r: "(case i of None \<Rightarrow> hfail IOError | Some c \<Rightarrow>
        (let data = take (maxFileSize + 1) c in
         hthen (Write d data) (hthen Settle (hthen Settle
         (hthen (hensure (length data \<le> maxFileSize) (Message ''rollback source exceeds size limit''))
         (hret (hex_encode (sha256 data)))))))) h2 = (Done x, h')"
    by (auto simp: copyRollbackFile_def host_simps)
  note c1 = Open_Done [OF o(1)] and c2 = CreateExcl_Done [OF o(2)]
  with assms(2) have i: "i = Some c" by (cases i) (auto simp: is_dir_def)
  let ?data = "take (maxFileSize + 1) c"
  from r obtain h3 h4 where w: "Write d ?data h2 = (Done (), h3)" "Settle h3 = (Done (), h4)" "Settle h4 = (Done (), h')"
    and ok: "length ?data \<le> maxFileSize" "x = hex_encode (sha256 ?data)"
    by (auto simp: i Let_def host_simps)
  have "look h2 d = Some (Regular 384 [])" using c2 by simp
  note c3 = Write_Done [OF w(1) this] Settle_Done [OF w(2)] Settle_Done [OF w(3)]
  have "?data = c" "length c \<le> maxFileSize" using ok(1) by simp_all
  then show ?thesis using c1 c2 c3 ok(2) by simp
qed

lemma writeExclusive_Done:
  assumes "writeExclusive p d m h = (Done u, h')"
  shows "look h p = None \<and> (\<forall>q. look h' q = (if q = p then Some (Regular m d) else look h q))"
proof -
  from assms obtain h1 h2 h3 h4 where w: "CreateExcl p m h = (Done (), h1)" "Write p d h1 = (Done (), h2)"
    "Settle h2 = (Done (), h3)" "Settle h3 = (Done (), h4)" "Chmod p m h4 = (Done u, h')"
    by (auto simp: writeExclusive_def host_simps)
  note c1 = CreateExcl_Done [OF w(1)]
  then have "look h1 p = Some (Regular m [])" by simp
  note c2 = Write_Done [OF w(2) this] Settle_Done [OF w(3)] Settle_Done [OF w(4)]
  then have "look h4 p = Some (Regular m d)" by simp
  note c3 = Chmod_Done [OF w(5) this]
  from c1 c2 c3 show ?thesis by simp
qed

lemma each_Done:
  assumes "each f xs h = (Done u, h')" "I [] h"
    and "\<And>ys x zs h1 h2. xs = ys @ x # zs \<Longrightarrow> I ys h1 \<Longrightarrow> f x h1 = (Done (), h2) \<Longrightarrow> I (ys @ [x]) h2"
  shows "I xs h'"
proof -
  have "each f zs h1 = (Done u, h') \<Longrightarrow> I ys h1 \<Longrightarrow> xs = ys @ zs \<Longrightarrow> I xs h'" for ys zs h1
  proof (induction zs arbitrary: ys h1)
    case (Cons z zs)
    from Cons.prems(1) obtain h2 where "f z h1 = (Done (), h2)" "each f zs h2 = (Done u, h')" by (auto simp: host_simps)
    with assms(3) [OF Cons.prems(3,2)] Cons.IH [of h2 "ys @ [z]"] Cons.prems(3) show ?case by simp
  qed (auto simp: host_simps)
  from this [OF assms(1,2)] show ?thesis by simp
qed


section \<open>Snapshots\<close>

text \<open>Contents and permission bits, which is what a snapshot records of a file.\<close>

definition view :: "node option \<Rightarrow> node option" where
  "view n = (case n of Some (Regular m c) \<Rightarrow> Some (Regular (perm m) c) | _ \<Rightarrow> n)"

lemma perm_perm [simp]: "perm (perm m) = perm m"
  by (simp add: perm_def)

definition intact :: "(path \<Rightarrow> node option) \<Rightarrow> path \<Rightarrow> host \<Rightarrow> bool" where
  "intact old root h \<longleftrightarrow> (\<forall>c s. component_spec c = Some s \<longrightarrow> view (look h (root @ spec_Target s)) = view (old (root @ spec_Target s)))"

definition records_file :: "(path \<Rightarrow> node option) \<Rightarrow> path \<Rightarrow> RollbackFile \<Rightarrow> (path \<Rightarrow> node option) \<Rightarrow> path \<Rightarrow> bool" where
  "records_file old root f now dir \<longleftrightarrow>
     (\<exists>s. component_spec (rf_Component f) = Some s \<and> rf_Target f = spec_Target s) \<and>
     (if rf_Existed f
      then \<exists>m c. old (root @ rf_Target f) = Some (Regular m c) \<and> rf_Mode f = perm m \<and> length c \<le> maxFileSize \<and>
             now (dir @ [''files'', rf_Component f]) = Some (Regular 384 c)
      else old (root @ rf_Target f) = None)"

text \<open>
  The directory holds the files as they were, the manifest lists them, and the targets it does not
  list are as they were.
\<close>

definition snapshot :: "tools \<Rightarrow> (path \<Rightarrow> node option) \<Rightarrow> path \<Rightarrow> path \<Rightarrow> RollbackManifest \<Rightarrow> host \<Rightarrow> bool" where
  "snapshot T old root dir m h \<longleftrightarrow>
     look h dir = Some (Directory 448) \<and> look h (dir @ [''rollback.json'']) = Some (Regular 384 (json_RollbackManifest T m)) \<and>
     distinct (map rf_Component (rm_Files m)) \<and> (\<forall>f \<in> set (rm_Files m). records_file old root f (look h) dir)"

definition others_intact :: "(path \<Rightarrow> node option) \<Rightarrow> path \<Rightarrow> string list \<Rightarrow> host \<Rightarrow> bool" where
  "others_intact old root names h \<longleftrightarrow>
     (\<forall>c s. component_spec c = Some s \<longrightarrow> c \<notin> set names \<longrightarrow> look h (root @ spec_Target s) = old (root @ spec_Target s))"

lemma frame_snapshot:
  assumes "frame Ps h h'" "\<forall>q \<in> Ps. apart dir q \<or> prefix (dir @ [''.restore-prepared'']) q" "snapshot T old root dir m h"
  shows "snapshot T old root dir m h'"
proof -
  have keep: "look h' p = Some n" if "look h p = Some n" "p = dir \<or> p = dir @ [''rollback.json''] \<or> p = dir @ [''files'', c]" for p n c
  proof (rule frame_existing [OF assms(1) _ that(1)], intro ballI notI)
    fix q assume q: "q \<in> Ps" "prefix q p"
    from that(2) obtain s where s: "p = dir @ s" "s = [] \<or> s = [''rollback.json''] \<or> s = [''files'', c]" by auto
    have "\<not> apart dir q" using apart_below [of dir q s] q(2) by (auto simp: s(1) apart_def)
    with assms(2) q have "prefix (dir @ [''.restore-prepared'']) p" by (auto dest: prefix_order.trans)
    with s show False by auto
  qed
  have "records_file old root f (look h') dir" if "f \<in> set (rm_Files m)" for f
    using assms(3) that keep [of "dir @ [''files'', rf_Component f]"] unfolding snapshot_def records_file_def by fastforce
  with assms(3) keep [of dir] keep [of "dir @ [''rollback.json'']"] show ?thesis by (auto simp: snapshot_def)
qed

lemma off_snapshot:
  "\<forall>q \<in> Ps. apart dir q \<or> prefix (dir @ [''.restore-prepared'']) q \<Longrightarrow> off Ps (snapshot T old root dir m)"
  unfolding off_def using frame_snapshot by blast

lemma frame_targets:
  assumes "frame Ps h h'" "\<forall>q \<in> Ps. \<forall>t \<in> targets root. apart q t" "t \<in> targets root"
  shows "look h' t = look h t"
  using assms by (intro frame_apart [OF assms(1)]) (auto intro: apart_sym)

lemma off_intact:
  assumes "\<forall>q \<in> Ps. \<forall>t \<in> targets root. apart q t"
  shows "off Ps (intact old root)" "off Ps (others_intact old root names)"
  unfolding off_def intact_def others_intact_def
  using frame_targets [OF _ assms spec_target(1)] by auto

text \<open>The snapshot that \<^const>\<open>CreateRollback\<close> writes.\<close>

definition grown :: "host \<Rightarrow> host \<Rightarrow> bool" where
  "grown h h' \<longleftrightarrow> (\<forall>p n. look h p = Some n \<longrightarrow> look h' p = Some n)"

lemma grown_trans: "grown h h1 \<Longrightarrow> grown h1 h2 \<Longrightarrow> grown h h2"
  by (simp add: grown_def)

lemma grown_same: "files h' = files h \<Longrightarrow> grown h h'"
  by (simp add: grown_def)

lemma grown_MkdirAll: "MkdirAll p m h = (Done u, h') \<Longrightarrow> grown h h'"
  by (auto simp: grown_def look_mkdirs dest!: MkdirAll_Done)

lemma records_file_grown: "records_file old root f (look h) dir \<Longrightarrow> grown h h' \<Longrightarrow> records_file old root f (look h') dir"
  unfolding records_file_def grown_def by (auto split: if_splits)

lemma create_record_Done:
  assumes "create_record root tmp c h = (Done r, h')" "\<forall>t \<in> targets root. apart tmp t"
    and s: "component_spec (sc_Component c) = Some s" "sc_Target c = spec_Target s"
  shows "records_file (look h) root r (look h') tmp \<and> grown h h' \<and> (\<forall>t \<in> targets root. look h' t = look h t) \<and>
    rf_Component r = sc_Component c"
proof -
  let ?src = "root @ sc_Target c" and ?dst = "tmp @ [''files'', sc_Component c]"
  from assms(1) obtain x hl where l: "htry (Lstat ?src) h = (Done x, hl)" by (auto simp: create_record_def Let_def hbind_Done)
  have "near {tmp} (create_record root tmp c)" by (intro near_intros) simp
  from frame_targets [OF near_frame [OF this assms(1)], of root] assms(2) have nt: "\<forall>t \<in> targets root. look h' t = look h t" by auto
  show ?thesis
  proof (cases x)
    case (Inl e)
    with l have "Lstat ?src h = (Failed e, hl)" by (simp add: htry_Done)
    moreover from assms(1) l Inl have "e = NotExist" "h' = hl" "r = \<lparr>rf_Component = sc_Component c, rf_Target = sc_Target c,
        rf_Existed = False, rf_Mode = 0, rf_Size = 0, rf_SHA256 = []\<rparr>"
      by (auto simp: create_record_def Let_def hbind_Done hret_eq hfail_eq split: if_splits)
    ultimately show ?thesis using Lstat_missing Lstat_files s by (auto simp: records_file_def intro: grown_same)
  next
    case (Inr info)
    with l have L: "Lstat ?src h = (Done info, hl)" by (simp add: htry_Done)
    from assms(1) l Inr obtain m d where info: "info = Regular m d"
      by (cases info) (auto simp: create_record_def Let_def hbind_Done hfail_eq)
    with assms(1) l Inr obtain h2 x where k: "MkdirAll (butlast ?dst) 448 hl = (Done (), h2)" "copyRollbackFile ?src ?dst h2 = (Done x, h')"
      "r = \<lparr>rf_Component = sc_Component c, rf_Target = sc_Target c, rf_Existed = True, rf_Mode = perm m, rf_Size = int (length d), rf_SHA256 = x\<rparr>"
      by (auto simp: create_record_def Let_def host_simps)
    note L' = Lstat_Done [OF L [unfolded info]] and g = grown_MkdirAll [OF k(1)]
    then have src: "look h2 ?src = Some (Regular m d)" by (auto simp: grown_def)
    from copyRollbackFile_Done [OF k(2) src] nt g L' src k(3) s show ?thesis by (auto simp: records_file_def grown_def)
  qed
qed

lemma create_records_Done:
  assumes "create_records root tmp seen cs h = (Done rs, h')" "\<forall>t \<in> targets root. apart tmp t"
  shows "map rf_Component rs = map sc_Component cs \<and> distinct (map rf_Component rs) \<and> set seen \<inter> set (map rf_Component rs) = {} \<and>
    grown h h' \<and> (\<forall>r \<in> set rs. records_file (look h) root r (look h') tmp)"
  using assms(1)
proof (induction cs arbitrary: seen h rs)
  case (Cons c cs)
  from Cons.prems obtain s x rs' h1 where s: "component_spec (sc_Component c) = Some s" "sc_Target c = spec_Target s"
    and x: "create_record root tmp c h = (Done x, h1)" and seen: "sc_Component c \<notin> set seen"
    and r: "rs = x # rs'" "create_records root tmp (sc_Component c # seen) cs h1 = (Done rs', h')"
    by (auto simp: host_simps split: option.splits if_splits)
  note one = create_record_Done [OF x assms(2) s]
  note IH = Cons.IH [OF r(2)]
  have "records_file (look h) root y (look h') tmp" if "y \<in> set rs'" for y
  proof -
    from IH that have y: "records_file (look h1) root y (look h') tmp" by blast
    then obtain s where "component_spec (rf_Component y) = Some s" "rf_Target y = spec_Target s" by (auto simp: records_file_def)
    with one spec_target(1) [of "rf_Component y" s root] have "look h1 (root @ rf_Target y) = look h (root @ rf_Target y)" by simp
    with y show ?thesis unfolding records_file_def by metis
  qed
  then have "\<forall>y \<in> set rs. records_file (look h) root y (look h') tmp"
    using one IH records_file_grown [of "look h" root x h1 tmp h'] by (auto simp: r(1))
  moreover have "distinct (map rf_Component rs)" "set seen \<inter> set (map rf_Component rs) = {}"
    using conjunct1 [OF conjunct2 [OF IH]] conjunct1 [OF conjunct2 [OF conjunct2 [OF IH]]] one seen by (auto simp: r(1))
  moreover have "map rf_Component rs = map sc_Component (c # cs)" "grown h h'"
    using IH one by (auto simp: r(1) intro: grown_trans)
  ultimately show ?case by blast
qed (simp add: host_simps grown_def)


lemma near_reads: "near {} m \<Longrightarrow> m h = (r, h') \<Longrightarrow> look h' p = look h p"
  using frame_apart [OF near_frame, of "{}" m] by simp

lemma CreateRollback_Done:
  assumes "CreateRollback T (Some root) plan (Some dir) now h = (Done m, h')"
    and place: "\<forall>t \<in> targets root. apart dir t" "\<forall>t \<in> targets root. apart (sibling dir ''.tmp'') t"
  shows "snapshot T (look h) root dir m h' \<and> map rf_Component (rm_Files m) = map sc_Component (sp_Components plan)"
proof -
  let ?tmp = "sibling dir ''.tmp''" and ?json = "sibling dir ''.tmp'' @ [''rollback.json'']"
  from assms(1) obtain h1 h2 h3 h4 rs h5 h6 h7 h8 h9 h10 h11 h12 where
    st: "not_exists dir ''rollback directory already exists'' h = (Done (), h1)"
      "not_exists ?tmp ''temporary rollback directory already exists'' h1 = (Done (), h2)"
      "MkdirAll (butlast dir) 448 h2 = (Done (), h3)" "Mkdir ?tmp 448 h3 = (Done (), h4)"
      "create_records root ?tmp [] (sp_Components plan) h4 = (Done rs, h5)" "CreateExcl ?json 384 h5 = (Done (), h6)"
      "Write ?json (json_RollbackManifest T m) h6 = (Done (), h7)" "Settle h7 = (Done (), h8)" "Settle h8 = (Done (), h9)"
      "hbind (htry (Lstat (?tmp @ [''files'']))) (\<lambda>r. case r of Inl _ \<Rightarrow> hret () | Inr _ \<Rightarrow> SyncDir (?tmp @ [''files''])) h9 = (Done (), h10)"
      "SyncDir ?tmp h10 = (Done (), h11)" "Rename ?tmp dir h11 = (Done (), h12)"
    and m: "m = \<lparr>rm_SchemaVersion = 1, rm_PreparedAt = now, rm_ForRelease = sp_ReleaseVersion plan, rm_Files = rs\<rparr>"
    and last: "SyncDir (butlast dir) h12 = (Done (), h')"
    by (auto simp: CreateRollback_def Let_def hthen_Done on_error_Done hret_eq hfail_eq hbind_Done [of "create_records _ _ _ _"]
        hbind_Done [of "on_error _ _"])
  have pre: "look h4 t = look h t" if "t \<in> targets root" for t
  proof -
    have "look h2 t = look h t" using not_exists_Done [OF st(1)] not_exists_Done [OF st(2)] by simp
    moreover have "near {dir} (MkdirAll (butlast dir) 448)" by (intro near_intros) simp
    from frame_apart [OF near_frame [OF this st(3)], of t] have "look h3 t = look h2 t" using place that by (auto intro: apart_sym)
    moreover have "?tmp \<noteq> t" using place that by (auto simp: apart_def)
    ultimately show ?thesis using Mkdir_Done [OF st(4)] by simp
  qed
  note cr = create_records_Done [OF st(5) place(2)]
  have tmp4: "look h4 ?tmp = Some (Directory 448)" using Mkdir_Done [OF st(4)] by simp
  note ce = CreateExcl_Done [OF st(6)]
  have "look h6 ?json = Some (Regular 384 [])" using ce by simp
  note wr = Write_Done [OF st(7) this] Settle_Done [OF st(8)] Settle_Done [OF st(9)]
  have l9: "look h9 p = (if p = ?json then Some (Regular 384 (json_RollbackManifest T m)) else look h5 p)" for p using ce wr by simp
  have nr: "near {} (hbind (htry (Lstat (?tmp @ [''files'']))) (\<lambda>r. case r of Inl _ \<Rightarrow> hret () | Inr _ \<Rightarrow> SyncDir (?tmp @ [''files''])))"
    by (auto intro!: near_intros split: sum.split)
  then have l11: "look h11 p = look h9 p" for p
    using near_reads [OF nr st(10), of p] near_reads [OF near_reading(5) st(11), of p] by simp
  note rn = Rename_Done [OF st(12)]
  have l': "look h' (dir @ s) = look h9 (?tmp @ s)" for s
    using rn near_reads [OF near_reading(5) last] l11 by (simp add: apart_def)
  have "records_file (look h) root f (look h') dir" if "f \<in> set rs" for f
  proof -
    from cr that have f: "records_file (look h4) root f (look h5) ?tmp" by blast
    then obtain s where "component_spec (rf_Component f) = Some s" "rf_Target f = spec_Target s" by (auto simp: records_file_def)
    then have "look h4 (root @ rf_Target f) = look h (root @ rf_Target f)" using pre spec_target(1) by simp
    moreover have "look h' (dir @ [''files'', rf_Component f]) = look h5 (?tmp @ [''files'', rf_Component f])"
      using l' l9 by simp
    ultimately show ?thesis using f unfolding records_file_def by (simp split: if_splits)
  qed
  moreover have "look h' dir = Some (Directory 448)"
    using l' [of "[]"] l9 [of ?tmp] cr tmp4 by (auto simp: grown_def)
  moreover have "look h' (dir @ [''rollback.json'']) = Some (Regular 384 (json_RollbackManifest T m))" using l' l9 by simp
  ultimately show ?thesis using cr by (auto simp: snapshot_def m)
qed

section \<open>Restoring\<close>

lemma verify_records_Done:
  "verify_records root dir seen fs h = (Done u, h') \<Longrightarrow>
   (\<forall>f \<in> set fs. \<exists>s. component_spec (rf_Component f) = Some s \<and> rf_Target f = spec_Target s)"
  by (induction fs arbitrary: seen h) (auto simp: host_simps split: option.splits if_splits)

lemma VerifyRollback_Done:
  assumes "VerifyRollback T root dir h = (Done m, h')"
  shows "(\<forall>f \<in> set (rm_Files m). \<exists>s. component_spec (rf_Component f) = Some s \<and> rf_Target f = spec_Target s) \<and>
    (\<forall>k c. look h (dir @ [''rollback.json'']) = Some (Regular k c) \<longrightarrow> unjson_RollbackManifest T c = Some m)"
proof -
  from assms obtain i h1 j h2 h3 h4 where st: "Lstat dir h = (Done i, h1)" "Lstat (dir @ [''rollback.json'']) h1 = (Done j, h2)"
    "loadRollbackManifest T dir h2 = (Done m, h3)" "verify_records root dir [] (rm_Files m) h3 = (Done (), h4)"
    by (auto simp: VerifyRollback_def host_simps)
  from st(3) obtain raw h' where "ReadFile (dir @ [''rollback.json'']) h2 = (Done raw, h')" "unjson_RollbackManifest T raw = Some m"
    by (auto simp: loadRollbackManifest_def host_simps split: if_splits option.splits)
  with ReadFile_Done [OF this(1)] Lstat_Done [OF st(1)] Lstat_Done [OF st(2)] verify_records_Done [OF st(4)] show ?thesis by auto
qed

lemma near_replace_target [near_intros]:
  "covers Ps t \<Longrightarrow> covers Ps (sibling t e) \<Longrightarrow> near Ps (replace_target e s t n x m)"
  by (auto simp: replace_target_def Let_def intro!: near_intros)

lemma replace_target_Done:
  assumes "replace_target e s t n x m h = (Done u, h')"
  obtains c where "(\<exists>k. look h s = Some (Regular k c)) \<or> look h s = Some (Special (Some c))"
    "int (length (take (maxFileSize + 1) c)) = n" "EqualFold (hex_encode (sha256 (take (maxFileSize + 1) c))) x"
    "look h' t = Some (Regular m (take (maxFileSize + 1) c))"
proof -
  from assms obtain h1 where cp: "copyAndVerify s (sibling t e) n x m h = (Done (), h1)" and rn: "Rename (sibling t e) t h1 = (Done u, h')"
    by (auto simp: replace_target_def Let_def host_simps)
  from rn Rename_Done [OF rn] have "look h' t = look h1 (sibling t e)" using look_move_below [of "sibling t e" t _ "[]"] by (simp add: apart_def)
  with cp that show thesis by (auto elim!: copyAndVerify_Done)
qed

lemma near_restore_record:
  "t = rootedTarget root (rf_Target f) \<Longrightarrow> near {t, sibling t ''.swbadge-restore-new''} (restore_record root prepared f)"
  by (auto simp: restore_record_def Let_def intro!: near_intros)

lemma near_prepare_record: "covers Ps prepared \<Longrightarrow> near Ps (prepare_record dir prepared f)"
  by (auto simp: prepare_record_def intro!: near_intros)

lemma near_RestoreRollback [near_intros]:
  assumes "targets root \<subseteq> Ps" "covers Ps (dir @ [''.restore-prepared''])"
  shows "near Ps (RestoreRollback T root dir)"
  unfolding RestoreRollback_def Let_def
proof (intro near_hbind_of near_hthen near_deferred near_each near_VerifyRollback near_entry(5,7) assms(2))
  fix h m h' f assume "VerifyRollback T root dir h = (Done m, h')" "f \<in> set (rm_Files m)"
  with VerifyRollback_Done obtain s where s: "component_spec (rf_Component f) = Some s" "rf_Target f = spec_Target s" by blast
  show "near Ps (restore_record root (dir @ [''.restore-prepared'']) f)"
    by (rule near_mono [OF near_restore_record [OF refl]])
      (use spec_target(1,3) [OF s(1), of root] assms(1) in \<open>auto simp: rootedTarget_def s(2)\<close>)
  show "near Ps (prepare_record dir (dir @ [''.restore-prepared'']) f)"
    by (rule near_prepare_record [OF assms(2)])
qed


text \<open>A prepared copy: what restoring a record needs.\<close>

definition prepared_copy :: "(path \<Rightarrow> node option) \<Rightarrow> path \<Rightarrow> path \<Rightarrow> host \<Rightarrow> RollbackFile \<Rightarrow> bool" where
  "prepared_copy old root prepared h f \<longleftrightarrow> (rf_Existed f \<longrightarrow> (\<exists>m c. old (root @ rf_Target f) = Some (Regular m c) \<and>
     look h (prepared @ [rf_Component f]) = Some (Regular (perm m) c) \<and> rf_Mode f = perm m \<and> length c \<le> maxFileSize))"

lemma prepare_all_Done:
  assumes "each (prepare_record dir prepared) fs h = (Done u, h')" "prepared = dir @ [''.restore-prepared'']"
    and "\<forall>f \<in> set fs. records_file old root f (look h) dir"
  shows "\<forall>f \<in> set fs. prepared_copy old root prepared h' f"
proof -
  let ?I = "\<lambda>ys h. (\<forall>f \<in> set ys. prepared_copy old root prepared h f) \<and> (\<forall>f \<in> set fs. records_file old root f (look h) dir)"
  have "?I fs h'"
  proof (rule each_Done [where I = ?I, OF assms(1)])
    fix ys f zs h1 h2 assume fs: "fs = ys @ f # zs" and I: "?I ys h1" and run: "prepare_record dir prepared f h1 = (Done (), h2)"
    show "?I (ys @ [f]) h2"
    proof (cases "rf_Existed f")
      case False
      with run have "h2 = h1" by (simp add: prepare_record_def hret_eq)
      with I False show ?thesis by (auto simp: prepared_copy_def)
    next
      case True
      from I fs have "records_file old root f (look h1) dir" by simp
      with True obtain m c where f: "old (root @ rf_Target f) = Some (Regular m c)" "rf_Mode f = perm m" "length c \<le> maxFileSize"
        "look h1 (dir @ [''files'', rf_Component f]) = Some (Regular 384 c)" by (auto simp: records_file_def)
      from run True obtain d where d: "look h1 (dir @ [''files'', rf_Component f]) = Some (Regular 384 d)" "look h1 (prepared @ [rf_Component f]) = None"
        "\<And>p. look h2 p = (if p = prepared @ [rf_Component f] then Some (Regular (rf_Mode f) (take (maxFileSize + 1) d)) else look h1 p)"
        using f(4) by (auto simp: prepare_record_def elim!: copyAndVerify_Done)
      with f have new: "look h2 (prepared @ [rf_Component f]) = Some (Regular (perm m) c)" by simp
      have "grown h1 h2" using d by (auto simp: grown_def)
      then have "\<forall>f \<in> set fs. records_file old root f (look h2) dir" "\<forall>f \<in> set ys. prepared_copy old root prepared h2 f"
        using I records_file_grown by (auto simp: prepared_copy_def grown_def)
      with new f show ?thesis by (auto simp: prepared_copy_def)
    qed
  qed (use assms(3) in simp)
  then show ?thesis by blast
qed

lemma restore_record_Done:
  assumes run: "restore_record root prepared f h = (Done u, h')" and pre: "prepared_copy old root prepared h f"
    and none: "\<not> rf_Existed f \<Longrightarrow> old (root @ rf_Target f) = None"
    and place: "apart prepared (root @ rf_Target f)"
  shows "view (look h' (root @ rf_Target f)) = view (old (root @ rf_Target f))"
proof -
  let ?t = "root @ rf_Target f"
  from run obtain h1 where mk: "MkdirAll (butlast ?t) 493 h = (Done (), h1)"
    and rest: "(if \<not> rf_Existed f then on_error (Remove ?t) (\<lambda>e. if e = NotExist then hret () else hfail e)
       else replace_target ''.swbadge-restore-new'' (prepared @ [rf_Component f]) ?t (rf_Size f) (rf_SHA256 f) (rf_Mode f)) h1 = (Done u, h')"
    by (auto simp: restore_record_def rootedTarget_def Let_def hthen_Done)
  show ?thesis
  proof (cases "rf_Existed f")
    case False
    with rest have "look h' ?t = None"
      by (auto simp: host_simps split: if_splits dest!: Remove_Done Remove_missing)
    with none False show ?thesis by simp
  next
    case True
    with pre obtain m c where c: "old ?t = Some (Regular m c)" "look h (prepared @ [rf_Component f]) = Some (Regular (perm m) c)"
      "rf_Mode f = perm m" "length c \<le> maxFileSize" by (auto simp: prepared_copy_def)
    have "look h1 (prepared @ [rf_Component f]) = Some (Regular (perm m) c)"
      using grown_MkdirAll [OF mk] c(2) by (simp add: grown_def)
    with rest True have "look h' ?t = Some (Regular (perm m) (take (maxFileSize + 1) c))"
      using c(3) by (auto elim!: replace_target_Done)
    with c show ?thesis by (simp add: view_def)
  qed
qed


text \<open>The targets that have been restored or were never touched.\<close>

definition restored :: "(path \<Rightarrow> node option) \<Rightarrow> path \<Rightarrow> string set \<Rightarrow> host \<Rightarrow> bool" where
  "restored old root names h \<longleftrightarrow>
     (\<forall>c s. component_spec c = Some s \<longrightarrow> c \<in> names \<longrightarrow> view (look h (root @ spec_Target s)) = view (old (root @ spec_Target s)))"

lemma other_target_apart:
  assumes s: "component_spec c = Some s" and c': "component_spec c' = Some s'" "c' \<noteq> c"
    and ext: "ext \<in> {''.swbadge-install-new'', ''.swbadge-restore-new''}"
  shows "apart (root @ spec_Target s') (root @ spec_Target s)" "apart (root @ spec_Target s') (sibling (root @ spec_Target s) ext)"
proof -
  have "spec_Target s' \<noteq> spec_Target s" using specs_distinct [OF c'(1) s] c'(2) by blast
  then have "root @ spec_Target s' \<noteq> root @ spec_Target s" by simp
  moreover have "sibling (root @ spec_Target s) ext \<noteq> root @ spec_Target s'" "sibling (root @ spec_Target s) ext \<in> targets root"
    using replacement_differs [OF s c'(1)] spec_target(2,3) [OF s] ext by auto
  ultimately show "apart (root @ spec_Target s') (root @ spec_Target s)" "apart (root @ spec_Target s') (sibling (root @ spec_Target s) ext)"
    using targets_apart [OF spec_target(1) [OF c'(1), of root]] spec_target(1) [OF s, of root] by metis+
qed

lemma restored_step:
  assumes fr: "frame {root @ spec_Target s, sibling (root @ spec_Target s) ext} h h'" "ext \<in> {''.swbadge-install-new'', ''.swbadge-restore-new''}"
    and s: "component_spec c = Some s" and c': "component_spec c' = Some s'" "c' \<noteq> c"
  shows "look h' (root @ spec_Target s') = look h (root @ spec_Target s')"
  using other_target_apart [OF s c' fr(2)] by (intro frame_apart [OF fr(1)]) auto

lemma restore_all_Done:
  assumes run: "each (restore_record root prepared) fs h = (Done u, h')" and prep: "prepared = dir @ x"
    and place: "\<forall>t \<in> targets root. apart dir t"
    and copies: "\<forall>f \<in> set fs. prepared_copy old root prepared h f"
    and rec: "\<forall>f \<in> set fs. (\<exists>s. component_spec (rf_Component f) = Some s \<and> rf_Target f = spec_Target s) \<and>
      (\<not> rf_Existed f \<longrightarrow> old (root @ rf_Target f) = None)"
    and rest: "restored old root (- rf_Component ` set fs) h"
  shows "intact old root h'"
proof -
  let ?J = "\<lambda>ys h. (\<forall>f \<in> set fs. prepared_copy old root prepared h f) \<and> restored old root (- rf_Component ` set fs \<union> rf_Component ` set ys) h"
  have "?J fs h'"
  proof (rule each_Done [where I = ?J, OF run])
    fix ys f zs ha hb assume fs: "fs = ys @ f # zs" and J: "?J ys ha" and one: "restore_record root prepared f ha = (Done (), hb)"
    obtain s where s: "component_spec (rf_Component f) = Some s" "rf_Target f = spec_Target s" using rec fs by auto
    let ?t = "root @ spec_Target s" and ?r = "sibling (root @ spec_Target s) ''.swbadge-restore-new''"
    have "near {?t, ?r} (restore_record root prepared f)"
      using near_restore_record [of ?t root f prepared] s(2) by (simp add: rootedTarget_def)
    note fr = near_frame [OF this one]
    have ap: "apart dir ?t" "apart dir ?r" using place spec_target(1,3) [OF s(1)] by auto
    have "look hb (dir @ y) = look ha (dir @ y)" for y using frame_apart [OF fr] apart_below ap by simp
    then have "\<forall>f \<in> set fs. prepared_copy old root prepared hb f" using J by (simp add: prepared_copy_def prep)
    moreover have t: "view (look hb ?t) = view (old ?t)"
      using restore_record_Done [OF one, of old] J fs rec apart_below [OF ap(1), of x] s(2) by (simp add: prep)
    moreover have "view (look hb (root @ spec_Target s')) = view (old (root @ spec_Target s'))"
      if "component_spec c = Some s'" "c \<in> - rf_Component ` set fs \<union> rf_Component ` set (ys @ [f])" for c s'
    proof (cases "c = rf_Component f")
      case True
      with t s(1) that(1) show ?thesis by simp
    next
      case False
      with J restored_step [OF fr _ s(1) that(1) False] that show ?thesis by (auto simp: restored_def)
    qed
    ultimately show "?J (ys @ [f]) hb" unfolding restored_def by blast
  qed (use copies rest in simp)
  then show ?thesis by (auto simp: restored_def intact_def)
qed

lemma RestoreRollback_Done:
  assumes run: "RestoreRollback T root dir h = (Done u, h')"
    and snap: "snapshot T old root dir m h" "others_intact old root (map rf_Component (rm_Files m)) h"
    and place: "\<forall>t \<in> targets root. apart dir t"
    and json: "\<forall>m m'. unjson_RollbackManifest T (json_RollbackManifest T m) = Some m' \<longrightarrow> m' = m"
  shows "intact old root h'"
proof -
  let ?prep = "dir @ [''.restore-prepared'']" and ?fs = "rm_Files m"
  from run obtain m' h1 h2 h3 h4 h5 where st: "VerifyRollback T root dir h = (Done m', h1)" "RemoveAll ?prep h1 = (Done (), h2)"
    "Mkdir ?prep 448 h2 = (Done (), h3)" "each (prepare_record dir ?prep) (rm_Files m') h3 = (Done (), h4)"
    "each (restore_record root ?prep) (rm_Files m') h4 = (Done (), h5)" "hignore (RemoveAll ?prep) h5 = (Done (), h')"
    by (auto simp: RestoreRollback_def Let_def hbind_Done hthen_Done deferred_Done)
  have "m' = m" using VerifyRollback_Done [OF st(1)] snap(1) json by (auto simp: snapshot_def)
  note st = st [unfolded this]
  have cov: "covers {?prep} ?prep" by (simp add: covers_def)
  have f3: "frame {?prep} h h3"
    by (rule frame_trans [OF frame_trans [OF near_frame [OF near_VerifyRollback st(1)]
          near_frame [OF near_entry(7) [OF cov] st(2)]] near_frame [OF near_entry(5) [OF cov] st(3)]])
  have f4: "frame {?prep} h h4"
    using f3 near_frame [OF near_each [OF near_prepare_record [OF cov]] st(4)] by (rule frame_trans)
  have apt: "\<forall>q \<in> {?prep}. \<forall>t \<in> targets root. apart q t" using place apart_below by blast
  have "snapshot T old root dir m h3" using frame_snapshot [OF f3 _ snap(1)] by simp
  then have "\<forall>f \<in> set ?fs. records_file old root f (look h3) dir" by (simp add: snapshot_def)
  note cop = prepare_all_Done [OF st(4) refl this]
  have "look h4 t = look h t" if "t \<in> targets root" for t using frame_targets [OF f4 apt that] .
  then have "restored old root (- rf_Component ` set ?fs) h4" using snap(2) spec_target(1) by (simp add: restored_def others_intact_def)
  with restore_all_Done [OF st(5) refl place cop] snap(1) have "intact old root h5" by (auto simp: snapshot_def records_file_def)
  with offD [OF off_intact(1) [OF apt] near_hignore [OF near_entry(7) [OF cov]] st(6)] show ?thesis .
qed

end
