(* ===== verification/Update_Safety.thy ===== *)
theory Update_Safety
  imports Update_Snapshot
begin

text \<open>
  Crash safety of an update: every step of the installer keeps one of two conditions.  Either
  there is no marker and every managed file is the old one, or the marker names a snapshot from
  which recovery rebuilds them.
\<close>

section \<open>The marker\<close>

lemma butlast_sibling [simp]: "butlast (sibling p e) = butlast p"
  by (simp add: sibling_def)

lemma look_off: "apart p q \<Longrightarrow> off {q} (\<lambda>h. look h p = x)"
  unfolding off_def using frame_apart by fastforce

lemma replace_file_triple:
  assumes "apart p (sibling p ''.tmp'')"
  shows "triple (\<lambda>h. look h p = x) (replace_file p raw mode) (\<lambda>_ h. look h p = Some (Regular mode raw)) (\<lambda>_ h. look h p = x)"
proof -
  let ?t = "sibling p ''.tmp''" and ?P = "\<lambda>h. look h p = x"
  note off = look_off [OF assms, of x]
  have cov: "covers {?t} ?t" by (simp add: covers_def)
  have 1: "triple ?P (MkdirAll (butlast p) 493) (\<lambda>_. ?P) (\<lambda>_. ?P)"
    using triple_near [OF near_MkdirAll [OF leads_intros(2) [OF cov]] off] by simp
  have 2: "triple ?P (writeExclusive ?t raw mode) (\<lambda>_ h. ?P h \<and> look h ?t = Some (Regular mode raw)) (\<lambda>_. ?P)"
  proof (rule tripleI)
    fix h h' u assume "?P h" "writeExclusive ?t raw mode h = (Done u, h')"
    with writeExclusive_Done [OF this(2)] assms show "?P h' \<and> look h' ?t = Some (Regular mode raw)" by (auto simp: apart_def)
  next
    fix h h' r assume "?P h" "writeExclusive ?t raw mode h = (r, h')"
    then show "?P h'" using offD [OF off near_writeExclusive [OF cov]] by blast
  qed
  have 3: "triple (\<lambda>h. ?P h \<and> look h ?t = Some (Regular mode raw)) (Rename ?t p) (\<lambda>_ h. look h p = Some (Regular mode raw)) (\<lambda>_. ?P)"
  proof (rule tripleI)
    fix h h' u assume "?P h \<and> look h ?t = Some (Regular mode raw)" "Rename ?t p h = (Done u, h')"
    then show "look h' p = Some (Regular mode raw)"
      using Rename_Done [of ?t p h u h'] look_move_below [of ?t p "files h" "[]"] by (simp add: apart_def)
  next
    fix h h' r assume "?P h \<and> look h ?t = Some (Regular mode raw)" "Rename ?t p h = (r, h')" "\<And>a. r \<noteq> Done a"
    with Rename_not_Done [OF this(2)] show "?P h'" by simp
  qed
  have "near {?t} (hthen (hignore (Remove ?t)) (hfail e))" for e by (intro near_hthen near_hignore near_entry(4) cov near_hfail)
  then have 4: "triple ?P (hthen (hignore (Remove ?t)) (hfail e)) (\<lambda>_ h. look h p = Some (Regular mode raw)) (\<lambda>_. ?P)" for e
    by (auto simp: triple_def hthen_def hbind_def hfail_def split: prod.splits res.splits dest!: offD [OF off near_hignore [OF near_entry(4) [OF cov]]])
  show ?thesis unfolding replace_file_def Let_def
    by (rule triple_then [OF 1 triple_then [OF 2 triple_on_error [OF 3 4]]])
qed

text \<open>The conditions, for the files as they were (\<open>old\<close>).\<close>

definition clean :: "(path \<Rightarrow> node option) \<Rightarrow> path \<Rightarrow> path \<Rightarrow> host \<Rightarrow> bool" where
  "clean old root X h \<longleftrightarrow> look h X = None \<and> intact old root h"

definition marked :: "tools \<Rightarrow> (path \<Rightarrow> node option) \<Rightarrow> path \<Rightarrow> path \<Rightarrow> path \<Rightarrow> UpdateTransaction \<Rightarrow> RollbackManifest \<Rightarrow> host \<Rightarrow> bool" where
  "marked T old root dir X t m h \<longleftrightarrow> look h X = Some (Regular 384 (json_UpdateTransaction T t)) \<and> ut_RollbackDir t = Some dir \<and>
     snapshot T old root dir m h \<and> others_intact old root (map rf_Component (rm_Files m)) h"

definition safe :: "tools \<Rightarrow> (path \<Rightarrow> node option) \<Rightarrow> path \<Rightarrow> path \<Rightarrow> path \<Rightarrow> host \<Rightarrow> bool" where
  "safe T old root dir X h \<longleftrightarrow> clean old root X h \<or> (\<exists>t m. marked T old root dir X t m h)"

text \<open>A decoder does not take the encoding of one value for another one.\<close>

definition faithful_json :: "tools \<Rightarrow> bool" where
  "faithful_json T \<longleftrightarrow>
     (\<forall>m m'. unjson_RollbackManifest T (json_RollbackManifest T m) = Some m' \<longrightarrow> m' = m) \<and>
     (\<forall>t t'. unjson_UpdateTransaction T (json_UpdateTransaction T t) = Some t' \<longrightarrow> t' = t)"

text \<open>The paths that restoring a snapshot changes.\<close>

definition restore_paths :: "path \<Rightarrow> path \<Rightarrow> RollbackManifest \<Rightarrow> path set" where
  "restore_paths root dir m = {dir @ [''.restore-prepared'']} \<union>
     (\<Union>f \<in> set (rm_Files m). {root @ rf_Target f, sibling (root @ rf_Target f) ''.swbadge-restore-new''})"

lemma off_conj: "off Ps P \<Longrightarrow> off Ps Q \<Longrightarrow> off Ps (\<lambda>h. P h \<and> Q h)"
  unfolding off_def by blast

lemma off_look: "\<forall>q \<in> Ps. apart p q \<Longrightarrow> off Ps (\<lambda>h. look h p = x)"
  unfolding off_def using frame_apart by fastforce

lemma off_marked:
  assumes "\<forall>q \<in> Ps. apart X q" "\<forall>q \<in> Ps. apart dir q" "\<forall>q \<in> Ps. \<forall>t \<in> targets root. apart q t"
  shows "off Ps (marked T old root dir X t m)" "off Ps (clean old root X)" "off Ps (safe T old root dir X)"
proof -
  show m: "off Ps (marked T old root dir X t m)" for t m unfolding marked_def using assms
    by (intro off_conj off_look off_snapshot off_intact(2)) (auto simp: off_def)
  show c: "off Ps (clean old root X)" unfolding clean_def using assms by (intro off_conj off_look off_intact(1)) auto
  show "off Ps (safe T old root dir X)" using m c unfolding off_def safe_def by meson
qed


section \<open>Rolling back\<close>

definition placed :: "path \<Rightarrow> path \<Rightarrow> path \<Rightarrow> bool" where
  "placed root dir X \<longleftrightarrow> apart X dir \<and> (\<forall>t \<in> targets root. apart X t \<and> apart dir t)"

text \<open>The names under which the components of a manifest are written.\<close>

definition own_path :: "path \<Rightarrow> string set \<Rightarrow> path \<Rightarrow> bool" where
  "own_path root names q \<longleftrightarrow> (\<exists>c \<in> names. \<exists>s. component_spec c = Some s \<and> (q = root @ spec_Target s \<or>
     q = sibling (root @ spec_Target s) ''.swbadge-install-new'' \<or> q = sibling (root @ spec_Target s) ''.swbadge-restore-new''))"

lemma own_path_target: "own_path root names q \<Longrightarrow> q \<in> targets root"
  using spec_target(1-3) by (auto simp: own_path_def)

lemma own_path_apart:
  assumes "own_path root names q" "component_spec c = Some s" "c \<notin> names"
  shows "apart (root @ spec_Target s) q"
proof -
  from assms(1) obtain c' s' where c': "c' \<in> names" "component_spec c' = Some s'"
    and q: "q = root @ spec_Target s' \<or> q = sibling (root @ spec_Target s') ''.swbadge-install-new'' \<or>
      q = sibling (root @ spec_Target s') ''.swbadge-restore-new''" by (auto simp: own_path_def)
  from c'(1) assms(3) have "c \<noteq> c'" by blast
  note ap = other_target_apart [OF c'(2) assms(2) this]
  from q ap [of "''.swbadge-install-new''" root] ap [of "''.swbadge-restore-new''" root] show ?thesis by auto
qed

lemma frame_marked:
  assumes "frame Ps h h'" "\<forall>q \<in> Ps. prefix (dir @ [''.restore-prepared'']) q \<or> own_path root (rf_Component ` set (rm_Files m)) q"
    and place: "placed root dir X" and M: "marked T old root dir X t m h"
  shows "marked T old root dir X t m h'"
proof -
  have below: "apart p q" if "apart p dir" "prefix (dir @ s) q" for p q s
    using that(2) apart_sym [OF apart_below [OF apart_sym [OF that(1)]]] by (auto simp: prefix_def)
  have "\<forall>q \<in> Ps. apart X q" using assms(2) place own_path_target below unfolding placed_def by blast
  then have X: "look h' X = look h X" by (rule frame_apart [OF assms(1)])
  have "\<forall>q \<in> Ps. apart dir q \<or> prefix (dir @ [''.restore-prepared'']) q"
    using assms(2) place own_path_target unfolding placed_def by blast
  then have "snapshot T old root dir m h'" using M by (intro frame_snapshot [OF assms(1)]) (auto simp: marked_def)
  moreover have "look h' (root @ spec_Target s) = look h (root @ spec_Target s)"
    if c: "component_spec c = Some s" "c \<notin> rf_Component ` set (rm_Files m)" for c s
  proof (intro frame_apart [OF assms(1)] ballI)
    have "apart (root @ spec_Target s) dir" using place spec_target(1) [OF c(1)] by (auto simp: placed_def intro: apart_sym)
    then show "apart (root @ spec_Target s) q" if "q \<in> Ps" for q
      using that assms(2) own_path_apart [OF _ c] below by blast
  qed
  ultimately show ?thesis using M X by (auto simp: marked_def others_intact_def)
qed

lemma restore_paths_own:
  assumes "marked T old root dir X t m h"
  shows "\<forall>q \<in> restore_paths root dir m. prefix (dir @ [''.restore-prepared'']) q \<or> own_path root (rf_Component ` set (rm_Files m)) q"
proof -
  have "\<exists>s. component_spec (rf_Component f) = Some s \<and> rf_Target f = spec_Target s" if "f \<in> set (rm_Files m)" for f
    using assms that by (auto simp: marked_def snapshot_def records_file_def)
  then show ?thesis unfolding restore_paths_def own_path_def by fastforce
qed

lemma RestoreRollback_frame:
  assumes json: "faithful_json T" and M: "marked T old root dir X t m h" and run: "RestoreRollback T root dir h = (r, h')"
  shows "frame (restore_paths root dir m) h h'"
proof -
  let ?prep = "dir @ [''.restore-prepared'']" and ?Ps = "restore_paths root dir m"
  obtain v h1 where v: "VerifyRollback T root dir h = (v, h1)" by (cases "VerifyRollback T root dir h")
  have cov: "covers ?Ps ?prep" by (auto simp: covers_def restore_paths_def)
  have "near ?Ps (restore_record root ?prep f)" if "f \<in> set (rm_Files m)" for f
    by (rule near_mono [OF near_restore_record [OF refl]]) (use that in \<open>auto simp: restore_paths_def rootedTarget_def\<close>)
  then have body: "near ?Ps (hthen (RemoveAll ?prep) (hthen (Mkdir ?prep 448) (deferred
      (hthen (each (prepare_record dir ?prep) (rm_Files m)) (each (restore_record root ?prep) (rm_Files m))) (RemoveAll ?prep))))"
    by (intro near_hthen near_deferred near_each near_entry(5,7) near_prepare_record cov)
  show ?thesis
  proof (cases v)
    case (Done m')
    then have "m' = m" using VerifyRollback_Done [of T root dir h m' h1] v M json by (auto simp: marked_def snapshot_def faithful_json_def)
    with run v Done have "hthen (RemoveAll ?prep) (hthen (Mkdir ?prep 448) (deferred
      (hthen (each (prepare_record dir ?prep) (rm_Files m)) (each (restore_record root ?prep) (rm_Files m))) (RemoveAll ?prep))) h1 = (r, h')"
      by (simp add: RestoreRollback_def hbind_def Let_def)
    then have "frame ?Ps h1 h'" by (rule near_frame [OF body])
    with near_frame [OF near_VerifyRollback v] show ?thesis by (rule frame_trans)
  qed (use run v near_frame [OF near_VerifyRollback v] in \<open>auto simp: RestoreRollback_def hbind_def\<close>)
qed

lemma RestoreRollback_triple:
  assumes "placed root dir X" "faithful_json T"
  shows "triple (marked T old root dir X t m) (RestoreRollback T root dir)
    (\<lambda>_ h. marked T old root dir X t m h \<and> intact old root h) (\<lambda>_. marked T old root dir X t m)"
proof -
  have keep: "marked T old root dir X t m h'" if M: "marked T old root dir X t m h" and run: "RestoreRollback T root dir h = (r, h')" for h r h'
    using RestoreRollback_frame [OF assms(2) M run] restore_paths_own [OF M] assms(1) M by (rule frame_marked)
  show ?thesis
  proof (rule tripleI)
    fix h h' u assume M: "marked T old root dir X t m h" and run: "RestoreRollback T root dir h = (Done u, h')"
    with RestoreRollback_Done [OF run] keep [OF M run] assms
    show "marked T old root dir X t m h' \<and> intact old root h'" by (auto simp: marked_def placed_def faithful_json_def)
  qed (rule keep)
qed

lemma unlink_marker:
  assumes "placed root dir X" "intact old root h" "files h' = unlink X (files h)"
  shows "clean old root X h'"
proof -
  have "X \<noteq> root @ spec_Target s" if "component_spec c = Some s" for c s
    using assms(1) spec_target(1) [OF that, of root] by (auto simp: placed_def apart_def)
  with assms(2,3) show ?thesis by (auto simp: clean_def intact_def)
qed

lemma Remove_marker:
  assumes "placed root dir X"
  shows "triple (\<lambda>h. marked T old root dir X t m h \<and> intact old root h) (Remove X) (\<lambda>_. clean old root X) (\<lambda>_. marked T old root dir X t m)"
proof (rule tripleI)
  fix h h' u assume "marked T old root dir X t m h \<and> intact old root h" "Remove X h = (Done u, h')"
  with unlink_marker [OF assms] Remove_Done show "clean old root X h'" by blast
next
  fix h h' r assume "marked T old root dir X t m h \<and> intact old root h" "Remove X h = (r, h')" "\<And>a. r \<noteq> Done a"
  with Remove_not_Done [OF this(2)] frame_marked [OF frame_refl [of h' h "{}"] _ assms] show "marked T old root dir X t m h'" by auto
qed

text \<open>Removing the marker after the files are back; the source tolerates that it is gone already.\<close>

lemma drop_marker:
  assumes place: "placed root dir X"
  shows "triple (\<lambda>h. marked T old root dir X t m h \<and> intact old root h)
    (on_error (Remove X) (\<lambda>x. if x = NotExist then hret () else hfail (f x)))
    (\<lambda>_. clean old root X) (\<lambda>e h. marked T old root dir X t m h \<and> (e = None \<or> e \<in> Some ` range f))"
proof (rule tripleI)
  let ?I = "\<lambda>h. marked T old root dir X t m h \<and> intact old root h"
  fix h h' u assume I: "?I h" and run: "on_error (Remove X) (\<lambda>x. if x = NotExist then hret () else hfail (f x)) h = (Done u, h')"
  then consider "Remove X h = (Done u, h')" | "Remove X h = (Failed NotExist, h')" by (auto simp: host_simps split: if_splits)
  then show "clean old root X h'"
    using tripleD(1) [OF Remove_marker [OF place] I] Remove_missing I by cases (auto simp: marked_def)
next
  let ?I = "\<lambda>h. marked T old root dir X t m h \<and> intact old root h"
  fix h h' r assume I: "?I h" and run: "on_error (Remove X) (\<lambda>x. if x = NotExist then hret () else hfail (f x)) h = (r, h')"
    and bad: "\<And>a. r \<noteq> Done a"
  then obtain x where x: "Remove X h = (x, h')" "x \<noteq> Done ()" "\<forall>y. r = Failed y \<longrightarrow> y \<in> range f"
    by (cases "fst (Remove X h)") (auto simp: on_error_def hbind_def htry_def hret_def hfail_def split: prod.splits res.splits if_splits)
  then have "marked T old root dir X t m h'" using tripleD(2,3) [OF Remove_marker [OF place] I] by (cases x) auto
  with x(3) show "marked T old root dir X t m h' \<and> ((case r of Failed e \<Rightarrow> Some e | _ \<Rightarrow> None) = None \<or>
      (case r of Failed e \<Rightarrow> Some e | _ \<Rightarrow> None) \<in> Some ` range f)" by (cases r) auto
qed

text \<open>What holds after an error: the error that says the update was rolled back means just that.\<close>

definition after_failure :: "tools \<Rightarrow> (path \<Rightarrow> node option) \<Rightarrow> path \<Rightarrow> path \<Rightarrow> path \<Rightarrow> host_error option \<Rightarrow> host \<Rightarrow> bool" where
  "after_failure T old root dir X e h \<longleftrightarrow> safe T old root dir X h \<and> (\<forall>x. e = Some (RolledBack x) \<longrightarrow> clean old root X h)"

lemma after_failure_marked: "marked T old root dir X t m h \<Longrightarrow> (\<And>x. e \<noteq> Some (RolledBack x)) \<Longrightarrow> after_failure T old root dir X e h"
  by (auto simp: after_failure_def safe_def)

lemma after_failure_clean: "clean old root X h \<Longrightarrow> after_failure T old root dir X e h"
  by (auto simp: after_failure_def safe_def)


lemma rollbackInstallFailure_triple:
  assumes place: "placed root dir X" and json: "faithful_json T"
    and recover: "near Ps recover" "off Ps (\<lambda>h. marked T old root dir X t m h \<and> intact old root h)"
  shows "triple (marked T old root dir X t m) (rollbackInstallFailure T root dir (Some X) (Some recover) e)
    (\<lambda>_ _. False) (after_failure T old root dir X)"
proof -
  let ?M = "marked T old root dir X t m" and ?I = "\<lambda>h. marked T old root dir X t m h \<and> intact old root h"
  have 1: "triple ?M (on_error (RestoreRollback T root dir) (\<lambda>e. hfail (NotRestored e))) (\<lambda>_. ?I) (after_failure T old root dir X)"
    by (rule triple_on_error [OF RestoreRollback_triple [OF place json] triple_hfail]) (auto intro: after_failure_marked)
  have 2: "triple ?I (on_error recover (\<lambda>e. hfail (NotRecovered e))) (\<lambda>_. ?I) (after_failure T old root dir X)"
    by (rule triple_on_error [OF triple_near [OF recover] triple_hfail]) (auto intro: after_failure_marked)
  have 3: "triple ?I (on_error (Remove X) (\<lambda>x. if x = NotExist then hret () else hfail (NotCleaned x)))
      (\<lambda>_. clean old root X) (after_failure T old root dir X)"
    by (rule triple_weaken [OF drop_marker [OF place]]) (auto intro: after_failure_marked)
  have 4: "triple (clean old root X) (hfail (RolledBack e)) (\<lambda>_ _. False) (after_failure T old root dir X)"
    by (rule triple_hfail) (rule after_failure_clean)
  show ?thesis unfolding rollbackInstallFailure_def option.case
    by (rule triple_then [OF 1 triple_then [OF 2 triple_then [OF 3 4]]])
qed


section \<open>Installing\<close>

lemma near_validate_staged [near_intros]: "covers Ps S \<Longrightarrow> near Ps (validate_staged S seen cs)"
  by (induction cs arbitrary: seen) (auto simp: validate_payload_def Let_def intro!: near_intros split: option.split node.split)

lemma validate_staged_Done:
  "validate_staged S seen cs h = (Done u, h') \<Longrightarrow> distinct (map sc_Component cs) \<and> set seen \<inter> sc_Component ` set cs = {} \<and>
   (\<forall>c \<in> set cs. \<exists>s. component_spec (sc_Component c) = Some s \<and> sc_Target c = spec_Target s \<and> sc_Mode c = perm (spec_Mode s))"
proof (induction cs arbitrary: seen h)
  case (Cons c cs)
  from Cons.prems obtain s h1 where "component_spec (sc_Component c) = Some s" "sc_Target c = spec_Target s" "sc_Mode c = perm (spec_Mode s)"
    "sc_Component c \<notin> set seen" "validate_staged S (sc_Component c # seen) cs h1 = (Done u, h')"
    by (auto simp: host_simps split: option.splits if_splits)
  with Cons.IH [OF this(5)] show ?case by auto
qed simp

lemma near_apply_component:
  "t = rootedTarget root (sc_Target c) \<Longrightarrow> near {t, sibling t ''.swbadge-install-new''} (apply_component root prepared c)"
  by (auto simp: apply_component_def Let_def intro!: near_intros)

lemma near_prepare_component: "covers Ps prepared \<Longrightarrow> near Ps (prepare_component S prepared c)"
  by (auto simp: prepare_component_def Let_def intro!: near_intros)

lemma triple_ex:
  assumes "\<And>m. triple (P m) n Q E"
  shows "triple (\<lambda>h. \<exists>m. P m h) n Q E"
  unfolding triple_def
proof (intro allI impI, elim exE)
  fix h m assume "P m h"
  with assms [of m] show "case n h of (Done a, h') \<Rightarrow> Q a h' | (Failed e, h') \<Rightarrow> E (Some e) h' | (Died, h') \<Rightarrow> E None h'"
    by (simp add: triple_def)
qed

lemma triple_or: "triple P n Q E \<Longrightarrow> triple P' n Q E \<Longrightarrow> triple (\<lambda>h. P h \<or> P' h) n Q E"
  using triple_ex [of "\<lambda>b. if b then P else P'" n Q E] by (simp add: ex_bool_eq split: if_splits)

lemma triple_pre: "(\<And>h. P h \<Longrightarrow> c) \<Longrightarrow> (c \<Longrightarrow> triple P n Q E) \<Longrightarrow> triple P n Q E"
  by (auto simp: triple_def)

lemma triple_each: "(\<And>x. x \<in> set xs \<Longrightarrow> triple P (f x) (\<lambda>_. P) E) \<Longrightarrow> triple P (each f xs) (\<lambda>_. P) E"
  by (induction xs) (auto intro!: triple_hret triple_then)

text \<open>The files before the installation, and no marker.\<close>

definition before :: "(path \<Rightarrow> node option) \<Rightarrow> path \<Rightarrow> path \<Rightarrow> host \<Rightarrow> bool" where
  "before old root X h \<longleftrightarrow> look h X = None \<and> (\<forall>t \<in> targets root. look h t = old t)"

lemma before_clean: "before old root X h \<Longrightarrow> clean old root X h"
  using spec_target(1) by (auto simp: before_def clean_def intact_def)

lemma off_before:
  assumes "\<forall>q \<in> Ps. apart X q \<and> (\<forall>t \<in> targets root. apart q t)"
  shows "off Ps (before old root X)"
  unfolding off_def before_def
proof (intro allI impI)
  fix h h' assume fr: "frame Ps h h'" and P: "look h X = None \<and> (\<forall>t \<in> targets root. look h t = old t)"
  from fr assms have "look h' X = look h X" by (intro frame_apart) auto
  moreover have "look h' t = look h t" if "t \<in> targets root" for t using frame_targets [OF fr _ that] assms by blast
  ultimately show "look h' X = None \<and> (\<forall>t \<in> targets root. look h' t = old t)" using P by simp
qed

lemma snapshot_cong:
  assumes "\<forall>t \<in> targets root. old t = old' t" "snapshot T old root dir m h"
  shows "snapshot T old' root dir m h"
proof -
  have "records_file old' root f (look h) dir" if "f \<in> set (rm_Files m)" for f
  proof -
    from assms(2) that have f: "records_file old root f (look h) dir" by (simp add: snapshot_def)
    then obtain s where "component_spec (rf_Component f) = Some s" "rf_Target f = spec_Target s" by (auto simp: records_file_def)
    with assms(1) spec_target(1) have "old (root @ rf_Target f) = old' (root @ rf_Target f)" by simp
    with f show ?thesis unfolding records_file_def by metis
  qed
  with assms(2) show ?thesis by (simp add: snapshot_def)
qed

definition snapped :: "tools \<Rightarrow> (path \<Rightarrow> node option) \<Rightarrow> path \<Rightarrow> path \<Rightarrow> path \<Rightarrow> StagePlan \<Rightarrow> RollbackManifest \<Rightarrow> host \<Rightarrow> bool" where
  "snapped T old root dir X plan m h \<longleftrightarrow> before old root X h \<and> snapshot T old root dir m h \<and>
     map rf_Component (rm_Files m) = map sc_Component (sp_Components plan)"

lemma CreateRollback_triple:
  assumes place: "placed root dir X" "placed root (sibling dir ''.tmp'') X"
  shows "triple (before old root X) (on_error (CreateRollback T (Some root) plan (Some dir) now) (\<lambda>e. hfail (f e)))
    (\<lambda>_ h. \<exists>m. snapped T old root dir X plan m h) (\<lambda>_. clean old root X)"
proof -
  let ?Ps = "{dir, sibling dir ''.tmp''}"
  have off: "off ?Ps (before old root X)" using place by (intro off_before) (auto simp: placed_def)
  have nr: "near ?Ps (CreateRollback T (Some root) plan (Some dir) now)" by (intro near_CreateRollback) auto
  have "triple (before old root X) (CreateRollback T (Some root) plan (Some dir) now)
      (\<lambda>_ h. \<exists>m. snapped T old root dir X plan m h) (\<lambda>_. clean old root X)"
  proof (rule tripleI)
    fix h h' m assume B: "before old root X h" and run: "CreateRollback T (Some root) plan (Some dir) now h = (Done m, h')"
    from CreateRollback_Done [OF run] place
    have "snapshot T (look h) root dir m h'" "map rf_Component (rm_Files m) = map sc_Component (sp_Components plan)"
      by (auto simp: placed_def)
    with B offD [OF off nr run B] snapshot_cong [of root "look h" old T dir m h'] have "snapped T old root dir X plan m h'"
      by (auto simp: snapped_def before_def)
    then show "\<exists>m. snapped T old root dir X plan m h'" ..
  next
    fix h h' r assume "before old root X h" "CreateRollback T (Some root) plan (Some dir) now h = (r, h')"
    then show "clean old root X h'" using offD [OF off nr] before_clean by blast
  qed
  then show ?thesis by (rule triple_on_error [OF _ triple_hfail]) auto
qed


lemma WriteUpdateTransaction_marker:
  assumes "apart X (sibling X ''.tmp'')"
  shows "triple (\<lambda>h. look h X = None) (WriteUpdateTransaction T X t) (\<lambda>_ h. look h X = Some (Regular 384 (json_UpdateTransaction T t)))
    (\<lambda>_ h. look h X = None \<or> look h X = Some (Regular 384 (json_UpdateTransaction T t)))"
  unfolding WriteUpdateTransaction_def
proof (intro triple_then)
  let ?raw = "json_UpdateTransaction T t"
  show "triple (\<lambda>h. look h X = None) (hensure (valid_transaction t) (Message ''invalid update transaction''))
      (\<lambda>_ h. look h X = None) (\<lambda>_ h. look h X = None \<or> look h X = Some (Regular 384 ?raw))"
    by (auto simp: triple_def hensure_def hret_def hfail_def)
  show "triple (\<lambda>h. look h X = None) (replace_file X ?raw 384) (\<lambda>_ h. look h X = Some (Regular 384 ?raw))
      (\<lambda>_ h. look h X = None \<or> look h X = Some (Regular 384 ?raw))"
    by (rule triple_weaken [OF replace_file_triple [OF assms, of None]]) auto
  show "triple (\<lambda>h. look h X = Some (Regular 384 ?raw)) (SyncDir (butlast X)) (\<lambda>_ h. look h X = Some (Regular 384 ?raw))
      (\<lambda>_ h. look h X = None \<or> look h X = Some (Regular 384 ?raw))"
    by (rule triple_weaken [OF triple_near [OF near_reading(5) [of "{}"] off_look]]) auto
qed

lemma WriteUpdateTransaction_triple:
  assumes place: "placed root dir X" "placed root dir (sibling X ''.tmp'')" "apart X (sibling X ''.tmp'')" and t: "ut_RollbackDir t = Some dir"
  shows "triple (snapped T old root dir X plan m) (on_error (WriteUpdateTransaction T X t) (\<lambda>e. hfail (Wrapped message e)))
    (\<lambda>_. marked T old root dir X t m) (after_failure T old root dir X)"
proof -
  let ?Ps = "{X, sibling X ''.tmp''}" and ?raw = "json_UpdateTransaction T t"
  let ?R = "\<lambda>h. snapshot T old root dir m h \<and> (\<forall>x \<in> targets root. look h x = old x) \<and>
     (look h X = None \<or> look h X = Some (Regular 384 ?raw))"
  have nr: "near ?Ps (WriteUpdateTransaction T X t)" by (intro near_states) auto
  have frame: "snapshot T old root dir m h' \<and> (\<forall>x \<in> targets root. look h' x = old x)"
    if "snapped T old root dir X plan m h" "frame ?Ps h h'" for h h'
  proof -
    have "snapshot T old root dir m h'"
      using that place by (intro frame_snapshot [OF that(2)]) (auto simp: snapped_def placed_def intro: apart_sym)
    moreover have "\<forall>q \<in> ?Ps. \<forall>x \<in> targets root. apart q x" using place by (auto simp: placed_def)
    ultimately show ?thesis using that frame_targets [OF that(2)] by (auto simp: snapped_def before_def)
  qed
  have others: "others_intact old root names h" if "\<forall>x \<in> targets root. look h x = old x" for names h
    using that spec_target(1) by (auto simp: others_intact_def)
  have all: "?R h'" "r = Done () \<Longrightarrow> marked T old root dir X t m h'"
    if S: "snapped T old root dir X plan m h" and run: "WriteUpdateTransaction T X t h = (r, h')" for h r h'
  proof -
    have "look h X = None" using S by (simp add: snapped_def before_def)
    note mk = tripleD [OF WriteUpdateTransaction_marker [OF place(3)] this] and fr = frame [OF S near_frame [OF nr run]]
    show "?R h'" using mk run fr by (cases r) auto
    show "r = Done () \<Longrightarrow> marked T old root dir X t m h'" using mk(1) run fr others t by (simp add: marked_def)
  qed
  have bad: "after_failure T old root dir X e h" if "?R h" "\<And>x. e \<noteq> Some (RolledBack x)" for e h
    using that others t before_clean [of old root X h] unfolding after_failure_def safe_def marked_def before_def by blast
  have "triple (snapped T old root dir X plan m) (WriteUpdateTransaction T X t) (\<lambda>_. marked T old root dir X t m) (\<lambda>_. ?R)"
    by (rule tripleI) (use all in auto)
  then show ?thesis by (rule triple_on_error [OF _ triple_hfail]) (use bad in blast)+
qed


text \<open>The new files: every component of the plan with the listed digest and mode, every other managed file as it was.\<close>

definition new_file :: "path \<Rightarrow> StagedComponent \<Rightarrow> host \<Rightarrow> bool" where
  "new_file root c h \<longleftrightarrow> (\<exists>d. look h (root @ sc_Target c) = Some (Regular (sc_Mode c) d) \<and>
     EqualFold (hex_encode (sha256 d)) (sc_SHA256 c))"

definition installed :: "(path \<Rightarrow> node option) \<Rightarrow> path \<Rightarrow> StagedComponent list \<Rightarrow> host \<Rightarrow> bool" where
  "installed old root cs h \<longleftrightarrow> (\<forall>c \<in> set cs. new_file root c h) \<and> others_intact old root (map sc_Component cs) h"

lemma triple_each_inv:
  assumes "\<And>ys x zs. xs = ys @ x # zs \<Longrightarrow> triple (I ys) (f x) (\<lambda>_. I (ys @ [x])) E"
  shows "triple (I []) (each f xs) (\<lambda>_. I xs) E"
proof -
  have "xs = ys @ zs \<Longrightarrow> triple (I ys) (each f zs) (\<lambda>_. I xs) E" for ys zs
  proof (induction zs arbitrary: ys)
    case (Cons z zs)
    from triple_then [OF assms [OF Cons.prems] Cons.IH [of "ys @ [z]"]] Cons.prems show ?case by simp
  qed (auto intro: triple_hret)
  from this [of "[]" xs] show ?thesis by simp
qed

lemma apply_component_Done:
  assumes "apply_component root prepared c h = (Done u, h')"
  shows "new_file root c h'"
proof -
  from assms obtain h1 n h2 where "replace_target ''.swbadge-install-new'' (prepared @ [sc_Component c]) (root @ sc_Target c) n (sc_SHA256 c) (sc_Mode c) h2 = (Done u, h')"
    by (auto simp: apply_component_def rootedTarget_def Let_def host_simps)
  then show ?thesis by (auto simp: new_file_def elim!: replace_target_Done)
qed

text \<open>A plan that was validated, for a manifest with the same components.\<close>

definition plan_ok :: "StagedComponent list \<Rightarrow> bool" where
  "plan_ok cs \<longleftrightarrow> distinct (map sc_Component cs) \<and> (\<forall>c \<in> set cs. \<exists>s. component_spec (sc_Component c) = Some s \<and> sc_Target c = spec_Target s)"

lemma apply_all_triple:
  assumes ok: "plan_ok cs" and m: "map rf_Component (rm_Files m) = map sc_Component cs" and place: "placed root dir X"
  shows "triple (marked T old root dir X t m) (each (apply_component root prepared) cs)
    (\<lambda>_ h. marked T old root dir X t m h \<and> installed old root cs h) (\<lambda>_. marked T old root dir X t m)"
proof -
  let ?M = "marked T old root dir X t m"
  have names: "rf_Component ` set (rm_Files m) = sc_Component ` set cs" using m by (metis set_map)
  have "triple (\<lambda>h. ?M h \<and> (\<forall>c \<in> set ([] :: StagedComponent list). new_file root c h)) (each (apply_component root prepared) cs)
      (\<lambda>_ h. ?M h \<and> (\<forall>c \<in> set cs. new_file root c h)) (\<lambda>_. ?M)"
  proof (rule triple_each_inv [where I = "\<lambda>ys h. ?M h \<and> (\<forall>c \<in> set ys. new_file root c h)"], rule tripleI)
    fix ys c zs h h' assume cs: "cs = ys @ c # zs" and I: "?M h \<and> (\<forall>c \<in> set ys. new_file root c h)"
    obtain s where s: "component_spec (sc_Component c) = Some s" "sc_Target c = spec_Target s" using ok cs by (auto simp: plan_ok_def)
    let ?t = "root @ spec_Target s"
    have "near {?t, sibling ?t ''.swbadge-install-new''} (apply_component root prepared c)"
      using near_apply_component [of ?t root c prepared] s(2) by (simp add: rootedTarget_def)
    note fr = near_frame [OF this]
    have "own_path root (rf_Component ` set (rm_Files m)) q" if "q \<in> {?t, sibling ?t ''.swbadge-install-new''}" for q
      using that s(1) cs unfolding own_path_def names by auto
    then have keep: "?M h'" if "frame {?t, sibling ?t ''.swbadge-install-new''} h h'"
      using frame_marked [OF that _ place] I by blast
    { fix u assume run: "apply_component root prepared c h = (Done u, h')"
      have "new_file root d h'" if "d \<in> set ys" for d
      proof -
        have "d \<in> set cs" using that cs by simp
        then obtain s' where s': "component_spec (sc_Component d) = Some s'" "sc_Target d = spec_Target s'"
          using ok unfolding plan_ok_def by blast
        have "sc_Component c \<notin> sc_Component ` set ys" using ok by (simp add: plan_ok_def cs)
        with that have "sc_Component d \<noteq> sc_Component c" by (metis imageI)
        from restored_step [OF fr [OF run] _ s(1) s'(1) this] have "look h' (root @ sc_Target d) = look h (root @ sc_Target d)" by (simp add: s'(2))
        with I that show ?thesis by (simp add: new_file_def)
      qed
      with apply_component_Done [OF run] keep [OF fr [OF run]]
      show "?M h' \<and> (\<forall>c \<in> set (ys @ [c]). new_file root c h')" by simp }
    show "?M h'" if "apply_component root prepared c h = (r, h')" for r using keep [OF fr [OF that]] .
  qed
  then show ?thesis
    by (rule triple_weaken) (auto simp: installed_def marked_def m)
qed


lemma off_installed: "\<forall>q \<in> Ps. \<forall>t \<in> targets root. apart q t \<Longrightarrow> plan_ok cs \<Longrightarrow> off Ps (installed old root cs)"
proof -
  assume Ps: "\<forall>q \<in> Ps. \<forall>t \<in> targets root. apart q t" and ok: "plan_ok cs"
  have "new_file root c h'" if "c \<in> set cs" "frame Ps h h'" "new_file root c h" for c h h'
  proof -
    obtain s where "component_spec (sc_Component c) = Some s" "sc_Target c = spec_Target s" using ok \<open>c \<in> set cs\<close> unfolding plan_ok_def by blast
    then have "look h' (root @ sc_Target c) = look h (root @ sc_Target c)" using frame_targets [OF that(2) Ps] spec_target(1) by simp
    with that(3) show ?thesis by (simp add: new_file_def)
  qed
  with off_intact(2) [OF Ps] show ?thesis unfolding off_def installed_def by blast
qed

text \<open>How an installation can end.\<close>

definition committed :: "(path \<Rightarrow> node option) \<Rightarrow> path \<Rightarrow> path \<Rightarrow> StagedComponent list \<Rightarrow> host \<Rightarrow> bool" where
  "committed old root X cs h \<longleftrightarrow> look h X = None \<and> plan_ok cs \<and> installed old root cs h"

definition ended :: "tools \<Rightarrow> (path \<Rightarrow> node option) \<Rightarrow> path \<Rightarrow> path \<Rightarrow> path \<Rightarrow> StagedComponent list \<Rightarrow> host_error option \<Rightarrow> host \<Rightarrow> bool" where
  "ended T old root dir X cs e h \<longleftrightarrow> after_failure T old root dir X e h \<or> e = None \<and> committed old root X cs h"

lemma off_committed:
  assumes "\<forall>q \<in> Ps. apart X q" "\<forall>q \<in> Ps. \<forall>t \<in> targets root. apart q t"
  shows "off Ps (committed old root X cs)"
  using off_look [OF assms(1), of None] off_installed [OF assms(2)] unfolding off_def committed_def by blast

lemma triple_htry:
  "triple P m Q E \<Longrightarrow> triple P (htry m) (\<lambda>r h. case r of Inl e \<Rightarrow> E (Some e) h | Inr a \<Rightarrow> Q a h) (\<lambda>e h. e = None \<and> E None h)"
  by (auto simp: triple_def htry_def split: prod.splits res.splits)

lemma triple_hignore:
  assumes "near Ps c" "off Ps P"
  shows "triple P (hignore c) (\<lambda>_. P) (\<lambda>e h. e = None \<and> P h)"
proof -
  have "triple P (htry c) (\<lambda>_. P) (\<lambda>e h. e = None \<and> P h)"
    by (rule triple_weaken [OF triple_htry [OF triple_near [OF assms]]]) (auto split: sum.splits)
  then show ?thesis unfolding hignore_def by (rule triple_then) (rule triple_hret)
qed

lemma triple_deferred:
  assumes m: "triple P m (\<lambda>_. C) E" and c: "near Ps c" "off Ps C" "\<And>e. off Ps (E e)"
    and dead: "\<And>h. C h \<Longrightarrow> E' None h" "\<And>e h. E e h \<Longrightarrow> E' e h" "\<And>e h. E e h \<Longrightarrow> E' None h"
  shows "triple P (deferred m c) (\<lambda>_. C) E'"
  unfolding deferred_def
proof (rule triple_bind)
  show "triple P (htry m) (\<lambda>r h. case r of Inl e \<Rightarrow> E (Some e) h | Inr a \<Rightarrow> C h) E'"
    by (rule triple_weaken [OF triple_htry [OF m]]) (use dead in auto)
  fix r show "triple (\<lambda>h. case r of Inl e \<Rightarrow> E (Some e) h | Inr a \<Rightarrow> C h)
      (hthen (hignore c) (case r of Inl e \<Rightarrow> hfail e | Inr a \<Rightarrow> hret a)) (\<lambda>_. C) E'"
  proof (cases r)
    case (Inl e)
    have "triple (E (Some e)) (hthen (hignore c) (hfail e)) (\<lambda>_. C) E'"
      by (rule triple_then [OF triple_weaken [OF triple_hignore [OF c(1) c(3)]] triple_hfail]) (use dead in auto)
    with Inl show ?thesis by simp
  next
    case (Inr a)
    have "triple C (hthen (hignore c) (hret a)) (\<lambda>_. C) E'"
      by (rule triple_then [OF triple_weaken [OF triple_hignore [OF c(1,2)]] triple_hret]) (use dead in auto)
    with Inr show ?thesis by simp
  qed
qed


lemma off_after_failure:
  assumes "\<forall>q \<in> Ps. apart X q" "\<forall>q \<in> Ps. apart dir q" "\<forall>q \<in> Ps. \<forall>t \<in> targets root. apart q t"
  shows "off Ps (after_failure T old root dir X e)"
  using off_marked [OF assms] unfolding off_def after_failure_def by metis

lemma install_body_triple:
  assumes ok: "plan_ok cs" and m: "map rf_Component (rm_Files m) = map sc_Component cs" and place: "placed root dir X"
    and S: "apart X S" "apart dir S" "\<forall>t \<in> targets root. apart S t" "prepared = S @ [''.install-prepared'']"
    and Ps: "\<forall>q \<in> Ps. apart X q" "\<forall>q \<in> Ps. apart dir q" "\<forall>q \<in> Ps. \<forall>t \<in> targets root. apart q t" and check: "near Ps check"
  shows "triple (marked T old root dir X t m)
    (hthen (each (prepare_component S prepared) cs) (hthen (each (apply_component root prepared) cs) (hthen check (Remove X))))
    (\<lambda>_. committed old root X cs) (\<lambda>_. marked T old root dir X t m)"
proof (intro triple_then)
  let ?M = "marked T old root dir X t m"
  have "near {S} (each (prepare_component S prepared) cs)" by (intro near_each near_prepare_component) (simp add: S(4) covers_def)
  moreover have off: "off {S} ?M" using S by (intro off_marked) auto
  ultimately show "triple ?M (each (prepare_component S prepared) cs) (\<lambda>_. ?M) (\<lambda>_. ?M)" by (rule triple_near)
  show "triple ?M (each (apply_component root prepared) cs) (\<lambda>_ h. ?M h \<and> installed old root cs h) (\<lambda>_. ?M)"
    by (rule apply_all_triple [OF ok m place])
  have "off Ps (\<lambda>h. ?M h \<and> installed old root cs h)" using Ps by (intro off_conj off_marked off_installed ok) auto
  with check have "triple (\<lambda>h. ?M h \<and> installed old root cs h) check (\<lambda>_ h. ?M h \<and> installed old root cs h) (\<lambda>_ h. ?M h \<and> installed old root cs h)"
    by (rule triple_near)
  then show "triple (\<lambda>h. ?M h \<and> installed old root cs h) check (\<lambda>_ h. ?M h \<and> installed old root cs h) (\<lambda>_. ?M)"
    by (rule triple_weaken) auto
  show "triple (\<lambda>h. ?M h \<and> installed old root cs h) (Remove X) (\<lambda>_. committed old root X cs) (\<lambda>_. ?M)"
  proof (rule tripleI)
    fix h h' u assume I: "?M h \<and> installed old root cs h" and run: "Remove X h = (Done u, h')"
    have "frame {X} h h'" using Remove_Done [OF run] by (auto simp: frame_def)
    with off_installed [of "{X}" root cs old] ok place I have "installed old root cs h'" by (auto simp: off_def placed_def)
    with Remove_Done [OF run] show "committed old root X cs h'" by (simp add: committed_def ok)
  next
    fix h h' r assume "?M h \<and> installed old root cs h" "Remove X h = (r, h')" "\<And>a. r \<noteq> Done a"
    with Remove_not_Done [OF this(2)] frame_marked [OF frame_refl [of h' h "{}"] _ place] show "?M h'" by auto
  qed
qed

lemma install_rest_triple:
  assumes ok: "plan_ok cs" and m: "map rf_Component (rm_Files m) = map sc_Component cs" and place: "placed root dir X"
    and S: "apart X S" "apart dir S" "\<forall>t \<in> targets root. apart S t"
    and Ps: "\<forall>q \<in> Ps. apart X q" "\<forall>q \<in> Ps. apart dir q" "\<forall>q \<in> Ps. \<forall>t \<in> targets root. apart q t"
    and callbacks: "near Ps check" "near Ps recover" and json: "faithful_json T"
  defines "prepared \<equiv> S @ [''.install-prepared'']" and "failed \<equiv> rollbackInstallFailure T root dir (Some X) (Some recover)"
  shows "triple (marked T old root dir X t m)
    (hthen (on_error (RemoveAll prepared) failed) (hthen (on_error (Mkdir prepared 448) failed) (deferred
       (on_error (hthen (each (prepare_component S prepared) cs) (hthen (each (apply_component root prepared) cs) (hthen check (Remove X)))) failed)
       (RemoveAll prepared))))
    (\<lambda>_. committed old root X cs) (ended T old root dir X cs)"
proof -
  let ?M = "marked T old root dir X t m" and ?A = "after_failure T old root dir X" and ?E = "ended T old root dir X cs"
  have cov: "covers {S} prepared" by (simp add: prepared_def covers_def)
  have offM: "off {S} ?M" and offA: "off {S} (?A e)" for e using S by (auto intro!: off_marked off_after_failure)
  have "off Ps (\<lambda>h. ?M h \<and> intact old root h)" using Ps by (intro off_conj off_marked off_intact) auto
  note fl = rollbackInstallFailure_triple [OF place json callbacks(2) this]
  have fail: "triple ?M (failed e) Q E" if "\<And>e h. ?A e h \<Longrightarrow> E e h" for e Q E
    unfolding failed_def by (rule triple_weaken [OF fl]) (use that in auto)
  have bad: "?A None h" if "?M h" for h by (rule after_failure_marked [OF that]) simp
  have AE: "?A e h \<Longrightarrow> ?E e h" for e h by (simp add: ended_def)
  have step: "triple ?M (on_error c failed) (\<lambda>_. ?M) ?E" if "near {S} c" for c :: "unit hm"
    by (rule triple_on_error [OF triple_near [OF that offM] fail]) (use bad AE in auto)
  have body: "triple ?M (on_error (hthen (each (prepare_component S prepared) cs) (hthen (each (apply_component root prepared) cs) (hthen check (Remove X)))) failed)
      (\<lambda>_. committed old root X cs) ?A"
    by (rule triple_on_error [OF install_body_triple [OF ok m place S prepared_def [THEN meta_eq_to_obj_eq] Ps callbacks(1)] fail])
      (use bad in auto)
  have "off {S} (committed old root X cs)"
    using S by (intro off_committed) auto
  then have "triple ?M (deferred (on_error (hthen (each (prepare_component S prepared) cs) (hthen (each (apply_component root prepared) cs) (hthen check (Remove X)))) failed)
       (RemoveAll prepared)) (\<lambda>_. committed old root X cs) ?E"
    by (intro triple_deferred [OF body near_entry(7) [OF cov] _ offA]) (auto simp: ended_def after_failure_def)
  then show ?thesis by (intro triple_then [OF step triple_then [OF step]] near_entry(5,7) cov)
qed


text \<open>The plan that was staged, read from the files at the start.\<close>

definition staged_plan :: "tools \<Rightarrow> (path \<Rightarrow> node option) \<Rightarrow> path \<Rightarrow> StagePlan \<Rightarrow> bool" where
  "staged_plan T old S plan \<longleftrightarrow> (\<exists>raw. ((\<exists>k. old (S @ [''stage-plan.json'']) = Some (Regular k raw)) \<or>
     old (S @ [''stage-plan.json'']) = Some (Special (Some raw))) \<and> unjson_StagePlan T raw = Some plan)"

definition starting :: "(path \<Rightarrow> node option) \<Rightarrow> path \<Rightarrow> path \<Rightarrow> path \<Rightarrow> host \<Rightarrow> bool" where
  "starting old root S X h \<longleftrightarrow> before old root X h \<and> look h (S @ [''stage-plan.json'']) = old (S @ [''stage-plan.json''])"

definition stopped :: "tools \<Rightarrow> (path \<Rightarrow> node option) \<Rightarrow> path \<Rightarrow> path \<Rightarrow> path \<Rightarrow> path \<Rightarrow> host_error option \<Rightarrow> host \<Rightarrow> bool" where
  "stopped T old root S dir X e h \<longleftrightarrow> after_failure T old root dir X e h \<or>
     e = None \<and> (\<exists>plan. staged_plan T old S plan \<and> committed old root X (sp_Components plan) h)"

lemma stopped_clean: "clean old root X h \<Longrightarrow> stopped T old root S dir X e h"
  by (simp add: stopped_def after_failure_clean)

lemma stopped_ended: "ended T old root dir X (sp_Components plan) e h \<Longrightarrow> staged_plan T old S plan \<Longrightarrow> stopped T old root S dir X e h"
  by (auto simp: stopped_def ended_def)

lemma loadStagePlan_triple:
  "triple (starting old root S X) (loadStagePlan T S) (\<lambda>plan h. before old root X h \<and> staged_plan T old S plan) (stopped T old root S dir X)"
proof (rule tripleI)
  have off: "off {} (before old root X)" by (intro off_before) simp
  have nr: "near {} (loadStagePlan T S)" by (rule near_checks)
  fix h assume St: "starting old root S X h"
  fix h' plan assume run: "loadStagePlan T S h = (Done plan, h')"
  then obtain raw h1 where "ReadFile (S @ [''stage-plan.json'']) h = (Done raw, h1)" "unjson_StagePlan T raw = Some plan"
    by (auto simp: loadStagePlan_def host_simps split: if_splits option.splits)
  with ReadFile_Done [OF this(1)] St have "staged_plan T old S plan" by (auto simp: staged_plan_def starting_def)
  with offD [OF off nr run] St show "before old root X h' \<and> staged_plan T old S plan" by (simp add: starting_def)
next
  fix h h' r assume "starting old root S X h" "loadStagePlan T S h = (r, h')"
  with offD [OF off_before [of "{}"] near_checks(4) this(2)] have "before old root X h'" by (simp add: starting_def)
  then show "stopped T old root S dir X (case r of Failed e \<Rightarrow> Some e | _ \<Rightarrow> None) h'" by (rule stopped_clean [OF before_clean])
qed

lemma validate_triple:
  assumes "apart X S" "\<forall>t \<in> targets root. apart S t"
  shows "triple (before old root X) (validateStagedPayload S plan) (\<lambda>_ h. before old root X h \<and> plan_ok (sp_Components plan))
    (stopped T old root S dir X)"
proof (rule tripleI)
  have off: "off {S} (before old root X)" using assms by (intro off_before) simp
  have nr: "near {S} (validateStagedPayload S plan)" unfolding validateStagedPayload_def by (intro near_validate_staged) (simp add: covers_def)
  fix h assume B: "before old root X h"
  show "before old root X h' \<and> plan_ok (sp_Components plan)" if run: "validateStagedPayload S plan h = (Done u, h')" for u h'
    using offD [OF off nr run B] validate_staged_Done [OF run [unfolded validateStagedPayload_def]] by (auto simp: plan_ok_def)
  show "stopped T old root S dir X (case r of Failed e \<Rightarrow> Some e | _ \<Rightarrow> None) h'" if "validateStagedPayload S plan h = (r, h')" for r h'
    by (rule stopped_clean [OF before_clean [OF offD [OF off nr that B]]])
qed

text \<open>Where the installer and the recovery keep their files, and what they keep of them.\<close>

definition update_paths :: "path \<Rightarrow> path \<Rightarrow> path \<Rightarrow> path \<Rightarrow> path list" where
  "update_paths S dir X St = [dir, sibling dir ''.tmp'', S, X, sibling X ''.tmp'', sibling X ''.lock'', St, sibling St ''.tmp'']"

lemma update_placed:
  assumes "well_placed root (update_paths S dir X St)"
  shows "placed root dir X" "placed root (sibling dir ''.tmp'') X" "placed root dir (sibling X ''.tmp'')"
    "\<forall>q \<in> {St, sibling St ''.tmp'', S, sibling X ''.tmp'', sibling X ''.lock''}. apart X q \<and> apart dir q \<and> (\<forall>t \<in> targets root. apart q t)"
    "apart S (sibling X ''.lock'')"
proof -
  have A: "all_apart (update_paths S dir X St)" using assms by (simp add: well_placed_def)
  have ap: "apart X dir" "apart X (sibling dir ''.tmp'')" "apart (sibling X ''.tmp'') dir" "apart S (sibling X ''.lock'')"
    "\<forall>q \<in> {St, sibling St ''.tmp'', S, sibling X ''.tmp'', sibling X ''.lock''}. apart X q \<and> apart dir q"
    using A by (simp_all add: update_paths_def apart_sym)
  have T: "\<forall>p \<in> set (update_paths S dir X St). \<forall>t \<in> targets root. apart p t" using well_placedD(2) [OF assms] by blast
  show "placed root dir X" "placed root (sibling dir ''.tmp'') X" "placed root dir (sibling X ''.tmp'')"
    "\<forall>q \<in> {St, sibling St ''.tmp'', S, sibling X ''.tmp'', sibling X ''.lock''}. apart X q \<and> apart dir q \<and> (\<forall>t \<in> targets root. apart q t)"
    "apart S (sibling X ''.lock'')"
    using ap T by (simp_all add: placed_def update_paths_def)
qed

lemma installStaged_triple:
  assumes wp: "well_placed root (update_paths S dir X St)"
    and json: "faithful_json T" and callbacks: "near {St, sibling St ''.tmp''} check" "near {St, sibling St ''.tmp''} recover"
  shows "triple (starting old root S X) (installStaged T root S dir (Some X) now allow (Some check) (Some recover))
    (\<lambda>_ h. \<exists>plan. staged_plan T old S plan \<and> committed old root X (sp_Components plan) h) (stopped T old root S dir X)"
proof -
  let ?dt = "sibling dir ''.tmp''" and ?Xt = "sibling X ''.tmp''" and ?Ps = "{St, sibling St ''.tmp''}"
  note place = update_placed(1-3) [OF wp]
  have pp: "apart X dir" "apart X ?dt" "apart ?Xt dir" "apart X ?Xt" "apart X S" "apart dir S" "\<forall>q \<in> ?Ps. apart X q" "\<forall>q \<in> ?Ps. apart dir q"
    using update_placed(4) [OF wp] place by (auto simp: placed_def)
  have apS: "\<forall>t \<in> targets root. apart S t" and apSt: "\<forall>q \<in> ?Ps. \<forall>t \<in> targets root. apart q t"
    using update_placed(4) [OF wp] by auto
  show ?thesis unfolding installStaged_def Let_def option.case
  proof (rule triple_bind [OF loadStagePlan_triple], rule triple_pre, erule conjunct2)
    fix plan assume plan: "staged_plan T old S plan"
    let ?cs = "sp_Components plan" and ?E = "stopped T old root S dir X"
    let ?t = "\<lparr>ut_SchemaVersion = 1, ut_ReleaseVersion = sp_ReleaseVersion plan, ut_RollbackDir = Some dir, ut_StartedAt = now\<rparr>"
    let ?Q = "\<lambda>_ h. \<exists>plan. staged_plan T old S plan \<and> committed old root X (sp_Components plan) h"
    let ?B = "before old root X"
    let ?failed = "rollbackInstallFailure T root dir (Some X) (Some recover)" and ?prep = "S @ [''.install-prepared'']"
    let ?rest = "hthen (on_error (RemoveAll ?prep) ?failed) (hthen (on_error (Mkdir ?prep 448) ?failed)
      (deferred (on_error (hthen (each (prepare_component S ?prep) ?cs)
         (hthen (each (apply_component root ?prep) ?cs) (hthen check (Remove X)))) ?failed) (RemoveAll ?prep)))"
    let ?mark = "on_error (WriteUpdateTransaction T X ?t) (\<lambda>e. hfail (Wrapped ''record update transaction'' e))"
    let ?create = "on_error (CreateRollback T (Some root) plan (Some dir) now) (\<lambda>e. hfail (Wrapped ''prepare rollback'' e))"
    have clean: "?E e h" if "clean old root X h" for e h using that by (rule stopped_clean)
    have rest: "triple (marked T old root dir X ?t m) ?rest ?Q ?E"
      if "plan_ok ?cs" "map rf_Component (rm_Files m) = map sc_Component ?cs" for m
      by (rule triple_weaken [OF install_rest_triple [OF that place(1) pp(5,6) apS pp(7,8) apSt callbacks json]])
        (use plan stopped_ended [OF _ plan] in blast)+
    have marking: "triple (snapped T old root dir X plan m) (hthen ?mark ?rest) ?Q ?E" if "plan_ok ?cs" for m
    proof (rule triple_pre)
      fix h assume "snapped T old root dir X plan m h"
      then show "map rf_Component (rm_Files m) = map sc_Component ?cs" by (simp add: snapped_def)
    next
      assume "map rf_Component (rm_Files m) = map sc_Component ?cs"
      from triple_then [OF triple_weaken [OF WriteUpdateTransaction_triple [OF place(1,3) pp(4)]] rest [OF that this]]
      show "triple (snapped T old root dir X plan m) (hthen ?mark ?rest) ?Q ?E" by (auto simp: stopped_def)
    qed
    have create: "triple ?B (hthen ?create (hthen ?mark ?rest)) ?Q ?E" if "plan_ok ?cs"
      by (rule triple_then [OF triple_weaken [OF CreateRollback_triple [OF place(1,2)]] triple_ex [OF marking [OF that]]]) (auto intro: clean)
    have create': "triple (\<lambda>h. ?B h \<and> plan_ok ?cs) (hthen ?create (hthen ?mark ?rest)) ?Q ?E"
      by (rule triple_pre [where c = "plan_ok ?cs"], blast, rule triple_weaken [OF create]) auto
    have check: "triple (\<lambda>h. ?B h \<and> staged_plan T old S plan) (hensure (\<not> (RequiresLightDMMaintenance plan \<and> \<not> allow))
        (Message ''update requires an explicit LightDM maintenance window'')) (\<lambda>_. ?B) ?E"
      by (rule triple_weaken [OF triple_ensure [where P = ?B and E = ?E]]) (use clean before_clean in blast)+
    show "triple (\<lambda>h. ?B h \<and> staged_plan T old S plan)
      (hthen (hensure (\<not> (RequiresLightDMMaintenance plan \<and> \<not> allow)) (Message ''update requires an explicit LightDM maintenance window''))
        (hthen (validateStagedPayload S plan) (hthen ?create (hthen ?mark ?rest)))) ?Q ?E"
      by (rule triple_then [OF check triple_then [OF validate_triple [OF pp(5) apS] create']])
  qed
qed

end
