(* ===== verification/Update_Atomic.thy ===== *)
theory Update_Atomic
  imports Update_Safety
begin

text \<open>
  Recovery after an interrupted update, and the result of an installation followed by any number
  of attempts at recovery: the managed files are all old or all new.
\<close>

section \<open>Recovering\<close>

lemma ReadUpdateTransaction_Done:
  assumes "ReadUpdateTransaction T p h = (Done r, h')"
  shows "case r of None \<Rightarrow> look h p = None \<or> look h p = Some (Special None)
    | Some t \<Rightarrow> \<exists>raw. ((\<exists>k. look h p = Some (Regular k raw)) \<or> look h p = Some (Special (Some raw))) \<and>
        unjson_UpdateTransaction T raw = Some t \<and> valid_transaction t"
proof (cases "fst (ReadFile p h)")
  case (Done raw)
  then obtain h1 where read: "ReadFile p h = (Done raw, h1)" by (metis prod.collapse)
  with assms ReadFile_Done [OF read] show ?thesis
    by (auto simp: ReadUpdateTransaction_def hbind_def htry_def hret_def hfail_def split: if_splits option.splits)
next
  case (Failed e)
  then obtain h1 where read: "ReadFile p h = (Failed e, h1)" by (metis prod.collapse)
  with assms ReadFile_missing [of p h h1] show ?thesis
    by (auto simp: ReadUpdateTransaction_def hbind_def htry_def hret_def hfail_def split: if_splits)
qed (use assms in \<open>auto simp: ReadUpdateTransaction_def hbind_def htry_def split: prod.splits res.splits\<close>)

lemma near_of_sum [near_intros]: "near Ps (of_sum x)"
  by (auto simp: of_sum_def intro!: near_intros split: sum.split)

lemma read_marker:
  assumes json: "faithful_json T" and off: "off {} P" and P: "\<And>h. P h \<Longrightarrow> look h X = Some (Regular 384 (json_UpdateTransaction T t))"
  shows "triple P (ReadUpdateTransaction T X) (\<lambda>r h. P h \<and> r = Some t) (\<lambda>_. P)"
proof (rule tripleI)
  fix h h' r assume "P h" and run: "ReadUpdateTransaction T X h = (Done r, h')"
  from ReadUpdateTransaction_Done [OF run] P [OF this(1)] json have "r = Some t"
    by (auto simp: faithful_json_def split: option.splits)
  with offD [OF off near_checks(6) run \<open>P h\<close>] show "P h' \<and> r = Some t" by blast
next
  show "P h'" if "P h" "ReadUpdateTransaction T X h = (r, h')" for h h' r using offD [OF off near_checks(6) that(2,1)] .
qed

lemma recover_marked_triple:
  assumes place: "placed root dir X" and json: "faithful_json T"
    and St: "\<forall>q \<in> {St, sibling St ''.tmp''}. apart X q" "\<forall>q \<in> {St, sibling St ''.tmp''}. apart dir q"
      "\<forall>q \<in> {St, sibling St ''.tmp''}. \<forall>t \<in> targets root. apart q t"
  shows "triple (marked T old root dir X t m) (recoverPendingUpdate T root X St) (\<lambda>_. clean old root X) (\<lambda>_. marked T old root dir X t m)"
proof -
  let ?M = "marked T old root dir X t m" and ?Ps = "{St, sibling St ''.tmp''}"
  let ?I = "\<lambda>h. ?M h \<and> intact old root h"
  have offM: "off {} ?M" and offI: "off ?Ps ?I" "off {} ?I" using St by (auto intro!: off_conj off_marked off_intact)
  have read: "triple ?M (ReadUpdateTransaction T X) (\<lambda>r h. ?M h \<and> r = Some t) (\<lambda>_. ?M)"
    by (rule read_marker [OF json offM]) (simp add: marked_def)
  have restored: "triple ?I c (\<lambda>_. ?I) (\<lambda>_. ?M)" if "near ?Ps c" for c :: "unit hm"
    by (rule triple_weaken [OF triple_near [OF that offI(1)]]) auto
  have removed: "triple ?I (hthen (on_error (Remove X) (\<lambda>e. if e = NotExist then hret () else hfail e)) (hret True))
      (\<lambda>_. clean old root X) (\<lambda>_. ?M)"
    by (rule triple_then [OF triple_weaken [OF drop_marker [OF place, where f = "\<lambda>e. e"]] triple_hret]) auto
  have restore: "triple ?M (RestoreRollback T root dir) (\<lambda>_. ?I) (\<lambda>_. ?M)" by (rule RestoreRollback_triple [OF place json])
  have stay: "triple ?M (hensure b e) (\<lambda>_. ?M) (\<lambda>_. ?M)" "triple ?M (of_sum x) (\<lambda>_. ?M) (\<lambda>_. ?M)"
    "triple ?M (loadRollbackManifest T dir) (\<lambda>_. ?M) (\<lambda>_. ?M)" for b e and x :: "host_error + StagedComponent list"
    by (rule triple_near [OF _ offM], rule near_intros)+
  have main: "triple ?M (hthen (hensure b1 e1) (hbind (loadRollbackManifest T dir) (\<lambda>manifest. hthen (hensure (b2 manifest) e2)
      (hbind (of_sum (recovery_plan [] (rm_Files manifest))) (\<lambda>cs. hthen (RestoreRollback T root dir)
        (hthen (WriteUpdateState T St (s cs)) (hthen (PostInterruptedRecovery (p cs))
        (hthen (on_error (Remove X) (\<lambda>e. if e = NotExist then hret () else hfail e)) (hret True)))))))))
      (\<lambda>_. clean old root X) (\<lambda>_. ?M)" for b1 e1 b2 e2 s p
    by (rule triple_then triple_bind stay restore removed restored near_states near_services | simp)+
  have known: "?M h \<and> r = Some t \<Longrightarrow> r = Some t \<and> ut_RollbackDir t = Some dir" for h r by (simp add: marked_def)
  show ?thesis unfolding recoverPendingUpdate_def Let_def
    by (rule triple_bind [OF read], rule triple_pre [OF known], assumption, elim conjE) (auto intro: triple_weaken [OF main])
qed

lemma recover_idle_triple:
  assumes "off {} P" "\<And>h. P h \<Longrightarrow> look h X = None"
  shows "triple P (recoverPendingUpdate T root X St) (\<lambda>b h. P h \<and> \<not> b) (\<lambda>_. P)"
proof -
  have "triple P (ReadUpdateTransaction T X) (\<lambda>r h. P h \<and> r = None) (\<lambda>_. P)"
  proof (rule tripleI)
    fix h h' r assume P: "P h" and run: "ReadUpdateTransaction T X h = (Done r, h')"
    from ReadUpdateTransaction_Done [OF run] assms(2) [OF P] have "r = None" by (auto split: option.splits)
    with offD [OF assms(1) near_checks(6) run] P show "P h' \<and> r = None" by blast
  next
    show "P h'" if "P h" "ReadUpdateTransaction T X h = (r, h')" for h h' r using offD [OF assms(1) near_checks(6) that(2,1)] .
  qed
  then show ?thesis unfolding recoverPendingUpdate_def
  proof (rule triple_bind)
    fix r show "triple (\<lambda>h. P h \<and> r = None) (case r of None \<Rightarrow> hret False | Some t \<Rightarrow> n t) (\<lambda>b h. P h \<and> \<not> b) (\<lambda>_. P)" for n
      by (cases r) (auto simp: triple_def hret_def)
  qed
qed

lemma off_empty: "off {} P \<Longrightarrow> off {} Q \<Longrightarrow> off {} (\<lambda>h. P h \<or> Q h)"
  by (auto simp: off_def)

lemma locked_triple:
  assumes "off {sibling X ''.lock''} P" "\<And>b. triple P (c b) Q E" "\<And>e h. P h \<Longrightarrow> E e h"
  shows "triple P (hthen (MkdirAll (butlast X) 493) (hbind (TryLock (sibling X ''.lock'')) c)) Q E"
proof -
  have cov: "covers {sibling X ''.lock''} (sibling X ''.lock'')" by (simp add: covers_def)
  have "near {sibling X ''.lock''} (MkdirAll (butlast X) 493)" using near_MkdirAll [OF leads_intros(2) [OF cov]] by simp
  then have 1: "triple P (MkdirAll (butlast X) 493) (\<lambda>_. P) E" by (rule triple_weaken [OF triple_near [OF _ assms(1)]]) (use assms(3) in auto)
  have 2: "triple P (TryLock (sibling X ''.lock'')) (\<lambda>_. P) E"
    by (rule triple_weaken [OF triple_near [OF near_entry(6) [OF cov] assms(1)]]) (use assms(3) in auto)
  show ?thesis by (rule triple_then [OF 1 triple_bind [OF 2 assms(2)]])
qed

section \<open>All or nothing\<close>

lemma InstallStagedWithTransaction_triple:
  assumes wp: "well_placed root (update_paths S dir X St)" and json: "faithful_json T"
    and callbacks: "near {St, sibling St ''.tmp''} check" "near {St, sibling St ''.tmp''} recover"
  shows "triple (starting old root S X) (InstallStagedWithTransaction T root S dir (Some X) now allow (Some check) (Some recover))
    (\<lambda>_ h. \<exists>plan. staged_plan T old S plan \<and> committed old root X (sp_Components plan) h) (stopped T old root S dir X)"
proof -
  have off: "off {sibling X ''.lock''} (starting old root S X)"
    unfolding starting_def using update_placed(4,5) [OF wp] by (intro off_conj off_before off_look) (auto intro: apart_below)
  have bad: "stopped T old root S dir X e h" if "starting old root S X h" for e h
    using that before_clean by (auto simp: starting_def intro: stopped_clean)
  let ?c = "installStagedWithTransaction T root S dir (Some X) now allow (Some check) (Some recover)"
  let ?Q = "\<lambda>_ h. \<exists>plan. staged_plan T old S plan \<and> committed old root X (sp_Components plan) h"
  have run: "triple (starting old root S X) (hthen (hensure b e) ?c) ?Q (stopped T old root S dir X)" for b e
  proof (rule triple_then)
    show "triple (starting old root S X) (hensure b e) (\<lambda>_. starting old root S X) (stopped T old root S dir X)"
      using bad by (auto simp: triple_def hensure_def hret_def hfail_def)
    show "triple (starting old root S X) ?c ?Q (stopped T old root S dir X)"
      using installStaged_triple [OF assms] by (simp add: installStagedWithTransaction_def)
  qed
  have "InstallStagedWithTransaction T root S dir (Some X) now allow (Some check) (Some recover) =
    hthen (MkdirAll (butlast X) 493) (hbind (TryLock (sibling X ''.lock'')) (\<lambda>b. hthen (hensure b (Message ''another update is active'')) ?c))"
    by (rule ext) (simp add: InstallStagedWithTransaction_def hthen_def hbind_def split: prod.split res.split)
  with locked_triple [OF off run bad] show ?thesis by simp
qed

lemma RecoverPendingUpdate_triple:
  assumes wp: "well_placed root (update_paths S dir X St)" and json: "faithful_json T"
  shows "triple (safe T old root dir X) (RecoverPendingUpdate T root X St)
      (\<lambda>b h. safe T old root dir X h \<and> (b \<longrightarrow> clean old root X h)) (\<lambda>_. safe T old root dir X)"
    and "triple (committed old root X cs) (RecoverPendingUpdate T root X St)
      (\<lambda>b h. committed old root X cs h \<and> \<not> b) (\<lambda>_. committed old root X cs)"
proof -
  let ?St = "{St, sibling St ''.tmp''}" and ?lock = "{sibling X ''.lock''}"
  have ap: "\<forall>q \<in> ?St. apart X q" "\<forall>q \<in> ?St. apart dir q" "\<forall>q \<in> ?St. \<forall>t \<in> targets root. apart q t"
    "\<forall>q \<in> ?lock. apart X q" "\<forall>q \<in> ?lock. apart dir q" "\<forall>q \<in> ?lock. \<forall>t \<in> targets root. apart q t"
    using update_placed(4) [OF wp] by auto
  let ?r = "recoverPendingUpdate T root X St" and ?safe = "safe T old root dir X" and ?new = "committed old root X cs"
  have c: "triple (clean old root X) ?r (\<lambda>b h. ?safe h \<and> (b \<longrightarrow> clean old root X h)) (\<lambda>_. ?safe)"
    by (rule triple_weaken [OF recover_idle_triple [OF off_marked(2)]]) (auto simp: clean_def safe_def)
  have m: "triple (marked T old root dir X t m) ?r (\<lambda>b h. ?safe h \<and> (b \<longrightarrow> clean old root X h)) (\<lambda>_. ?safe)" for t m
    by (rule triple_weaken [OF recover_marked_triple [OF update_placed(1) [OF wp] json ap(1-3)]]) (auto simp: safe_def)
  have "triple ?safe ?r (\<lambda>b h. ?safe h \<and> (b \<longrightarrow> clean old root X h)) (\<lambda>_. ?safe)"
    by (rule triple_weaken [OF triple_or [OF c triple_ex [OF triple_ex [OF m]]]]) (auto simp: safe_def)
  then have "triple ?safe (if \<not> b then hret False else ?r) (\<lambda>b h. ?safe h \<and> (b \<longrightarrow> clean old root X h)) (\<lambda>_. ?safe)" for b
    by (auto intro: triple_hret)
  then show "triple ?safe (RecoverPendingUpdate T root X St) (\<lambda>b h. ?safe h \<and> (b \<longrightarrow> clean old root X h)) (\<lambda>_. ?safe)"
    unfolding RecoverPendingUpdate_def by (rule locked_triple [OF off_marked(3) [OF ap(4-6)]])
  have "triple ?new ?r (\<lambda>b h. ?new h \<and> \<not> b) (\<lambda>_. ?new)"
    by (rule recover_idle_triple [OF off_committed]) (auto simp: committed_def)
  then have "triple ?new (if \<not> b then hret False else ?r) (\<lambda>b h. ?new h \<and> \<not> b) (\<lambda>_. ?new)" for b
    by (auto intro: triple_hret)
  then show "triple ?new (RecoverPendingUpdate T root X St) (\<lambda>b h. ?new h \<and> \<not> b) (\<lambda>_. ?new)"
    unfolding RecoverPendingUpdate_def by (rule locked_triple [OF off_committed [OF ap(4,6)]])
qed

text \<open>What an attempt at recovery keeps, whatever becomes of it.\<close>

lemma triple_keep:
  assumes "triple P m (\<lambda>a h. P h \<and> Q a h) (\<lambda>_. P)" "P h"
  shows "P (snd (m h))"
  using tripleD [OF assms] by (cases "m h"; cases "fst (m h)") auto

text \<open>
  The state after an installation that ended with \<open>r\<close>: the new files after a success, a recoverable
  state after an error, either of them when the process died.
\<close>

definition settled :: "tools \<Rightarrow> (path \<Rightarrow> node option) \<Rightarrow> path \<Rightarrow> path \<Rightarrow> path \<Rightarrow> path \<Rightarrow> unit res \<Rightarrow> host \<Rightarrow> bool" where
  "settled T old root S dir X r h \<longleftrightarrow>
     (let new = (\<exists>plan. staged_plan T old S plan \<and> committed old root X (sp_Components plan) h) in
      case r of Done _ \<Rightarrow> new | Failed _ \<Rightarrow> safe T old root dir X h | Died \<Rightarrow> new \<or> safe T old root dir X h)"

lemma settled_recover:
  assumes wp: "well_placed root (update_paths S dir X St)" and json: "faithful_json T" and h: "settled T old root S dir X r h"
  shows "settled T old root S dir X r (snd (RecoverPendingUpdate T root X St h))"
    and "RecoverPendingUpdate T root X St h = (Done True, h') \<Longrightarrow> clean old root X h'"
proof -
  note rec = RecoverPendingUpdate_triple [OF wp json]
  have keep: "safe T old root dir X (snd (RecoverPendingUpdate T root X St h))" if "safe T old root dir X h"
    by (rule triple_keep [OF rec(1) that])
  have new: "committed old root X cs (snd (RecoverPendingUpdate T root X St h))" if "committed old root X cs h" for cs
    by (rule triple_keep [OF rec(2) that])
  from h keep new show "settled T old root S dir X r (snd (RecoverPendingUpdate T root X St h))"
    by (auto simp: settled_def Let_def split: res.splits)
  show "clean old root X h'" if "RecoverPendingUpdate T root X St h = (Done True, h')"
    using h tripleD(1) [OF rec(1) _ that] tripleD(1) [OF rec(2) _ that] by (auto simp: settled_def Let_def split: res.splits)
qed

lemma settled_recoveries:
  assumes "well_placed root (update_paths S dir X St)" "faithful_json T" "settled T old root S dir X r h"
  shows "settled T old root S dir X r (((\<lambda>h. snd (RecoverPendingUpdate T root X St h)) ^^ n) h)"
  using assms(3) by (induction n) (simp_all add: settled_recover(1) [OF assms(1,2)])

lemma settled_install:
  assumes wp: "well_placed root (update_paths S dir X St)" and json: "faithful_json T"
    and cb: "UpdateHealthCallbacks T plan St at = (check, recover)" and X: "look h X = None"
    and run: "InstallStagedWithTransaction T root S dir (Some X) now allow (Some check) (Some recover) h = (r, h1)"
  shows "settled T (look h) root S dir X r h1" "r = Failed (RolledBack e) \<Longrightarrow> clean (look h) root X h1"
proof -
  have "near {St, sibling St ''.tmp''} check" "near {St, sibling St ''.tmp''} recover"
    using cb by (auto simp: UpdateHealthCallbacks_def Let_def intro!: near_intros)
  note inst = tripleD [OF InstallStagedWithTransaction_triple [OF wp json this]]
  have "starting (look h) root S X h" using X by (simp add: starting_def before_def)
  note inst = inst [OF this]
  show "settled T (look h) root S dir X r h1" using inst [of now allow] run
    by (cases r) (auto simp: settled_def Let_def stopped_def after_failure_def)
  show "clean (look h) root X h1" if "r = Failed (RolledBack e)"
    using inst(2) [of now allow] run that by (auto simp: stopped_def after_failure_def)
qed

lemma settled_files:
  assumes "settled T old root S dir X r h" "look h X = None"
  shows "case r of Done _ \<Rightarrow> \<exists>plan. staged_plan T old S plan \<and> installed old root (sp_Components plan) h
    | Failed _ \<Rightarrow> intact old root h
    | Died \<Rightarrow> intact old root h \<or> (\<exists>plan. staged_plan T old S plan \<and> installed old root (sp_Components plan) h)"
proof -
  have "intact old root h" if "safe T old root dir X h" using that assms(2) by (auto simp: safe_def marked_def clean_def)
  with assms(1) show ?thesis unfolding settled_def Let_def committed_def by (cases r) auto
qed

text \<open>
  C5: Updates are all or nothing, whatever operating system call fails and wherever the process
  dies.  An installation with the health checks of the updater runs from a state without a
  pending transaction and ends with a result \<open>r\<close>; after it, recovery is attempted any number of
  times, and each attempt may fail or die as well.  Whenever no transaction is pending, every
  managed file has its old contents and permissions, or every component of the staged plan is
  installed with its digest and mode and every other managed file is the old one: the latter
  if the installation returned, the former if it reported an error.  An installation that returns
  or that reports a completed rollback leaves no pending transaction, and a recovery that reports
  that it recovered leaves none and every managed file as it was.
\<close>

theorem update_all_or_nothing:
  assumes "well_placed root (update_paths S dir X St)" and "faithful_json T"
    and "UpdateHealthCallbacks T plan St at = (check, recover)" and "look h X = None"
    and "InstallStagedWithTransaction T root S dir (Some X) now allow (Some check) (Some recover) h = (r, h1)"
    and "h2 = ((\<lambda>h. snd (RecoverPendingUpdate T root X St h)) ^^ n) h1"
  shows "(look h2 X = None \<longrightarrow> (case r of
        Done _ \<Rightarrow> \<exists>plan. staged_plan T (look h) S plan \<and> installed (look h) root (sp_Components plan) h2
      | Failed _ \<Rightarrow> intact (look h) root h2
      | Died \<Rightarrow> intact (look h) root h2 \<or> (\<exists>plan. staged_plan T (look h) S plan \<and> installed (look h) root (sp_Components plan) h2))) \<and>
    (r = Done () \<or> r = Failed (RolledBack e) \<longrightarrow> look h1 X = None) \<and>
    (RecoverPendingUpdate T root X St h2 = (Done True, h3) \<longrightarrow> look h3 X = None \<and> intact (look h) root h3)"
proof (intro conjI)
  note inst = settled_install [OF assms(1-5)]
  have s: "settled T (look h) root S dir X r h2" unfolding assms(6) by (rule settled_recoveries [OF assms(1,2) inst(1)])
  show "RecoverPendingUpdate T root X St h2 = (Done True, h3) \<longrightarrow> look h3 X = None \<and> intact (look h) root h3"
    using settled_recover(2) [OF assms(1,2) s] by (auto simp: clean_def)
  show "r = Done () \<or> r = Failed (RolledBack e) \<longrightarrow> look h1 X = None"
    using inst(1) inst(2) [of e] by (auto simp: settled_def committed_def clean_def)
qed (use settled_files [OF settled_recoveries [OF assms(1,2) settled_install(1) [OF assms(1-5)]]] assms(6) in blast)

section \<open>A left-over temporary file\<close>

lemma CreateExcl_exists:
  assumes "look h p \<noteq> None" "CreateExcl p m h = (r, h')"
  shows "files h' = files h" "r \<noteq> Done ()"
  using assms by (auto simp: CreateExcl_def call_def Let_def split: outcome.splits)

lemma MkdirAll_keeps: "look h p = Some n \<Longrightarrow> MkdirAll q m h = (r, h') \<Longrightarrow> look h' p = Some n"
  by (auto simp: MkdirAll_def call_def Let_def look_mkdirs split: outcome.splits if_splits)

lemma WriteUpdateState_blocked:
  assumes "apart X (sibling St ''.tmp'')" "off {sibling St ''.tmp''} P"
  shows "triple (\<lambda>h. P h \<and> look h (sibling St ''.tmp'') = Some n) (WriteUpdateState T St s)
    (\<lambda>_ _. False) (\<lambda>_ h. P h \<and> look h (sibling St ''.tmp'') = Some n)"
  unfolding WriteUpdateState_def replace_file_def Let_def
proof (intro triple_then)
  let ?tmp = "sibling St ''.tmp''"
  let ?P = "\<lambda>h. P h \<and> look h ?tmp = Some n"
  show "triple ?P (hensure (valid_state s) (Message ''invalid update state'')) (\<lambda>_. ?P) (\<lambda>_. ?P)"
    by (auto simp: triple_def hensure_def hret_def hfail_def)
  have cov: "covers {?tmp} ?tmp" by (simp add: covers_def)
  have nr: "near {?tmp} (MkdirAll (butlast St) 493)" using near_MkdirAll [OF leads_intros(2) [OF cov]] by simp
  show "triple ?P (MkdirAll (butlast St) 493) (\<lambda>_. ?P) (\<lambda>_. ?P)"
    by (rule tripleI) (use offD [OF assms(2) nr] MkdirAll_keeps in \<open>blast+\<close>)
  have "P h'" if "P h" "files h' = files h" for h h'
    using assms(2) that frame_refl [of h' h] unfolding off_def by blast
  note keep = this
  show "triple ?P (writeExclusive ?tmp (json_UpdateState T s) 420) (\<lambda>_ _. False) (\<lambda>_. ?P)"
    unfolding writeExclusive_def
  proof (rule triple_then)
    show "triple ?P (CreateExcl ?tmp 420) (\<lambda>_ _. False) (\<lambda>_. ?P)"
    proof (rule tripleI)
      fix h h' u assume "?P h" and run: "CreateExcl ?tmp 420 h = (Done u, h')"
      with CreateExcl_exists(2) [OF _ run] show False by simp
    next
      fix h h' r assume "?P h" and run: "CreateExcl ?tmp 420 h = (r, h')"
      with CreateExcl_exists(1) [OF _ run] have "files h' = files h" by simp
      with keep [OF _ this] \<open>?P h\<close> show "?P h'" by simp
    qed
  qed (simp add: triple_def)
  show "triple (\<lambda>_. False) (on_error (Rename ?tmp St) (\<lambda>e. hthen (hignore (Remove ?tmp)) (hfail e))) (\<lambda>_ _. False) (\<lambda>_. ?P)"
    by (simp add: triple_def)
qed

lemma recover_blocked_triple:
  assumes place: "placed root dir X" and json: "faithful_json T"
    and St: "apart X (sibling St ''.tmp'')" "apart dir (sibling St ''.tmp'')" "\<forall>t \<in> targets root. apart (sibling St ''.tmp'') t"
  shows "triple (\<lambda>h. marked T old root dir X t m h \<and> look h (sibling St ''.tmp'') = Some n) (recoverPendingUpdate T root X St)
    (\<lambda>_ _. False) (\<lambda>_ h. marked T old root dir X t m h \<and> look h (sibling St ''.tmp'') = Some n)"
proof -
  let ?tmp = "sibling St ''.tmp''" and ?M = "marked T old root dir X t m"
  let ?P = "\<lambda>h. ?M h \<and> look h ?tmp = Some n"
  have offM: "off {?tmp} ?M" using St by (intro off_marked) auto
  have offP: "off {} ?P" by (intro off_conj off_marked off_look) auto
  have stay: "triple ?P (hensure b e) (\<lambda>_. ?P) (\<lambda>_. ?P)" "triple ?P (of_sum x) (\<lambda>_. ?P) (\<lambda>_. ?P)"
    "triple ?P (loadRollbackManifest T dir) (\<lambda>_. ?P) (\<lambda>_. ?P)" for b e and x :: "host_error + StagedComponent list"
    by (rule triple_near [OF _ offP], rule near_intros)+
  have keep: "?P h'" if P: "?P h" and run: "RestoreRollback T root dir h = (r, h')" for h h' r
  proof -
    from P have M: "?M h" ..
    have "apart ?tmp q" if "q \<in> restore_paths root dir m" for q
    proof -
      from restore_paths_own [OF M] that consider "prefix (dir @ [''.restore-prepared'']) q" | "own_path root (rf_Component ` set (rm_Files m)) q" by blast
      then show ?thesis
      proof cases
        case 1
        then have "prefix dir q" by (rule append_prefixD)
        then show ?thesis using apart_sym [OF apart_below [OF St(2)]] by (auto simp: prefix_def)
      qed (use St(3) own_path_target in blast)
    qed
    with RestoreRollback_frame [OF json M run] have "look h' ?tmp = look h ?tmp" by (intro frame_apart) auto
    moreover have "?M h'" using RestoreRollback_frame [OF json M run] restore_paths_own [OF M] place M by (rule frame_marked)
    ultimately show ?thesis using P by simp
  qed
  have restore: "triple ?P (RestoreRollback T root dir) (\<lambda>_. ?P) (\<lambda>_. ?P)" by (rule tripleI) (use keep in \<open>blast+\<close>)
  note blocked = WriteUpdateState_blocked [OF St(1) offM]
  have main: "triple ?P (hthen (hensure b1 e1) (hbind (loadRollbackManifest T dir) (\<lambda>manifest. hthen (hensure (b2 manifest) e2)
      (hbind (of_sum (recovery_plan [] (rm_Files manifest))) (\<lambda>cs. hthen (RestoreRollback T root dir)
        (hthen (WriteUpdateState T St (s cs)) (rest cs))))))) (\<lambda>_ _. False) (\<lambda>_. ?P)" for b1 e1 b2 e2 s and rest :: "StagedComponent list \<Rightarrow> bool hm"
    by (rule triple_then triple_bind stay restore blocked | simp add: triple_def)+
  have known: "?P h \<and> r = Some t \<Longrightarrow> r = Some t \<and> ut_RollbackDir t = Some dir" for h r by (simp add: marked_def)
  have read: "triple ?P (ReadUpdateTransaction T X) (\<lambda>r h. ?P h \<and> r = Some t) (\<lambda>_. ?P)"
    by (rule read_marker [OF json offP]) (simp add: marked_def)
  show ?thesis unfolding recoverPendingUpdate_def Let_def
    by (rule triple_bind [OF read], rule triple_pre [OF known], assumption, elim conjE) (auto intro: triple_weaken [OF main])
qed

lemma RecoverPendingUpdate_blocked:
  assumes wp: "well_placed root (update_paths S dir X St)" and json: "faithful_json T"
  shows "triple (\<lambda>h. marked T old root dir X t m h \<and> look h (sibling St ''.tmp'') = Some n) (RecoverPendingUpdate T root X St)
    (\<lambda>b h. (marked T old root dir X t m h \<and> look h (sibling St ''.tmp'') = Some n) \<and> \<not> b)
    (\<lambda>_ h. marked T old root dir X t m h \<and> look h (sibling St ''.tmp'') = Some n)"
proof -
  let ?P = "\<lambda>h. marked T old root dir X t m h \<and> look h (sibling St ''.tmp'') = Some n"
  have lock: "apart X (sibling X ''.lock'')" "apart dir (sibling X ''.lock'')" "\<forall>t \<in> targets root. apart (sibling X ''.lock'') t"
    and St: "apart X (sibling St ''.tmp'')" "apart dir (sibling St ''.tmp'')" "\<forall>t \<in> targets root. apart (sibling St ''.tmp'') t"
    using update_placed(4) [OF wp] by auto
  have "apart (sibling St ''.tmp'') (sibling X ''.lock'')" using wp by (auto simp: well_placed_def update_paths_def intro: apart_sym)
  with lock have off: "off {sibling X ''.lock''} ?P" by (intro off_conj off_marked off_look) auto
  have "triple ?P (recoverPendingUpdate T root X St) (\<lambda>b h. ?P h \<and> \<not> b) (\<lambda>_. ?P)"
    by (rule triple_weaken [OF recover_blocked_triple [OF update_placed(1) [OF wp] json St]]) auto
  then have "triple ?P (if \<not> b then hret False else recoverPendingUpdate T root X St) (\<lambda>b h. ?P h \<and> \<not> b) (\<lambda>_. ?P)" for b
    by (auto intro: triple_hret)
  then show ?thesis unfolding RecoverPendingUpdate_def by (rule locked_triple [OF off])
qed

text \<open>
  C33: A temporary file blocks recovery for ever.  If the process dies while the health check of an
  installation writes the update state, the temporary file stays behind next to the state file.
  It is created exclusively, and nothing removes it: no later attempt at recovery reports that it
  recovered, and the transaction stays pending.
\<close>

theorem stale_state_file_blocks_recovery:
  assumes "well_placed root (update_paths S dir X St)" and "faithful_json T"
    and "UpdateHealthCallbacks T plan St at = (check, recover)" and "look h X = None"
    and "InstallStagedWithTransaction T root S dir (Some X) now allow (Some check) (Some recover) h = (r, h1)"
    and "look h1 X \<noteq> None" and "look h1 (sibling St ''.tmp'') \<noteq> None"
    and "h2 = ((\<lambda>h. snd (RecoverPendingUpdate T root X St h)) ^^ n) h1"
  shows "look h2 X \<noteq> None \<and> fst (RecoverPendingUpdate T root X St h2) \<noteq> Done True"
proof -
  have "safe T (look h) root dir X h1" using settled_install(1) [OF assms(1-5)] assms(6)
    by (auto simp: settled_def Let_def committed_def split: res.splits)
  with assms(6,7) obtain t m k where P: "marked T (look h) root dir X t m h1 \<and> look h1 (sibling St ''.tmp'') = Some k"
    by (auto simp: safe_def clean_def)
  note blocked = RecoverPendingUpdate_blocked [OF assms(1,2), of "look h" t m k]
  have "marked T (look h) root dir X t m h2 \<and> look h2 (sibling St ''.tmp'') = Some k" unfolding assms(8)
    by (induction n) (use P triple_keep [OF blocked] in auto)
  with tripleD(1) [OF blocked this] show ?thesis by (cases "RecoverPendingUpdate T root X St h2") (auto simp: marked_def)
qed

section \<open>A concrete update\<close>

text \<open>
  A machine with one component to replace.  The process dies in step 59, right after the new file
  is in place; or in step 62, while the temporary state file is being written.
\<close>

definition demo_component :: StagedComponent where
  "demo_component = \<lparr>sc_Component = ''sw-badge-pam-helper'', sc_Target = [''usr'', ''local'', ''libexec'', ''sw-badge-pam-helper''],
     sc_Mode = 493, sc_SHA256 = hex_encode (sha256 ''new''), sc_RestartLightDM = False\<rparr>"

definition demo_plan :: StagePlan where
  "demo_plan = \<lparr>sp_ReleaseVersion = ''1.14.0'', sp_Architecture = ''linux-amd64'', sp_Components = [demo_component]\<rparr>"

definition demo_snapshot :: RollbackManifest where
  "demo_snapshot = \<lparr>rm_SchemaVersion = 1, rm_PreparedAt = 5, rm_ForRelease = ''1.14.0'',
     rm_Files = [\<lparr>rf_Component = ''sw-badge-pam-helper'', rf_Target = [''usr'', ''local'', ''libexec'', ''sw-badge-pam-helper''],
       rf_Existed = True, rf_Mode = 493, rf_Size = 3, rf_SHA256 = hex_encode (sha256 ''old'')\<rparr>]\<rparr>"

definition demo_dir :: path where
  "demo_dir = [''var'', ''backups'', ''stumpfworks-badge'', ''1'']"

definition demo_marker :: UpdateTransaction where
  "demo_marker = \<lparr>ut_SchemaVersion = 1, ut_ReleaseVersion = ''1.14.0'', ut_RollbackDir = Some demo_dir, ut_StartedAt = 5\<rparr>"

definition demo_tools :: tools where
  "demo_tools = \<lparr>zip_NewReader = (\<lambda>_. None), zip_Write = (\<lambda>_. []), ed25519_Verify = (\<lambda>_ _ _. False), ed25519_Sign = (\<lambda>_ _. []),
     json_Manifest = (\<lambda>_. ''{}''), unjson_Manifest = (\<lambda>_. None),
     json_StagePlan = (\<lambda>_. ''P''), unjson_StagePlan = (\<lambda>_. Some demo_plan),
     json_RollbackManifest = (\<lambda>m. if m = demo_snapshot then ''M'' else ''?''),
     unjson_RollbackManifest = (\<lambda>s. if s = ''M'' then Some demo_snapshot else None),
     json_UpdateTransaction = (\<lambda>t. if t = demo_marker then ''X'' else ''?''),
     unjson_UpdateTransaction = (\<lambda>s. if s = ''X'' then Some demo_marker else None),
     json_UpdateState = (\<lambda>_. ''{}''), unjson_UpdateState = (\<lambda>_. None), platform = ''linux-amd64''\<rparr>"

definition demo_host :: "(nat \<Rightarrow> outcome) \<Rightarrow> host" where
  "demo_host oc = \<lparr>files = [([], Directory 493), ([''var''], Directory 493), ([''var'', ''backups''], Directory 493),
       ([''var'', ''backups'', ''stumpfworks-badge''], Directory 448),
       ([''usr''], Directory 493), ([''usr'', ''local''], Directory 493), ([''usr'', ''local'', ''libexec''], Directory 493),
       ([''usr'', ''local'', ''libexec'', ''sw-badge-pam-helper''], Regular 493 ''old''),
       ([''stage''], Directory 448), ([''stage'', ''stage-plan.json''], Regular 384 ''P''), ([''stage'', ''payload''], Directory 448),
       ([''stage'', ''payload'', ''sw-badge-pam-helper''], Regular 384 ''new'')],
     commands = [], requests = [], hstep = 0, outcome = oc, written = (\<lambda>_. 0),
     kept = (\<lambda>_ _. False), made = (\<lambda>_. 0), tmpname = (\<lambda>_. ''1''), lock_free = (\<lambda>_. True), answer = (\<lambda>_. (204, [])),
     hclock = (\<lambda>_. 0)\<rparr>"

definition demo_install :: "host \<Rightarrow> unit res \<times> host" where
  "demo_install = (let cb = UpdateHealthCallbacks demo_tools demo_plan [''state''] 5 in
     InstallStagedWithTransaction demo_tools [] [''stage''] demo_dir (Some [''pending'']) 5 False (Some (fst cb)) (Some (snd cb)))"

definition demo_recover :: "host \<Rightarrow> bool res \<times> host" where
  "demo_recover = RecoverPendingUpdate demo_tools [] [''pending''] [''state'']"


lemma demo_time: "\<not> IsZero 5"
  by code_simp

lemma demo_version: "validVersion ''1.14.0''"
  by code_simp

lemma demo_hash: "EqualFold s s" "hex_encode (sha256 d) \<noteq> []"
  by (simp add: EqualFold_def) (metis length_hex_encode length_sha256 list.size(3) mult_eq_0_iff zero_neq_numeral)

lemmas demo_defs = demo_component_def demo_plan_def demo_snapshot_def demo_dir_def demo_marker_def demo_tools_def demo_host_def
lemmas host_defs = hthen_def hbind_def hensure_def hret_def hfail_def htry_def hignore_def on_error_def deferred_def call_def
  Lstat_def Open_def ReadFile_def CreateExcl_def put_contents_def Write_def Settle_def Chmod_def Remove_def RemoveAll_def Mkdir_def MkdirAll_def
  Rename_def SyncDir_def Run_def TryLock_def absent_def blocked_def is_dir_def has_entries_def sibling_def perm_def put_def unlink_def unlink_below_def move_def mkdirs_def
lemmas install_defs = InstallStagedWithTransaction_def installStagedWithTransaction_def installStaged_def loadStagePlan_def
  RequiresLightDMMaintenance_def validateStagedPayload_def  validate_payload_def copyAndVerify_def
  CreateRollback_def not_exists_def  create_record_def copyRollbackFile_def WriteUpdateTransaction_def valid_transaction_def
  replace_file_def writeExclusive_def prepare_component_def apply_component_def fileSize_def replace_target_def UpdateHealthCallbacks_def
  WriteUpdateState_def valid_state_def serviceHealthCheck_def restart_greeter_def has_component_def systemd_units_def systemctl_def rootedTarget_def
  maxFileSize_def maxManifestSize_def componentSpecs_def


lemmas recover_defs = RecoverPendingUpdate_def recoverPendingUpdate_def ReadUpdateTransaction_def backup_root_def loadRollbackManifest_def
  of_sum_def RestoreRollback_def VerifyRollback_def  verify_record_def hashRegularFile_def
  prepare_record_def restore_record_def PostInterruptedRecovery_def

definition dies_at :: "nat \<Rightarrow> nat \<Rightarrow> outcome" where
  "dies_at i n = (if n = i then Dies else Works)"

lemmas demo_simps = demo_install_def demo_recover_def demo_defs host_defs install_defs recover_defs demo_time demo_version demo_hash dies_at_def Let_def

lemma demo_crashed:
  "case demo_install (demo_host (dies_at 59)) of (r, h) \<Rightarrow> r = Died \<and>
     look h [''usr'', ''local'', ''libexec'', ''sw-badge-pam-helper''] = Some (Regular 493 ''new'') \<and>
     fst (demo_recover h) = Done True"
  by (simp add: demo_simps)

lemma demo_left_over:
  "case demo_install (demo_host (dies_at 62)) of (r, h) \<Rightarrow> r = Died \<and> look h [''pending''] \<noteq> None \<and> look h [''state.tmp''] \<noteq> None"
  by (simp add: demo_simps)

lemma demo_placed: "well_placed [] (update_paths [''stage''] demo_dir [''pending''] [''state''])"
  by (simp add: well_placed_def update_paths_def demo_dir_def sibling_def apart_def target_paths_def componentSpecs_def)

lemma demo_json: "faithful_json demo_tools"
  by (auto simp: faithful_json_def demo_tools_def)

theorem update_all_or_nothing_witness:
  "\<exists>h1 h3. demo_install (demo_host (dies_at 59)) = (Died, h1) \<and>
     look h1 [''usr'', ''local'', ''libexec'', ''sw-badge-pam-helper''] = Some (Regular 493 ''new'') \<and>
     demo_recover h1 = (Done True, h3) \<and> look h3 [''pending''] = None \<and> intact (look (demo_host (dies_at 59))) [] h3"
proof -
  obtain h1 h3 where run: "demo_install (demo_host (dies_at 59)) = (Died, h1)" "demo_recover h1 = (Done True, h3)"
    and new: "look h1 [''usr'', ''local'', ''libexec'', ''sw-badge-pam-helper''] = Some (Regular 493 ''new'')"
    using demo_crashed by (cases "demo_install (demo_host (dies_at 59))"; cases "demo_recover (snd (demo_install (demo_host (dies_at 59))))") auto
  have "look (demo_host (dies_at 59)) [''pending''] = None" by (simp add: demo_host_def)
  from update_all_or_nothing [OF demo_placed demo_json surjective_pairing this run(1) [unfolded demo_install_def Let_def],
    of "h1" 0 _ h3] run(2) new run(1)
  show ?thesis by (auto simp: demo_recover_def)
qed

theorem stale_state_file_blocks_recovery_witness:
  "\<exists>h1. demo_install (demo_host (dies_at 62)) = (Died, h1) \<and> fst (demo_recover (snd (demo_recover h1))) \<noteq> Done True"
proof -
  obtain h1 where run: "demo_install (demo_host (dies_at 62)) = (Died, h1)" "look h1 [''pending''] \<noteq> None" "look h1 [''state.tmp''] \<noteq> None"
    using demo_left_over by (cases "demo_install (demo_host (dies_at 62))") auto
  have 0: "look (demo_host (dies_at 62)) [''pending''] = None" by (simp add: demo_host_def)
  from stale_state_file_blocks_recovery [OF demo_placed demo_json surjective_pairing 0 run(1) [unfolded demo_install_def Let_def] run(2) _ refl, of 1]
    run(1,3) show ?thesis by (simp add: demo_recover_def sibling_def)
qed

end
