(* ===== verification/Update_Worker.thy ===== *)
theory Update_Worker
  imports Update_Atomic
begin

text \<open>
  The update worker of a client (\<^verbatim>\<open>worker.go\<close> of \<^verbatim>\<open>internal/clientupdate\<close>): it recovers an
  interrupted update, continues the journal of the last job or polls for a new one, downloads and
  verifies the package, asks for permission to start, installs and reports the result.  The
  unlocking when it returns is not modelled, since the lock is per process.
\<close>

section \<open>Data\<close>

record RemoteJob =
  rj_ID :: string
  rj_ClientID :: string
  rj_ReleaseID :: string
  rj_ReleaseVersion :: string
  rj_PackageSHA256 :: string
  rj_NotBefore :: int
  rj_ExpiresAt :: int
  rj_Maintenance :: bool
  rj_State :: string
  rj_RollbackAvailable :: bool
  rj_CreatedAt :: int
  rj_UpdatedAt :: int

text \<open>The fields of the options; \<open>None\<close> is an empty path, or for the directory one that is not absolute.\<close>

record WorkerOptions =
  wo_Server :: string
  wo_ClientID :: string
  wo_PublicKeyFile :: path
  wo_Directory :: "path option"
  wo_Root :: path
  wo_TransactionPath :: "path option"
  wo_StatePath :: "path option"
  wo_HTTP :: bool

record workerJournal =
  wj_Job :: RemoteJob
  wj_Phase :: string
  wj_Rollback :: bool

text \<open>\<^verbatim>\<open>net/url\<close> and the JSON codecs of the worker's files and messages.\<close>

record parsed_url =
  url_Scheme :: string
  url_Host :: string
  url_User :: bool
  url_RawQuery :: string
  url_Fragment :: string
  url_Path :: string

record worker_codec =
  wc_tools :: tools
  url_Parse :: "string \<Rightarrow> parsed_url option"
  json_workerJournal :: "workerJournal \<Rightarrow> string"
  unjson_workerJournal :: "string \<Rightarrow> workerJournal option"
  unjson_RemoteJob :: "string \<Rightarrow> RemoteJob option"
  json_string :: "string \<Rightarrow> string"
  unjson_string :: "string \<Rightarrow> string option"

definition DefaultTransactionPath :: path where
  "DefaultTransactionPath = [''var'', ''lib'', ''stumpfworks-badge'', ''update-transaction.json'']"

definition DefaultStatePath :: path where
  "DefaultStatePath = [''var'', ''lib'', ''stumpfworks-badge'', ''update-state.json'']"

definition transaction_path :: "WorkerOptions \<Rightarrow> path" where
  "transaction_path ops = (case wo_TransactionPath ops of None \<Rightarrow> DefaultTransactionPath | Some p \<Rightarrow> p)"

definition state_path :: "WorkerOptions \<Rightarrow> path" where
  "state_path ops = (case wo_StatePath ops of None \<Rightarrow> DefaultStatePath | Some p \<Rightarrow> p)"

definition client_version :: string where
  "client_version = ''1.13.1''"

section \<open>Checks\<close>

definition valid_server :: "worker_codec \<Rightarrow> string \<Rightarrow> bool" where
  "valid_server W server \<longleftrightarrow> (case url_Parse W server of None \<Rightarrow> False
     | Some u \<Rightarrow> url_Scheme u = ''https'' \<and> url_Host u \<noteq> [] \<and> \<not> url_User u \<and> url_RawQuery u = [] \<and> url_Fragment u = [] \<and>
                 (url_Path u = [] \<or> url_Path u = ''/''))"

text \<open>The pattern \<^verbatim>\<open>^[a-zA-Z0-9_-]{16,64}$\<close>.\<close>

definition id_char :: "char \<Rightarrow> bool" where
  "id_char c \<longleftrightarrow> is_alnum c \<or> c \<in> set ''_-''"

definition valid_id :: "string \<Rightarrow> bool" where
  "valid_id s \<longleftrightarrow> 16 \<le> length s \<and> length s \<le> 64 \<and> list_all id_char s"

text \<open>The difference of the two 64-bit integers wraps around.\<close>

definition int64_sub :: "int \<Rightarrow> int \<Rightarrow> int" where
  "int64_sub a b = (a - b + 9223372036854775808) mod 18446744073709551616 - 9223372036854775808"

definition validRemoteJob :: "RemoteJob \<Rightarrow> string \<Rightarrow> bool" where
  "validRemoteJob j client \<longleftrightarrow> rj_ClientID j = client \<and> valid_id (rj_ID j) \<and> valid_id (rj_ReleaseID j) \<and> validVersion (rj_ReleaseVersion j) \<and>
     (case hex_decode (rj_PackageSHA256 j) of None \<Rightarrow> False | Some digest \<Rightarrow> length digest = 32) \<and>
     rj_ExpiresAt j > rj_NotBefore j \<and> int64_sub (rj_ExpiresAt j) (rj_NotBefore j) \<le> 86400 \<and>
     (rj_State j = ''scheduled'' \<or> rj_State j = ''dispatched'')"

section \<open>Files and requests\<close>

definition TrimRight_slash :: "string \<Rightarrow> string" where
  "TrimRight_slash s = rev (dropWhile (\<lambda>c. c = CHR ''/'') (rev s))"

definition worker_url :: "WorkerOptions \<Rightarrow> string \<Rightarrow> string" where
  "worker_url ops path = TrimRight_slash (wo_Server ops) @ ''/api/v1/client/updates/'' @ path"

definition workerRequest :: "WorkerOptions \<Rightarrow> string \<Rightarrow> (string \<times> bool) option \<Rightarrow> (nat \<times> string) hm" where
  "workerRequest ops path payload = Post (worker_url ops path) payload"

definition writeWorkerFile :: "path \<Rightarrow> string \<Rightarrow> unit hm" where
  "writeWorkerFile p raw =
     hbind (CreateTemp (butlast p) ''.job-'') (\<lambda>name.
     deferred
       (hbind (htry (hthen (Chmod name 384) (hthen (Write name raw) Settle))) (\<lambda>written.
        hbind (htry Settle) (\<lambda>closed.
        case (written, closed) of
          (Inl e, _) \<Rightarrow> hfail e
        | (_, Inl e) \<Rightarrow> hfail e
        | _ \<Rightarrow> hthen (Rename name p) (SyncDir (butlast p)))))
       (Remove name))"

definition writeWorkerJournal :: "worker_codec \<Rightarrow> path \<Rightarrow> workerJournal \<Rightarrow> unit hm" where
  "writeWorkerJournal W p j = writeWorkerFile p (json_workerJournal W j)"

definition workerRollbackPath :: "WorkerOptions \<Rightarrow> RemoteJob \<Rightarrow> path" where
  "workerRollbackPath ops j = rootedTarget (wo_Root ops) (backup_root @ [''job-'' @ rj_ID j])"

definition workerRollback :: "worker_codec \<Rightarrow> WorkerOptions \<Rightarrow> RemoteJob \<Rightarrow> bool hm" where
  "workerRollback W ops j =
     hbind (htry (VerifyRollback (wc_tools W) (wo_Root ops) (workerRollbackPath ops j))) (\<lambda>r. hret (case r of
       Inl _ \<Rightarrow> False | Inr m \<Rightarrow> rm_ForRelease m = rj_ReleaseVersion j))"

definition newer :: "string \<Rightarrow> string \<Rightarrow> bool hm" where
  "newer left right = (case compareVersions left right of None \<Rightarrow> hfail Panic | Some c \<Rightarrow> hret (c > 0))"

text \<open>The version that counts as installed: the greatest of the built-in, the saved and the reported one.\<close>

definition saved_version :: "worker_codec \<Rightarrow> path \<Rightarrow> string hm" where
  "saved_version W D =
     hbind (htry (ReadFile (D @ [''installed-version.json'']))) (\<lambda>r. case r of
       Inl e \<Rightarrow> if e = NotExist then hret client_version else hfail e
     | Inr raw \<Rightarrow>
         (case unjson_string W raw of
            None \<Rightarrow> hfail (Message ''invalid installed version evidence'')
          | Some saved \<Rightarrow>
              if length raw > 128 \<or> \<not> validVersion saved then hfail (Message ''invalid installed version evidence'')
              else hbind (newer saved client_version) (\<lambda>b. hret (if b then saved else client_version))))"

definition workerInstalledVersion :: "worker_codec \<Rightarrow> WorkerOptions \<Rightarrow> path \<Rightarrow> string hm" where
  "workerInstalledVersion W ops D =
     hbind (saved_version W D) (\<lambda>current.
     hbind (ReadUpdateState (wc_tools W) (state_path ops)) (\<lambda>state. case state of
       None \<Rightarrow> hret current
     | Some state \<Rightarrow>
         if us_Status state \<noteq> ''success'' then hret current
         else hbind (newer (us_Version state) current) (\<lambda>b.
           if b then hthen (writeWorkerFile (D @ [''installed-version.json'']) (json_string W (us_Version state))) (hret (us_Version state))
           else hret current)))"

definition finishWorker :: "worker_codec \<Rightarrow> WorkerOptions \<Rightarrow> path \<Rightarrow> path \<Rightarrow> workerJournal \<Rightarrow> unit hm" where
  "finishWorker W ops D p journal =
     hthen (if wj_Phase journal = ''succeeded'' then
              hbind (workerInstalledVersion W ops D) (\<lambda>current.
              hbind (newer (rj_ReleaseVersion (wj_Job journal)) current) (\<lambda>b.
              if b then writeWorkerFile (D @ [''installed-version.json'']) (json_string W (rj_ReleaseVersion (wj_Job journal)))
              else hret ()))
            else hret ())
     (hbind (workerRequest ops (rj_ID (wj_Job journal) @ ''/result'') (Some (wj_Phase journal, wj_Rollback journal))) (\<lambda>response.
      hthen (hensure (fst response = 204) (Message ''update result not acknowledged''))
      (Remove p)))"

section \<open>One run of the worker\<close>

text \<open>An execution that was interrupted: the verified snapshot is restored before the job counts as failed.\<close>

definition snapshot_plan :: "string \<Rightarrow> RollbackFile list \<Rightarrow> StagePlan" where
  "snapshot_plan release fs = \<lparr>sp_ReleaseVersion = release, sp_Architecture = [], sp_Components = map (\<lambda>f.
     let spec = (case component_spec (rf_Component f) of Some spec \<Rightarrow> spec
                 | None \<Rightarrow> \<lparr>spec_Target = [], spec_Mode = 0, spec_RestartLightDM = False\<rparr>)
     in \<lparr>sc_Component = rf_Component f, sc_Target = spec_Target spec, sc_Mode = perm (spec_Mode spec), sc_SHA256 = [],
         sc_RestartLightDM = spec_RestartLightDM spec\<rparr>) fs\<rparr>"

definition worker_interrupted :: "worker_codec \<Rightarrow> WorkerOptions \<Rightarrow> path \<Rightarrow> workerJournal \<Rightarrow> workerJournal hm" where
  "worker_interrupted W ops p journal =
     (let T = wc_tools W; root = wo_Root ops; j = wj_Job journal; rollback = workerRollbackPath ops j in
      hthen (hbind (htry (Lstat rollback)) (\<lambda>r. case r of
          Inr _ \<Rightarrow>
            hbind (htry (VerifyRollback T root rollback)) (\<lambda>v. case v of
              Inl _ \<Rightarrow> hfail (Message ''interrupted job rollback invalid'')
            | Inr manifest \<Rightarrow>
                if rm_ForRelease manifest \<noteq> rj_ReleaseVersion j then hfail (Message ''interrupted job rollback invalid'')
                else hthen (RestoreRollback T root rollback)
                  (hthen (PostInterruptedRecovery (snapshot_plan (rj_ReleaseVersion j) (rm_Files manifest)))
                  (hbind Now (\<lambda>now. WriteUpdateState T (state_path ops) \<lparr>us_Version = rj_ReleaseVersion j, us_Status = ''failed'',
                     us_UpdatedAt = now, us_RollbackAvailable = True\<rparr>))))
        | Inl e \<Rightarrow> if e = NotExist then hret () else hfail e))
      (hbind (workerRollback W ops j) (\<lambda>available.
       let failed = journal\<lparr>wj_Phase := ''failed'', wj_Rollback := available\<rparr> in
       hthen (writeWorkerJournal W p failed) (hret failed))))"

text \<open>
  The journal this run continues with: \<open>Inl\<close> when the run ends here, after reporting a result or
  because there is no job, \<open>Inr\<close> when a prepared job is to be executed.
\<close>

definition worker_resume :: "worker_codec \<Rightarrow> WorkerOptions \<Rightarrow> path \<Rightarrow> path \<Rightarrow> string \<Rightarrow> (unit + workerJournal) hm" where
  "worker_resume W ops D p raw =
     (if length raw > 8192 then hfail (Message ''worker journal too large'')
      else case unjson_workerJournal W raw of
        None \<Rightarrow> hfail (Message ''invalid worker journal'')
      | Some journal \<Rightarrow>
          if \<not> validRemoteJob (wj_Job journal) (wo_ClientID ops) then hfail (Message ''invalid worker journal'')
          else hbind (if wj_Phase journal = ''executing'' then worker_interrupted W ops p journal else hret journal) (\<lambda>journal.
            if wj_Phase journal = ''succeeded'' \<or> wj_Phase journal = ''failed'' then hthen (finishWorker W ops D p journal) (hret (Inl ()))
            else if wj_Phase journal \<noteq> ''prepared'' then hfail (Message ''invalid worker journal phase'')
            else hret (Inr journal)))"

definition worker_poll :: "worker_codec \<Rightarrow> WorkerOptions \<Rightarrow> path \<Rightarrow> path \<Rightarrow> (unit + workerJournal) hm" where
  "worker_poll W ops D p =
     hbind (workerRequest ops ''poll'' None) (\<lambda>(status, body).
       if status = 204 then hret (Inl ())
       else if status \<noteq> 200 then hfail (Message ''update polling rejected'')
       else hbind (htry Settle) (\<lambda>r.
         case (r, unjson_RemoteJob W (take 8193 body)) of
           (Inr _, Some j) \<Rightarrow>
             if \<not> validRemoteJob j (wo_ClientID ops) then hfail (Message ''invalid update job'')
             else if rj_State j = ''dispatched'' then
               hbind (workerRollback W ops j) (\<lambda>available.
               let journal = \<lparr>wj_Job = j, wj_Phase = ''failed'', wj_Rollback = available\<rparr> in
               hthen (writeWorkerJournal W p journal)
               (hthen (finishWorker W ops D p journal) (hret (Inl ()))))
             else
               (let journal = \<lparr>wj_Job = j, wj_Phase = ''prepared'', wj_Rollback = False\<rparr> in
                hthen (writeWorkerJournal W p journal) (hret (Inr journal)))
         | _ \<Rightarrow> hfail (Message ''invalid update job'')))"

definition worker_job :: "worker_codec \<Rightarrow> WorkerOptions \<Rightarrow> path \<Rightarrow> path \<Rightarrow> (unit + workerJournal) hm" where
  "worker_job W ops D p =
     hbind (htry (ReadFile p)) (\<lambda>r. case r of
       Inr raw \<Rightarrow> worker_resume W ops D p raw
     | Inl e \<Rightarrow> if e = NotExist then worker_poll W ops D p else hfail e)"

text \<open>A rejected download or start ends the local preparation when the server says the job is gone.\<close>

definition rejected :: "path \<Rightarrow> nat \<Rightarrow> string \<Rightarrow> 'a hm \<Rightarrow> 'a hm" where
  "rejected p status message forget = (if status = 409 \<or> status = 404 then hthen (Remove p) forget else hfail (Message message))"

definition download_limit :: nat where
  "download_limit = maxPackageSize + 1048576"

definition worker_download :: "worker_codec \<Rightarrow> WorkerOptions \<Rightarrow> path \<Rightarrow> path \<Rightarrow> path \<Rightarrow> RemoteJob \<Rightarrow> bool hm" where
  "worker_download W ops D p packagePath j =
     hbind (workerRequest ops (rj_ID j @ ''/package'') None) (\<lambda>(status, body).
       if status \<noteq> 200 then rejected p status ''update package rejected'' (hret False)
       else let data = take (download_limit + 1) body in
         hbind (htry Settle) (\<lambda>r.
         hthen (hensure (r = Inr () \<and> length data \<le> download_limit) (Message ''update download failed''))
         (hthen (hensure (hex_encode (sha256 data) = rj_PackageSHA256 j) (Message ''update package digest mismatch''))
         (hthen (writeWorkerFile packagePath data) (hret True)))))"

definition worker_stage :: "worker_codec \<Rightarrow> WorkerOptions \<Rightarrow> path \<Rightarrow> path \<Rightarrow> path \<Rightarrow> string \<Rightarrow> RemoteJob \<Rightarrow> (path \<times> StagePlan) hm" where
  "worker_stage W ops D dir packagePath key j =
     (let T = wc_tools W in
      hbind (workerInstalledVersion W ops D) (\<lambda>currentVersion.
      hbind (htry (VerifyPackage T packagePath key (platform T) currentVersion)) (\<lambda>v.
      hthen (hensure (case v of Inl _ \<Rightarrow> False
                      | Inr verified \<Rightarrow> m_Channel (r_Manifest verified) = ''stable'' \<and>
                          m_ReleaseVersion (r_Manifest verified) = rj_ReleaseVersion j)
               (Message ''update release verification failed''))
      (hbind (MkdirTemp dir ''stage-'') (\<lambda>stage.
      hthen (Remove stage)
      (hbind (VerifyAndStage T packagePath key (platform T) currentVersion (Some stage)) (\<lambda>plan.
      hthen (hensure (\<not> (RequiresLightDMMaintenance plan \<and> \<not> rj_Maintenance j)) (Message ''update requires maintenance authorization''))
      (hret (stage, plan)))))))))"

definition worker_install :: "worker_codec \<Rightarrow> WorkerOptions \<Rightarrow> path \<Rightarrow> path \<Rightarrow> workerJournal \<Rightarrow> path \<Rightarrow> StagePlan \<Rightarrow> unit hm" where
  "worker_install W ops D p journal stage plan =
     (let T = wc_tools W; j = wj_Job journal in
      hthen (writeWorkerJournal W p (journal\<lparr>wj_Phase := ''executing''\<rparr>))
      (hbind Now (\<lambda>at. let (health, recovery) = UpdateHealthCallbacks T plan (state_path ops) at in
       hbind Now (\<lambda>now.
       hbind (htry (installStagedWithTransaction T (wo_Root ops) stage (workerRollbackPath ops j) (Some (transaction_path ops)) now
                (rj_Maintenance j) (Some health) (Some recovery))) (\<lambda>r.
       hbind (htry (ReadUpdateTransaction T (transaction_path ops))) (\<lambda>pending.
       hthen (hensure (pending = Inr None) (Message ''update recovery pending''))
       (hbind (workerRollback W ops j) (\<lambda>available.
        let journal = journal\<lparr>wj_Phase := (case r of Inl _ \<Rightarrow> ''failed'' | Inr _ \<Rightarrow> ''succeeded''), wj_Rollback := available\<rparr> in
        hthen (writeWorkerJournal W p journal) (finishWorker W ops D p journal)))))))))"

definition worker_start :: "worker_codec \<Rightarrow> WorkerOptions \<Rightarrow> path \<Rightarrow> path \<Rightarrow> workerJournal \<Rightarrow> path \<times> StagePlan \<Rightarrow> unit hm" where
  "worker_start W ops D p journal staged =
     (let j = wj_Job journal in
      hbind Now (\<lambda>now.
      hthen (hensure (Unix now < rj_ExpiresAt j) (Message ''execution window ended during preparation''))
      (hbind (workerRequest ops (rj_ID j @ ''/start'') None) (\<lambda>(status, _).
       if status \<noteq> 204 then rejected p status ''update execution rejected'' (hret ())
       else worker_install W ops D p journal (fst staged) (snd staged)))))"

definition worker_execute :: "worker_codec \<Rightarrow> WorkerOptions \<Rightarrow> path \<Rightarrow> path \<Rightarrow> workerJournal \<Rightarrow> unit hm" where
  "worker_execute W ops D p journal =
     (let j = wj_Job journal; dir = D @ [rj_ID j]; packagePath = dir @ [''package.zip''] in
      hbind Now (\<lambda>now.
      if Unix now < rj_NotBefore j \<or> Unix now \<ge> rj_ExpiresAt j then Remove p
      else
        hbind (LoadPublicKey (wo_PublicKeyFile ops)) (\<lambda>key.
        hthen (MkdirAll dir 448)
        (hbind (worker_download W ops D p packagePath j) (\<lambda>downloaded.
         if \<not> downloaded then hret ()
         else hbind (worker_stage W ops D dir packagePath key j) (worker_start W ops D p journal))))))"

definition RunWorker :: "worker_codec \<Rightarrow> WorkerOptions \<Rightarrow> unit hm" where
  "RunWorker W ops =
     (case wo_Directory ops of None \<Rightarrow> hfail (Message ''invalid update worker configuration'') | Some D \<Rightarrow>
      if \<not> valid_server W (wo_Server ops) \<or> \<not> wo_HTTP ops \<or> wo_ClientID ops = []
      then hfail (Message ''invalid update worker configuration'')
      else
        (let T = wc_tools W; root = wo_Root ops; X = transaction_path ops; journalPath = D @ [''job.json''] in
         hthen (MkdirAll D 448)
         (hbind (htry (Lstat D)) (\<lambda>info.
          hthen (hensure (case info of Inr (Directory m) \<Rightarrow> perm m = 448 | _ \<Rightarrow> False) (Message ''worker directory must be root-only''))
          (hthen (MkdirAll (butlast X) 493)
          (hbind (TryLock (sibling X ''.lock'')) (\<lambda>acquired.
           if \<not> acquired then hret ()
           else
             hthen (recoverPendingUpdate T root X (state_path ops))
             (hbind (worker_job W ops D journalPath) (\<lambda>job. case job of
                Inl _ \<Rightarrow> hret ()
              | Inr journal \<Rightarrow> worker_execute W ops D journalPath journal)))))))))"

end
