(* ===== verification/Update_Authority.thy ===== *)
theory Update_Authority
  imports Update_Worker
begin

text \<open>
  What the worker may install: managed files change only in the recovery of an interrupted update
  or after the server granted the start of a valid job whose package was verified.
\<close>

section \<open>Relations every program of the updater obeys\<close>

definition obeys :: "(host \<Rightarrow> host \<Rightarrow> bool) \<Rightarrow> 'a hm \<Rightarrow> bool" where
  "obeys R m \<longleftrightarrow> (\<forall>h r h'. m h = (r, h') \<longrightarrow> R h h')"

lemma obeysD: "obeys R m \<Longrightarrow> m h = (r, h') \<Longrightarrow> R h h'"
  by (simp add: obeys_def)

locale host_relation =
  fixes R :: "host \<Rightarrow> host \<Rightarrow> bool"
  assumes refl: "R h h" and trans: "R h h1 \<Longrightarrow> R h1 h2 \<Longrightarrow> R h h2"
begin

lemma obeys_hret: "obeys R (hret a)" and obeys_hfail: "obeys R (hfail e)"
  by (simp_all add: obeys_def hret_def hfail_def refl)

lemma obeys_hbind: "obeys R m \<Longrightarrow> (\<And>a. obeys R (f a)) \<Longrightarrow> obeys R (hbind m f)"
  unfolding obeys_def hbind_def by (fastforce split: prod.splits res.splits intro: trans)

lemma obeys_htry: "obeys R m \<Longrightarrow> obeys R (htry m)"
  unfolding obeys_def htry_def by (fastforce split: prod.splits res.splits)

lemma obeys_hthen: "obeys R m \<Longrightarrow> obeys R n \<Longrightarrow> obeys R (hthen m n)"
  by (simp add: hthen_def obeys_hbind)

lemma obeys_hensure: "obeys R (hensure c e)"
  by (simp add: hensure_def obeys_hret obeys_hfail)

lemma obeys_hignore: "obeys R m \<Longrightarrow> obeys R (hignore m)"
  by (simp add: hignore_def obeys_hthen obeys_htry obeys_hret)

lemma obeys_on_error: "obeys R m \<Longrightarrow> (\<And>e. obeys R (f e)) \<Longrightarrow> obeys R (on_error m f)"
  by (auto simp: on_error_def intro!: obeys_hbind obeys_htry obeys_hret split: sum.split)

lemma obeys_deferred: "obeys R m \<Longrightarrow> obeys R c \<Longrightarrow> obeys R (deferred m c)"
  by (auto simp: deferred_def intro!: obeys_hbind obeys_htry obeys_hthen obeys_hignore obeys_hret obeys_hfail split: sum.split)

lemma obeys_each: "(\<And>x. x \<in> set xs \<Longrightarrow> obeys R (f x)) \<Longrightarrow> obeys R (each f xs)"
  by (induction xs) (auto intro: obeys_hret obeys_hthen)

lemma obeys_of_sum: "obeys R (of_sum x)"
  by (simp add: of_sum_def obeys_hret obeys_hfail split: sum.split)

lemmas obeys_rules = obeys_hret obeys_hfail obeys_hbind obeys_htry obeys_hthen obeys_hensure obeys_hignore
  obeys_on_error obeys_deferred obeys_each obeys_of_sum

end

text \<open>The log of requests only grows, and the clock is the one of the host.\<close>

definition grows :: "host \<Rightarrow> host \<Rightarrow> bool" where
  "grows h h' \<longleftrightarrow> prefix (requests h) (requests h') \<and> hclock h' = hclock h"

interpretation log: host_relation grows
  by unfold_locales (auto simp: grows_def dest: prefix_order.trans)

named_theorems log_intros \<open>programs that only add to the log of requests\<close>

lemmas [log_intros] = log.obeys_rules

lemma grows_call:
  assumes "\<And>h. grows h (snd (good h))" "\<And>h. grows h (partial h)"
  shows "obeys grows (call good partial)"
  unfolding obeys_def
proof (intro allI impI)
  fix h r h' assume "call good partial h = (r, h')"
  with assms [of h] show "grows h h'"
    by (cases "good h") (auto simp: call_def Let_def grows_def split: outcome.splits)
qed

lemma grows_calls [log_intros]:
  "obeys grows (Lstat p)" "obeys grows (Open p)" "obeys grows (ReadFile p)" "obeys grows Settle" "obeys grows (SyncDir p)"
  "obeys grows (Run c)" "obeys grows (Post t b)" "obeys grows Now" "obeys grows (CreateExcl p m)" "obeys grows (Write p d)"
  "obeys grows (Chmod p m)" "obeys grows (Remove p)" "obeys grows (RemoveAll p)" "obeys grows (Mkdir p m)" "obeys grows (MkdirAll p m)"
  "obeys grows (Rename p q)" "obeys grows (MkdirTemp p t)" "obeys grows (CreateTemp p t)" "obeys grows (TryLock p)"
proof -
  have *: "obeys grows (Lstat p)" "obeys grows (Open p)" "obeys grows Settle" for p
    unfolding Lstat_def Open_def Settle_def by (intro grows_call; simp add: grows_def)+
  show "obeys grows (Lstat p)" "obeys grows (Open p)" "obeys grows Settle" by (rule *)+
  show "obeys grows (ReadFile p)" "obeys grows (SyncDir p)"
    unfolding ReadFile_def SyncDir_def by (intro log_intros * grows_call; simp add: grows_def)+
  show "obeys grows (Run c)" "obeys grows (Post t b)" unfolding Run_def Post_def by (intro grows_call; simp add: grows_def)+
  show "obeys grows Now" by (simp add: obeys_def Now_def grows_def)
  show "obeys grows (CreateExcl p m)" "obeys grows (Write p d)" "obeys grows (Chmod p m)" "obeys grows (Remove p)"
    "obeys grows (RemoveAll p)" "obeys grows (Mkdir p m)" "obeys grows (MkdirAll p m)" "obeys grows (Rename p q)"
    "obeys grows (MkdirTemp p t)" "obeys grows (CreateTemp p t)" "obeys grows (TryLock p)"
    unfolding CreateExcl_def Write_def Chmod_def Remove_def RemoveAll_def Mkdir_def MkdirAll_def Rename_def MkdirTemp_def CreateTemp_def TryLock_def
    by (intro grows_call; simp add: grows_def put_contents_def Let_def split: option.split node.split)+
qed

interpretation framed: host_relation "frame Ps" for Ps
  by unfold_locales (auto intro: frame_trans)

lemma near_obeys: "near Ps m \<longleftrightarrow> obeys (frame Ps) m"
  by (simp add: near_def obeys_def)

lemma grows_files [log_intros]:
  "obeys grows (copyAndVerify a b n x m)" "obeys grows (copyRollbackFile a b)" "obeys grows (hashRegularFile p n)" "obeys grows (fileSize p)"
  "obeys grows (writeExclusive p d m)" "obeys grows (not_exists p message)" "obeys grows (LoadPublicKey p)"
  by (auto simp: copyAndVerify_def copyRollbackFile_def hashRegularFile_def fileSize_def writeExclusive_def not_exists_def LoadPublicKey_def Let_def
      intro!: log_intros split: option.split)

lemma grows_states [log_intros]:
  "obeys grows (replace_file p raw m)" "obeys grows (WriteUpdateState T p st)" "obeys grows (ReadUpdateState T p)"
  "obeys grows (WriteUpdateTransaction T p t)" "obeys grows (ReadUpdateTransaction T p)" "obeys grows (loadRollbackManifest T d)"
  "obeys grows (loadStagePlan T d)" "obeys grows (systemctl a)"
  by (auto simp: replace_file_def WriteUpdateState_def ReadUpdateState_def WriteUpdateTransaction_def ReadUpdateTransaction_def
      loadRollbackManifest_def loadStagePlan_def systemctl_def Let_def intro!: log_intros split: option.split sum.split)

lemma grows_services [log_intros]: "obeys grows (serviceHealthCheck plan)" "obeys grows (PostInterruptedRecovery plan)"
  by (auto simp: serviceHealthCheck_def PostInterruptedRecovery_def restart_greeter_def Let_def intro!: log_intros)

lemma grows_create_records [log_intros]: "obeys grows (create_records root t seen cs)"
  by (induction cs arbitrary: seen) (auto simp: create_record_def Let_def intro!: log_intros split: option.split sum.split node.split)

lemma grows_CreateRollback [log_intros]: "obeys grows (CreateRollback T r plan d now)"
  by (auto simp: CreateRollback_def Let_def intro!: log_intros split: option.split sum.split)

lemma grows_verify_records [log_intros]: "obeys grows (verify_records root d seen fs)"
  by (induction fs arbitrary: seen) (auto simp: verify_record_def Let_def intro!: log_intros split: option.split sum.split node.split)

lemma grows_VerifyRollback [log_intros]: "obeys grows (VerifyRollback T root d)"
  by (auto simp: VerifyRollback_def intro!: log_intros)

lemma grows_RestoreRollback [log_intros]: "obeys grows (RestoreRollback T root d)"
  by (auto simp: RestoreRollback_def prepare_record_def restore_record_def replace_target_def Let_def intro!: log_intros)

lemma grows_validate_staged [log_intros]: "obeys grows (validate_staged S seen cs)"
  by (induction cs arbitrary: seen) (auto simp: validate_payload_def Let_def intro!: log_intros split: option.split node.split)

lemma grows_install [log_intros]:
  assumes "obeys grows check" "obeys grows recover"
  shows "obeys grows (installStagedWithTransaction T root S d X now allow (Some check) (Some recover))"
proof -
  have "obeys grows (rollbackInstallFailure T root d X (Some recover) e)" for e
    using assms by (auto simp: rollbackInstallFailure_def intro!: log_intros split: option.split)
  then show ?thesis using assms
    by (auto simp: installStagedWithTransaction_def installStaged_def validateStagedPayload_def prepare_component_def apply_component_def
        replace_target_def Let_def intro!: log_intros split: option.split)
qed

lemma grows_recover [log_intros]: "obeys grows (recoverPendingUpdate T root X St)"
  by (auto simp: recoverPendingUpdate_def Let_def intro!: log_intros split: option.split)

lemma grows_stage_components [log_intros]: "obeys grows (stage_components t zs fls cs)"
  by (induction cs) (auto simp: stageEntry_def Let_def intro!: log_intros split: option.split)

lemma grows_VerifyAndStage [log_intros]: "obeys grows (zip_OpenReader T p)" "obeys grows (VerifyPackage T p k a v)" "obeys grows (VerifyAndStage T p k a v S)"
  by (auto simp: VerifyAndStage_def VerifyPackage_def zip_OpenReader_def Let_def intro!: log_intros split: option.split)

lemma grows_worker [log_intros]:
  "obeys grows (writeWorkerFile p raw)" "obeys grows (writeWorkerJournal W p j)" "obeys grows (workerRollback W ops job)"
  "obeys grows (newer a b)" "obeys grows (saved_version W D)" "obeys grows (workerRequest ops u payload)"
  by (auto simp: writeWorkerFile_def writeWorkerJournal_def workerRollback_def newer_def saved_version_def workerRequest_def
      intro!: log_intros split: option.split sum.split prod.split)

lemma grows_finish [log_intros]: "obeys grows (workerInstalledVersion W ops D)" "obeys grows (finishWorker W ops D p j)"
  by (auto simp: workerInstalledVersion_def finishWorker_def intro!: log_intros split: option.split)

lemma grows_worker_install [log_intros]: "obeys grows (worker_install W ops D p journal S plan)"
  by (auto simp: worker_install_def UpdateHealthCallbacks_def Let_def intro!: log_intros)

section \<open>What the worker writes\<close>

lemma CreateTemp_name: "CreateTemp d t h = (Done p, h') \<Longrightarrow> \<exists>x. p = d @ [t @ x] \<and> look h p = None \<and> files h' = put p (Regular 384 []) (files h)"
  by (auto simp: CreateTemp_def call_def Let_def split: outcome.splits if_splits)

lemma frame_put: "covers Ps p \<Longrightarrow> files h' = put p n (files h) \<Longrightarrow> frame Ps h h'"
  by (auto simp: frame_def covers_def)

lemma near_writeWorkerFile:
  assumes "covers Ps (d @ [x])" "\<And>y. covers Ps (d @ [''.job-'' @ y])"
  shows "near Ps (writeWorkerFile (d @ [x]) raw)"
proof -
  have temp: "near Ps (CreateTemp d ''.job-'')"
    unfolding near_def
  proof (intro allI impI)
    fix h r h' assume "CreateTemp d ''.job-'' h = (r, h')"
    then have "(\<exists>y. files h' = put (d @ [''.job-'' @ y]) (Regular 384 []) (files h)) \<or> files h' = files h"
      by (auto simp: CreateTemp_def call_def Let_def split: outcome.splits if_splits)
    then show "frame Ps h h'" using frame_put [OF assms(2)] frame_refl by blast
  qed
  have body: "near Ps (deferred (hbind (htry (hthen (Chmod n 384) (hthen (Write n raw) Settle))) (\<lambda>written. hbind (htry Settle) (\<lambda>closed.
      case (written, closed) of (Inl e, _) \<Rightarrow> hfail e | (_, Inl e) \<Rightarrow> hfail e | _ \<Rightarrow> hthen (Rename n (d @ [x])) (SyncDir d)))) (Remove n))"
    if "covers Ps n" for n using that assms(1) by (auto intro!: near_intros split: sum.split)
  show ?thesis unfolding writeWorkerFile_def butlast_snoc
  proof (rule near_hbind_of [OF temp])
    fix h n h' assume "CreateTemp d ''.job-'' h = (Done n, h')"
    then obtain y where "n = d @ [''.job-'' @ y]" using CreateTemp_name by blast
    with assms(2) show "near Ps (deferred (hbind (htry (hthen (Chmod n 384) (hthen (Write n raw) Settle))) (\<lambda>written. hbind (htry Settle) (\<lambda>closed.
      case (written, closed) of (Inl e, _) \<Rightarrow> hfail e | (_, Inl e) \<Rightarrow> hfail e | _ \<Rightarrow> hthen (Rename n (d @ [x])) (SyncDir d)))) (Remove n))" by (intro body) simp
  qed
qed

lemma near_newer [near_intros]: "near Ps (newer a b)"
  by (auto simp: newer_def intro: near_intros split: option.split)

lemma near_worker_reads [near_intros]: "near Ps (workerRequest ops u payload)" "near Ps (workerRollback W ops j)" "near Ps (saved_version W D)"
  "near Ps (LoadPublicKey p)" "near Ps (VerifyPackage T p k a v)" "near Ps (zip_OpenReader T p)"
  by (auto simp: workerRequest_def workerRollback_def saved_version_def LoadPublicKey_def VerifyPackage_def zip_OpenReader_def
      intro!: near_intros split: option.split sum.split)

text \<open>The version file and the temporary files beside it.\<close>

definition version_paths :: "path \<Rightarrow> path set" where
  "version_paths D = {D @ [''installed-version.json'']} \<union> {D @ [''.job-'' @ y] |y. True}"

lemma near_version:
  assumes "version_paths D \<subseteq> Ps"
  shows "near Ps (workerInstalledVersion W ops D)" "near Ps (writeWorkerFile (D @ [''installed-version.json'']) raw)"
proof -
  have 1: "covers Ps (D @ [''installed-version.json''])" and 2: "covers Ps (D @ [''.job-'' @ y])" for y
    by (rule covers_intros(1), use assms in \<open>simp add: version_paths_def\<close>) (rule covers_intros(1), use assms in \<open>auto simp: version_paths_def\<close>)
  show w: "near Ps (writeWorkerFile (D @ [''installed-version.json'']) raw)" for raw by (rule near_writeWorkerFile [OF 1 2])
  show "near Ps (workerInstalledVersion W ops D)"
    by (auto simp: workerInstalledVersion_def intro!: near_intros w split: option.split)
qed

lemma below_covers: "covers {D} (D @ s)"
  by (simp add: covers_def)

lemma near_in_directory:
  "near {D} (writeWorkerFile (D @ [x]) raw)" "near {D} (writeWorkerJournal W (D @ [x]) j)" "near {D} (workerInstalledVersion W ops D)"
  "near {D} (finishWorker W ops D (D @ [x]) j)" "near {D} (Remove (D @ [x]))"
proof -
  show w: "near {D} (writeWorkerFile (D @ [x]) raw)" for x raw by (rule near_writeWorkerFile [OF below_covers below_covers])
  show r: "near {D} (Remove (D @ [x]))" by (rule near_entry(4) [OF below_covers])
  show "near {D} (writeWorkerJournal W (D @ [x]) j)" unfolding writeWorkerJournal_def by (rule w)
  show v: "near {D} (workerInstalledVersion W ops D)"
    by (auto simp: workerInstalledVersion_def intro!: near_intros w split: option.split)
  show "near {D} (finishWorker W ops D (D @ [x]) j)"
    by (auto simp: finishWorker_def intro!: near_intros w r v split: option.split)
qed

lemma near_stage_components: "covers Ps t \<Longrightarrow> near Ps (stage_components t zs fls cs)"
  by (induction cs) (auto simp: stageEntry_def Let_def intro!: near_intros split: option.split)

lemma near_VerifyAndStage:
  assumes "covers Ps S" "covers Ps (sibling S ''.tmp'')"
  shows "near Ps (VerifyAndStage T p k a v (Some S))"
  using assms by (auto simp: VerifyAndStage_def Let_def intro!: near_intros near_stage_components)

lemma MkdirTemp_name: "MkdirTemp d t h = (Done p, h') \<Longrightarrow> \<exists>x. p = d @ [t @ x]"
  by (auto simp: MkdirTemp_def call_def Let_def split: outcome.splits if_splits)

lemma near_worker_stage: "near {D} (worker_stage W ops D (D @ [x]) pk key j)"
proof -
  have stage: "near {D} (hthen (Remove S) (hbind (VerifyAndStage T pk key a v (Some S)) (\<lambda>plan. hthen (hensure (c plan) e) (hret (S, plan)))))"
    if "S = D @ [x, ''stage-'' @ y]" for S T a v c e y
  proof -
    have "covers {D} S" "covers {D} (sibling S ''.tmp'')" using that by (simp_all add: covers_def sibling_def butlast_append)
    then show ?thesis by (intro near_hthen near_hbind near_VerifyAndStage near_entry(4) near_hret near_hensure)
  qed
  have tail: "near {D} (hbind (MkdirTemp (D @ [x]) ''stage-'') (\<lambda>S. hthen (Remove S)
      (hbind (VerifyAndStage T pk key a v (Some S)) (\<lambda>plan. hthen (hensure (c plan) e) (hret (S, plan))))))" for T a v c e
  proof (rule near_hbind_of [OF near_temporary(1) [OF below_covers]])
    fix h S h' assume "MkdirTemp (D @ [x]) ''stage-'' h = (Done S, h')"
    then obtain y where "S = D @ [x, ''stage-'' @ y]" using MkdirTemp_name by fastforce
    then show "near {D} (hthen (Remove S) (hbind (VerifyAndStage T pk key a v (Some S)) (\<lambda>plan. hthen (hensure (c plan) e) (hret (S, plan)))))"
      by (rule stage)
  qed
  show ?thesis unfolding worker_stage_def Let_def
    by (rule near_hbind [OF near_in_directory(3) near_hbind [OF near_htry [OF near_worker_reads(5)] near_hthen [OF near_hensure tail]]])
qed

lemma near_worker_download: "near {D} (worker_download W ops D (D @ [q]) (D @ [x, y]) j)"
proof -
  have "near {D} (writeWorkerFile ((D @ [x]) @ [y]) raw)" for raw by (rule near_writeWorkerFile) (simp_all add: covers_def)
  then show ?thesis by (auto simp: worker_download_def rejected_def Let_def intro!: near_intros near_in_directory(5))
qed

lemma near_worker_poll: "near {D} (worker_poll W ops D (D @ [q]))"
  by (auto simp: worker_poll_def Let_def intro!: near_intros near_in_directory split: option.split sum.split)

lemma near_worker_resume:
  assumes "\<And>j. unjson_workerJournal W raw = Some j \<Longrightarrow> wj_Phase j \<noteq> ''executing''"
  shows "near {D} (worker_resume W ops D (D @ [q]) raw)"
  using assms by (auto simp: worker_resume_def intro!: near_intros near_in_directory split: option.split)

lemma worker_poll_valid: "worker_poll W ops D p h = (Done (Inr journal), h') \<Longrightarrow> validRemoteJob (wj_Job journal) (wo_ClientID ops)"
  by (auto simp: worker_poll_def host_simps Let_def split: if_splits option.splits sum.splits prod.splits)
    (metis (full_types) old.unit.exhaust sumE)+

lemma worker_resume_valid:
  assumes "worker_resume W ops D p raw h = (Done (Inr journal), h')"
  shows "validRemoteJob (wj_Job journal) (wo_ClientID ops)"
  using assms
  by (auto simp: worker_resume_def worker_interrupted_def host_simps Let_def split: if_splits option.splits sum.splits prod.splits)

section \<open>Authority\<close>

text \<open>The worker installs a job of its client in its window, with a package whose digest the job names
  and which verifies with the key of the key file as the stable release of the job.\<close>

definition holds_key :: "(path \<Rightarrow> node option) \<Rightarrow> path \<Rightarrow> string \<Rightarrow> bool" where
  "holds_key old p key \<longleftrightarrow> (\<exists>raw. ((\<exists>m. old p = Some (Regular m raw)) \<or> old p = Some (Special (Some raw))) \<and> Std_decode (TrimSpace raw) = Some key)"

definition trusted_package :: "tools \<Rightarrow> string \<Rightarrow> RemoteJob \<Rightarrow> bool" where
  "trusted_package T key j \<longleftrightarrow> (\<exists>data zs current verified. hex_encode (sha256 data) = rj_PackageSHA256 j \<and> zip_NewReader T data = Some zs \<and>
     verifyPackageEntries T zs key (platform T) current = Inr verified \<and>
     m_Channel (r_Manifest verified) = ''stable'' \<and> m_ReleaseVersion (r_Manifest verified) = rj_ReleaseVersion j)"

definition authorized :: "worker_codec \<Rightarrow> WorkerOptions \<Rightarrow> host \<Rightarrow> RemoteJob \<Rightarrow> host \<Rightarrow> bool" where
  "authorized W ops h0 j h \<longleftrightarrow> validRemoteJob j (wo_ClientID ops) \<and>
     (\<exists>key. holds_key (look h0) (wo_PublicKeyFile ops) key \<and> trusted_package (wc_tools W) key j) \<and>
     (\<exists>n. rj_NotBefore j \<le> Unix (hclock h0 n) \<and> Unix (hclock h0 n) < rj_ExpiresAt j) \<and>
     (worker_url ops (rj_ID j @ ''/start''), None, Some 204) \<in> set (drop (length (requests h0)) (requests h))"

lemma authorized_grows: "authorized W ops h0 j h \<Longrightarrow> grows h0 h \<Longrightarrow> grows h h' \<Longrightarrow> authorized W ops h0 j h'"
  by (auto simp: authorized_def grows_def prefix_def)

lemma triple_grows:
  assumes "triple P m Q E" "obeys grows m"
  shows "triple (\<lambda>h. P h \<and> grows h0 h) m (\<lambda>a h. Q a h \<and> grows h0 h) (\<lambda>e h. E e h \<and> grows h0 h)"
proof (rule tripleI)
  fix h h' a assume "P h \<and> grows h0 h" "m h = (Done a, h')"
  then show "Q a h' \<and> grows h0 h'" using tripleD(1) [OF assms(1)] obeysD [OF assms(2)] log.trans by blast
next
  fix h h' r assume *: "P h \<and> grows h0 h" "m h = (r, h')" "\<And>a. r \<noteq> Done a"
  then have "E (case r of Failed e \<Rightarrow> Some e | _ \<Rightarrow> None) h'" using tripleD(2,3) [OF assms(1)] by (cases r) auto
  with * show "E (case r of Failed e \<Rightarrow> Some e | _ \<Rightarrow> None) h' \<and> grows h0 h'" using obeysD [OF assms(2)] log.trans by blast
qed

lemma triple_quiet:
  assumes "near Ps m" "off Ps P" "obeys grows m"
  shows "triple (\<lambda>h. P h \<and> grows h0 h) m (\<lambda>_ h. P h \<and> grows h0 h) (\<lambda>_ h. P h \<and> grows h0 h)"
  by (rule triple_grows [OF triple_near [OF assms(1,2)] assms(3)])

lemma grows_job [log_intros]: "obeys grows (worker_poll W ops D p)" "obeys grows (worker_resume W ops D p raw)" "obeys grows (worker_job W ops D p)"
proof -
  show p: "obeys grows (worker_poll W ops D p)"
    by (auto simp: worker_poll_def Let_def intro!: log_intros split: option.split sum.split prod.split)
  have "obeys grows (worker_interrupted W ops p j)" for j
    by (auto simp: worker_interrupted_def Let_def intro!: log_intros split: sum.split)
  then show r: "obeys grows (worker_resume W ops D p raw)" for raw
    by (auto simp: worker_resume_def intro!: log_intros split: option.split)
  show "obeys grows (worker_job W ops D p)"
    by (auto simp: worker_job_def intro!: log_intros p r split: sum.split)
qed

lemma grows_prepare [log_intros]: "obeys grows (worker_download W ops D p q j)" "obeys grows (worker_stage W ops D d q key j)"
  by (auto simp: worker_download_def worker_stage_def rejected_def Let_def intro!: log_intros split: prod.split)

lemma writeWorkerFile_Done:
  assumes "writeWorkerFile p raw h = (Done u, h')"
  shows "look h' p = Some (Regular 384 raw)"
proof -
  from assms obtain n h1 h2 h3 h4 h5 h6 h7 h8 where w: "CreateTemp (butlast p) ''.job-'' h = (Done n, h1)" "Chmod n 384 h1 = (Done (), h2)"
    "Write n raw h2 = (Done (), h3)" "Settle h3 = (Done (), h4)" "Settle h4 = (Done (), h5)" "Rename n p h5 = (Done (), h6)"
    "SyncDir (butlast p) h6 = (Done u, h7)" "hignore (Remove n) h7 = (Done (), h')"
    by (auto simp: writeWorkerFile_def host_simps split_sum_ex)
  have "look h1 n = Some (Regular 384 [])" using CreateTemp_name [OF w(1)] by auto
  from Chmod_Done [OF w(2) this] have "look h2 n = Some (Regular 384 [])" by simp
  from Write_Done [OF w(3) this] Settle_Done [OF w(4)] Settle_Done [OF w(5)] have "look h5 n = Some (Regular 384 raw)" by simp
  with Rename_Done [OF w(6)] have ap: "apart n p" and "look h6 p = Some (Regular 384 raw)"
    using look_move_below [of n p "files h5" "[]"] by (auto simp: apart_def)
  with near_reads [OF near_reading(5) w(7)] have "look h7 p = Some (Regular 384 raw)" by simp
  moreover have "look h' p = look h7 p"
    using w(8) frame_apart [OF near_frame [OF near_hignore [OF near_entry(4) [of "{n}" n]] w(8)]] ap by (simp add: covers_def apart_sym)
  ultimately show ?thesis by simp
qed

lemma worker_download_Done:
  assumes "worker_download W ops D p pk j h = (Done b, h')" b
  shows "\<exists>data. look h' pk = Some (Regular 384 data) \<and> hex_encode (sha256 data) = rj_PackageSHA256 j"
proof -
  from assms obtain data h1 where "hex_encode (sha256 data) = rj_PackageSHA256 j" "writeWorkerFile pk data h1 = (Done (), h')"
    by (auto simp: worker_download_def rejected_def host_simps Let_def split: if_splits prod.splits)
  with writeWorkerFile_Done show ?thesis by blast
qed

lemma id_apart_version:
  assumes "valid_id x" "q \<in> version_paths D"
  shows "apart (D @ [x, y]) q"
proof -
  have "CHR ''.'' \<notin> set x" using assms(1) by (auto simp: valid_id_def list_all_iff id_char_def char_class_defs)
  moreover from assms(2) obtain z where "q = D @ [z]" "CHR ''.'' \<in> set z" by (auto simp: version_paths_def)
  ultimately show ?thesis by (auto simp: apart_def)
qed

lemma worker_stage_Done:
  assumes id: "valid_id x" and pk: "look h (D @ [x, y]) = Some (Regular 384 data)"
    and run: "worker_stage W ops D d (D @ [x, y]) key j h = (Done r, h')"
  shows "\<exists>zs current verified. zip_NewReader (wc_tools W) data = Some zs \<and>
     verifyPackageEntries (wc_tools W) zs key (platform (wc_tools W)) current = Inr verified \<and>
     m_Channel (r_Manifest verified) = ''stable'' \<and> m_ReleaseVersion (r_Manifest verified) = rj_ReleaseVersion j"
proof -
  let ?pk = "D @ [x, y]" and ?T = "wc_tools W"
  from run obtain current h1 v h2 where w: "workerInstalledVersion W ops D h = (Done current, h1)"
    and v: "VerifyPackage ?T ?pk key (platform ?T) current h1 = (Done v, h2)"
    and ok: "m_Channel (r_Manifest v) = ''stable''" "m_ReleaseVersion (r_Manifest v) = rj_ReleaseVersion j"
    by (auto simp: worker_stage_def host_simps Let_def split_sum_ex)
  have "look h1 ?pk = look h ?pk"
    using frame_apart [OF near_frame [OF near_version(1) [OF order.refl] w]] id_apart_version [OF id] by blast
  with pk v obtain zs where "zip_NewReader ?T data = Some zs" "verifyPackageEntries ?T zs key (platform ?T) current = Inr v"
    by (auto simp: VerifyPackage_def zip_OpenReader_def of_sum_def host_simps split: option.splits sum.splits dest!: ReadFile_Done)
  with ok show ?thesis by blast
qed

text \<open>The state in which no target has changed yet.\<close>

definition untouched :: "WorkerOptions \<Rightarrow> host \<Rightarrow> host \<Rightarrow> bool" where
  "untouched ops h0 h \<longleftrightarrow> before (look h0) (wo_Root ops) (transaction_path ops) h \<and> look h (wo_PublicKeyFile ops) = look h0 (wo_PublicKeyFile ops)"

definition accounted :: "worker_codec \<Rightarrow> WorkerOptions \<Rightarrow> host \<Rightarrow> host \<Rightarrow> bool" where
  "accounted W ops h0 h \<longleftrightarrow> (\<forall>t \<in> targets (wo_Root ops). look h t = look h0 t) \<or> (\<exists>j. authorized W ops h0 j h)"

lemma untouched_accounted: "untouched ops h0 h \<Longrightarrow> accounted W ops h0 h"
  by (simp add: untouched_def before_def accounted_def)

lemma off_untouched:
  assumes "\<forall>q \<in> Ps. apart (transaction_path ops) q \<and> apart (wo_PublicKeyFile ops) q \<and> (\<forall>t \<in> targets (wo_Root ops). apart q t)"
  shows "off Ps (untouched ops h0)"
  unfolding untouched_def using assms by (intro off_conj off_before off_look) auto

text \<open>Permission, once recorded in the log, accounts for whatever follows.\<close>

lemma accounted_install:
  assumes "obeys grows m"
  shows "triple (\<lambda>h. authorized W ops h0 j h \<and> grows h0 h) m (\<lambda>_. accounted W ops h0) (\<lambda>_. accounted W ops h0)"
proof -
  have "accounted W ops h0 h'" if "authorized W ops h0 j h" "grows h0 h" "m h = (r, h')" for h h' r
    using authorized_grows [OF that(1,2) obeysD [OF assms that(3)]] by (auto simp: accounted_def)
  then show ?thesis by (intro tripleI) auto
qed

lemma start_triple:
  assumes valid: "validRemoteJob j (wo_ClientID ops)" and key: "holds_key (look h0) (wo_PublicKeyFile ops) key" "trusted_package (wc_tools W) key j"
    and window: "rj_NotBefore j \<le> Unix (hclock h0 n)" "Unix (hclock h0 n) < rj_ExpiresAt j"
    and off: "off {D} (untouched ops h0)"
  shows "triple (\<lambda>h. untouched ops h0 h \<and> grows h0 h)
    (hbind (workerRequest ops (rj_ID j @ ''/start'') None) (\<lambda>(status, _).
       if status \<noteq> 204 then rejected (D @ [q]) status message (hret ()) else worker_install W ops D p journal S plan))
    (\<lambda>_. accounted W ops h0) (\<lambda>_. accounted W ops h0)"
proof (rule triple_bind)
  let ?U = "\<lambda>h. untouched ops h0 h \<and> grows h0 h"
  have off0: "off {} (untouched ops h0)" by (rule off_untouched) simp
  show "triple ?U (workerRequest ops (rj_ID j @ ''/start'') None)
      (\<lambda>r h. ?U h \<and> (fst r = 204 \<longrightarrow> authorized W ops h0 j h)) (\<lambda>_. accounted W ops h0)"
  proof (rule tripleI)
    fix h h' r assume U: "?U h" and run: "workerRequest ops (rj_ID j @ ''/start'') None h = (Done r, h')"
    have "?U h'" using tripleD(1) [OF triple_quiet [OF near_worker_reads(1) off0 grows_worker(6)] U run] .
    moreover have "requests h' = requests h @ [(worker_url ops (rj_ID j @ ''/start''), None, Some (fst r))]"
      using run by (auto simp: workerRequest_def Post_def dest!: call_Done)
    ultimately show "?U h' \<and> (fst r = 204 \<longrightarrow> authorized W ops h0 j h')"
      using U valid key window by (auto simp: authorized_def grows_def prefix_def)
  next
    fix h h' r assume U: "?U h" and run: "workerRequest ops (rj_ID j @ ''/start'') None h = (r, h')"
    have "untouched ops h0 h'" using offD [OF off0 near_worker_reads(1) run] U by blast
    then show "accounted W ops h0 h'" by (rule untouched_accounted)
  qed
  fix r :: "nat \<times> string"
  have no: "triple ?U (rejected (D @ [q]) status message (hret ())) (\<lambda>_. accounted W ops h0) (\<lambda>_. accounted W ops h0)" for status
    by (rule triple_weaken [OF triple_quiet [OF _ off]])
      (auto simp: rejected_def intro!: near_intros near_in_directory(5) log_intros untouched_accounted)
  have yes: "triple (\<lambda>h. ?U h \<and> authorized W ops h0 j h) (worker_install W ops D p journal S plan) (\<lambda>_. accounted W ops h0) (\<lambda>_. accounted W ops h0)"
    by (rule triple_weaken [OF accounted_install [OF grows_worker_install, of W ops h0 j]]) auto
  show "triple (\<lambda>h. ?U h \<and> (fst r = 204 \<longrightarrow> authorized W ops h0 j h)) (case r of (status, _) \<Rightarrow>
      if status \<noteq> 204 then rejected (D @ [q]) status message (hret ()) else worker_install W ops D p journal S plan)
      (\<lambda>_. accounted W ops h0) (\<lambda>_. accounted W ops h0)"
  proof (cases "fst r = 204")
    case True
    with yes show ?thesis by (cases r) simp
  next
    case False
    with no show ?thesis by (cases r) simp
  qed
qed

lemma LoadPublicKey_key: "LoadPublicKey p h = (Done key, h') \<Longrightarrow> holds_key (look h) p key"
  by (auto simp: LoadPublicKey_def holds_key_def host_simps split: option.splits if_splits dest!: ReadFile_Done)

lemma triple_now:
  assumes "\<And>h n. P h \<Longrightarrow> P (h\<lparr>hstep := n\<rparr>)" "\<And>h. P h \<Longrightarrow> grows h0 h"
  shows "triple P Now (\<lambda>now h. P h \<and> (\<exists>n. now = hclock h0 n)) E"
  using assms by (auto simp: triple_def Now_def grows_def)

lemma triple_fact:
  assumes "triple P m Q E" "\<And>h h' a. P h \<Longrightarrow> R h \<Longrightarrow> m h = (Done a, h') \<Longrightarrow> F a h'"
  shows "triple (\<lambda>h. P h \<and> R h) m (\<lambda>a h. Q a h \<and> F a h) E"
  by (rule tripleI) (use assms(2) tripleD [OF assms(1)] in \<open>auto split: res.splits\<close>)

lemma quiet_accounted:
  assumes "near {D} c" "obeys grows c" "off {D} (untouched ops h0)"
  shows "triple (\<lambda>h. untouched ops h0 h \<and> grows h0 h) c (\<lambda>_ h. untouched ops h0 h \<and> grows h0 h) (\<lambda>_. accounted W ops h0)"
  by (rule triple_weaken [OF triple_quiet [OF assms(1,3,2)]]) (auto intro: untouched_accounted)

lemma worker_start_triple:
  assumes valid: "validRemoteJob (wj_Job journal) (wo_ClientID ops)" and off: "off {D} (untouched ops h0)"
    and key: "holds_key (look h0) (wo_PublicKeyFile ops) key"
    and window: "rj_NotBefore (wj_Job journal) \<le> Unix (hclock h0 n)" "Unix (hclock h0 n) < rj_ExpiresAt (wj_Job journal)"
  shows "triple (\<lambda>h. (untouched ops h0 h \<and> grows h0 h) \<and> trusted_package (wc_tools W) key (wj_Job journal))
    (worker_start W ops D (D @ [q]) journal staged) (\<lambda>_. accounted W ops h0) (\<lambda>_. accounted W ops h0)"
proof (rule triple_pre, erule conjunct2)
  let ?U = "\<lambda>h. untouched ops h0 h \<and> grows h0 h" and ?A = "\<lambda>_ :: host_error option. accounted W ops h0"
  assume "trusted_package (wc_tools W) key (wj_Job journal)"
  note go = start_triple [OF valid key this window off]
  have tick: "triple ?U Now (\<lambda>_. ?U) ?A" by (rule quiet_accounted [OF near_reading(8) grows_calls(8) off])
  have check: "triple ?U (hensure b e) (\<lambda>_. ?U) ?A" for b e by (rule quiet_accounted [OF near_hensure log.obeys_hensure off])
  have "triple ?U (worker_start W ops D (D @ [q]) journal staged) (\<lambda>_. accounted W ops h0) ?A"
    unfolding worker_start_def Let_def by (rule triple_bind [OF tick triple_then [OF check go]])
  then show "triple (\<lambda>h. ?U h \<and> trusted_package (wc_tools W) key (wj_Job journal)) (worker_start W ops D (D @ [q]) journal staged)
      (\<lambda>_. accounted W ops h0) ?A" by (rule triple_weaken) auto
qed

definition downloaded :: "path \<Rightarrow> RemoteJob \<Rightarrow> host \<Rightarrow> bool" where
  "downloaded p j h \<longleftrightarrow> (\<exists>data. look h p = Some (Regular 384 data) \<and> hex_encode (sha256 data) = rj_PackageSHA256 j)"

lemma worker_prepare_triple:
  fixes W :: worker_codec
  assumes off: "off {D} (untouched ops h0)" and id: "valid_id x"
  defines "U \<equiv> \<lambda>h. untouched ops h0 h \<and> grows h0 h" and "A \<equiv> \<lambda>_ :: host_error option. accounted W ops h0"
  shows "triple (\<lambda>h. U h \<and> True) (LoadPublicKey (wo_PublicKeyFile ops)) (\<lambda>key h. U h \<and> holds_key (look h0) (wo_PublicKeyFile ops) key) A"
    and "triple (\<lambda>h. U h \<and> True) (worker_download W ops D (D @ [q]) (D @ [x, y]) j) (\<lambda>b h. U h \<and> (b \<longrightarrow> downloaded (D @ [x, y]) j h)) A"
    and "triple (\<lambda>h. U h \<and> downloaded (D @ [x, y]) j h) (worker_stage W ops D (D @ [x]) (D @ [x, y]) key j)
      (\<lambda>_ h. U h \<and> trusted_package (wc_tools W) key j) A"
proof -
  have quiet: "triple U c (\<lambda>_. U) A" if "near {D} c" "obeys grows c" for c :: "'b hm"
    unfolding U_def A_def using that off by (rule quiet_accounted)
  show "triple (\<lambda>h. U h \<and> True) (LoadPublicKey (wo_PublicKeyFile ops)) (\<lambda>key h. U h \<and> holds_key (look h0) (wo_PublicKeyFile ops) key) A"
    by (rule triple_fact [OF quiet [OF near_worker_reads(4) grows_files(7)]])
      (auto simp: U_def holds_key_def untouched_def dest!: LoadPublicKey_key)
  show "triple (\<lambda>h. U h \<and> True) (worker_download W ops D (D @ [q]) (D @ [x, y]) j) (\<lambda>b h. U h \<and> (b \<longrightarrow> downloaded (D @ [x, y]) j h)) A"
    by (rule triple_fact [OF quiet [OF near_worker_download grows_prepare(1)]]) (auto simp: downloaded_def dest: worker_download_Done)
  show "triple (\<lambda>h. U h \<and> downloaded (D @ [x, y]) j h) (worker_stage W ops D (D @ [x]) (D @ [x, y]) key j)
      (\<lambda>_ h. U h \<and> trusted_package (wc_tools W) key j) A"
  proof (rule triple_fact [OF quiet [OF near_worker_stage grows_prepare(2)]])
    show "trusted_package (wc_tools W) key j" if "downloaded (D @ [x, y]) j h" "worker_stage W ops D (D @ [x]) (D @ [x, y]) key j h = (Done r, h')" for h h' r
      using that worker_stage_Done [OF id _ that(2)] by (auto simp: trusted_package_def downloaded_def)
  qed
qed

lemma worker_execute_triple:
  assumes valid: "validRemoteJob (wj_Job journal) (wo_ClientID ops)" and off: "off {D} (untouched ops h0)"
  shows "triple (\<lambda>h. untouched ops h0 h \<and> grows h0 h) (worker_execute W ops D (D @ [q]) journal)
    (\<lambda>_. accounted W ops h0) (\<lambda>_. accounted W ops h0)"
proof -
  let ?U = "\<lambda>h. untouched ops h0 h \<and> grows h0 h" and ?A = "\<lambda>_ :: host_error option. accounted W ops h0"
  let ?j = "wj_Job journal" and ?K = "wo_PublicKeyFile ops" let ?dir = "D @ [rj_ID ?j]" let ?pk = "D @ [rj_ID ?j, ''package.zip'']"
  have "valid_id (rj_ID ?j)" using valid by (simp add: validRemoteJob_def)
  note prepare = worker_prepare_triple [OF off this]
  let ?tail = "\<lambda>key b. if \<not> b then hret () else hbind (worker_stage W ops D ?dir ?pk key ?j) (worker_start W ops D (D @ [q]) journal)"
  have tail: "triple (\<lambda>h. ?U h \<and> (b \<longrightarrow> downloaded ?pk ?j h)) (?tail key b) (\<lambda>_. accounted W ops h0) ?A"
    if "holds_key (look h0) ?K key" "rj_NotBefore ?j \<le> Unix (hclock h0 n)" "Unix (hclock h0 n) < rj_ExpiresAt ?j" for b key n
    using triple_bind [OF prepare(3) worker_start_triple [OF valid off that]] by (auto intro!: triple_hret untouched_accounted)
  have mk: "triple ?U (MkdirAll ?dir 448) (\<lambda>_ h. ?U h \<and> True) ?A"
    using quiet_accounted [OF near_MkdirAll [OF leads_intros(1) [OF below_covers]] grows_calls(15) off] by simp
  let ?work = "hbind (LoadPublicKey ?K) (\<lambda>key. hthen (MkdirAll ?dir 448) (hbind (worker_download W ops D (D @ [q]) ?pk ?j) (?tail key)))"
  have work: "triple (\<lambda>h. ?U h \<and> True) ?work (\<lambda>_. accounted W ops h0) ?A"
    if "rj_NotBefore ?j \<le> Unix (hclock h0 n)" "Unix (hclock h0 n) < rj_ExpiresAt ?j" for n
  proof (rule triple_bind [OF prepare(1)], rule triple_pre, erule conjunct2)
    fix key assume k: "holds_key (look h0) ?K key"
    have "triple ?U (hthen (MkdirAll ?dir 448) (hbind (worker_download W ops D (D @ [q]) ?pk ?j) (?tail key))) (\<lambda>_. accounted W ops h0) ?A"
      by (rule triple_then [OF mk triple_bind [OF prepare(2) tail [OF k that]]])
    then show "triple (\<lambda>h. ?U h \<and> holds_key (look h0) ?K key) (hthen (MkdirAll ?dir 448)
        (hbind (worker_download W ops D (D @ [q]) ?pk ?j) (?tail key))) (\<lambda>_. accounted W ops h0) ?A" by (rule triple_weaken) auto
  qed
  have forget: "triple ?U (Remove (D @ [q])) (\<lambda>_. accounted W ops h0) ?A"
    by (rule triple_weaken [OF quiet_accounted [OF near_in_directory(5) grows_calls(12) off]]) (auto intro: untouched_accounted)
  have now: "triple ?U Now (\<lambda>t h. ?U h \<and> (\<exists>n. t = hclock h0 n)) ?A"
    by (rule triple_now) (auto simp: untouched_def before_def grows_def)
  show ?thesis unfolding worker_execute_def Let_def append_assoc append_Cons append_Nil
  proof (rule triple_bind [OF now], rule triple_pre, erule conjunct2, elim exE)
    fix t n assume "t = hclock h0 n"
    then have "triple ?U (if Unix t < rj_NotBefore ?j \<or> Unix t \<ge> rj_ExpiresAt ?j then Remove (D @ [q]) else ?work) (\<lambda>_. accounted W ops h0) ?A"
      using forget work [of n] by auto
    then show "triple (\<lambda>h. ?U h \<and> (\<exists>n. t = hclock h0 n))
      (if Unix t < rj_NotBefore ?j \<or> Unix t \<ge> rj_ExpiresAt ?j then Remove (D @ [q]) else ?work) (\<lambda>_. accounted W ops h0) ?A"
      by (rule triple_weaken) auto
  qed
qed

section \<open>A run\<close>

text \<open>No journal says that an execution was under way.\<close>

definition no_execution :: "worker_codec \<Rightarrow> node option \<Rightarrow> bool" where
  "no_execution W n \<longleftrightarrow> (\<forall>raw journal. ((\<exists>m. n = Some (Regular m raw)) \<or> n = Some (Special (Some raw))) \<longrightarrow>
     unjson_workerJournal W raw = Some journal \<longrightarrow> wj_Phase journal \<noteq> ''executing'')"

lemma ReadFile_journal:
  "ReadFile p h = (Done raw, h') \<Longrightarrow> unjson_workerJournal W raw = Some journal \<Longrightarrow> no_execution W (look h p) \<Longrightarrow> wj_Phase journal \<noteq> ''executing''"
  by (drule ReadFile_Done) (auto simp: no_execution_def)

lemma worker_job_triple:
  assumes off: "off {D} (untouched ops h0)" and idle: "no_execution W (look h0 (D @ [q]))"
  shows "triple (\<lambda>h. (untouched ops h0 h \<and> grows h0 h) \<and> look h (D @ [q]) = look h0 (D @ [q])) (worker_job W ops D (D @ [q]))
    (\<lambda>r h. (untouched ops h0 h \<and> grows h0 h) \<and> (\<forall>journal. r = Inr journal \<longrightarrow> validRemoteJob (wj_Job journal) (wo_ClientID ops)))
    (\<lambda>_. accounted W ops h0)"
proof -
  let ?U = "\<lambda>h. untouched ops h0 h \<and> grows h0 h" and ?A = "\<lambda>_ :: host_error option. accounted W ops h0"
  let ?valid = "\<lambda>r. \<forall>journal. r = Inr journal \<longrightarrow> validRemoteJob (wj_Job journal) (wo_ClientID ops)"
  have read: "triple (\<lambda>h. ?U h \<and> look h (D @ [q]) = look h0 (D @ [q])) (htry (ReadFile (D @ [q])))
      (\<lambda>r h. ?U h \<and> (\<forall>raw journal. r = Inr raw \<longrightarrow> unjson_workerJournal W raw = Some journal \<longrightarrow> wj_Phase journal \<noteq> ''executing'')) ?A"
    by (rule triple_fact [OF quiet_accounted [OF near_htry [OF near_reading(3)] log.obeys_htry [OF grows_calls(3)] off]])
      (use idle ReadFile_journal in \<open>auto simp: htry_Done\<close>)
  have resume: "triple ?U (worker_resume W ops D (D @ [q]) raw) (\<lambda>r h. ?U h \<and> ?valid r) ?A"
    if "\<And>journal. unjson_workerJournal W raw = Some journal \<Longrightarrow> wj_Phase journal \<noteq> ''executing''" for raw
    using triple_fact [OF quiet_accounted [OF near_worker_resume [OF that] grows_job(2) off], where R = "\<lambda>_. True" and F = "\<lambda>r _. ?valid r"]
      worker_resume_valid by fastforce
  have poll: "triple ?U (worker_poll W ops D (D @ [q])) (\<lambda>r h. ?U h \<and> ?valid r) ?A"
    using triple_fact [OF quiet_accounted [OF near_worker_poll grows_job(1) off], where R = "\<lambda>_. True" and F = "\<lambda>r _. ?valid r"]
      worker_poll_valid by fastforce
  show ?thesis unfolding worker_job_def
  proof (rule triple_bind [OF read])
    fix r show "triple (\<lambda>h. ?U h \<and> (\<forall>raw journal. r = Inr raw \<longrightarrow> unjson_workerJournal W raw = Some journal \<longrightarrow> wj_Phase journal \<noteq> ''executing''))
      (case r of Inr raw \<Rightarrow> worker_resume W ops D (D @ [q]) raw | Inl e \<Rightarrow> if e = NotExist then worker_poll W ops D (D @ [q]) else hfail e)
      (\<lambda>r h. ?U h \<and> ?valid r) ?A"
    proof (cases r)
      case (Inl e)
      then show ?thesis using poll by (auto intro!: triple_hfail untouched_accounted)
    next
      case (Inr raw)
      show ?thesis
        by (rule triple_pre [where c = "\<forall>journal. unjson_workerJournal W raw = Some journal \<longrightarrow> wj_Phase journal \<noteq> ''executing''"])
          (use Inr resume [of raw] in \<open>auto intro: triple_weaken\<close>)
    qed
  qed
qed

text \<open>Where the worker and the updater keep their files.\<close>

definition worker_placed :: "WorkerOptions \<Rightarrow> path \<Rightarrow> bool" where
  "worker_placed ops D \<longleftrightarrow> (let X = transaction_path ops in
     well_placed (wo_Root ops) [D, X, sibling X ''.lock'', wo_PublicKeyFile ops])"

lemma worker_placedD:
  assumes "worker_placed ops D"
  shows "off {D} (untouched ops h0)" "off {sibling (transaction_path ops) ''.lock''} (untouched ops h0)"
    "apart D (sibling (transaction_path ops) ''.lock'')"
proof -
  let ?X = "transaction_path ops" and ?K = "wo_PublicKeyFile ops"
  have wp: "well_placed (wo_Root ops) [D, ?X, sibling ?X ''.lock'', ?K]" using assms by (simp add: worker_placed_def Let_def)
  have A: "apart ?X D" "apart ?K D" "apart ?X (sibling ?X ''.lock'')" "apart ?K (sibling ?X ''.lock'')" "apart D (sibling ?X ''.lock'')"
    using wp by (auto simp: well_placed_def intro: apart_sym)
  have T: "\<forall>p \<in> {D, sibling ?X ''.lock''}. \<forall>t \<in> targets (wo_Root ops). apart p t" using well_placedD(2) [OF wp] by auto
  show "off {D} (untouched ops h0)" "off {sibling ?X ''.lock''} (untouched ops h0)" "apart D (sibling ?X ''.lock'')"
    using A T by (auto intro!: off_untouched)
qed

lemma worker_cycle_triple:
  assumes off: "off {D} (untouched ops h0)" and idle: "no_execution W (look h0 (D @ [q]))"
  shows "triple (\<lambda>h. (untouched ops h0 h \<and> grows h0 h) \<and> look h (D @ [q]) = look h0 (D @ [q]))
    (hbind (worker_job W ops D (D @ [q])) (\<lambda>job. case job of Inl _ \<Rightarrow> hret () | Inr journal \<Rightarrow> worker_execute W ops D (D @ [q]) journal))
    (\<lambda>_. accounted W ops h0) (\<lambda>_. accounted W ops h0)"
proof (rule triple_bind [OF worker_job_triple [OF off idle]])
  let ?U = "\<lambda>h. untouched ops h0 h \<and> grows h0 h"
  let ?valid = "\<lambda>r. \<forall>journal. r = Inr journal \<longrightarrow> validRemoteJob (wj_Job journal) (wo_ClientID ops)"
  fix r :: "unit + workerJournal"
  show "triple (\<lambda>h. ?U h \<and> ?valid r) (case r of Inl _ \<Rightarrow> hret () | Inr journal \<Rightarrow> worker_execute W ops D (D @ [q]) journal)
      (\<lambda>_. accounted W ops h0) (\<lambda>_. accounted W ops h0)"
  proof (cases r)
    case (Inr journal)
    show ?thesis
      by (rule triple_pre [where c = "validRemoteJob (wj_Job journal) (wo_ClientID ops)"])
        (use Inr worker_execute_triple [OF _ off] in \<open>auto intro: triple_weaken\<close>)
  qed (auto intro!: triple_hret untouched_accounted)
qed

lemma MkdirAll_below: "MkdirAll p m h = (r, h') \<Longrightarrow> look h' (p @ [x]) = look h (p @ [x])"
proof -
  have "p @ [x] \<noteq> take i p" for i by (metis length_append_singleton length_take lessI min.absorb_iff2 min.cobounded1 not_le)
  then have "map_of (mkdirs k n p fs) (p @ [x]) = map_of fs (p @ [x])" for k n fs by (simp add: look_mkdirs)
  then show "MkdirAll p m h = (r, h') \<Longrightarrow> look h' (p @ [x]) = look h (p @ [x])"
    by (auto simp: MkdirAll_def call_def Let_def split: outcome.splits if_splits)
qed

lemma RunWorker_triple:
  assumes place: "worker_placed ops D" and dir: "wo_Directory ops = Some D" and idle: "no_execution W (look h0 (D @ [''job.json'']))"
  shows "triple (\<lambda>h. (untouched ops h0 h \<and> look h (D @ [''job.json'']) = look h0 (D @ [''job.json''])) \<and> grows h0 h) (RunWorker W ops)
    (\<lambda>_. accounted W ops h0) (\<lambda>_. accounted W ops h0)"
proof -
  let ?X = "transaction_path ops" and ?A = "\<lambda>_ :: host_error option. accounted W ops h0" and ?J = "D @ [''job.json'']"
  let ?F = "\<lambda>h. untouched ops h0 h \<and> look h ?J = look h0 ?J"
  let ?P = "\<lambda>h. ?F h \<and> grows h0 h" and ?lock = "sibling ?X ''.lock''"
  note off = worker_placedD [OF place]
  have acc: "accounted W ops h0 h" if "?P h" for h using that by (auto intro: untouched_accounted)
  have mk: "triple ?P (MkdirAll D 448) (\<lambda>_. ?P) ?A"
  proof -
    have nr: "near {D} (MkdirAll D 448)" by (rule near_MkdirAll) (simp add: leads_def)
    have keep: "?F h'" if "?F h" "MkdirAll D 448 h = (r, h')" for h h' r
      using offD [OF off(1) nr that(2)] MkdirAll_below [OF that(2)] that(1) by simp
    have "triple ?F (MkdirAll D 448) (\<lambda>_. ?F) (\<lambda>_. ?F)" by (rule tripleI) (erule keep, assumption)+
    then show ?thesis by (rule triple_weaken [OF triple_grows [OF _ grows_calls(15)]]) (auto intro: untouched_accounted)
  qed
  have offF: "off {?lock} ?F" "off {} ?F"
    using apart_below [OF off(3)] by (simp_all add: off_conj [OF off(2) off_look] off_conj [OF off_untouched off_look])
  have quiet: "triple ?P c (\<lambda>_. ?P) ?A" if "near Ps c" "off Ps ?F" "obeys grows c" for Ps and c :: "'b hm"
    by (rule triple_weaken [OF triple_quiet [OF that]]) (use acc in auto)
  have lock: "triple ?P (MkdirAll (butlast ?X) 493) (\<lambda>_. ?P) ?A" "triple ?P (TryLock ?lock) (\<lambda>_. ?P) ?A"
  proof -
    have cov: "covers {?lock} ?lock" by (simp add: covers_def)
    have "near {?lock} (MkdirAll (butlast ?X) 493)" using near_MkdirAll [OF leads_intros(2) [OF cov]] by simp
    then show "triple ?P (MkdirAll (butlast ?X) 493) (\<lambda>_. ?P) ?A" by (rule quiet [OF _ offF(1) grows_calls(15)])
    show "triple ?P (TryLock ?lock) (\<lambda>_. ?P) ?A" by (rule quiet [OF near_entry(6) [OF cov] offF(1) grows_calls(19)])
  qed
  have look: "triple ?P (htry (Lstat D)) (\<lambda>_. ?P) ?A" by (rule quiet [OF near_htry [OF near_reading(1)] offF(2) log.obeys_htry [OF grows_calls(1)]])
  have check: "triple ?P (hensure b e) (\<lambda>_. ?P) ?A" for b e by (rule quiet [OF near_hensure offF(2) log.obeys_hensure])
  have recover: "triple ?P (recoverPendingUpdate (wc_tools W) (wo_Root ops) ?X (state_path ops)) (\<lambda>_. ?P) ?A"
    by (rule triple_weaken [OF triple_grows [OF recover_idle_triple [OF offF(2)] grows_recover]])
      (use acc in \<open>auto simp: untouched_def before_def\<close>)
  let ?cycle = "hbind (worker_job W ops D ?J) (\<lambda>job. case job of Inl _ \<Rightarrow> hret () | Inr journal \<Rightarrow> worker_execute W ops D ?J journal)"
  have cycle: "triple ?P ?cycle (\<lambda>_. accounted W ops h0) ?A"
    by (rule triple_weaken [OF worker_cycle_triple [OF off(1) idle]]) auto
  have run: "triple ?P (if \<not> b then hret () else hthen (recoverPendingUpdate (wc_tools W) (wo_Root ops) ?X (state_path ops)) ?cycle)
      (\<lambda>_. accounted W ops h0) ?A" for b
    using triple_then [OF recover cycle] acc by (auto intro!: triple_hret)
  have "triple ?P (hthen (MkdirAll D 448) (hbind (htry (Lstat D)) (\<lambda>info. hthen (hensure (c info) e)
      (hthen (MkdirAll (butlast ?X) 493) (hbind (TryLock ?lock) (\<lambda>b.
        if \<not> b then hret () else hthen (recoverPendingUpdate (wc_tools W) (wo_Root ops) ?X (state_path ops)) ?cycle)))))) (\<lambda>_. accounted W ops h0) ?A" for c e
    by (rule triple_then [OF mk triple_bind [OF look triple_then [OF check triple_then [OF lock(1) triple_bind [OF lock(2) run]]]]])
  then show ?thesis using acc unfolding RunWorker_def dir option.case Let_def by (auto intro!: triple_hfail)
qed


text \<open>A worker that polls and finds no job.\<close>

definition demo_codec :: worker_codec where
  "demo_codec = \<lparr>wc_tools = demo_tools, url_Parse = (\<lambda>_. Some \<lparr>url_Scheme = ''https'', url_Host = ''id'', url_User = False, url_RawQuery = [],
       url_Fragment = [], url_Path = []\<rparr>),
     json_workerJournal = (\<lambda>_. []), unjson_workerJournal = (\<lambda>_. None), unjson_RemoteJob = (\<lambda>_. None), json_string = id, unjson_string = Some\<rparr>"

definition demo_worker :: WorkerOptions where
  "demo_worker = \<lparr>wo_Server = ''https://id'', wo_ClientID = ''kiosk'', wo_PublicKeyFile = [''key''], wo_Directory = Some [''jobs''], wo_Root = [],
     wo_TransactionPath = Some [''pending''], wo_StatePath = Some [''state''], wo_HTTP = True\<rparr>"

lemma demo_worker_placed: "worker_placed demo_worker [''jobs'']"
  by (simp add: worker_placed_def well_placed_def transaction_path_def demo_worker_def sibling_def apart_def target_paths_def componentSpecs_def)

lemma demo_worker_run:
  "case RunWorker demo_codec demo_worker (demo_host (\<lambda>_. Works)) of (r, h) \<Rightarrow> r = Done () \<and>
     requests h = [(''https://id/api/v1/client/updates/poll'', None, Some 204)]"
  by (simp add: RunWorker_def demo_codec_def demo_worker_def demo_host_def valid_server_def transaction_path_def state_path_def worker_job_def worker_poll_def
      workerRequest_def worker_url_def TrimRight_slash_def recoverPendingUpdate_def ReadUpdateTransaction_def host_defs Post_def Let_def)


end
