(* ===== verification/Update_Catalog.thy ===== *)
theory Update_Catalog
  imports Client_Access Update_Signing Update_Authority
begin

text \<open>
  The catalog of approved releases that the server loads when it starts (\<^verbatim>\<open>catalog.go\<close> of
  \<^verbatim>\<open>internal/clientupdate\<close>) and what it means for the packages the client API hands out.
  The decoded list of approvals is what the JSON decoder, a parameter, makes of the file.
\<close>

section \<open>Loading the catalog\<close>

record approval =
  ap_ID :: string
  ap_SHA256 :: string

text \<open>\<^verbatim>\<open>io.ReadAll\<close> on an opened file.\<close>

definition read_opened :: "string option \<Rightarrow> string hm" where
  "read_opened c = Update_Host.call (\<lambda>h. (case c of None \<Rightarrow> Failed IOError | Some c \<Rightarrow> Done c, h)) id"

definition catalog_read :: "path \<Rightarrow> string hm" where
  "catalog_read p =
     hbind (Open p) (\<lambda>file.
     hbind (htry (read_opened file)) (\<lambda>r.
     hbind (htry Settle) (\<lambda>closed.
     case (r, closed) of
       (Inl e, _) \<Rightarrow> hfail e
     | (_, Inl e) \<Rightarrow> hfail e
     | (Inr data, _) \<Rightarrow> hret (take (download_limit + 1) data))))"

definition requires_maintenance :: "File list \<Rightarrow> bool" where
  "requires_maintenance fls = list_ex (\<lambda>f. case component_spec (f_Component f) of None \<Rightarrow> False | Some spec \<Rightarrow> spec_RestartLightDM spec) fls"

definition catalog_release :: "tools \<Rightarrow> string \<Rightarrow> approval \<Rightarrow> string \<Rightarrow> ApprovedRelease hm" where
  "catalog_release T publicKey a data =
     (let digest = hex_encode (sha256 data) in
      hthen (hensure (digest = ap_SHA256 a) (Message ''approved package digest mismatch''))
      (case VerifyPackageBytes T data publicKey ''linux-amd64'' [] of
         Inl _ \<Rightarrow> hfail (Message ''frozen package verification failed'')
       | Inr result \<Rightarrow>
           hthen (hensure (m_Channel (r_Manifest result) = ''stable'' \<and> length (m_ReleaseVersion (r_Manifest result)) \<le> 64)
                    (Message ''frozen package verification failed''))
           (hret \<lparr>ar_ID = ap_ID a, ar_SHA256 = digest, ar_ReleaseVersion = m_ReleaseVersion (r_Manifest result),
                  ar_RequiresMaintenance = requires_maintenance (m_Files (r_Manifest result)), ar_Package = data\<rparr>)))"

text \<open>The loop over the approvals, with the catalog so far and the bytes read so far.\<close>

fun load_approved :: "tools \<Rightarrow> path \<Rightarrow> string \<Rightarrow> (string \<times> ApprovedRelease) list \<Rightarrow> nat \<Rightarrow> approval list \<Rightarrow> (string \<times> ApprovedRelease) list hm" where
  "load_approved T directory publicKey catalog so_far [] = hret catalog"
| "load_approved T directory publicKey catalog so_far (a # approved) =
     (let p = directory @ [ap_ID a @ ''.zip''] in
      hthen (hensure (valid_id (ap_ID a) \<and> (case map_of catalog (ap_ID a) of None \<Rightarrow> True | Some known \<Rightarrow> ar_ID known = []) \<and>
                      length (ap_SHA256 a) = 64) (Message ''invalid release approval''))
      (hbind (htry (Lstat p)) (\<lambda>info.
       hthen (hensure (case info of Inr (Regular _ c) \<Rightarrow> length c \<le> download_limit | _ \<Rightarrow> False) (Message ''invalid approved package''))
       (hbind (catalog_read p) (\<lambda>data.
        hthen (hensure (so_far + length data \<le> 536870912) (Message ''catalog exceeds size limit''))
        (hbind (catalog_release T publicKey a data) (\<lambda>release.
         load_approved T directory publicKey ((ap_ID a, release) # catalog) (so_far + length data) approved)))))))"

definition LoadCatalog :: "tools \<Rightarrow> (string \<Rightarrow> approval list option) \<Rightarrow> path \<Rightarrow> path \<Rightarrow> (string \<times> ApprovedRelease) list hm" where
  "LoadCatalog T decode directory keyFile =
     hbind (LoadPublicKey keyFile) (\<lambda>publicKey.
     hbind (Open (directory @ [''approved.json''])) (\<lambda>f.
     deferred
       (hbind (htry (read_opened f)) (\<lambda>r.
        case (case r of Inl _ \<Rightarrow> None | Inr raw \<Rightarrow> decode (take 65537 raw)) of
          None \<Rightarrow> hfail (Message ''invalid release approvals'')
        | Some approved \<Rightarrow>
            hthen (hensure (length approved \<le> 16) (Message ''invalid release approvals''))
            (load_approved T directory publicKey [] 0 approved)))
       Settle))"

section \<open>What a loaded catalog holds\<close>

definition sound_release :: "tools \<Rightarrow> string \<Rightarrow> ApprovedRelease \<Rightarrow> bool" where
  "sound_release T publicKey v \<longleftrightarrow> hex_encode (sha256 (ar_Package v)) = ar_SHA256 v \<and>
     (\<exists>zs result. zip_NewReader T (ar_Package v) = Some zs \<and> verifyPackageEntries T zs publicKey ''linux-amd64'' [] = Inr result \<and>
        m_Channel (r_Manifest result) = ''stable'' \<and> m_ReleaseVersion (r_Manifest result) = ar_ReleaseVersion v \<and>
        requires_maintenance (m_Files (r_Manifest result)) = ar_RequiresMaintenance v)"

lemma catalog_release_sound:
  "catalog_release T publicKey a data h = (Done v, h') \<Longrightarrow> sound_release T publicKey v \<and> ar_ID v = ap_ID a \<and> ar_Package v = data"
  by (auto simp: catalog_release_def Let_def host_simps VerifyPackageBytes_def sound_release_def split: sum.splits if_splits option.splits)

lemma load_approved_sound:
  assumes "load_approved T directory publicKey catalog n approved h = (Done c, h')" "\<forall>(i, v) \<in> set catalog. sound_release T publicKey v \<and> ar_ID v = i"
  shows "\<forall>(i, v) \<in> set c. sound_release T publicKey v \<and> ar_ID v = i"
  using assms
proof (induction approved arbitrary: catalog n h)
  case (Cons a approved)
  from Cons.prems(1) obtain v data h1 h2 where v: "catalog_release T publicKey a data h1 = (Done v, h2)"
    and run: "load_approved T directory publicKey ((ap_ID a, v) # catalog) (n + length data) approved h2 = (Done c, h')"
    by (auto simp: Let_def host_simps)
  from Cons.IH [OF run] Cons.prems(2) catalog_release_sound [OF v] show ?case by auto
qed (simp add: host_simps)

lemma LoadCatalog_sound:
  assumes "LoadCatalog T decode directory keyFile h = (Done c, h')"
  obtains publicKey where "holds_key (look h) keyFile publicKey" "\<forall>(i, v) \<in> set c. sound_release T publicKey v \<and> ar_ID v = i"
proof -
  from assms obtain publicKey approved h1 h2 h3 where "LoadPublicKey keyFile h = (Done publicKey, h1)"
    and run: "load_approved T directory publicKey [] 0 approved h2 = (Done c, h3)"
    by (auto simp: LoadCatalog_def host_simps split: option.splits)
  from LoadPublicKey_key [OF this(1)] load_approved_sound [OF run] show thesis by (intro that) simp_all
qed

text \<open>
  C23: A package the server hands out is one it verified.  With a catalog that was loaded from disk, a
  download answers only for the job of the client whose active certificate made the request, and
  the bytes have the digest of the job and hold an archive that verifies with the configured key
  as the stable release the job names; a release that needs maintenance goes out only for a job
  that allows it.
\<close>

theorem served_package_verified:
  assumes "LoadCatalog T decode directory keyFile h = (Done c, h')" "env_updateCatalog env = Some c"
    "downloadClientUpdate env r s = (Json n data, s')" "ok_clients (tb (wd s))"
  shows "\<exists>client j publicKey zs result. device_authenticated env r client s \<and> j \<in> set (client_update_jobs (tb (wd s))) \<and>
    job_id j = rq_PathValue_id r \<and> job_client_id j = cli_client_id client \<and> hex_encode (sha256 data) = job_package_sha256 j \<and>
    holds_key (look h) keyFile publicKey \<and> zip_NewReader T data = Some zs \<and>
    verifyPackageEntries T zs publicKey ''linux-amd64'' [] = Inr result \<and> m_Channel (r_Manifest result) = ''stable'' \<and>
    m_ReleaseVersion (r_Manifest result) = job_release_version j \<and>
    (list_ex (\<lambda>f. \<exists>spec. component_spec (f_Component f) = Some spec \<and> spec_RestartLightDM spec) (m_Files (r_Manifest result)) \<longrightarrow> job_maintenance j)"
proof -
  from LoadCatalog_sound [OF assms(1)] obtain publicKey where publicKey: "holds_key (look h) keyFile publicKey"
    and sound: "\<forall>(i, v) \<in> set c. sound_release T publicKey v \<and> ar_ID v = i" .
  from package_only_for_open_job [OF assms(3,4)] obtain client j v where j: "device_authenticated env r client s"
    "j \<in> set (client_update_jobs (tb (wd s)))" "job_id j = rq_PathValue_id r" "job_client_id j = cli_client_id client"
    and v: "catalog_lookup env (job_release_id j) = Some v" "ar_SHA256 v = job_package_sha256 j"
      "ar_ReleaseVersion v = job_release_version j" "ar_RequiresMaintenance v \<longrightarrow> job_maintenance j" "data = ar_Package v" by blast
  from v(1) assms(2) sound have "sound_release T publicKey v" by (auto simp: catalog_lookup_def dest!: map_of_SomeD)
  then obtain zs result where "hex_encode (sha256 data) = job_package_sha256 j" "zip_NewReader T data = Some zs"
    "verifyPackageEntries T zs publicKey ''linux-amd64'' [] = Inr result" "m_Channel (r_Manifest result) = ''stable''"
    "m_ReleaseVersion (r_Manifest result) = job_release_version j" "requires_maintenance (m_Files (r_Manifest result)) \<longrightarrow> job_maintenance j"
    using v by (auto simp: sound_release_def)
  moreover have "requires_maintenance fls = list_ex (\<lambda>f. \<exists>spec. component_spec (f_Component f) = Some spec \<and> spec_RestartLightDM spec) fls" for fls
    by (auto simp: requires_maintenance_def list_ex_iff split: option.splits)
  ultimately show ?thesis using j publicKey by (intro exI conjI) simp_all
qed

section \<open>A catalog with one release\<close>

definition stocked_tools :: tools where
  "stocked_tools = sample_tools\<lparr>zip_NewReader := (\<lambda>_. Some sample_archive)\<rparr>"

definition stocked_id :: string where
  "stocked_id = ''release-1-14-0-stable''"

definition stocked_host :: host where
  "stocked_host = sample_host [([], Directory 493), ([''key''], Regular 420 (Std_encode (replicate 32 (CHR ''p'')))),
     ([''approved.json''], Regular 420 ''[]''), ([stocked_id @ ''.zip''], Regular 420 ''package'')]"

definition stocked_release :: ApprovedRelease where
  "stocked_release = \<lparr>ar_ID = stocked_id, ar_SHA256 = hex_encode (sha256 ''package''), ar_ReleaseVersion = ''1.14.0'',
     ar_RequiresMaintenance = False, ar_Package = ''package''\<rparr>"

definition stocked_approvals :: "string \<Rightarrow> approval list option" where
  "stocked_approvals _ = Some [\<lparr>ap_ID = stocked_id, ap_SHA256 = hex_encode (sha256 ''package'')\<rparr>]"

definition stocked_env :: "ApprovedRelease \<Rightarrow> string api_env" where
  "stocked_env v = demo_env\<lparr>env_updateCatalog := Some [(ar_ID v, v)]\<rparr>"

definition stocked_job :: "ApprovedRelease \<Rightarrow> ClientUpdateJob" where
  "stocked_job v = demo_job\<lparr>job_release_id := ar_ID v, job_release_version := ar_ReleaseVersion v, job_package_sha256 := ar_SHA256 v\<rparr>"

definition stocked_server :: "ApprovedRelease \<Rightarrow> srv" where
  "stocked_server v = demo_device_server\<lparr>wd := (wd demo_device_server)\<lparr>tb := (tb (wd demo_device_server))\<lparr>client_update_jobs := [stocked_job v]\<rparr>\<rparr>\<rparr>"

lemma stocked_verifies:
  "verifyPackageEntries stocked_tools sample_archive (replicate 32 (CHR ''p'')) ''linux-amd64'' [] =
     Inr \<lparr>r_Manifest = sample_manifest, r_Files = sort (map f_Component (m_Files sample_manifest))\<rparr>"
proof -
  have valid: "validateManifest stocked_tools sample_manifest ''linux-amd64'' [] = None"
    by (simp add: validateManifest_def sample_manifest_def sample_versions allowedComponents_def maxFileSize_def)
  have "verifyPackageEntries stocked_tools (map written_entry ([(''manifest.json'', ''{}''), (''manifest.sig'', Std_encode (replicate 64 (CHR ''s'')))] @
      map (\<lambda>(n, d). (payload_name n, d)) [(''sw-badge-pam-helper'', ''elf'')])) (replicate 32 (CHR ''p'')) ''linux-amd64'' [] =
      Inr \<lparr>r_Manifest = sample_manifest, r_Files = sort (map f_Component (m_Files sample_manifest))\<rparr>"
    by (rule verify_written [OF _ valid])
       (simp_all add: sample_laws sample_manifest_def maxManifestSize_def maxPackageSize_def sample_tools_def stocked_tools_def)
  then show ?thesis by (simp add: sample_archive_def)
qed

lemma stocked_facts: "validDeviceClientID ''ws-1''" "validPublicIdentifier ''ws-1''" "\<not> IsZero 0" "Unix 0 = 0" "0 < hour"
  "valid_id stocked_id" "stocked_id \<noteq> []" "\<exists>d. hex_decode (demo_hash (CHR ''b'')) = Some d"
  "spec_RestartLightDM (the (component_spec ''sw-badge-pam-helper'')) = False" "component_spec ''sw-badge-pam-helper'' \<noteq> None"
  by (code_simp, code_simp, code_simp, code_simp, code_simp, code_simp, code_simp, rule exI, code_simp, code_simp, code_simp)

lemma stocked_loads:
  "fst (LoadCatalog stocked_tools stocked_approvals [] [''key''] stocked_host) = Done [(stocked_id, stocked_release)]"
proof -
  have zip: "zip_NewReader stocked_tools data = Some sample_archive" for data by (simp add: stocked_tools_def)
  have maintenance: "\<not> requires_maintenance (m_Files sample_manifest)"
    using stocked_facts by (auto simp: requires_maintenance_def sample_manifest_def)
  have manifest: "m_Channel sample_manifest = ''stable''" "m_ReleaseVersion sample_manifest = ''1.14.0''"
    by (simp_all add: sample_manifest_def)
  have "stocked_id @ ''.zip'' \<noteq> ''key''" "stocked_id @ ''.zip'' \<noteq> ''approved.json''" by (simp_all add: stocked_id_def)
  with stocked_facts zip maintenance manifest stocked_verifies show ?thesis
    by (simp add: LoadCatalog_def LoadPublicKey_def stocked_approvals_def stocked_host_def sample_host_def stocked_release_def
        catalog_release_def catalog_read_def read_opened_def VerifyPackageBytes_def download_limit_def maxPackageSize_def host_defs Let_def)
qed

lemma stocked_download:
  assumes "\<not> ar_RequiresMaintenance v"
  shows "fst (downloadClientUpdate (stocked_env v) (demo_request (CHR ''b'')) (stocked_server v)) = Json 200 (ar_Package v)"
  using assms stocked_facts
  by (auto simp: downloadClientUpdate_def deviceJob_def updateDevice_def approvedJob_def catalog_lookup_def
      stocked_env_def stocked_server_def stocked_job_def demo_env_def demo_device_server_def calm_server_def calm_world_def
      demo_renewal_tables_def empty_tables_def insert_client_def FromTLS_def demo_VerifiedPeer_def demo_request_def Http.call_def
      reply_def with_now_def Let_def ClientByID_def query_row_def tick_def authenticateClientStatus_def
      ActiveClientDeviceCredential_def ClientUpdateJobByID_def run_defs attempt_def certificate_presented_def expectedURISAN_def
      clientURIPrefix_def demo_credential_def TrimPrefix_def HasPrefix_def demo_job_def max_int64_def ok_clients_def ConstantTimeCompare_iff)

theorem served_package_verified_witness:
  "\<exists>j \<in> set (client_update_jobs (tb (wd (stocked_server stocked_release)))). hex_encode (sha256 ''package'') = job_package_sha256 j"
proof -
  have env: "env_updateCatalog (stocked_env stocked_release) = Some [(stocked_id, stocked_release)]"
    by (simp add: stocked_env_def stocked_release_def)
  have out: "fst (downloadClientUpdate (stocked_env stocked_release) (demo_request (CHR ''b'')) (stocked_server stocked_release)) = Json 200 ''package''"
    using stocked_download [of stocked_release] by (simp add: stocked_release_def)
  have "ok_clients (tb (wd (stocked_server stocked_release)))"
    using demo_clients_ok by (simp add: stocked_server_def ok_clients_def)
  from served_package_verified [OF answered [OF stocked_loads] env answered [OF out] this] show ?thesis by blast
qed

end
