(* ===== verification/Spec2Isabelle.thy ===== *)
theory Spec2Isabelle
  imports Badge_Lifecycle Oidc_Runs Passkey_Access Client_Access Login_Runs Update_Catalog
begin

text \<open>
  Verification of the StumpfWorks identity server and its client updater.

  The program is a Go service (\<^verbatim>\<open>src/cmd/server\<close>) that lets people sign in to managed computers with
  a QR badge and a PIN, to the administration and self-service pages with directory passwords or
  passkeys, and to other applications through OpenID Connect; and a client side (\<^verbatim>\<open>src/cmd/client-*\<close>)
  that reports status, holds a device certificate and installs signed updates.  This root theory
  imports every other theory; the properties stand in the theories of the components they are
  about, each after a text block that starts with its number.

  The parts and the theories that model them.

  Shared vocabulary.  \<^verbatim>\<open>Prelude\<close> has the types for Go's types (times as integers of nanoseconds with
  the zero instant of Go, strings as lists of characters that stand for bytes, 64-bit sums and
  differences with their wrap-around) and the functions of \<^verbatim>\<open>strings\<close> and \<^verbatim>\<open>time\<close> in use; \<^verbatim>\<open>Encoding\<close>
  hexadecimal, base64 and decimal numbers with their round trips; \<^verbatim>\<open>Crypto\<close> SHA-256, HMAC and
  constant-time comparison, computed bit by bit on 32-bit words; \<^verbatim>\<open>Net\<close> and \<^verbatim>\<open>Times\<close> address parsing
  and the calendar.  \<^verbatim>\<open>Contracts\<close> has the interfaces: \<^verbatim>\<open>table_contract\<close> (an invariant of the tables
  and a relation between tables before and after, closed under the operations of the store monad,
  rollback included), \<^verbatim>\<open>lifecycle\<close> (a transition relation with a rank, and what is final stays
  final), \<^verbatim>\<open>limited_use\<close> and its extension \<^verbatim>\<open>single_use\<close> (an operation wins a token at most as often
  as it was made).  Each is interpreted on the tables and operations of the components; the locale
  \<^verbatim>\<open>attempt_limiter\<close> of \<^verbatim>\<open>Badge_Login\<close> is interpreted on both rate limiters.

  The store (\<^verbatim>\<open>src/internal/database\<close>, SQLite).  \<^verbatim>\<open>Sql\<close> is the relational state with its constraints
  and \<^verbatim>\<open>Db_Monad\<close> the state-and-error monad of its methods: every statement may fail with the
  database error of that step, a transaction restores the tables on error, random bytes and clock
  readings are arbitrary functions of the step.  \<^verbatim>\<open>Badge_Store\<close> (users, badges, audit log),
  \<^verbatim>\<open>Session_Store\<close> (self-service sessions and emergency grants), \<^verbatim>\<open>Device_Store\<close> (clients, enrolment
  tokens, device credentials), \<^verbatim>\<open>Job_Store\<close> (update jobs), \<^verbatim>\<open>Oidc_Store\<close> (subjects, clients, codes,
  sessions) and \<^verbatim>\<open>WebAuthn_Store\<close> (handles, ceremonies, passkeys) have one definition per method,
  named as in the source.  \<^verbatim>\<open>Badge_Lifecycle\<close> and \<^verbatim>\<open>Device_Lifecycle\<close> prove the invariants of the
  tables, the lifecycles and the at-most-once properties for every sequence of operations and
  every failure.

  Credentials (\<^verbatim>\<open>src/internal/badge\<close>, \<^verbatim>\<open>pin\<close>, \<^verbatim>\<open>auth\<close>).  \<^verbatim>\<open>Tokens\<close> models badge tokens and payloads, PIN
  hashes and signed session cookies; \<^verbatim>\<open>Permissions\<close> roles, permissions and the permission of a
  route; \<^verbatim>\<open>Versions\<close> the version comparison of the server and of the updater, proved equal to a
  linear order on canonical versions and to each other.

  The server (\<^verbatim>\<open>src/internal/server\<close>, \<^verbatim>\<open>src/internal/oidc\<close>).  \<^verbatim>\<open>Http\<close> has requests, responses, the process
  state behind the mutexes and the monad of the handlers; \<^verbatim>\<open>Directory\<close> the directory interface.
  \<^verbatim>\<open>Badge_Login\<close> (badge login, rate limiters, login grants, PKINIT certificates), \<^verbatim>\<open>Admin_Server\<close> (guard
  and administrative handlers), \<^verbatim>\<open>Self_Service\<close>, \<^verbatim>\<open>Client_Api\<close> (device identity, status, enrolment,
  update jobs), \<^verbatim>\<open>Oidc_Provider\<close> (authorization, token, introspection, revocation) and \<^verbatim>\<open>Passkeys\<close> (the
  adapter of \<^verbatim>\<open>src/internal/passkey\<close> and the passkey handlers) have one definition per handler.
  \<^verbatim>\<open>Login_Runs\<close>, \<^verbatim>\<open>Access_Rules\<close>, \<^verbatim>\<open>Client_Access\<close>, \<^verbatim>\<open>Passkey_Access\<close>, \<^verbatim>\<open>Oidc_Flow\<close> and \<^verbatim>\<open>Oidc_Runs\<close> compose them: runs of the server are lists of requests, and the properties speak about every run.

  The updater (\<^verbatim>\<open>src/internal/clientupdate\<close>).  \<^verbatim>\<open>Update_Host\<close> is a file tree with the calls of \<^verbatim>\<open>os\<close>
  in a monad where each call works, fails or is the last one before the process dies, a calculus of
  frames (which paths a program touches) and of triples with a postcondition for success, for
  errors and for death.  \<^verbatim>\<open>Update_Package\<close> models verification, packaging and staging of signed
  packages, \<^verbatim>\<open>Update_Install\<close> snapshots, the transaction marker, installation, rollback, recovery and
  acceptance.  \<^verbatim>\<open>Update_Signing\<close> proves soundness of the verifier and that a signed package verifies,
  \<^verbatim>\<open>Update_Snapshot\<close> that a snapshot records and restores the files, \<^verbatim>\<open>Update_Safety\<close> that every step of
  the installer keeps a recoverable state, \<^verbatim>\<open>Update_Atomic\<close> that installation and recovery together
  are all or nothing.  \<^verbatim>\<open>Update_Worker\<close> is the update worker: the journal with its phases prepared,
  executing, succeeded and failed, polling, download, the start request, installation and report.
  \<^verbatim>\<open>Update_Authority\<close> proves that a run changes managed files only with the permission of the server;
  its locale \<^verbatim>\<open>host_relation\<close> states what a relation between host states needs so that every program
  built from the calls keeps it, and is interpreted on the growth of the request and command log and
  on the frame of a set of paths.  \<^verbatim>\<open>Update_Catalog\<close> is the catalog of approved releases the server
  loads, and proves that the packages it hands out are verified ones.

  Modelling decisions.  The store uses one connection, so transactions do not interleave; handlers
  run to their response one at a time, which is what the mutexes give for the shared maps, and runs
  order them arbitrarily.  A request body arrives decoded, \<^verbatim>\<open>None\<close> where decoding fails.  Times in
  SQL compare as instants; \<^verbatim>\<open>ORDER BY\<close> ties follow insertion order; columns nothing reads are
  left out.  A panic is an outcome of its own.  Loops are recursion over the list the source ranges
  over, so every definition is total; a property that says an operation returns says so outright.
  There is no fuel and no bound on the length of runs.  Of the updater: paths are cleaned absolute
  lists of names; the death of the process keeps the effects of the calls before it, in order, so
  loss of power before data is flushed is not covered; commands that are run do not change the
  modelled files; texts of wrapped errors are kept only where something depends on them; the hooks
  that only tests set and nil runners are absent.

  Parameters.  Code that is not under \<^verbatim>\<open>src\<close> is an argument with its documented laws as hypotheses:
  Argon2id and bcrypt, X.509, TLS, PEM and ASN.1, the signature of ID tokens, \<^verbatim>\<open>net/url\<close>, the LDAP
  directory behind its interface, the QR encoder, the WebAuthn library, \<^verbatim>\<open>archive/zip\<close>, Ed25519, and the JSON codecs of the
  updater's files.

  Not modelled.  The PostgreSQL store (\<^verbatim>\<open>postgres*.go\<close>) repeats the methods of the SQLite store over
  another dialect and adds import and reconciliation that are SQL text run by the server; a model
  would need its isolation levels.  HTML pages, styles and the read-only list pages; the
  LDAP client; metrics;
  the lock of the Windows build;
  configuration, command-line programs and process start; the client programs for status,
  diagnostics and enrolment, which only gather data and call the API.
\<close>

end
